(* ===== verification/Prelude.thy ===== *)
theory Prelude
  imports Main
begin

text \<open>
  Shared vocabulary of the development: the exceptions of the Python sources as a datatype,
  results as a sum (\<open>exn + 'a\<close>), results of code that may not return as \<open>'a out\<close>, the
  operations of \<open>str\<close> the sources call, and the lemma collections the component theories use.
  Python 2 byte strings are HOL strings (\<open>char list\<close>).
\<close>

named_theorems result_simps \<open>rewrite rules that decide when a result is a value\<close>
named_theorems str_simps \<open>equations of the string operations\<close>

section \<open>Exceptions and results\<close>

datatype exn =
    KeyError
  | IndexError
  | ValueError string
  | TypeError
  | AttributeError
  | UnboundLocalError
  | StopIteration
  | AssertionError
  | LexingError nat nat string
  | ConnError string
  | NotImplementedError
  | PyException string

type_synonym 'a res = "exn + 'a"

definition ebind :: "'a res \<Rightarrow> ('a \<Rightarrow> 'b res) \<Rightarrow> 'b res" where
  "ebind m f = (case m of Inl e \<Rightarrow> Inl e | Inr x \<Rightarrow> f x)"

lemma ebind_simps [simp]:
  "ebind (Inl e) f = Inl e"
  "ebind (Inr x) f = f x"
  by (simp_all add: ebind_def)

lemma ebind_Inr_iff [result_simps]: "ebind m f = Inr y \<longleftrightarrow> (\<exists>x. m = Inr x \<and> f x = Inr y)"
  by (cases m) auto

lemma ebind_Inl_iff [result_simps]:
  "ebind m f = Inl e \<longleftrightarrow> m = Inl e \<or> (\<exists>x. m = Inr x \<and> f x = Inl e)"
  by (cases m) auto

lemma ebind_assoc: "ebind (ebind m f) g = ebind m (\<lambda>x. ebind (f x) g)"
  by (cases m) auto

lemma ebind_cong [fundef_cong]:
  "m = m' \<Longrightarrow> (\<And>x. m' = Inr x \<Longrightarrow> f x = f' x) \<Longrightarrow> ebind m f = ebind m' f'"
  by (cases m') auto

text \<open>\<open>map\<close> over a function that may raise: the first exception ends the traversal.\<close>

primrec emap :: "('a \<Rightarrow> 'b res) \<Rightarrow> 'a list \<Rightarrow> 'b list res" where
  "emap f [] = Inr []"
| "emap f (x # xs) = ebind (f x) (\<lambda>y. ebind (emap f xs) (\<lambda>ys. Inr (y # ys)))"

lemma emap_Inr_fun [simp]: "emap (\<lambda>x. Inr (f x)) xs = Inr (map f xs)"
  by (induction xs) auto

lemma emap_cong [fundef_cong]:
  "xs = ys \<Longrightarrow> (\<And>x. x \<in> set ys \<Longrightarrow> f x = g x) \<Longrightarrow> emap f xs = emap g ys"
  by (induction ys arbitrary: xs) (simp_all cong: ebind_cong)

lemma emap_length: "emap f xs = Inr ys \<Longrightarrow> length ys = length xs"
  by (induction xs arbitrary: ys) (auto simp: result_simps)

lemma emap_Inr_iff: "emap f xs = Inr ys \<longleftrightarrow> list_all2 (\<lambda>x y. f x = Inr y) xs ys"
  by (induction xs arbitrary: ys) (auto simp: result_simps list_all2_Cons1)

lemma emap_Inr_D: "emap f xs = Inr ys \<Longrightarrow> y \<in> set ys \<Longrightarrow> \<exists>x \<in> set xs. f x = Inr y"
  by (induction xs arbitrary: ys) (auto simp: result_simps)

text \<open>Indexing and dictionary lookup raise as in Python.\<close>

definition nth_res :: "'a list \<Rightarrow> nat \<Rightarrow> 'a res" where
  "nth_res xs i = (if i < length xs then Inr (xs ! i) else Inl IndexError)"

definition last_res :: "'a list \<Rightarrow> 'a res" where
  "last_res xs = (if xs = [] then Inl IndexError else Inr (last xs))"

definition key_res :: "('k \<rightharpoonup> 'v) \<Rightarrow> 'k \<Rightarrow> 'v res" where
  "key_res m k = (case m k of None \<Rightarrow> Inl KeyError | Some v \<Rightarrow> Inr v)"

section \<open>Code that may not return\<close>

text \<open>
  \<open>Diverge\<close> is "ran out of fuel"; every fuelled function comes with a theorem that says how much
  fuel is enough, so that \<open>Diverge\<close> is only left where the source does not return.
\<close>

datatype 'a out = Diverge | Raise exn | Ret 'a

definition obind :: "'a out \<Rightarrow> ('a \<Rightarrow> 'b out) \<Rightarrow> 'b out" where
  "obind m f = (case m of Diverge \<Rightarrow> Diverge | Raise e \<Rightarrow> Raise e | Ret x \<Rightarrow> f x)"

lemma obind_simps [simp]:
  "obind Diverge f = Diverge"
  "obind (Raise e) f = Raise e"
  "obind (Ret x) f = f x"
  by (simp_all add: obind_def)

lemma obind_Ret_iff [result_simps]: "obind m f = Ret y \<longleftrightarrow> (\<exists>x. m = Ret x \<and> f x = Ret y)"
  by (cases m) auto

lemma obind_Raise_iff [result_simps]:
  "obind m f = Raise e \<longleftrightarrow> m = Raise e \<or> (\<exists>x. m = Ret x \<and> f x = Raise e)"
  by (cases m) auto

lemma obind_Diverge_iff [result_simps]:
  "obind m f = Diverge \<longleftrightarrow> m = Diverge \<or> (\<exists>x. m = Ret x \<and> f x = Diverge)"
  by (cases m) auto

lemma obind_cong [fundef_cong]:
  "m = m' \<Longrightarrow> (\<And>x. m' = Ret x \<Longrightarrow> f x = f' x) \<Longrightarrow> obind m f = obind m' f'"
  by (cases m') auto

definition of_res :: "'a res \<Rightarrow> 'a out" where
  "of_res r = (case r of Inl e \<Rightarrow> Raise e | Inr x \<Rightarrow> Ret x)"

lemma of_res_simps [simp]:
  "of_res (Inl e) = Raise e"
  "of_res (Inr x) = Ret x"
  by (simp_all add: of_res_def)

lemma of_res_iff [result_simps]:
  "of_res r = Ret x \<longleftrightarrow> r = Inr x"
  "of_res r = Raise e \<longleftrightarrow> r = Inl e"
  "of_res r \<noteq> Diverge"
  by (cases r; simp)+

section \<open>Strings\<close>

definition code_point :: "char \<Rightarrow> nat" where
  "code_point c = of_char c"

definition is_upper :: "char \<Rightarrow> bool" where
  "is_upper c \<longleftrightarrow> 65 \<le> code_point c \<and> code_point c \<le> 90"

definition is_lower :: "char \<Rightarrow> bool" where
  "is_lower c \<longleftrightarrow> 97 \<le> code_point c \<and> code_point c \<le> 122"

definition is_digit :: "char \<Rightarrow> bool" where
  "is_digit c \<longleftrightarrow> 48 \<le> code_point c \<and> code_point c \<le> 57"

definition is_alnum :: "char \<Rightarrow> bool" where
  "is_alnum c \<longleftrightarrow> is_upper c \<or> is_lower c \<or> is_digit c"

definition is_space :: "char \<Rightarrow> bool" where
  "is_space c \<longleftrightarrow> code_point c = 32 \<or> 9 \<le> code_point c \<and> code_point c \<le> 13"

definition lower_char :: "char \<Rightarrow> char" where
  "lower_char c = (if is_upper c then char_of (code_point c + 32) else c)"

definition upper_char :: "char \<Rightarrow> char" where
  "upper_char c = (if is_lower c then char_of (code_point c - 32) else c)"

definition py_lower :: "string \<Rightarrow> string" where
  "py_lower s = map lower_char s"

definition py_upper :: "string \<Rightarrow> string" where
  "py_upper s = map upper_char s"

lemmas char_defs = code_point_def is_upper_def is_lower_def is_digit_def is_alnum_def
  is_space_def lower_char_def upper_char_def

lemma py_lower_simps [simp, str_simps]:
  "py_lower [] = []"
  "py_lower (c # s) = lower_char c # py_lower s"
  "py_lower (s @ t) = py_lower s @ py_lower t"
  "length (py_lower s) = length s"
  by (simp_all add: py_lower_def)

lemma py_upper_simps [simp, str_simps]:
  "py_upper [] = []"
  "py_upper (c # s) = upper_char c # py_upper s"
  by (simp_all add: py_upper_def)

lemma code_point_char_of [simp]: "n < 256 \<Longrightarrow> code_point (char_of n) = n"
  by (simp add: code_point_def)

lemma lower_char_idem [simp]: "lower_char (lower_char c) = lower_char c"
proof (cases "is_upper c")
  case True
  then have "code_point c + 32 < 256" and "90 < code_point c + 32"
    by (simp_all add: is_upper_def)
  then show ?thesis
    by (simp add: lower_char_def is_upper_def)
next
  case False
  then show ?thesis by (simp add: lower_char_def)
qed

lemma py_lower_idem [simp]: "py_lower (py_lower s) = py_lower s"
  by (simp add: py_lower_def)

definition startswith :: "string \<Rightarrow> string \<Rightarrow> bool" where
  "startswith s p \<longleftrightarrow> take (length p) s = p"

lemma startswith_append [simp]: "startswith (p @ s) p"
  by (simp add: startswith_def)

lemma startswith_iff: "startswith s p \<longleftrightarrow> (\<exists>t. s = p @ t)"
  by (metis append_take_drop_id startswith_append startswith_def)

text \<open>\<open>s.replace(old, new)\<close> for a non-empty \<open>old\<close>: leftmost, non-overlapping.\<close>

function str_replace :: "string \<Rightarrow> string \<Rightarrow> string \<Rightarrow> string" where
  "str_replace old new [] = []"
| "str_replace old new (c # cs) =
     (if old \<noteq> [] \<and> startswith (c # cs) old
      then new @ str_replace old new (drop (length old) (c # cs))
      else c # str_replace old new cs)"
  by pat_completeness auto
termination
proof (relation "measure (\<lambda>(old, new, s). length s)", goal_cases)
  case (2 old new c cs)
  then show ?case by (cases old) auto
qed auto

definition py_lstrip :: "string \<Rightarrow> string" where
  "py_lstrip s = dropWhile is_space s"

definition py_strip :: "string \<Rightarrow> string" where
  "py_strip s = rev (dropWhile is_space (rev (dropWhile is_space s)))"

text \<open>\<open>sep.join(parts)\<close>, \<open>s.split(c)\<close> for one character, and \<open>s.split()\<close>.\<close>

fun py_join :: "string \<Rightarrow> string list \<Rightarrow> string" where
  "py_join sep [] = []"
| "py_join sep [s] = s"
| "py_join sep (s # t # ts) = s @ sep @ py_join sep (t # ts)"

fun split_char :: "char \<Rightarrow> string \<Rightarrow> string list" where
  "split_char c [] = [[]]"
| "split_char c (x # xs) =
     (if x = c then [] # split_char c xs
      else (case split_char c xs of [] \<Rightarrow> [[x]] | p # ps \<Rightarrow> (x # p) # ps))"

lemma split_char_nonempty [simp]: "split_char c s \<noteq> []"
  by (induction s) (auto split: list.splits)

fun split_ws_aux :: "string \<Rightarrow> string \<Rightarrow> string list" where
  "split_ws_aux acc [] = (if acc = [] then [] else [rev acc])"
| "split_ws_aux acc (x # xs) =
     (if is_space x then (if acc = [] then [] else [rev acc]) @ split_ws_aux [] xs
      else split_ws_aux (x # acc) xs)"

definition split_ws :: "string \<Rightarrow> string list" where
  "split_ws s = split_ws_aux [] s"

text \<open>\<open>s[lo:hi]\<close> for non-negative bounds, and \<open>s[1:-1]\<close>.\<close>

definition slice :: "nat \<Rightarrow> nat \<Rightarrow> 'a list \<Rightarrow> 'a list" where
  "slice lo hi s = take (hi - lo) (drop lo s)"

definition inner :: "'a list \<Rightarrow> 'a list" where
  "inner s = butlast (drop 1 s)"

lemma slice_append:
  assumes "i \<le> j" and "j \<le> k"
  shows "slice i j s @ slice j k s = slice i k s"
proof -
  have "drop j s = drop (j - i) (drop i s)" using assms by simp
  then have "slice i j s @ slice j k s = take ((j - i) + (k - j)) (drop i s)"
    by (simp only: slice_def take_add)
  then show ?thesis using assms by (simp add: slice_def)
qed

lemma inner_wrap [simp]: "inner (a # s @ [b]) = s"
  by (simp add: inner_def)

text \<open>\<open>str(n)\<close> for a non-negative integer.\<close>

fun nat_str :: "nat \<Rightarrow> string" where
  "nat_str n = (if n < 10 then [char_of (48 + n)] else nat_str (n div 10) @ [char_of (48 + n mod 10)])"

declare nat_str.simps [simp del]

definition int_str :: "int \<Rightarrow> string" where
  "int_str i = (if i < 0 then ''-'' @ nat_str (nat (- i)) else nat_str (nat i))"

text \<open>\<open>int(s)\<close>: white space around, a sign, decimal digits.\<close>

definition digits_value :: "string \<Rightarrow> nat" where
  "digits_value ds = foldl (\<lambda>n c. 10 * n + (code_point c - 48)) 0 ds"

definition py_int :: "string \<Rightarrow> int res" where
  "py_int s =
     (let t = py_strip s;
          neg = startswith t ''-'';
          ds = (if neg \<or> startswith t ''+'' then drop 1 t else t)
      in if ds \<noteq> [] \<and> list_all is_digit ds
         then Inr (if neg then - int (digits_value ds) else int (digits_value ds))
         else Inl (ValueError ''invalid literal for int()''))"

lemma nat_str_digits: "list_all is_digit (nat_str n) \<and> nat_str n \<noteq> []"
proof (induction n rule: nat_str.induct)
  case (1 n)
  have "is_digit (char_of (48 + d))" if "d < 10" for d :: nat
    using that by (simp add: is_digit_def)
  then show ?case using 1 by (auto simp: nat_str.simps [of n])
qed

lemma digits_value_nat_str [simp]: "digits_value (nat_str n) = n"
proof (induction n rule: nat_str.induct)
  case (1 n)
  then show ?case by (auto simp: nat_str.simps [of n] digits_value_def)
qed

lemma digit_not_space: "is_digit c \<Longrightarrow> \<not> is_space c"
  by (auto simp: is_digit_def is_space_def)

lemma py_strip_id: "s = [] \<or> \<not> is_space (hd s) \<and> \<not> is_space (last s) \<Longrightarrow> py_strip s = s"
proof -
  assume s: "s = [] \<or> \<not> is_space (hd s) \<and> \<not> is_space (last s)"
  then have "dropWhile is_space s = s" "dropWhile is_space (rev s) = rev s"
    by (auto simp: dropWhile_eq_self_iff hd_rev)
  then show ?thesis by (simp add: py_strip_def)
qed

lemma nat_str_hd: "is_digit (hd (nat_str n))" and nat_str_last: "is_digit (last (nat_str n))"
  using nat_str_digits [of n] by (simp_all add: list_all_iff)

lemma py_int_nat_str [simp]: "py_int (nat_str n) = Inr (int n)"
proof -
  have "py_strip (nat_str n) = nat_str n"
    using nat_str_hd nat_str_last by (intro py_strip_id) (auto dest: digit_not_space)
  moreover have "\<not> startswith (nat_str n) ''-''" "\<not> startswith (nat_str n) ''+''"
    using nat_str_hd [of n] nat_str_digits [of n]
    by (cases "nat_str n"; force simp: startswith_def is_digit_def code_point_def)+
  ultimately show ?thesis
    using nat_str_digits [of n] by (simp add: py_int_def)
qed

text \<open>\<open>os.path.join(a, b)\<close>.\<close>

definition path_join :: "string \<Rightarrow> string \<Rightarrow> string" where
  "path_join a b =
     (if startswith b ''/'' then b
      else if a = [] \<or> last a = CHR ''/'' then a @ b
      else a @ ''/'' @ b)"

lemma split_char_append:
  "c \<notin> set s \<Longrightarrow> split_char c (s @ c # t) = s # split_char c t"
  by (induction s) auto

lemma split_char_single: "c \<notin> set s \<Longrightarrow> split_char c s = [s]"
  by (induction s) auto

text \<open>The two sorts of quoting characters the sources use.\<close>

abbreviation squote :: char where "squote \<equiv> CHR 0x27"
abbreviation dquote :: char where "dquote \<equiv> CHR 0x22"
abbreviation bslash :: char where "bslash \<equiv> CHR 0x5C"
abbreviation newline :: char where "newline \<equiv> CHR 0x0A"

section \<open>Sets as lists\<close>

text \<open>
  A Python \<open>set\<close> whose elements are only iterated or tested is a list without duplicates, in
  insertion order; the order Python iterates in is unspecified, and no theorem depends on it.
\<close>

definition set_add :: "'a \<Rightarrow> 'a list \<Rightarrow> 'a list" where
  "set_add x xs = (if x \<in> set xs then xs else xs @ [x])"

definition set_update :: "'a list \<Rightarrow> 'a list \<Rightarrow> 'a list" where
  "set_update xs ys = fold set_add ys xs"

lemma set_set_add [simp]: "set (set_add x xs) = insert x (set xs)"
  by (auto simp: set_add_def)

lemma distinct_set_add [simp]: "distinct xs \<Longrightarrow> distinct (set_add x xs)"
  by (simp add: set_add_def)

lemma set_set_update [simp]: "set (set_update xs ys) = set xs \<union> set ys"
  unfolding set_update_def by (induction ys arbitrary: xs) auto

lemma distinct_set_update [simp]: "distinct xs \<Longrightarrow> distinct (set_update xs ys)"
  unfolding set_update_def by (induction ys arbitrary: xs) auto

section \<open>Reachable states\<close>

text \<open>
  Objects whose methods change a state are step relations; \<open>reach\<close> holds of the states the methods can
  produce. The contract of an invariant is a locale, interpreted for every such object.
\<close>

inductive reach :: "('s \<Rightarrow> bool) \<Rightarrow> ('s \<Rightarrow> 's \<Rightarrow> bool) \<Rightarrow> 's \<Rightarrow> bool" for init step where
  reach_init: "init s \<Longrightarrow> reach init step s"
| reach_step: "reach init step s \<Longrightarrow> step s t \<Longrightarrow> reach init step t"

locale safe_machine =
  fixes init :: "'s \<Rightarrow> bool" and step :: "'s \<Rightarrow> 's \<Rightarrow> bool" and inv :: "'s \<Rightarrow> bool"
  assumes inv_init: "init s \<Longrightarrow> inv s"
    and inv_step: "step s t \<Longrightarrow> inv s \<Longrightarrow> inv t"
begin

lemma reach_inv: "reach init step s \<Longrightarrow> inv s"
  by (induction rule: reach.induct) (auto intro: inv_init inv_step)

end

end
