(* ===== verification/PyRegex.thy ===== *)
theory PyRegex
  imports Prelude
begin

text \<open>
  What the sources use of Python's \<open>re\<close> module (the language's standard library): the parsed form
  of a pattern as \<open>sre_parse\<close> builds it, a parser for the pattern syntax that occurs in the sources,
  and the backtracking search. \<open>ends ci s r i\<close> is the list of all positions where a match of \<open>r\<close>
  that starts at \<open>i\<close> can end, in the order the backtracking engine tries them, so its first element
  is the end of the match Python returns. \<open>ci\<close> is the flag \<open>re.I\<close>; \<open>re.S\<close> is always set.
\<close>

section \<open>Parsed patterns\<close>

datatype at_code = AtBeginning | AtEnd | AtBoundary

datatype item =
    Literal char
  | AnyChar
  | InSet bool "(char \<times> char) list"  \<comment> \<open>negated?, ranges\<close>
  | At at_code
  | Branch "item list list"
  | SubPattern "nat option" "item list"
  | MaxRepeat nat "nat option" "item list"
  | MinRepeat nat "nat option" "item list"
  | GroupRef nat
  | GroupRefIgnore nat
  | GroupRefExists nat "item list" "item list"

definition in_range :: "char \<Rightarrow> char \<times> char \<Rightarrow> bool" where
  "in_range c r \<longleftrightarrow> code_point (fst r) \<le> code_point c \<and> code_point c \<le> code_point (snd r)"

text \<open>
  With \<open>re.I\<close> the engine compares lower-case forms, so a range holds a letter when it holds either of
  its two cases.
\<close>

definition in_set_ci :: "bool \<Rightarrow> (char \<times> char) list \<Rightarrow> char \<Rightarrow> bool" where
  "in_set_ci ci rs c =
     (if ci then list_ex (\<lambda>r. in_range (lower_char c) r \<or> in_range (upper_char c) r) rs
      else list_ex (in_range c) rs)"

definition is_word_char :: "char \<Rightarrow> bool" where
  "is_word_char c \<longleftrightarrow> is_alnum c \<or> c = CHR ''_''"

definition word_at :: "string \<Rightarrow> nat \<Rightarrow> bool" where
  "word_at s i \<longleftrightarrow> i < length s \<and> is_word_char (s ! i)"

fun at_holds :: "string \<Rightarrow> at_code \<Rightarrow> nat \<Rightarrow> bool" where
  "at_holds s AtBeginning i = (i = 0)"
| "at_holds s AtEnd i = (i \<ge> length s \<or> Suc i = length s \<and> s ! i = newline)"
| "at_holds s AtBoundary i = ((0 < i \<and> word_at s (i - 1)) \<noteq> word_at s i)"

section \<open>Backtracking\<close>

text \<open>
  \<open>times_ends n f i\<close>: exactly \<open>n\<close> iterations of \<open>f\<close>. \<open>more_ends greedy f n i\<close>: up to \<open>n\<close> further
  iterations, longest first when greedy; an iteration that matches nothing is not repeated.
\<close>

primrec times_ends :: "nat \<Rightarrow> (nat \<Rightarrow> nat list) \<Rightarrow> nat \<Rightarrow> nat list" where
  "times_ends 0 f i = [i]"
| "times_ends (Suc n) f i = concat (map (times_ends n f) (f i))"

primrec more_ends :: "bool \<Rightarrow> (nat \<Rightarrow> nat list) \<Rightarrow> nat \<Rightarrow> nat \<Rightarrow> nat list" where
  "more_ends greedy f 0 i = [i]"
| "more_ends greedy f (Suc n) i =
     (let more = concat (map (more_ends greedy f n) (filter (\<lambda>j. i < j) (f i)))
      in if greedy then more @ [i] else i # more)"

definition repeat_ends :: "bool \<Rightarrow> string \<Rightarrow> nat \<Rightarrow> nat option \<Rightarrow> (nat \<Rightarrow> nat list) \<Rightarrow> nat \<Rightarrow> nat list" where
  "repeat_ends greedy s mn mx f i =
     concat (map (more_ends greedy f (case mx of None \<Rightarrow> length s | Some m \<Rightarrow> m - mn))
       (times_ends mn f i))"

definition one_char :: "string \<Rightarrow> (char \<Rightarrow> bool) \<Rightarrow> nat \<Rightarrow> nat list" where
  "one_char s p i = (if i < length s \<and> p (s ! i) then [Suc i] else [])"

text \<open>
  A back reference has no ends here: the patterns the program compiles hold none, and
  \<open>SaferScanner\<close> refuses those it sees.
\<close>

fun ends :: "bool \<Rightarrow> string \<Rightarrow> item \<Rightarrow> nat \<Rightarrow> nat list"
  and ends_seq :: "bool \<Rightarrow> string \<Rightarrow> item list \<Rightarrow> nat \<Rightarrow> nat list"
  and ends_alts :: "bool \<Rightarrow> string \<Rightarrow> item list list \<Rightarrow> nat \<Rightarrow> nat list" where
  "ends ci s (Literal c) i =
     one_char s (\<lambda>x. x = c \<or> ci \<and> lower_char x = lower_char c) i"
| "ends ci s AnyChar i = one_char s (\<lambda>x. True) i"
| "ends ci s (InSet neg rs) i = one_char s (\<lambda>x. in_set_ci ci rs x \<noteq> neg) i"
| "ends ci s (At a) i = (if at_holds s a i then [i] else [])"
| "ends ci s (Branch ps) i = ends_alts ci s ps i"
| "ends ci s (SubPattern g p) i = ends_seq ci s p i"
| "ends ci s (MaxRepeat mn mx p) i = repeat_ends True s mn mx (ends_seq ci s p) i"
| "ends ci s (MinRepeat mn mx p) i = repeat_ends False s mn mx (ends_seq ci s p) i"
| "ends ci s (GroupRef n) i = []"
| "ends ci s (GroupRefIgnore n) i = []"
| "ends ci s (GroupRefExists n y z) i = []"
| "ends_seq ci s [] i = [i]"
| "ends_seq ci s (r # rs) i = concat (map (ends_seq ci s rs) (ends ci s r i))"
| "ends_alts ci s [] i = []"
| "ends_alts ci s (p # ps) i = ends_seq ci s p i @ ends_alts ci s ps i"

text \<open>\<open>pattern.match(s)\<close> at position \<open>i\<close>: the end of the match, if there is one.\<close>

definition match_at :: "bool \<Rightarrow> item list \<Rightarrow> string \<Rightarrow> nat \<Rightarrow> nat option" where
  "match_at ci p s i = (case ends_seq ci s p i of [] \<Rightarrow> None | j # _ \<Rightarrow> Some j)"

section \<open>Ends lie between the start and the end of the text\<close>

definition ends_ok :: "string \<Rightarrow> (nat \<Rightarrow> nat list) \<Rightarrow> bool" where
  "ends_ok s f \<longleftrightarrow> (\<forall>i. \<forall>j \<in> set (f i). i \<le> j \<and> j \<le> max i (length s))"

lemma ends_okD: "ends_ok s f \<Longrightarrow> j \<in> set (f i) \<Longrightarrow> i \<le> j \<and> j \<le> max i (length s)"
  by (auto simp: ends_ok_def)

lemma ends_okI: "(\<And>i j. j \<in> set (f i) \<Longrightarrow> i \<le> j \<and> j \<le> max i (length s)) \<Longrightarrow> ends_ok s f"
  by (auto simp: ends_ok_def)

lemma ends_ok_bind:
  assumes "ends_ok s f" and "ends_ok s g"
  shows "ends_ok s (\<lambda>i. concat (map g (f i)))"
proof (rule ends_okI)
  fix i k
  assume "k \<in> set (concat (map g (f i)))"
  then obtain j where "j \<in> set (f i)" and "k \<in> set (g j)" by auto
  from ends_okD [OF assms(1) this(1)] ends_okD [OF assms(2) this(2)]
  show "i \<le> k \<and> k \<le> max i (length s)" by (auto simp: max_def split: if_splits)
qed

lemma ends_ok_times: "ends_ok s f \<Longrightarrow> ends_ok s (times_ends n f)"
proof (induction n)
  case (Suc n)
  then have "ends_ok s (\<lambda>i. concat (map (times_ends n f) (f i)))"
    by (intro ends_ok_bind) auto
  then show ?case by (simp add: ends_ok_def)
qed (simp add: ends_ok_def)

lemma ends_ok_more: "ends_ok s f \<Longrightarrow> ends_ok s (more_ends g f n)"
proof (induction n)
  case (Suc n)
  have "ends_ok s (\<lambda>i. filter (\<lambda>j. i < j) (f i))"
    using Suc.prems by (auto simp: ends_ok_def)
  then have more: "ends_ok s (\<lambda>i. concat (map (more_ends g f n) (filter (\<lambda>j. i < j) (f i))))"
    using Suc by (intro ends_ok_bind) auto
  show ?case
  proof (rule ends_okI)
    fix i j
    assume "j \<in> set (more_ends g f (Suc n) i)"
    then have "j = i \<or> j \<in> set (concat (map (more_ends g f n) (filter (\<lambda>j. i < j) (f i))))"
      by (auto simp: Let_def split: if_splits)
    then show "i \<le> j \<and> j \<le> max i (length s)"
      using ends_okD [OF more, of j i] by auto
  qed
qed (simp add: ends_ok_def)

lemma ends_ok_repeat: "ends_ok s f \<Longrightarrow> ends_ok s (repeat_ends g s mn mx f)"
  unfolding repeat_ends_def by (intro ends_ok_bind ends_ok_times ends_ok_more)

lemma ends_bounds:
  "\<forall>j \<in> set (ends ci s r i). i \<le> j \<and> j \<le> max i (length s)"
  "\<forall>j \<in> set (ends_seq ci s p i). i \<le> j \<and> j \<le> max i (length s)"
  "\<forall>j \<in> set (ends_alts ci s ps i). i \<le> j \<and> j \<le> max i (length s)"
proof (induction ci s r i and ci s p i and ci s ps i rule: ends_ends_seq_ends_alts.induct)
  case (7 ci s mn mx p i)
  then have "ends_ok s (ends_seq ci s p)" by (simp add: ends_ok_def)
  from ends_ok_repeat [OF this] show ?case by (simp add: ends_ok_def)
next
  case (8 ci s mn mx p i)
  then have "ends_ok s (ends_seq ci s p)" by (simp add: ends_ok_def)
  from ends_ok_repeat [OF this] show ?case by (simp add: ends_ok_def)
next
  case (13 ci s r rs i)
  show ?case
  proof
    fix k
    assume "k \<in> set (ends_seq ci s (r # rs) i)"
    then obtain j where j: "j \<in> set (ends ci s r i)" and k: "k \<in> set (ends_seq ci s rs j)" by auto
    have "i \<le> j \<and> j \<le> max i (length s)" using "13.IH"(1) j by blast
    moreover have "j \<le> k \<and> k \<le> max j (length s)" using "13.IH"(2) [OF j] k by blast
    ultimately show "i \<le> k \<and> k \<le> max i (length s)" by (auto simp: max_def split: if_splits)
  qed
qed (auto simp: one_char_def split: if_splits)

lemma match_at_bounds: "match_at ci p s i = Some j \<Longrightarrow> i \<le> j \<and> j \<le> max i (length s)"
  using ends_bounds(2) [of ci s p i] by (auto simp: match_at_def split: list.splits)

section \<open>Parsing a pattern\<close>

text \<open>
  The syntax that occurs in the sources: alternation, sequences, groups (\<open>(...)\<close>, \<open>(?:...)\<close>,
  \<open>(?P<name>...)\<close>), in-pattern flags \<open>(?i)\<close>, classes, escapes, and the quantifiers \<open>*\<close>, \<open>+\<close>, \<open>?\<close>,
  \<open>{m}\<close> with their non-greedy forms. The state counts the groups and collects the names and flags.
\<close>

record pstate =
  next_group :: nat
  group_names :: "string list"
  inline_flags :: string

definition escape_ranges :: "char \<Rightarrow> (char \<times> char) list" where
  "escape_ranges c =
     (if c = CHR ''n'' then [(CHR 0x0A, CHR 0x0A)]
      else if c = CHR ''t'' then [(CHR 0x09, CHR 0x09)]
      else if c = CHR ''r'' then [(CHR 0x0D, CHR 0x0D)]
      else if c = CHR ''f'' then [(CHR 0x0C, CHR 0x0C)]
      else if c = CHR ''v'' then [(CHR 0x0B, CHR 0x0B)]
      else if c = CHR ''s'' then [(CHR 0x20, CHR 0x20), (CHR 0x09, CHR 0x0D)]
      else if c = CHR ''d'' then [(CHR ''0'', CHR ''9'')]
      else [(c, c)])"

definition escape_item :: "char \<Rightarrow> item" where
  "escape_item c =
     (if c = CHR ''b'' then At AtBoundary
      else if is_digit c \<and> c \<noteq> CHR ''0'' then GroupRef (code_point c - 48)
      else (case escape_ranges c of
              [r] \<Rightarrow> if fst r = snd r then Literal (fst r) else InSet False [r]
            | rs \<Rightarrow> InSet False rs))"

fun class_char :: "string \<Rightarrow> ((char \<times> char) list \<times> string) option" where
  "class_char [] = None"
| "class_char (c # cs) =
     (if c = bslash then (case cs of [] \<Rightarrow> None | e # r \<Rightarrow> Some (escape_ranges e, r))
      else Some ([(c, c)], cs))"

fun class_items :: "nat \<Rightarrow> bool \<Rightarrow> string \<Rightarrow> ((char \<times> char) list \<times> string) option" where
  "class_items 0 first s = None"
| "class_items (Suc n) first s =
     (if s = [] then None
      else if hd s = CHR '']'' \<and> \<not> first then Some ([], tl s)
      else (case class_char s of
          None \<Rightarrow> None
        | Some (lo, r) \<Rightarrow>
            if 2 \<le> length r \<and> hd r = CHR ''-'' \<and> r ! 1 \<noteq> CHR '']'' then
              (case class_char (tl r) of
                 None \<Rightarrow> None
               | Some (hi, r2) \<Rightarrow>
                   map_option (\<lambda>(rs, t). ((fst (hd lo), snd (hd hi)) # rs, t)) (class_items n False r2))
            else map_option (\<lambda>(rs, t). (lo @ rs, t)) (class_items n False r)))"

definition class_item :: "string \<Rightarrow> (item \<times> string) option" where
  "class_item s =
     (if s \<noteq> [] \<and> hd s = CHR ''^''
      then map_option (\<lambda>(rs, t). (InSet True rs, t)) (class_items (length s) True (tl s))
      else map_option (\<lambda>(rs, t). (InSet False rs, t)) (class_items (Suc (length s)) True s))"

definition digits_nat :: "string \<Rightarrow> nat" where
  "digits_nat s = foldl (\<lambda>n c. 10 * n + (code_point c - 48)) 0 s"

definition quant_bounds :: "string \<Rightarrow> ((nat \<times> nat option) \<times> string) option" where
  "quant_bounds s =
     (if s = [] then None
      else if hd s = CHR ''*'' then Some ((0, None), tl s)
      else if hd s = CHR ''+'' then Some ((1, None), tl s)
      else if hd s = CHR ''?'' then Some ((0, Some 1), tl s)
      else if hd s = CHR ''{'' then
        (let ds = takeWhile is_digit (tl s); r = dropWhile is_digit (tl s) in
         if ds \<noteq> [] \<and> r \<noteq> [] \<and> hd r = CHR ''}''
         then Some ((digits_nat ds, Some (digits_nat ds)), tl r) else None)
      else None)"

definition p_quant :: "item \<Rightarrow> string \<Rightarrow> item \<times> string" where
  "p_quant it s =
     (case quant_bounds s of
        None \<Rightarrow> (it, s)
      | Some ((mn, mx), r) \<Rightarrow>
          if r \<noteq> [] \<and> hd r = CHR ''?'' then (MinRepeat mn mx [it], tl r)
          else (MaxRepeat mn mx [it], r))"

definition mk_branch :: "item list list \<Rightarrow> item list" where
  "mk_branch bs = (case bs of [b] \<Rightarrow> b | _ \<Rightarrow> [Branch bs])"

fun p_alts :: "nat \<Rightarrow> pstate \<Rightarrow> string \<Rightarrow> (item list list \<times> pstate \<times> string) option"
  and p_seq :: "nat \<Rightarrow> pstate \<Rightarrow> string \<Rightarrow> (item list \<times> pstate \<times> string) option"
  and p_atom :: "nat \<Rightarrow> pstate \<Rightarrow> string \<Rightarrow> (item list \<times> pstate \<times> string) option" where
  "p_alts 0 st s = None"
| "p_alts (Suc n) st s =
     (case p_seq n st s of
        None \<Rightarrow> None
      | Some (b, st1, r) \<Rightarrow>
          if r \<noteq> [] \<and> hd r = CHR ''|''
          then map_option (\<lambda>(bs, st2, t). (b # bs, st2, t)) (p_alts n st1 (tl r))
          else Some ([b], st1, r))"
| "p_seq 0 st s = None"
| "p_seq (Suc n) st s =
     (if s = [] \<or> hd s = CHR ''|'' \<or> hd s = CHR '')'' then Some ([], st, s)
      else (case p_atom n st s of
          None \<Rightarrow> None
        | Some (its, st1, r) \<Rightarrow> map_option (\<lambda>(rest, st2, t). (its @ rest, st2, t)) (p_seq n st1 r)))"
| "p_atom 0 st s = None"
| "p_atom (Suc n) st s =
     (let c = hd s; cs = tl s;
          group = (\<lambda>g st0 body. case p_alts n st0 body of
              None \<Rightarrow> None
            | Some (bs, st1, r) \<Rightarrow>
                if r \<noteq> [] \<and> hd r = CHR '')''
                then (let (it, t) = p_quant (SubPattern g (mk_branch bs)) (tl r) in Some ([it], st1, t))
                else None)
      in
      if c = CHR ''('' then
        (if startswith cs ''?:'' then group None st (drop 2 cs)
         else if startswith cs ''?P<'' then
           (let nm = takeWhile (\<lambda>x. x \<noteq> CHR ''>'') (drop 3 cs) in
            group (Some (next_group st))
              (st\<lparr>next_group := Suc (next_group st), group_names := nm # group_names st\<rparr>)
              (drop (4 + length nm) cs))
         else if startswith cs ''?i)'' then
           Some ([], st\<lparr>inline_flags := CHR ''i'' # inline_flags st\<rparr>, drop 3 cs)
         else if startswith cs ''?m)'' then
           Some ([], st\<lparr>inline_flags := CHR ''m'' # inline_flags st\<rparr>, drop 3 cs)
         else group (Some (next_group st)) (st\<lparr>next_group := Suc (next_group st)\<rparr>) cs)
      else if c = CHR ''['' then
        (case class_item cs of
           None \<Rightarrow> None
         | Some (it, r) \<Rightarrow> (let (it2, t) = p_quant it r in Some ([it2], st, t)))
      else if c = bslash then
        (if cs = [] then None
         else (let (it, t) = p_quant (escape_item (hd cs)) (tl cs) in Some ([it], st, t)))
      else
        (let base = (if c = CHR ''.'' then AnyChar
                     else if c = CHR ''$'' then At AtEnd
                     else if c = CHR ''^'' then At AtBeginning
                     else Literal c);
             (it, t) = p_quant base cs
         in Some ([it], st, t)))"

record parsed =
  pdata :: "item list"
  pnames :: "string list"
  pflags :: string

definition parse_pattern :: "string \<Rightarrow> parsed option" where
  "parse_pattern s =
     (case p_alts (4 * length s + 4) \<lparr>next_group = 1, group_names = [], inline_flags = []\<rparr> s of
        Some (bs, st, []) \<Rightarrow>
          Some \<lparr>pdata = mk_branch bs, pnames = group_names st, pflags = inline_flags st\<rparr>
      | _ \<Rightarrow> None)"

text \<open>\<open>re.escape\<close>: a backslash before everything but letters and digits.\<close>

definition re_escape :: "string \<Rightarrow> string" where
  "re_escape s = concat (map (\<lambda>c. if is_alnum c then [c] else [bslash, c]) s)"

end
