(* ===== verification/SaferScanner.thy ===== *)
theory SaferScanner
  imports PyRegex
begin

text \<open>
  \<open>cqlshlib/saferscanner.py\<close>: a lexer made of a list of patterns with actions. \<open>scrub_sub\<close> removes
  the group numbers of a pattern and refuses group references, named groups and in-pattern flags;
  \<open>scan\<close> is \<open>re.Scanner.scan\<close>, the longest run of matches from the start of a text.
\<close>

section \<open>Scrubbing a pattern\<close>

text \<open>
  \<open>scrub_item\<close> is one turn of the loop of \<open>scrub_sub\<close>: the sub-patterns among the operator's
  arguments are scrubbed first. The alternatives of a \<open>BRANCH\<close> are a plain list inside the argument,
  not sub-patterns, so the source leaves them as they are.
\<close>

definition group_refs_msg :: string where
  "group_refs_msg = ''Group references not allowed in SaferScanner lexicon''"

fun scrub_item :: "item \<Rightarrow> item res" and scrub_seq :: "item list \<Rightarrow> item list res" where
  "scrub_item (SubPattern g p) = ebind (scrub_seq p) (\<lambda>q. Inr (SubPattern None q))"
| "scrub_item (MaxRepeat mn mx p) = ebind (scrub_seq p) (\<lambda>q. Inr (MaxRepeat mn mx q))"
| "scrub_item (MinRepeat mn mx p) = ebind (scrub_seq p) (\<lambda>q. Inr (MinRepeat mn mx q))"
| "scrub_item (Branch ps) = Inr (Branch ps)"
| "scrub_item (GroupRef n) = Inl (ValueError group_refs_msg)"
| "scrub_item (GroupRefIgnore n) = Inl (ValueError group_refs_msg)"
| "scrub_item (GroupRefExists n y z) =
     ebind (scrub_seq y) (\<lambda>_. ebind (scrub_seq z) (\<lambda>_. Inl (ValueError group_refs_msg)))"
| "scrub_item (Literal c) = Inr (Literal c)"
| "scrub_item AnyChar = Inr AnyChar"
| "scrub_item (InSet n rs) = Inr (InSet n rs)"
| "scrub_item (At a) = Inr (At a)"
| "scrub_seq [] = Inr []"
| "scrub_seq (x # xs) = ebind (scrub_item x) (\<lambda>y. ebind (scrub_seq xs) (\<lambda>ys. Inr (y # ys)))"

text \<open>
  Names and flags belong to the whole pattern, so checking them once after the loop is the same as
  checking them after each nested loop.
\<close>

definition subpat :: "string \<Rightarrow> string \<Rightarrow> item list res" where
  "subpat phrase flags =
     (case parse_pattern phrase of
        None \<Rightarrow> Inl (ValueError ''bad pattern'')
      | Some sub \<Rightarrow> ebind (scrub_seq (pdata sub)) (\<lambda>p.
          if pnames sub \<noteq> [] then
            Inl (ValueError ''Named captures not allowed in SaferScanner lexicon'')
          else if list_ex (\<lambda>f. f \<notin> set flags) (pflags sub) then
            Inl (ValueError ''RE flag setting not allowed in SaferScanner lexicon'')
          else Inr p))"

section \<open>The scanner\<close>

text \<open>
  A compiled lexicon pairs each scrubbed pattern with its action; \<open>None\<close> skips the text. The
  constructor wraps phrase \<open>k\<close> in group \<open>k + 1\<close>.
\<close>

type_synonym 'a lexicon = "(item list \<times> 'a option) list"

fun compile_lexicon :: "nat \<Rightarrow> (string \<times> 'a option) list \<Rightarrow> string \<Rightarrow> 'a lexicon res" where
  "compile_lexicon k [] flags = Inr []"
| "compile_lexicon k ((phrase, action) # rest) flags =
     ebind (subpat phrase flags) (\<lambda>p.
       ebind (compile_lexicon (Suc k) rest flags) (\<lambda>lx. Inr (([SubPattern (Some k) p], action) # lx)))"

definition safer_scanner :: "(string \<times> 'a option) list \<Rightarrow> string \<Rightarrow> 'a lexicon res" where
  "safer_scanner lexicon flags = compile_lexicon 1 lexicon flags"

text \<open>The alternative that matches first, in the order of the lexicon.\<close>

fun first_match :: "bool \<Rightarrow> 'a lexicon \<Rightarrow> string \<Rightarrow> nat \<Rightarrow> ('a option \<times> nat) option" where
  "first_match ci [] s i = None"
| "first_match ci ((p, a) # lx) s i =
     (case match_at ci p s i of Some j \<Rightarrow> Some (a, j) | None \<Rightarrow> first_match ci lx s i)"

lemma first_match_bounds:
  "first_match ci lx s i = Some (a, j) \<Longrightarrow> i \<le> j \<and> j \<le> max i (length s)"
  by (induction lx) (auto dest: match_at_bounds split: option.splits)

text \<open>A lexeme is its action, its text and its span.\<close>

type_synonym 'a lexeme = "'a option \<times> string \<times> (nat \<times> nat)"

function scan_from :: "bool \<Rightarrow> 'a lexicon \<Rightarrow> string \<Rightarrow> nat \<Rightarrow> 'a lexeme list \<times> string" where
  "scan_from ci lx s i =
     (case first_match ci lx s i of
        None \<Rightarrow> ([], drop i s)
      | Some (a, j) \<Rightarrow>
          if i = j then ([], drop i s)
          else (let (ts, rest) = scan_from ci lx s j in ((a, slice i j s, (i, j)) # ts, rest)))"
  by pat_completeness auto
termination
proof (relation "measure (\<lambda>(ci, lx, s, i). length s - i)", goal_cases)
  case (2 ci lx s i p a j)
  then have "first_match ci lx s i = Some (a, j)" by simp
  from first_match_bounds [OF this] 2 show ?case by auto
qed simp

declare scan_from.simps [simp del]

definition lex_all :: "bool \<Rightarrow> 'a lexicon \<Rightarrow> string \<Rightarrow> 'a lexeme list \<times> string" where
  "lex_all ci lx s = scan_from ci lx s 0"

definition keep_lexemes :: "'a lexeme list \<Rightarrow> ('a \<times> string \<times> (nat \<times> nat)) list" where
  "keep_lexemes ts = map (\<lambda>(a, r). (the a, r)) (filter (\<lambda>(a, r). a \<noteq> None) ts)"

definition scan :: "bool \<Rightarrow> 'a lexicon \<Rightarrow> string \<Rightarrow> ('a \<times> string \<times> (nat \<times> nat)) list \<times> string" where
  "scan ci lx s = (let (ts, rest) = lex_all ci lx s in (keep_lexemes ts, rest))"

section \<open>What a scan returns\<close>

text \<open>
  The lexemes are consecutive: each starts where the one before ended, is not empty, and its text is
  what its span cuts out of the source.
\<close>

fun consecutive :: "string \<Rightarrow> nat \<Rightarrow> 'a lexeme list \<Rightarrow> nat \<Rightarrow> bool" where
  "consecutive s i [] k = (i = k)"
| "consecutive s i ((a, t, (lo, hi)) # ts) k =
     (lo = i \<and> i < hi \<and> hi \<le> length s \<and> t = slice lo hi s \<and> consecutive s hi ts k)"

lemma scan_from_consecutive:
  "scan_from ci lx s i = (ts, rest) \<Longrightarrow> i \<le> length s \<Longrightarrow>
   \<exists>k. i \<le> k \<and> k \<le> length s \<and> consecutive s i ts k \<and> rest = drop k s"
proof (induction ci lx s i arbitrary: ts rest rule: scan_from.induct)
  case (1 ci lx s i)
  show ?case
  proof (cases "first_match ci lx s i")
    case None
    with "1.prems" show ?thesis by (auto simp: scan_from.simps [of ci lx s i])
  next
    case (Some aj)
    obtain a j where aj: "aj = (a, j)" by (cases aj)
    show ?thesis
    proof (cases "i = j")
      case True
      have "ts = [] \<and> rest = drop i s"
        using "1.prems"(1) Some aj True by (subst (asm) scan_from.simps) simp
      with "1.prems"(2) show ?thesis by auto
    next
      case False
      obtain ts' rest' where rec: "scan_from ci lx s j = (ts', rest')"
        by (cases "scan_from ci lx s j")
      have eq: "ts = (a, slice i j s, (i, j)) # ts'" "rest = rest'"
        using "1.prems"(1) Some aj False rec by (simp_all add: scan_from.simps [of ci lx s i])
      have ij: "i < j" "j \<le> length s"
        using first_match_bounds [of ci lx s i a j] Some aj False "1.prems"(2) by auto
      from "1.IH" [OF Some aj [symmetric] False rec ij(2)] obtain k where
        "j \<le> k" "k \<le> length s" "consecutive s j ts' k" "rest' = drop k s" by blast
      with eq ij show ?thesis by (intro exI [of _ k]) auto
    qed
  qed
qed

lemma consecutive_concat:
  "consecutive s i ts k \<Longrightarrow> concat (map (\<lambda>(a, t, sp). t) ts) = slice i k s \<and> i \<le> k"
proof (induction s i ts k rule: consecutive.induct)
  case (2 s i a t lo hi ts k)
  then have *: "concat (map (\<lambda>(a, t, sp). t) ts) = slice hi k s" "hi \<le> k" "lo = i" "i < hi" "hi \<le> length s"
    "t = slice i hi s" by auto
  then have "slice i hi s @ slice hi k s = slice i k s"
    by (intro slice_append) auto
  with * show ?case by simp
qed (simp add: slice_def)

end
