(* ===== verification/Matcher.thy ===== *)
theory Matcher
  imports SaferScanner
begin

text \<open>
  \<open>cqlshlib/pylexotron.py\<close>, first part: the parse context and the matchers, whose \<open>match\<close> methods
  return every context a production can lead to, and collect what could come next when the tokens
  have run out. The rules and the registered completers (the two sorts of keys of the Python dict
  \<open>ruleset\<close>) are the two fields of \<open>env\<close>.
\<close>

section \<open>Tokens, hints and bindings\<close>

type_synonym token = "string \<times> string \<times> (nat \<times> nat)"

abbreviation tok_type :: "token \<Rightarrow> string" where "tok_type t \<equiv> fst t"
abbreviation tok_text :: "token \<Rightarrow> string" where "tok_text t \<equiv> fst (snd t)"
abbreviation tok_lo :: "token \<Rightarrow> nat" where "tok_lo t \<equiv> fst (snd (snd t))"
abbreviation tok_hi :: "token \<Rightarrow> nat" where "tok_hi t \<equiv> snd (snd (snd t))"

text \<open>
  A completion is a string or a \<open>Hint\<close>; hints are equal when their texts are. One completer returns the
  rows of an option table as they are, pairs of a name and a name or \<open>None\<close>.
\<close>

datatype citem = CStr string | CHint string | CPair string "string option"

fun is_hint :: "citem \<Rightarrow> bool" where
  "is_hint (CHint t) = True"
| "is_hint (CStr s) = False"
| "is_hint (CPair s t) = False"

text \<open>
  The values bound in a context: a string (\<open>named_symbol\<close>), a tuple of strings (\<open>named_collector\<close>),
  and what the callers put there (\<open>None\<close>, a flag, the connection).
\<close>

datatype bindval = BStr string | BTup "string list" | BNone | BFlag bool | BConn

record ctxt =
  bindings :: "string \<rightharpoonup> bindval"
  matched :: "token list"
  remainder :: "token list"
  productionname :: string

definition get_binding :: "ctxt \<Rightarrow> string \<Rightarrow> bindval \<Rightarrow> bindval" where
  "get_binding c name dflt = (case bindings c name of None \<Rightarrow> dflt | Some v \<Rightarrow> v)"

definition with_binding :: "ctxt \<Rightarrow> string \<Rightarrow> bindval \<Rightarrow> ctxt" where
  "with_binding c name val = c\<lparr>bindings := (bindings c)(name \<mapsto> val)\<rparr>"

definition with_match :: "ctxt \<Rightarrow> nat \<Rightarrow> ctxt" where
  "with_match c num =
     c\<lparr>matched := matched c @ take num (remainder c), remainder := drop num (remainder c)\<rparr>"

definition with_production_named :: "ctxt \<Rightarrow> string \<Rightarrow> ctxt" where
  "with_production_named c newname = c\<lparr>productionname := newname\<rparr>"

definition extract_orig :: "ctxt \<Rightarrow> token list \<Rightarrow> string" where
  "extract_orig c tokens =
     (if tokens = [] then []
      else (case get_binding c ''*SRC*'' BNone of
              BStr orig \<Rightarrow> slice (tok_lo (hd tokens)) (tok_hi (last tokens)) orig
            | _ \<Rightarrow> py_join '' '' (map tok_text tokens)))"

lemmas ctxt_defs = with_binding_def with_match_def with_production_named_def

section \<open>Matchers\<close>

text \<open>
  One constructor per class. The terminal classes carry the text \<open>eval\<close> gave for the literal.
  \<open>RawToken\<close> is a token that \<open>read_rule_tokens_until\<close> leaves in a rule as it is (\<open>JUNK\<close> inside a rule).
\<close>

datatype matcher =
    Choice "matcher list"
  | OneOrNone matcher
  | Repeat matcher
  | RuleReference string
  | RuleSeries "matcher list"
  | NamedSymbol string matcher
  | NamedCollector string matcher
  | RegexRule string
  | TextMatch string
  | CaseMatch string
  | WordMatch string
  | CaseWordMatch string
  | TerminalType string matcher
  | RawToken string

text \<open>
  What a completer returns is passed to \<open>set.update\<close>: a list (or tuple, or set) of completions, a
  string, which \<open>update\<close> takes apart into characters, or something \<open>update\<close> cannot iterate.
\<close>

datatype pyval = PList "citem list" | PStr string | PHint string | PNone

type_synonym completer = "ctxt \<Rightarrow> pyval res"

record env =
  ruleset :: "string \<rightharpoonup> matcher"
  completers :: "string \<times> string \<rightharpoonup> completer"

type_synonym compls = "citem list option"

fun update_compls :: "citem list \<Rightarrow> pyval \<Rightarrow> citem list res" where
  "update_compls cs (PList xs) = Inr (set_update cs xs)"
| "update_compls cs (PStr s) = Inr (set_update cs (map (\<lambda>ch. CStr [ch]) s))"
| "update_compls cs (PHint t) = Inl TypeError"
| "update_compls cs PNone = Inl TypeError"

text \<open>
  \<open>try_registered_completion\<close>: whether a completer took over, and the completions after it. Whatever
  the completer raises is swallowed; what \<open>completions.update\<close> raises is not. The debugging prints are
  left out.
\<close>

definition try_registered_completion ::
  "env \<Rightarrow> ctxt \<Rightarrow> string \<Rightarrow> compls \<Rightarrow> (bool \<times> compls) res" where
  "try_registered_completion e c symname compl =
     (if remainder c \<noteq> [] then Inr (False, compl)
      else (case compl of
          None \<Rightarrow> Inr (False, compl)
        | Some cs \<Rightarrow>
            (case completers e (productionname c, symname) of
               None \<Rightarrow> Inr (False, compl)
             | Some completer \<Rightarrow>
                 (case completer c of
                    Inl _ \<Rightarrow> Inr (False, compl)
                  | Inr new_compls \<Rightarrow>
                      ebind (update_compls cs new_compls) (\<lambda>cs'. Inr (True, Some cs'))))))"

text \<open>The patterns of the terminal classes, as the lexer compiles them.\<close>

definition ignorecaseify :: "char \<Rightarrow> string" where
  "ignorecaseify c =
     (if is_upper c \<or> is_lower c then [CHR ''['', upper_char c, lower_char c, CHR '']''] else [c])"

definition text_pattern :: "string \<Rightarrow> string" where
  "text_pattern arg = concat (map ignorecaseify (re_escape arg))"

definition word_boundary :: string where
  "word_boundary = [bslash, CHR ''b'']"

fun terminal_pattern :: "matcher \<Rightarrow> string option" where
  "terminal_pattern (RegexRule pat) = Some pat"
| "terminal_pattern (TextMatch t) = Some (text_pattern t)"
| "terminal_pattern (CaseMatch t) = Some (re_escape t)"
| "terminal_pattern (WordMatch t) = Some (word_boundary @ text_pattern t @ word_boundary)"
| "terminal_pattern (CaseWordMatch t) = Some (word_boundary @ re_escape t @ word_boundary)"
| "terminal_pattern m = None"

definition is_terminal :: "matcher \<Rightarrow> bool" where
  "is_terminal m \<longleftrightarrow> terminal_pattern m \<noteq> None"

text \<open>\<open>re.compile(pat + '$', re.I | re.S).match(text)\<close>.\<close>

definition regex_accepts :: "string \<Rightarrow> string \<Rightarrow> bool" where
  "regex_accepts pat txt =
     (case parse_pattern (pat @ ''$'') of
        None \<Rightarrow> False
      | Some p \<Rightarrow> match_at True (pdata p) txt 0 \<noteq> None)"

text \<open>The token test of each terminal, and what it adds to the completions when there is no token.\<close>

fun accepts :: "matcher \<Rightarrow> token \<Rightarrow> bool" where
  "accepts (RegexRule pat) t = regex_accepts pat (tok_text t)"
| "accepts (TextMatch a) t = (py_lower a = py_lower (tok_text t))"
| "accepts (WordMatch a) t = (py_lower a = py_lower (tok_text t))"
| "accepts (CaseMatch a) t = (a = tok_text t)"
| "accepts (CaseWordMatch a) t = (a = tok_text t)"
| "accepts (TerminalType ty m) t = (tok_type t = ty)"
| "accepts m t = False"

definition add_compl :: "citem \<Rightarrow> compls \<Rightarrow> compls" where
  "add_compl x compl = map_option (set_add x) compl"

definition rule_hint :: "ctxt \<Rightarrow> citem" where
  "rule_hint c = CHint (''<'' @ productionname c @ ''>'')"

fun literal_offer :: "matcher \<Rightarrow> ctxt \<Rightarrow> citem" where
  "literal_offer (TextMatch a) c = CStr a"
| "literal_offer (WordMatch a) c = CStr a"
| "literal_offer (CaseMatch a) c = CStr a"
| "literal_offer (CaseWordMatch a) c = CStr a"
| "literal_offer m c = rule_hint c"

section \<open>The match methods\<close>

text \<open>
  \<open>each f xs s\<close> runs \<open>f\<close> on the elements in order, threading the completions, and appends the results:
  the inner loop of \<open>choice\<close>, \<open>repeat\<close> and \<open>rule_series\<close>.
\<close>

primrec each :: "('a \<Rightarrow> 's \<Rightarrow> ('b list \<times> 's) out) \<Rightarrow> 'a list \<Rightarrow> 's \<Rightarrow> ('b list \<times> 's) out" where
  "each f [] s = Ret ([], s)"
| "each f (x # xs) s =
     obind (f x s) (\<lambda>(ys, s1). obind (each f xs s1) (\<lambda>(zs, s2). Ret (ys @ zs, s2)))"

primrec repeat_loop ::
  "nat \<Rightarrow> ('c \<Rightarrow> 's \<Rightarrow> ('c list \<times> 's) out) \<Rightarrow> 'c list \<Rightarrow> 'c list \<Rightarrow> 's \<Rightarrow> ('c list \<times> 's) out" where
  "repeat_loop 0 f found ctxts s = Diverge"
| "repeat_loop (Suc k) f found ctxts s =
     obind (each f ctxts s) (\<lambda>(new_ctxts, s1).
       if new_ctxts = [] then Ret (found, s1)
       else repeat_loop k f (found @ new_ctxts) new_ctxts s1)"

primrec series_loop ::
  "('m \<Rightarrow> 'c \<Rightarrow> 's \<Rightarrow> ('c list \<times> 's) out) \<Rightarrow> 'm list \<Rightarrow> 'c list \<Rightarrow> 's \<Rightarrow> ('c list \<times> 's) out" where
  "series_loop f [] ctxts s = Ret (ctxts, s)"
| "series_loop f (patpiece # rest) ctxts s =
     obind (each (f patpiece) ctxts s) (\<lambda>(new_ctxts, s1).
       if new_ctxts = [] then Ret ([], s1) else series_loop f rest new_ctxts s1)"

text \<open>\<open>match_with_results\<close>: the tokens a match added.\<close>

definition new_tokens :: "ctxt \<Rightarrow> ctxt \<Rightarrow> token list" where
  "new_tokens c d = drop (length (matched c)) (matched d)"

definition bind_symbol :: "ctxt \<Rightarrow> string \<Rightarrow> ctxt \<Rightarrow> ctxt" where
  "bind_symbol c name d = with_binding d name (BStr (extract_orig c (new_tokens c d)))"

text \<open>
  \<open>oldval + (text,)\<close>: a \<open>TypeError\<close> when the name is already bound to something that is not a tuple.
  The loop variable \<open>ctxt\<close> of the source shadows the argument, so the text is extracted with the
  bindings of the new context.
\<close>

definition bind_collected :: "ctxt \<Rightarrow> string \<Rightarrow> ctxt \<Rightarrow> ctxt res" where
  "bind_collected c name d =
     (case get_binding d name (BTup []) of
        BTup oldval \<Rightarrow> Inr (with_binding d name (BTup (oldval @ [extract_orig d (new_tokens c d)])))
      | _ \<Rightarrow> Inl TypeError)"

text \<open>
  A call of \<open>match\<close> spends one unit of fuel. When a registered completer took over, the argument
  collects into a set that is thrown away.
\<close>

primrec mtch :: "nat \<Rightarrow> env \<Rightarrow> matcher \<Rightarrow> ctxt \<Rightarrow> compls \<Rightarrow> (ctxt list \<times> compls) out" where
  "mtch 0 e m c compl = Diverge"
| "mtch (Suc n) e m c compl =
     (case m of
        Choice ms \<Rightarrow> each (\<lambda>a s. mtch n e a c s) ms compl
      | OneOrNone a \<Rightarrow> obind (mtch n e a c compl) (\<lambda>(xs, s). Ret (c # xs, s))
      | Repeat a \<Rightarrow> repeat_loop n (mtch n e a) [c] [c] compl
      | RuleReference x \<Rightarrow>
          (case ruleset e x of
             None \<Rightarrow> Raise (ValueError (''no production rule named '' @ x))
           | Some rule \<Rightarrow>
               obind (mtch n e rule (with_production_named c x) compl) (\<lambda>(xs, s).
                 Ret (map (\<lambda>d. with_production_named d (productionname c)) xs, s)))
      | RuleSeries ms \<Rightarrow> series_loop (mtch n e) ms [c] compl
      | NamedSymbol name a \<Rightarrow>
          obind (of_res (try_registered_completion e c name compl)) (\<lambda>(taken, s).
            obind (mtch n e a c (if taken then Some [] else s)) (\<lambda>(xs, s').
              Ret (map (bind_symbol c name) xs, if taken then s else s')))
      | NamedCollector name a \<Rightarrow>
          obind (of_res (try_registered_completion e c name compl)) (\<lambda>(taken, s).
            obind (mtch n e a c (if taken then Some [] else s)) (\<lambda>(xs, s').
              obind (of_res (emap (bind_collected c name) xs)) (\<lambda>ys.
                Ret (ys, if taken then s else s'))))
      | TerminalType ty sub \<Rightarrow>
          if remainder c \<noteq> [] then
            Ret (if accepts m (hd (remainder c)) then [with_match c 1] else [], compl)
          else if compl \<noteq> None then
            obind (mtch n e sub c compl) (\<lambda>(xs, s). Ret ([], s))
          else Ret ([], compl)
      | RawToken t \<Rightarrow> Raise AttributeError
      | _ \<Rightarrow>
          if remainder c \<noteq> [] then
            Ret (if accepts m (hd (remainder c)) then [with_match c 1] else [], compl)
          else Ret ([], add_compl (literal_offer m c) compl))"

declare mtch.simps(2) [simp del]

text \<open>The same equation, one per class.\<close>

lemma mtch_simps:
  "mtch (Suc n) e (Choice ms) c s = each (\<lambda>a s. mtch n e a c s) ms s"
  "mtch (Suc n) e (OneOrNone a) c s = obind (mtch n e a c s) (\<lambda>(xs, s). Ret (c # xs, s))"
  "mtch (Suc n) e (Repeat a) c s = repeat_loop n (mtch n e a) [c] [c] s"
  "mtch (Suc n) e (RuleReference x) c s =
     (case ruleset e x of
        None \<Rightarrow> Raise (ValueError (''no production rule named '' @ x))
      | Some rule \<Rightarrow>
          obind (mtch n e rule (with_production_named c x) s) (\<lambda>(xs, s).
            Ret (map (\<lambda>d. with_production_named d (productionname c)) xs, s)))"
  "mtch (Suc n) e (RuleSeries ms) c s = series_loop (mtch n e) ms [c] s"
  "mtch (Suc n) e (NamedSymbol name a) c s =
     obind (of_res (try_registered_completion e c name s)) (\<lambda>(taken, s).
       obind (mtch n e a c (if taken then Some [] else s)) (\<lambda>(xs, s').
         Ret (map (bind_symbol c name) xs, if taken then s else s')))"
  "mtch (Suc n) e (NamedCollector name a) c s =
     obind (of_res (try_registered_completion e c name s)) (\<lambda>(taken, s).
       obind (mtch n e a c (if taken then Some [] else s)) (\<lambda>(xs, s').
         obind (of_res (emap (bind_collected c name) xs)) (\<lambda>ys.
           Ret (ys, if taken then s else s'))))"
  "mtch (Suc n) e (TerminalType ty sub) c s =
     (if remainder c \<noteq> [] then
        Ret (if tok_type (hd (remainder c)) = ty then [with_match c 1] else [], s)
      else if s \<noteq> None then obind (mtch n e sub c s) (\<lambda>(xs, s). Ret ([], s))
      else Ret ([], s))"
  "mtch (Suc n) e (RawToken t) c s = Raise AttributeError"
  by (simp_all add: mtch.simps(2))

definition literal :: "matcher \<Rightarrow> bool" where
  "literal m \<longleftrightarrow> (case m of RegexRule _ \<Rightarrow> True | TextMatch _ \<Rightarrow> True | CaseMatch _ \<Rightarrow> True
     | WordMatch _ \<Rightarrow> True | CaseWordMatch _ \<Rightarrow> True | _ \<Rightarrow> False)"

lemma mtch_literal:
  "literal m \<Longrightarrow> mtch (Suc n) e m c s =
     (if remainder c \<noteq> [] then
        Ret (if accepts m (hd (remainder c)) then [with_match c 1] else [], s)
      else Ret ([], add_compl (literal_offer m c) s))"
  by (cases m) (simp_all add: mtch.simps(2) literal_def)

lemma matcher_cases:
  obtains (literal) "literal m"
  | (choice) ms where "m = Choice ms"
  | (opt) a where "m = OneOrNone a"
  | (repeat) a where "m = Repeat a"
  | (ref) x where "m = RuleReference x"
  | (series) ms where "m = RuleSeries ms"
  | (symbol) x a where "m = NamedSymbol x a"
  | (collector) x a where "m = NamedCollector x a"
  | (token) ty a where "m = TerminalType ty a"
  | (raw) t where "m = RawToken t"
  by (cases m) (auto simp: literal_def)

end
