(* ===== verification/Matching.thy ===== *)
theory Matching
  imports Matcher
begin

text \<open>
  What \<open>match\<close> does: more fuel never changes an outcome; a match only moves tokens from the remainder
  to the matched part and restores the production name; collecting completions does not change which
  contexts match.
\<close>

section \<open>Fuel\<close>

text \<open>\<open>below r r'\<close>: \<open>r'\<close> is the same outcome, or \<open>r\<close> ran out of fuel.\<close>

definition below :: "'a out \<Rightarrow> 'a out \<Rightarrow> bool" where
  "below r r' \<longleftrightarrow> r = Diverge \<or> r' = r"

named_theorems below_intros \<open>monotonicity in the fuel\<close>

lemma below_refl [simp, below_intros]: "below r r"
  by (simp add: below_def)

lemma below_Diverge [simp]: "below Diverge r"
  by (simp add: below_def)

lemma below_trans: "below a b \<Longrightarrow> below b c \<Longrightarrow> below a c"
  by (auto simp: below_def)

lemma belowD: "below r r' \<Longrightarrow> r \<noteq> Diverge \<Longrightarrow> r' = r"
  by (auto simp: below_def)

lemma below_obind [below_intros]:
  "below m m' \<Longrightarrow> (\<And>x. below (f x) (f' x)) \<Longrightarrow> below (obind m f) (obind m' f')"
  by (cases m) (auto simp: below_def)

lemma below_split [below_intros]:
  "(\<And>x y. below (f x y) (f' x y)) \<Longrightarrow> below (case p of (x, y) \<Rightarrow> f x y) (case p of (x, y) \<Rightarrow> f' x y)"
  by (cases p) simp

lemma below_if [below_intros]:
  "below a a' \<Longrightarrow> below b b' \<Longrightarrow> below (if P then a else b) (if P then a' else b')"
  by simp

lemma below_option [below_intros]:
  "below a a' \<Longrightarrow> (\<And>x. below (f x) (f' x)) \<Longrightarrow>
   below (case p of None \<Rightarrow> a | Some x \<Rightarrow> f x) (case p of None \<Rightarrow> a' | Some x \<Rightarrow> f' x)"
  by (cases p) simp_all

lemma below_each [below_intros]:
  "(\<And>x s. below (f x s) (g x s)) \<Longrightarrow> below (each f xs s) (each g xs s)"
proof (induction xs arbitrary: s)
  case (Cons x xs)
  then show ?case by (auto intro!: below_intros)
qed simp

lemma below_repeat:
  "k \<le> k' \<Longrightarrow> (\<And>x s. below (f x s) (g x s)) \<Longrightarrow>
   below (repeat_loop k f found cs s) (repeat_loop k' g found cs s)"
proof (induction k arbitrary: k' found cs s)
  case (Suc k)
  then obtain k'' where "k' = Suc k''" "k \<le> k''" by (cases k') auto
  with Suc show ?case by (auto intro!: below_intros)
qed simp

lemma below_series [below_intros]:
  "(\<And>m x s. below (f m x s) (g m x s)) \<Longrightarrow> below (series_loop f ms cs s) (series_loop g ms cs s)"
proof (induction ms arbitrary: cs s)
  case (Cons m ms)
  then show ?case by (auto intro!: below_intros)
qed simp

lemma mtch_below_Suc: "below (mtch n e m c s) (mtch (Suc n) e m c s)"
proof (induction n arbitrary: m c s)
  case (Suc n)
  show ?case
  proof (cases m rule: matcher_cases)
    case literal
    then show ?thesis by (simp add: mtch_literal)
  next
    case (repeat a)
    show ?thesis unfolding repeat mtch_simps by (rule below_repeat) (use Suc in auto)
  qed (simp_all only: mtch_simps, (intro below_intros Suc)+)
qed simp

lemma mtch_below: "n \<le> n' \<Longrightarrow> below (mtch n e m c s) (mtch n' e m c s)"
proof (induction n' rule: nat_induct_at_least)
  case (Suc n')
  then show ?case using mtch_below_Suc below_trans by blast
qed simp

lemma mtch_mono: "mtch n e m c s = r \<Longrightarrow> r \<noteq> Diverge \<Longrightarrow> n \<le> n' \<Longrightarrow> mtch n' e m c s = r"
  using mtch_below [of n n' e m c s] by (auto dest: belowD)

text \<open>So the outcome does not depend on how much fuel was enough.\<close>

lemma mtch_unique:
  "mtch n e m c s = r \<Longrightarrow> r \<noteq> Diverge \<Longrightarrow> mtch n' e m c s = r' \<Longrightarrow> r' \<noteq> Diverge \<Longrightarrow> r = r'"
  using mtch_mono [of n e m c s r n'] mtch_mono [of n' e m c s r' n] by (cases n n' rule: le_cases) auto

section \<open>Reasoning about the loops\<close>

text \<open>
  A property of the pairs (context before, context after) that is reflexive and transitive and holds
  for one step holds for the loops.
\<close>

lemma each_Ret_induct:
  assumes "each f xs s = Ret (ys, s')" and "y \<in> set ys"
  shows "\<exists>x s1 zs s2. x \<in> set xs \<and> f x s1 = Ret (zs, s2) \<and> y \<in> set zs"
  using assms
proof (induction xs arbitrary: s ys s')
  case (Cons x xs)
  from Cons.prems(1) obtain zs s1 zs' s2 where
    f: "f x s = Ret (zs, s1)" and rec: "each f xs s1 = Ret (zs', s2)" and "ys = zs @ zs'"
    by (auto simp: result_simps)
  with Cons.prems(2) consider "y \<in> set zs" | "y \<in> set zs'" by auto
  then show ?case
  proof cases
    case 1 with f show ?thesis by (meson list.set_intros(1))
  next
    case 2
    from Cons.IH [OF rec 2] show ?thesis by (meson list.set_intros(2))
  qed
qed simp

locale step_relation =
  fixes R :: "'c \<Rightarrow> 'c \<Rightarrow> bool"
  assumes R_refl: "R c c"
    and R_trans: "R a b \<Longrightarrow> R b c \<Longrightarrow> R a c"
begin

definition incl :: "('c \<Rightarrow> 's \<Rightarrow> ('c list \<times> 's) out) \<Rightarrow> bool" where
  "incl f \<longleftrightarrow> (\<forall>c s xs s' d. f c s = Ret (xs, s') \<longrightarrow> d \<in> set xs \<longrightarrow> R c d)"

lemma inclD: "incl f \<Longrightarrow> f c s = Ret (xs, s') \<Longrightarrow> d \<in> set xs \<Longrightarrow> R c d"
  by (auto simp: incl_def)

lemma each_rel:
  "incl f \<Longrightarrow> \<forall>c \<in> set cs. R c0 c \<Longrightarrow> each f cs s = Ret (ys, s') \<Longrightarrow> d \<in> set ys \<Longrightarrow> R c0 d"
  by (drule (1) each_Ret_induct) (blast intro: R_trans dest: inclD)

lemma repeat_rel:
  "incl f \<Longrightarrow> \<forall>c \<in> set cs. R c0 c \<Longrightarrow> \<forall>c \<in> set found. R c0 c \<Longrightarrow>
   repeat_loop k f found cs s = Ret (ys, s') \<Longrightarrow> d \<in> set ys \<Longrightarrow> R c0 d"
proof (induction k arbitrary: found cs s)
  case (Suc k)
  from Suc.prems(4) obtain new s1 where new: "each f cs s = Ret (new, s1)"
    and rest: "(if new = [] then Ret (found, s1) else repeat_loop k f (found @ new) new s1) = Ret (ys, s')"
    by (auto simp: result_simps)
  have all: "\<forall>c \<in> set new. R c0 c"
    using each_rel [OF Suc.prems(1,2) new] by blast
  show ?case
  proof (cases "new = []")
    case True
    with rest Suc.prems show ?thesis by auto
  next
    case False
    with rest have "repeat_loop k f (found @ new) new s1 = Ret (ys, s')" by simp
    from Suc.IH [OF Suc.prems(1) all _ this Suc.prems(5)] all Suc.prems(3) show ?thesis by auto
  qed
qed simp

lemma series_rel:
  "(\<And>m. m \<in> set ms \<Longrightarrow> incl (f m)) \<Longrightarrow> \<forall>c \<in> set cs. R c0 c \<Longrightarrow>
   series_loop f ms cs s = Ret (ys, s') \<Longrightarrow> d \<in> set ys \<Longrightarrow> R c0 d"
proof (induction ms arbitrary: cs s)
  case (Cons m ms)
  from Cons.prems(3) obtain new s1 where new: "each (f m) cs s = Ret (new, s1)"
    and rest: "(if new = [] then Ret ([], s1) else series_loop f ms new s1) = Ret (ys, s')"
    by (auto simp: result_simps)
  have all: "\<forall>c \<in> set new. R c0 c"
    using each_rel [OF _ Cons.prems(2) new] Cons.prems(1) by auto
  from rest Cons.prems(4) have "series_loop f ms new s1 = Ret (ys, s')"
    by (auto split: if_splits)
  then show ?case using Cons.IH [OF _ all _ Cons.prems(4)] Cons.prems(1) by auto
qed auto

end

section \<open>A match moves tokens from the remainder to the matched part\<close>

definition advances :: "ctxt \<Rightarrow> ctxt \<Rightarrow> bool" where
  "advances c d \<longleftrightarrow> (\<exists>ts. matched d = matched c @ ts \<and> remainder c = ts @ remainder d) \<and>
     productionname d = productionname c"

interpretation adv: step_relation advances
  by unfold_locales (auto simp: advances_def)

lemma advances_with_match: "remainder c \<noteq> [] \<Longrightarrow> advances c (with_match c (Suc 0))"
  by (cases "remainder c") (auto simp: advances_def with_match_def)

lemma advances_with_binding [simp]: "advances c (with_binding d x v) = advances c d"
  by (simp add: advances_def with_binding_def)

lemma emap_collected:
  "emap (bind_collected c x) xs = Inr ys \<Longrightarrow> d \<in> set ys \<Longrightarrow> \<exists>d0 \<in> set xs. \<exists>v. d = with_binding d0 x v"
  by (induction xs arbitrary: ys)
    (auto simp: result_simps bind_collected_def split: bindval.splits)

lemma mtch_advances: "mtch n e m c s = Ret (xs, s') \<Longrightarrow> d \<in> set xs \<Longrightarrow> advances c d"
proof (induction n arbitrary: m c s xs s' d)
  case (Suc n)
  have resp: "adv.incl (mtch n e a)" for a
    unfolding adv.incl_def using Suc.IH by blast
  show ?case
  proof (cases m rule: matcher_cases)
    case literal
    with Suc.prems show ?thesis
      by (auto simp: mtch_literal advances_with_match split: if_splits)
  next
    case (choice ms)
    with Suc.prems obtain a s1 zs s2 where "mtch n e a c s1 = Ret (zs, s2)" "d \<in> set zs"
      using each_Ret_induct [of "\<lambda>a s. mtch n e a c s" ms s xs s' d] by (auto simp: mtch_simps)
    then show ?thesis by (rule Suc.IH)
  next
    case (opt a)
    with Suc.prems show ?thesis
      by (auto simp: mtch_simps result_simps adv.R_refl dest: Suc.IH)
  next
    case (repeat a)
    with Suc.prems show ?thesis
      using adv.repeat_rel [OF resp, of "[c]" c "[c]" n a s xs s' d] adv.R_refl by (simp add: mtch_simps)
  next
    case (ref x)
    with Suc.prems obtain rule d' zs s1 where "mtch n e rule (with_production_named c x) s = Ret (zs, s1)"
      "d' \<in> set zs" "d = with_production_named d' (productionname c)"
      by (auto simp: mtch_simps result_simps split: option.splits)
    then show ?thesis
      using Suc.IH [of rule "with_production_named c x" s zs s1 d']
      by (simp add: advances_def with_production_named_def)
  next
    case (series ms)
    with Suc.prems show ?thesis
      using adv.series_rel [of ms "mtch n e" "[c]" c s xs s' d] resp adv.R_refl by (simp add: mtch_simps)
  next
    case (symbol x a)
    with Suc.prems show ?thesis
      by (auto simp: mtch_simps result_simps bind_symbol_def) (blast intro: Suc.IH)
  next
    case (collector x a)
    with Suc.prems obtain zs s1 s2 d0 v where "mtch n e a c s1 = Ret (zs, s2)" "d0 \<in> set zs" "d = with_binding d0 x v"
      by (auto simp: mtch_simps result_simps dest: emap_collected)
    then show ?thesis using Suc.IH by auto
  next
    case (token ty a)
    with Suc.prems show ?thesis
      by (auto simp: mtch_simps result_simps advances_with_match split: if_splits)
  next
    case (raw t)
    with Suc.prems show ?thesis by (simp add: mtch_simps)
  qed
qed simp

section \<open>Collecting completions does not change what matches\<close>

definition indep :: "('x \<Rightarrow> compls \<Rightarrow> ('y list \<times> compls) out) \<Rightarrow> bool" where
  "indep f \<longleftrightarrow> (\<forall>x cs ys s'. f x (Some cs) = Ret (ys, s') \<longrightarrow>
     (\<exists>cs'. s' = Some cs') \<and> f x None = Ret (ys, None))"

lemma indepD: "indep f \<Longrightarrow> f x (Some cs) = Ret (ys, s') \<Longrightarrow> (\<exists>cs'. s' = Some cs') \<and> f x None = Ret (ys, None)"
  by (auto simp: indep_def)

lemma indep_each:
  "indep f \<Longrightarrow> each f xs (Some cs) = Ret (ys, s') \<Longrightarrow>
   (\<exists>cs'. s' = Some cs') \<and> each f xs None = Ret (ys, None)"
proof (induction xs arbitrary: cs ys s')
  case (Cons x xs)
  from Cons.prems(2) obtain zs s1 zs' where f: "f x (Some cs) = Ret (zs, s1)"
    and rec: "each f xs s1 = Ret (zs', s')" and ys: "ys = zs @ zs'"
    by (auto simp: result_simps)
  from indepD [OF Cons.prems(1) f] obtain cs1 where "s1 = Some cs1" and fN: "f x None = Ret (zs, None)"
    by blast
  with Cons.IH [OF Cons.prems(1)] rec have "\<exists>cs'. s' = Some cs'" "each f xs None = Ret (zs', None)"
    by auto
  with fN ys show ?case by simp
qed simp

lemma indep_repeat:
  "indep f \<Longrightarrow> repeat_loop k f found xs (Some cs) = Ret (ys, s') \<Longrightarrow>
   (\<exists>cs'. s' = Some cs') \<and> repeat_loop k f found xs None = Ret (ys, None)"
proof (induction k arbitrary: found xs cs)
  case (Suc k)
  from Suc.prems(2) obtain new s1 where new: "each f xs (Some cs) = Ret (new, s1)"
    and rest: "(if new = [] then Ret (found, s1) else repeat_loop k f (found @ new) new s1) = Ret (ys, s')"
    by (auto simp: result_simps)
  from indep_each [OF Suc.prems(1) new] obtain cs1 where s1: "s1 = Some cs1"
    and newN: "each f xs None = Ret (new, None)" by blast
  show ?case
  proof (cases "new = []")
    case True
    with rest s1 newN show ?thesis by auto
  next
    case False
    with rest s1 have "repeat_loop k f (found @ new) new (Some cs1) = Ret (ys, s')" by simp
    from Suc.IH [OF Suc.prems(1) this] False newN show ?thesis by simp
  qed
qed simp

lemma indep_series:
  "(\<And>m. indep (f m)) \<Longrightarrow> series_loop f ms xs (Some cs) = Ret (ys, s') \<Longrightarrow>
   (\<exists>cs'. s' = Some cs') \<and> series_loop f ms xs None = Ret (ys, None)"
proof (induction ms arbitrary: xs cs)
  case (Cons m ms)
  from Cons.prems(2) obtain new s1 where new: "each (f m) xs (Some cs) = Ret (new, s1)"
    and rest: "(if new = [] then Ret ([], s1) else series_loop f ms new s1) = Ret (ys, s')"
    by (auto simp: result_simps)
  from indep_each [OF Cons.prems(1) new] obtain cs1 where s1: "s1 = Some cs1"
    and newN: "each (f m) xs None = Ret (new, None)" by blast
  show ?case
  proof (cases "new = []")
    case True
    with rest s1 newN show ?thesis by auto
  next
    case False
    with rest s1 have "series_loop f ms new (Some cs1) = Ret (ys, s')" by simp
    from Cons.IH [OF Cons.prems(1) this] False newN show ?thesis by simp
  qed
qed auto

lemma try_completion_None [simp]: "try_registered_completion e c x None = Inr (False, None)"
  by (simp add: try_registered_completion_def)

lemma try_completion_Some:
  "try_registered_completion e c x (Some cs) = Inr (taken, s) \<Longrightarrow> \<exists>cs'. s = Some cs'"
  by (auto simp: try_registered_completion_def result_simps split: if_splits option.splits sum.splits)

lemma mtch_indep:
  "mtch n e m c (Some cs) = Ret (xs, s') \<Longrightarrow> (\<exists>cs'. s' = Some cs') \<and> mtch n e m c None = Ret (xs, None)"
proof (induction n arbitrary: m c cs xs s')
  case (Suc n)
  have ind: "indep (mtch n e a)" and ind_alt: "indep (\<lambda>a s. mtch n e a c s)" for a
    unfolding indep_def using Suc.IH by blast+
  show ?case
  proof (cases m rule: matcher_cases)
    case literal
    with Suc.prems show ?thesis by (auto simp: mtch_literal add_compl_def split: if_splits)
  next
    case (choice ms)
    with Suc.prems show ?thesis using indep_each [OF ind_alt] by (simp add: mtch_simps)
  next
    case (opt a)
    with Suc.prems show ?thesis by (fastforce simp: mtch_simps result_simps dest: Suc.IH)
  next
    case (repeat a)
    with Suc.prems show ?thesis using indep_repeat [OF ind] by (simp add: mtch_simps)
  next
    case (ref x)
    with Suc.prems show ?thesis
      by (fastforce simp: mtch_simps result_simps dest: Suc.IH split: option.splits)
  next
    case (series ms)
    with Suc.prems show ?thesis using indep_series [of "mtch n e"] ind by (simp add: mtch_simps)
  next
    case (symbol x a)
    with Suc.prems obtain taken s zs s1 where
      t: "try_registered_completion e c x (Some cs) = Inr (taken, s)"
      and r: "mtch n e a c (if taken then Some [] else s) = Ret (zs, s1)"
      and res: "xs = map (bind_symbol c x) zs" "s' = (if taken then s else s1)"
      by (auto simp: mtch_simps result_simps)
    obtain cs1 where s: "s = Some cs1" using try_completion_Some [OF t] by blast
    then obtain cs2 where "mtch n e a c (Some cs2) = Ret (zs, s1)" using r by (cases taken) auto
    from Suc.IH [OF this] s res symbol show ?thesis by (auto simp: mtch_simps)
  next
    case (collector x a)
    with Suc.prems obtain taken s zs s1 where
      t: "try_registered_completion e c x (Some cs) = Inr (taken, s)"
      and r: "mtch n e a c (if taken then Some [] else s) = Ret (zs, s1)"
      and res: "emap (bind_collected c x) zs = Inr xs" "s' = (if taken then s else s1)"
      by (auto simp: mtch_simps result_simps)
    obtain cs1 where s: "s = Some cs1" using try_completion_Some [OF t] by blast
    then obtain cs2 where "mtch n e a c (Some cs2) = Ret (zs, s1)" using r by (cases taken) auto
    from Suc.IH [OF this] s res collector show ?thesis by (auto simp: mtch_simps)
  next
    case (token ty a)
    with Suc.prems show ?thesis
      by (fastforce simp: mtch_simps result_simps dest: Suc.IH split: if_splits)
  next
    case (raw t)
    with Suc.prems show ?thesis by (simp add: mtch_simps)
  qed
qed simp

text \<open>In parse mode there is no set of completions before or after.\<close>

definition keeps_None :: "('x \<Rightarrow> compls \<Rightarrow> ('y list \<times> compls) out) \<Rightarrow> bool" where
  "keeps_None f \<longleftrightarrow> (\<forall>x ys s. f x None = Ret (ys, s) \<longrightarrow> s = None)"

lemma keeps_NoneD: "keeps_None f \<Longrightarrow> f x None = Ret (ys, s) \<Longrightarrow> s = None"
  by (auto simp: keeps_None_def)

lemma each_None: "keeps_None f \<Longrightarrow> each f xs None = Ret (ys, s) \<Longrightarrow> s = None"
proof (induction xs arbitrary: ys s)
  case (Cons x xs)
  from Cons.prems(2) obtain zs s1 zs' where "f x None = Ret (zs, s1)" and rec: "each f xs s1 = Ret (zs', s)"
    by (auto simp: result_simps)
  then have "s1 = None" using keeps_NoneD [OF Cons.prems(1)] by blast
  with rec Cons.IH [OF Cons.prems(1)] show ?case by simp
qed simp

lemma repeat_None: "keeps_None f \<Longrightarrow> repeat_loop k f found xs None = Ret (ys, s) \<Longrightarrow> s = None"
proof (induction k arbitrary: found xs)
  case (Suc k)
  then obtain new s1 where new: "each f xs None = Ret (new, s1)"
    and rest: "(if new = [] then Ret (found, s1) else repeat_loop k f (found @ new) new s1) = Ret (ys, s)"
    by (auto simp: result_simps)
  have "s1 = None" using each_None [OF Suc.prems(1) new] .
  with rest Suc.IH [OF Suc.prems(1)] show ?case by (auto split: if_splits)
qed simp

lemma series_None: "(\<And>m. keeps_None (f m)) \<Longrightarrow> series_loop f ms xs None = Ret (ys, s) \<Longrightarrow> s = None"
proof (induction ms arbitrary: xs)
  case (Cons m ms)
  then obtain new s1 where new: "each (f m) xs None = Ret (new, s1)"
    and rest: "(if new = [] then Ret ([], s1) else series_loop f ms new s1) = Ret (ys, s)"
    by (auto simp: result_simps)
  have "s1 = None" using each_None [OF Cons.prems(1) new] .
  with rest Cons.IH [OF Cons.prems(1)] show ?case by (auto split: if_splits)
qed simp

lemma mtch_None: "mtch n e m c None = Ret (xs, s) \<Longrightarrow> s = None"
proof (induction n arbitrary: m c xs s)
  case (Suc n)
  have keeps: "keeps_None (mtch n e a)" "keeps_None (\<lambda>a s. mtch n e a c s)" for a
    unfolding keeps_None_def using Suc.IH by blast+
  show ?case
  proof (cases m rule: matcher_cases)
    case literal
    with Suc.prems show ?thesis by (auto simp: mtch_literal add_compl_def split: if_splits)
  next
    case (choice ms)
    with Suc.prems show ?thesis using each_None [OF keeps(2)] by (simp add: mtch_simps)
  next
    case (repeat a)
    with Suc.prems show ?thesis using repeat_None [OF keeps(1)] by (simp add: mtch_simps)
  next
    case (series ms)
    with Suc.prems show ?thesis using series_None [of "mtch n e"] keeps(1) by (simp add: mtch_simps)
  next
    case (ref x)
    with Suc show ?thesis by (auto simp: mtch_simps result_simps split: option.splits)
  qed (use Suc in \<open>auto simp: mtch_simps result_simps split: if_splits\<close>)
qed simp

end
