(* ===== verification/Grammar.thy ===== *)
theory Grammar
  imports Matching
begin

text \<open>
  The language of a rule set. \<open>derives rules m ts\<close> says, without any search, that the tokens \<open>ts\<close>
  form the production \<open>m\<close>. \<open>mtch\<close> in parse mode finds exactly the derivable prefixes of the
  remaining tokens; and on a rule set without left recursion and without a repeated empty match it
  returns on every input.
\<close>

section \<open>Derivations\<close>

inductive derives :: "(string \<rightharpoonup> matcher) \<Rightarrow> matcher \<Rightarrow> token list \<Rightarrow> bool" for rules where
  d_literal: "literal m \<Longrightarrow> accepts m t \<Longrightarrow> derives rules m [t]"
| d_token: "tok_type t = ty \<Longrightarrow> derives rules (TerminalType ty sub) [t]"
| d_choice: "m \<in> set ms \<Longrightarrow> derives rules m ts \<Longrightarrow> derives rules (Choice ms) ts"
| d_none: "derives rules (OneOrNone m) []"
| d_one: "derives rules m ts \<Longrightarrow> derives rules (OneOrNone m) ts"
| d_repeat: "\<forall>ts \<in> set tss. derives rules m ts \<Longrightarrow> derives rules (Repeat m) (concat tss)"
| d_ref: "rules x = Some m \<Longrightarrow> derives rules m ts \<Longrightarrow> derives rules (RuleReference x) ts"
| d_series: "length tss = length ms \<Longrightarrow> \<forall>p \<in> set (zip ms tss). derives rules (fst p) (snd p) \<Longrightarrow>
     derives rules (RuleSeries ms) (concat tss)"
| d_symbol: "derives rules m ts \<Longrightarrow> derives rules (NamedSymbol x m) ts"
| d_collector: "derives rules m ts \<Longrightarrow> derives rules (NamedCollector x m) ts"

definition moved :: "token list \<Rightarrow> ctxt \<Rightarrow> ctxt \<Rightarrow> bool" where
  "moved ts c d \<longleftrightarrow> matched d = matched c @ ts \<and> remainder c = ts @ remainder d"

definition adv_by :: "(string \<rightharpoonup> matcher) \<Rightarrow> matcher \<Rightarrow> ctxt \<Rightarrow> ctxt \<Rightarrow> bool" where
  "adv_by rules m c d \<longleftrightarrow> (\<exists>ts. derives rules m ts \<and> moved ts c d)"

lemma moved_refl [simp]: "moved [] c c"
  by (simp add: moved_def)

lemma moved_trans: "moved ts a b \<Longrightarrow> moved us b c \<Longrightarrow> moved (ts @ us) a c"
  by (simp add: moved_def)

lemma moved_binding [simp]:
  "moved ts c (with_binding d x v) = moved ts c d"
  "moved ts c (with_production_named d y) = moved ts c d"
  "moved ts (with_production_named c y) d = moved ts c d"
  by (simp_all add: moved_def ctxt_defs)

lemma moved_with_match: "remainder c = t # r \<Longrightarrow> moved [t] c (with_match c (Suc 0))"
  by (simp add: moved_def with_match_def)

lemma repeat_append:
  "derives rules (Repeat m) ts \<Longrightarrow> derives rules (Repeat m) us \<Longrightarrow> derives rules (Repeat m) (ts @ us)"
proof -
  assume "derives rules (Repeat m) ts" and "derives rules (Repeat m) us"
  then obtain tss uss where "ts = concat tss" "us = concat uss"
    "\<forall>t \<in> set tss. derives rules m t" "\<forall>t \<in> set uss. derives rules m t"
    by (auto elim!: derives.cases [of _ "Repeat m"] simp: literal_def)
  then show ?thesis using d_repeat [of "tss @ uss" rules m] by auto
qed

interpretation rep: step_relation "adv_by rules (Repeat m)" for rules m
proof
  show "adv_by rules (Repeat m) c c" for c
    using d_repeat [of "[]" rules m] by (auto simp: adv_by_def intro!: exI [of _ "[]"])
  show "adv_by rules (Repeat m) a c"
    if "adv_by rules (Repeat m) a b" "adv_by rules (Repeat m) b c" for a b c
    using that unfolding adv_by_def by (blast intro: repeat_append moved_trans)
qed

section \<open>Soundness\<close>

lemma series_adv:
  assumes "\<And>m s c xs s' d. m \<in> set ms \<Longrightarrow> f m c s = Ret (xs, s') \<Longrightarrow> d \<in> set xs \<Longrightarrow> adv_by rules m c d"
  shows "series_loop f ms cs s = Ret (ys, s') \<Longrightarrow> d \<in> set ys \<Longrightarrow>
    \<exists>c \<in> set cs. adv_by rules (RuleSeries ms) c d"
  using assms
proof (induction ms arbitrary: cs s)
  case Nil
  then have "d \<in> set cs" by simp
  moreover have "adv_by rules (RuleSeries []) d d"
    using d_series [of "[]" "[]" rules] by (auto simp: adv_by_def intro!: exI [of _ "[]"])
  ultimately show ?case by blast
next
  case (Cons m ms)
  from Cons.prems(1,2) obtain new s1 where new: "each (f m) cs s = Ret (new, s1)"
    and rest: "series_loop f ms new s1 = Ret (ys, s')"
    by (auto simp: result_simps split: if_splits)
  from Cons.IH [OF rest Cons.prems(2)] Cons.prems(3) obtain d' where
    d': "d' \<in> set new" and "adv_by rules (RuleSeries ms) d' d" by auto
  then obtain us where us: "derives rules (RuleSeries ms) us" "moved us d' d" by (auto simp: adv_by_def)
  from each_Ret_induct [OF new d'] obtain c where c: "c \<in> set cs" and "adv_by rules m c d'"
    using Cons.prems(3) by (meson list.set_intros(1))
  then obtain ts where ts: "derives rules m ts" "moved ts c d'" by (auto simp: adv_by_def)
  from us(1) obtain tss where "us = concat tss" "length tss = length ms"
    "\<forall>p \<in> set (zip ms tss). derives rules (fst p) (snd p)"
    by (auto elim!: derives.cases [of _ "RuleSeries ms"] simp: literal_def)
  then have "derives rules (RuleSeries (m # ms)) (ts @ us)"
    using d_series [of "ts # tss" "m # ms" rules] ts(1) by simp
  with moved_trans [OF ts(2) us(2)] c show ?case by (auto simp: adv_by_def)
qed

lemma mtch_sound:
  "mtch n e m c s = Ret (xs, s') \<Longrightarrow> d \<in> set xs \<Longrightarrow> adv_by (ruleset e) m c d"
proof (induction n arbitrary: m c s xs s' d)
  case (Suc n)
  show ?case
  proof (cases m rule: matcher_cases)
    case literal
    with Suc.prems obtain t r where "remainder c = t # r" "accepts m t" "d = with_match c (Suc 0)"
      by (cases "remainder c") (auto simp: mtch_literal split: if_splits)
    with literal show ?thesis by (auto simp: adv_by_def intro: d_literal moved_with_match)
  next
    case (choice ms)
    with Suc.prems obtain a s1 zs s2 where "a \<in> set ms" "mtch n e a c s1 = Ret (zs, s2)" "d \<in> set zs"
      using each_Ret_induct [of "\<lambda>a s. mtch n e a c s" ms s xs s' d] by (auto simp: mtch_simps)
    with choice Suc.IH show ?thesis unfolding adv_by_def by (meson d_choice)
  next
    case (opt a)
    with Suc.prems obtain zs s1 where "mtch n e a c s = Ret (zs, s1)" and "d = c \<or> d \<in> set zs"
      by (auto simp: mtch_simps result_simps)
    with opt Suc.IH show ?thesis unfolding adv_by_def by (metis d_none d_one moved_refl)
  next
    case (repeat a)
    have "rep.incl (ruleset e) a (mtch n e a)"
      unfolding rep.incl_def
    proof (intro allI impI)
      fix c s xs s' d
      assume "mtch n e a c s = Ret (xs, s')" and "d \<in> set xs"
      from Suc.IH [OF this] obtain ts where "derives (ruleset e) a ts" "moved ts c d" by (auto simp: adv_by_def)
      then show "adv_by (ruleset e) (Repeat a) c d"
        using d_repeat [of "[ts]" "ruleset e" a] by (auto simp: adv_by_def)
    qed
    from rep.repeat_rel [OF this, of "[c]" c "[c]" n s xs s' d] Suc.prems repeat
    show ?thesis by (simp add: mtch_simps rep.R_refl)
  next
    case (ref x)
    with Suc.prems obtain rule d' zs s1 where rule: "ruleset e x = Some rule"
      and "mtch n e rule (with_production_named c x) s = Ret (zs, s1)"
      "d' \<in> set zs" "d = with_production_named d' (productionname c)"
      by (auto simp: mtch_simps result_simps split: option.splits)
    from Suc.IH [OF this(2,3)] this(4) obtain ts where "derives (ruleset e) rule ts" "moved ts c d"
      by (auto simp: adv_by_def)
    with rule ref show ?thesis by (auto simp: adv_by_def intro: d_ref)
  next
    case (series ms)
    with Suc.prems show ?thesis
      using series_adv [of ms "mtch n e" "ruleset e" "[c]" s xs s' d] Suc.IH by (auto simp: mtch_simps)
  next
    case (symbol x a)
    with Suc.prems obtain s1 zs s2 d0 where "mtch n e a c s1 = Ret (zs, s2)" "d0 \<in> set zs" "d = bind_symbol c x d0"
      by (auto simp: mtch_simps result_simps)
    from Suc.IH [OF this(1,2)] this(3) symbol show ?thesis
      by (auto simp: adv_by_def bind_symbol_def intro: d_symbol)
  next
    case (collector x a)
    with Suc.prems obtain zs s1 s2 d0 v where "mtch n e a c s1 = Ret (zs, s2)" "d0 \<in> set zs" "d = with_binding d0 x v"
      by (auto simp: mtch_simps result_simps dest: emap_collected)
    from Suc.IH [OF this(1,2)] this(3) collector show ?thesis
      by (auto simp: adv_by_def intro: d_collector)
  next
    case (token ty a)
    with Suc.prems obtain t r where "remainder c = t # r" "tok_type t = ty" "d = with_match c (Suc 0)"
      by (cases "remainder c") (auto simp: mtch_simps result_simps split: if_splits)
    with token show ?thesis by (auto simp: adv_by_def intro: d_token moved_with_match)
  next
    case (raw t)
    with Suc.prems show ?thesis by (simp add: mtch_simps)
  qed
qed simp

section \<open>Completeness\<close>

text \<open>\<open>finds f ts\<close>: from a context whose remainder starts with \<open>ts\<close>, \<open>f\<close> reaches one after \<open>ts\<close>.\<close>

definition finds :: "(ctxt \<Rightarrow> compls \<Rightarrow> (ctxt list \<times> compls) out) \<Rightarrow> token list \<Rightarrow> bool" where
  "finds f ts \<longleftrightarrow> (\<forall>c r xs s. remainder c = ts @ r \<longrightarrow> f c None = Ret (xs, s) \<longrightarrow>
     (\<exists>d \<in> set xs. moved ts c d))"

lemma findsD: "finds f ts \<Longrightarrow> remainder c = ts @ r \<Longrightarrow> f c None = Ret (xs, s) \<Longrightarrow>
    \<exists>d \<in> set xs. moved ts c d \<and> remainder d = r"
  by (fastforce simp: finds_def moved_def)

lemma findsI: "(\<And>c r xs s. remainder c = ts @ r \<Longrightarrow> f c None = Ret (xs, s) \<Longrightarrow> \<exists>d \<in> set xs. moved ts c d) \<Longrightarrow> finds f ts"
  by (auto simp: finds_def)

lemma each_all:
  "keeps_None f \<Longrightarrow> each f xs None = Ret (ys, s) \<Longrightarrow> x \<in> set xs \<Longrightarrow>
   \<exists>zs. f x None = Ret (zs, None) \<and> set zs \<subseteq> set ys"
proof (induction xs arbitrary: ys s)
  case (Cons x' xs)
  from Cons.prems(2) obtain zs s1 zs' where f: "f x' None = Ret (zs, s1)" and rec: "each f xs s1 = Ret (zs', s)"
    and ys: "ys = zs @ zs'"
    by (auto simp: result_simps)
  have s1: "s1 = None" using keeps_NoneD [OF Cons.prems(1) f] .
  show ?case
  proof (cases "x = x'")
    case True
    with f s1 ys show ?thesis by auto
  next
    case False
    with Cons.prems(3) have "x \<in> set xs" by simp
    from Cons.IH [OF Cons.prems(1) _ this] rec s1 ys show ?thesis by fastforce
  qed
qed simp

lemma keeps_mtch: "keeps_None (mtch n e m)" "keeps_None (\<lambda>a s. mtch n e a c s)"
  by (auto simp: keeps_None_def dest: mtch_None)

lemma repeat_found: "repeat_loop k f found xs s = Ret (ys, s') \<Longrightarrow> set found \<subseteq> set ys"
  by (induction k arbitrary: found xs s) (fastforce simp: result_simps split: if_splits)+

lemma repeat_complete:
  assumes keeps: "keeps_None f"
  shows "\<forall>ts \<in> set tss. finds f ts \<Longrightarrow> c \<in> set cs \<Longrightarrow> set cs \<subseteq> set found \<Longrightarrow> remainder c = concat tss @ r \<Longrightarrow>
    repeat_loop k f found cs None = Ret (ys, s) \<Longrightarrow> \<exists>d \<in> set ys. moved (concat tss) c d"
proof (induction tss arbitrary: k c cs found)
  case Nil
  from repeat_found [OF Nil.prems(5)] Nil.prems(2,3) have "c \<in> set ys" by blast
  then show ?case by (auto intro!: bexI [of _ c])
next
  case (Cons ts tss)
  from Cons.prems(5) obtain k' where k: "k = Suc k'" by (cases k) auto
  with Cons.prems(5) obtain new s1 where new: "each f cs None = Ret (new, s1)"
    and rest: "(if new = [] then Ret (found, s1) else repeat_loop k' f (found @ new) new s1) = Ret (ys, s)"
    by (auto simp: result_simps)
  have s1: "s1 = None" using each_None [OF keeps new] .
  from each_all [OF keeps new Cons.prems(2)] obtain zs where
    zs: "f c None = Ret (zs, None)" "set zs \<subseteq> set new" by blast
  have "finds f ts" and "remainder c = ts @ concat tss @ r" using Cons.prems(1,4) by auto
  from findsD [OF this zs(1)] obtain d where
    d: "d \<in> set zs" "moved ts c d" "remainder d = concat tss @ r" by auto
  from d(1) zs(2) have "d \<in> set new" and "new \<noteq> []" by auto
  with rest s1 have "repeat_loop k' f (found @ new) new None = Ret (ys, s)" by simp
  from Cons.IH [OF _ \<open>d \<in> set new\<close> _ d(3) this] Cons.prems(1) obtain d' where
    "d' \<in> set ys" "moved (concat tss) d d'" by auto
  with moved_trans [OF d(2)] show ?case by auto
qed

lemma series_complete:
  assumes keeps: "\<And>m. keeps_None (f m)"
  shows "length tss = length ms \<Longrightarrow> \<forall>p \<in> set (zip ms tss). finds (f (fst p)) (snd p) \<Longrightarrow> c \<in> set cs \<Longrightarrow>
    remainder c = concat tss @ r \<Longrightarrow> series_loop f ms cs None = Ret (ys, s) \<Longrightarrow>
    \<exists>d \<in> set ys. moved (concat tss) c d"
proof (induction tss ms arbitrary: c cs rule: list_induct2)
  case Nil
  then show ?case by (auto intro!: bexI [of _ c])
next
  case (Cons ts tss m ms)
  from Cons.prems(4) obtain new s1 where new: "each (f m) cs None = Ret (new, s1)"
    and rest: "(if new = [] then Ret ([], s1) else series_loop f ms new s1) = Ret (ys, s)"
    by (auto simp: result_simps)
  have s1: "s1 = None" using each_None [OF keeps new] .
  from each_all [OF keeps new Cons.prems(2)] obtain zs where
    zs: "f m c None = Ret (zs, None)" "set zs \<subseteq> set new" by blast
  have "finds (f m) ts" and "remainder c = ts @ concat tss @ r" using Cons.prems(1,3) by auto
  from findsD [OF this zs(1)] obtain d where
    d: "d \<in> set zs" "moved ts c d" "remainder d = concat tss @ r" by auto
  from d(1) zs(2) have "d \<in> set new" and "new \<noteq> []" by auto
  with rest s1 have "series_loop f ms new None = Ret (ys, s)" by simp
  from Cons.IH [OF _ \<open>d \<in> set new\<close> d(3) this] Cons.prems(1) obtain d' where
    "d' \<in> set ys" "moved (concat tss) d d'" by auto
  with moved_trans [OF d(2)] show ?case by auto
qed

lemma mtch_complete: "derives (ruleset e) m ts \<Longrightarrow> finds (mtch n e m) ts"
proof (induction arbitrary: n rule: derives.induct)
  case (d_literal m t)
  show ?case
  proof (rule findsI)
    fix c r xs s assume "remainder c = [t] @ r" "mtch n e m c None = Ret (xs, s)"
    with d_literal show "\<exists>d \<in> set xs. moved [t] c d"
      by (cases n) (auto simp: mtch_literal moved_with_match)
  qed
next
  case (d_token t ty sub)
  show ?case
  proof (rule findsI)
    fix c r xs s assume "remainder c = [t] @ r" "mtch n e (TerminalType ty sub) c None = Ret (xs, s)"
    with d_token show "\<exists>d \<in> set xs. moved [t] c d"
      by (cases n) (auto simp: mtch_simps moved_with_match)
  qed
next
  case (d_choice m ms ts)
  show ?case
  proof (rule findsI)
    fix c r xs s assume r: "remainder c = ts @ r" and "mtch n e (Choice ms) c None = Ret (xs, s)"
    then obtain k where "each (\<lambda>a s. mtch k e a c s) ms None = Ret (xs, s)"
      by (cases n) (auto simp: mtch_simps)
    from each_all [OF keeps_mtch(2) this d_choice.hyps(1)] obtain zs where
      "mtch k e m c None = Ret (zs, None)" "set zs \<subseteq> set xs" by blast
    with findsD [OF d_choice.IH r] show "\<exists>d \<in> set xs. moved ts c d" by blast
  qed
next
  case (d_none m)
  show ?case
  proof (rule findsI)
    fix c r xs s assume "mtch n e (OneOrNone m) c None = Ret (xs, s)"
    then have "c \<in> set xs" by (cases n) (auto simp: mtch_simps result_simps)
    then show "\<exists>d \<in> set xs. moved [] c d" by (auto intro!: bexI [of _ c])
  qed
next
  case (d_one m ts)
  show ?case
  proof (rule findsI)
    fix c r xs s assume r: "remainder c = ts @ r" and "mtch n e (OneOrNone m) c None = Ret (xs, s)"
    then obtain k zs where "mtch k e m c None = Ret (zs, s)" "xs = c # zs"
      by (cases n) (auto simp: mtch_simps result_simps)
    with findsD [OF d_one.IH r] show "\<exists>d \<in> set xs. moved ts c d" by fastforce
  qed
next
  case (d_repeat tss m)
  show ?case
  proof (rule findsI)
    fix c r xs s assume r: "remainder c = concat tss @ r" and "mtch n e (Repeat m) c None = Ret (xs, s)"
    then obtain k where "repeat_loop k (mtch k e m) [c] [c] None = Ret (xs, s)"
      by (cases n) (auto simp: mtch_simps)
    from repeat_complete [OF keeps_mtch(1) _ _ _ r this] d_repeat.IH
    show "\<exists>d \<in> set xs. moved (concat tss) c d" by simp
  qed
next
  case (d_ref x m ts)
  show ?case
  proof (rule findsI)
    fix c r xs s assume r: "remainder c = ts @ r" and "mtch n e (RuleReference x) c None = Ret (xs, s)"
    with d_ref.hyps obtain k zs where m: "mtch k e m (with_production_named c x) None = Ret (zs, s)"
      and xs: "xs = map (\<lambda>d. with_production_named d (productionname c)) zs"
      by (cases n) (auto simp: mtch_simps result_simps)
    have "remainder (with_production_named c x) = ts @ r" using r by (simp add: ctxt_defs)
    from findsD [OF d_ref.IH this m] xs show "\<exists>d \<in> set xs. moved ts c d" by auto
  qed
next
  case (d_series tss ms)
  show ?case
  proof (rule findsI)
    fix c r xs s assume r: "remainder c = concat tss @ r" and "mtch n e (RuleSeries ms) c None = Ret (xs, s)"
    then obtain k where "series_loop (mtch k e) ms [c] None = Ret (xs, s)"
      by (cases n) (auto simp: mtch_simps)
    from series_complete [OF keeps_mtch(1) d_series.hyps(1) _ _ r this] d_series.IH
    show "\<exists>d \<in> set xs. moved (concat tss) c d" by auto
  qed
next
  case (d_symbol m ts x)
  show ?case
  proof (rule findsI)
    fix c r xs s assume r: "remainder c = ts @ r" and "mtch n e (NamedSymbol x m) c None = Ret (xs, s)"
    then obtain k zs where "mtch k e m c None = Ret (zs, s)" "xs = map (bind_symbol c x) zs"
      by (cases n) (auto simp: mtch_simps result_simps)
    with findsD [OF d_symbol.IH r] show "\<exists>d \<in> set xs. moved ts c d"
      by (fastforce simp: bind_symbol_def)
  qed
next
  case (d_collector m ts x)
  show ?case
  proof (rule findsI)
    fix c r xs s assume r: "remainder c = ts @ r" and "mtch n e (NamedCollector x m) c None = Ret (xs, s)"
    then obtain k zs where m: "mtch k e m c None = Ret (zs, s)" and "emap (bind_collected c x) zs = Inr xs"
      by (cases n) (auto simp: mtch_simps result_simps)
    then have all2: "list_all2 (\<lambda>d d'. bind_collected c x d = Inr d') zs xs" by (simp add: emap_Inr_iff)
    from findsD [OF d_collector.IH r m] obtain d where d: "d \<in> set zs" "moved ts c d" by blast
    from all2 d(1) obtain d' where d': "d' \<in> set xs" and eq: "bind_collected c x d = Inr d'"
      unfolding list_all2_conv_all_nth by (metis in_set_conv_nth)
    from eq obtain v where "d' = with_binding d x v"
      by (auto simp: bind_collected_def split: bindval.splits)
    with d(2) have "moved ts c d'" by simp
    with d' show "\<exists>d \<in> set xs. moved ts c d" by blast
  qed
qed

section \<open>Rule sets on which a match always returns\<close>

text \<open>
  \<open>nullable N m\<close>: \<open>m\<close> may derive no token at all, given the names \<open>N\<close> of the rules that may.
  \<open>wfm N rank lim k m\<close>: every rule that \<open>m\<close> can enter before it takes a token has a rank below \<open>k\<close>,
  the others have a rank below \<open>lim\<close>, and nothing nullable is repeated.
\<close>

fun nullable :: "string list \<Rightarrow> matcher \<Rightarrow> bool" where
  "nullable N (Choice ms) = list_ex (nullable N) ms"
| "nullable N (OneOrNone m) = True"
| "nullable N (Repeat m) = True"
| "nullable N (RuleReference x) = (x \<in> set N)"
| "nullable N (RuleSeries ms) = list_all (nullable N) ms"
| "nullable N (NamedSymbol x m) = nullable N m"
| "nullable N (NamedCollector x m) = nullable N m"
| "nullable N m = False"

fun wfm :: "string list \<Rightarrow> (string \<rightharpoonup> nat) \<Rightarrow> nat \<Rightarrow> nat \<Rightarrow> matcher \<Rightarrow> bool"
  and wfs :: "string list \<Rightarrow> (string \<rightharpoonup> nat) \<Rightarrow> nat \<Rightarrow> nat \<Rightarrow> matcher list \<Rightarrow> bool"
  and wfc :: "string list \<Rightarrow> (string \<rightharpoonup> nat) \<Rightarrow> nat \<Rightarrow> nat \<Rightarrow> matcher list \<Rightarrow> bool" where
  "wfm N rank lim k (Choice ms) = wfc N rank lim k ms"
| "wfm N rank lim k (OneOrNone m) = wfm N rank lim k m"
| "wfm N rank lim k (Repeat m) = (wfm N rank lim k m \<and> \<not> nullable N m)"
| "wfm N rank lim k (RuleReference x) = (case rank x of None \<Rightarrow> False | Some r \<Rightarrow> r < k)"
| "wfm N rank lim k (RuleSeries ms) = wfs N rank lim k ms"
| "wfm N rank lim k (NamedSymbol x m) = wfm N rank lim k m"
| "wfm N rank lim k (NamedCollector x m) = wfm N rank lim k m"
| "wfm N rank lim k (TerminalType ty m) = wfm N rank lim k m"
| "wfm N rank lim k (RawToken t) = True"
| "wfm N rank lim k m = True"
| "wfs N rank lim k [] = True"
| "wfs N rank lim k (m # ms) =
     (wfm N rank lim k m \<and> (if nullable N m then wfs N rank lim k ms else wfs N rank lim lim ms))"
| "wfc N rank lim k [] = True"
| "wfc N rank lim k (m # ms) = (wfm N rank lim k m \<and> wfc N rank lim k ms)"

lemma wfc_iff: "wfc N rank lim k ms \<longleftrightarrow> (\<forall>m \<in> set ms. wfm N rank lim k m)"
  by (induction ms) auto

text \<open>A certificate for a rule set, as an association list of the rules with their ranks.\<close>

definition wf_rules :: "string list \<Rightarrow> (string \<rightharpoonup> nat) \<Rightarrow> nat \<Rightarrow> (string \<times> matcher) list \<Rightarrow> bool" where
  "wf_rules N rank lim rs \<longleftrightarrow>
     list_all (\<lambda>(x, m).
       (case rank x of None \<Rightarrow> False | Some r \<Rightarrow> r < lim \<and> wfm N rank lim r m) \<and>
       (nullable N m \<longrightarrow> x \<in> set N)) rs"

lemma wf_rulesD:
  "wf_rules N rank lim rs \<Longrightarrow> map_of rs x = Some m \<Longrightarrow>
   (\<exists>r. rank x = Some r \<and> r < lim \<and> wfm N rank lim r m) \<and> (nullable N m \<longrightarrow> x \<in> set N)"
  by (drule map_of_SomeD) (fastforce simp: wf_rules_def list_all_iff split: option.splits)

text \<open>A production that is not nullable takes at least one token.\<close>

lemma derives_takes_token:
  assumes wf: "wf_rules N rank lim rs"
  shows "derives (map_of rs) m ts \<Longrightarrow> \<not> nullable N m \<Longrightarrow> ts \<noteq> []"
proof (induction rule: derives.induct)
  case (d_choice m ms ts)
  then show ?case by (auto simp: list_ex_iff)
next
  case (d_ref x m ts)
  then show ?case using wf_rulesD [OF wf] by auto
next
  case (d_series tss ms)
  then obtain m where "m \<in> set ms" "\<not> nullable N m" by (auto simp: list_all_iff)
  then obtain i where i: "i < length ms" "m = ms ! i" by (auto simp: in_set_conv_nth)
  with d_series(1) have "(ms ! i, tss ! i) \<in> set (zip ms tss)" by (auto simp: set_zip)
  with d_series.IH \<open>\<not> nullable N m\<close> i have "tss ! i \<noteq> []" by fastforce
  moreover have "tss ! i \<in> set tss" using i d_series(1) by simp
  ultimately show ?case by (auto simp: concat_eq_Nil_conv)
qed auto

lemma mtch_takes_token:
  assumes wf: "wf_rules N rank lim rs" and rules: "ruleset e = map_of rs"
    and m: "mtch n e m c s = Ret (xs, s')" "d \<in> set xs"
  shows "length (remainder d) \<le> length (remainder c)"
    and "\<not> nullable N m \<Longrightarrow> length (remainder d) < length (remainder c)"
proof -
  from mtch_sound [OF m] rules obtain ts where
    ts: "derives (map_of rs) m ts" "remainder c = ts @ remainder d"
    by (auto simp: adv_by_def moved_def)
  then show "length (remainder d) \<le> length (remainder c)" by simp
  assume "\<not> nullable N m"
  with derives_takes_token [OF wf ts(1)] ts(2) show "length (remainder d) < length (remainder c)" by simp
qed

section \<open>Termination\<close>

definition returns :: "env \<Rightarrow> matcher \<Rightarrow> ctxt \<Rightarrow> bool" where
  "returns e m c \<longleftrightarrow> (\<forall>s. \<exists>n. mtch n e m c s \<noteq> Diverge)"

text \<open>A family of computations indexed by fuel: more fuel keeps an outcome.\<close>

definition fuelled :: "(nat \<Rightarrow> 'a out) \<Rightarrow> bool" where
  "fuelled F \<longleftrightarrow> (\<forall>n n'. n \<le> n' \<longrightarrow> below (F n) (F n'))"

lemma fuelled_mtch: "fuelled (\<lambda>n. mtch n e m c s)"
  by (simp add: fuelled_def mtch_below)

lemma fuelled_each: "(\<And>x s. fuelled (\<lambda>n. F n x s)) \<Longrightarrow> fuelled (\<lambda>n. each (F n) xs s)"
  unfolding fuelled_def by (auto intro!: below_each)

lemma fuelled_repeat: "(\<And>x s. fuelled (\<lambda>n. F n x s)) \<Longrightarrow> fuelled (\<lambda>n. repeat_loop n (F n) found xs s)"
  unfolding fuelled_def by (auto intro!: below_repeat)

lemma fuelled_series: "(\<And>m x s. fuelled (\<lambda>n. F n m x s)) \<Longrightarrow> fuelled (\<lambda>n. series_loop (F n) ms xs s)"
  unfolding fuelled_def by (auto intro!: below_series)

lemma fuelled_max:
  "fuelled F \<Longrightarrow> F n = r \<Longrightarrow> r \<noteq> Diverge \<Longrightarrow> F (max n k) = r" "fuelled F \<Longrightarrow> F n = r \<Longrightarrow> r \<noteq> Diverge \<Longrightarrow> F (max k n) = r"
  unfolding fuelled_def by (metis belowD max.cobounded1 max.cobounded2)+

text \<open>One computation after another: both return, so the composition does.\<close>

lemma obind_returns:
  assumes F: "fuelled F" and G: "\<And>x. fuelled (\<lambda>n. G n x)"
    and ret: "\<exists>n. F n \<noteq> Diverge" and rest: "\<And>n x. F n = Ret x \<Longrightarrow> \<exists>n. G n x \<noteq> Diverge"
  shows "\<exists>n. obind (F n) (G n) \<noteq> Diverge"
proof -
  from ret obtain n where n: "F n \<noteq> Diverge" ..
  show ?thesis
  proof (cases "F n")
    case (Ret x)
    from rest [OF this] obtain k where "G k x \<noteq> Diverge" ..
    then have "F (max n k) = Ret x" "G (max n k) x \<noteq> Diverge"
      using fuelled_max(1) [OF F Ret] fuelled_max(2) [OF G, of k x "G k x" n] by auto
    then have "obind (F (max n k)) (G (max n k)) \<noteq> Diverge" by simp
    then show ?thesis ..
  next
    case (Raise x)
    then have "obind (F n) (G n) \<noteq> Diverge" by simp
    then show ?thesis ..
  qed (use n in simp)
qed

lemma each_returns:
  assumes "\<And>x s. fuelled (\<lambda>n. F n x s)"
  shows "\<forall>x \<in> set xs. \<forall>s. \<exists>n. F n x s \<noteq> Diverge \<Longrightarrow> \<exists>n. each (F n) xs s \<noteq> Diverge"
proof (induction xs arbitrary: s)
  case (Cons x xs)
  have "\<exists>n. obind (F n x s) (\<lambda>(ys, s1). obind (each (F n) xs s1) (\<lambda>(zs, s2). Ret (ys @ zs, s2))) \<noteq> Diverge"
  proof (rule obind_returns)
    show "fuelled (\<lambda>n. F n x s)" by (rule assms)
    show "fuelled (\<lambda>n. case p of (ys, s1) \<Rightarrow> obind (each (F n) xs s1) (\<lambda>(zs, s2). Ret (ys @ zs, s2)))" for p
      using fuelled_each [where F = F and xs = xs, OF assms] unfolding fuelled_def
      by (intro allI impI below_split below_obind below_refl) simp
    show "\<exists>n. F n x s \<noteq> Diverge" using Cons.prems by simp
    show "\<exists>n. (case p of (ys, s1) \<Rightarrow> obind (each (F n) xs s1) (\<lambda>(zs, s2). Ret (ys @ zs, s2))) \<noteq> Diverge" for p
    proof (cases p)
      case (Pair ys s1)
      from Cons.IH [of s1] Cons.prems obtain n where "each (F n) xs s1 \<noteq> Diverge" by auto
      then show ?thesis using Pair by (auto simp: result_simps intro!: exI [of _ n])
    qed
  qed
  then show ?case by simp
qed simp

lemma below_Diverge_D: "below r r' \<Longrightarrow> r \<noteq> Diverge \<Longrightarrow> r' \<noteq> Diverge"
  by (auto simp: below_def)

lemma repeat_returns:
  assumes shorter: "\<And>n c s xs s' d. mtch n e a c s = Ret (xs, s') \<Longrightarrow> d \<in> set xs \<Longrightarrow>
      length (remainder d) < length (remainder c)"
  shows "\<forall>c. length (remainder c) \<le> L \<longrightarrow> returns e a c \<Longrightarrow> \<forall>c \<in> set xs. length (remainder c) \<le> L \<Longrightarrow>
    \<exists>n. repeat_loop n (mtch n e a) found xs s \<noteq> Diverge"
proof (induction L arbitrary: found xs s rule: less_induct)
  case (less L)
  have "\<exists>n. each (mtch n e a) xs s \<noteq> Diverge"
    using less.prems by (intro each_returns fuelled_mtch) (auto simp: returns_def)
  then obtain n where n: "each (mtch n e a) xs s \<noteq> Diverge" ..
  have up: "each (mtch k e a) xs s = each (mtch n e a) xs s" if "n \<le> k" for k
    using below_each [of "mtch n e a" "mtch k e a" xs s] mtch_below [OF that] n by (auto dest: belowD)
  show ?case
  proof (cases "\<exists>new s1. each (mtch n e a) xs s = Ret (new, s1) \<and> new \<noteq> []")
    case False
    then have "repeat_loop (Suc n) (mtch (Suc n) e a) found xs s \<noteq> Diverge"
      using n up [of "Suc n"] by (auto simp: obind_def split: out.splits)
    then show ?thesis ..
  next
    case True
    then obtain new s1 where new: "each (mtch n e a) xs s = Ret (new, s1)" "new \<noteq> []" by blast
    have less_L: "length (remainder d) < L" if d: "d \<in> set new" for d
    proof -
      from each_Ret_induct [OF new(1) d] obtain c s2 zs s3 where
        "c \<in> set xs" "mtch n e a c s2 = Ret (zs, s3)" "d \<in> set zs" by blast
      with shorter less.prems(2) show ?thesis by fastforce
    qed
    then have "L - 1 < L" and lens: "\<forall>d \<in> set new. length (remainder d) \<le> L - 1"
      using new(2) by (fastforce simp: neq_Nil_conv)+
    moreover have "\<forall>c. length (remainder c) \<le> L - 1 \<longrightarrow> returns e a c" using less.prems(1) by simp
    ultimately obtain k where k: "repeat_loop k (mtch k e a) (found @ new) new s1 \<noteq> Diverge"
      using less.IH by blast
    define m where "m = max n k"
    have "below (repeat_loop k (mtch k e a) (found @ new) new s1)
        (repeat_loop m (mtch (Suc m) e a) (found @ new) new s1)"
      by (rule below_repeat) (auto simp: m_def intro: mtch_below)
    then have "repeat_loop m (mtch (Suc m) e a) (found @ new) new s1 \<noteq> Diverge"
      using k by (rule below_Diverge_D)
    then have "repeat_loop (Suc m) (mtch (Suc m) e a) found xs s \<noteq> Diverge"
      using new up [of "Suc m"] by (simp add: m_def)
    then show ?thesis ..
  qed
qed

lemma series_returns:
  assumes wf: "wf_rules N rank lim rs" and rules: "ruleset e = map_of rs"
    and H: "\<And>m L' k' c. m \<in> set ms \<Longrightarrow> L' = L \<and> k' = k \<or> L' < L \<and> k' = lim \<Longrightarrow>
      wfm N rank lim k' m \<Longrightarrow> length (remainder c) \<le> L' \<Longrightarrow> returns e m c"
  shows "L' = L \<and> k' = k \<or> L' < L \<and> k' = lim \<Longrightarrow> wfs N rank lim k' ms \<Longrightarrow>
    \<forall>c \<in> set xs. length (remainder c) \<le> L' \<Longrightarrow> \<exists>n. series_loop (mtch n e) ms xs s \<noteq> Diverge"
  using H
proof (induction ms arbitrary: xs s L' k')
  case (Cons m ms)
  have ret: "\<forall>c \<in> set xs. returns e m c" using Cons.prems by (auto simp del: One_nat_def)
  have "\<exists>n. obind (each (mtch n e m) xs s) (\<lambda>(new, s1). if new = [] then Ret ([], s1)
      else series_loop (mtch n e) ms new s1) \<noteq> Diverge"
  proof (rule obind_returns)
    show "fuelled (\<lambda>n. each (mtch n e m) xs s)" by (intro fuelled_each fuelled_mtch)
    show "fuelled (\<lambda>n. case p of (new, s1) \<Rightarrow> if new = [] then Ret ([], s1)
        else series_loop (mtch n e) ms new s1)" for p
      using fuelled_series [of "\<lambda>n. mtch n e", OF fuelled_mtch] unfolding fuelled_def
      by (intro allI impI below_split below_if below_refl) simp
    show "\<exists>n. each (mtch n e m) xs s \<noteq> Diverge"
      using ret by (intro each_returns fuelled_mtch) (auto simp: returns_def)
    show "\<exists>n. (case p of (new, s1) \<Rightarrow> if new = [] then Ret ([], s1)
        else series_loop (mtch n e) ms new s1) \<noteq> Diverge" if p: "each (mtch n e m) xs s = Ret p" for n p
    proof -
      obtain new s1 where new: "p = (new, s1)" by (cases p)
      have step: "length (remainder d) \<le> L' \<and> (\<not> nullable N m \<longrightarrow> length (remainder d) < L')"
        if d: "d \<in> set new" for d
      proof -
        from each_Ret_induct [OF p [unfolded new] d] obtain c s2 zs s3 where
          c: "c \<in> set xs" "mtch n e m c s2 = Ret (zs, s3)" "d \<in> set zs" by blast
        from mtch_takes_token [OF wf rules c(2,3)] c(1) Cons.prems(3) show ?thesis by fastforce
      qed
      have "\<exists>n. series_loop (mtch n e) ms new s1 \<noteq> Diverge" if ne: "new \<noteq> []"
      proof (cases "nullable N m")
        case True
        with Cons.prems(2) have "wfs N rank lim k' ms" by simp
        then show ?thesis using Cons.IH [OF Cons.prems(1), of new s1] step Cons.prems(4) by auto
      next
        case False
        with Cons.prems(2) have "wfs N rank lim lim ms" by simp
        moreover have "L' - 1 < L" using step [of "hd new"] ne False Cons.prems(1) by fastforce
        moreover have "\<forall>d \<in> set new. length (remainder d) \<le> L' - 1" using step False by fastforce
        ultimately show ?thesis using Cons.IH [of "L' - 1" lim new s1] Cons.prems(4) by auto
      qed
      then show ?thesis using new by (cases "new = []") auto
    qed
  qed
  then show ?case by simp
qed simp

lemma try_completion_cases:
  "(\<exists>exc. try_registered_completion e c x s = Inl exc) \<or> (\<exists>t s'. try_registered_completion e c x s = Inr (t, s'))"
  by (cases "try_registered_completion e c x s") auto

lemma named_returns:
  assumes "returns e a c"
  shows "returns e (NamedSymbol x a) c" and "returns e (NamedCollector x a) c"
proof -
  have "\<exists>n. mtch n e (NamedSymbol x a) c s \<noteq> Diverge \<and> mtch n e (NamedCollector x a) c s \<noteq> Diverge" for s
  proof (cases "try_registered_completion e c x s")
    case (Inl exc)
    then show ?thesis by (auto simp: mtch_simps intro!: exI [of _ "Suc 0"])
  next
    case (Inr p)
    obtain t s' where p: "p = (t, s')" by (cases p)
    from assms obtain n where "mtch n e a c (if t then Some [] else s') \<noteq> Diverge"
      unfolding returns_def by blast
    then show ?thesis
      using Inr p by (intro exI [of _ "Suc n"]) (auto simp: mtch_simps result_simps)
  qed
  then show "returns e (NamedSymbol x a) c" and "returns e (NamedCollector x a) c"
    unfolding returns_def by blast+
qed

lemma mtch_returns:
  assumes wf: "wf_rules N rank lim rs" and rules: "ruleset e = map_of rs"
  shows "wfm N rank lim k m \<Longrightarrow> k \<le> lim \<Longrightarrow> length (remainder c) \<le> L \<Longrightarrow> returns e m c"
proof (induction L arbitrary: k m c rule: less_induct)
  case (less L)
  note IHL = less.IH
  from less.prems show ?case
  proof (induction k arbitrary: m c rule: less_induct)
    case (less k)
    note IHk = less.IH
    from less.prems show ?case
    proof (induction m arbitrary: c)
      case (Choice ms)
      have "\<exists>n. each (\<lambda>a s. mtch n e a c s) ms s \<noteq> Diverge" for s
        using Choice by (intro each_returns fuelled_mtch) (auto simp: wfc_iff returns_def)
      then show ?case unfolding returns_def by (metis mtch_simps(1))
    next
      case (OneOrNone m)
      then have "returns e m c" by simp
      then show ?case unfolding returns_def
        by (metis (no_types, lifting) case_prod_beta' mtch_simps(2) obind_Diverge_iff out.distinct(3))
    next
      case (Repeat m)
      have "\<exists>n. repeat_loop n (mtch n e m) [c] [c] s \<noteq> Diverge" for s
      proof (rule repeat_returns)
        show "length (remainder d) < length (remainder c)"
          if "mtch n e m c s = Ret (xs, s')" "d \<in> set xs" for n c s xs s' d
          using mtch_takes_token(2) [OF wf rules that] Repeat.prems(1) by simp
        show "\<forall>c. length (remainder c) \<le> L \<longrightarrow> returns e m c" using Repeat by simp
      qed (use Repeat in simp)
      then show ?case unfolding returns_def by (metis mtch_simps(3))
    next
      case (RuleReference x)
      then obtain r where r: "rank x = Some r" "r < k" by (auto split: option.splits)
      show ?case
      proof (cases "map_of rs x")
        case None
        with rules show ?thesis by (auto simp: returns_def mtch_simps intro!: exI [of _ "Suc 0"])
      next
        case (Some rule)
        from wf_rulesD [OF wf Some] r have "wfm N rank lim r rule" "r < lim" by auto
        then have "returns e rule (with_production_named c x)"
          using IHk [OF r(2), of rule "with_production_named c x"] RuleReference.prems(3)
          by (simp add: ctxt_defs)
        then have "\<exists>n. mtch (Suc n) e (RuleReference x) c s \<noteq> Diverge" for s
          unfolding returns_def mtch_simps using Some rules by (auto simp: result_simps)
        then show ?thesis unfolding returns_def by blast
      qed
    next
      case (RuleSeries ms)
      have "\<exists>n. series_loop (mtch n e) ms [c] s \<noteq> Diverge" for s
      proof (rule series_returns [OF wf rules, where L = L and k = k])
        show "returns e m c"
          if "m \<in> set ms" "L' = L \<and> k' = k \<or> L' < L \<and> k' = lim" "wfm N rank lim k' m"
            "length (remainder c) \<le> L'" for m L' k' c
          using that(2)
        proof
          assume "L' = L \<and> k' = k"
          with that RuleSeries show ?thesis by auto
        next
          assume "L' < L \<and> k' = lim"
          with that IHL show ?thesis by auto
        qed
        show "L = L \<and> k = k \<or> L < L \<and> k = lim" by simp
        show "wfs N rank lim k ms" using RuleSeries.prems(1) by simp
        show "\<forall>c \<in> set [c]. length (remainder c) \<le> L" using RuleSeries.prems(3) by simp
      qed
      then show ?case unfolding returns_def by (metis mtch_simps(5))
    next
      case (NamedSymbol x m)
      then show ?case by (intro named_returns) simp
    next
      case (NamedCollector x m)
      then show ?case by (intro named_returns) simp
    next
      case (TerminalType ty m)
      then have "returns e m c" by simp
      then show ?case unfolding returns_def
        by (intro allI) (metis (no_types, lifting) case_prod_beta' mtch_simps(8) obind_Diverge_iff out.distinct(3))
    qed (auto simp: returns_def mtch_literal literal_def mtch_simps split: if_splits intro!: exI [of _ "Suc 0"])
  qed
qed

end
