(* ===== verification/RuleSet.thy ===== *)
theory RuleSet
  imports Grammar
begin

text \<open>
  \<open>cqlshlib/pylexotron.py\<close>, second part: \<open>LexingError\<close> and \<open>ParsingRuleSet\<close>, which reads rules from
  text, keeps the rules, the completers, the terminals and the compiled scanner, and lexes, parses
  and completes with them.
\<close>

section \<open>Lexing errors\<close>

definition last_line :: "string \<Rightarrow> string" where
  "last_line s = rev (takeWhile (\<lambda>c. c \<noteq> newline) (rev s))"

definition lexing_error_from_text :: "string \<Rightarrow> string \<Rightarrow> string \<Rightarrow> exn" where
  "lexing_error_from_text rulestr unmatched msg =
     (let bad_char = length rulestr - length unmatched;
          prefix = take bad_char rulestr;
          linenum = length (filter (\<lambda>c. c = newline) prefix) + 1;
          charnum = length (last_line prefix) + 1
      in LexingError linenum charnum msg)"

fun lexing_error_str :: "exn \<Rightarrow> string" where
  "lexing_error_str (LexingError linenum charnum msg) =
     msg @ '' at line '' @ nat_str linenum @ '', char '' @ nat_str charnum"
| "lexing_error_str e = []"

section \<open>Tokens of a rule text\<close>

datatype rtok = RPlain string | RTup string string

datatype raction = APlain | ACollector | ASymbol | ARegex | ALitstring | AReference | AJunk

definition rule_spec_lexicon :: "(string \<times> raction option) list" where
  "rule_spec_lexicon =
    [(''::='', Some APlain),
     ([bslash] @ ''[[a-z0-9_]+'' @ [bslash] @ '']='', Some ACollector),
     (''[a-z0-9_]+='', Some ASymbol),
     (''/('' @ [bslash] @ ''['' @ [bslash] @ ''^?.[^]]*'' @ [bslash] @ '']|[^/]|'' @ [bslash, bslash] @ ''.)*/'',
        Some ARegex),
     ([dquote] @ ''([^'' @ [dquote] @ '']|'' @ [bslash, bslash] @ ''.)*'' @ [dquote], Some ALitstring),
     (''<[^>]*>'', Some AReference),
     (word_boundary @ ''JUNK'' @ word_boundary, Some AJunk),
     (''[@()|?*;]'', Some APlain),
     ([bslash] @ ''s+'', None),
     (''#[^'' @ [bslash] @ ''n]*'', None)]"

definition unescape_slashes :: "string \<Rightarrow> string" where
  "unescape_slashes t = str_replace [bslash, CHR ''/''] ''/'' t"

fun rule_action :: "raction \<Rightarrow> string \<Rightarrow> rtok" where
  "rule_action APlain t = RPlain t"
| "rule_action ACollector t = RTup ''named_collector'' (butlast (inner t))"
| "rule_action ASymbol t = RTup ''named_symbol'' (butlast t)"
| "rule_action ARegex t = RTup ''regex'' (unescape_slashes (inner t))"
| "rule_action ALitstring t = RTup ''litstring'' t"
| "rule_action AReference t = RTup ''reference'' (inner t)"
| "rule_action AJunk t = RTup ''junk'' t"

definition scan_rule_spec :: "string \<Rightarrow> rtok list res" where
  "scan_rule_spec rulestr =
     ebind (safer_scanner rule_spec_lexicon ''is'') (\<lambda>lx.
       let (toks, unmatched) = scan True lx rulestr in
       if unmatched \<noteq> [] then
         Inl (lexing_error_from_text rulestr unmatched ''Syntax rules unparseable'')
       else Inr (map (\<lambda>(a, t, span). rule_action a t) toks))"

section \<open>Reading one rule\<close>

text \<open>\<open>eval\<close> of a string literal.\<close>

fun unescape :: "string \<Rightarrow> string" where
  "unescape [] = []"
| "unescape [c] = [c]"
| "unescape (c # d # s) =
     (if c = bslash then
        (if d = CHR ''n'' then newline # unescape s
         else if d = CHR ''t'' then CHR 0x09 # unescape s
         else if d = bslash \<or> d = squote \<or> d = dquote then d # unescape s
         else c # d # unescape s)
      else c # unescape (d # s))"

definition eval_litstring :: "string \<Rightarrow> string" where
  "eval_litstring t = unescape (inner t)"

definition mkrule :: "matcher list \<Rightarrow> matcher" where
  "mkrule pieces = (case pieces of [p] \<Rightarrow> p | _ \<Rightarrow> RuleSeries pieces)"

definition finish_rule :: "matcher list list \<Rightarrow> matcher list \<Rightarrow> matcher" where
  "finish_rule closed cur =
     (if closed = [] then mkrule cur else Choice (map mkrule (closed @ [cur])))"

definition litstring_rule :: "string \<Rightarrow> matcher" where
  "litstring_rule t =
     (if is_alnum (t ! 1) \<or> t ! 1 = CHR ''_'' then WordMatch (eval_litstring t)
      else TextMatch (eval_litstring t))"

definition regex_rule :: "string \<Rightarrow> matcher out" where
  "regex_rule pat =
     (if parse_pattern (pat @ ''$'') = None then Raise (ValueError ''bad pattern'') else Ret (RegexRule pat))"

datatype endspec = EndTok string | EndCount nat

text \<open>
  \<open>read_rule_tokens_until\<close>. The state of its loop: the number of tokens read, the finished branches
  and the open one. The iterator it shares with its callers is the list of tokens still to come,
  returned with the result. A branch separator skips the test of the count, as the \<open>continue\<close> does.
\<close>

fun read_rule :: "nat \<Rightarrow> endspec \<Rightarrow> nat \<Rightarrow> matcher list list \<Rightarrow> matcher list \<Rightarrow> rtok list \<Rightarrow>
    (matcher \<times> rtok list) out" where
  "read_rule 0 endtoks cnt closed cur toks = Diverge"
| "read_rule (Suc n) endtoks cnt closed cur [] = Raise (ValueError ''Unexpected end of rule tokens'')"
| "read_rule (Suc n) endtoks cnt closed cur (t # toks) =
     (let push = (\<lambda>cur' m rest.
            if endtoks = EndCount (Suc cnt) then Ret (finish_rule closed (cur' @ [m]), rest)
            else read_rule n endtoks (Suc cnt) closed (cur' @ [m]) rest)
      in case t of
        RTup kind txt \<Rightarrow>
          if kind = ''reference'' then push cur (RuleReference txt) toks
          else if kind = ''litstring'' then push cur (litstring_rule txt) toks
          else if kind = ''regex'' then obind (regex_rule txt) (\<lambda>m. push cur m toks)
          else if kind = ''named_collector'' then
            obind (read_rule n (EndCount 1) 0 [] [] toks) (\<lambda>(m, rest). push cur (NamedCollector txt m) rest)
          else if kind = ''named_symbol'' then
            obind (read_rule n (EndCount 1) 0 [] [] toks) (\<lambda>(m, rest). push cur (NamedSymbol txt m) rest)
          else push cur (RawToken txt) toks
      | RPlain p \<Rightarrow>
          if endtoks = EndTok p then Ret (finish_rule closed cur, toks)
          else if p = ''('' then
            obind (read_rule n (EndTok '')'') 0 [] [] toks) (\<lambda>(m, rest). push cur m rest)
          else if p = ''?'' then
            (if cur = [] then Raise IndexError else push (butlast cur) (OneOrNone (last cur)) toks)
          else if p = ''*'' then
            (if cur = [] then Raise IndexError else push (butlast cur) (Repeat (last cur)) toks)
          else if p = ''@'' then
            (case toks of
               [] \<Rightarrow> Raise StopIteration
             | x # rest \<Rightarrow>
                 (case x of
                    RTup kind txt \<Rightarrow>
                      if kind = ''litstring'' then push cur (CaseMatch (eval_litstring txt)) rest
                      else Raise (ValueError ''Unexpected token following @'')
                  | RPlain _ \<Rightarrow> Raise (ValueError ''Unexpected token following @'')))
          else if p = ''|'' then read_rule n endtoks (Suc cnt) (closed @ [cur]) [] toks
          else if cur = [] then Raise IndexError
          else Raise (ValueError ''Unparseable rule token''))"

declare read_rule.simps(3) [simp del]

lemma regex_rule_not_Diverge [simp]: "regex_rule t \<noteq> Diverge"
  by (simp add: regex_rule_def)

lemma read_rule_consumes:
  "read_rule n endtoks cnt closed cur toks = Ret (m, rest) \<Longrightarrow> length rest < length toks"
proof (induction n arbitrary: endtoks cnt closed cur toks m rest)
  case (Suc n)
  show ?case
  proof (cases toks)
    case Nil
    with Suc.prems show ?thesis by simp
  next
    case (Cons t toks')
    have IH: "length r < length ts" if "read_rule n e k cl cu ts = Ret (m', r)" for e k cl cu ts m' r
      using Suc.IH that .
    show ?thesis
      using Suc.prems unfolding Cons
      by (auto simp: read_rule.simps(3) Let_def result_simps split: rtok.splits if_splits list.splits
          dest!: IH)
  qed
qed simp

lemma not_Diverge_intros:
  "m \<noteq> Diverge \<Longrightarrow> (\<And>x. m = Ret x \<Longrightarrow> f x \<noteq> Diverge) \<Longrightarrow> obind m f \<noteq> Diverge"
  "(b \<Longrightarrow> m \<noteq> Diverge) \<Longrightarrow> (\<not> b \<Longrightarrow> m' \<noteq> Diverge) \<Longrightarrow> (if b then m else m') \<noteq> Diverge"
  "(\<And>a b. p = (a, b) \<Longrightarrow> g a b \<noteq> Diverge) \<Longrightarrow> (case p of (a, b) \<Rightarrow> g a b) \<noteq> Diverge"
  "(xs = [] \<Longrightarrow> m \<noteq> Diverge) \<Longrightarrow> (\<And>y ys. xs = y # ys \<Longrightarrow> h y ys \<noteq> Diverge) \<Longrightarrow>
     (case xs of [] \<Rightarrow> m | y # ys \<Rightarrow> h y ys) \<noteq> Diverge"
  "(\<And>a b. t = RTup a b \<Longrightarrow> u a b \<noteq> Diverge) \<Longrightarrow> (\<And>a. t = RPlain a \<Longrightarrow> v a \<noteq> Diverge) \<Longrightarrow>
     (case t of RPlain a \<Rightarrow> v a | RTup a b \<Rightarrow> u a b) \<noteq> Diverge"
  "Raise e \<noteq> Diverge" "Ret x \<noteq> Diverge"
  by (simp_all add: result_simps split: prod.splits list.splits rtok.splits)

lemma read_rule_enough: "length toks < n \<Longrightarrow> read_rule n endtoks cnt closed cur toks \<noteq> Diverge"
proof (induction n arbitrary: endtoks cnt closed cur toks)
  case (Suc n)
  show ?case
  proof (cases toks)
    case (Cons t toks')
    with Suc.prems have IH: "read_rule n e k cl cu ts \<noteq> Diverge" if "length ts \<le> length toks'" for e k cl cu ts
      using Suc.IH that by simp
    have nested: "read_rule n e' k' cl' cu' r \<noteq> Diverge"
      if "read_rule n e k cl cu toks' = Ret p" "p = (m', r)" for e k cl cu m' r p e' k' cl' cu'
      using read_rule_consumes [of n e k cl cu toks' m' r] that by (simp add: IH)
    have rest: "read_rule n e k cl cu r \<noteq> Diverge" if "toks' = x # r" for e k cl cu x r
      using that by (simp add: IH)
    show ?thesis unfolding Cons read_rule.simps(3) Let_def
      by (intro not_Diverge_intros) (erule nested rest, assumption? | rule IH regex_rule_not_Diverge order_refl)+
  qed simp
qed simp

definition read_rule_tokens_until :: "endspec \<Rightarrow> rtok list \<Rightarrow> (matcher \<times> rtok list) res" where
  "read_rule_tokens_until endtoks toks =
     (case read_rule (Suc (length toks)) endtoks 0 [] [] toks of
        Ret r \<Rightarrow> Inr r | Raise e \<Rightarrow> Inl e | Diverge \<Rightarrow> Inl AssertionError)"

lemma read_rule_tokens_until_consumes:
  "read_rule_tokens_until endtoks toks = Inr (m, rest) \<Longrightarrow> length rest < length toks"
  by (auto simp: read_rule_tokens_until_def split: out.splits dest: read_rule_consumes)

section \<open>Reading a rule text\<close>

text \<open>
  The dict of rules is a list with the newest definition first, so that \<open>map_of\<close> finds what the dict
  holds; the terminals are in the order of the text.
\<close>

type_synonym rules = "(string \<times> matcher) list"

function parse_rule_tokens :: "rtok list \<Rightarrow> rules \<Rightarrow> rules \<Rightarrow> (rules \<times> rules) res" where
  "parse_rule_tokens [] rules terminals = Inr (rules, terminals)"
| "parse_rule_tokens (t # toks) rules terminals =
     (case t of
        RPlain p \<Rightarrow> Inl (ValueError ''Unexpected token; expected name'')
      | RTup kind name \<Rightarrow>
          if kind \<noteq> ''reference'' \<and> kind \<noteq> ''junk'' then
            Inl (ValueError ''Unexpected token; expected name'')
          else (case toks of
              [] \<Rightarrow> Inl StopIteration
            | assign # toks' \<Rightarrow>
                if assign \<noteq> RPlain ''::='' then Inl (ValueError ''Unexpected token; expected ::='')
                else ebind (read_rule_tokens_until (EndTok '';'') toks') (\<lambda>(production, rest).
                  if is_terminal production then
                    parse_rule_tokens rest ((name, TerminalType name production) # rules)
                      (terminals @ [(name, production)])
                  else parse_rule_tokens rest ((name, production) # rules) terminals)))"
  by pat_completeness auto
termination
  by (relation "measure (\<lambda>(toks, r, t). length toks)")
    (auto dest!: read_rule_tokens_until_consumes)

definition parse_rules :: "string \<Rightarrow> (rules \<times> rules) res" where
  "parse_rules rulestr = ebind (scan_rule_spec rulestr) (\<lambda>toks. parse_rule_tokens toks [] [])"

section \<open>The rule set object\<close>

record prs =
  prs_rules :: rules
  prs_completers :: "string \<times> string \<rightharpoonup> completer"
  prs_scanner :: "string lexicon option"
  prs_terminals :: rules

definition new_rule_set :: prs where
  "new_rule_set = \<lparr>prs_rules = [], prs_completers = Map.empty, prs_scanner = None, prs_terminals = []\<rparr>"

definition from_rule_defs :: "string \<Rightarrow> prs res" where
  "from_rule_defs rule_defs = ebind (parse_rules rule_defs) (\<lambda>(rules, terminals).
     Inr (new_rule_set\<lparr>prs_rules := rules, prs_terminals := terminals\<rparr>))"

definition add_rules :: "rules \<times> rules \<Rightarrow> prs \<Rightarrow> prs" where
  "add_rules rt p =
     (let p' = p\<lparr>prs_rules := fst rt @ prs_rules p, prs_terminals := prs_terminals p @ snd rt\<rparr>
      in if snd rt \<noteq> [] then p'\<lparr>prs_scanner := None\<rparr> else p')"

definition append_rules :: "string \<Rightarrow> prs \<Rightarrow> prs res" where
  "append_rules rulestr p = ebind (parse_rules rulestr) (\<lambda>rt. Inr (add_rules rt p))"

definition register_completer :: "completer \<Rightarrow> string \<Rightarrow> string \<Rightarrow> prs \<Rightarrow> prs" where
  "register_completer func rulename symname p =
     p\<lparr>prs_completers := (prs_completers p)((rulename, symname) \<mapsto> func)\<rparr>"

definition env_of :: "prs \<Rightarrow> env" where
  "env_of p = \<lparr>ruleset = map_of (prs_rules p), completers = prs_completers p\<rparr>"

definition lexicon_of :: "rules \<Rightarrow> (string \<times> string option) list" where
  "lexicon_of terminals =
     map (\<lambda>(name, p). (the (terminal_pattern p), if name = ''JUNK'' then None else Some name)) terminals"

definition make_lexer :: "prs \<Rightarrow> string lexicon res" where
  "make_lexer p = safer_scanner (lexicon_of (prs_terminals p)) ''is''"

definition lex :: "string \<Rightarrow> prs \<Rightarrow> (token list \<times> prs) res" where
  "lex txt p =
     ebind (case prs_scanner p of Some lx \<Rightarrow> Inr lx | None \<Rightarrow> make_lexer p) (\<lambda>lx.
       let (tokens, unmatched) = scan True lx txt in
       if unmatched \<noteq> [] then Inl (lexing_error_from_text txt unmatched ''text could not be lexed'')
       else Inr (tokens, p\<lparr>prs_scanner := Some lx\<rparr>))"

type_synonym binds = "string \<rightharpoonup> bindval"

definition start_ctxt :: "string \<Rightarrow> token list \<Rightarrow> binds \<Rightarrow> ctxt" where
  "start_ctxt startsymbol tokens init =
     \<lparr>bindings = init, matched = [], remainder = tokens, productionname = startsymbol\<rparr>"

definition parse :: "nat \<Rightarrow> prs \<Rightarrow> string \<Rightarrow> token list \<Rightarrow> binds \<Rightarrow> ctxt list out" where
  "parse n p startsymbol tokens init =
     (case map_of (prs_rules p) startsymbol of
        None \<Rightarrow> Raise KeyError
      | Some pattern \<Rightarrow>
          obind (mtch n (env_of p) pattern (start_ctxt startsymbol tokens init) None)
            (\<lambda>(cs, s). Ret cs))"

definition src_binding :: "string option \<Rightarrow> binds" where
  "src_binding srcstr = (case srcstr of None \<Rightarrow> Map.empty | Some s \<Rightarrow> [''*SRC*'' \<mapsto> BStr s])"

definition whole_match :: "nat \<Rightarrow> prs \<Rightarrow> string \<Rightarrow> token list \<Rightarrow> string option \<Rightarrow> ctxt option out" where
  "whole_match n p startsymbol tokens srcstr =
     obind (parse n p startsymbol tokens (src_binding srcstr)) (\<lambda>cs.
       Ret (List.find (\<lambda>c. remainder c = []) cs))"

definition lex_and_parse :: "nat \<Rightarrow> prs \<Rightarrow> string \<Rightarrow> string \<Rightarrow> (ctxt list \<times> prs) out" where
  "lex_and_parse n p txt startsymbol =
     obind (of_res (lex txt p)) (\<lambda>(tokens, p').
       obind (parse n p' startsymbol tokens [''*SRC*'' \<mapsto> BStr txt]) (\<lambda>cs. Ret (cs, p')))"

definition lex_and_whole_match :: "nat \<Rightarrow> prs \<Rightarrow> string \<Rightarrow> string \<Rightarrow> (ctxt option \<times> prs) out" where
  "lex_and_whole_match n p txt startsymbol =
     obind (of_res (lex txt p)) (\<lambda>(tokens, p').
       obind (whole_match n p' startsymbol tokens (Some txt)) (\<lambda>r. Ret (r, p')))"

definition complete :: "nat \<Rightarrow> prs \<Rightarrow> string \<Rightarrow> token list \<Rightarrow> binds \<Rightarrow> citem list out" where
  "complete n p startsymbol tokens init =
     (case map_of (prs_rules p) startsymbol of
        None \<Rightarrow> Raise KeyError
      | Some pattern \<Rightarrow>
          obind (mtch n (env_of p) pattern (start_ctxt startsymbol tokens init) (Some []))
            (\<lambda>(cs, s). Ret (the s)))"

section \<open>The cached scanner\<close>

text \<open>
  What the methods of one object can do, in any order. A call that raises leaves the object as it was,
  except that \<open>lex\<close> may have built the scanner before the text turned out not to be lexable.
\<close>

definition fresh_rule_set :: "prs \<Rightarrow> bool" where
  "fresh_rule_set p \<longleftrightarrow> p = new_rule_set \<or> (\<exists>txt. from_rule_defs txt = Inr p)"

inductive prs_step :: "prs \<Rightarrow> prs \<Rightarrow> bool" where
  step_append: "append_rules rulestr p = Inr p' \<Longrightarrow> prs_step p p'"
| step_register: "prs_step p (register_completer func rulename symname p)"
| step_lex: "lex txt p = Inr (toks, p') \<Longrightarrow> prs_step p p'"
| step_lex_error: "prs_scanner p = None \<Longrightarrow> make_lexer p = Inr lx \<Longrightarrow> prs_step p (p\<lparr>prs_scanner := Some lx\<rparr>)"

inductive_cases prs_stepE: "prs_step p p'"

definition scanner_current :: "prs \<Rightarrow> bool" where
  "scanner_current p \<longleftrightarrow> (\<forall>lx. prs_scanner p = Some lx \<longrightarrow> make_lexer p = Inr lx)"

lemma scanner_current_append: "append_rules rulestr p = Inr p' \<Longrightarrow> scanner_current p \<Longrightarrow> scanner_current p'"
  by (auto simp: append_rules_def add_rules_def result_simps Let_def scanner_current_def make_lexer_def
      split: if_splits)

lemma lex_Inr_iff:
  "lex txt p = Inr (toks, p') \<longleftrightarrow>
     (\<exists>lx. (case prs_scanner p of Some lx \<Rightarrow> Inr lx | None \<Rightarrow> make_lexer p) = Inr lx \<and>
       scan True lx txt = (toks, []) \<and> p' = p\<lparr>prs_scanner := Some lx\<rparr>)"
  by (auto simp: lex_def result_simps Let_def case_prod_unfold prod_eq_iff split: if_splits)

lemma scanner_current_lex: "lex txt p = Inr (toks, p') \<Longrightarrow> scanner_current p \<Longrightarrow> scanner_current p'"
  by (auto simp: lex_Inr_iff scanner_current_def make_lexer_def split: option.splits)

interpretation ruleset_machine: safe_machine fresh_rule_set prs_step scanner_current
  by unfold_locales
    (auto simp: fresh_rule_set_def from_rule_defs_def new_rule_set_def result_simps scanner_current_def
        register_completer_def make_lexer_def
      elim!: prs_stepE dest: scanner_current_append scanner_current_lex)

text \<open>C10: caching the compiled scanner is invisible.\<close>

theorem lex_ignores_cache:
  assumes "reach fresh_rule_set prs_step p"
  shows "lex txt p = lex txt (p\<lparr>prs_scanner := None\<rparr>)"
  using ruleset_machine.reach_inv [OF assms]
  by (auto simp: lex_def scanner_current_def make_lexer_def case_prod_unfold Let_def
      split: option.splits cong: if_cong)


section \<open>Parsing with a rule set\<close>

lemma parse_mono:
  assumes "parse n p start toks init = Ret cs" and "n \<le> n'"
  shows "parse n' p start toks init = Ret cs"
proof -
  from assms(1) obtain pattern s where pattern: "map_of (prs_rules p) start = Some pattern"
    and run: "mtch n (env_of p) pattern (start_ctxt start toks init) None = Ret (cs, s)"
    by (auto simp: parse_def result_simps split: option.splits)
  from mtch_mono [OF run _ assms(2)] pattern show ?thesis by (simp add: parse_def)
qed

lemma parse_sound:
  assumes "parse n p start toks init = Ret cs" and "c \<in> set cs"
  shows "\<exists>pattern ts. map_of (prs_rules p) start = Some pattern \<and>
    derives (map_of (prs_rules p)) pattern ts \<and> matched c = ts \<and> toks = ts @ remainder c"
  using assms mtch_sound [of n "env_of p"]
  by (force simp: parse_def result_simps env_of_def start_ctxt_def adv_by_def moved_def split: option.splits)

lemma parse_complete:
  assumes "parse n p start (ts @ r) init = Ret cs" and "map_of (prs_rules p) start = Some pattern"
    and "derives (map_of (prs_rules p)) pattern ts"
  shows "\<exists>c \<in> set cs. matched c = ts \<and> remainder c = r"
proof -
  have "finds (mtch n (env_of p) pattern) ts"
    using mtch_complete [of "env_of p" pattern ts n] assms(3) by (simp add: env_of_def)
  moreover from assms(1,2) obtain s where
    "mtch n (env_of p) pattern (start_ctxt start (ts @ r) init) None = Ret (cs, s)"
    by (auto simp: parse_def result_simps)
  ultimately have "\<exists>d \<in> set cs. moved ts (start_ctxt start (ts @ r) init) d \<and> remainder d = r"
    using findsD [of "mtch n (env_of p) pattern" ts "start_ctxt start (ts @ r) init" r cs s]
    by (simp add: start_ctxt_def)
  then show ?thesis by (auto simp: moved_def start_ctxt_def)
qed

lemma whole_match_decides:
  assumes "whole_match n p start toks src = Ret r"
  shows "(r \<noteq> None) = (\<exists>pattern. map_of (prs_rules p) start = Some pattern \<and>
      derives (map_of (prs_rules p)) pattern toks) \<and>
    (case r of None \<Rightarrow> True | Some c \<Rightarrow> matched c = toks \<and> remainder c = [])"
proof -
  from assms obtain cs where cs: "parse n p start toks (src_binding src) = Ret cs"
    and r: "r = List.find (\<lambda>c. remainder c = []) cs"
    by (auto simp: whole_match_def result_simps)
  show ?thesis
  proof (cases r)
    case None
    then have none: "\<forall>c \<in> set cs. remainder c \<noteq> []" using r by (auto simp: find_None_iff)
    have "\<not> derives (map_of (prs_rules p)) pattern toks" if "map_of (prs_rules p) start = Some pattern" for pattern
      using parse_complete [of n p start toks "[]" _ cs pattern] cs that none by auto
    with None show ?thesis by auto
  next
    case (Some c)
    then have "c \<in> set cs" "remainder c = []" using r by (auto simp: find_Some_iff)
    with parse_sound [OF cs] Some show ?thesis by fastforce
  qed
qed

text \<open>C2: whole_match decides the language of the rules.\<close>

theorem whole_match_correct:
  assumes "whole_match n p start toks src = Ret r"
  shows "(r \<noteq> None) = (\<exists>pattern. map_of (prs_rules p) start = Some pattern \<and>
      derives (map_of (prs_rules p)) pattern toks) \<and>
    (case r of None \<Rightarrow> True | Some c \<Rightarrow> matched c = toks \<and> remainder c = [])"
  by (rule whole_match_decides [OF assms])

lemma parse_returns_aux:
  assumes "wf_rules N rank lim (prs_rules p)"
  shows "\<exists>n. parse n p start toks init \<noteq> Diverge"
proof (cases "map_of (prs_rules p) start")
  case None
  then show ?thesis by (simp add: parse_def)
next
  case (Some pattern)
  from wf_rulesD [OF assms Some] obtain r where r: "r < lim" "wfm N rank lim r pattern" by blast
  have "returns (env_of p) pattern (start_ctxt start toks init)"
    by (rule mtch_returns [OF assms _ r(2) _ order_refl]) (use r in \<open>simp_all add: env_of_def\<close>)
  then obtain n where "mtch n (env_of p) pattern (start_ctxt start toks init) None \<noteq> Diverge"
    unfolding returns_def by blast
  with Some show ?thesis by (intro exI [of _ n]) (auto simp: parse_def result_simps split: prod.splits)
qed

text \<open>C3: collecting completions terminates for a well-founded rule set.\<close>

theorem complete_returns:
  assumes "wf_rules N rank lim (prs_rules p)"
  shows "\<exists>n. complete n p start toks init \<noteq> Diverge"
proof (cases "map_of (prs_rules p) start")
  case None
  then show ?thesis by (simp add: complete_def)
next
  case (Some pattern)
  from wf_rulesD [OF assms Some] obtain r where r: "r < lim" "wfm N rank lim r pattern" by blast
  have "returns (env_of p) pattern (start_ctxt start toks init)"
    by (rule mtch_returns [OF assms _ r(2) _ order_refl]) (use r in \<open>simp_all add: env_of_def\<close>)
  then obtain n where "mtch n (env_of p) pattern (start_ctxt start toks init) (Some []) \<noteq> Diverge"
    unfolding returns_def by blast
  with Some show ?thesis by (intro exI [of _ n]) (auto simp: complete_def result_simps split: prod.splits)
qed

end
