(* ===== verification/Util.thy ===== *)
theory Util
  imports Prelude "HOL-Library.Sublist"
begin

text \<open>
  \<open>cqlshlib/util.py\<close>: splitting a list after the elements that satisfy a predicate, the longest
  common prefix of some strings, the two-way filter, and \<open>trim_if_present\<close>.
\<close>

section \<open>Splitting\<close>

text \<open>The loop of \<open>split_list\<close>: \<open>closed\<close> are the finished sublists, \<open>cur\<close> the open one.\<close>

fun split_loop :: "('a \<Rightarrow> bool) \<Rightarrow> 'a list list \<Rightarrow> 'a list \<Rightarrow> 'a list \<Rightarrow> 'a list list" where
  "split_loop pred closed cur [] = closed @ [cur]"
| "split_loop pred closed cur (i # is) =
     (if pred i then split_loop pred (closed @ [cur @ [i]]) [] is
      else split_loop pred closed (cur @ [i]) is)"

definition split_list :: "'a list \<Rightarrow> ('a \<Rightarrow> bool) \<Rightarrow> 'a list list" where
  "split_list items pred = split_loop pred [] [] items"

lemma split_loop_append: "split_loop pred (cs @ closed) cur xs = cs @ split_loop pred closed cur xs"
  by (induction xs arbitrary: closed cur) auto

lemma split_loop_nonempty [simp]: "split_loop pred closed cur xs \<noteq> []"
  by (induction xs arbitrary: closed cur) auto

lemma concat_split_loop: "concat (split_loop pred closed cur xs) = concat closed @ cur @ xs"
  by (induction xs arbitrary: closed cur) auto

lemma length_split_loop:
  "length (split_loop pred closed cur xs) = Suc (length closed + length (filter pred xs))"
  by (induction xs arbitrary: closed cur) auto

text \<open>A sublist is closed exactly by its last element.\<close>

definition closed_chunk :: "('a \<Rightarrow> bool) \<Rightarrow> 'a list \<Rightarrow> bool" where
  "closed_chunk pred c \<longleftrightarrow> (\<exists>b x. c = b @ [x] \<and> pred x \<and> (\<forall>y \<in> set b. \<not> pred y))"

lemma split_loop_chunks:
  assumes "\<forall>y \<in> set cur. \<not> pred y" and "\<forall>c \<in> set closed. closed_chunk pred c"
  shows "(\<forall>c \<in> set (butlast (split_loop pred closed cur xs)). closed_chunk pred c) \<and>
    (\<forall>y \<in> set (last (split_loop pred closed cur xs)). \<not> pred y)"
  using assms
proof (induction xs arbitrary: closed cur)
  case (Cons x xs)
  show ?case
  proof (cases "pred x")
    case True
    then have "closed_chunk pred (cur @ [x])"
      using Cons.prems(1) by (auto simp: closed_chunk_def)
    then have "\<forall>c \<in> set (closed @ [cur @ [x]]). closed_chunk pred c"
      using Cons.prems(2) by simp
    from Cons.IH [OF _ this, of "[]"] True show ?thesis by (simp only: split_loop.simps if_True) simp
  next
    case False
    then have "\<forall>y \<in> set (cur @ [x]). \<not> pred y"
      using Cons.prems(1) by simp
    from Cons.IH [OF this Cons.prems(2)] False show ?thesis by (simp only: split_loop.simps if_False)
  qed
qed simp

section \<open>Common prefix\<close>

text \<open>
  \<open>izip(*strs)\<close> stops at the shortest string and yields nothing for no strings; the loop stops at
  the first column that is not constant.
\<close>

function find_common_prefix :: "string list \<Rightarrow> string" where
  "find_common_prefix strs =
     (if strs = [] \<or> (\<exists>s \<in> set strs. s = []) then []
      else (let c = hd (hd strs) in
        if \<forall>s \<in> set (tl strs). hd s = c then c # find_common_prefix (map tl strs) else []))"
  by pat_completeness auto
termination
  by (relation "measure (\<lambda>strs. length (hd strs))") (auto simp: neq_Nil_conv)

declare find_common_prefix.simps [simp del]

lemma find_common_prefix_prefix: "s \<in> set strs \<Longrightarrow> prefix (find_common_prefix strs) s"
proof (induction strs arbitrary: s rule: find_common_prefix.induct)
  case (1 strs)
  show ?case
  proof (cases "strs = [] \<or> (\<exists>s \<in> set strs. s = []) \<or> \<not> (\<forall>s \<in> set (tl strs). hd s = hd (hd strs))")
    case True
    then show ?thesis by (auto simp: find_common_prefix.simps [of strs] Let_def)
  next
    case False
    then have ne: "s \<noteq> []" using "1.prems" by auto
    have "hd s = hd (hd strs)" using False "1.prems" by (cases strs) auto
    moreover have "prefix (find_common_prefix (map tl strs)) (tl s)"
      using False "1.IH" "1.prems" by auto
    ultimately have "prefix (hd (hd strs) # find_common_prefix (map tl strs)) s"
      using ne by (cases s) auto
    with False show ?thesis by (simp add: find_common_prefix.simps [of strs] Let_def)
  qed
qed

lemma find_common_prefix_greatest:
  "strs \<noteq> [] \<Longrightarrow> \<forall>s \<in> set strs. prefix p s \<Longrightarrow> prefix p (find_common_prefix strs)"
proof (induction strs arbitrary: p rule: find_common_prefix.induct)
  case (1 strs)
  show ?case
  proof (cases p)
    case (Cons c p')
    with "1.prems" have all: "\<forall>s \<in> set strs. s \<noteq> [] \<and> hd s = c \<and> prefix p' (tl s)"
      by (auto simp: prefix_def)
    have hd: "hd (hd strs) = c" using all "1.prems"(1) by simp
    have cond: "\<not> (strs = [] \<or> (\<exists>s \<in> set strs. s = []))" and same: "\<forall>s \<in> set (tl strs). hd s = c"
      using all "1.prems"(1) by (auto dest: list.set_sel(2))
    have "prefix p' (find_common_prefix (map tl strs))"
      using "1.IH" [OF cond hd [symmetric] same] all "1.prems"(1) by auto
    with cond same hd Cons show ?thesis
      by (simp add: find_common_prefix.simps [of strs])
  qed simp
qed

text \<open>
  the common prefix of a list of strings is their longest one: a string is a prefix of all of them
  exactly when it is a prefix of the result.
\<close>

theorem find_common_prefix_longest:
  assumes "strs \<noteq> []"
  shows "prefix p (find_common_prefix strs) = list_all (prefix p) strs"
  using find_common_prefix_prefix find_common_prefix_greatest [OF assms]
  by (auto simp: list_all_iff intro: prefix_order.trans)

theorem find_common_prefix_longest_witness:
  "prefix ''ab'' (find_common_prefix [''abc'', ''abd'']) = list_all (prefix ''ab'') [''abc'', ''abd'']"
  by (rule find_common_prefix_longest) simp

section \<open>Filtering and trimming\<close>

fun bifilter_loop :: "('a \<Rightarrow> bool) \<Rightarrow> 'a list \<Rightarrow> 'a list \<Rightarrow> 'a list \<Rightarrow> 'a list \<times> 'a list" where
  "bifilter_loop pred yes_s no_s [] = (yes_s, no_s)"
| "bifilter_loop pred yes_s no_s (i # is) =
     (if pred i then bifilter_loop pred (yes_s @ [i]) no_s is
      else bifilter_loop pred yes_s (no_s @ [i]) is)"

definition list_bifilter :: "('a \<Rightarrow> bool) \<Rightarrow> 'a list \<Rightarrow> 'a list \<times> 'a list" where
  "list_bifilter pred iterable = bifilter_loop pred [] [] iterable"

lemma bifilter_loop_eq:
  "bifilter_loop pred ys ns xs = (ys @ filter pred xs, ns @ filter (\<lambda>x. \<not> pred x) xs)"
  by (induction xs arbitrary: ys ns) auto

lemma list_bifilter_eq: "list_bifilter pred xs = (filter pred xs, filter (\<lambda>x. \<not> pred x) xs)"
  by (simp add: list_bifilter_def bifilter_loop_eq)

definition identity :: "'a \<Rightarrow> 'a" where
  "identity x = x"

definition trim_if_present :: "string \<Rightarrow> string \<Rightarrow> string" where
  "trim_if_present s pre = (if startswith s pre then drop (length pre) s else s)"

end
