(* ===== verification/Cql_Words.thy ===== *)
theory Cql_Words
  imports Matcher Complex_Main
begin

text \<open>
  Quoting and recognising CQL words: the static and class methods of \<open>CqlParsingRuleSet\<close>
  (\<open>cqlshlib/cqlhandling.py\<close>) and \<open>Cql3ParsingRuleSet\<close> (\<open>cqlshlib/cql3handling.py\<close>) that turn names
  and values into CQL text and back. CQL 2 quotes both with apostrophes, CQL 3 quotes names with
  double quotes.
\<close>

section \<open>Doubling a quote character\<close>

definition quote_double :: "char \<Rightarrow> string \<Rightarrow> string" where
  "quote_double q s = str_replace [q] [q, q] s"

definition quote_single :: "char \<Rightarrow> string \<Rightarrow> string" where
  "quote_single q s = str_replace [q, q] [q] s"

lemma startswith_simps [simp]:
  "startswith s []"
  "startswith (c # s) (d # p) \<longleftrightarrow> c = d \<and> startswith s p"
  "\<not> startswith [] (d # p)"
  by (auto simp: startswith_def)

lemma quote_double_simps [simp, str_simps]:
  "quote_double q [] = []"
  "quote_double q (c # s) = (if c = q then q # q # quote_double q s else c # quote_double q s)"
  by (auto simp: quote_double_def)

lemma quote_single_simps [simp, str_simps]:
  "quote_single q [] = []"
  "quote_single q [c] = [c]"
  "quote_single q (c # d # s) =
     (if c = q \<and> d = q then q # quote_single q s else c # quote_single q (d # s))"
  by (auto simp: quote_single_def)

lemma quote_single_other: "c \<noteq> q \<Longrightarrow> quote_single q (c # s) = c # quote_single q s"
  by (cases s) auto

lemma quote_single_double [simp]: "quote_single q (quote_double q s) = s"
  by (induction s) (auto simp: quote_single_other)

section \<open>CQL 2\<close>

text \<open>
  The values \<open>escape_value\<close> is given. A finite float is the rational it stands for, with its sign
  apart because of \<open>-0.0\<close>.
\<close>

datatype pyfloat = Finite bool rat | Infinite bool | NotANumber

datatype cqlval = VNone | VBool bool | VFloat pyfloat | VInt int | VStr string

text \<open>\<open>'%f' % x\<close>: six decimals of the exact value, ties to even.\<close>

definition round_half_even :: "rat \<Rightarrow> int" where
  "round_half_even r =
     (let k = floor r; d = r - of_int k in
      if d < 1 / 2 then k else if 1 / 2 < d then k + 1 else if even k then k else k + 1)"

definition pad_zeros :: "nat \<Rightarrow> string \<Rightarrow> string" where
  "pad_zeros n s = replicate (n - length s) (CHR ''0'') @ s"

definition format_f :: "pyfloat \<Rightarrow> string" where
  "format_f x =
     (case x of
        NotANumber \<Rightarrow> ''nan''
      | Infinite neg \<Rightarrow> (if neg then ''-inf'' else ''inf'')
      | Finite neg r \<Rightarrow>
          (let m = nat (round_half_even (\<bar>r\<bar> * 1000000)) in
           (if neg then ''-'' else '''') @ nat_str (m div 1000000) @ ''.'' @
           pad_zeros 6 (nat_str (m mod 1000000))))"

definition bool_str :: "bool \<Rightarrow> string" where
  "bool_str b = (if b then ''True'' else ''False'')"

definition cql2_escape_value :: "cqlval \<Rightarrow> string" where
  "cql2_escape_value value =
     (case value of
        VNone \<Rightarrow> ''NULL''
      | VBool b \<Rightarrow> squote # quote_double squote (py_lower (bool_str b)) @ [squote]
      | VFloat x \<Rightarrow> format_f x
      | VInt i \<Rightarrow> int_str i
      | VStr s \<Rightarrow> squote # quote_double squote s @ [squote])"

abbreviation cql2_escape_name :: "string \<Rightarrow> string" where
  "cql2_escape_name s \<equiv> cql2_escape_value (VStr s)"

definition cql2_dequote_value :: "string \<Rightarrow> string" where
  "cql2_dequote_value cqlword =
     (let w = py_strip cqlword in
      if w = [] then w
      else if hd w = squote \<and> last w = squote then quote_single squote (inner w)
      else w)"

definition re_accepts :: "bool \<Rightarrow> string \<Rightarrow> string \<Rightarrow> bool" where
  "re_accepts ci pat s =
     (case parse_pattern pat of None \<Rightarrow> False | Some p \<Rightarrow> match_at ci (pdata p) s 0 \<noteq> None)"

definition valid_cql_word_re :: string where
  "valid_cql_word_re = ''^(?:[a-z][a-z0-9_]*|-?[0-9][0-9.]*)$''"

definition is_valid_cql_word :: "string list \<Rightarrow> string \<Rightarrow> bool" where
  "is_valid_cql_word keywords s \<longleftrightarrow>
     re_accepts True valid_cql_word_re s \<and> py_lower s \<notin> set keywords"

definition cql2_maybe_escape_name :: "string list \<Rightarrow> string \<Rightarrow> string" where
  "cql2_maybe_escape_name keywords name =
     (if is_valid_cql_word keywords name then name else cql2_escape_name name)"

definition cql2_token_dequote :: "token \<Rightarrow> string" where
  "cql2_token_dequote tok =
     (if tok_type tok = ''stringLiteral'' then quote_single squote (inner (tok_text tok))
      else if tok_type tok = ''unclosedString'' then quote_single squote (drop 1 (tok_text tok))
      else if tok_type tok = ''unclosedComment'' then []
      else tok_text tok)"

definition token_is_word :: "token \<Rightarrow> bool" where
  "token_is_word tok \<longleftrightarrow> tok_type tok = ''identifier''"

definition cql_extract_orig :: "token list \<Rightarrow> string \<Rightarrow> string" where
  "cql_extract_orig toklist srcstr = slice (tok_lo (hd toklist)) (tok_hi (last toklist)) srcstr"

section \<open>CQL 3\<close>

definition cql3_escape_value :: "cqlval \<Rightarrow> string" where
  "cql3_escape_value value = cql2_escape_value value"

definition cql3_dequote_value :: "string \<Rightarrow> string" where
  "cql3_dequote_value value = cql2_dequote_value value"

definition cql3_dequote_name :: "string \<Rightarrow> string" where
  "cql3_dequote_name name =
     (let w = py_strip name in
      if w = [] then w
      else if hd w = dquote \<and> last w = dquote then quote_single dquote (inner w)
      else w)"

definition cql3_escape_name :: "string \<Rightarrow> string" where
  "cql3_escape_name name = dquote # quote_double dquote name @ [dquote]"

definition valid_cql3_word_re :: string where
  "valid_cql3_word_re = ''^[a-z][0-9a-z_]*$''"

definition is_valid_cql3_name :: "string list \<Rightarrow> string list \<Rightarrow> string option \<Rightarrow> bool" where
  "is_valid_cql3_name keywords unreserved s =
     (case s of
        None \<Rightarrow> False
      | Some w \<Rightarrow>
          if py_lower w \<in> set keywords \<and> py_lower w \<notin> set unreserved then False
          else re_accepts False valid_cql3_word_re w)"

definition cql3_maybe_escape_name :: "string list \<Rightarrow> string list \<Rightarrow> string \<Rightarrow> string" where
  "cql3_maybe_escape_name keywords unreserved name =
     (if is_valid_cql3_name keywords unreserved (Some name) then name else cql3_escape_name name)"

definition cql3_token_dequote :: "token \<Rightarrow> string" where
  "cql3_token_dequote tok =
     (if tok_type tok = ''unclosedName'' then quote_single dquote (drop 1 (tok_text tok))
      else cql2_token_dequote tok)"

definition cql3_dequote_any :: "string \<Rightarrow> string res" where
  "cql3_dequote_any t =
     (if t = [] then Inl IndexError
      else Inr (if hd t = dquote then cql3_dequote_name t else cql2_dequote_value t))"

section \<open>Quoted words read back\<close>

lemma dropWhile_not [simp]: "\<not> P x \<Longrightarrow> dropWhile P (x # xs) = x # xs"
  by simp

lemma py_strip_quoted: "\<not> is_space a \<Longrightarrow> \<not> is_space b \<Longrightarrow> py_strip (a # s @ [b]) = a # s @ [b]"
  by (simp add: py_strip_def)

lemma py_strip_spaceless: "\<forall>c \<in> set s. \<not> is_space c \<Longrightarrow> py_strip s = s"
  by (rule py_strip_id) (cases "s = []"; simp)

lemma quotes_not_space [simp]: "\<not> is_space squote" "\<not> is_space dquote"
  by (simp_all add: is_space_def code_point_def)

lemma cql2_dequote_quoted: "cql2_dequote_value (squote # quote_double squote s @ [squote]) = s"
  by (simp add: cql2_dequote_value_def py_strip_quoted)

lemma cql3_dequote_quoted: "cql3_dequote_name (cql3_escape_name s) = s"
  by (simp add: cql3_dequote_name_def cql3_escape_name_def py_strip_quoted)

section \<open>What the word patterns accept\<close>

lemma more_ends_one_char:
  "set (more_ends True (one_char s P) n i) =
     {j. i \<le> j \<and> j \<le> max i (length s) \<and> j - i \<le> n \<and> (\<forall>k. i \<le> k \<and> k < j \<longrightarrow> P (s ! k))}"
proof (induction n arbitrary: i)
  case 0
  then show ?case by auto
next
  case (Suc n)
  have step: "set (more_ends True (one_char s P) (Suc n) i) =
      (if i < length s \<and> P (s ! i) then set (more_ends True (one_char s P) n (Suc i)) else {}) \<union> {i}"
    by (auto simp: one_char_def Let_def)
  show ?case
  proof (cases "i < length s \<and> P (s ! i)")
    case True
    have "(\<forall>k. i \<le> k \<and> k < j \<longrightarrow> P (s ! k)) \<longleftrightarrow> (\<forall>k. Suc i \<le> k \<and> k < j \<longrightarrow> P (s ! k))" for j
      using True by (metis Suc_leI le_neq_implies_less Suc_leD)
    with True show ?thesis unfolding step Suc.IH by (auto simp: max_def split: if_splits)
  next
    case False
    then have "set (more_ends True (one_char s P) (Suc n) i) = {i}" unfolding step by auto
    moreover have "j = i" if "i \<le> j" "j \<le> max i (length s)" "\<forall>k. i \<le> k \<and> k < j \<longrightarrow> P (s ! k)" for j
    proof (rule ccontr)
      assume "j \<noteq> i"
      with that(1) have "i < j" by simp
      with that(2,3) False show False by (auto simp: max_def split: if_splits)
    qed
    ultimately show ?thesis by auto
  qed
qed

lemma parsed_cql3_word: "parse_pattern valid_cql3_word_re =
    Some \<lparr>pdata = [At AtBeginning, InSet False [(CHR ''a'', CHR ''z'')],
      MaxRepeat 0 None [InSet False [(CHR ''0'', CHR ''9''), (CHR ''a'', CHR ''z''), (CHR ''_'', CHR ''_'')]],
      At AtEnd], pnames = [], pflags = []\<rparr>"
  unfolding valid_cql3_word_re_def by code_simp

text \<open>
  \<open>$\<close> also holds before a newline that ends the text, so a word followed by one newline is accepted.
\<close>

definition whole_or_newline :: "string \<Rightarrow> nat \<Rightarrow> bool" where
  "whole_or_newline s n \<longleftrightarrow> length s = n \<or> (length s = Suc n \<and> last s = newline)"

lemma at_end_iff: "j \<le> length s \<Longrightarrow> at_holds s AtEnd j \<longleftrightarrow> whole_or_newline s j"
  by (cases s rule: rev_cases) (auto simp: whole_or_newline_def nth_append)

lemma ends_seq_one: "ends_seq ci s [r] i = ends ci s r i"
proof -
  have "concat (map (ends_seq ci s []) xs) = xs" for xs
    by (induction xs) auto
  then show ?thesis by simp
qed

lemma match_at_iff: "match_at ci p s i \<noteq> None \<longleftrightarrow> ends_seq ci s p i \<noteq> []"
  by (simp add: match_at_def split: list.splits)

lemma word_pattern_accepts:
  assumes "\<And>c. in_set_ci ci r1 c = P1 c" and "\<And>c. in_set_ci ci r2 c = P2 c"
  shows "(\<exists>j. j \<in> set (ends_seq ci s [At AtBeginning, InSet False r1, MaxRepeat 0 None [InSet False r2], At AtEnd] 0))
    \<longleftrightarrow> (\<exists>w. w \<noteq> [] \<and> P1 (hd w) \<and> list_all P2 (tl w) \<and> (s = w \<or> s = w @ [newline]))"
    (is "?L = ?R")
proof -
  have rep: "set (repeat_ends True s 0 None (ends_seq ci s [InSet False r2]) (Suc 0)) =
      {j. 1 \<le> j \<and> j \<le> max 1 (length s) \<and> j - 1 \<le> length s \<and> (\<forall>k. 1 \<le> k \<and> k < j \<longrightarrow> P2 (s ! k))}"
  proof -
    have "ends_seq ci s [InSet False r2] = one_char s P2"
      unfolding fun_eq_iff ends_seq_one using assms(2) by (simp add: one_char_def)
    then show ?thesis
      using more_ends_one_char [of s P2 "length s" 1] by (simp add: repeat_ends_def)
  qed
  have "?L \<longleftrightarrow> s \<noteq> [] \<and> P1 (s ! 0) \<and> (\<exists>j. 1 \<le> j \<and> j \<le> length s \<and> (\<forall>k. 1 \<le> k \<and> k < j \<longrightarrow> P2 (s ! k)) \<and> whole_or_newline s j)"
  proof -
    have "?L \<longleftrightarrow> s \<noteq> [] \<and> P1 (s ! 0) \<and>
        (\<exists>j \<in> set (repeat_ends True s 0 None (ends_seq ci s [InSet False r2]) (Suc 0)). at_holds s AtEnd j)"
      using assms(1) by (auto simp: one_char_def simp del: at_holds.simps(2) split: if_splits)
    also have "\<dots> \<longleftrightarrow> s \<noteq> [] \<and> P1 (s ! 0) \<and> (\<exists>j. 1 \<le> j \<and> j \<le> length s \<and> j - 1 \<le> length s \<and>
        (\<forall>k. 1 \<le> k \<and> k < j \<longrightarrow> P2 (s ! k)) \<and> whole_or_newline s j)"
      unfolding rep by (cases s) (auto simp del: at_holds.simps(2) simp: at_end_iff)
    also have "\<dots> \<longleftrightarrow> s \<noteq> [] \<and> P1 (s ! 0) \<and> (\<exists>j. 1 \<le> j \<and> j \<le> length s \<and> (\<forall>k. 1 \<le> k \<and> k < j \<longrightarrow> P2 (s ! k)) \<and> whole_or_newline s j)"
      by (metis diff_le_self le_trans)
    finally show ?thesis .
  qed
  also have "\<dots> \<longleftrightarrow> ?R"
  proof
    assume "s \<noteq> [] \<and> P1 (s ! 0) \<and> (\<exists>j. 1 \<le> j \<and> j \<le> length s \<and> (\<forall>k. 1 \<le> k \<and> k < j \<longrightarrow> P2 (s ! k)) \<and> whole_or_newline s j)"
    then obtain j where j: "s \<noteq> []" "P1 (s ! 0)" "1 \<le> j" "j \<le> length s"
      "\<forall>k. 1 \<le> k \<and> k < j \<longrightarrow> P2 (s ! k)" "whole_or_newline s j" by auto
    have "take j s \<noteq> []" "hd (take j s) = s ! 0" using j by (auto simp: hd_conv_nth)
    moreover have "list_all P2 (tl (take j s))"
      using j by (auto simp: list_all_length nth_tl)
    moreover have "s = take j s \<or> s = take j s @ [newline]"
      using j(1,6) by (cases s rule: rev_cases) (auto simp: whole_or_newline_def)
    ultimately show ?R using j(2) by metis
  next
    assume ?R
    then obtain w where w: "w \<noteq> []" "P1 (hd w)" "list_all P2 (tl w)" "s = w \<or> s = w @ [newline]" by auto
    have "P2 (s ! k)" if "1 \<le> k" "k < length w" for k
    proof -
      have "P2 (tl w ! (k - 1))" using w(3) that by (auto simp: list_all_length)
      then show ?thesis using that w(4) by (auto simp: nth_tl nth_append)
    qed
    with w show "s \<noteq> [] \<and> P1 (s ! 0) \<and> (\<exists>j. 1 \<le> j \<and> j \<le> length s \<and> (\<forall>k. 1 \<le> k \<and> k < j \<longrightarrow> P2 (s ! k)) \<and> whole_or_newline s j)"
      by (intro conjI exI [of _ "length w"]) (auto simp: hd_conv_nth nth_append whole_or_newline_def Suc_le_eq)
  qed
  finally show ?thesis .
qed

definition cql3_word_char :: "char \<Rightarrow> bool" where
  "cql3_word_char c \<longleftrightarrow> is_digit c \<or> is_lower c \<or> c = CHR ''_''"

lemma in_set_letters: "in_set_ci False [(CHR ''a'', CHR ''z'')] c = is_lower c"
  by (simp add: in_set_ci_def in_range_def is_lower_def code_point_def)

lemma code_point_eq_iff: "code_point c = code_point d \<longleftrightarrow> c = d"
  by (simp add: code_point_def)

lemma in_set_word: "in_set_ci False [(CHR ''0'', CHR ''9''), (CHR ''a'', CHR ''z''), (CHR ''_'', CHR ''_'')] c
    = cql3_word_char c"
  using code_point_eq_iff [of c "CHR ''_''"]
  by (auto simp: in_set_ci_def in_range_def is_lower_def is_digit_def cql3_word_char_def code_point_def)

text \<open>A word of CQL 3 that needs no quotes: a lower-case letter, then letters, digits and underscores.\<close>

definition plain_word :: "string \<Rightarrow> bool" where
  "plain_word w \<longleftrightarrow> w \<noteq> [] \<and> is_lower (hd w) \<and> list_all cql3_word_char (tl w)"

lemma valid_cql3_word_iff:
  "re_accepts False valid_cql3_word_re s \<longleftrightarrow> (\<exists>w. plain_word w \<and> (s = w \<or> s = w @ [newline]))"
  using word_pattern_accepts [OF in_set_letters in_set_word, of s]
  unfolding re_accepts_def parsed_cql3_word option.case parsed.simps match_at_iff plain_word_def ex_in_conv set_empty
  by blast

lemma word_chars_not_space: "cql3_word_char c \<Longrightarrow> \<not> is_space c" "is_lower c \<Longrightarrow> \<not> is_space c"
  by (auto simp: cql3_word_char_def is_lower_def is_digit_def is_space_def code_point_def)

lemma plain_word_chars: "plain_word w \<Longrightarrow> c \<in> set w \<Longrightarrow> cql3_word_char c"
  by (cases w) (auto simp: plain_word_def list_all_iff cql3_word_char_def)

text \<open>C11: escaping a name when needed is undone by dequoting it.\<close>

theorem maybe_escape_name_roundtrip:
  assumes "name = [] \<or> last name \<noteq> newline"
  shows "cql3_dequote_name (cql3_maybe_escape_name keywords unreserved name) = name"
proof (cases "is_valid_cql3_name keywords unreserved (Some name)")
  case False
  then show ?thesis by (simp add: cql3_maybe_escape_name_def cql3_dequote_quoted)
next
  case True
  then obtain w where w: "plain_word w" "name = w \<or> name = w @ [newline]"
    by (auto simp: is_valid_cql3_name_def valid_cql3_word_iff split: if_splits)
  with assms have "name = w" by auto
  with w have plain: "plain_word name" by simp
  then have "py_strip name = name" by (intro py_strip_spaceless) (auto dest: plain_word_chars word_chars_not_space)
  moreover have "hd name \<noteq> dquote"
    using plain by (auto simp: plain_word_def is_lower_def code_point_def)
  ultimately show ?thesis
    using True by (simp add: cql3_maybe_escape_name_def cql3_dequote_name_def)
qed

text \<open>what goes wrong with a trailing newline.\<close>

theorem newline_name_not_escaped:
  assumes "plain_word w" and "py_lower (w @ [newline]) \<notin> set keywords"
  shows "cql3_maybe_escape_name keywords unreserved (w @ [newline]) = w @ [newline] \<and>
    cql3_dequote_name (w @ [newline]) = w"
proof -
  have "re_accepts False valid_cql3_word_re (w @ [newline])"
    using assms(1) by (auto simp: valid_cql3_word_iff)
  moreover have "py_strip (w @ [newline]) = w"
  proof -
    have "dropWhile is_space (w @ [newline]) = w @ [newline]"
      using assms(1) by (cases w) (auto simp: plain_word_def dest: word_chars_not_space)
    moreover have "dropWhile is_space (rev (w @ [newline])) = rev w"
      using assms(1) plain_word_chars [OF assms(1), of "last w"]
      by (cases w rule: rev_cases) (auto simp: plain_word_def is_space_def code_point_def dest: word_chars_not_space)
    ultimately show ?thesis by (simp add: py_strip_def)
  qed
  moreover have "w \<noteq> []" "hd w \<noteq> dquote"
    using assms(1) by (auto simp: plain_word_def is_lower_def code_point_def)
  ultimately show ?thesis
    using assms(2)
    by (auto simp: cql3_maybe_escape_name_def is_valid_cql3_name_def cql3_dequote_name_def)
qed

text \<open>The text of a value: what \<open>escape_value\<close> puts between the quotes, or writes without quotes.\<close>

definition value_text :: "cqlval \<Rightarrow> string" where
  "value_text v = (case v of VNone \<Rightarrow> ''NULL'' | VBool b \<Rightarrow> (if b then ''true'' else ''false'')
     | VFloat x \<Rightarrow> format_f x | VInt i \<Rightarrow> int_str i | VStr s \<Rightarrow> s)"

definition bare_char :: "char \<Rightarrow> bool" where
  "bare_char c \<longleftrightarrow> \<not> is_space c \<and> c \<noteq> squote"

lemma bare_digit: "is_digit c \<Longrightarrow> bare_char c"
  by (auto simp: bare_char_def is_digit_def is_space_def code_point_def)

lemma bare_nat_str: "list_all bare_char (nat_str n)"
  using nat_str_digits [of n] by (auto simp: list_all_iff intro: bare_digit)

lemma bare_letters: "list_all bare_char ''NULL''" "list_all bare_char ''nan''" "list_all bare_char ''inf''"
  "list_all bare_char ''-''" "list_all bare_char ''.''" "bare_char (CHR ''0'')"
  by code_simp+

lemma bare_number: "list_all bare_char (int_str i)" "list_all bare_char (format_f x)"
  using bare_nat_str bare_letters
  by (auto simp: int_str_def format_f_def Let_def pad_zeros_def list_all_iff split: pyfloat.splits)

lemma dequote_bare: "list_all bare_char s \<Longrightarrow> cql2_dequote_value s = s"
proof -
  assume bare: "list_all bare_char s"
  then have "py_strip s = s" by (intro py_strip_spaceless) (auto simp: list_all_iff bare_char_def)
  moreover have "s = [] \<or> hd s \<noteq> squote" using bare by (cases s) (auto simp: bare_char_def)
  ultimately show ?thesis by (auto simp: cql2_dequote_value_def)
qed


end
