(* ===== verification/Cql_Text.thy ===== *)
theory Cql_Text
  imports RuleSet Util Cql_Words
begin

text \<open>
  \<open>CqlParsingRuleSet\<close> of \<open>cqlshlib/cqlhandling.py\<close>: from the tokens of a text to its statements, and
  the completion of a text. What the subclass for CQL 3 overrides is a record of functions, the
  \<open>dialect\<close>; the set \<open>commands_end_with_newline\<close> is a list.
\<close>

section \<open>Statements\<close>

definition massage_step ::
  "string list \<Rightarrow> token \<Rightarrow> token list \<times> token list \<times> bool \<Rightarrow> token list \<times> token list \<times> bool" where
  "massage_step cen t st =
     (let (curstmt, outp, term_on_nl) = st;
          t' = (if tok_type t = ''endline'' then (''endtoken'', snd t) else t) in
      if tok_type t = ''endline'' \<and> \<not> term_on_nl then st
      else (let curstmt' = curstmt @ [t'] in
        if tok_type t' = ''endtoken'' then ([], outp @ curstmt', False)
        else (curstmt', outp,
          if length curstmt' = 1 then py_lower (tok_text t') \<in> set cen else term_on_nl)))"

definition cql_massage_tokens :: "string list \<Rightarrow> token list \<Rightarrow> token list" where
  "cql_massage_tokens cen toklist =
     (let (curstmt, outp, term_on_nl) = fold (massage_step cen) toklist ([], [], False)
      in outp @ curstmt)"

definition cql_parse :: "nat \<Rightarrow> string list \<Rightarrow> prs \<Rightarrow> string \<Rightarrow> string \<Rightarrow> (ctxt list \<times> prs) out" where
  "cql_parse n cen p txt startsymbol =
     obind (of_res (lex txt p)) (\<lambda>(tokens, p').
       obind (parse n p' startsymbol (cql_massage_tokens cen tokens) [''*SRC*'' \<mapsto> BStr txt]) (\<lambda>cs.
         Ret (cs, p')))"

definition cql_whole_parse_tokens ::
  "nat \<Rightarrow> prs \<Rightarrow> token list \<Rightarrow> string option \<Rightarrow> string \<Rightarrow> ctxt option out" where
  "cql_whole_parse_tokens n p toklist srcstr startsymbol = whole_match n p startsymbol toklist srcstr"

definition begins_batch :: "token list \<Rightarrow> bool" where
  "begins_batch stmt \<longleftrightarrow> length stmt > 1 \<and> tok_type (stmt ! 0) = ''identifier'' \<and>
     tok_type (stmt ! 1) = ''identifier'' \<and> py_lower (tok_text (stmt ! 1)) = ''batch''"

definition batch_state :: "token list \<Rightarrow> bool \<Rightarrow> bool" where
  "batch_state stmt in_batch =
     (if begins_batch stmt then
        (if py_lower (tok_text (stmt ! 0)) = ''begin'' then True
         else if py_lower (tok_text (stmt ! 0)) = ''apply'' then False
         else in_batch)
      else in_batch)"

fun group_statements :: "token list list \<Rightarrow> token list list \<Rightarrow> bool \<Rightarrow> (token list list \<times> bool) res" where
  "group_statements [] outp in_batch = Inr (outp, in_batch)"
| "group_statements (stmt # stmts) outp in_batch =
     ebind (if in_batch
            then (if outp = [] then Inl IndexError else Inr (butlast outp @ [last outp @ stmt]))
            else Inr (outp @ [stmt]))
       (\<lambda>outp'. group_statements stmts outp' (batch_state stmt in_batch))"

definition is_endtoken :: "token \<Rightarrow> bool" where
  "is_endtoken t \<longleftrightarrow> tok_type t = ''endtoken''"

definition cql_split_statements ::
  "string list \<Rightarrow> prs \<Rightarrow> string \<Rightarrow> ((token list list \<times> bool) \<times> prs) res" where
  "cql_split_statements cen p txt =
     ebind (lex txt p) (\<lambda>(tokens, p').
       ebind (group_statements (split_list (cql_massage_tokens cen tokens) is_endtoken) [] False) (\<lambda>r.
         Inr (r, p')))"

section \<open>Facts about statements\<close>

definition not_endline :: "token \<Rightarrow> bool" where
  "not_endline t \<longleftrightarrow> tok_type t \<noteq> ''endline''"

text \<open>The massaged tokens seen so far, in order.\<close>

definition massaged :: "token list \<times> token list \<times> bool \<Rightarrow> token list" where
  "massaged st = (case st of (curstmt, outp, nl) \<Rightarrow> outp @ curstmt)"

lemma massage_step_cases:
  obtains (skip) "\<not> not_endline t" "massage_step cen t st = st"
  | (stop) "\<not> not_endline t" "massaged (massage_step cen t st) = massaged st @ [(''endtoken'', snd t)]"
  | (keep) "not_endline t" "massaged (massage_step cen t st) = massaged st @ [t]"
proof (cases st)
  case (fields cur out nl)
  show ?thesis
  proof (cases "not_endline t")
    case True
    then show ?thesis
      by (intro keep) (auto simp: fields massage_step_def massaged_def not_endline_def Let_def)
  next
    case False
    then show ?thesis
      by (cases nl) (auto simp: fields massage_step_def massaged_def not_endline_def Let_def intro: skip stop)
  qed
qed

lemma massaged_no_endline:
  "\<forall>t \<in> set (massaged st). not_endline t \<Longrightarrow> \<forall>t \<in> set (massaged (fold (massage_step cen) ts st)). not_endline t"
proof (induction ts arbitrary: st)
  case (Cons t ts)
  have "\<forall>u \<in> set (massaged (massage_step cen t st)). not_endline u"
    by (rule massage_step_cases [of t cen st]) (use Cons.prems in \<open>auto simp: not_endline_def\<close>)
  with Cons.IH show ?case by simp
qed simp

lemma massaged_subseq:
  "\<exists>us. massaged (fold (massage_step cen) ts st) = massaged st @ us \<and>
     subseq (filter not_endline ts) us \<and> subseq (map snd us) (map snd ts)"
proof (induction ts arbitrary: st)
  case (Cons t ts)
  obtain us where us: "massaged (fold (massage_step cen) ts (massage_step cen t st)) =
      massaged (massage_step cen t st) @ us"
    "subseq (filter not_endline ts) us" "subseq (map snd us) (map snd ts)"
    using Cons.IH by blast
  show ?case
  proof (rule massage_step_cases [of t cen st])
    assume "\<not> not_endline t" "massage_step cen t st = st"
    with us show ?thesis by (intro exI [of _ us]) auto
  next
    assume "\<not> not_endline t" "massaged (massage_step cen t st) = massaged st @ [(''endtoken'', snd t)]"
    with us show ?thesis by (intro exI [of _ "(''endtoken'', snd t) # us"]) auto
  next
    assume "not_endline t" "massaged (massage_step cen t st) = massaged st @ [t]"
    with us show ?thesis by (intro exI [of _ "t # us"]) auto
  qed
qed auto

lemma cql_massage_tokens_eq: "cql_massage_tokens cen ts = massaged (fold (massage_step cen) ts ([], [], False))"
  by (simp add: cql_massage_tokens_def massaged_def case_prod_unfold Let_def)

text \<open>newlines are dropped or become statement terminators, and nothing else changes.\<close>

theorem massage_tokens_spec:
  "list_all not_endline (cql_massage_tokens cen ts) \<and>
   subseq (filter not_endline ts) (cql_massage_tokens cen ts) \<and>
   subseq (map snd (cql_massage_tokens cen ts)) (map snd ts)"
  using massaged_no_endline [of "([], [], False)" cen ts] massaged_subseq [of cen ts "([], [], False)"]
  by (auto simp: cql_massage_tokens_eq massaged_def list_all_iff)

lemma massage_no_commands:
  "\<not> snd (snd st) \<Longrightarrow> massaged (fold (massage_step []) ts st) = massaged st @ filter not_endline ts"
proof (induction ts arbitrary: st)
  case (Cons t ts)
  obtain cur out nl where st: "st = (cur, out, nl)" by (cases st)
  have "\<not> snd (snd (massage_step [] t st))"
    using Cons.prems by (simp add: st massage_step_def Let_def)
  moreover have "massaged (massage_step [] t st) = massaged st @ (if not_endline t then [t] else [])"
    using Cons.prems by (auto simp: st massage_step_def massaged_def Let_def not_endline_def)
  ultimately show ?case using Cons.IH [of "massage_step [] t st"] by simp
qed simp

lemma massage_tokens_plain: "cql_massage_tokens [] ts = filter not_endline ts"
  using massage_no_commands [of "([], [], False)" ts] by (simp add: cql_massage_tokens_eq massaged_def)

lemma group_statements_spec:
  "(in_batch \<longrightarrow> outp \<noteq> []) \<Longrightarrow>
   \<exists>outp'. group_statements stmts outp in_batch = Inr (outp', fold batch_state stmts in_batch) \<and>
     concat outp' = concat outp @ concat stmts"
proof (induction stmts arbitrary: outp in_batch)
  case (Cons stmt stmts)
  have joined: "concat (butlast outp) @ last outp @ x = concat outp @ x" if "outp \<noteq> []" for x
    using that by (cases outp rule: rev_cases) auto
  show ?case
    using Cons.IH [of "batch_state stmt in_batch" "butlast outp @ [last outp @ stmt]"]
      Cons.IH [of "batch_state stmt in_batch" "outp @ [stmt]"] Cons.prems joined
    by auto
qed simp


text \<open>Without a batch, the statements are the pieces between the terminators.\<close>

lemma group_statements_no_batch:
  "\<forall>stmt \<in> set stmts. \<not> begins_batch stmt \<Longrightarrow>
   group_statements stmts outp False = Inr (outp @ stmts, False)"
  by (induction stmts arbitrary: outp) (auto simp: batch_state_def)

end
