(* ===== verification/Cql_Complete.thy ===== *)
theory Cql_Complete
  imports Cql_Text
begin

text \<open>
  Completion of a CQL text (\<open>cqlshlib/cqlhandling.py\<close>): \<open>completer_for\<close> and \<open>explain_completion\<close>, which
  register completers that see the connection, and \<open>cql_complete\<close> with its helpers. \<open>complete\<close> returns
  the completions the grammar offers; the functions here choose and shape the candidates.
\<close>

section \<open>Registering completers\<close>

text \<open>
  The connection object is a parameter \<open>cass\<close>; in the bindings, \<open>BConn\<close> says that there is one. A missing
  binding and the binding \<open>None\<close> are the same to \<open>get_binding\<close>.
\<close>

definition completerwrapper :: "'cass \<Rightarrow> (ctxt \<Rightarrow> 'cass \<Rightarrow> pyval res) \<Rightarrow> completer" where
  "completerwrapper cass f = (\<lambda>ctxt.
     if get_binding ctxt ''cassandra_conn'' BNone = BNone then Inr (PList []) else f ctxt cass)"

definition completer_for ::
  "'cass \<Rightarrow> string \<Rightarrow> string \<Rightarrow> (ctxt \<Rightarrow> 'cass \<Rightarrow> pyval res) \<Rightarrow> prs \<Rightarrow> prs" where
  "completer_for cass rulename symname f p = register_completer (completerwrapper cass f) rulename symname p"

definition explainer :: "string \<Rightarrow> ctxt \<Rightarrow> 'cass \<Rightarrow> pyval res" where
  "explainer explanation ctxt cass = Inr (PList [CHint explanation])"

definition explain_completion :: "'cass \<Rightarrow> string \<Rightarrow> string \<Rightarrow> string option \<Rightarrow> prs \<Rightarrow> prs" where
  "explain_completion cass rulename symname explanation p =
     completer_for cass rulename symname
       (explainer (case explanation of None \<Rightarrow> ''<'' @ symname @ ''>'' | Some e \<Rightarrow> e)) p"

section \<open>Where the text ends\<close>

record dialect =
  dl_token_dequote :: "token \<Rightarrow> string"
  dl_dequote_value :: "string \<Rightarrow> string"
  dl_dequote_name :: "string \<Rightarrow> string"
  dl_escape_value :: "string \<Rightarrow> string"
  dl_escape_name :: "string \<Rightarrow> string"

definition cql2_dialect :: dialect where
  "cql2_dialect = \<lparr>dl_token_dequote = cql2_token_dequote,
     dl_dequote_value = cql2_dequote_value, dl_dequote_name = cql2_dequote_value,
     dl_escape_value = (\<lambda>s. cql2_escape_value (VStr s)), dl_escape_name = (\<lambda>s. cql2_escape_value (VStr s))\<rparr>"

definition cql3_dialect :: dialect where
  "cql3_dialect = \<lparr>dl_token_dequote = cql3_token_dequote,
     dl_dequote_value = cql3_dequote_value, dl_dequote_name = cql3_dequote_name,
     dl_escape_value = (\<lambda>s. cql3_escape_value (VStr s)), dl_escape_name = cql3_escape_name\<rparr>"

text \<open>
  The first part of \<open>cql_complete_single\<close>: inside a string or a quoted name, the partial word starts
  with what is already quoted. \<open>None\<close> is the early return of an empty list inside a comment.
\<close>

record scenario =
  sc_tokens :: "token list"
  sc_partial :: string
  sc_prefix :: "string option"
  sc_dequoter :: "string \<Rightarrow> string"
  sc_requoter :: "string \<Rightarrow> string"
  sc_lasttype :: "string option"

definition completion_scenario :: "dialect \<Rightarrow> token list \<Rightarrow> string \<Rightarrow> scenario option" where
  "completion_scenario d tokens partial =
     (if tokens = [] then
        Some \<lparr>sc_tokens = [], sc_partial = partial, sc_prefix = None, sc_dequoter = identity,
          sc_requoter = identity, sc_lasttype = None\<rparr>
      else (let lasttype = tok_type (last tokens); pre = dl_token_dequote d (last tokens) in
        if lasttype = ''unclosedString'' then
          Some \<lparr>sc_tokens = butlast tokens, sc_partial = pre @ partial, sc_prefix = Some pre,
            sc_dequoter = dl_dequote_value d, sc_requoter = dl_escape_value d, sc_lasttype = Some lasttype\<rparr>
        else if lasttype = ''unclosedName'' then
          Some \<lparr>sc_tokens = butlast tokens, sc_partial = pre @ partial, sc_prefix = Some pre,
            sc_dequoter = dl_dequote_name d, sc_requoter = dl_escape_name d, sc_lasttype = Some lasttype\<rparr>
        else if lasttype = ''unclosedComment'' then None
        else
          Some \<lparr>sc_tokens = tokens, sc_partial = partial, sc_prefix = None, sc_dequoter = identity,
            sc_requoter = identity, sc_lasttype = Some lasttype\<rparr>))"

definition completion_bindings :: "binds \<Rightarrow> scenario \<Rightarrow> string \<Rightarrow> binds" where
  "completion_bindings init sc txt = init(''partial'' \<mapsto> BStr (sc_partial sc),
     ''*LASTTYPE*'' \<mapsto> (case sc_lasttype sc of None \<Rightarrow> BNone | Some ty \<Rightarrow> BStr ty), ''*SRC*'' \<mapsto> BStr txt)"

section \<open>Choosing and shaping the candidates\<close>

text \<open>A filter whose test may raise.\<close>

primrec efilter :: "('a \<Rightarrow> bool res) \<Rightarrow> 'a list \<Rightarrow> 'a list res" where
  "efilter f [] = Inr []"
| "efilter f (x # xs) = ebind (f x) (\<lambda>b. ebind (efilter f xs) (\<lambda>ys. Inr (if b then x # ys else ys)))"

fun wanted :: "bool \<Rightarrow> (string \<Rightarrow> string) \<Rightarrow> string \<Rightarrow> citem \<Rightarrow> bool res" where
  "wanted ignore_case dequoter partial (CStr s) =
     Inr (s \<noteq> [] \<and>
       (if ignore_case then startswith (py_lower (dequoter s)) (py_lower partial)
        else startswith (dequoter s) partial))"
| "wanted ignore_case dequoter partial _ = Inl AttributeError"

fun citem_text :: "citem \<Rightarrow> string" where
  "citem_text (CStr s) = s"
| "citem_text (CHint s) = s"
| "citem_text (CPair s t) = s"

definition want_space_between :: "token \<Rightarrow> string \<Rightarrow> bool res" where
  "want_space_between tok following =
     (if following \<in> {'','', '')'', '':''} then Inr False
      else if tok_type tok = ''op'' \<and> tok_text tok \<in> {'','', '')'', ''=''} then Inr True
      else if following = [] then
        (if tok_type tok = ''stringLiteral'' \<or> tok_type tok = ''star'' then Inl IndexError
         else if tok_type tok = ''endtoken'' then Inr True
         else ebind (last_res (tok_text tok)) (\<lambda>c. if is_alnum c then Inl IndexError else Inr False))
      else if tok_type tok = ''stringLiteral'' \<and> hd following \<noteq> CHR '';'' then Inr True
      else if tok_type tok = ''star'' \<and> hd following \<noteq> CHR '')'' then Inr True
      else if tok_type tok = ''endtoken'' then Inr True
      else ebind (last_res (tok_text tok)) (\<lambda>c. Inr (is_alnum c \<and> hd following \<noteq> CHR '','')))"

definition shape_candidate :: "scenario \<Rightarrow> string \<Rightarrow> string \<Rightarrow> string res" where
  "shape_candidate sc txt c =
     ebind (want_space_between (last (sc_tokens sc)) c) (\<lambda>want.
       if want \<and> sc_prefix sc = None then
         ebind (last_res txt) (\<lambda>l.
           if is_space l then Inr c
           else ebind (nth_res c 0) (\<lambda>h. Inr (if is_space h then c else CHR '' '' # c)))
       else Inr c)"

text \<open>\<open>[requoter(dequoter(c))[len(pre)+1:-1] for c in candidates]\<close> without the empty strings.\<close>

definition requote :: "(string \<Rightarrow> string) \<Rightarrow> (string \<Rightarrow> string) \<Rightarrow> string \<Rightarrow> string \<Rightarrow> string" where
  "requote requoter dequoter pre c = drop (length pre + 1) (butlast (requoter (dequoter c)))"

definition requote_candidates :: "scenario \<Rightarrow> string list \<Rightarrow> string list" where
  "requote_candidates sc candidates =
     (case sc_prefix sc of
        None \<Rightarrow> candidates
      | Some pre \<Rightarrow>
          filter (\<lambda>c. c \<noteq> []) (map (requote (sc_requoter sc) (sc_dequoter sc) pre) candidates))"

definition space_after_identifier :: "scenario \<Rightarrow> string list \<Rightarrow> string list res" where
  "space_after_identifier sc candidates =
     (if length candidates = 1 then
        ebind (last_res (hd candidates)) (\<lambda>l.
          Inr (if is_alnum l \<and> sc_lasttype sc \<noteq> Some ''unclosedString'' \<and> sc_lasttype sc \<noteq> Some ''unclosedName''
               then [hd candidates @ '' ''] else candidates))
      else Inr candidates)"

definition pick_candidates :: "bool \<Rightarrow> scenario \<Rightarrow> string \<Rightarrow> citem list \<Rightarrow> (string list \<times> citem list) res" where
  "pick_candidates ignore_case sc txt completions =
     (let (hints, strcompletes) = list_bifilter is_hint completions;
          hints' = (if CStr [newline] \<in> set strcompletes \<and> sc_partial sc = []
                    then hints @ [CHint ''<enter>''] else hints);
          strcompletes' = remove1 (CStr [newline]) strcompletes
      in ebind (efilter (wanted ignore_case (sc_dequoter sc) (sc_partial sc)) strcompletes') (\<lambda>items.
        let candidates = requote_candidates sc (map citem_text items) in
        ebind (if sc_tokens sc = [] then Inr candidates else emap (shape_candidate sc txt) candidates) (\<lambda>shaped.
          ebind (space_after_identifier sc shaped) (\<lambda>final. Inr (final, hints')))))"

definition cql_complete_single ::
  "nat \<Rightarrow> dialect \<Rightarrow> string list \<Rightarrow> prs \<Rightarrow> string \<Rightarrow> string \<Rightarrow> binds \<Rightarrow> bool \<Rightarrow> string \<Rightarrow>
   (string list \<times> citem list) option out" where
  "cql_complete_single n d cen p txt partial init ignore_case startsymbol =
     obind (of_res (cql_split_statements cen p txt)) (\<lambda>((stmts, in_batch), p').
       (case completion_scenario d (if stmts = [] then [] else last stmts) partial of
          None \<Rightarrow> Ret None
        | Some sc \<Rightarrow>
            obind (RuleSet.complete n p' startsymbol (sc_tokens sc) (completion_bindings init sc txt)) (\<lambda>completions.
              obind (of_res (pick_candidates ignore_case sc txt completions)) (\<lambda>r. Ret (Some r)))))"

section \<open>Completing further\<close>

definition closes_up :: "char \<Rightarrow> bool" where
  "closes_up c \<longleftrightarrow> c = CHR '','' \<or> c = CHR '')'' \<or> c = CHR '':''"

definition join_completion :: "string \<Rightarrow> string \<Rightarrow> string res" where
  "join_completion first ext =
     (if closes_up (hd ext) then
        ebind (last_res first) (\<lambda>l. Inr ((if l = CHR '' '' then butlast first else first) @ ext))
      else Inr (first @ ext))"

text \<open>
  The first argument counts the recursive calls. Whatever \<open>cql_complete_single\<close> raises, and the failure
  to unpack the empty list it returns inside a comment, is caught.
\<close>

fun cql_complete_multiple ::
  "nat \<Rightarrow> nat \<Rightarrow> dialect \<Rightarrow> string list \<Rightarrow> prs \<Rightarrow> string \<Rightarrow> string \<Rightarrow> binds \<Rightarrow> string \<Rightarrow> string out" where
  "cql_complete_multiple 0 n d cen p txt first init startsymbol = Diverge"
| "cql_complete_multiple (Suc k) n d cen p txt first init startsymbol =
     (case cql_complete_single n d cen p (txt @ first) [] init True startsymbol of
        Diverge \<Rightarrow> Diverge
      | Raise e \<Rightarrow> Ret first
      | Ret None \<Rightarrow> Ret first
      | Ret (Some (completions, hints)) \<Rightarrow>
          if hints \<noteq> [] then
            obind (of_res (last_res first)) (\<lambda>l. Ret (if is_space l then first else first @ '' ''))
          else if length completions = 1 \<and> hd completions \<noteq> [] then
            obind (of_res (join_completion first (hd completions))) (\<lambda>first'.
              cql_complete_multiple k n d cen p txt first' init startsymbol)
          else if find_common_prefix completions = [] then Ret first
          else
            obind (of_res (join_completion first (find_common_prefix completions))) (\<lambda>first'.
              cql_complete_multiple k n d cen p txt first' init startsymbol))"

definition py_isspace :: "string \<Rightarrow> bool" where
  "py_isspace s \<longleftrightarrow> s \<noteq> [] \<and> list_all is_space s"

definition cql_complete ::
  "nat \<Rightarrow> nat \<Rightarrow> dialect \<Rightarrow> string list \<Rightarrow> prs \<Rightarrow> string \<Rightarrow> string \<Rightarrow> bindval \<Rightarrow> bool \<Rightarrow> string \<Rightarrow>
   string list out" where
  "cql_complete k n d cen p txt partial cassandra_conn ignore_case startsymbol =
     (let init_bindings = [''cassandra_conn'' \<mapsto> cassandra_conn] in
      obind (cql_complete_single n d cen p txt partial init_bindings True startsymbol) (\<lambda>r.
        (case r of
           None \<Rightarrow> Raise (ValueError ''need more than 0 values to unpack'')
         | Some (completions, hints) \<Rightarrow>
             let hint_texts = (if hints \<noteq> [] then map citem_text hints @ [[]] else []) in
             if length completions = 1 \<and> hint_texts = [] then
               (if py_isspace (hd completions) then Ret completions
                else obind (cql_complete_multiple k n d cen p txt (hd completions) init_bindings startsymbol)
                  (\<lambda>new_c. Ret [new_c]))
             else Ret (hint_texts @ completions))))"

section \<open>What completion promises\<close>

text \<open>\<open>first\<close> without the one space that a closing character may take away.\<close>

definition without_space :: "string \<Rightarrow> string" where
  "without_space s = (if s \<noteq> [] \<and> last s = CHR '' '' then butlast s else s)"

lemma without_space_prefix: "prefix (without_space s) s"
  by (auto simp: without_space_def prefixeq_butlast)

lemma join_completion_prefix:
  assumes "join_completion first ext = Inr first'" and "ext \<noteq> []"
  shows "prefix (without_space first) (without_space first')"
proof -
  from assms(1) obtain base where base: "first' = base @ ext" "prefix (without_space first) base"
    by (auto simp: join_completion_def result_simps last_res_def without_space_def prefixeq_butlast
        split: if_splits)
  have "prefix base (without_space first')"
    using assms(2) by (auto simp: base(1) without_space_def butlast_append)
  with base(2) show ?thesis by (rule prefix_order.trans)
qed

text \<open>completing further never loses what was completed before.\<close>

theorem complete_multiple_extends:
  assumes "cql_complete_multiple k n d cen p txt first init startsymbol = Ret r"
  shows "prefix (without_space first) r"
  using assms
proof (induction k arbitrary: first)
  case (Suc k)
  have rec: "prefix (without_space first) r"
    if "join_completion first ext = Inr first'" "ext \<noteq> []"
      "cql_complete_multiple k n d cen p txt first' init startsymbol = Ret r" for ext first'
    using join_completion_prefix [OF that(1,2)] Suc.IH [OF that(3)] by (rule prefix_order.trans)
  have "prefix (without_space first) (first @ '' '')"
    using without_space_prefix [of first] by (auto intro: prefix_order.trans)
  with Suc.prems show ?case
    by (auto simp: result_simps without_space_prefix split: out.splits option.splits if_splits intro: rec)
qed simp

text \<open>inside a comment completion fails, because its caller cannot unpack the empty list.\<close>

theorem complete_in_comment_raises:
  assumes "cql_split_statements cen p txt = Inr ((stmts, b), p')" and "stmts \<noteq> []" and "last stmts \<noteq> []"
    and "tok_type (last (last stmts)) = ''unclosedComment''"
  shows "cql_complete k n d cen p txt partial conn ignore_case startsymbol =
    Raise (ValueError ''need more than 0 values to unpack'')"
  using assms by (simp add: cql_complete_def cql_complete_single_def completion_scenario_def)

lemma efilter_Inr: "efilter f xs = Inr ys \<Longrightarrow> y \<in> set ys \<Longrightarrow> y \<in> set xs \<and> f y = Inr True"
  by (induction xs arbitrary: ys) (auto simp: result_simps split: if_splits)

lemma wanted_Inr: "wanted True dq partial y = Inr True \<Longrightarrow>
    \<exists>w. y = CStr w \<and> w \<noteq> [] \<and> startswith (py_lower (dq w)) (py_lower partial)"
  by (cases y) auto

lemma shape_candidate_Inr: "shape_candidate sc txt c = Inr c' \<Longrightarrow> c' = c \<or> c' = CHR '' '' # c"
  by (auto simp: shape_candidate_def result_simps split: if_splits)

lemma space_after_Inr: "space_after_identifier sc cs = Inr cs' \<Longrightarrow> c' \<in> set cs' \<Longrightarrow>
    \<exists>c \<in> set cs. c' = c \<or> c' = c @ '' ''"
  by (cases cs) (auto simp: space_after_identifier_def result_simps split: if_splits)

text \<open>C14: what is offered outside quotes is a completion the grammar offered for the partial word.\<close>

theorem candidates_complete_partial:
  assumes pick: "pick_candidates True sc txt completions = Inr (candidates, hints)"
    and outside: "sc_prefix sc = None" "sc_dequoter sc = identity" and c: "c \<in> set candidates"
  shows "\<exists>w. CStr w \<in> set completions \<and> w \<noteq> [] \<and> startswith (py_lower w) (py_lower (sc_partial sc)) \<and>
    c \<in> {w, '' '' @ w, w @ '' '', '' '' @ w @ '' ''}"
proof -
  obtain items shaped where items: "efilter (wanted True (sc_dequoter sc) (sc_partial sc))
      (remove1 (CStr [newline]) (filter (\<lambda>x. \<not> is_hint x) completions)) = Inr items"
    and shaped: "(if sc_tokens sc = [] then Inr (map citem_text items)
      else emap (shape_candidate sc txt) (map citem_text items)) = Inr shaped"
    and final: "space_after_identifier sc shaped = Inr candidates"
    using pick outside(1)
    by (auto simp: pick_candidates_def list_bifilter_eq Let_def result_simps requote_candidates_def)
  from space_after_Inr [OF final c] obtain s where s: "s \<in> set shaped" "c = s \<or> c = s @ '' ''" by auto
  have "\<exists>y \<in> set items. s = citem_text y \<or> s = CHR '' '' # citem_text y"
  proof (cases "sc_tokens sc = []")
    case True
    with shaped s(1) show ?thesis by auto
  next
    case False
    with shaped s(1) obtain a where "a \<in> set (map citem_text items)" "shape_candidate sc txt a = Inr s"
      by (auto dest: emap_Inr_D)
    with shape_candidate_Inr [of sc "txt" a s] show ?thesis by auto
  qed
  then obtain y where y: "y \<in> set items" "s = citem_text y \<or> s = CHR '' '' # citem_text y" by blast
  from efilter_Inr [OF items y(1)] have "y \<in> set completions" "wanted True (sc_dequoter sc) (sc_partial sc) y = Inr True"
    using set_remove1_subset [of "CStr [newline]" "filter (\<lambda>x. \<not> is_hint x) completions"] by auto
  with wanted_Inr [of "sc_dequoter sc" "sc_partial sc" y] obtain w where w: "CStr w \<in> set completions"
    "y = CStr w" "w \<noteq> []" "startswith (py_lower (sc_dequoter sc w)) (py_lower (sc_partial sc))" by auto
  then have "startswith (py_lower w) (py_lower (sc_partial sc))"
    using outside(2) by (simp add: identity_def)
  moreover have "c \<in> {w, '' '' @ w, w @ '' '', '' '' @ w @ '' ''}"
    using y(2) s(2) w(2) by (elim disjE) simp_all
  ultimately show ?thesis using w(1,3) by (intro exI conjI)
qed

lemma quote_double_append: "quote_double q (s @ t) = quote_double q s @ quote_double q t"
  by (induction s) auto

lemma quote_double_id: "q \<notin> set s \<Longrightarrow> quote_double q s = s"
  by (induction s) auto

text \<open>the rest of a quoted word, when what is typed so far holds no quote.\<close>

theorem requote_rest:
  assumes "dequoter c = pre @ rest" and "q \<notin> set pre"
  shows "requote (\<lambda>s. q # quote_double q s @ [q]) dequoter pre c = quote_double q rest"
  using assms by (simp add: requote_def quote_double_append quote_double_id butlast_append)

text \<open>with a quote typed, characters that are already on the line are offered again.\<close>

theorem requote_repeats:
  assumes "dequoter c = pre @ rest" and "pre \<noteq> []" and "filter (\<lambda>x. x = q) pre \<noteq> []" and "last pre \<noteq> q"
  shows "suffix (last pre # quote_double q rest)
     (requote (\<lambda>s. q # quote_double q s @ [q]) dequoter pre c)"
proof -
  have len: "length (quote_double q s) = length s + length (filter (\<lambda>x. x = q) s)" for s
    by (induction s) auto
  have last: "quote_double q pre = quote_double q (butlast pre) @ [last pre]"
    using assms(2,4) quote_double_append [of q "butlast pre" "[last pre]"] by simp
  have "requote (\<lambda>s. q # quote_double q s @ [q]) dequoter pre c =
      drop (length pre) (quote_double q pre @ quote_double q rest)"
    using assms(1) by (simp add: requote_def quote_double_append butlast_append)
  also have "\<dots> = drop (length pre) (quote_double q (butlast pre)) @ last pre # quote_double q rest"
  proof -
    have "length pre \<le> length (quote_double q (butlast pre))"
      using len [of pre] assms(3) last by (cases pre rule: rev_cases) (auto simp: Suc_le_eq)
    then show ?thesis by (simp add: last)
  qed
  finally show ?thesis by (simp add: suffix_def)
qed

end
