(* ===== verification/PyJson.thy ===== *)
theory PyJson
  imports Prelude
begin

text \<open>
  \<open>json.loads\<close> of the standard library, for the texts the schema tables hold: arrays and objects of
  strings, numbers and constants. A number keeps its text. \<open>\uXXXX\<close> is read for codes below 256.
\<close>

datatype json = JNull | JBool bool | JNum string | JStr string | JList "json list" | JObj "(string \<times> json) list"

definition json_space :: "char \<Rightarrow> bool" where
  "json_space c \<longleftrightarrow> c = CHR '' '' \<or> c = CHR 0x09 \<or> c = newline \<or> c = CHR 0x0D"

definition skip_space :: "string \<Rightarrow> string" where
  "skip_space s = dropWhile json_space s"

definition hex_digit :: "char \<Rightarrow> nat option" where
  "hex_digit c =
     (if is_digit c then Some (code_point c - 48)
      else if 97 \<le> code_point c \<and> code_point c \<le> 102 then Some (code_point c - 87)
      else if 65 \<le> code_point c \<and> code_point c \<le> 70 then Some (code_point c - 55)
      else None)"

definition simple_escape :: "char \<Rightarrow> char option" where
  "simple_escape c =
     (if c = dquote \<or> c = bslash \<or> c = CHR ''/'' then Some c
      else if c = CHR ''n'' then Some newline
      else if c = CHR ''t'' then Some (CHR 0x09)
      else if c = CHR ''r'' then Some (CHR 0x0D)
      else if c = CHR ''b'' then Some (CHR 0x08)
      else if c = CHR ''f'' then Some (CHR 0x0C)
      else None)"

text \<open>The rest of a string literal, after its opening quote.\<close>

fun json_string :: "string \<Rightarrow> (string \<times> string) option" where
  "json_string [] = None"
| "json_string (c # s) =
     (if c = dquote then Some ([], s)
      else if c \<noteq> bslash then
        (if code_point c < 32 then None else map_option (\<lambda>(t, r). (c # t, r)) (json_string s))
      else (case s of
          [] \<Rightarrow> None
        | e # s1 \<Rightarrow>
            (case simple_escape e of
               Some x \<Rightarrow> map_option (\<lambda>(t, r). (x # t, r)) (json_string s1)
             | None \<Rightarrow>
                 (case s1 of
                    h1 # h2 # h3 # h4 # s2 \<Rightarrow>
                      (case (hex_digit h1, hex_digit h2, hex_digit h3, hex_digit h4) of
                         (Some 0, Some 0, Some a, Some b) \<Rightarrow>
                           if e = CHR ''u'' then map_option (\<lambda>(t, r). (char_of (16 * a + b) # t, r)) (json_string s2)
                           else None
                       | _ \<Rightarrow> None)
                  | _ \<Rightarrow> None))))"

definition number_char :: "char \<Rightarrow> bool" where
  "number_char c \<longleftrightarrow> is_digit c \<or> c \<in> set ''+-.eE''"

fun json_value :: "nat \<Rightarrow> string \<Rightarrow> (json \<times> string) option"
  and json_items :: "nat \<Rightarrow> string \<Rightarrow> (json list \<times> string) option"
  and json_members :: "nat \<Rightarrow> string \<Rightarrow> ((string \<times> json) list \<times> string) option" where
  "json_value 0 s = None"
| "json_value (Suc n) s =
     (if s = [] then None
      else if hd s = dquote then map_option (\<lambda>(t, r). (JStr t, r)) (json_string (tl s))
      else if hd s = CHR ''['' then
        (let r = skip_space (tl s) in
         if r \<noteq> [] \<and> hd r = CHR '']'' then Some (JList [], tl r)
         else map_option (\<lambda>(xs, t). (JList xs, t)) (json_items n r))
      else if hd s = CHR ''{'' then
        (let r = skip_space (tl s) in
         if r \<noteq> [] \<and> hd r = CHR ''}'' then Some (JObj [], tl r)
         else map_option (\<lambda>(xs, t). (JObj xs, t)) (json_members n r))
      else if startswith s ''null'' then Some (JNull, drop 4 s)
      else if startswith s ''true'' then Some (JBool True, drop 4 s)
      else if startswith s ''false'' then Some (JBool False, drop 5 s)
      else if is_digit (hd s) \<or> hd s = CHR ''-'' then
        Some (JNum (takeWhile number_char s), dropWhile number_char s)
      else None)"
| "json_items 0 s = None"
| "json_items (Suc n) s =
     (case json_value n s of
        None \<Rightarrow> None
      | Some (x, r) \<Rightarrow>
          (let r1 = skip_space r in
           if r1 \<noteq> [] \<and> hd r1 = CHR '']'' then Some ([x], tl r1)
           else if r1 \<noteq> [] \<and> hd r1 = CHR '','' then
             map_option (\<lambda>(xs, t). (x # xs, t)) (json_items n (skip_space (tl r1)))
           else None))"
| "json_members 0 s = None"
| "json_members (Suc n) s =
     (if s = [] \<or> hd s \<noteq> dquote then None
      else (case json_string (tl s) of
          None \<Rightarrow> None
        | Some (k, r) \<Rightarrow>
            (let r1 = skip_space r in
             if r1 = [] \<or> hd r1 \<noteq> CHR '':'' then None
             else (case json_value n (skip_space (tl r1)) of
                 None \<Rightarrow> None
               | Some (x, r2) \<Rightarrow>
                   (let r3 = skip_space r2 in
                    if r3 \<noteq> [] \<and> hd r3 = CHR ''}'' then Some ([(k, x)], tl r3)
                    else if r3 \<noteq> [] \<and> hd r3 = CHR '','' then
                      map_option (\<lambda>(xs, t). ((k, x) # xs, t)) (json_members n (skip_space (tl r3)))
                    else None)))))"

definition json_loads :: "string \<Rightarrow> json res" where
  "json_loads s =
     (case json_value (2 * length s + 2) (skip_space s) of
        None \<Rightarrow> Inl (ValueError ''No JSON object could be decoded'')
      | Some (x, r) \<Rightarrow> if skip_space r = [] then Inr x else Inl (ValueError ''Extra data''))"

end
