(* ===== verification/Cql3_Table.thy ===== *)
theory Cql3_Table
  imports PyJson "HOL-Library.Sublist" "HOL-Library.Char_ord" "HOL-Library.List_Lexorder"
begin

text \<open>
  \<open>CqlColumnDef\<close> and \<open>CqlTableDef\<close> of \<open>cqlshlib/cql3handling.py\<close>: what the completers know of a table,
  computed from its row of \<open>system.schema_columnfamilies\<close> and the rows of its columns. The types of
  the columns are objects of the package \<open>cql.cqltypes\<close>, which is not part of the repository: they
  are values of a type \<open>'ty\<close>, with what the code uses of them in a record.
\<close>

section \<open>Column types\<close>

record 'ty cqltypes =
  lookup_casstype :: "string option \<Rightarrow> 'ty res"
  is_composite :: "'ty \<Rightarrow> bool"        \<comment> \<open>\<open>issubclass(t, CompositeType)\<close>\<close>
  is_collection :: "'ty \<Rightarrow> bool"       \<comment> \<open>\<open>issubclass(t, ColumnToCollectionType)\<close>\<close>
  subtypes :: "'ty \<Rightarrow> 'ty list"
  utf8_type :: 'ty
  counter_type :: 'ty
  typename :: "'ty \<Rightarrow> string"
  cql_parameterized_type :: "'ty \<Rightarrow> string"

section \<open>Columns\<close>

text \<open>A row of a schema table: a dict whose values are strings or \<open>None\<close>.\<close>

type_synonym row = "string \<rightharpoonup> string option"

record 'ty coldef =
  cd_name :: string
  cd_cqltype :: "'ty option"
  cd_index_name :: "string option"

definition CqlColumnDef :: "string option \<Rightarrow> 'ty option \<Rightarrow> 'ty coldef res" where
  "CqlColumnDef name cqltype =
     (case name of
        None \<Rightarrow> Inl AssertionError
      | Some nm \<Rightarrow> Inr \<lparr>cd_name = nm, cd_cqltype = cqltype, cd_index_name = None\<rparr>)"

definition column_from_layout :: "'ty cqltypes \<Rightarrow> row \<Rightarrow> 'ty coldef res" where
  "column_from_layout T layout =
     ebind (case layout ''column_name'' of Some v \<Rightarrow> Inr v | None \<Rightarrow> key_res layout ''column'') (\<lambda>colname.
     ebind (key_res layout ''validator'') (\<lambda>validator.
     ebind (lookup_casstype T validator) (\<lambda>ty.
     ebind (CqlColumnDef colname (Some ty)) (\<lambda>c.
     ebind (key_res layout ''index_name'') (\<lambda>index_name.
       Inr (c\<lparr>cd_index_name := index_name\<rparr>))))))"

text \<open>\<open>map\<close> over two lists pads the shorter one with \<open>None\<close>.\<close>

fun map2_none :: "('a option \<Rightarrow> 'b option \<Rightarrow> 'c res) \<Rightarrow> 'a list \<Rightarrow> 'b list \<Rightarrow> 'c list res" where
  "map2_none f [] [] = Inr []"
| "map2_none f (x # xs) [] = ebind (f (Some x) None) (\<lambda>z. ebind (map2_none f xs []) (\<lambda>zs. Inr (z # zs)))"
| "map2_none f [] (y # ys) = ebind (f None (Some y)) (\<lambda>z. ebind (map2_none f [] ys) (\<lambda>zs. Inr (z # zs)))"
| "map2_none f (x # xs) (y # ys) =
     ebind (f (Some x) (Some y)) (\<lambda>z. ebind (map2_none f xs ys) (\<lambda>zs. Inr (z # zs)))"

section \<open>Tables\<close>

text \<open>
  The attributes \<open>from_layout\<close> copies from the row, after \<open>json.loads\<close> of the four \<open>json_attrs\<close>.
\<close>

datatype attr = AStr "string option" | AJson json

record 'ty cqltable =
  cf_name :: "string option"
  cf_keyspace :: "string option"
  cf_attrs :: "string \<rightharpoonup> attr"
  cf_partition_key_validator :: 'ty
  cf_comparator :: 'ty
  cf_default_validator :: 'ty
  cf_coldefs :: "row list"
  cf_compact_storage :: bool
  cf_key_aliases :: "string list"
  cf_partition_key_components :: "string list"
  cf_column_aliases :: "string list"
  cf_primary_key_components :: "string list"
  cf_columns :: "'ty coldef list"

datatype structure_warning =
    NoAliasesNotUtf8 | AliasCountDiffers | ValueAliasAndColumns | CollectionNotLast | NoUtf8Comparator | Cql3ValueAlias

definition json_attrs :: "string list" where
  "json_attrs = [''column_aliases'', ''compaction_strategy_options'', ''compression_parameters'', ''key_aliases'']"

text \<open>
  The loop over \<open>json_attrs\<close>. Of the four, \<open>column_aliases\<close> is a class attribute, the empty tuple, so it is
  found even when the row has no such column; \<open>json.loads\<close> of a tuple is a \<open>TypeError\<close>.
\<close>

definition load_attr :: "string \<Rightarrow> (string \<rightharpoonup> attr) \<Rightarrow> (string \<rightharpoonup> attr) res" where
  "load_attr a attrs =
     (case attrs a of
        None \<Rightarrow> if a = ''column_aliases'' then Inl TypeError else Inr attrs
      | Some (AJson v) \<Rightarrow> Inl TypeError
      | Some (AStr None) \<Rightarrow>
          if a = ''key_aliases'' then Inr (attrs(a \<mapsto> AJson (JList []))) else Inl TypeError
      | Some (AStr (Some val)) \<Rightarrow> ebind (json_loads val) (\<lambda>v. Inr (attrs(a \<mapsto> AJson v))))"

fun load_attrs :: "string list \<Rightarrow> (string \<rightharpoonup> attr) \<Rightarrow> (string \<rightharpoonup> attr) res" where
  "load_attrs [] attrs = Inr attrs"
| "load_attrs (a # as) attrs = ebind (load_attr a attrs) (load_attrs as)"

definition attr_res :: "(string \<rightharpoonup> attr) \<Rightarrow> string \<Rightarrow> attr res" where
  "attr_res attrs a = (case attrs a of None \<Rightarrow> Inl AttributeError | Some v \<Rightarrow> Inr v)"

text \<open>An attribute that holds a list of strings, as the code needs it for \<open>len\<close>, \<open>+\<close> and slices.\<close>

fun json_strings :: "json list \<Rightarrow> string list res" where
  "json_strings [] = Inr []"
| "json_strings (JStr s # js) = ebind (json_strings js) (\<lambda>ss. Inr (s # ss))"
| "json_strings (_ # js) = Inl TypeError"

definition attr_strings :: "(string \<rightharpoonup> attr) \<Rightarrow> string \<Rightarrow> string list res" where
  "attr_strings attrs a = ebind (attr_res attrs a) (\<lambda>v.
     case v of AJson (JList js) \<Rightarrow> json_strings js | _ \<Rightarrow> Inl TypeError)"

definition attr_string :: "(string \<rightharpoonup> attr) \<Rightarrow> string \<Rightarrow> string option res" where
  "attr_string attrs a = ebind (attr_res attrs a) (\<lambda>v.
     case v of AStr s \<Rightarrow> Inr s | _ \<Rightarrow> Inl TypeError)"

definition filter_regular_coldefs :: "row list \<Rightarrow> row list" where
  "filter_regular_coldefs cols =
     filter (\<lambda>c. (case c ''type'' of None \<Rightarrow> True | Some v \<Rightarrow> v = Some ''regular'')) cols"

definition is_compact_storage :: "'ty cqltypes \<Rightarrow> 'ty cqltable \<Rightarrow> bool res" where
  "is_compact_storage T cf =
     (let comp = cf_comparator cf; subs = subtypes T comp in
      if \<not> is_composite T comp then Inr True
      else if list_ex (is_collection T) subs then Inr False
      else ebind (attr_strings (cf_attrs cf) ''column_aliases'') (\<lambda>aliases.
        if int (length aliases) = int (length subs) - 1 then
          ebind (last_res subs) (\<lambda>l. Inr (l \<noteq> utf8_type T))
        else Inr True))"

definition numbered :: "string \<Rightarrow> nat \<Rightarrow> nat \<Rightarrow> string list" where
  "numbered s lo hi = map (\<lambda>i. s @ nat_str i) [lo..<hi]"

definition get_key_aliases :: "'ty cqltypes \<Rightarrow> 'ty cqltable \<Rightarrow> string list res" where
  "get_key_aliases T cf =
     ebind (attr_strings (cf_attrs cf) ''key_aliases'') (\<lambda>key_aliases.
       if \<not> is_composite T (cf_partition_key_validator cf) then
         (if key_aliases \<noteq> [] then Inr key_aliases
          else ebind (attr_string (cf_attrs cf) ''key_alias'') (\<lambda>key_alias.
            case key_alias of
              None \<Rightarrow> Inr [''key'']
            | Some a \<Rightarrow> Inr (if a = [] then [''key''] else [a])))
       else
         (let expected = length (subtypes T (cf_partition_key_validator cf));
              aliases = ''key'' # numbered ''key'' 2 (expected + 1)
          in Inr (key_aliases @ drop (length key_aliases) aliases)))"

definition get_column_aliases :: "'ty cqltypes \<Rightarrow> 'ty cqltable \<Rightarrow> string list res" where
  "get_column_aliases T cf =
     ebind (attr_strings (cf_attrs cf) ''column_aliases'') (\<lambda>column_aliases.
       if \<not> cf_compact_storage cf then Inr column_aliases
       else if \<not> is_composite T (cf_comparator cf) then
         Inr (if cf_coldefs cf \<noteq> [] then []
              else if column_aliases \<noteq> [] then column_aliases else [''column1''])
       else
         (let expected = length (subtypes T (cf_comparator cf));
              aliases = numbered ''column'' 1 (expected + 1)
          in Inr (column_aliases @ drop (length column_aliases) aliases)))"

definition partkey_types :: "'ty cqltypes \<Rightarrow> 'ty cqltable \<Rightarrow> 'ty list" where
  "partkey_types T cf =
     (if is_composite T (cf_partition_key_validator cf) then subtypes T (cf_partition_key_validator cf)
      else [cf_partition_key_validator cf])"

definition sorted_columns :: "'ty coldef list \<Rightarrow> 'ty coldef list" where
  "sorted_columns cols = sort_key cd_name cols"

definition compact_value_columns :: "'ty cqltypes \<Rightarrow> 'ty cqltable \<Rightarrow> string option \<Rightarrow> 'ty coldef list res" where
  "compact_value_columns T cf value_alias =
     (case value_alias of
        Some a \<Rightarrow>
          if a = [] then Inr []
          else ebind (CqlColumnDef (Some a) (Some (cf_default_validator cf))) (\<lambda>c. Inr [c])
      | None \<Rightarrow>
          if cf_coldefs cf = [] then
            ebind (CqlColumnDef (Some ''value'') (Some (cf_default_validator cf))) (\<lambda>c. Inr [c])
          else ebind (emap (column_from_layout T) (cf_coldefs cf)) (\<lambda>cs. Inr (sorted_columns cs)))"

text \<open>The columns and the warnings issued on the way.\<close>

definition get_columns_compact :: "'ty cqltypes \<Rightarrow> 'ty cqltable \<Rightarrow> ('ty coldef list \<times> structure_warning list) res" where
  "get_columns_compact T cf =
     ebind (map2_none CqlColumnDef (cf_partition_key_components cf) (partkey_types T cf)) (\<lambda>partkey_cols.
     let comp = cf_comparator cf; aliases = cf_column_aliases cf;
         w1 = (if aliases = [] \<and> comp \<noteq> utf8_type T then [NoAliasesNotUtf8] else []);
         colalias_types = (if aliases = [] then []
                           else if is_composite T comp then subtypes T comp else [comp]);
         w2 = (if length colalias_types \<noteq> length aliases then [AliasCountDiffers] else [])
     in ebind (map2_none CqlColumnDef aliases colalias_types) (\<lambda>colalias_cols.
     ebind (attr_string (cf_attrs cf) ''value_alias'') (\<lambda>value_alias.
     let w3 = (if value_alias \<noteq> None \<and> cf_coldefs cf \<noteq> [] then [ValueAliasAndColumns] else []) in
     ebind (compact_value_columns T cf value_alias) (\<lambda>value_cols.
       Inr (partkey_cols @ colalias_cols @ value_cols, w1 @ w2 @ w3)))))"

definition get_columns_cql3 :: "'ty cqltypes \<Rightarrow> 'ty cqltable \<Rightarrow> ('ty coldef list \<times> structure_warning list) res" where
  "get_columns_cql3 T cf =
     ebind (map2_none CqlColumnDef (cf_partition_key_components cf) (partkey_types T cf)) (\<lambda>partkey_cols.
     let subs = subtypes T (cf_comparator cf);
         w1 = map (\<lambda>_. CollectionNotLast) (filter (is_collection T) (butlast subs)) in
     ebind (last_res subs) (\<lambda>l.
     let coltypes = (if is_collection T l then butlast subs else subs) in
     ebind (if length coltypes \<noteq> length (cf_column_aliases cf) + 1 then Inr [NoUtf8Comparator]
            else ebind (last_res coltypes) (\<lambda>l2.
              Inr (if l2 \<noteq> utf8_type T then [NoUtf8Comparator] else []))) (\<lambda>w2.
     ebind (map2_none CqlColumnDef (cf_column_aliases cf) (butlast coltypes)) (\<lambda>colalias_cols.
     ebind (attr_string (cf_attrs cf) ''value_alias'') (\<lambda>value_alias.
     let w3 = (if value_alias \<noteq> None then [Cql3ValueAlias] else []) in
     ebind (emap (column_from_layout T) (cf_coldefs cf)) (\<lambda>cs.
       Inr (partkey_cols @ colalias_cols @ sorted_columns cs, w1 @ w2 @ w3)))))))"

definition get_columns :: "'ty cqltypes \<Rightarrow> 'ty cqltable \<Rightarrow> ('ty coldef list \<times> structure_warning list) res" where
  "get_columns T cf = (if cf_compact_storage cf then get_columns_compact T cf else get_columns_cql3 T cf)"

definition layout_names :: "row \<Rightarrow> (string option \<times> string option) res" where
  "layout_names layout =
     (case (layout ''columnfamily_name'', layout ''keyspace_name'') of
        (Some cfname, Some ksname) \<Rightarrow> Inr (cfname, ksname)
      | _ \<Rightarrow>
          ebind (key_res layout ''columnfamily'') (\<lambda>cfname.
          ebind (key_res layout ''keyspace'') (\<lambda>ksname. Inr (cfname, ksname))))"

definition typed_attr :: "'ty cqltypes \<Rightarrow> (string \<rightharpoonup> attr) \<Rightarrow> string \<Rightarrow> 'ty res" where
  "typed_attr T attrs a = ebind (attr_string attrs a) (lookup_casstype T)"

definition table_from_layout :: "'ty cqltypes \<Rightarrow> row \<Rightarrow> row list \<Rightarrow> ('ty cqltable \<times> structure_warning list) res" where
  "table_from_layout T layout coldefs =
     ebind (layout_names layout) (\<lambda>(cfname, ksname).
     ebind (load_attrs json_attrs (map_option AStr \<circ> layout)) (\<lambda>attrs.
     ebind (typed_attr T attrs ''key_validator'') (\<lambda>key_validator.
     ebind (typed_attr T attrs ''comparator'') (\<lambda>comp.
     ebind (typed_attr T attrs ''default_validator'') (\<lambda>default_validator.
     let cf0 = \<lparr>cf_name = cfname, cf_keyspace = ksname, cf_attrs = attrs,
           cf_partition_key_validator = key_validator, cf_comparator = comp,
           cf_default_validator = default_validator, cf_coldefs = filter_regular_coldefs coldefs,
           cf_compact_storage = False, cf_key_aliases = [], cf_partition_key_components = [],
           cf_column_aliases = [], cf_primary_key_components = [], cf_columns = []\<rparr> in
     ebind (is_compact_storage T cf0) (\<lambda>compact.
     let cf1 = cf0\<lparr>cf_compact_storage := compact\<rparr> in
     ebind (get_key_aliases T cf1) (\<lambda>keys.
     let cf2 = cf1\<lparr>cf_key_aliases := keys, cf_partition_key_components := keys\<rparr> in
     ebind (get_column_aliases T cf2) (\<lambda>aliases.
     let cf3 = cf2\<lparr>cf_column_aliases := aliases, cf_primary_key_components := keys @ aliases\<rparr> in
     ebind (get_columns T cf3) (\<lambda>(cols, warns). Inr (cf3\<lparr>cf_columns := cols\<rparr>, warns))))))))))"

definition get_column :: "'ty cqltable \<Rightarrow> string \<Rightarrow> 'ty coldef res" where
  "get_column cf colname =
     (case filter (\<lambda>cm. cd_name cm = colname) (cf_columns cf) of [] \<Rightarrow> Inl KeyError | c # _ \<Rightarrow> Inr c)"

definition is_counter_col3 :: "'ty cqltypes \<Rightarrow> 'ty cqltable \<Rightarrow> string \<Rightarrow> bool" where
  "is_counter_col3 T cf colname =
     (case get_column cf colname of
        Inl _ \<Rightarrow> False
      | Inr c \<Rightarrow> cd_cqltype c = Some (counter_type T))"

definition opt_str :: "string option \<Rightarrow> string" where
  "opt_str s = (case s of None \<Rightarrow> ''None'' | Some x \<Rightarrow> x)"

definition table_str :: "'ty cqltable \<Rightarrow> string" where
  "table_str cf = ''<CqlTableDef '' @ opt_str (cf_keyspace cf) @ ''.'' @ opt_str (cf_name cf) @ ''>''"

section \<open>What a table definition promises\<close>

lemma map2_none_rest: "map2_none CqlColumnDef names [] = Inr cs \<Longrightarrow>
    map cd_name cs = names \<and> map cd_cqltype cs = replicate (length names) None"
  by (induction names arbitrary: cs) (auto simp: result_simps CqlColumnDef_def)

lemma map2_none_columns:
  "map2_none CqlColumnDef names types = Inr cs \<Longrightarrow>
     map cd_name cs = names \<and> length types \<le> length names \<and>
     map cd_cqltype cs = map Some types @ replicate (length names - length types) None"
proof (induction names types arbitrary: cs rule: list_induct2')
  case (2 x xs)
  with map2_none_rest [of "x # xs" cs] show ?case by simp
qed (auto simp: result_simps CqlColumnDef_def)

lemmas column_lists = Let_def result_simps

lemma get_columns_compact_parts:
  assumes "get_columns_compact T cf = Inr (cols, warns)"
  shows "\<exists>pk ca vs. cols = pk @ ca @ vs \<and> sorted (map cd_name vs) \<and>
    map cd_name pk = cf_partition_key_components cf \<and> map cd_name ca = cf_column_aliases cf"
proof -
  from assms obtain pk ca vs types a where cols: "cols = pk @ ca @ vs"
    and pk: "map2_none CqlColumnDef (cf_partition_key_components cf) (partkey_types T cf) = Inr pk"
    and ca: "map2_none CqlColumnDef (cf_column_aliases cf) types = Inr ca"
    and vs: "compact_value_columns T cf a = Inr vs"
    unfolding get_columns_compact_def by (clarsimp simp: column_lists)
  from vs have "sorted (map cd_name vs)"
    by (auto simp: compact_value_columns_def sorted_columns_def result_simps split: option.splits if_splits)
  with cols map2_none_columns [OF pk] map2_none_columns [OF ca] show ?thesis by blast
qed

lemma get_columns_cql3_parts:
  assumes "get_columns_cql3 T cf = Inr (cols, warns)"
  shows "\<exists>pk ca vs. cols = pk @ ca @ vs \<and> sorted (map cd_name vs) \<and>
    map cd_name pk = cf_partition_key_components cf \<and> map cd_name ca = cf_column_aliases cf"
proof -
  from assms obtain pk ca cs types where cols: "cols = pk @ ca @ sorted_columns cs"
    and pk: "map2_none CqlColumnDef (cf_partition_key_components cf) (partkey_types T cf) = Inr pk"
    and ca: "map2_none CqlColumnDef (cf_column_aliases cf) types = Inr ca"
    unfolding get_columns_cql3_def by (clarsimp simp: column_lists)
  have "sorted (map cd_name (sorted_columns cs))" by (simp add: sorted_columns_def)
  with cols map2_none_columns [OF pk] map2_none_columns [OF ca] show ?thesis by blast
qed

lemma get_columns_names:
  assumes "get_columns T cf = Inr (cols, warns)"
  shows "\<exists>vs. map cd_name cols = cf_partition_key_components cf @ cf_column_aliases cf @ map cd_name vs \<and>
    suffix vs cols \<and> sorted (map cd_name vs)"
proof -
  from assms obtain pk ca vs where "cols = pk @ ca @ vs" "sorted (map cd_name vs)"
    "map cd_name pk = cf_partition_key_components cf" "map cd_name ca = cf_column_aliases cf"
    using get_columns_compact_parts [of T cf cols warns] get_columns_cql3_parts [of T cf cols warns]
    by (auto simp: get_columns_def split: if_splits)
  then show ?thesis by (intro exI [of _ vs]) (auto simp: suffix_def)
qed

lemma table_from_layout_columns:
  assumes "table_from_layout T layout coldefs = Inr (cf, warns)"
  shows "\<exists>cf1 cf'. get_columns T cf' = Inr (cf_columns cf, warns) \<and>
    get_key_aliases T cf1 = Inr (cf_key_aliases cf) \<and>
    cf_partition_key_components cf' = cf_key_aliases cf \<and> cf_column_aliases cf' = cf_column_aliases cf \<and>
    cf_partition_key_components cf = cf_key_aliases cf \<and>
    cf_primary_key_components cf = cf_key_aliases cf @ cf_column_aliases cf \<and>
    cf_partition_key_validator cf1 = cf_partition_key_validator cf"
  using assms unfolding table_from_layout_def Let_def
  by (clarsimp simp: result_simps split: prod.splits) (intro exI conjI, assumption+, simp_all)

lemma table_columns_aux:
  assumes "table_from_layout T layout coldefs = Inr (cf, warns)"
  shows "\<exists>vs. map cd_name (cf_columns cf) = cf_primary_key_components cf @ map cd_name vs \<and>
       suffix vs (cf_columns cf) \<and> sorted (map cd_name vs)"
proof -
  from table_from_layout_columns [OF assms] obtain cf1 cf' where
    "get_columns T cf' = Inr (cf_columns cf, warns)"
    "cf_partition_key_components cf' = cf_key_aliases cf" "cf_column_aliases cf' = cf_column_aliases cf"
    "cf_primary_key_components cf = cf_key_aliases cf @ cf_column_aliases cf" by blast
  with get_columns_names [of T cf' "cf_columns cf" warns] show ?thesis by simp
qed


lemma get_key_aliases_length:
  assumes "get_key_aliases T cf = Inr keys"
  shows "keys \<noteq> [] \<and> (is_composite T (cf_partition_key_validator cf) \<longrightarrow>
    length (subtypes T (cf_partition_key_validator cf)) \<le> length keys)"
proof -
  from assms obtain ks where ks: "attr_strings (cf_attrs cf) ''key_aliases'' = Inr ks"
    by (auto simp: get_key_aliases_def result_simps)
  show ?thesis
  proof (cases "is_composite T (cf_partition_key_validator cf)")
    case True
    then have "keys = ks @ drop (length ks)
        (''key'' # numbered ''key'' 2 (length (subtypes T (cf_partition_key_validator cf)) + 1))"
      using assms ks by (simp add: get_key_aliases_def Let_def)
    then show ?thesis by (cases ks) (auto simp: numbered_def)
  next
    case False
    show ?thesis
    proof (cases "ks = []")
      case True
      with assms ks False have "keys \<noteq> []"
        by (auto simp: get_key_aliases_def result_simps split: option.splits if_splits)
      with False show ?thesis by simp
    next
      case False
      with assms ks \<open>\<not> is_composite T _\<close> show ?thesis by (simp add: get_key_aliases_def)
    qed
  qed
qed

text \<open>a table has a name for every component of its partition key.\<close>

theorem partition_key_named:
  assumes "table_from_layout T layout coldefs = Inr (cf, warns)"
  shows "cf_partition_key_components cf \<noteq> [] \<and>
    length (partkey_types T cf) \<le> length (cf_partition_key_components cf)"
proof -
  from table_from_layout_columns [OF assms] obtain cf1 where
    "get_key_aliases T cf1 = Inr (cf_key_aliases cf)" "cf_partition_key_components cf = cf_key_aliases cf"
    "cf_partition_key_validator cf1 = cf_partition_key_validator cf" by blast
  with get_key_aliases_length [of T cf1 "cf_key_aliases cf"] show ?thesis
    by (auto simp: partkey_types_def Suc_le_eq)
qed

lemma get_column_Inr: "n \<in> set (map cd_name (cf_columns cf)) \<Longrightarrow> \<exists>c. get_column cf n = Inr c \<and> cd_name c = n \<and> c \<in> set (cf_columns cf)"
proof -
  assume "n \<in> set (map cd_name (cf_columns cf))"
  then have ne: "filter (\<lambda>cm. cd_name cm = n) (cf_columns cf) \<noteq> []" by (auto simp: filter_empty_conv)
  then obtain c cs where c: "filter (\<lambda>cm. cd_name cm = n) (cf_columns cf) = c # cs"
    by (cases "filter (\<lambda>cm. cd_name cm = n) (cf_columns cf)") auto
  then have "cd_name c = n \<and> c \<in> set (cf_columns cf)" by (auto simp: filter_eq_Cons_iff)
  with c show ?thesis by (auto simp: get_column_def)
qed

text \<open>every component of the primary key is a column that can be looked up.\<close>

theorem key_columns_found:
  assumes "table_from_layout T layout coldefs = Inr (cf, warns)" and "k \<in> set (cf_primary_key_components cf)"
  shows "\<exists>c. get_column cf k = Inr c \<and> cd_name c = k \<and> c \<in> set (cf_columns cf)"
proof (rule get_column_Inr)
  obtain vs where "map cd_name (cf_columns cf) = cf_primary_key_components cf @ map cd_name vs"
    "suffix vs (cf_columns cf)"
    using table_columns_aux [OF assms(1)] by blast
  with assms(2) show "k \<in> set (map cd_name (cf_columns cf))" by simp
qed

end
