(* ===== verification/Cql_Connection.thy ===== *)
theory Cql_Connection
  imports Cql3_Table Cql_Complete
begin

text \<open>
  What the completers of both grammars see: the connection object \<open>cass\<close>, which is an object of the
  shell (\<open>bin/cqlsh\<close>) and a parameter here, and the bindings of the parse context, with the
  operations of Python the completers apply to them.
\<close>

section \<open>The connection\<close>

text \<open>The column family definition the Thrift interface returns, for CQL 2.\<close>

record column_metadata =
  cm_name :: string
  cm_index_name :: "string option"
  cm_validation_class :: string

record cfdef =
  key_alias :: "string option"
  column_metadata :: "column_metadata list"
  compaction_strategy :: string

record 'ty cass =
  get_keyspace_names :: "string list res"
  get_columnfamily_names :: "string option \<Rightarrow> string list res"
  get_columnfamily_layout :: "string option \<Rightarrow> string \<Rightarrow> 'ty cqltable res"
  get_columnfamily :: "bindval \<Rightarrow> bindval \<Rightarrow> cfdef res"
  get_index_names :: "string list res"
  filterable_column_names :: "cfdef \<Rightarrow> string list res"
  list_users :: "string list res"
  cass_types :: "'ty cqltypes"
  cql_types :: "string list"
  is_counter_type :: "string \<Rightarrow> bool"

type_synonym 'ty cass_completer = "ctxt \<Rightarrow> 'ty cass \<Rightarrow> pyval res"

section \<open>Bindings\<close>

text \<open>The methods of strings raise \<open>AttributeError\<close> on anything else.\<close>

definition as_str :: "bindval \<Rightarrow> string res" where
  "as_str v = (case v of BStr s \<Rightarrow> Inr s | _ \<Rightarrow> Inl AttributeError)"

text \<open>Iterating, measuring and indexing a tuple or a string; the characters of a string are strings.\<close>

definition as_items :: "bindval \<Rightarrow> string list res" where
  "as_items v = (case v of BTup xs \<Rightarrow> Inr xs | BStr s \<Rightarrow> Inr (map (\<lambda>c. [c]) s) | _ \<Rightarrow> Inl TypeError)"

definition last_item :: "bindval \<Rightarrow> string res" where
  "last_item v = ebind (as_items v) last_res"

definition item_at :: "bindval \<Rightarrow> nat \<Rightarrow> string res" where
  "item_at v i = ebind (as_items v) (\<lambda>xs. nth_res xs i)"

fun list_index :: "'a \<Rightarrow> 'a list \<Rightarrow> nat option" where
  "list_index x [] = None"
| "list_index x (y # ys) = (if x = y then Some 0 else map_option Suc (list_index x ys))"

fun substring_index :: "string \<Rightarrow> string \<Rightarrow> nat option" where
  "substring_index p [] = (if p = [] then Some 0 else None)"
| "substring_index p (c # s) =
     (if startswith (c # s) p then Some 0 else map_option Suc (substring_index p s))"

text \<open>\<open>v.index(x)\<close>.\<close>

definition index_of :: "bindval \<Rightarrow> string \<Rightarrow> nat res" where
  "index_of v x =
     (case v of
        BTup xs \<Rightarrow> (case list_index x xs of None \<Rightarrow> Inl (ValueError ''not in tuple'') | Some i \<Rightarrow> Inr i)
      | BStr s \<Rightarrow> (case substring_index x s of None \<Rightarrow> Inl (ValueError ''substring not found'') | Some i \<Rightarrow> Inr i)
      | _ \<Rightarrow> Inl AttributeError)"

definition binding_or_empty :: "ctxt \<Rightarrow> string \<Rightarrow> bindval" where
  "binding_or_empty ctxt name = get_binding ctxt name (BTup [])"

definition binding :: "ctxt \<Rightarrow> string \<Rightarrow> bindval" where
  "binding ctxt name = get_binding ctxt name BNone"

definition dequote_binding :: "(string \<Rightarrow> string) \<Rightarrow> bindval \<Rightarrow> string res" where
  "dequote_binding dequote v = ebind (as_str v) (\<lambda>s. Inr (dequote s))"

definition dequote_items :: "(string \<Rightarrow> string) \<Rightarrow> bindval \<Rightarrow> string list res" where
  "dequote_items dequote v = ebind (as_items v) (\<lambda>xs. Inr (map dequote xs))"

definition strs :: "string list \<Rightarrow> pyval res" where
  "strs xs = Inr (PList (map CStr xs))"

definition hint :: "string \<Rightarrow> pyval res" where
  "hint t = Inr (PList [CHint t])"

text \<open>\<open>opts.discard(opt.split()[0])\<close> for every option seen.\<close>

fun discard_seen :: "string list \<Rightarrow> string list \<Rightarrow> string list res" where
  "discard_seen opts [] = Inr opts"
| "discard_seen opts (opt # seen) =
     ebind (nth_res (split_ws opt) 0) (\<lambda>w. discard_seen (removeAll w opts) seen)"

definition remaining_options :: "string \<Rightarrow> string \<Rightarrow> 'ty cass_completer" where
  "remaining_options known name ctxt cass =
     ebind (as_items (binding_or_empty ctxt name)) (\<lambda>seen.
     ebind (discard_seen (split_ws known) seen) strs)"

lemma discard_seen_spec:
  "discard_seen opts seen = Inr r \<Longrightarrow>
   set r = set opts - {w. \<exists>opt \<in> set seen. split_ws opt \<noteq> [] \<and> hd (split_ws opt) = w}"
proof (induction seen arbitrary: opts)
  case (Cons opt seen)
  from Cons.prems have ne: "split_ws opt \<noteq> []"
    and r: "discard_seen (removeAll (hd (split_ws opt)) opts) seen = Inr r"
    by (auto simp: result_simps nth_res_def hd_conv_nth split: if_splits)
  from Cons.IH [OF r] ne show ?case by auto
qed simp

text \<open>\<open>for k, v in zip(keys, vals): if k == key: ...\<close>: the first value bound to the key.\<close>

definition first_value :: "string \<Rightarrow> string list \<Rightarrow> string list \<Rightarrow> string option" where
  "first_value k keys vals = map_of (zip keys vals) k"

definition last_dotted :: "string \<Rightarrow> string" where
  "last_dotted s = last (split_char (CHR ''.'') s)"

end
