(* ===== verification/Cql2_Grammar.thy ===== *)
theory Cql2_Grammar
  imports RuleSet
begin

text \<open>
  The CQL 2 grammar of \<open>cqlshlib/cqlhandling.py\<close> (the \<open>syntax_rules\<close> string, block by block), as the
  matchers \<open>parse_rules\<close> makes of it, and the rule names of the keywords.
\<close>

abbreviation Seq :: "matcher list \<Rightarrow> matcher" where "Seq \<equiv> RuleSeries"
abbreviation Opt :: "matcher \<Rightarrow> matcher" where "Opt \<equiv> OneOrNone"
abbreviation Ref :: "string \<Rightarrow> matcher" where "Ref \<equiv> RuleReference"
abbreviation Kw :: "string \<Rightarrow> matcher" where "Kw \<equiv> WordMatch"
abbreviation Sym :: "string \<Rightarrow> matcher" where "Sym \<equiv> TextMatch"
abbreviation Named :: "string \<Rightarrow> matcher \<Rightarrow> matcher" where "Named \<equiv> NamedSymbol"
abbreviation Coll :: "string \<Rightarrow> matcher \<Rightarrow> matcher" where "Coll \<equiv> NamedCollector"

text \<open>\<open>set_keywords_as_syntax\<close> builds one rule for each keyword.\<close>

definition keyword_rule_text :: "string \<Rightarrow> string" where
  "keyword_rule_text k = ''<K_'' @ py_upper k @ ''> ::= '' @ [dquote] @ k @ [dquote] @ '' ;''"

definition set_keywords_as_syntax :: "string list \<Rightarrow> prs \<Rightarrow> prs res" where
  "set_keywords_as_syntax keywords p = append_rules (py_join [newline] (map keyword_rule_text keywords)) p"

definition keyword_rule :: "string \<Rightarrow> string \<times> matcher" where
  "keyword_rule k = (''K_'' @ py_upper k, TerminalType (''K_'' @ py_upper k) (Kw k))"

section \<open>Keywords\<close>

definition cql2_keywords :: "string list" where
  "cql2_keywords = [''select'', ''from'', ''where'', ''and'', ''key'', ''insert'', ''update'', ''with'',
     ''limit'', ''using'', ''consistency'', ''one'', ''quorum'', ''all'', ''any'',
     ''local_quorum'', ''each_quorum'', ''two'', ''three'', ''use'', ''count'', ''set'',
     ''begin'', ''apply'', ''batch'', ''truncate'', ''delete'', ''in'', ''create'',
     ''keyspace'', ''schema'', ''columnfamily'', ''table'', ''index'', ''on'', ''drop'',
     ''primary'', ''into'', ''values'', ''timestamp'', ''ttl'', ''alter'', ''add'', ''type'',
     ''first'', ''reversed'']"

section \<open>Rules\<close>

definition cql2_terminal_rules :: rules where
  "cql2_terminal_rules =
    [(''Start'',
       Repeat (Ref ''CQL_Statement'')),
     (''CQL_Statement'',
       Seq [Coll ''statements'' (Ref ''statementBody''), Sym '';'']),
     (''endline'',
       TerminalType ''endline'' (RegexRule ([bslash] @ ''n''))),
     (''JUNK'',
       TerminalType ''JUNK'' (RegexRule (''([ '' @ [bslash] @ ''t'' @ [bslash] @ ''r'' @ [bslash] @ ''f'' @ [bslash] @ ''v]+|(--|[/][/])[^'' @ [bslash] @ ''n'' @ [bslash] @ ''r]*(['' @ [bslash] @ ''n'' @ [bslash] @ ''r]|$)|[/][*].*?[*][/])''))),
     (''stringLiteral'',
       TerminalType ''stringLiteral'' (RegexRule ([squote] @ ''([^'' @ [squote] @ '']|'' @ [squote, squote] @ '')*'' @ [squote]))),
     (''float'',
       TerminalType ''float'' (RegexRule (''-?[0-9]+'' @ [bslash] @ ''.[0-9]+''))),
     (''integer'',
       TerminalType ''integer'' (RegexRule ''-?[0-9]+'')),
     (''uuid'',
       TerminalType ''uuid'' (RegexRule ''[0-9a-f]{8}-[0-9a-f]{4}-[0-9a-f]{4}-[0-9a-f]{4}-[0-9a-f]{12}'')),
     (''identifier'',
       TerminalType ''identifier'' (RegexRule ''[a-z][a-z0-9_]*'')),
     (''colon'',
       TerminalType ''colon'' (Sym '':'')),
     (''star'',
       TerminalType ''star'' (Sym ''*'')),
     (''range'',
       TerminalType ''range'' (Sym ''..'')),
     (''endtoken'',
       TerminalType ''endtoken'' (Sym '';'')),
     (''op'',
       TerminalType ''op'' (RegexRule ''[-+=,().]'')),
     (''cmp'',
       TerminalType ''cmp'' (RegexRule ''[<>]=?'')),
     (''unclosedString'',
       TerminalType ''unclosedString'' (RegexRule ([squote] @ ''([^'' @ [squote] @ '']|'' @ [squote, squote] @ '')*''))),
     (''unclosedComment'',
       TerminalType ''unclosedComment'' (RegexRule (''[/][*][^'' @ [bslash] @ ''n]*$'')))]"

definition cql2_term_rules :: rules where
  "cql2_term_rules =
    [(''symbol'',
       Choice [Ref ''star'', Ref ''range'', Ref ''op'', Ref ''cmp'']),
     (''name'',
       Choice [Ref ''identifier'', Ref ''stringLiteral'', Ref ''integer'']),
     (''term'',
       Choice [Ref ''stringLiteral'', Ref ''integer'', Ref ''float'', Ref ''uuid'']),
     (''colname'',
       Choice [Ref ''term'', Ref ''identifier'', Named ''nocomplete'' (Ref ''K_KEY'')])]"

definition cql2_body_rules :: rules where
  "cql2_body_rules =
    [(''statementBody'',
       Choice [
         Ref ''useStatement'', Ref ''selectStatement'', Ref ''dataChangeStatement'',
         Ref ''schemaChangeStatement'']),
     (''dataChangeStatement'',
       Choice [
         Ref ''insertStatement'', Ref ''updateStatement'', Ref ''deleteStatement'',
         Ref ''truncateStatement'', Ref ''batchStatement'']),
     (''schemaChangeStatement'',
       Choice [
         Ref ''createKeyspaceStatement'', Ref ''createColumnFamilyStatement'', Ref ''createIndexStatement'',
         Ref ''dropKeyspaceStatement'', Ref ''dropColumnFamilyStatement'', Ref ''dropIndexStatement'',
         Ref ''alterTableStatement'']),
     (''consistencylevel'',
       Named ''cl'' (Ref ''identifier'')),
     (''storageType'',
       Named ''typename'' (Choice [Ref ''identifier'', Ref ''stringLiteral''])),
     (''keyspaceName'',
       Named ''ksname'' (Ref ''name'')),
     (''columnFamilyName'',
       Seq [Opt (Seq [Named ''ksname'' (Ref ''name''), Sym ''.'']), Named ''cfname'' (Ref ''name'')])]"

definition cql2_select_rules :: rules where
  "cql2_select_rules =
    [(''useStatement'',
       Seq [Kw ''USE'', Named ''ksname'' (Ref ''keyspaceName'')]),
     (''selectStatement'',
       Seq [
         Kw ''SELECT'', Ref ''whatToSelect'', Kw ''FROM'', Named ''cf'' (Ref ''columnFamilyName''),
         Opt (Seq [Kw ''USING'', Kw ''CONSISTENCY'', Named ''selcl'' (Ref ''consistencylevel'')]),
         Opt (Seq [Kw ''WHERE'', Ref ''selectWhereClause'']),
         Opt (Seq [Kw ''LIMIT'', Named ''limit'' (Ref ''integer'')])]),
     (''selectWhereClause'',
       Choice [
         Seq [Ref ''relation'', Repeat (Seq [Kw ''AND'', Ref ''relation''])],
         Seq [
           Named ''keyname'' (Ref ''colname''), Kw ''IN'', Sym ''('', Ref ''term'',
           Repeat (Seq [Sym '','', Ref ''term'']), Sym '')'']]),
     (''relation'',
       Seq [
         Coll ''rel_lhs'' (Ref ''colname''),
         Choice [Sym ''='', Sym ''<'', Sym ''>'', Sym ''<='', Sym ''>=''], Ref ''colname'']),
     (''whatToSelect'',
       Choice [
         Seq [
           Named ''colname'' (Ref ''colname''),
           Repeat (Seq [Sym '','', Named ''colname'' (Ref ''colname'')])],
         Seq [
           Opt (Seq [Kw ''FIRST'', Ref ''integer'']), Opt (Kw ''REVERSED''),
           Choice [
             Seq [Named ''rangestart'' (Ref ''colname''), Sym ''..'', Named ''rangeend'' (Ref ''colname'')],
             Sym ''*'']],
         Seq [Kw ''COUNT'', Named ''countparens'' (Sym ''(''), Sym ''*'', Sym '')'']])]"

definition cql2_insert_rules :: rules where
  "cql2_insert_rules =
    [(''insertStatement'',
       Seq [
         Kw ''INSERT'', Kw ''INTO'', Named ''cf'' (Ref ''columnFamilyName''), Sym ''('',
         Named ''keyname'' (Ref ''colname''), Sym '','', Coll ''colname'' (Ref ''colname''),
         Repeat (Seq [Sym '','', Coll ''colname'' (Ref ''colname'')]), Sym '')'', Kw ''VALUES'', Sym ''('',
         Ref ''term'', Sym '','', Ref ''term'', Repeat (Seq [Sym '','', Ref ''term'']), Sym '')'',
         Opt (Seq [
             Kw ''USING'', Coll ''insertopt'' (Ref ''usingOption''),
             Repeat (Seq [Kw ''AND'', Coll ''insertopt'' (Ref ''usingOption'')])])]),
     (''usingOption'',
       Choice [
         Seq [Kw ''CONSISTENCY'', Ref ''consistencylevel''], Seq [Kw ''TIMESTAMP'', Ref ''integer''],
         Seq [Kw ''TTL'', Ref ''integer'']])]"

definition cql2_update_rules :: rules where
  "cql2_update_rules =
    [(''updateStatement'',
       Seq [
         Kw ''UPDATE'', Named ''cf'' (Ref ''columnFamilyName''),
         Opt (Seq [
             Kw ''USING'', Coll ''updateopt'' (Ref ''usingOption''),
             Repeat (Seq [Kw ''AND'', Coll ''updateopt'' (Ref ''usingOption'')])]),
         Kw ''SET'', Ref ''assignment'', Repeat (Seq [Sym '','', Ref ''assignment'']), Kw ''WHERE'',
         Ref ''updateWhereClause'']),
     (''assignment'',
       Seq [
         Named ''updatecol'' (Ref ''colname''), Sym ''='', Named ''update_rhs'' (Ref ''colname''),
         Opt (Seq [Named ''counterop'' (Choice [Sym ''+'', Opt (Sym ''-'')]), Ref ''integer''])]),
     (''updateWhereClause'',
       Choice [
         Seq [Named ''updatefiltercol'' (Ref ''colname''), Sym ''='', Ref ''term''],
         Seq [
           Named ''updatefilterkey'' (Ref ''colname''), Named ''filter_in'' (Kw ''IN''), Sym ''('',
           Ref ''term'', Repeat (Seq [Sym '','', Ref ''term'']), Sym '')'']])]"

definition cql2_delete_rules :: rules where
  "cql2_delete_rules =
    [(''deleteStatement'',
       Seq [
         Kw ''DELETE'',
         Opt (Seq [
             Coll ''delcol'' (Ref ''colname''), Repeat (Seq [Sym '','', Coll ''delcol'' (Ref ''colname'')])]),
         Kw ''FROM'', Named ''cf'' (Ref ''columnFamilyName''),
         Opt (Seq [
             Kw ''USING'', Coll ''delopt'' (Ref ''deleteOption''),
             Repeat (Seq [Kw ''AND'', Coll ''delopt'' (Ref ''deleteOption'')])]),
         Kw ''WHERE'', Ref ''updateWhereClause'']),
     (''deleteOption'',
       Choice [Seq [Kw ''CONSISTENCY'', Ref ''consistencylevel''], Seq [Kw ''TIMESTAMP'', Ref ''integer'']])]"

definition cql2_batch_rules :: rules where
  "cql2_batch_rules =
    [(''batchStatement'',
       Seq [
         Kw ''BEGIN'', Kw ''BATCH'',
         Opt (Seq [
             Kw ''USING'', Coll ''batchopt'' (Ref ''usingOption''),
             Repeat (Seq [Kw ''AND'', Coll ''batchopt'' (Ref ''usingOption'')])]),
         Coll ''batchstmt'' (Ref ''batchStatementMember''), Sym '';'',
         Repeat (Seq [Coll ''batchstmt'' (Ref ''batchStatementMember''), Sym '';'']), Kw ''APPLY'',
         Kw ''BATCH'']),
     (''batchStatementMember'',
       Choice [Ref ''insertStatement'', Ref ''updateStatement'', Ref ''deleteStatement''])]"

definition cql2_truncate_rules :: rules where
  "cql2_truncate_rules =
    [(''truncateStatement'',
       Seq [Kw ''TRUNCATE'', Named ''cf'' (Ref ''columnFamilyName'')])]"

definition cql2_create_keyspace_rules :: rules where
  "cql2_create_keyspace_rules =
    [(''createKeyspaceStatement'',
       Seq [
         Kw ''CREATE'', Kw ''KEYSPACE'', Named ''ksname'' (Ref ''name''), Kw ''WITH'',
         Coll ''optname'' (Ref ''optionName''), Sym ''='', Coll ''optval'' (Ref ''optionVal''),
         Repeat (Seq [
             Kw ''AND'', Coll ''optname'' (Ref ''optionName''), Sym ''='',
             Coll ''optval'' (Ref ''optionVal'')])]),
     (''optionName'',
       Seq [Ref ''identifier'', Opt (Seq [Sym '':'', Choice [Ref ''identifier'', Ref ''integer'']])]),
     (''optionVal'',
       Choice [Ref ''stringLiteral'', Ref ''identifier'', Ref ''integer''])]"

definition cql2_create_table_rules :: rules where
  "cql2_create_table_rules =
    [(''createColumnFamilyStatement'',
       Seq [
         Kw ''CREATE'', Choice [Kw ''COLUMNFAMILY'', Kw ''TABLE''], Named ''cf'' (Ref ''name''), Sym ''('',
         Named ''keyalias'' (Ref ''colname''), Ref ''storageType'', Kw ''PRIMARY'', Kw ''KEY'',
         Repeat (Seq [Sym '','', Named ''colname'' (Ref ''colname''), Ref ''storageType'']), Sym '')'',
         Opt (Seq [
             Kw ''WITH'', Coll ''cfopt'' (Ref ''cfOptionName''), Sym ''='',
             Coll ''optval'' (Ref ''cfOptionVal''),
             Repeat (Seq [
                 Kw ''AND'', Coll ''cfopt'' (Ref ''cfOptionName''), Sym ''='',
                 Coll ''optval'' (Ref ''cfOptionVal'')])])]),
     (''cfOptionName'',
       Seq [
         Named ''cfoptname'' (Ref ''identifier''),
         Opt (Seq [
             Named ''cfoptsep'' (Sym '':''),
             Named ''cfsubopt'' (Choice [Ref ''identifier'', Ref ''integer''])])]),
     (''cfOptionVal'',
       Choice [Ref ''identifier'', Ref ''stringLiteral'', Ref ''integer'', Ref ''float''])]"

definition cql2_create_index_rules :: rules where
  "cql2_create_index_rules =
    [(''createIndexStatement'',
       Seq [
         Kw ''CREATE'', Kw ''INDEX'', Opt (Named ''indexname'' (Ref ''identifier'')), Kw ''ON'',
         Named ''cf'' (Ref ''name''), Sym ''('', Named ''col'' (Ref ''colname''), Sym '')''])]"

definition cql2_drop_rules_a :: rules where
  "cql2_drop_rules_a =
    [(''dropKeyspaceStatement'',
       Seq [Kw ''DROP'', Kw ''KEYSPACE'', Named ''ksname'' (Ref ''keyspaceName'')])]"

definition cql2_drop_rules_b :: rules where
  "cql2_drop_rules_b =
    [(''dropColumnFamilyStatement'',
       Seq [Kw ''DROP'', Choice [Kw ''COLUMNFAMILY'', Kw ''TABLE''], Named ''cf'' (Ref ''name'')])]"

definition cql2_drop_rules_c :: rules where
  "cql2_drop_rules_c =
    [(''dropIndexStatement'',
       Seq [Kw ''DROP'', Kw ''INDEX'', Named ''indexname'' (Ref ''name'')])]"

definition cql2_alter_rules :: rules where
  "cql2_alter_rules =
    [(''alterTableStatement'',
       Seq [
         Kw ''ALTER'', Choice [Kw ''COLUMNFAMILY'', Kw ''TABLE''], Named ''cf'' (Ref ''name''),
         Ref ''alterInstructions'']),
     (''alterInstructions'',
       Choice [
         Seq [Kw ''ALTER'', Named ''existcol'' (Ref ''name''), Kw ''TYPE'', Ref ''storageType''],
         Seq [Kw ''ADD'', Named ''newcol'' (Ref ''name''), Ref ''storageType''],
         Seq [Kw ''DROP'', Named ''existcol'' (Ref ''name'')],
         Seq [
           Kw ''WITH'', Coll ''cfopt'' (Ref ''cfOptionName''), Sym ''='',
           Coll ''optval'' (Ref ''cfOptionVal''),
           Repeat (Seq [
               Kw ''AND'', Coll ''cfopt'' (Ref ''cfOptionName''), Sym ''='',
               Coll ''optval'' (Ref ''cfOptionVal'')])]])]"

text \<open>The whole \<open>syntax_rules\<close> string.\<close>

definition cql2_syntax_rules :: rules where
  "cql2_syntax_rules =
    cql2_terminal_rules @
    cql2_term_rules @
    cql2_body_rules @
    cql2_select_rules @
    cql2_insert_rules @
    cql2_update_rules @
    cql2_delete_rules @
    cql2_batch_rules @
    cql2_truncate_rules @
    cql2_create_keyspace_rules @
    cql2_create_table_rules @
    cql2_create_index_rules @
    cql2_drop_rules_a @
    cql2_drop_rules_b @
    cql2_drop_rules_c @
    cql2_alter_rules"

definition terminal_entry :: "string \<times> matcher \<Rightarrow> rules" where
  "terminal_entry r = (case snd r of TerminalType ty m \<Rightarrow> [(fst r, m)] | _ \<Rightarrow> [])"

definition terminals_of :: "rules \<Rightarrow> rules" where
  "terminals_of rs = concat (map terminal_entry rs)"

definition grammar_set :: "string list \<Rightarrow> rules \<Rightarrow> prs" where
  "grammar_set keywords rs =
     (let all = map keyword_rule keywords @ rs
      in new_rule_set\<lparr>prs_rules := rev all, prs_terminals := terminals_of all\<rparr>)"

definition cql2_grammar :: prs where
  "cql2_grammar = grammar_set cql2_keywords cql2_syntax_rules"

end
