(* ===== verification/Cql2_Completers.thy ===== *)
theory Cql2_Completers
  imports Cql_Connection Cql2_Grammar
begin

text \<open>
  The options and completers of \<open>cqlshlib/cqlhandling.py\<close> for CQL 2, one definition for each function of
  the module, in its order, and the table of registrations.
\<close>

section \<open>Options\<close>

definition columnfamily_options :: "(string \<times> string option) list" where
  "columnfamily_options =
    [(''comment'', None), (''comparator'', Some ''comparator_type''), (''read_repair_chance'', None),
     (''gc_grace_seconds'', None), (''default_validation'', Some ''default_validation_class''),
     (''min_compaction_threshold'', None), (''max_compaction_threshold'', None),
     (''replicate_on_write'', None), (''compaction_strategy_class'', Some ''compaction_strategy''),
     (''populate_io_cache_on_flush'', None)]"

definition obsolete_cf_options :: "(string \<times> string option) list" where
  "obsolete_cf_options =
    [(''key_cache_size'', None), (''row_cache_size'', None), (''row_cache_save_period_in_seconds'', None),
     (''key_cache_save_period_in_seconds'', None), (''memtable_throughput_in_mb'', None),
     (''memtable_operations_in_millions'', None), (''memtable_flush_after_mins'', None),
     (''row_cache_provider'', None)]"

definition all_columnfamily_options :: "(string \<times> string option) list" where
  "all_columnfamily_options = columnfamily_options @ obsolete_cf_options"

definition columnfamily_map_options :: "(string \<times> string option \<times> string list) list" where
  "columnfamily_map_options =
    [(''compaction_strategy_options'', None, []),
     (''compression_parameters'', Some ''compression_options'',
        [''sstable_compression'', ''chunk_length_kb'', ''crc_check_chance''])]"

definition available_compression_classes :: "string list" where
  "available_compression_classes = [''DeflateCompressor'', ''SnappyCompressor'']"

definition available_compaction_classes :: "string list" where
  "available_compaction_classes = [''LeveledCompactionStrategy'', ''SizeTieredCompactionStrategy'']"

definition replication_strategies :: "string list" where
  "replication_strategies = [''SimpleStrategy'', ''OldNetworkTopologyStrategy'', ''NetworkTopologyStrategy'']"

definition replication_factor_strategies :: "string list" where
  "replication_factor_strategies =
    [''SimpleStrategy'', ''org.apache.cassandra.locator.SimpleStrategy'',
     ''OldNetworkTopologyStrategy'', ''org.apache.cassandra.locator.OldNetworkTopologyStrategy'']"

definition consistency_levels :: "string list" where
  "consistency_levels =
    [''ANY'', ''ONE'', ''TWO'', ''THREE'', ''QUORUM'', ''ALL'', ''LOCAL_QUORUM'', ''EACH_QUORUM'']"

definition cql2_name :: "string \<Rightarrow> string" where
  "cql2_name name = cql2_maybe_escape_name cql2_keywords name"

abbreviation cql2_value :: "string \<Rightarrow> string" where
  "cql2_value s \<equiv> cql2_escape_value (VStr s)"

definition is_counter_col :: "'ty cass \<Rightarrow> cfdef \<Rightarrow> string \<Rightarrow> bool" where
  "is_counter_col cass d colname =
     (case filter (\<lambda>cm. cm_name cm = colname) (column_metadata d) of
        [] \<Rightarrow> False
      | cm # _ \<Rightarrow> is_counter_type cass (cm_validation_class cm))"

section \<open>Names\<close>

definition nocomplete :: "'ty cass_completer" where
  "nocomplete ctxt cass = strs []"

definition cl_completer :: "'ty cass_completer" where
  "cl_completer ctxt cass = strs consistency_levels"

definition storagetype_completer :: "'ty cass_completer" where
  "storagetype_completer ctxt cass = strs (cql_types cass)"

definition escaped :: "(string \<Rightarrow> string) \<Rightarrow> string list res \<Rightarrow> pyval res" where
  "escaped esc names = ebind names (\<lambda>ns. strs (map esc ns))"

definition ks_name_completer :: "'ty cass_completer" where
  "ks_name_completer ctxt cass = escaped cql2_name (get_keyspace_names cass)"

definition cf_ks_name_completer :: "'ty cass_completer" where
  "cf_ks_name_completer ctxt cass = escaped (\<lambda>ks. cql2_name ks @ ''.'') (get_keyspace_names cass)"

definition names_in_keyspace :: "(string \<Rightarrow> string) \<Rightarrow> (string \<Rightarrow> string) \<Rightarrow> 'ty cass_completer" where
  "names_in_keyspace dequote esc ctxt cass =
     (case binding ctxt ''ksname'' of
        BNone \<Rightarrow>
          (case get_columnfamily_names cass None of Inl _ \<Rightarrow> strs [] | Inr ns \<Rightarrow> strs (map esc ns))
      | v \<Rightarrow> ebind (dequote_binding dequote v) (\<lambda>ks. escaped esc (get_columnfamily_names cass (Some ks))))"

definition cf_name_completer :: "'ty cass_completer" where
  "cf_name_completer = names_in_keyspace cql2_dequote_value cql2_name"

definition get_cfdef :: "ctxt \<Rightarrow> 'ty cass \<Rightarrow> cfdef res" where
  "get_cfdef ctxt cass = get_columnfamily cass (binding ctxt ''cfname'') (binding ctxt ''ksname'')"

section \<open>Statements that read and change data\<close>

definition select_statement_consistencylevel :: "'ty cass_completer" where
  "select_statement_consistencylevel ctxt cass = strs (filter (\<lambda>cl. cl \<noteq> ''ANY'') consistency_levels)"

definition key_name :: "cfdef \<Rightarrow> string" where
  "key_name d = (case key_alias d of None \<Rightarrow> ''KEY'' | Some a \<Rightarrow> a)"

definition select_where_keyname_completer :: "'ty cass_completer" where
  "select_where_keyname_completer ctxt cass = ebind (get_cfdef ctxt cass) (\<lambda>d. strs [key_name d])"

definition select_relation_lhs_completer :: "'ty cass_completer" where
  "select_relation_lhs_completer ctxt cass =
     ebind (get_cfdef ctxt cass) (\<lambda>d. escaped cql2_name (filterable_column_names cass d))"

definition select_count_parens_completer :: "'ty cass_completer" where
  "select_count_parens_completer ctxt cass = strs [''(*)'']"

definition insert_keyname_completer :: "'ty cass_completer" where
  "insert_keyname_completer ctxt cass = ebind (get_cfdef ctxt cass) (\<lambda>d. strs [key_name d])"

definition insert_option_completer :: "'ty cass_completer" where
  "insert_option_completer = remaining_options ''CONSISTENCY TIMESTAMP TTL'' ''insertopt''"

definition update_option_completer :: "'ty cass_completer" where
  "update_option_completer = remaining_options ''CONSISTENCY TIMESTAMP TTL'' ''updateopt''"

definition update_col_completer :: "'ty cass_completer" where
  "update_col_completer ctxt cass = ebind (get_cfdef ctxt cass) (\<lambda>d.
     Inr (PList (map (\<lambda>cm. CStr (cql2_name (cm_name cm))) (column_metadata d) @ [CHint ''<colname>''])))"

definition current_column :: "(string \<Rightarrow> string) \<Rightarrow> ctxt \<Rightarrow> string res" where
  "current_column dequote ctxt = dequote_binding dequote (get_binding ctxt ''updatecol'' (BStr []))"

definition update_countername_completer :: "'ty cass_completer" where
  "update_countername_completer ctxt cass = ebind (get_cfdef ctxt cass) (\<lambda>d.
     ebind (current_column cql2_dequote_value ctxt) (\<lambda>curcol.
       if is_counter_col cass d curcol then strs [cql2_name curcol] else hint ''<term>''))"

definition update_counterop_completer :: "'ty cass_completer" where
  "update_counterop_completer ctxt cass = ebind (get_cfdef ctxt cass) (\<lambda>d.
     ebind (current_column cql2_dequote_value ctxt) (\<lambda>curcol.
       if is_counter_col cass d curcol then strs [''+'', ''-''] else strs []))"

definition update_filtercol_completer :: "'ty cass_completer" where
  "update_filtercol_completer ctxt cass =
     ebind (get_cfdef ctxt cass) (\<lambda>d. escaped cql2_name (filterable_column_names cass d))"

definition update_filterkey_completer :: "'ty cass_completer" where
  "update_filterkey_completer ctxt cass = ebind (get_cfdef ctxt cass) (\<lambda>d. strs [key_name d])"

definition update_filter_in_completer :: "'ty cass_completer" where
  "update_filter_in_completer ctxt cass = ebind (get_cfdef ctxt cass) (\<lambda>d.
     let fk = binding ctxt ''updatefilterkey'' in
     if fk = BStr ''KEY'' \<or> fk = (case key_alias d of None \<Rightarrow> BNone | Some a \<Rightarrow> BStr a)
     then strs [''IN''] else strs [])"

definition delete_opt_completer :: "'ty cass_completer" where
  "delete_opt_completer = remaining_options ''CONSISTENCY TIMESTAMP'' ''delopt''"

definition batch_opt_completer :: "'ty cass_completer" where
  "batch_opt_completer = remaining_options ''CONSISTENCY TIMESTAMP'' ''batchopt''"

section \<open>Statements that change the schema\<close>

definition create_ks_opt_completer :: "'ty cass_completer" where
  "create_ks_opt_completer ctxt cass =
     (case index_of (binding_or_empty ctxt ''optname'') ''strategy_class'' of
        Inl (ValueError m) \<Rightarrow> strs [''strategy_class ='']
      | Inl e \<Rightarrow> Inl e
      | Inr stratopt \<Rightarrow>
          ebind (item_at (binding ctxt ''optval'') stratopt) (\<lambda>v.
            if cql2_dequote_value v \<in> set replication_factor_strategies
            then strs [''strategy_options:replication_factor ='']
            else hint ''<strategy_option_name>''))"

definition create_ks_optval_completer :: "'ty cass_completer" where
  "create_ks_optval_completer ctxt cass =
     ebind (case binding ctxt ''optname'' of
              BNone \<Rightarrow> Inr False
            | v \<Rightarrow> ebind (last_item v) (\<lambda>l. Inr (l = ''strategy_class''))) (\<lambda>strat.
       if strat then strs (map cql2_value replication_strategies) else hint ''<option_value>'')"

definition create_cf_option_completer :: "'ty cass_completer" where
  "create_cf_option_completer ctxt cass =
     strs (map fst columnfamily_options @ map (\<lambda>c. fst c @ '':'') columnfamily_map_options)"

definition create_cf_suboption_separator :: "'ty cass_completer" where
  "create_cf_suboption_separator ctxt cass =
     (if list_ex (\<lambda>c. binding ctxt ''cfoptname'' = BStr (fst c)) columnfamily_map_options
      then strs ['':''] else strs [])"

definition compaction_class :: "ctxt \<Rightarrow> 'ty cass \<Rightarrow> string res" where
  "compaction_class ctxt cass =
     ebind (as_items (binding_or_empty ctxt ''cfopt'')) (\<lambda>prevopts.
     ebind (as_items (binding_or_empty ctxt ''optval'')) (\<lambda>prevvals.
       case first_value ''compaction_strategy_class'' prevopts prevvals of
         Some v \<Rightarrow> Inr (cql2_dequote_value v)
       | None \<Rightarrow>
           (case get_columnfamily cass (binding ctxt ''cf'') BNone of
              Inl _ \<Rightarrow> Inr []
            | Inr d \<Rightarrow> Inr (compaction_strategy d))))"

definition create_cf_suboption_completer :: "'ty cass_completer" where
  "create_cf_suboption_completer ctxt cass =
     (let opt = binding ctxt ''cfoptname'';
          from_table = (case find (\<lambda>c. opt = BStr (fst c)) columnfamily_map_options of
              None \<Rightarrow> strs []
            | Some (optname, thrift, subopts) \<Rightarrow> strs subopts)
      in if opt = BStr ''compaction_strategy_options'' then
           ebind (compaction_class ctxt cass) (\<lambda>csc0.
             let csc = last_dotted csc0 in
             if csc = ''SizeTieredCompactionStrategy'' then strs [''min_sstable_size'']
             else if csc = ''LeveledCompactionStrategy'' then strs [''sstable_size_in_mb'']
             else from_table)
         else from_table)"

definition create_cf_option_val_completer :: "'ty cass_completer" where
  "create_cf_option_val_completer ctxt cass =
     ebind (last_item (binding ctxt ''cfopt'')) (\<lambda>this_opt.
       if this_opt = ''compression_parameters:sstable_compression'' then
         strs (map cql2_value available_compression_classes)
       else if this_opt = ''compaction_strategy_class'' then strs (map cql2_value available_compaction_classes)
       else if list_ex (\<lambda>opt. this_opt = fst opt) obsolete_cf_options then
         strs [[squote] @ ''<obsolete_option>'' @ [squote]]
       else if this_opt \<in> {''comparator'', ''default_validation''} then strs (cql_types cass)
       else if this_opt = ''read_repair_chance'' then hint ''<float_between_0_and_1>''
       else if this_opt \<in> {''replicate_on_write'', ''populate_io_cache_on_flush''} then hint ''<yes_or_no>''
       else if this_opt \<in> {''min_compaction_threshold'', ''max_compaction_threshold'', ''gc_grace_seconds''}
       then hint ''<integer>''
       else hint ''<option_value>'')"

definition create_index_cf_completer :: "'ty cass_completer" where
  "create_index_cf_completer ctxt cass = escaped cql2_name (get_columnfamily_names cass None)"

definition named_cfdef :: "ctxt \<Rightarrow> 'ty cass \<Rightarrow> cfdef res" where
  "named_cfdef ctxt cass =
     ebind (dequote_binding cql2_dequote_value (binding ctxt ''cf'')) (\<lambda>cf.
       get_columnfamily cass (BStr cf) BNone)"

definition create_index_col_completer :: "'ty cass_completer" where
  "create_index_col_completer ctxt cass = ebind (named_cfdef ctxt cass) (\<lambda>d.
     strs (map (\<lambda>md. cql2_name (cm_name md)) (filter (\<lambda>md. cm_index_name md = None) (column_metadata d))))"

definition drop_ks_completer :: "'ty cass_completer" where
  "drop_ks_completer ctxt cass = escaped cql2_name (get_keyspace_names cass)"

definition drop_cf_completer :: "'ty cass_completer" where
  "drop_cf_completer ctxt cass = escaped cql2_name (get_columnfamily_names cass None)"

definition drop_index_completer :: "'ty cass_completer" where
  "drop_index_completer ctxt cass = escaped cql2_name (get_index_names cass)"

definition alter_table_cf_completer :: "'ty cass_completer" where
  "alter_table_cf_completer ctxt cass = escaped cql2_name (get_columnfamily_names cass None)"

definition alter_table_col_completer :: "'ty cass_completer" where
  "alter_table_col_completer ctxt cass = ebind (named_cfdef ctxt cass) (\<lambda>d.
     strs (map cql2_name (map cm_name (column_metadata d) @
       (case key_alias d of None \<Rightarrow> [] | Some a \<Rightarrow> [a]))))"

section \<open>Registrations\<close>

text \<open>In the order of the module; \<open>explain_completion\<close> registers an \<open>explainer\<close>.\<close>

type_synonym 'ty registrations = "((string \<times> string) \<times> 'ty cass_completer) list"

definition cql2_registrations :: "'ty registrations" where
  "cql2_registrations =
    [((''colname'', ''nocomplete''), nocomplete),
     ((''consistencylevel'', ''cl''), cl_completer),
     ((''storageType'', ''typename''), storagetype_completer),
     ((''keyspaceName'', ''ksname''), ks_name_completer),
     ((''columnFamilyName'', ''ksname''), cf_ks_name_completer),
     ((''columnFamilyName'', ''cfname''), cf_name_completer),
     ((''selectStatement'', ''selcl''), select_statement_consistencylevel),
     ((''selectWhereClause'', ''keyname''), select_where_keyname_completer),
     ((''relation'', ''rel_lhs''), select_relation_lhs_completer),
     ((''whatToSelect'', ''countparens''), select_count_parens_completer),
     ((''whatToSelect'', ''colname''), explainer ''<colname>''),
     ((''whatToSelect'', ''rangestart''), explainer ''<range_start>''),
     ((''whatToSelect'', ''rangeend''), explainer ''<range_end>''),
     ((''insertStatement'', ''keyname''), insert_keyname_completer),
     ((''insertStatement'', ''colname''), explainer ''<colname>''),
     ((''insertStatement'', ''insertopt''), insert_option_completer),
     ((''updateStatement'', ''updateopt''), update_option_completer),
     ((''assignment'', ''updatecol''), update_col_completer),
     ((''assignment'', ''update_rhs''), update_countername_completer),
     ((''assignment'', ''counterop''), update_counterop_completer),
     ((''updateWhereClause'', ''updatefiltercol''), update_filtercol_completer),
     ((''updateWhereClause'', ''updatefilterkey''), update_filterkey_completer),
     ((''updateWhereClause'', ''filter_in''), update_filter_in_completer),
     ((''deleteStatement'', ''delopt''), delete_opt_completer),
     ((''deleteStatement'', ''delcol''), explainer ''<column_to_delete>''),
     ((''batchStatement'', ''batchopt''), batch_opt_completer),
     ((''createKeyspaceStatement'', ''ksname''), explainer ''<new_keyspace_name>''),
     ((''createKeyspaceStatement'', ''optname''), create_ks_opt_completer),
     ((''createKeyspaceStatement'', ''optval''), create_ks_optval_completer),
     ((''createColumnFamilyStatement'', ''keyalias''), explainer ''<new_key_name>''),
     ((''createColumnFamilyStatement'', ''cf''), explainer ''<new_table_name>''),
     ((''createColumnFamilyStatement'', ''colname''), explainer ''<new_column_name>''),
     ((''cfOptionName'', ''cfoptname''), create_cf_option_completer),
     ((''cfOptionName'', ''cfoptsep''), create_cf_suboption_separator),
     ((''cfOptionName'', ''cfsubopt''), create_cf_suboption_completer),
     ((''createColumnFamilyStatement'', ''optval''), create_cf_option_val_completer),
     ((''createIndexStatement'', ''indexname''), explainer ''<new_index_name>''),
     ((''createIndexStatement'', ''cf''), create_index_cf_completer),
     ((''createIndexStatement'', ''col''), create_index_col_completer),
     ((''dropKeyspaceStatement'', ''ksname''), drop_ks_completer),
     ((''dropColumnFamilyStatement'', ''cf''), drop_cf_completer),
     ((''dropIndexStatement'', ''indexname''), drop_index_completer),
     ((''alterTableStatement'', ''cf''), alter_table_cf_completer),
     ((''alterInstructions'', ''existcol''), alter_table_col_completer),
     ((''alterInstructions'', ''newcol''), explainer ''<new_column_name>''),
     ((''alterInstructions'', ''optval''), create_cf_option_val_completer)]"

definition register_all :: "'ty cass \<Rightarrow> 'ty registrations \<Rightarrow> prs \<Rightarrow> prs" where
  "register_all cass rs p = fold (\<lambda>((rulename, symname), f). completer_for cass rulename symname f) rs p"

definition cql2_rule_set :: "'ty cass \<Rightarrow> prs" where
  "cql2_rule_set cass = register_all cass cql2_registrations cql2_grammar"

text \<open>Registering: the last registration for a key is the one that counts, and the rules stay.\<close>

lemma register_all_completers:
  "prs_completers (register_all cass rs p) k =
     (case map_of (rev rs) k of Some f \<Rightarrow> Some (completerwrapper cass f) | None \<Rightarrow> prs_completers p k)"
  unfolding register_all_def
  by (induction rs arbitrary: p)
    (auto simp: completer_for_def register_completer_def map_add_def split: option.splits)

lemma register_all_rules [simp]:
  "prs_rules (register_all cass rs p) = prs_rules p"
  "prs_terminals (register_all cass rs p) = prs_terminals p"
  "prs_scanner (register_all cass rs p) = prs_scanner p"
  unfolding register_all_def
  by (induction rs arbitrary: p) (auto simp: completer_for_def register_completer_def)

end
