(* ===== verification/Cql3_Grammar.thy ===== *)
theory Cql3_Grammar
  imports Cql2_Grammar
begin

text \<open>
  The CQL 3 grammar of \<open>cqlshlib/cql3handling.py\<close> (the \<open>syntax_rules\<close> string, block by block), as the
  matchers \<open>parse_rules\<close> makes of it. \<open>property\<close> is appended by \<open>use_pre_3_0_0_syntax\<close> or
  \<open>use_post_3_0_0_syntax\<close>.
\<close>

section \<open>Keywords\<close>

definition cql3_keywords :: "string list" where
  "cql3_keywords = [''select'', ''from'', ''where'', ''and'', ''key'', ''insert'', ''update'', ''with'',
     ''limit'', ''using'', ''use'', ''count'', ''set'', ''begin'', ''apply'', ''batch'',
     ''truncate'', ''delete'', ''in'', ''create'', ''keyspace'', ''schema'',
     ''columnfamily'', ''table'', ''index'', ''on'', ''drop'', ''primary'', ''into'',
     ''values'', ''timestamp'', ''ttl'', ''alter'', ''add'', ''type'', ''compact'',
     ''storage'', ''order'', ''by'', ''asc'', ''desc'', ''clustering'', ''token'',
     ''writetime'', ''map'', ''list'', ''to'', ''custom'']"

section \<open>Rules\<close>

definition cql3_terminal_rules :: rules where
  "cql3_terminal_rules =
    [(''Start'',
       Repeat (Ref ''CQL_Statement'')),
     (''CQL_Statement'',
       Seq [Coll ''statements'' (Ref ''statementBody''), Sym '';'']),
     (''endline'',
       TerminalType ''endline'' (RegexRule ([bslash] @ ''n''))),
     (''JUNK'',
       TerminalType ''JUNK'' (RegexRule (''([ '' @ [bslash] @ ''t'' @ [bslash] @ ''r'' @ [bslash] @ ''f'' @ [bslash] @ ''v]+|(--|[/][/])[^'' @ [bslash] @ ''n'' @ [bslash] @ ''r]*(['' @ [bslash] @ ''n'' @ [bslash] @ ''r]|$)|[/][*].*?[*][/])''))),
     (''stringLiteral'',
       TerminalType ''stringLiteral'' (RegexRule ([squote] @ ''([^'' @ [squote] @ '']|'' @ [squote, squote] @ '')*'' @ [squote]))),
     (''quotedName'',
       TerminalType ''quotedName'' (RegexRule ([dquote] @ ''([^'' @ [dquote] @ '']|'' @ [dquote, dquote] @ '')*'' @ [dquote]))),
     (''float'',
       TerminalType ''float'' (RegexRule (''-?[0-9]+'' @ [bslash] @ ''.[0-9]+''))),
     (''wholenumber'',
       TerminalType ''wholenumber'' (RegexRule ''[0-9]+'')),
     (''uuid'',
       TerminalType ''uuid'' (RegexRule ''[0-9a-f]{8}-[0-9a-f]{4}-[0-9a-f]{4}-[0-9a-f]{4}-[0-9a-f]{12}'')),
     (''identifier'',
       TerminalType ''identifier'' (RegexRule ''[a-z][a-z0-9_]*'')),
     (''colon'',
       TerminalType ''colon'' (Sym '':'')),
     (''star'',
       TerminalType ''star'' (Sym ''*'')),
     (''endtoken'',
       TerminalType ''endtoken'' (Sym '';'')),
     (''op'',
       TerminalType ''op'' (RegexRule ''[-+=,().]'')),
     (''cmp'',
       TerminalType ''cmp'' (RegexRule ''[<>]=?'')),
     (''brackets'',
       TerminalType ''brackets'' (RegexRule ''[][{}]'')),
     (''integer'',
       Seq [Opt (Sym ''-''), Ref ''wholenumber'']),
     (''boolean'',
       Choice [Kw ''true'', Kw ''false'']),
     (''unclosedString'',
       TerminalType ''unclosedString'' (RegexRule ([squote] @ ''([^'' @ [squote] @ '']|'' @ [squote, squote] @ '')*''))),
     (''unclosedName'',
       TerminalType ''unclosedName'' (RegexRule ([dquote] @ ''([^'' @ [dquote] @ '']|'' @ [dquote, dquote] @ '')*''))),
     (''unclosedComment'',
       TerminalType ''unclosedComment'' (RegexRule (''[/][*][^'' @ [bslash] @ ''n]*$'')))]"

definition cql3_term_rules :: rules where
  "cql3_term_rules =
    [(''term'',
       Choice [Ref ''stringLiteral'', Ref ''integer'', Ref ''float'', Ref ''uuid'', Ref ''boolean'']),
     (''tokenDefinition'',
       Choice [
         Seq [
           Named ''token'' (Kw ''TOKEN''), Sym ''('', Ref ''term'', Repeat (Seq [Sym '','', Ref ''term'']),
           Sym '')''],
         Ref ''stringLiteral'']),
     (''value'',
       Choice [Ref ''term'', Ref ''collectionLiteral'']),
     (''cident'',
       Choice [Ref ''quotedName'', Ref ''identifier'', Ref ''unreservedKeyword'']),
     (''colname'',
       Ref ''cident''),
     (''collectionLiteral'',
       Choice [Ref ''listLiteral'', Ref ''setLiteral'', Ref ''mapLiteral'']),
     (''listLiteral'',
       Seq [Sym ''['', Opt (Seq [Ref ''term'', Repeat (Seq [Sym '','', Ref ''term''])]), Sym '']'']),
     (''setLiteral'',
       Seq [Sym ''{'', Opt (Seq [Ref ''term'', Repeat (Seq [Sym '','', Ref ''term''])]), Sym ''}'']),
     (''mapLiteral'',
       Seq [
         Sym ''{'', Ref ''term'', Sym '':'', Ref ''term'',
         Repeat (Seq [Sym '','', Ref ''term'', Sym '':'', Ref ''term'']), Sym ''}''])]"

definition cql3_body_rules :: rules where
  "cql3_body_rules =
    [(''statementBody'',
       Choice [
         Ref ''useStatement'', Ref ''selectStatement'', Ref ''dataChangeStatement'',
         Ref ''schemaChangeStatement'', Ref ''authenticationStatement'', Ref ''authorizationStatement'']),
     (''dataChangeStatement'',
       Choice [
         Ref ''insertStatement'', Ref ''updateStatement'', Ref ''deleteStatement'',
         Ref ''truncateStatement'', Ref ''batchStatement'']),
     (''schemaChangeStatement'',
       Choice [
         Ref ''createKeyspaceStatement'', Ref ''createColumnFamilyStatement'', Ref ''createIndexStatement'',
         Ref ''dropKeyspaceStatement'', Ref ''dropColumnFamilyStatement'', Ref ''dropIndexStatement'',
         Ref ''alterTableStatement'', Ref ''alterKeyspaceStatement'']),
     (''authenticationStatement'',
       Choice [
         Ref ''createUserStatement'', Ref ''alterUserStatement'', Ref ''dropUserStatement'',
         Ref ''listUsersStatement'']),
     (''authorizationStatement'',
       Choice [Ref ''grantStatement'', Ref ''revokeStatement'', Ref ''listPermissionsStatement''])]"

definition cql3_type_rules :: rules where
  "cql3_type_rules =
    [(''simpleStorageType'',
       Named ''typename'' (Choice [Ref ''identifier'', Ref ''stringLiteral'', Ref ''K_TIMESTAMP''])),
     (''storageType'',
       Choice [Ref ''simpleStorageType'', Ref ''collectionType'']),
     (''collectionType'',
       Choice [
         Seq [
           Kw ''map'', Sym ''<'', Ref ''simpleStorageType'', Sym '','', Ref ''simpleStorageType'', Sym ''>''],
         Seq [Kw ''list'', Sym ''<'', Ref ''simpleStorageType'', Sym ''>''],
         Seq [Kw ''set'', Sym ''<'', Ref ''simpleStorageType'', Sym ''>'']])]"

definition cql3_name_rules :: rules where
  "cql3_name_rules =
    [(''columnFamilyName'',
       Seq [
         Opt (Seq [Named ''ksname'' (Ref ''cfOrKsName''), Named ''dot'' (Sym ''.'')]),
         Named ''cfname'' (Ref ''cfOrKsName'')]),
     (''keyspaceName'',
       Named ''ksname'' (Ref ''cfOrKsName'')),
     (''nonSystemKeyspaceName'',
       Named ''ksname'' (Ref ''cfOrKsName'')),
     (''alterableKeyspaceName'',
       Named ''ksname'' (Ref ''cfOrKsName'')),
     (''cfOrKsName'',
       Choice [Ref ''identifier'', Ref ''quotedName'', Ref ''unreservedKeyword'']),
     (''unreservedKeyword'',
       Named ''nocomplete'' (Choice [
           Ref ''K_KEY'', Ref ''K_CLUSTERING'', Ref ''K_TTL'', Ref ''K_COMPACT'', Ref ''K_STORAGE'',
           Ref ''K_TYPE'', Ref ''K_VALUES'']))]"

definition cql3_property_rules :: rules where
  "cql3_property_rules =
    [(''newPropSpec'',
       Seq [
         Coll ''propname'' (Ref ''cident''), Named ''propeq'' (Sym ''=''),
         Coll ''propval'' (Ref ''propertyValue'')]),
     (''propertyValue'',
       Choice [
         Named ''propsimpleval'' (Choice [
             Ref ''stringLiteral'', Ref ''identifier'', Ref ''integer'', Ref ''float'',
             Ref ''unreservedKeyword'']),
         Seq [
           Named ''propsimpleval'' (Sym ''{''), Coll ''propmapkey'' (Ref ''term''), Sym '':'',
           Coll ''propmapval'' (Ref ''term''),
           Repeat (Seq [
               Named ''ender'' (Sym '',''), Coll ''propmapkey'' (Ref ''term''), Sym '':'',
               Coll ''propmapval'' (Ref ''term'')]),
           Named ''ender'' (Sym ''}'')]]),
     (''oldPropSpec'',
       Seq [
         Coll ''propname'' (Ref ''optionName''), Named ''propeq'' (Sym ''=''),
         Coll ''optval'' (Ref ''optionVal'')]),
     (''optionName'',
       Seq [
         Named ''optname'' (Ref ''cident''),
         Opt (Seq [Named ''optsep'' (Sym '':''), Named ''subopt'' (Choice [Ref ''cident'', Ref ''wholenumber''])])]),
     (''optionVal'',
       Choice [Ref ''identifier'', Ref ''stringLiteral'', Ref ''integer'', Ref ''float''])]"

definition cql3_use_select_rules :: rules where
  "cql3_use_select_rules =
    [(''useStatement'',
       Seq [Kw ''USE'', Ref ''keyspaceName'']),
     (''selectStatement'',
       Seq [
         Kw ''SELECT'', Ref ''selectClause'', Kw ''FROM'', Named ''cf'' (Ref ''columnFamilyName''),
         Opt (Seq [Kw ''WHERE'', Ref ''whereClause'']),
         Opt (Seq [
             Kw ''ORDER'', Kw ''BY'', Ref ''orderByClause'', Repeat (Seq [Sym '','', Ref ''orderByClause''])]),
         Opt (Seq [Kw ''LIMIT'', Named ''limit'' (Ref ''wholenumber'')])]),
     (''whereClause'',
       Seq [Ref ''relation'', Repeat (Seq [Kw ''AND'', Ref ''relation''])]),
     (''relation'',
       Choice [
         Seq [
           Coll ''rel_lhs'' (Ref ''cident''),
           Choice [Sym ''='', Sym ''<'', Sym ''>'', Sym ''<='', Sym ''>=''], Ref ''term''],
         Seq [
           Named ''token'' (Kw ''TOKEN''), Sym ''('', Coll ''rel_tokname'' (Ref ''cident''),
           Repeat (Seq [Sym '','', Coll ''rel_tokname'' (Ref ''cident'')]), Sym '')'',
           Choice [Sym ''='', Sym ''<'', Sym ''>'', Sym ''<='', Sym ''>=''], Ref ''tokenDefinition''],
         Seq [
           Coll ''rel_lhs'' (Ref ''cident''), Kw ''IN'', Sym ''('', Ref ''term'',
           Repeat (Seq [Sym '','', Ref ''term'']), Sym '')'']]),
     (''selectClause'',
       Choice [
         Seq [Ref ''selector'', Repeat (Seq [Sym '','', Ref ''selector''])], Sym ''*'',
         Seq [Kw ''COUNT'', Sym ''('', Named ''star'' (Choice [Sym ''*'', Kw ''1'']), Sym '')'']]),
     (''selector'',
       Choice [
         Coll ''colname'' (Ref ''cident''),
         Seq [Kw ''WRITETIME'', Sym ''('', Coll ''colname'' (Ref ''cident''), Sym '')''],
         Seq [Kw ''TTL'', Sym ''('', Coll ''colname'' (Ref ''cident''), Sym '')'']]),
     (''orderByClause'',
       Seq [Coll ''ordercol'' (Ref ''cident''), Opt (Choice [Kw ''ASC'', Kw ''DESC''])])]"

definition cql3_insert_rules :: rules where
  "cql3_insert_rules =
    [(''insertStatement'',
       Seq [
         Kw ''INSERT'', Kw ''INTO'', Named ''cf'' (Ref ''columnFamilyName''), Sym ''('',
         Coll ''colname'' (Ref ''cident''), Sym '','', Coll ''colname'' (Ref ''cident''),
         Repeat (Seq [Sym '','', Coll ''colname'' (Ref ''cident'')]), Sym '')'', Kw ''VALUES'', Sym ''('',
         Coll ''newval'' (Ref ''value''), Named ''valcomma'' (Sym '',''), Coll ''newval'' (Ref ''value''),
         Repeat (Seq [Named ''valcomma'' (Sym '',''), Coll ''newval'' (Ref ''value'')]),
         Named ''valcomma'' (Sym '')''),
         Opt (Seq [
             Kw ''USING'', Coll ''insertopt'' (Ref ''usingOption''),
             Repeat (Seq [Kw ''AND'', Coll ''insertopt'' (Ref ''usingOption'')])])]),
     (''usingOption'',
       Choice [Seq [Kw ''TIMESTAMP'', Ref ''wholenumber''], Seq [Kw ''TTL'', Ref ''wholenumber'']])]"

definition cql3_update_rules :: rules where
  "cql3_update_rules =
    [(''updateStatement'',
       Seq [
         Kw ''UPDATE'', Named ''cf'' (Ref ''columnFamilyName''),
         Opt (Seq [
             Kw ''USING'', Coll ''updateopt'' (Ref ''usingOption''),
             Repeat (Seq [Kw ''AND'', Coll ''updateopt'' (Ref ''usingOption'')])]),
         Kw ''SET'', Ref ''assignment'', Repeat (Seq [Sym '','', Ref ''assignment'']), Kw ''WHERE'',
         Ref ''whereClause'']),
     (''assignment'',
       Seq [
         Named ''updatecol'' (Ref ''cident''),
         Choice [
           Seq [
             Sym ''='', Named ''update_rhs'' (Choice [Ref ''value'', Ref ''cident'']),
             Choice [
               Seq [Named ''counterop'' (Choice [Sym ''+'', Sym ''-'']), Named ''inc'' (Ref ''wholenumber'')],
               Seq [Named ''listadder'' (Sym ''+''), Named ''listcol'' (Ref ''cident'')]]],
           Seq [Named ''indexbracket'' (Sym ''[''), Ref ''term'', Sym '']'', Sym ''='', Ref ''term'']]])]"

definition cql3_delete_rules :: rules where
  "cql3_delete_rules =
    [(''deleteStatement'',
       Seq [
         Kw ''DELETE'', Opt (Seq [Ref ''deleteSelector'', Repeat (Seq [Sym '','', Ref ''deleteSelector''])]),
         Kw ''FROM'', Named ''cf'' (Ref ''columnFamilyName''),
         Opt (Seq [
             Kw ''USING'', Coll ''delopt'' (Ref ''deleteOption''),
             Repeat (Seq [Kw ''AND'', Coll ''delopt'' (Ref ''deleteOption'')])]),
         Kw ''WHERE'', Ref ''whereClause'']),
     (''deleteSelector'',
       Seq [
         Named ''delcol'' (Ref ''cident''),
         Opt (Seq [Named ''memberbracket'' (Sym ''[''), Named ''memberselector'' (Ref ''term''), Sym '']''])]),
     (''deleteOption'',
       Seq [Kw ''TIMESTAMP'', Ref ''wholenumber''])]"

definition cql3_batch_rules :: rules where
  "cql3_batch_rules =
    [(''batchStatement'',
       Seq [
         Kw ''BEGIN'', Opt (Choice [Kw ''UNLOGGED'', Kw ''COUNTER'']), Kw ''BATCH'',
         Opt (Seq [
             Kw ''USING'', Coll ''batchopt'' (Ref ''usingOption''),
             Repeat (Seq [Kw ''AND'', Coll ''batchopt'' (Ref ''usingOption'')])]),
         Coll ''batchstmt'' (Ref ''batchStatementMember''), Sym '';'',
         Repeat (Seq [Coll ''batchstmt'' (Ref ''batchStatementMember''), Sym '';'']), Kw ''APPLY'',
         Kw ''BATCH'']),
     (''batchStatementMember'',
       Choice [Ref ''insertStatement'', Ref ''updateStatement'', Ref ''deleteStatement''])]"

definition cql3_truncate_rules :: rules where
  "cql3_truncate_rules =
    [(''truncateStatement'',
       Seq [Kw ''TRUNCATE'', Named ''cf'' (Ref ''columnFamilyName'')])]"

definition cql3_create_keyspace_rules :: rules where
  "cql3_create_keyspace_rules =
    [(''createKeyspaceStatement'',
       Seq [
         Kw ''CREATE'', Named ''wat'' (Choice [Kw ''KEYSPACE'', Kw ''SCHEMA'']),
         Named ''ksname'' (Ref ''cfOrKsName''), Kw ''WITH'', Ref ''property'',
         Repeat (Seq [Kw ''AND'', Ref ''property''])])]"

definition cql3_create_table_rules :: rules where
  "cql3_create_table_rules =
    [(''createColumnFamilyStatement'',
       Seq [
         Kw ''CREATE'', Named ''wat'' (Choice [Kw ''COLUMNFAMILY'', Kw ''TABLE'']),
         Opt (Seq [Named ''ks'' (Ref ''nonSystemKeyspaceName''), Named ''dot'' (Sym ''.'')]),
         Named ''cf'' (Ref ''cfOrKsName''), Sym ''('',
         Choice [Ref ''singleKeyCfSpec'', Ref ''compositeKeyCfSpec''], Sym '')'',
         Opt (Seq [Kw ''WITH'', Ref ''cfamProperty'', Repeat (Seq [Kw ''AND'', Ref ''cfamProperty''])])]),
     (''cfamProperty'',
       Choice [
         Ref ''property'', Seq [Kw ''COMPACT'', Kw ''STORAGE''],
         Seq [
           Kw ''CLUSTERING'', Kw ''ORDER'', Kw ''BY'', Sym ''('', Ref ''cfamOrdering'',
           Repeat (Seq [Sym '','', Ref ''cfamOrdering'']), Sym '')'']]),
     (''cfamOrdering'',
       Seq [Coll ''ordercol'' (Ref ''cident''), Choice [Kw ''ASC'', Kw ''DESC'']]),
     (''singleKeyCfSpec'',
       Seq [
         Coll ''newcolname'' (Ref ''cident''), Ref ''simpleStorageType'', Kw ''PRIMARY'', Kw ''KEY'',
         Repeat (Seq [Sym '','', Coll ''newcolname'' (Ref ''cident''), Ref ''storageType''])]),
     (''compositeKeyCfSpec'',
       Seq [
         Coll ''newcolname'' (Ref ''cident''), Ref ''simpleStorageType'', Sym '','',
         Coll ''newcolname'' (Ref ''cident''), Ref ''storageType'',
         Repeat (Seq [Sym '','', Coll ''newcolname'' (Ref ''cident''), Ref ''storageType'']), Sym '','',
         Kw ''PRIMARY'', Named ''k'' (Kw ''KEY''), Named ''p'' (Sym ''(''),
         Choice [Named ''partkey'' (Ref ''pkDef''), Coll ''pkey'' (Ref ''cident'')],
         Repeat (Seq [Named ''c'' (Sym '',''), Coll ''pkey'' (Ref ''cident'')]), Sym '')'']),
     (''pkDef'',
       Seq [
         Sym ''('', Coll ''ptkey'' (Ref ''cident''), Sym '','', Coll ''ptkey'' (Ref ''cident''),
         Repeat (Seq [Sym '','', Coll ''ptkey'' (Ref ''cident'')]), Sym '')''])]"

definition cql3_create_index_rules :: rules where
  "cql3_create_index_rules =
    [(''createIndexStatement'',
       Seq [
         Kw ''CREATE'', Opt (Kw ''CUSTOM''), Kw ''INDEX'', Opt (Named ''indexname'' (Ref ''identifier'')),
         Kw ''ON'', Named ''cf'' (Ref ''columnFamilyName''), Sym ''('', Named ''col'' (Ref ''cident''),
         Sym '')'', Opt (Seq [Kw ''USING'', Ref ''stringLiteral''])])]"

definition cql3_drop_rules :: rules where
  "cql3_drop_rules =
    [(''dropKeyspaceStatement'',
       Seq [Kw ''DROP'', Kw ''KEYSPACE'', Named ''ksname'' (Ref ''nonSystemKeyspaceName'')]),
     (''dropColumnFamilyStatement'',
       Seq [Kw ''DROP'', Choice [Kw ''COLUMNFAMILY'', Kw ''TABLE''], Named ''cf'' (Ref ''columnFamilyName'')]),
     (''dropIndexStatement'',
       Seq [Kw ''DROP'', Kw ''INDEX'', Named ''indexname'' (Ref ''identifier'')])]"

definition cql3_alter_table_rules :: rules where
  "cql3_alter_table_rules =
    [(''alterTableStatement'',
       Seq [
         Kw ''ALTER'', Choice [Kw ''COLUMNFAMILY'', Kw ''TABLE''], Named ''cf'' (Ref ''columnFamilyName''),
         Ref ''alterInstructions'']),
     (''alterInstructions'',
       Choice [
         Seq [Kw ''ALTER'', Named ''existcol'' (Ref ''cident''), Kw ''TYPE'', Ref ''storageType''],
         Seq [Kw ''ADD'', Named ''newcol'' (Ref ''cident''), Ref ''storageType''],
         Seq [Kw ''DROP'', Named ''existcol'' (Ref ''cident'')],
         Seq [Kw ''WITH'', Ref ''cfamProperty'', Repeat (Seq [Kw ''AND'', Ref ''cfamProperty''])]])]"

definition cql3_alter_keyspace_rules :: rules where
  "cql3_alter_keyspace_rules =
    [(''alterKeyspaceStatement'',
       Seq [
         Kw ''ALTER'', Choice [Kw ''KEYSPACE'', Kw ''SCHEMA''], Named ''ks'' (Ref ''alterableKeyspaceName''),
         Kw ''WITH'', Ref ''newPropSpec'', Repeat (Seq [Kw ''AND'', Ref ''newPropSpec''])])]"

definition cql3_user_rules :: rules where
  "cql3_user_rules =
    [(''username'',
       Named ''name'' (Choice [Ref ''identifier'', Ref ''stringLiteral''])),
     (''createUserStatement'',
       Seq [
         Kw ''CREATE'', Kw ''USER'', Ref ''username'',
         Opt (Seq [Kw ''WITH'', Kw ''PASSWORD'', Ref ''stringLiteral'']),
         Opt (Choice [Kw ''SUPERUSER'', Kw ''NOSUPERUSER''])]),
     (''alterUserStatement'',
       Seq [
         Kw ''ALTER'', Kw ''USER'', Ref ''username'',
         Opt (Seq [Kw ''WITH'', Kw ''PASSWORD'', Ref ''stringLiteral'']),
         Opt (Choice [Kw ''SUPERUSER'', Kw ''NOSUPERUSER''])]),
     (''dropUserStatement'',
       Seq [Kw ''DROP'', Kw ''USER'', Ref ''username'']),
     (''listUsersStatement'',
       Seq [Kw ''LIST'', Kw ''USERS''])]"

definition cql3_permission_rules :: rules where
  "cql3_permission_rules =
    [(''grantStatement'',
       Seq [Kw ''GRANT'', Ref ''permissionExpr'', Kw ''ON'', Ref ''resource'', Kw ''TO'', Ref ''username'']),
     (''revokeStatement'',
       Seq [Kw ''REVOKE'', Ref ''permissionExpr'', Kw ''ON'', Ref ''resource'', Kw ''FROM'', Ref ''username'']),
     (''listPermissionsStatement'',
       Seq [
         Kw ''LIST'', Ref ''permissionExpr'', Opt (Seq [Kw ''ON'', Ref ''resource'']),
         Opt (Seq [Kw ''OF'', Ref ''username'']), Opt (Kw ''NORECURSIVE'')]),
     (''permission'',
       Choice [Kw ''AUTHORIZE'', Kw ''CREATE'', Kw ''ALTER'', Kw ''DROP'', Kw ''SELECT'', Kw ''MODIFY'']),
     (''permissionExpr'',
       Choice [Seq [Ref ''permission'', Opt (Kw ''PERMISSION'')], Seq [Kw ''ALL'', Opt (Kw ''PERMISSIONS'')]]),
     (''resource'',
       Ref ''dataResource''),
     (''dataResource'',
       Choice [
         Seq [Kw ''ALL'', Kw ''KEYSPACES''], Seq [Kw ''KEYSPACE'', Ref ''keyspaceName''],
         Seq [Opt (Kw ''TABLE''), Ref ''columnFamilyName'']])]"

text \<open>The whole \<open>syntax_rules\<close> string.\<close>

definition cql3_syntax_rules :: rules where
  "cql3_syntax_rules =
    cql3_terminal_rules @
    cql3_term_rules @
    cql3_body_rules @
    cql3_type_rules @
    cql3_name_rules @
    cql3_property_rules @
    cql3_use_select_rules @
    cql3_insert_rules @
    cql3_update_rules @
    cql3_delete_rules @
    cql3_batch_rules @
    cql3_truncate_rules @
    cql3_create_keyspace_rules @
    cql3_create_table_rules @
    cql3_create_index_rules @
    cql3_drop_rules @
    cql3_alter_table_rules @
    cql3_alter_keyspace_rules @
    cql3_user_rules @
    cql3_permission_rules"

definition pre_3_0_0_rules :: rules where
  "pre_3_0_0_rules = [(''property'', Ref ''oldPropSpec'')]"

definition post_3_0_0_rules :: rules where
  "post_3_0_0_rules = [(''property'', Ref ''newPropSpec'')]"

definition cql3_grammar :: "rules \<Rightarrow> prs" where
  "cql3_grammar property_rules = add_rules (property_rules, []) (grammar_set cql3_keywords cql3_syntax_rules)"

end
