(* ===== verification/Cql3_Completers.thy ===== *)
theory Cql3_Completers
  imports Cql2_Completers Cql3_Grammar
begin

text \<open>
  The completers of the CQL 3 grammar (\<open>cqlshlib/cql3handling.py\<close>), one definition each, and the
  order in which the module registers them. A later registration for the same rule and symbol
  replaces an earlier one. The option tables \<open>use_pre_3_0_0_syntax\<close> and \<open>use_post_3_0_0_syntax\<close> set
  on the rule set object are a record, the parameter \<open>st\<close>.
\<close>

section \<open>Names and options of CQL 3\<close>

definition cql3_unreserved_keywords :: "string list" where
  "cql3_unreserved_keywords =
    [''key'', ''clustering'', ''ttl'', ''compact'', ''storage'', ''type'', ''values'', ''custom'']"

definition cql3_name :: "string \<Rightarrow> string" where
  "cql3_name name = cql3_maybe_escape_name cql3_keywords cql3_unreserved_keywords name"

abbreviation cql3_value :: "string \<Rightarrow> string" where
  "cql3_value s \<equiv> cql3_escape_value (VStr s)"

definition SYSTEM_KEYSPACES :: "string list" where
  "SYSTEM_KEYSPACES = [''system'', ''system_traces'', ''system_auth'']"

definition NONALTERBALE_KEYSPACES :: "string list" where
  "NONALTERBALE_KEYSPACES = [''system'', ''system_traces'']"

type_synonym option_table = "(string \<times> string option) list"
type_synonym map_option_table = "(string \<times> string option \<times> string list) list"

definition columnfamily_options3 :: option_table where
  "columnfamily_options3 =
    [(''comment'', None), (''compaction_strategy_class'', Some ''compaction_strategy''),
     (''comparator'', Some ''comparator_type''), (''default_validation'', Some ''default_validation_class''),
     (''gc_grace_seconds'', None), (''read_repair_chance'', None), (''replicate_on_write'', None),
     (''populate_io_cache_on_flush'', None)]"

definition old_columnfamily_layout_options :: option_table where
  "old_columnfamily_layout_options =
    [(''bloom_filter_fp_chance'', None), (''caching'', None), (''comment'', None),
     (''compaction_strategy_class'', None), (''dclocal_read_repair_chance'', Some ''local_read_repair_chance''),
     (''gc_grace_seconds'', None), (''read_repair_chance'', None), (''replicate_on_write'', None),
     (''populate_io_cache_on_flush'', None)]"

definition new_columnfamily_layout_options :: option_table where
  "new_columnfamily_layout_options =
    [(''bloom_filter_fp_chance'', None), (''caching'', None), (''comment'', None),
     (''dclocal_read_repair_chance'', Some ''local_read_repair_chance''), (''gc_grace_seconds'', None),
     (''read_repair_chance'', None), (''replicate_on_write'', None), (''populate_io_cache_on_flush'', None)]"

definition old_columnfamily_layout_map_options :: map_option_table where
  "old_columnfamily_layout_map_options =
    [(''compaction_strategy_options'', None, [''min_compaction_threshold'', ''max_compaction_threshold'']),
     (''compression_parameters'', None, [''sstable_compression'', ''chunk_length_kb'', ''crc_check_chance''])]"

definition new_columnfamily_layout_map_options :: map_option_table where
  "new_columnfamily_layout_map_options =
    [(''compaction'', Some ''compaction_strategy_options'', [''class'', ''min_threshold'', ''max_threshold'']),
     (''compression'', Some ''compression_parameters'',
        [''sstable_compression'', ''chunk_length_kb'', ''crc_check_chance''])]"

definition new_obsolete_cf_options :: "string list" where
  "new_obsolete_cf_options =
    [''compaction_parameters'', ''compaction_strategy_class'', ''compaction_strategy_options'',
     ''compression_parameters'', ''max_compaction_threshold'', ''min_compaction_threshold'']"

text \<open>
  The rows of \<open>obsolete_cf_options\<close>: pairs, and after \<open>use_post_3_0_0_syntax\<close> also plain names. \<open>opt[0]\<close>
  of a name is its first character.
\<close>

datatype option_row = OptPair string "string option" | OptName string

fun row_item0 :: "option_row \<Rightarrow> string" where
  "row_item0 (OptPair nm t) = nm"
| "row_item0 (OptName nm) = take 1 nm"

record cql3_options =
  layout_options :: "option_table option"
  layout_map_options :: "map_option_table option"
  obsolete_options :: "option_row list"

definition initial_options :: cql3_options where
  "initial_options = \<lparr>layout_options = None, layout_map_options = None,
     obsolete_options = map (\<lambda>(a, b). OptPair a b) obsolete_cf_options\<rparr>"

definition use_pre_3_0_0_syntax :: "prs \<times> cql3_options \<Rightarrow> prs \<times> cql3_options" where
  "use_pre_3_0_0_syntax ps = (add_rules (pre_3_0_0_rules, []) (fst ps),
     (snd ps)\<lparr>layout_map_options := Some old_columnfamily_layout_map_options,
       layout_options := Some old_columnfamily_layout_options\<rparr>)"

definition use_post_3_0_0_syntax :: "prs \<times> cql3_options \<Rightarrow> prs \<times> cql3_options" where
  "use_post_3_0_0_syntax ps = (add_rules (post_3_0_0_rules, []) (fst ps),
     (snd ps)\<lparr>layout_map_options := Some new_columnfamily_layout_map_options,
       layout_options := Some new_columnfamily_layout_options,
       obsolete_options := obsolete_options (snd ps) @ map OptName new_obsolete_cf_options\<rparr>)"

definition the_attr :: "'a option \<Rightarrow> 'a res" where
  "the_attr x = (case x of None \<Rightarrow> Inl AttributeError | Some v \<Rightarrow> Inr v)"

definition is_obsolete :: "cql3_options \<Rightarrow> string \<Rightarrow> bool" where
  "is_obsolete st opt \<longleftrightarrow> list_ex (\<lambda>r. opt = row_item0 r) (obsolete_options st)"

section \<open>What the statement is about\<close>

definition get_cf_layout :: "ctxt \<Rightarrow> 'ty cass \<Rightarrow> 'ty cqltable res" where
  "get_cf_layout ctxt cass =
     ebind (case binding ctxt ''ksname'' of
              BNone \<Rightarrow> Inr None
            | v \<Rightarrow> ebind (dequote_binding cql3_dequote_name v) (\<lambda>s. Inr (Some s))) (\<lambda>ks.
     ebind (dequote_binding cql3_dequote_name (binding ctxt ''cfname'')) (\<lambda>cf.
       get_columnfamily_layout cass ks cf))"

definition working_on_keyspace :: "ctxt \<Rightarrow> bool res" where
  "working_on_keyspace ctxt =
     ebind (as_str (binding ctxt ''wat'')) (\<lambda>wat.
       Inr (py_upper wat = ''KEYSPACE'' \<or> py_upper wat = ''SCHEMA''))"

section \<open>Properties, new syntax\<close>

definition prop_equals_completer :: "'ty cass_completer" where
  "prop_equals_completer ctxt cass =
     ebind (working_on_keyspace ctxt) (\<lambda>ks.
       if ks then strs [''='']
       else ebind (last_item (binding ctxt ''propname'')) (\<lambda>p.
         let curprop = py_upper p in
         if curprop = ''COMPACT'' \<or> curprop = ''CLUSTERING'' then strs [] else strs [''='']))"

definition ks_new_prop_name_completer :: "'ty cass_completer" where
  "ks_new_prop_name_completer ctxt cass =
     ebind (as_items (binding_or_empty ctxt ''propname'')) (\<lambda>optsseen.
       if ''replication'' \<notin> set optsseen then strs [''replication''] else strs [''durable_writes''])"

definition ks_new_prop_val_completer :: "'ty cass_completer" where
  "ks_new_prop_val_completer ctxt cass =
     ebind (last_item (binding ctxt ''propname'')) (\<lambda>optname.
       if optname = ''durable_writes'' then strs [[squote] @ ''true'' @ [squote], [squote] @ ''false'' @ [squote]]
       else if optname = ''replication'' then strs [''{'' @ [squote] @ ''class'' @ [squote] @ '': '' @ [squote]]
       else strs [])"

text \<open>
  The keys and values of the map so far. When the replication class is neither of those the code
  knows, \<open>opts\<close> is unbound.
\<close>

definition map_seen :: "ctxt \<Rightarrow> (string list \<times> string list) res" where
  "map_seen ctxt =
     ebind (dequote_items cql3_dequote_value (binding_or_empty ctxt ''propmapkey'')) (\<lambda>keysseen.
     ebind (dequote_items cql3_dequote_value (binding_or_empty ctxt ''propmapval'')) (\<lambda>valsseen.
       Inr (keysseen, valsseen)))"

definition ks_new_prop_val_mapkey_completer :: "'ty cass_completer" where
  "ks_new_prop_val_mapkey_completer ctxt cass =
     ebind (last_item (binding ctxt ''propname'')) (\<lambda>optname.
       if optname \<noteq> ''replication'' then strs []
       else ebind (map_seen ctxt) (\<lambda>(keysseen, valsseen).
         case first_value ''class'' keysseen valsseen of
           None \<Rightarrow> strs [[squote] @ ''class'' @ [squote]]
         | Some repclass \<Rightarrow>
             if repclass \<in> set replication_factor_strategies then
               strs (map cql3_value (filter (\<lambda>o1. o1 \<notin> set keysseen) [''replication_factor'']))
             else if repclass = ''NetworkTopologyStrategy'' then hint ''<dc_name>''
             else Inl UnboundLocalError))"

definition ks_new_prop_val_mapval_completer :: "'ty cass_completer" where
  "ks_new_prop_val_mapval_completer ctxt cass =
     ebind (last_item (binding ctxt ''propname'')) (\<lambda>optname.
       if optname \<noteq> ''replication'' then strs []
       else ebind (last_item (binding ctxt ''propmapkey'')) (\<lambda>k.
         if cql3_dequote_value k = ''class'' then strs (map cql3_value replication_strategies)
         else hint ''<value>''))"

definition ks_new_prop_val_mapender_completer :: "'ty cass_completer" where
  "ks_new_prop_val_mapender_completer ctxt cass =
     ebind (last_item (binding ctxt ''propname'')) (\<lambda>optname.
       if optname \<noteq> ''replication'' then strs ['','']
       else ebind (map_seen ctxt) (\<lambda>(keysseen, valsseen).
         case first_value ''class'' keysseen valsseen of
           None \<Rightarrow> strs ['','']
         | Some repclass \<Rightarrow>
             if repclass \<in> set replication_factor_strategies \<and> ''replication_factor'' \<notin> set keysseen
             then strs ['','']
             else if repclass = ''NetworkTopologyStrategy'' \<and> length keysseen = 1 then strs ['','']
             else strs [''}'']))"

definition cf_new_prop_name_completer :: "cql3_options \<Rightarrow> 'ty cass_completer" where
  "cf_new_prop_name_completer st ctxt cass =
     ebind (the_attr (layout_options st)) (\<lambda>opts.
     ebind (the_attr (layout_map_options st)) (\<lambda>mopts.
       strs (map fst opts @ map fst mopts)))"

definition cf_new_prop_val_completer :: "cql3_options \<Rightarrow> 'ty cass_completer" where
  "cf_new_prop_val_completer st ctxt cass =
     ebind (last_item (binding ctxt ''propname'')) (\<lambda>this_opt.
       if this_opt = ''compression'' then
         strs [''{'' @ [squote] @ ''sstable_compression'' @ [squote] @ '': '' @ [squote]]
       else if this_opt = ''compaction'' then strs [''{'' @ [squote] @ ''class'' @ [squote] @ '': '' @ [squote]]
       else if is_obsolete st this_opt then strs [[squote] @ ''<obsolete_option>'' @ [squote]]
       else if this_opt \<in> {''read_repair_chance'', ''bloom_filter_fp_chance'', ''dclocal_read_repair_chance''}
       then hint ''<float_between_0_and_1>''
       else if this_opt \<in> {''replicate_on_write'', ''populate_io_cache_on_flush''}
       then strs [[squote] @ ''yes'' @ [squote], [squote] @ ''no'' @ [squote]]
       else if this_opt \<in> {''min_compaction_threshold'', ''max_compaction_threshold'', ''gc_grace_seconds''}
       then hint ''<integer>''
       else if this_opt = ''default_read_consistency'' then
         strs (filter (\<lambda>cl. cl \<noteq> ''ANY'') consistency_levels)
       else if this_opt = ''default_write_consistency'' then strs consistency_levels
       else hint ''<option_value>'')"

definition cf_new_prop_val_mapkey_completer :: "cql3_options \<Rightarrow> 'ty cass_completer" where
  "cf_new_prop_val_mapkey_completer st ctxt cass =
     ebind (last_item (binding ctxt ''propname'')) (\<lambda>optname.
     ebind (the_attr (layout_map_options st)) (\<lambda>mopts.
       case map_of mopts optname of
         None \<Rightarrow> strs []
       | Some (thrift, subopts) \<Rightarrow>
           ebind (map_seen ctxt) (\<lambda>(keysseen, valsseen).
             if optname = ''compression'' then
               strs (map cql3_value (filter (\<lambda>o1. o1 \<notin> set keysseen) subopts))
             else if optname = ''compaction'' then
               (case map_of (rev (zip keysseen valsseen)) ''class'' of
                  None \<Rightarrow> strs [[squote] @ ''class'' @ [squote]]
                | Some v \<Rightarrow>
                    let csc = last_dotted v in
                    strs (map cql3_value
                      (if csc = ''SizeTieredCompactionStrategy'' then set_add ''min_sstable_size'' subopts
                       else if csc = ''LeveledCompactionStrategy'' then set_add ''sstable_size_in_mb'' subopts
                       else subopts)))
             else strs [])))"

definition cf_new_prop_val_mapval_completer :: "'ty cass_completer" where
  "cf_new_prop_val_mapval_completer ctxt cass =
     ebind (last_item (binding ctxt ''propname'')) (\<lambda>opt.
     ebind (last_item (binding ctxt ''propmapkey'')) (\<lambda>k.
       let key = cql3_dequote_value k in
       if opt = ''compaction'' then
         (if key = ''class'' then strs (map cql3_value available_compaction_classes)
          else hint ''<option_value>'')
       else if opt = ''compression'' then
         (if key = ''sstable_compression'' then strs (map cql3_value available_compression_classes)
          else hint ''<option_value>'')
       else strs []))"

definition cf_new_prop_val_mapender_completer :: "'ty cass_completer" where
  "cf_new_prop_val_mapender_completer ctxt cass = strs ['','', ''}'']"

definition by_target :: "'ty cass_completer \<Rightarrow> 'ty cass_completer \<Rightarrow> 'ty cass_completer" where
  "by_target on_keyspace on_table ctxt cass =
     ebind (working_on_keyspace ctxt) (\<lambda>ks. if ks then on_keyspace ctxt cass else on_table ctxt cass)"

definition new_prop_name_completer :: "cql3_options \<Rightarrow> 'ty cass_completer" where
  "new_prop_name_completer st = by_target ks_new_prop_name_completer (cf_new_prop_name_completer st)"

definition new_prop_val_completer :: "cql3_options \<Rightarrow> 'ty cass_completer" where
  "new_prop_val_completer st = by_target ks_new_prop_val_completer (cf_new_prop_val_completer st)"

definition new_prop_val_mapkey_completer :: "cql3_options \<Rightarrow> 'ty cass_completer" where
  "new_prop_val_mapkey_completer st =
     by_target ks_new_prop_val_mapkey_completer (cf_new_prop_val_mapkey_completer st)"

definition new_prop_val_mapval_completer :: "'ty cass_completer" where
  "new_prop_val_mapval_completer =
     by_target ks_new_prop_val_mapval_completer cf_new_prop_val_mapval_completer"

definition new_prop_val_mapender_completer :: "'ty cass_completer" where
  "new_prop_val_mapender_completer =
     by_target ks_new_prop_val_mapender_completer cf_new_prop_val_mapender_completer"

section \<open>Properties, old syntax\<close>

text \<open>
  \<open>optname\<close> is bound by a \<open>named_symbol\<close>, so it is a string: \<open>index\<close> searches a substring in it and
  \<open>[-1]\<close> is its last character.
\<close>

definition strategy_of :: "ctxt \<Rightarrow> bindval \<Rightarrow> string option res" where
  "strategy_of ctxt exist_opts =
     (case index_of exist_opts ''strategy_class'' of
        Inl (ValueError m) \<Rightarrow> Inr None
      | Inl e \<Rightarrow> Inl e
      | Inr stratopt \<Rightarrow>
          ebind (item_at (binding ctxt ''optval'') stratopt) (\<lambda>v. Inr (Some (cql3_dequote_value v))))"

definition ks_old_prop_name_completer :: "'ty cass_completer" where
  "ks_old_prop_name_completer ctxt cass =
     ebind (strategy_of ctxt (binding_or_empty ctxt ''optname'')) (\<lambda>strat.
       case strat of
         None \<Rightarrow> strs [''strategy_class ='']
       | Some stratclass \<Rightarrow>
           if stratclass \<in> set replication_factor_strategies then strs [''strategy_options:replication_factor ='']
           else hint ''<strategy_option_name>'')"

definition ks_old_prop_val_completer :: "'ty cass_completer" where
  "ks_old_prop_val_completer ctxt cass =
     ebind (case binding ctxt ''optname'' of
              BNone \<Rightarrow> Inr False
            | v \<Rightarrow> ebind (last_item v) (\<lambda>l. Inr (l = ''strategy_class''))) (\<lambda>strat.
       if strat then strs (map cql3_value replication_strategies) else hint ''<option_value>'')"

definition ks_old_prop_separator_completer :: "'ty cass_completer" where
  "ks_old_prop_separator_completer ctxt cass =
     ebind (last_item (binding ctxt ''optname'')) (\<lambda>curopt.
       if curopt = ''strategy_options'' then strs ['':''] else strs [])"

definition ks_old_prop_suboption_completer :: "'ty cass_completer" where
  "ks_old_prop_suboption_completer ctxt cass =
     ebind (last_item (binding ctxt ''optname'')) (\<lambda>l.
       if l \<noteq> ''strategy_options'' then strs []
       else ebind (strategy_of ctxt (binding ctxt ''optname'')) (\<lambda>strat.
         case strat of
           None \<Rightarrow> strs []
         | Some stratclass \<Rightarrow>
             if stratclass \<in> set replication_factor_strategies then strs [''replication_factor ='']
             else hint ''<dc_name>''))"

text \<open>The rows of the option table are offered as they are, pairs and not names.\<close>

definition cf_old_prop_name_completer :: "cql3_options \<Rightarrow> 'ty cass_completer" where
  "cf_old_prop_name_completer st ctxt cass =
     ebind (the_attr (layout_options st)) (\<lambda>opts.
     ebind (the_attr (layout_map_options st)) (\<lambda>mopts.
       Inr (PList (map (\<lambda>(a, b). CPair a b) opts @ map (\<lambda>c. CStr (fst c @ '':'')) mopts))))"

definition simple_cql_types :: "'ty cass \<Rightarrow> string list" where
  "simple_cql_types cass = filter (\<lambda>t. t \<notin> {''set'', ''map'', ''list''}) (remdups (cql_types cass))"

definition cf_old_prop_val_completer :: "cql3_options \<Rightarrow> 'ty cass_completer" where
  "cf_old_prop_val_completer st ctxt cass =
     ebind (last_item (binding ctxt ''propname'')) (\<lambda>this_opt.
       if this_opt = ''compression_parameters:sstable_compression'' then
         strs (map cql3_value available_compression_classes)
       else if this_opt = ''compaction_strategy_class'' then strs (map cql3_value available_compaction_classes)
       else if is_obsolete st this_opt then strs [[squote] @ ''<obsolete_option>'' @ [squote]]
       else if this_opt \<in> {''comparator'', ''default_validation''} then strs (simple_cql_types cass)
       else if this_opt \<in> {''read_repair_chance'', ''bloom_filter_fp_chance''}
       then hint ''<float_between_0_and_1>''
       else if this_opt \<in> {''replicate_on_write'', ''populate_io_cache_on_flush''} then hint ''<yes_or_no>''
       else if this_opt \<in> {''min_compaction_threshold'', ''max_compaction_threshold'', ''gc_grace_seconds''}
       then hint ''<integer>''
       else hint ''<option_value>'')"

definition cf_old_prop_separator_completer :: "cql3_options \<Rightarrow> 'ty cass_completer" where
  "cf_old_prop_separator_completer st ctxt cass =
     ebind (the_attr (layout_map_options st)) (\<lambda>mopts.
       if list_ex (\<lambda>c. binding ctxt ''optname'' = BStr (fst c)) mopts then strs ['':''] else strs [])"

text \<open>
  The layout has no attribute \<open>compaction_strategy\<close> unless the row had such a column, and what is not
  there is taken as an empty text.
\<close>

definition old_compaction_class :: "ctxt \<Rightarrow> 'ty cass \<Rightarrow> string res" where
  "old_compaction_class ctxt cass =
     ebind (as_items (binding_or_empty ctxt ''propname'')) (\<lambda>prevopts.
     ebind (as_items (binding_or_empty ctxt ''optval'')) (\<lambda>prevvals.
       case first_value ''compaction_strategy_class'' prevopts prevvals of
         Some v \<Rightarrow> Inr (cql3_dequote_value v)
       | None \<Rightarrow> ebind (get_cf_layout ctxt cass) (\<lambda>layout.
           case cf_attrs layout ''compaction_strategy'' of
             None \<Rightarrow> Inr []
           | Some (AStr (Some csc)) \<Rightarrow> Inr csc
           | Some _ \<Rightarrow> Inl AttributeError)))"

definition cf_old_prop_suboption_completer :: "cql3_options \<Rightarrow> 'ty cass_completer" where
  "cf_old_prop_suboption_completer st ctxt cass =
     (let opt = binding ctxt ''optname'';
          from_table = ebind (the_attr (layout_map_options st)) (\<lambda>mopts.
            case find (\<lambda>c. opt = BStr (fst c)) mopts of
              None \<Rightarrow> strs []
            | Some (optname, thrift, subopts) \<Rightarrow> strs subopts)
      in if opt = BStr ''compaction_strategy_options'' then
           ebind (old_compaction_class ctxt cass) (\<lambda>csc0.
             let csc = last_dotted csc0 in
             if csc = ''SizeTieredCompactionStrategy'' then strs [''min_sstable_size'']
             else if csc = ''LeveledCompactionStrategy'' then strs [''sstable_size_in_mb'']
             else from_table)
         else from_table)"

definition old_prop_name_completer :: "cql3_options \<Rightarrow> 'ty cass_completer" where
  "old_prop_name_completer st = by_target ks_old_prop_name_completer (cf_old_prop_name_completer st)"

definition old_prop_val_completer :: "cql3_options \<Rightarrow> 'ty cass_completer" where
  "old_prop_val_completer st = by_target ks_old_prop_val_completer (cf_old_prop_val_completer st)"

definition old_prop_separator_completer :: "cql3_options \<Rightarrow> 'ty cass_completer" where
  "old_prop_separator_completer st =
     by_target ks_old_prop_separator_completer (cf_old_prop_separator_completer st)"

definition old_prop_suboption_completer :: "cql3_options \<Rightarrow> 'ty cass_completer" where
  "old_prop_suboption_completer st =
     by_target ks_old_prop_suboption_completer (cf_old_prop_suboption_completer st)"

section \<open>Names\<close>

definition token_word_completer :: "'ty cass_completer" where
  "token_word_completer ctxt cass = strs [''TOKEN('']"

definition storagetype_completer3 :: "'ty cass_completer" where
  "storagetype_completer3 ctxt cass = strs (simple_cql_types cass)"

definition ks_name_completer3 :: "'ty cass_completer" where
  "ks_name_completer3 ctxt cass = escaped cql3_name (get_keyspace_names cass)"

definition nonsystem_ks_name_completer :: "'ty cass_completer" where
  "nonsystem_ks_name_completer ctxt cass = ebind (get_keyspace_names cass) (\<lambda>ns.
     strs (map cql3_name (filter (\<lambda>n. n \<notin> set SYSTEM_KEYSPACES) ns)))"

definition alterable_ks_name_completer :: "'ty cass_completer" where
  "alterable_ks_name_completer ctxt cass = ebind (get_keyspace_names cass) (\<lambda>ns.
     strs (map cql3_name (filter (\<lambda>n. n \<notin> set NONALTERBALE_KEYSPACES) ns)))"

definition cf_ks_name_completer3 :: "'ty cass_completer" where
  "cf_ks_name_completer3 ctxt cass = escaped (\<lambda>ks. cql3_name ks @ ''.'') (get_keyspace_names cass)"

definition cf_ks_dot_completer :: "'ty cass_completer" where
  "cf_ks_dot_completer ctxt cass =
     ebind (dequote_binding cql3_dequote_name (binding ctxt ''ksname'')) (\<lambda>name.
     ebind (get_keyspace_names cass) (\<lambda>ns. if name \<in> set ns then strs [''.''] else strs []))"

definition cf_name_completer3 :: "'ty cass_completer" where
  "cf_name_completer3 = names_in_keyspace cql3_dequote_name cql3_name"

definition unreserved_keyword_completer :: "'ty cass_completer" where
  "unreserved_keyword_completer ctxt cass = strs []"

section \<open>Selecting\<close>

definition truthy :: "bindval \<Rightarrow> bool" where
  "truthy v = (case v of BNone \<Rightarrow> False | BStr s \<Rightarrow> s \<noteq> [] | BTup xs \<Rightarrow> xs \<noteq> [] | BFlag b \<Rightarrow> b | BConn \<Rightarrow> True)"

definition select_order_column_completer :: "'ty cass_completer" where
  "select_order_column_completer ctxt cass =
     (let prev_order_cols = binding_or_empty ctxt ''ordercol'';
          keyname = binding ctxt ''keyname'' in
      if keyname = BNone \<and> \<not> truthy (binding_or_empty ctxt ''rel_lhs'') then
        hint (''Can'' @ [squote] @ ''t ORDER BY here: need to specify partition key in WHERE clause'')
      else ebind (get_cf_layout ctxt cass) (\<lambda>layout.
        ebind (as_items prev_order_cols) (\<lambda>prev.
          let candidates = cf_column_aliases layout in
          if length candidates > length prev then strs [cql3_name (candidates ! length prev)]
          else hint ''No more orderable columns here.'')))"

definition relation_token_word_completer :: "'ty cass_completer" where
  "relation_token_word_completer ctxt cass = strs [''TOKEN('']"

definition relation_token_subject_completer :: "'ty cass_completer" where
  "relation_token_subject_completer ctxt cass = ebind (get_cf_layout ctxt cass) (\<lambda>layout.
     ebind (nth_res (cf_partition_key_components layout) 0) (\<lambda>k. strs [k]))"

text \<open>Component \<open>num\<close> of a key is offered when all before it are restricted already.\<close>

fun unlocked :: "string list \<Rightarrow> string list \<Rightarrow> string list" where
  "unlocked seen (a # b # rest) = (if a \<in> set seen then b # unlocked seen (b # rest) else [])"
| "unlocked seen xs = []"

definition cql3_relation_lhs_completer :: "'ty cass_completer" where
  "cql3_relation_lhs_completer ctxt cass = ebind (get_cf_layout ctxt cass) (\<lambda>layout.
     ebind (nth_res (cf_partition_key_components layout) 0) (\<lambda>k0.
     ebind (nth_res (cf_column_aliases layout) 0) (\<lambda>a0.
     ebind (dequote_items cql3_dequote_name (binding ctxt ''rel_lhs'')) (\<lambda>already_filtered_on.
       strs (map cql3_name (set_update [] (k0 # a0 #
         unlocked already_filtered_on (cf_partition_key_components layout) @
         unlocked already_filtered_on (cf_column_aliases layout) @
         map cd_name (filter (\<lambda>cd. cd_index_name cd \<noteq> None) (cf_columns layout)))))))))"

definition select_count_star_completer :: "'ty cass_completer" where
  "select_count_star_completer ctxt cass = strs [''*'']"

section \<open>Inserting\<close>

definition insert_colname_completer :: "'ty cass_completer" where
  "insert_colname_completer ctxt cass = ebind (get_cf_layout ctxt cass) (\<lambda>layout.
     ebind (dequote_items cql3_dequote_name (binding_or_empty ctxt ''colname'')) (\<lambda>colnames.
       case find (\<lambda>k. k \<notin> set colnames) (cf_primary_key_components layout) of
         Some k \<Rightarrow> strs [cql3_name k]
       | None \<Rightarrow>
           strs (map cql3_name (filter (\<lambda>c. c \<notin> set (cf_primary_key_components layout) \<and> c \<notin> set colnames)
             (remdups (map cd_name (cf_columns layout)))))))"

text \<open>The type of a column; a column without one has no attribute \<open>typename\<close>.\<close>

definition column_type :: "'ty cqltable \<Rightarrow> string \<Rightarrow> 'ty res" where
  "column_type layout curcol = ebind (get_column layout curcol) (\<lambda>c. the_attr (cd_cqltype c))"

definition insert_newval_completer :: "'ty cass_completer" where
  "insert_newval_completer ctxt cass = ebind (get_cf_layout ctxt cass) (\<lambda>layout.
     ebind (dequote_items cql3_dequote_name (binding ctxt ''colname'')) (\<lambda>insertcols.
     ebind (as_items (binding_or_empty ctxt ''newval'')) (\<lambda>valuesdone.
       if length valuesdone \<ge> length insertcols then strs []
       else (let curcol = insertcols ! length valuesdone in
         ebind (column_type layout curcol) (\<lambda>cqltype.
           let coltype = typename (cass_types cass) cqltype in
           if coltype \<in> {''map'', ''set''} then strs [''{'']
           else if coltype = ''list'' then strs [''['']
           else if coltype = ''boolean'' then strs [''true'', ''false'']
           else hint (''<value for '' @ cql3_name curcol @ '' ('' @
             cql_parameterized_type (cass_types cass) cqltype @ '')>''))))))"

definition insert_valcomma_completer :: "'ty cass_completer" where
  "insert_valcomma_completer ctxt cass = ebind (get_cf_layout ctxt cass) (\<lambda>layout.
     ebind (as_items (binding_or_empty ctxt ''colname'')) (\<lambda>cols.
     ebind (as_items (binding_or_empty ctxt ''newval'')) (\<lambda>vals.
       if length cols > length vals then strs ['',''] else strs ['')''])))"

definition insert_option_completer3 :: "'ty cass_completer" where
  "insert_option_completer3 = remaining_options ''TIMESTAMP TTL'' ''insertopt''"

section \<open>Updating and deleting\<close>

definition update_option_completer3 :: "'ty cass_completer" where
  "update_option_completer3 = remaining_options ''TIMESTAMP TTL'' ''updateopt''"

definition update_col_completer3 :: "'ty cass_completer" where
  "update_col_completer3 ctxt cass = ebind (get_cf_layout ctxt cass) (\<lambda>layout.
     strs (map cql3_name (filter (\<lambda>c. c \<notin> set (cf_primary_key_components layout))
       (remdups (map cd_name (cf_columns layout))))))"

definition update_countername_completer3 :: "'ty cass_completer" where
  "update_countername_completer3 ctxt cass = ebind (get_cf_layout ctxt cass) (\<lambda>layout.
     ebind (current_column cql3_dequote_name ctxt) (\<lambda>curcol.
     ebind (column_type layout curcol) (\<lambda>cqltype.
       let coltype = typename (cass_types cass) cqltype in
       if coltype = ''counter'' then Inr (PStr (cql3_name curcol))
       else if coltype \<in> {''map'', ''set''} then strs [''{'']
       else if coltype = ''list'' then strs [''['']
       else hint (''<term ('' @ cql_parameterized_type (cass_types cass) cqltype @ '')>''))))"

definition update_counterop_completer3 :: "'ty cass_completer" where
  "update_counterop_completer3 ctxt cass = ebind (get_cf_layout ctxt cass) (\<lambda>layout.
     ebind (current_column cql3_dequote_name ctxt) (\<lambda>curcol.
       if is_counter_col3 (cass_types cass) layout curcol then strs [''+'', ''-''] else strs []))"

definition update_counter_inc_completer :: "'ty cass_completer" where
  "update_counter_inc_completer ctxt cass = ebind (get_cf_layout ctxt cass) (\<lambda>layout.
     ebind (current_column cql3_dequote_name ctxt) (\<lambda>curcol.
       if is_counter_col3 (cass_types cass) layout curcol then Inr (PHint ''<wholenumber>'') else strs []))"

definition update_listadder_completer :: "'ty cass_completer" where
  "update_listadder_completer ctxt cass =
     ebind (as_str (binding ctxt ''update_rhs'')) (\<lambda>rhs.
       if startswith rhs ''['' then strs [''+''] else Inr PNone)"

definition update_listcol_completer :: "'ty cass_completer" where
  "update_listcol_completer ctxt cass =
     ebind (as_str (binding ctxt ''update_rhs'')) (\<lambda>rhs.
       if startswith rhs ''['' then
         ebind (dequote_binding cql3_dequote_name (binding ctxt ''updatecol'')) (\<lambda>colname. strs [cql3_name colname])
       else strs [])"

definition update_indexbracket_completer :: "'ty cass_completer" where
  "update_indexbracket_completer ctxt cass = ebind (get_cf_layout ctxt cass) (\<lambda>layout.
     ebind (current_column cql3_dequote_name ctxt) (\<lambda>curcol.
     ebind (column_type layout curcol) (\<lambda>cqltype.
       if typename (cass_types cass) cqltype \<in> {''map'', ''list''} then strs [''[''] else strs [])))"

definition delete_opt_completer3 :: "'ty cass_completer" where
  "delete_opt_completer3 = remaining_options ''TIMESTAMP'' ''delopt''"

text \<open>
  \<open>c not in layout.primary_key_components\<close> compares a column object with names, so it always holds.
\<close>

definition delete_delcol_completer :: "'ty cass_completer" where
  "delete_delcol_completer ctxt cass = ebind (get_cf_layout ctxt cass) (\<lambda>layout.
     strs (map cql3_name (remdups (map cd_name (cf_columns layout)))))"

definition batch_opt_completer3 :: "'ty cass_completer" where
  "batch_opt_completer3 = remaining_options ''TIMESTAMP'' ''batchopt''"

section \<open>Creating, altering and dropping\<close>

definition what_completer :: "string \<Rightarrow> string \<Rightarrow> 'ty cass_completer" where
  "what_completer preferred other ctxt cass =
     (if get_binding ctxt ''partial'' (BStr []) = BStr [] then strs [preferred] else strs [preferred, other])"

definition create_ks_wat_completer :: "'ty cass_completer" where
  "create_ks_wat_completer = what_completer ''KEYSPACE'' ''SCHEMA''"

definition create_ks_opt_completer3 :: "'ty cass_completer" where
  "create_ks_opt_completer3 ctxt cass =
     ebind (strategy_of ctxt (binding_or_empty ctxt ''optname'')) (\<lambda>strat.
       case strat of
         None \<Rightarrow> strs [''strategy_class ='']
       | Some stratclass \<Rightarrow>
           if stratclass \<in> set replication_factor_strategies then strs [''strategy_options:replication_factor ='']
           else hint ''<strategy_option_name>'')"

definition create_ks_optval_completer3 :: "'ty cass_completer" where
  "create_ks_optval_completer3 ctxt cass =
     ebind (case binding ctxt ''optname'' of
              BNone \<Rightarrow> Inr False
            | v \<Rightarrow> ebind (last_item v) (\<lambda>l. Inr (l = ''strategy_class''))) (\<lambda>strat.
       if strat then strs (map cql3_value replication_strategies) else hint ''<option_value>'')"

definition keyspace_properties_option_name_completer :: "'ty cass_completer" where
  "keyspace_properties_option_name_completer ctxt cass =
     ebind (as_items (binding_or_empty ctxt ''propname'')) (\<lambda>optsseen.
       if ''replication'' \<notin> set optsseen then strs [''replication''] else strs [''durable_writes''])"

definition property_value_completer :: "'ty cass_completer" where
  "property_value_completer ctxt cass =
     ebind (last_item (binding ctxt ''propname'')) (\<lambda>optname.
       if optname = ''durable_writes'' then strs [[squote] @ ''true'' @ [squote], [squote] @ ''false'' @ [squote]]
       else if optname = ''replication'' then strs [''{'' @ [squote] @ ''class'' @ [squote] @ '': '' @ [squote]]
       else strs [])"

definition keyspace_properties_map_key_completer :: "'ty cass_completer" where
  "keyspace_properties_map_key_completer ctxt cass =
     ebind (last_item (binding ctxt ''propname'')) (\<lambda>optname.
       if optname \<noteq> ''replication'' then strs []
       else ebind (map_seen ctxt) (\<lambda>(keysseen, valsseen).
         case first_value ''class'' keysseen valsseen of
           None \<Rightarrow> strs [[squote] @ ''class'' @ [squote]]
         | Some repclass \<Rightarrow>
             if repclass \<in> set replication_factor_strategies then
               strs (map cql3_value (filter (\<lambda>o1. o1 \<notin> set keysseen) [''replication_factor'']))
             else if repclass = ''NetworkTopologyStrategy'' then hint ''<dc_name>''
             else Inl UnboundLocalError))"

definition keyspace_properties_map_value_completer :: "'ty cass_completer" where
  "keyspace_properties_map_value_completer ctxt cass =
     ebind (last_item (binding ctxt ''propname'')) (\<lambda>optname.
       if optname \<noteq> ''replication'' then strs []
       else ebind (last_item (binding ctxt ''propmapkey'')) (\<lambda>k.
         if cql3_dequote_value k = ''class'' then strs (map cql3_value replication_strategies)
         else hint ''<value>''))"

definition keyspace_properties_map_ender_completer :: "'ty cass_completer" where
  "keyspace_properties_map_ender_completer ctxt cass =
     ebind (last_item (binding ctxt ''propname'')) (\<lambda>optname.
       if optname \<noteq> ''replication'' then strs ['','']
       else ebind (map_seen ctxt) (\<lambda>(keysseen, valsseen).
         case first_value ''class'' keysseen valsseen of
           None \<Rightarrow> strs ['','']
         | Some repclass \<Rightarrow>
             if repclass \<in> set replication_factor_strategies \<and> ''replication_factor'' \<notin> set keysseen
             then strs ['','']
             else if repclass = ''NetworkTopologyStrategy'' \<and> length keysseen = 1 then strs ['','']
             else strs [''}'']))"

definition create_cf_clustering_order_colname_completer :: "'ty cass_completer" where
  "create_cf_clustering_order_colname_completer ctxt cass =
     ebind (dequote_items cql3_dequote_name (binding_or_empty ctxt ''newcolname'')) strs"

definition create_cf_wat_completer :: "'ty cass_completer" where
  "create_cf_wat_completer = what_completer ''TABLE'' ''COLUMNFAMILY''"

definition create_cf_ks_dot_completer :: "'ty cass_completer" where
  "create_cf_ks_dot_completer ctxt cass =
     ebind (dequote_binding cql3_dequote_name (binding ctxt ''ks'')) (\<lambda>ks.
     ebind (get_keyspace_names cass) (\<lambda>ns. if ks \<in> set ns then strs [''.''] else strs []))"

text \<open>The loop over the declared columns, shared by the two parts of a primary key.\<close>

fun next_declared :: "string list \<Rightarrow> string list \<Rightarrow> string option res" where
  "next_declared pieces_already [] = Inl IndexError"
| "next_declared pieces_already (c # cs) =
     (if c \<in> set pieces_already then
        (if length cs < 2 then Inr None else next_declared pieces_already cs)
      else Inr (Some c))"

definition declared_piece :: "ctxt \<Rightarrow> string list \<Rightarrow> pyval res" where
  "declared_piece ctxt pieces_already =
     ebind (as_items (binding ctxt ''newcolname'')) (\<lambda>cols_declared.
     ebind (next_declared pieces_already cols_declared) (\<lambda>r.
       case r of None \<Rightarrow> strs [] | Some c \<Rightarrow> strs [cql3_name c]))"

definition create_cf_pkdef_declaration_completer :: "'ty cass_completer" where
  "create_cf_pkdef_declaration_completer ctxt cass =
     ebind (dequote_items cql3_dequote_name (binding_or_empty ctxt ''ptkey'')) (declared_piece ctxt)"

definition create_cf_composite_key_declaration_completer :: "'ty cass_completer" where
  "create_cf_composite_key_declaration_completer ctxt cass =
     ebind (dequote_items cql3_dequote_name (binding_or_empty ctxt ''ptkey'')) (\<lambda>pt.
     ebind (dequote_items cql3_dequote_name (binding_or_empty ctxt ''pkey'')) (\<lambda>pk.
       declared_piece ctxt (pt @ pk)))"

definition create_cf_composite_primary_key_keyword_completer :: "'ty cass_completer" where
  "create_cf_composite_primary_key_keyword_completer ctxt cass = strs [''KEY ('']"

definition create_cf_composite_primary_key_paren_completer :: "'ty cass_completer" where
  "create_cf_composite_primary_key_paren_completer ctxt cass = strs [''('']"

definition create_cf_composite_primary_key_comma_completer :: "'ty cass_completer" where
  "create_cf_composite_primary_key_comma_completer ctxt cass =
     ebind (as_items (binding ctxt ''newcolname'')) (\<lambda>cols_declared.
     ebind (as_items (binding_or_empty ctxt ''pkey'')) (\<lambda>pieces_already.
       if length cols_declared \<le> length pieces_already + 1 then strs [] else strs ['','']))"

definition create_index_col_completer3 :: "'ty cass_completer" where
  "create_index_col_completer3 ctxt cass = ebind (get_cf_layout ctxt cass) (\<lambda>layout.
     strs (map (\<lambda>cd. cql3_name (cd_name cd)) (filter (\<lambda>cd. cd_index_name cd = None) (cf_columns layout))))"

definition drop_index_completer3 :: "'ty cass_completer" where
  "drop_index_completer3 ctxt cass = escaped cql3_name (get_index_names cass)"

definition alter_table_col_completer3 :: "'ty cass_completer" where
  "alter_table_col_completer3 ctxt cass = ebind (get_cf_layout ctxt cass) (\<lambda>layout.
     strs (map (\<lambda>md. cql3_name (cd_name md)) (cf_columns layout)))"

definition maybe_quote :: "string \<Rightarrow> string" where
  "maybe_quote name =
     (if is_valid_cql3_name cql3_keywords cql3_unreserved_keywords (Some name) then name
      else [squote] @ name @ [squote])"

definition username_name_completer :: "'ty cass_completer" where
  "username_name_completer ctxt cass =
     ebind (nth_res (matched ctxt) 0) (\<lambda>t.
       if tok_type t = ''K_CREATE'' then hint ''<username>''
       else ebind (list_users cass) (\<lambda>us. strs (map (\<lambda>u. maybe_quote (quote_double squote u)) us)))"

section \<open>Registrations\<close>

definition cql3_registrations_early :: "cql3_options \<Rightarrow> 'ty registrations" where
  "cql3_registrations_early st =
    [((''oldPropSpec'', ''propeq''), prop_equals_completer),
     ((''newPropSpec'', ''propeq''), prop_equals_completer),
     ((''newPropSpec'', ''propname''), new_prop_name_completer st),
     ((''propertyValue'', ''propsimpleval''), new_prop_val_completer st),
     ((''propertyValue'', ''propmapkey''), new_prop_val_mapkey_completer st),
     ((''propertyValue'', ''propmapval''), new_prop_val_mapval_completer),
     ((''propertyValue'', ''ender''), new_prop_val_mapender_completer),
     ((''optionName'', ''optname''), old_prop_name_completer st),
     ((''oldPropSpec'', ''optval''), old_prop_val_completer st),
     ((''optionName'', ''optsep''), old_prop_separator_completer st),
     ((''optionName'', ''subopt''), old_prop_suboption_completer st),
     ((''tokenDefinition'', ''token''), token_word_completer),
     ((''simpleStorageType'', ''typename''), storagetype_completer3),
     ((''keyspaceName'', ''ksname''), ks_name_completer3),
     ((''nonSystemKeyspaceName'', ''ksname''), nonsystem_ks_name_completer),
     ((''alterableKeyspaceName'', ''ksname''), alterable_ks_name_completer),
     ((''columnFamilyName'', ''ksname''), cf_ks_name_completer3),
     ((''columnFamilyName'', ''dot''), cf_ks_dot_completer),
     ((''columnFamilyName'', ''cfname''), cf_name_completer3),
     ((''unreservedKeyword'', ''nocomplete''), unreserved_keyword_completer),
     ((''orderByClause'', ''ordercol''), select_order_column_completer),
     ((''relation'', ''token''), relation_token_word_completer),
     ((''relation'', ''rel_tokname''), relation_token_subject_completer),
     ((''relation'', ''rel_lhs''), cql3_relation_lhs_completer),
     ((''selectClause'', ''star''), select_count_star_completer),
     ((''selector'', ''colname''), explainer ''<colname>''),
     ((''insertStatement'', ''colname''), insert_colname_completer),
     ((''insertStatement'', ''newval''), insert_newval_completer),
     ((''insertStatement'', ''valcomma''), insert_valcomma_completer),
     ((''insertStatement'', ''insertopt''), insert_option_completer3),
     ((''updateStatement'', ''updateopt''), update_option_completer3),
     ((''assignment'', ''updatecol''), update_col_completer3),
     ((''assignment'', ''update_rhs''), update_countername_completer3),
     ((''assignment'', ''counterop''), update_counterop_completer3),
     ((''assignment'', ''inc''), update_counter_inc_completer),
     ((''assignment'', ''listadder''), update_listadder_completer),
     ((''assignment'', ''listcol''), update_listcol_completer),
     ((''assignment'', ''indexbracket''), update_indexbracket_completer),
     ((''deleteStatement'', ''delopt''), delete_opt_completer3),
     ((''deleteSelector'', ''delcol''), delete_delcol_completer),
     ((''batchStatement'', ''batchopt''), batch_opt_completer3),
     ((''createKeyspaceStatement'', ''wat''), create_ks_wat_completer),
     ((''oldPropSpec'', ''optname''), create_ks_opt_completer3),
     ((''oldPropSpec'', ''optval''), create_ks_optval_completer3)]"

definition cql3_registrations_late :: "'ty registrations" where
  "cql3_registrations_late =
    [((''newPropSpec'', ''propname''), keyspace_properties_option_name_completer),
     ((''propertyValue'', ''propsimpleval''), property_value_completer),
     ((''propertyValue'', ''propmapkey''), keyspace_properties_map_key_completer),
     ((''propertyValue'', ''propmapval''), keyspace_properties_map_value_completer),
     ((''propertyValue'', ''ender''), keyspace_properties_map_ender_completer),
     ((''cfamOrdering'', ''ordercol''), create_cf_clustering_order_colname_completer),
     ((''createColumnFamilyStatement'', ''wat''), create_cf_wat_completer),
     ((''createColumnFamilyStatement'', ''cf''), explainer ''<new_table_name>''),
     ((''compositeKeyCfSpec'', ''newcolname''), explainer ''<new_column_name>''),
     ((''createColumnFamilyStatement'', ''dot''), create_cf_ks_dot_completer),
     ((''pkDef'', ''ptkey''), create_cf_pkdef_declaration_completer),
     ((''compositeKeyCfSpec'', ''pkey''), create_cf_composite_key_declaration_completer),
     ((''compositeKeyCfSpec'', ''k''), create_cf_composite_primary_key_keyword_completer),
     ((''compositeKeyCfSpec'', ''p''), create_cf_composite_primary_key_paren_completer),
     ((''compositeKeyCfSpec'', ''c''), create_cf_composite_primary_key_comma_completer),
     ((''createIndexStatement'', ''indexname''), explainer ''<new_index_name>''),
     ((''createIndexStatement'', ''col''), create_index_col_completer3),
     ((''dropIndexStatement'', ''indexname''), drop_index_completer3),
     ((''alterInstructions'', ''existcol''), alter_table_col_completer3),
     ((''alterInstructions'', ''newcol''), explainer ''<new_column_name>''),
     ((''username'', ''name''), username_name_completer)]"

definition cql3_registrations :: "cql3_options \<Rightarrow> 'ty registrations" where
  "cql3_registrations st = cql3_registrations_early st @ cql3_registrations_late"

lemma late_registration:
  "map_of (rev cql3_registrations_late) k = Some f \<Longrightarrow> map_of (rev (cql3_registrations st)) k = Some f"
  by (simp add: cql3_registrations_def)

text \<open>The module's rule set before and after the shell has chosen the syntax of properties.\<close>

definition cql3_module :: "'ty cass \<Rightarrow> cql3_options \<Rightarrow> prs" where
  "cql3_module cass st = register_all cass (cql3_registrations st) (grammar_set cql3_keywords cql3_syntax_rules)"

definition cql3_rule_set :: "(prs \<times> cql3_options \<Rightarrow> prs \<times> cql3_options) \<Rightarrow> 'ty cass \<Rightarrow> prs" where
  "cql3_rule_set pick cass =
     (let st = snd (pick (new_rule_set, initial_options))
      in fst (pick (cql3_module cass st, initial_options)))"

end
