(* ===== verification/Cql3_Properties.thy ===== *)
theory Cql3_Properties
  imports Cql3_Completers
begin

text \<open>
  What the CQL 3 completers offer: the functional behaviour of the completers that look at the table
  and at what is typed already, and the places where they do not do what they are meant to.
\<close>

section \<open>A sample table and connection\<close>

text \<open>
  Inputs for the witnesses: a table with a two-part primary key and a counter column. The types are
  numbers: 1 is text, 2 is the counter, 3 is a composite of two texts.
\<close>

definition sample_types :: "nat cqltypes" where
  "sample_types = \<lparr>
     lookup_casstype = (\<lambda>s. if s = Some ''counter'' then Inr 2 else if s = Some ''composite'' then Inr 3 else Inr 1),
     is_composite = (\<lambda>t. t = 3), is_collection = (\<lambda>t. False),
     subtypes = (\<lambda>t. if t = 3 then [1, 1] else []), utf8_type = 1, counter_type = 2,
     typename = (\<lambda>t. if t = 2 then ''counter'' else ''text''),
     cql_parameterized_type = (\<lambda>t. if t = 2 then ''counter'' else ''text'')\<rparr>"

definition sample_layout :: row where
  "sample_layout = [''columnfamily_name'' \<mapsto> Some ''t'', ''keyspace_name'' \<mapsto> Some ''k'',
     ''column_aliases'' \<mapsto> Some ([CHR ''['', dquote] @ ''c'' @ [dquote, CHR '']'']),
     ''compaction_strategy_options'' \<mapsto> Some ''{}'', ''compression_parameters'' \<mapsto> Some ''{}'',
     ''key_aliases'' \<mapsto> Some ([CHR ''['', dquote] @ ''p'' @ [dquote, CHR '']'']),
     ''key_validator'' \<mapsto> Some ''text'', ''comparator'' \<mapsto> Some ''composite'',
     ''default_validator'' \<mapsto> Some ''text'', ''value_alias'' \<mapsto> None]"

definition sample_coldefs :: "row list" where
  "sample_coldefs = [[''column_name'' \<mapsto> Some ''n'', ''validator'' \<mapsto> Some ''counter'', ''index_name'' \<mapsto> None]]"

definition sample_table :: "nat cqltable" where
  "sample_table = \<lparr>cf_name = Some ''t'', cf_keyspace = Some ''k'',
     cf_attrs = (map_option AStr \<circ> sample_layout)(
       ''column_aliases'' \<mapsto> AJson (JList [JStr ''c'']), ''compaction_strategy_options'' \<mapsto> AJson (JObj []),
       ''compression_parameters'' \<mapsto> AJson (JObj []), ''key_aliases'' \<mapsto> AJson (JList [JStr ''p''])),
     cf_partition_key_validator = 1, cf_comparator = 3, cf_default_validator = 1,
     cf_coldefs = sample_coldefs, cf_compact_storage = False, cf_key_aliases = [''p''],
     cf_partition_key_components = [''p''], cf_column_aliases = [''c''],
     cf_primary_key_components = [''p'', ''c''],
     cf_columns = [\<lparr>cd_name = ''p'', cd_cqltype = Some 1, cd_index_name = None\<rparr>,
       \<lparr>cd_name = ''c'', cd_cqltype = Some 1, cd_index_name = None\<rparr>,
       \<lparr>cd_name = ''n'', cd_cqltype = Some 2, cd_index_name = None\<rparr>]\<rparr>"

lemma sample_json:
  "json_loads ([CHR ''['', dquote] @ ''c'' @ [dquote, CHR '']'']) = Inr (JList [JStr ''c''])"
  "json_loads ([CHR ''['', dquote] @ ''p'' @ [dquote, CHR '']'']) = Inr (JList [JStr ''p''])"
  "json_loads ''{}'' = Inr (JObj [])"
  by code_simp+

lemma sample_from_layout: "table_from_layout sample_types sample_layout sample_coldefs = Inr (sample_table, [])"
proof -
  have attrs: "load_attrs json_attrs (map_option AStr \<circ> sample_layout) = Inr (cf_attrs sample_table)"
    using sample_json
    by (simp add: json_attrs_def load_attr_def sample_layout_def sample_table_def)
  show ?thesis
    by (simp add: table_from_layout_def layout_names_def attrs)
      (simp add: sample_layout_def sample_table_def sample_types_def typed_attr_def attr_string_def attr_strings_def
        attr_res_def is_compact_storage_def get_key_aliases_def get_column_aliases_def get_columns_def
        get_columns_cql3_def partkey_types_def last_res_def sorted_columns_def sample_coldefs_def
        filter_regular_coldefs_def column_from_layout_def CqlColumnDef_def key_res_def Let_def)
qed

definition sample_cass :: "nat cass" where
  "sample_cass = \<lparr>get_keyspace_names = Inr [''k''], get_columnfamily_names = (\<lambda>ks. Inr [''t'']),
     get_columnfamily_layout = (\<lambda>ks cf. if cf = ''t'' then Inr sample_table else Inl KeyError),
     get_columnfamily = (\<lambda>cf ks. Inl KeyError), get_index_names = Inr [],
     filterable_column_names = (\<lambda>d. Inr []), list_users = Inr [''cassandra''],
     cass_types = sample_types, cql_types = [''text'', ''counter''], is_counter_type = (\<lambda>s. s = ''counter'')\<rparr>"

definition sample_ctxt :: "string \<Rightarrow> binds \<Rightarrow> ctxt" where
  "sample_ctxt nm b = \<lparr>bindings = b ++ [''cassandra_conn'' \<mapsto> BConn, ''cfname'' \<mapsto> BStr ''t''],
     matched = [], remainder = [], productionname = nm\<rparr>"

lemma sample_cf_layout [simp]: "b ''ksname'' = None \<Longrightarrow> b ''cfname'' = None \<Longrightarrow>
    get_cf_layout (sample_ctxt nm b) sample_cass = Inr sample_table"
proof -
  have "cql3_dequote_name ''t'' = ''t''" by code_simp
  then show "b ''ksname'' = None \<Longrightarrow> b ''cfname'' = None \<Longrightarrow> ?thesis"
    by (simp add: get_cf_layout_def sample_ctxt_def binding_def get_binding_def dequote_binding_def as_str_def
        sample_cass_def map_add_def)
qed

section \<open>Inserting\<close>

text \<open>
  the columns an INSERT offers are new, and those that are not key columns are offered exactly when
  the key is complete.
\<close>

theorem insert_colname_offers:
  assumes layout: "get_cf_layout ctxt cass = Inr cf"
    and seen: "dequote_items cql3_dequote_name (binding_or_empty ctxt ''colname'') = Inr colnames"
  shows "\<exists>offered. insert_colname_completer ctxt cass = strs (map cql3_name offered) \<and>
    set offered \<inter> set colnames = {} \<and>
    (if set (cf_primary_key_components cf) \<subseteq> set colnames
     then set offered = set (map cd_name (cf_columns cf)) - set colnames
     else (\<exists>k \<in> set (cf_primary_key_components cf). offered = [k]))"
proof (cases "find (\<lambda>k. k \<notin> set colnames) (cf_primary_key_components cf)")
  case None
  then have "set (cf_primary_key_components cf) \<subseteq> set colnames" by (auto simp: find_None_iff)
  with None layout seen show ?thesis
    by (intro exI [of _ "filter (\<lambda>c. c \<notin> set (cf_primary_key_components cf) \<and> c \<notin> set colnames)
        (remdups (map cd_name (cf_columns cf)))"])
      (auto simp: insert_colname_completer_def)
next
  case (Some k)
  then have "k \<in> set (cf_primary_key_components cf)" "k \<notin> set colnames" by (auto simp: find_Some_iff)
  with Some layout seen show ?thesis
    by (intro exI [of _ "[k]"]) (auto simp: insert_colname_completer_def)
qed

section \<open>Conditions of a WHERE clause\<close>

text \<open>the key components offered next are those whose predecessors are all restricted.\<close>

theorem unlocked_eq: "unlocked seen xs = take (length (takeWhile (\<lambda>x. x \<in> set seen) (butlast xs))) (tl xs)"
proof (induction seen xs rule: unlocked.induct)
  case (1 seen a b rest)
  then show ?case by (cases rest) auto
qed auto

text \<open>
  before the first condition is complete the completer raises, because the binding it iterates over
  does not exist yet, so that no column is ever offered for the first condition.
\<close>

theorem relation_lhs_raises_at_first:
  assumes "binding ctxt ''rel_lhs'' = BNone"
  shows "\<exists>e. cql3_relation_lhs_completer ctxt cass = Inl e"
proof -
  have "dequote_items cql3_dequote_name (binding ctxt ''rel_lhs'') = Inl TypeError"
    using assms by (simp add: dequote_items_def as_items_def)
  then show ?thesis
    by (auto simp: cql3_relation_lhs_completer_def ebind_def split: sum.splits)
qed

section \<open>Key columns of a new table\<close>

text \<open>the next column for a key is declared and not in the key yet, and all before it are.\<close>

theorem next_declared_spec:
  "next_declared pieces cols = Inr (Some c) \<Longrightarrow>
     \<exists>us vs. cols = us @ c # vs \<and> c \<notin> set pieces \<and> set us \<subseteq> set pieces"
proof (induction pieces cols rule: next_declared.induct)
  case (2 pieces d cs)
  show ?case
  proof (cases "d \<in> set pieces")
    case True
    with "2.prems" have "\<not> length cs < 2" "next_declared pieces cs = Inr (Some c)"
      by (auto split: if_splits)
    from "2.IH" [OF True this] obtain us vs where
      "cs = us @ c # vs" "c \<notin> set pieces" "set us \<subseteq> set pieces" by blast
    with True show ?thesis by (intro exI [of _ "d # us"] exI [of _ vs]) simp
  next
    case False
    with "2.prems" show ?thesis by (intro exI [of _ "[]"] exI [of _ cs]) auto
  qed
qed simp

section \<open>Deleting\<close>

text \<open>DELETE offers the columns of the primary key, which cannot be deleted.\<close>

theorem delcol_offers_key:
  assumes "table_from_layout T layout coldefs = Inr (cf, warns)" and "get_cf_layout ctxt cass = Inr cf"
    and "k \<in> set (cf_primary_key_components cf)"
  shows "\<exists>items. delete_delcol_completer ctxt cass = Inr (PList items) \<and> CStr (cql3_name k) \<in> set items"
proof -
  from table_columns_aux [OF assms(1)] obtain ns where
    ns: "map cd_name (cf_columns cf) = cf_primary_key_components cf @ ns" by blast
  have "k \<in> set (map cd_name (cf_columns cf))" unfolding ns using assms(3) by simp
  with assms(2) show ?thesis by (auto simp: delete_delcol_completer_def strs_def)
qed

section \<open>Counters\<close>

text \<open>completing the increment of a counter raises a TypeError that nothing catches.\<close>

theorem counter_increment_raises:
  assumes "completers e (productionname ctxt, ''inc'') = Some (completerwrapper cass update_counter_inc_completer)"
    and "remainder ctxt = []" and "binding ctxt ''cassandra_conn'' \<noteq> BNone"
    and "get_cf_layout ctxt cass = Inr layout" and "current_column cql3_dequote_name ctxt = Inr col"
    and "is_counter_col3 (cass_types cass) layout col"
  shows "try_registered_completion e ctxt ''inc'' (Some cs) = Inl TypeError"
  using assms
  by (simp add: try_registered_completion_def completerwrapper_def binding_def update_counter_inc_completer_def)

text \<open>for a counter, the name of the column is offered letter by letter.\<close>

theorem counter_name_in_letters:
  assumes "completers e (productionname ctxt, ''update_rhs'') =
      Some (completerwrapper cass update_countername_completer3)"
    and "remainder ctxt = []" and "binding ctxt ''cassandra_conn'' \<noteq> BNone"
    and "get_cf_layout ctxt cass = Inr layout" and "current_column cql3_dequote_name ctxt = Inr col"
    and "column_type layout col = Inr ty" and "typename (cass_types cass) ty = ''counter''"
  shows "\<exists>cs'. try_registered_completion e ctxt ''update_rhs'' (Some cs) = Inr (True, Some cs') \<and>
    set cs' = set cs \<union> (\<lambda>ch. CStr [ch]) ` set (cql3_name col)"
  using assms
  by (simp add: try_registered_completion_def completerwrapper_def binding_def update_countername_completer3_def
      Let_def)

section \<open>Properties\<close>

text \<open>
  the registrations at the end of the module replace those that told keyspaces from tables, so the
  properties of a table are completed like those of a keyspace.
\<close>

theorem property_completers_replaced:
  "prs_completers (cql3_module cass st) (''newPropSpec'', ''propname'') =
     Some (completerwrapper cass keyspace_properties_option_name_completer) \<and>
   prs_completers (cql3_module cass st) (''propertyValue'', ''propsimpleval'') =
     Some (completerwrapper cass property_value_completer) \<and>
   prs_completers (cql3_module cass st) (''propertyValue'', ''propmapkey'') =
     Some (completerwrapper cass keyspace_properties_map_key_completer)"
proof -
  have late: "map_of (rev cql3_registrations_late) (''newPropSpec'', ''propname'') =
      Some keyspace_properties_option_name_completer"
    "map_of (rev cql3_registrations_late) (''propertyValue'', ''propsimpleval'') = Some property_value_completer"
    "map_of (rev cql3_registrations_late) (''propertyValue'', ''propmapkey'') =
      Some keyspace_properties_map_key_completer"
    by (simp_all add: cql3_registrations_late_def)
  show ?thesis
    by (simp add: cql3_module_def register_all_completers late_registration [OF late(1)]
        late_registration [OF late(2)] late_registration [OF late(3)])
qed

text \<open>the options made obsolete by the new syntax are not recognised as obsolete.\<close>

theorem new_obsolete_not_recognised:
  assumes "opt \<in> set new_obsolete_cf_options"
  shows "\<not> is_obsolete (snd (use_post_3_0_0_syntax (p, initial_options))) opt"
  using assms
  by (auto simp: is_obsolete_def use_post_3_0_0_syntax_def initial_options_def new_obsolete_cf_options_def
      obsolete_cf_options_def)

lemma efilter_error:
  assumes "\<And>x. x \<in> set xs \<Longrightarrow> f x = Inl e \<or> (\<exists>b. f x = Inr b)" and "x \<in> set xs" and "f x = Inl e"
  shows "efilter f xs = Inl e"
  using assms
proof (induction xs)
  case (Cons y ys)
  show ?case
  proof (cases "f y")
    case (Inl e')
    with Cons.prems(1) [of y] show ?thesis by simp
  next
    case (Inr b)
    with Cons.prems have "x \<in> set ys" by auto
    with Cons Inr show ?thesis by auto
  qed
qed simp

text \<open>with the old syntax, completing the name of a table property fails.\<close>

theorem option_pairs_break_completion:
  assumes "CPair a b \<in> set completions"
  shows "pick_candidates ignore_case sc txt completions = Inl AttributeError"
proof -
  let ?items = "remove1 (CStr [newline]) (filter (\<lambda>x. \<not> is_hint x) completions)"
  have "CPair a b \<in> set ?items" using assms by (simp add: in_set_remove1)
  moreover have "wanted ignore_case dq partial x = Inl AttributeError \<or> (\<exists>v. wanted ignore_case dq partial x = Inr v)"
    for dq partial x by (cases x) auto
  ultimately have "efilter (wanted ignore_case (sc_dequoter sc) (sc_partial sc)) ?items = Inl AttributeError"
    by (intro efilter_error [where x = "CPair a b"]) auto
  then show ?thesis by (simp add: pick_candidates_def list_bifilter_eq)
qed

end
