(* ===== verification/Safety.thy ===== *)
theory Safety
  imports RuleSet
begin

text \<open>
  When parsing cannot raise: every reference of the grammar names a rule, no stray token is left in a
  rule, and no name is bound both by a \<open>named_symbol\<close> and by a \<open>named_collector\<close>, so that a collector
  always finds a tuple to extend.
\<close>

section \<open>Clean matchers\<close>

fun clean :: "(string \<Rightarrow> bool) \<Rightarrow> string list \<Rightarrow> matcher \<Rightarrow> bool" where
  "clean R C (Choice ms) = list_all (clean R C) ms"
| "clean R C (OneOrNone m) = clean R C m"
| "clean R C (Repeat m) = clean R C m"
| "clean R C (RuleReference x) = R x"
| "clean R C (RuleSeries ms) = list_all (clean R C) ms"
| "clean R C (NamedSymbol x m) = (x \<notin> set C \<and> clean R C m)"
| "clean R C (NamedCollector x m) = (x \<in> set C \<and> clean R C m)"
| "clean R C (TerminalType ty m) = clean R C m"
| "clean R C (RawToken t) = False"
| "clean R C m = True"

definition defined_in :: "rules \<Rightarrow> string \<Rightarrow> bool" where
  "defined_in rs x \<longleftrightarrow> x \<in> set (map fst rs)"

definition clean_rules :: "string list \<Rightarrow> rules \<Rightarrow> bool" where
  "clean_rules C rs \<longleftrightarrow> list_all (\<lambda>(x, m). clean (defined_in rs) C m) rs"

fun is_tuple :: "bindval option \<Rightarrow> bool" where
  "is_tuple None = True"
| "is_tuple (Some (BTup xs)) = True"
| "is_tuple (Some v) = False"

definition tuples_ok :: "string list \<Rightarrow> binds \<Rightarrow> bool" where
  "tuples_ok C b \<longleftrightarrow> (\<forall>x \<in> set C. is_tuple (b x))"

section \<open>Matching a clean matcher\<close>

definition fine :: "('x \<Rightarrow> bool) \<Rightarrow> ('y \<Rightarrow> bool) \<Rightarrow> ('x \<Rightarrow> compls \<Rightarrow> ('y list \<times> compls) out) \<Rightarrow> bool" where
  "fine P Q f \<longleftrightarrow> (\<forall>x r. P x \<longrightarrow> f x None = r \<longrightarrow>
     (case r of Diverge \<Rightarrow> True | Raise e \<Rightarrow> False | Ret (ys, s) \<Rightarrow> s = None \<and> list_all Q ys))"

lemma fineI: "(\<And>x e. P x \<Longrightarrow> f x None \<noteq> Raise e) \<Longrightarrow>
    (\<And>x ys s. P x \<Longrightarrow> f x None = Ret (ys, s) \<Longrightarrow> s = None \<and> list_all Q ys) \<Longrightarrow> fine P Q f"
  by (auto simp: fine_def split: out.splits)

lemma fineD:
  assumes "fine P Q f" and "P x"
  shows "f x None \<noteq> Raise e" and "f x None = Ret (ys, s) \<Longrightarrow> s = None \<and> list_all Q ys"
  using assms by (fastforce simp: fine_def split: out.splits)+

lemma fine_each:
  assumes "fine P Q f" and "list_all P xs"
  shows "each f xs None \<noteq> Raise e" and "each f xs None = Ret (ys, s) \<Longrightarrow> s = None \<and> list_all Q ys"
proof -
  have "each f xs None \<noteq> Raise e \<and> (each f xs None = Ret (ys, s) \<longrightarrow> s = None \<and> list_all Q ys)"
    using assms(2)
  proof (induction xs arbitrary: e ys s)
    case (Cons x xs)
    then have x: "P x" by simp
    show ?case
      using Cons.IH Cons.prems fineD(2) [OF assms(1) x] fineD(1) [OF assms(1) x]
      by (fastforce simp: result_simps)
  qed simp
  then show "each f xs None \<noteq> Raise e" and "each f xs None = Ret (ys, s) \<Longrightarrow> s = None \<and> list_all Q ys"
    by blast+
qed

lemma fine_repeat:
  assumes "fine P P f"
  shows "list_all P found \<Longrightarrow> list_all P xs \<Longrightarrow> repeat_loop k f found xs None \<noteq> Raise e \<and>
    (repeat_loop k f found xs None = Ret (ys, s) \<longrightarrow> s = None \<and> list_all P ys)"
proof (induction k arbitrary: found xs)
  case (Suc k)
  note each = fine_each [OF assms Suc.prems(2)]
  show ?case
  proof (cases "each f xs None")
    case (Ret r)
    then obtain zs where zs: "each f xs None = Ret (zs, None)" "list_all P zs"
      using each(2) by (cases r) auto
    with Suc.IH [of "found @ zs" zs] Suc.prems show ?thesis by auto
  qed (use each(1) in auto)
qed simp

lemma fine_series:
  assumes "\<And>m. m \<in> set ms \<Longrightarrow> fine P P (f m)"
  shows "list_all P xs \<Longrightarrow> series_loop f ms xs None \<noteq> Raise e \<and>
    (series_loop f ms xs None = Ret (ys, s) \<longrightarrow> s = None \<and> list_all P ys)"
  using assms
proof (induction ms arbitrary: xs)
  case (Cons m ms)
  have "fine P P (f m)" by (rule Cons.prems(2)) simp
  note each = fine_each [OF this Cons.prems(1)]
  show ?case
  proof (cases "each (f m) xs None")
    case (Ret r)
    then obtain zs where zs: "each (f m) xs None = Ret (zs, None)" "list_all P zs"
      using each(2) by (cases r) auto
    with Cons.IH [of zs] Cons.prems(2) show ?thesis by simp
  qed (use each(1) in auto)
qed auto

abbreviation ctxt_ok :: "string list \<Rightarrow> ctxt \<Rightarrow> bool" where
  "ctxt_ok C c \<equiv> tuples_ok C (bindings c)"

lemma ctxt_ok_simps [simp]:
  "ctxt_ok C (with_match c n) = ctxt_ok C c"
  "ctxt_ok C (with_production_named c p) = ctxt_ok C c"
  "x \<notin> set C \<Longrightarrow> ctxt_ok C d \<Longrightarrow> ctxt_ok C (bind_symbol c x d)"
  by (auto simp: ctxt_defs tuples_ok_def bind_symbol_def)

lemma bind_collected_ok:
  assumes "ctxt_ok C d" and "x \<in> set C"
  shows "bind_collected c x d \<noteq> Inl e" and "bind_collected c x d = Inr d' \<Longrightarrow> ctxt_ok C d'"
proof -
  have "is_tuple (bindings d x)" using assms by (simp add: tuples_ok_def)
  then obtain old where old: "get_binding d x (BTup []) = BTup old"
    by (cases "bindings d x" rule: is_tuple.cases) (auto simp: get_binding_def)
  then show "bind_collected c x d \<noteq> Inl e" by (simp add: bind_collected_def)
  show "ctxt_ok C d'" if "bind_collected c x d = Inr d'"
    using that old assms(1) by (auto simp: bind_collected_def with_binding_def tuples_ok_def)
qed

lemma emap_collected_ok:
  assumes "list_all (ctxt_ok C) xs" and "x \<in> set C"
  shows "emap (bind_collected c x) xs \<noteq> Inl e \<and>
    (emap (bind_collected c x) xs = Inr ys \<longrightarrow> list_all (ctxt_ok C) ys)"
  using assms(1)
proof (induction xs arbitrary: ys)
  case (Cons d xs)
  then have d: "ctxt_ok C d" by simp
  show ?case
    using Cons bind_collected_ok(2) [OF d assms(2)] bind_collected_ok(1) [OF d assms(2)]
    by (auto simp: result_simps)
qed simp

lemma mtch_fine:
  assumes rules: "\<And>x m. ruleset e x = Some m \<Longrightarrow> clean R C m" and closed: "\<And>x. R x \<Longrightarrow> ruleset e x \<noteq> None"
  shows "clean R C m \<Longrightarrow> fine (ctxt_ok C) (ctxt_ok C) (mtch n e m)"
proof (induction n arbitrary: m)
  case 0
  then show ?case by (simp add: fine_def)
next
  case (Suc n)
  show ?case
  proof (cases m rule: matcher_cases)
    case literal
    then show ?thesis by (auto simp: fine_def mtch_literal add_compl_def)
  next
    case (choice ms)
    have "fine (\<lambda>a. a \<in> set ms) (ctxt_ok C) (\<lambda>a s. mtch n e a c s)" if "ctxt_ok C c" for c
    proof (rule fineI)
      fix a e'
      assume "a \<in> set ms"
      with Suc.prems choice have "clean R C a" by (simp add: list_all_iff)
      note f = Suc.IH [OF this]
      show "mtch n e a c None \<noteq> Raise e'" by (rule fineD(1) [OF f that])
    next
      fix a ys s
      assume "a \<in> set ms" and eq: "mtch n e a c None = Ret (ys, s)"
      with Suc.prems choice have "clean R C a" by (simp add: list_all_iff)
      note f = Suc.IH [OF this]
      show "s = None \<and> list_all (ctxt_ok C) ys" by (rule fineD(2) [OF f that eq])
    qed
    note f = this
    have all: "list_all (\<lambda>a. a \<in> set ms) ms" by (simp add: list_all_iff)
    have "fine (ctxt_ok C) (ctxt_ok C) (\<lambda>c s. each (\<lambda>a s. mtch n e a c s) ms s)"
    proof (rule fineI)
      show "each (\<lambda>a s. mtch n e a c s) ms None \<noteq> Raise e'" if "ctxt_ok C c" for c e'
        by (rule fine_each(1) [OF f [OF that] all])
      show "s = None \<and> list_all (ctxt_ok C) ys" if "ctxt_ok C c"
        "each (\<lambda>a s. mtch n e a c s) ms None = Ret (ys, s)" for c ys s
        by (rule fine_each(2) [OF f [OF that(1)] all that(2)])
    qed
    then show ?thesis unfolding choice by (simp add: fine_def mtch_simps)
  next
    case (opt a)
    with Suc.prems have f: "fine (ctxt_ok C) (ctxt_ok C) (mtch n e a)" by (intro Suc.IH) simp
    show ?thesis unfolding opt
      by (rule fineI) (use fineD [OF f] in \<open>auto simp: mtch_simps result_simps\<close>)
  next
    case (repeat a)
    with Suc.prems have f: "fine (ctxt_ok C) (ctxt_ok C) (mtch n e a)" by (intro Suc.IH) simp
    have "s = None \<and> list_all (ctxt_ok C) ys"
      if "ctxt_ok C c" "repeat_loop n (mtch n e a) [c] [c] None = Ret (ys, s)" for c ys s
      using fine_repeat [OF f, of "[c]" "[c]"] that by simp
    moreover have "repeat_loop n (mtch n e a) [c] [c] None \<noteq> Raise e'" if "ctxt_ok C c" for c e'
      using fine_repeat [OF f, of "[c]" "[c]"] that by simp
    ultimately show ?thesis unfolding repeat by (intro fineI) (simp_all add: mtch_simps)
  next
    case (ref x)
    with Suc.prems closed obtain rule where rule: "ruleset e x = Some rule" by fastforce
    have f: "fine (ctxt_ok C) (ctxt_ok C) (mtch n e rule)" by (rule Suc.IH [OF rules [OF rule]])
    show ?thesis unfolding ref
      by (rule fineI) (use fineD [OF f, of "with_production_named _ x"] in
        \<open>fastforce simp: mtch_simps rule result_simps list_all_iff\<close>)+
  next
    case (series ms)
    have f: "fine (ctxt_ok C) (ctxt_ok C) (mtch n e a)" if "a \<in> set ms" for a
      using Suc.prems series that by (intro Suc.IH) (simp add: list_all_iff)
    have "s = None \<and> list_all (ctxt_ok C) ys"
      if "ctxt_ok C c" "series_loop (mtch n e) ms [c] None = Ret (ys, s)" for c ys s
      using fine_series [of ms "ctxt_ok C" "mtch n e" "[c]", OF f] that by simp
    moreover have "series_loop (mtch n e) ms [c] None \<noteq> Raise e'" if "ctxt_ok C c" for c e'
      using fine_series [of ms "ctxt_ok C" "mtch n e" "[c]", OF f] that by simp
    ultimately show ?thesis unfolding series by (intro fineI) (simp_all add: mtch_simps)
  next
    case (symbol x a)
    with Suc.prems have f: "fine (ctxt_ok C) (ctxt_ok C) (mtch n e a)" and x: "x \<notin> set C"
      by (auto intro: Suc.IH)
    show ?thesis unfolding symbol
      by (rule fineI) (use fineD [OF f] x in \<open>fastforce simp: mtch_simps result_simps list_all_iff\<close>)+
  next
    case (collector x a)
    with Suc.prems have f: "fine (ctxt_ok C) (ctxt_ok C) (mtch n e a)" and x: "x \<in> set C"
      by (auto intro: Suc.IH)
    show ?thesis unfolding collector
    proof (rule fineI)
      fix c e'
      assume c: "ctxt_ok C c"
      show "mtch (Suc n) e (NamedCollector x a) c None \<noteq> Raise e'"
        using fineD [OF f c] emap_collected_ok [OF _ x] by (auto simp: mtch_simps result_simps)
    next
      fix c ys s
      assume c: "ctxt_ok C c" and "mtch (Suc n) e (NamedCollector x a) c None = Ret (ys, s)"
      then show "s = None \<and> list_all (ctxt_ok C) ys"
        using fineD(2) [OF f c] emap_collected_ok [OF _ x] by (fastforce simp: mtch_simps result_simps)
    qed
  next
    case (token ty a)
    then show ?thesis by (auto simp: fine_def mtch_simps)
  next
    case (raw t)
    with Suc.prems show ?thesis by simp
  qed
qed

section \<open>Parsing with a clean grammar\<close>

lemma clean_rulesD:
  "clean_rules C rs \<Longrightarrow> map_of rs x = Some m \<Longrightarrow> clean (defined_in rs) C m"
  by (auto simp: clean_rules_def list_all_iff dest: map_of_SomeD)

lemma map_of_defined: "defined_in rs x \<Longrightarrow> map_of rs x \<noteq> None"
  by (simp add: defined_in_def map_of_eq_None_iff)

lemma parse_never_raises:
  assumes "clean_rules C (prs_rules p)" and "tuples_ok C init" and "defined_in (prs_rules p) start"
  shows "parse n p start toks init \<noteq> Raise e"
proof -
  from assms(3) obtain pattern where pattern: "map_of (prs_rules p) start = Some pattern"
    using map_of_defined by fastforce
  have "fine (ctxt_ok C) (ctxt_ok C) (mtch n (env_of p) pattern)"
  proof (rule mtch_fine [where R = "defined_in (prs_rules p)"])
    fix x m
    show "clean (defined_in (prs_rules p)) C m" if "ruleset (env_of p) x = Some m"
      using that by (intro clean_rulesD [OF assms(1)]) (simp add: env_of_def)
    show "ruleset (env_of p) x \<noteq> None" if "defined_in (prs_rules p) x"
      using map_of_defined [OF that] by (simp add: env_of_def)
    show "clean (defined_in (prs_rules p)) C pattern"
      by (rule clean_rulesD [OF assms(1) pattern])
  qed
  from fineD(1) [OF this, of "start_ctxt start toks init"] assms(2) pattern show ?thesis
    by (auto simp: parse_def start_ctxt_def result_simps)
qed

lemma parse_total:
  assumes "wf_rules N rank lim (prs_rules p)" and "clean_rules C (prs_rules p)" and "tuples_ok C init"
    and "defined_in (prs_rules p) start"
  shows "\<exists>n cs. parse n p start toks init = Ret cs"
proof -
  from parse_returns_aux [OF assms(1)] obtain n where "parse n p start toks init \<noteq> Diverge" by blast
  with parse_never_raises [OF assms(2-4)] show ?thesis
    by (cases "parse n p start toks init") blast+
qed

end
