(* ===== verification/Cql_Grammar_Facts.thy ===== *)
theory Cql_Grammar_Facts
  imports Safety Cql3_Grammar "HOL-Library.Char_ord" "HOL-Library.List_Lexorder"
begin

text \<open>
  The two CQL grammars are well founded: no rule reaches itself before it takes a token, and nothing
  that can match no tokens is repeated. The certificates are tables of ranks, checked by the
  simplifier. With \<open>parse_returns_aux\<close>, parsing returns for every list of tokens. The CQL 3 grammar is
  also clean, so that parsing raises no exception.
\<close>

section \<open>Looking names up in a table\<close>

text \<open>
  A table is sorted, so its keys are distinct, and every row is what a look-up finds. The keywords
  have rank 0 and no row.
\<close>

fun increasing :: "string list \<Rightarrow> bool" where
  "increasing (x # y # xs) = (x < y \<and> increasing (y # xs))"
| "increasing xs = True"

lemma increasing_distinct: "increasing xs \<Longrightarrow> distinct xs"
proof -
  have "increasing (x # xs) \<Longrightarrow> (\<forall>y \<in> set xs. x < y)" for x and xs :: "string list"
    by (induction xs arbitrary: x) (auto dest: less_trans)
  then have "increasing (x # xs) \<Longrightarrow> x \<notin> set xs" for x and xs :: "string list" by blast
  moreover have "increasing (x # xs) \<Longrightarrow> increasing xs" for x and xs :: "string list"
    by (cases xs) auto
  ultimately show "increasing xs \<Longrightarrow> distinct xs" by (induction xs) auto
qed

definition rank_in :: "(string \<times> nat) list \<Rightarrow> string \<Rightarrow> nat option" where
  "rank_in table x = (if take 2 x = ''K_'' then Some 0 else map_of table x)"

definition ranked :: "(string \<times> nat) list \<Rightarrow> (string \<times> nat) list \<Rightarrow> bool" where
  "ranked table rows \<longleftrightarrow> list_all (\<lambda>(x, r). rank_in table x = Some r) rows"

lemma ranked_table:
  "increasing (map fst table) \<Longrightarrow> list_all (\<lambda>x. take 2 x \<noteq> ''K_'') (map fst table) \<Longrightarrow> ranked table table"
  by (auto simp: ranked_def rank_in_def list_all_iff intro!: map_of_is_SomeI dest!: increasing_distinct)

lemma ranked_rows:
  assumes "increasing (map fst table)" and "list_all (\<lambda>x. take 2 x \<noteq> ''K_'') (map fst table)" and "table = rows"
  shows "list_all (\<lambda>(x, r). rank_in table x = Some r) rows"
  using ranked_table [OF assms(1,2)] assms(3) by (simp add: ranked_def)

lemma rank_keyword: "rank_in table (CHR ''K'' # CHR ''_'' # x) = Some 0"
  by (simp add: rank_in_def)

lemma rank_keyword_rule: "rank_in table (fst (keyword_rule k)) = Some 0"
  by (simp add: keyword_rule_def rank_in_def)

definition rows_ok :: "(string \<times> nat) list \<Rightarrow> rules \<Rightarrow> bool" where
  "rows_ok table rs \<longleftrightarrow> wf_rules [''Start''] (rank_in table) 10 rs"

lemma rows_ok_simps:
  "rows_ok table []"
  "rows_ok table ((x, m) # rs) \<longleftrightarrow>
     (case rank_in table x of None \<Rightarrow> False | Some r \<Rightarrow> r < 10 \<and> wfm [''Start''] (rank_in table) 10 r m) \<and>
     (nullable [''Start''] m \<longrightarrow> x = ''Start'') \<and> rows_ok table rs"
  "rows_ok table (rs @ rs') \<longleftrightarrow> rows_ok table rs \<and> rows_ok table rs'"
  "rows_ok table (rev rs) \<longleftrightarrow> rows_ok table rs"
  by (auto simp: rows_ok_def wf_rules_def list_all_iff)

lemma rows_ok_keywords: "rows_ok table (map keyword_rule ks)"
  by (induction ks) (auto simp: rows_ok_simps keyword_rule_def rank_keyword)

lemmas check_simps = rows_ok_simps wfc.simps wfs.simps wfm.simps nullable.simps
  option.case if_True if_False list.pred_inject list_ex_Nil_iff list_ex_Cons_iff rank_keyword

section \<open>Certificates\<close>

text \<open>The only rule that can match nothing is \<open>Start\<close>.\<close>

definition cql2_ranks :: "(string \<times> nat) list" where
  "cql2_ranks =
    [(''CQL_Statement'', 3), (''JUNK'', 0), (''Start'', 4), (''alterInstructions'', 0),
     (''alterTableStatement'', 0), (''assignment'', 3), (''batchStatement'', 0),
     (''batchStatementMember'', 1), (''cfOptionName'', 1), (''cfOptionVal'', 1), (''cmp'', 0),
     (''colname'', 2), (''colon'', 0), (''columnFamilyName'', 2), (''consistencylevel'', 1),
     (''createColumnFamilyStatement'', 0), (''createIndexStatement'', 0),
     (''createKeyspaceStatement'', 0), (''dataChangeStatement'', 1), (''deleteOption'', 0),
     (''deleteStatement'', 0), (''dropColumnFamilyStatement'', 0), (''dropIndexStatement'', 0),
     (''dropKeyspaceStatement'', 0), (''endline'', 0), (''endtoken'', 0), (''float'', 0),
     (''identifier'', 0), (''insertStatement'', 0), (''integer'', 0), (''keyspaceName'', 2),
     (''name'', 1), (''op'', 0), (''optionName'', 1), (''optionVal'', 1), (''range'', 0),
     (''relation'', 3), (''schemaChangeStatement'', 1), (''selectStatement'', 0),
     (''selectWhereClause'', 4), (''star'', 0), (''statementBody'', 2), (''storageType'', 1),
     (''stringLiteral'', 0), (''symbol'', 1), (''term'', 1), (''truncateStatement'', 0),
     (''unclosedComment'', 0), (''unclosedString'', 0), (''updateStatement'', 0),
     (''updateWhereClause'', 3), (''useStatement'', 0), (''usingOption'', 0), (''uuid'', 0),
     (''whatToSelect'', 3)]"

lemma cql2_ranks_sorted: "increasing (map fst cql2_ranks)"
  unfolding cql2_ranks_def by (simp add: less_char_def)

lemma cql2_ranks_names: "list_all (\<lambda>x. take 2 x \<noteq> ''K_'') (map fst cql2_ranks)"
  by (simp add: cql2_ranks_def)

lemmas cql2_rank = ranked_rows [OF cql2_ranks_sorted cql2_ranks_names cql2_ranks_def,
  unfolded list.pred_inject prod.case]

lemma cql2_terminal_rules_ok: "rows_ok cql2_ranks cql2_terminal_rules"
  by (simp add: cql2_terminal_rules_def check_simps cql2_rank)

lemma cql2_term_rules_ok: "rows_ok cql2_ranks cql2_term_rules"
  by (simp add: cql2_term_rules_def check_simps cql2_rank)

lemma cql2_body_rules_ok: "rows_ok cql2_ranks cql2_body_rules"
  by (simp add: cql2_body_rules_def check_simps cql2_rank)

lemma cql2_select_rules_ok: "rows_ok cql2_ranks cql2_select_rules"
  by (simp add: cql2_select_rules_def check_simps cql2_rank)

lemma cql2_insert_rules_ok: "rows_ok cql2_ranks cql2_insert_rules"
  by (simp add: cql2_insert_rules_def check_simps cql2_rank)

lemma cql2_update_rules_ok: "rows_ok cql2_ranks cql2_update_rules"
  by (simp add: cql2_update_rules_def check_simps cql2_rank)

lemma cql2_delete_rules_ok: "rows_ok cql2_ranks cql2_delete_rules"
  by (simp add: cql2_delete_rules_def check_simps cql2_rank)

lemma cql2_batch_rules_ok: "rows_ok cql2_ranks cql2_batch_rules"
  by (simp add: cql2_batch_rules_def check_simps cql2_rank)

lemma cql2_truncate_rules_ok: "rows_ok cql2_ranks cql2_truncate_rules"
  by (simp add: cql2_truncate_rules_def check_simps cql2_rank)

lemma cql2_create_keyspace_rules_ok: "rows_ok cql2_ranks cql2_create_keyspace_rules"
  by (simp add: cql2_create_keyspace_rules_def check_simps cql2_rank)

lemma cql2_create_table_rules_ok: "rows_ok cql2_ranks cql2_create_table_rules"
  by (simp add: cql2_create_table_rules_def check_simps cql2_rank)

lemma cql2_create_index_rules_ok: "rows_ok cql2_ranks cql2_create_index_rules"
  by (simp add: cql2_create_index_rules_def check_simps cql2_rank)

lemma cql2_drop_rules_a_ok: "rows_ok cql2_ranks cql2_drop_rules_a"
  by (simp add: cql2_drop_rules_a_def check_simps cql2_rank)

lemma cql2_drop_rules_b_ok: "rows_ok cql2_ranks cql2_drop_rules_b"
  by (simp add: cql2_drop_rules_b_def check_simps cql2_rank)

lemma cql2_drop_rules_c_ok: "rows_ok cql2_ranks cql2_drop_rules_c"
  by (simp add: cql2_drop_rules_c_def check_simps cql2_rank)

lemma cql2_alter_rules_ok: "rows_ok cql2_ranks cql2_alter_rules"
  by (simp add: cql2_alter_rules_def check_simps cql2_rank)

lemmas cql2_ok = cql2_terminal_rules_ok
  cql2_term_rules_ok
  cql2_body_rules_ok
  cql2_select_rules_ok
  cql2_insert_rules_ok
  cql2_update_rules_ok
  cql2_delete_rules_ok
  cql2_batch_rules_ok
  cql2_truncate_rules_ok
  cql2_create_keyspace_rules_ok
  cql2_create_table_rules_ok
  cql2_create_index_rules_ok
  cql2_drop_rules_a_ok
  cql2_drop_rules_b_ok
  cql2_drop_rules_c_ok
  cql2_alter_rules_ok

definition cql3_ranks :: "(string \<times> nat) list" where
  "cql3_ranks =
    [(''CQL_Statement'', 3), (''JUNK'', 0), (''Start'', 4), (''alterInstructions'', 0),
     (''alterKeyspaceStatement'', 0), (''alterTableStatement'', 0), (''alterUserStatement'', 0),
     (''alterableKeyspaceName'', 3), (''assignment'', 3), (''authenticationStatement'', 1),
     (''authorizationStatement'', 1), (''batchStatement'', 0), (''batchStatementMember'', 1),
     (''boolean'', 0), (''brackets'', 0), (''cfOrKsName'', 2), (''cfamOrdering'', 3),
     (''cfamProperty'', 6), (''cident'', 2), (''cmp'', 0), (''collectionLiteral'', 1),
     (''collectionType'', 0), (''colname'', 3), (''colon'', 0), (''columnFamilyName'', 3),
     (''compositeKeyCfSpec'', 3), (''createColumnFamilyStatement'', 0), (''createIndexStatement'', 0),
     (''createKeyspaceStatement'', 0), (''createUserStatement'', 0), (''dataChangeStatement'', 1),
     (''dataResource'', 4), (''deleteOption'', 0), (''deleteSelector'', 3), (''deleteStatement'', 0),
     (''dropColumnFamilyStatement'', 0), (''dropIndexStatement'', 0), (''dropKeyspaceStatement'', 0),
     (''dropUserStatement'', 0), (''endline'', 0), (''endtoken'', 0), (''float'', 0),
     (''grantStatement'', 0), (''identifier'', 0), (''insertStatement'', 0), (''integer'', 1),
     (''keyspaceName'', 3), (''listLiteral'', 0), (''listPermissionsStatement'', 0),
     (''listUsersStatement'', 0), (''mapLiteral'', 0), (''newPropSpec'', 3),
     (''nonSystemKeyspaceName'', 3), (''oldPropSpec'', 4), (''op'', 0), (''optionName'', 3),
     (''optionVal'', 2), (''orderByClause'', 3), (''permission'', 0), (''permissionExpr'', 1),
     (''pkDef'', 0), (''property'', 5), (''propertyValue'', 2), (''quotedName'', 0), (''relation'', 3),
     (''resource'', 5), (''revokeStatement'', 0), (''schemaChangeStatement'', 1),
     (''selectClause'', 4), (''selectStatement'', 0), (''selector'', 3), (''setLiteral'', 0),
     (''simpleStorageType'', 1), (''singleKeyCfSpec'', 3), (''star'', 0), (''statementBody'', 2),
     (''storageType'', 2), (''stringLiteral'', 0), (''term'', 2), (''tokenDefinition'', 1),
     (''truncateStatement'', 0), (''unclosedComment'', 0), (''unclosedName'', 0),
     (''unclosedString'', 0), (''unreservedKeyword'', 1), (''updateStatement'', 0),
     (''useStatement'', 0), (''username'', 1), (''usingOption'', 0), (''uuid'', 0), (''value'', 3),
     (''whereClause'', 4), (''wholenumber'', 0)]"

definition cql3_collectors :: "string list" where
  "cql3_collectors = [''statements'', ''propname'', ''propval'', ''propmapkey'', ''propmapval'', ''optval'',
     ''rel_lhs'', ''rel_tokname'', ''colname'', ''ordercol'', ''newval'', ''insertopt'',
     ''updateopt'', ''delopt'', ''batchopt'', ''batchstmt'', ''newcolname'', ''pkey'',
     ''ptkey'']"

lemma cql3_ranks_sorted: "increasing (map fst cql3_ranks)"
  unfolding cql3_ranks_def by (simp add: less_char_def)

lemma cql3_ranks_names: "list_all (\<lambda>x. take 2 x \<noteq> ''K_'') (map fst cql3_ranks)"
  by (simp add: cql3_ranks_def)

lemmas cql3_rank = ranked_rows [OF cql3_ranks_sorted cql3_ranks_names cql3_ranks_def,
  unfolded list.pred_inject prod.case]

lemma cql3_terminal_rules_ok: "rows_ok cql3_ranks cql3_terminal_rules"
  by (simp add: cql3_terminal_rules_def check_simps cql3_rank)

lemma cql3_term_rules_ok: "rows_ok cql3_ranks cql3_term_rules"
  by (simp add: cql3_term_rules_def check_simps cql3_rank)

lemma cql3_body_rules_ok: "rows_ok cql3_ranks cql3_body_rules"
  by (simp add: cql3_body_rules_def check_simps cql3_rank)

lemma cql3_type_rules_ok: "rows_ok cql3_ranks cql3_type_rules"
  by (simp add: cql3_type_rules_def check_simps cql3_rank)

lemma cql3_name_rules_ok: "rows_ok cql3_ranks cql3_name_rules"
  by (simp add: cql3_name_rules_def check_simps cql3_rank)

lemma cql3_property_rules_ok: "rows_ok cql3_ranks cql3_property_rules"
  by (simp add: cql3_property_rules_def check_simps cql3_rank)

lemma cql3_use_select_rules_ok: "rows_ok cql3_ranks cql3_use_select_rules"
  by (simp add: cql3_use_select_rules_def check_simps cql3_rank)

lemma cql3_insert_rules_ok: "rows_ok cql3_ranks cql3_insert_rules"
  by (simp add: cql3_insert_rules_def check_simps cql3_rank)

lemma cql3_update_rules_ok: "rows_ok cql3_ranks cql3_update_rules"
  by (simp add: cql3_update_rules_def check_simps cql3_rank)

lemma cql3_delete_rules_ok: "rows_ok cql3_ranks cql3_delete_rules"
  by (simp add: cql3_delete_rules_def check_simps cql3_rank)

lemma cql3_batch_rules_ok: "rows_ok cql3_ranks cql3_batch_rules"
  by (simp add: cql3_batch_rules_def check_simps cql3_rank)

lemma cql3_truncate_rules_ok: "rows_ok cql3_ranks cql3_truncate_rules"
  by (simp add: cql3_truncate_rules_def check_simps cql3_rank)

lemma cql3_create_keyspace_rules_ok: "rows_ok cql3_ranks cql3_create_keyspace_rules"
  by (simp add: cql3_create_keyspace_rules_def check_simps cql3_rank)

lemma cql3_create_table_rules_ok: "rows_ok cql3_ranks cql3_create_table_rules"
  by (simp add: cql3_create_table_rules_def check_simps cql3_rank)

lemma cql3_create_index_rules_ok: "rows_ok cql3_ranks cql3_create_index_rules"
  by (simp add: cql3_create_index_rules_def check_simps cql3_rank)

lemma cql3_drop_rules_ok: "rows_ok cql3_ranks cql3_drop_rules"
  by (simp add: cql3_drop_rules_def check_simps cql3_rank)

lemma cql3_alter_table_rules_ok: "rows_ok cql3_ranks cql3_alter_table_rules"
  by (simp add: cql3_alter_table_rules_def check_simps cql3_rank)

lemma cql3_alter_keyspace_rules_ok: "rows_ok cql3_ranks cql3_alter_keyspace_rules"
  by (simp add: cql3_alter_keyspace_rules_def check_simps cql3_rank)

lemma cql3_user_rules_ok: "rows_ok cql3_ranks cql3_user_rules"
  by (simp add: cql3_user_rules_def check_simps cql3_rank)

lemma cql3_permission_rules_ok: "rows_ok cql3_ranks cql3_permission_rules"
  by (simp add: cql3_permission_rules_def check_simps cql3_rank)

lemmas cql3_ok = cql3_terminal_rules_ok
  cql3_term_rules_ok
  cql3_body_rules_ok
  cql3_type_rules_ok
  cql3_name_rules_ok
  cql3_property_rules_ok
  cql3_use_select_rules_ok
  cql3_insert_rules_ok
  cql3_update_rules_ok
  cql3_delete_rules_ok
  cql3_batch_rules_ok
  cql3_truncate_rules_ok
  cql3_create_keyspace_rules_ok
  cql3_create_table_rules_ok
  cql3_create_index_rules_ok
  cql3_drop_rules_ok
  cql3_alter_table_rules_ok
  cql3_alter_keyspace_rules_ok
  cql3_user_rules_ok
  cql3_permission_rules_ok

section \<open>The rule sets\<close>

lemma cql2_wf: "wf_rules [''Start''] (rank_in cql2_ranks) 10 (prs_rules cql2_grammar)"
  unfolding rows_ok_def [symmetric]
  by (simp add: cql2_grammar_def grammar_set_def new_rule_set_def Let_def rows_ok_simps(3,4) rows_ok_keywords
      cql2_syntax_rules_def cql2_ok)

lemma cql3_core_wf: "rows_ok cql3_ranks (prs_rules (grammar_set cql3_keywords cql3_syntax_rules))"
  by (simp add: grammar_set_def new_rule_set_def Let_def rows_ok_simps(3,4) rows_ok_keywords
      cql3_syntax_rules_def cql3_ok)

lemma cql3_wf:
  assumes "property_rules \<in> {pre_3_0_0_rules, post_3_0_0_rules}"
  shows "wf_rules [''Start''] (rank_in cql3_ranks) 10 (prs_rules (cql3_grammar property_rules))"
proof -
  have "rows_ok cql3_ranks property_rules"
    using assms by (auto simp: pre_3_0_0_rules_def post_3_0_0_rules_def check_simps cql3_rank)
  then show ?thesis
    using cql3_core_wf by (simp add: cql3_grammar_def add_rules_def Let_def rows_ok_def [symmetric] rows_ok_simps(3))
qed

section \<open>The CQL 3 grammar is clean\<close>

text \<open>Every name a rule refers to is defined, block by block.\<close>

lemma defined_block: "set b \<subseteq> set rs \<Longrightarrow> b = rows \<Longrightarrow> list_all (\<lambda>(x, m). defined_in rs x) rows"
  by (force simp: defined_in_def list_all_iff)

definition cql3_core :: rules where
  "cql3_core = map keyword_rule cql3_keywords @ cql3_syntax_rules"

lemma cql3_blocks: "set cql3_syntax_rules \<subseteq> set cql3_core"
  by (simp add: cql3_core_def)

lemma cql3_terminal_rules_in: "set cql3_terminal_rules \<subseteq> set cql3_core"
  using cql3_blocks by (simp add: cql3_syntax_rules_def)

lemma cql3_term_rules_in: "set cql3_term_rules \<subseteq> set cql3_core"
  using cql3_blocks by (simp add: cql3_syntax_rules_def)

lemma cql3_body_rules_in: "set cql3_body_rules \<subseteq> set cql3_core"
  using cql3_blocks by (simp add: cql3_syntax_rules_def)

lemma cql3_type_rules_in: "set cql3_type_rules \<subseteq> set cql3_core"
  using cql3_blocks by (simp add: cql3_syntax_rules_def)

lemma cql3_name_rules_in: "set cql3_name_rules \<subseteq> set cql3_core"
  using cql3_blocks by (simp add: cql3_syntax_rules_def)

lemma cql3_property_rules_in: "set cql3_property_rules \<subseteq> set cql3_core"
  using cql3_blocks by (simp add: cql3_syntax_rules_def)

lemma cql3_use_select_rules_in: "set cql3_use_select_rules \<subseteq> set cql3_core"
  using cql3_blocks by (simp add: cql3_syntax_rules_def)

lemma cql3_insert_rules_in: "set cql3_insert_rules \<subseteq> set cql3_core"
  using cql3_blocks by (simp add: cql3_syntax_rules_def)

lemma cql3_update_rules_in: "set cql3_update_rules \<subseteq> set cql3_core"
  using cql3_blocks by (simp add: cql3_syntax_rules_def)

lemma cql3_delete_rules_in: "set cql3_delete_rules \<subseteq> set cql3_core"
  using cql3_blocks by (simp add: cql3_syntax_rules_def)

lemma cql3_batch_rules_in: "set cql3_batch_rules \<subseteq> set cql3_core"
  using cql3_blocks by (simp add: cql3_syntax_rules_def)

lemma cql3_truncate_rules_in: "set cql3_truncate_rules \<subseteq> set cql3_core"
  using cql3_blocks by (simp add: cql3_syntax_rules_def)

lemma cql3_create_keyspace_rules_in: "set cql3_create_keyspace_rules \<subseteq> set cql3_core"
  using cql3_blocks by (simp add: cql3_syntax_rules_def)

lemma cql3_create_table_rules_in: "set cql3_create_table_rules \<subseteq> set cql3_core"
  using cql3_blocks by (simp add: cql3_syntax_rules_def)

lemma cql3_create_index_rules_in: "set cql3_create_index_rules \<subseteq> set cql3_core"
  using cql3_blocks by (simp add: cql3_syntax_rules_def)

lemma cql3_drop_rules_in: "set cql3_drop_rules \<subseteq> set cql3_core"
  using cql3_blocks by (simp add: cql3_syntax_rules_def)

lemma cql3_alter_table_rules_in: "set cql3_alter_table_rules \<subseteq> set cql3_core"
  using cql3_blocks by (simp add: cql3_syntax_rules_def)

lemma cql3_alter_keyspace_rules_in: "set cql3_alter_keyspace_rules \<subseteq> set cql3_core"
  using cql3_blocks by (simp add: cql3_syntax_rules_def)

lemma cql3_user_rules_in: "set cql3_user_rules \<subseteq> set cql3_core"
  using cql3_blocks by (simp add: cql3_syntax_rules_def)

lemma cql3_permission_rules_in: "set cql3_permission_rules \<subseteq> set cql3_core"
  using cql3_blocks by (simp add: cql3_syntax_rules_def)

lemmas cql3_terminal_rules_defined = defined_block [OF cql3_terminal_rules_in cql3_terminal_rules_def, unfolded list.pred_inject prod.case]
lemmas cql3_term_rules_defined = defined_block [OF cql3_term_rules_in cql3_term_rules_def, unfolded list.pred_inject prod.case]
lemmas cql3_body_rules_defined = defined_block [OF cql3_body_rules_in cql3_body_rules_def, unfolded list.pred_inject prod.case]
lemmas cql3_type_rules_defined = defined_block [OF cql3_type_rules_in cql3_type_rules_def, unfolded list.pred_inject prod.case]
lemmas cql3_name_rules_defined = defined_block [OF cql3_name_rules_in cql3_name_rules_def, unfolded list.pred_inject prod.case]
lemmas cql3_property_rules_defined = defined_block [OF cql3_property_rules_in cql3_property_rules_def, unfolded list.pred_inject prod.case]
lemmas cql3_use_select_rules_defined = defined_block [OF cql3_use_select_rules_in cql3_use_select_rules_def, unfolded list.pred_inject prod.case]
lemmas cql3_insert_rules_defined = defined_block [OF cql3_insert_rules_in cql3_insert_rules_def, unfolded list.pred_inject prod.case]
lemmas cql3_update_rules_defined = defined_block [OF cql3_update_rules_in cql3_update_rules_def, unfolded list.pred_inject prod.case]
lemmas cql3_delete_rules_defined = defined_block [OF cql3_delete_rules_in cql3_delete_rules_def, unfolded list.pred_inject prod.case]
lemmas cql3_batch_rules_defined = defined_block [OF cql3_batch_rules_in cql3_batch_rules_def, unfolded list.pred_inject prod.case]
lemmas cql3_truncate_rules_defined = defined_block [OF cql3_truncate_rules_in cql3_truncate_rules_def, unfolded list.pred_inject prod.case]
lemmas cql3_create_keyspace_rules_defined = defined_block [OF cql3_create_keyspace_rules_in cql3_create_keyspace_rules_def, unfolded list.pred_inject prod.case]
lemmas cql3_create_table_rules_defined = defined_block [OF cql3_create_table_rules_in cql3_create_table_rules_def, unfolded list.pred_inject prod.case]
lemmas cql3_create_index_rules_defined = defined_block [OF cql3_create_index_rules_in cql3_create_index_rules_def, unfolded list.pred_inject prod.case]
lemmas cql3_drop_rules_defined = defined_block [OF cql3_drop_rules_in cql3_drop_rules_def, unfolded list.pred_inject prod.case]
lemmas cql3_alter_table_rules_defined = defined_block [OF cql3_alter_table_rules_in cql3_alter_table_rules_def, unfolded list.pred_inject prod.case]
lemmas cql3_alter_keyspace_rules_defined = defined_block [OF cql3_alter_keyspace_rules_in cql3_alter_keyspace_rules_def, unfolded list.pred_inject prod.case]
lemmas cql3_user_rules_defined = defined_block [OF cql3_user_rules_in cql3_user_rules_def, unfolded list.pred_inject prod.case]
lemmas cql3_permission_rules_defined = defined_block [OF cql3_permission_rules_in cql3_permission_rules_def, unfolded list.pred_inject prod.case]

lemmas cql3_defined = cql3_terminal_rules_defined
  cql3_term_rules_defined
  cql3_body_rules_defined
  cql3_type_rules_defined
  cql3_name_rules_defined
  cql3_property_rules_defined
  cql3_use_select_rules_defined
  cql3_insert_rules_defined
  cql3_update_rules_defined
  cql3_delete_rules_defined
  cql3_batch_rules_defined
  cql3_truncate_rules_defined
  cql3_create_keyspace_rules_defined
  cql3_create_table_rules_defined
  cql3_create_index_rules_defined
  cql3_drop_rules_defined
  cql3_alter_table_rules_defined
  cql3_alter_keyspace_rules_defined
  cql3_user_rules_defined
  cql3_permission_rules_defined

lemma keyword_defined: "k \<in> set cql3_keywords \<Longrightarrow> defined_in cql3_core (''K_'' @ py_upper k)"
  by (force simp: defined_in_def cql3_core_def keyword_rule_def)

lemma keyword_uppers:
  "py_upper ''key'' = ''KEY''"
  "py_upper ''clustering'' = ''CLUSTERING''"
  "py_upper ''ttl'' = ''TTL''"
  "py_upper ''compact'' = ''COMPACT''"
  "py_upper ''storage'' = ''STORAGE''"
  "py_upper ''type'' = ''TYPE''"
  "py_upper ''values'' = ''VALUES''"
  "py_upper ''timestamp'' = ''TIMESTAMP''"
  by code_simp+

lemma cql3_keywords_defined:
  "defined_in cql3_core ''K_KEY''"
  "defined_in cql3_core ''K_CLUSTERING''"
  "defined_in cql3_core ''K_TTL''"
  "defined_in cql3_core ''K_COMPACT''"
  "defined_in cql3_core ''K_STORAGE''"
  "defined_in cql3_core ''K_TYPE''"
  "defined_in cql3_core ''K_VALUES''"
  "defined_in cql3_core ''K_TIMESTAMP''"
  using keyword_defined [of "''key''"]
    keyword_defined [of "''clustering''"]
    keyword_defined [of "''ttl''"]
    keyword_defined [of "''compact''"]
    keyword_defined [of "''storage''"]
    keyword_defined [of "''type''"]
    keyword_defined [of "''values''"]
    keyword_defined [of "''timestamp''"]
  by (simp_all add: cql3_keywords_def keyword_uppers del: py_upper_simps)

definition block_clean :: "rules \<Rightarrow> bool" where
  "block_clean rs \<longleftrightarrow> list_all (\<lambda>(x, m). clean (\<lambda>y. defined_in cql3_core y \<or> y = ''property'') cql3_collectors m) rs"

lemma block_clean_simps:
  "block_clean []"
  "block_clean ((x, m) # rs) \<longleftrightarrow>
     clean (\<lambda>y. defined_in cql3_core y \<or> y = ''property'') cql3_collectors m \<and> block_clean rs"
  "block_clean (rs @ rs') \<longleftrightarrow> block_clean rs \<and> block_clean rs'"
  by (auto simp: block_clean_def)

lemma cql3_terminal_rules_clean: "block_clean cql3_terminal_rules"
  by (simp add: cql3_terminal_rules_def block_clean_simps cql3_defined cql3_keywords_defined cql3_collectors_def)

lemma cql3_term_rules_clean: "block_clean cql3_term_rules"
  by (simp add: cql3_term_rules_def block_clean_simps cql3_defined cql3_keywords_defined cql3_collectors_def)

lemma cql3_body_rules_clean: "block_clean cql3_body_rules"
  by (simp add: cql3_body_rules_def block_clean_simps cql3_defined cql3_keywords_defined cql3_collectors_def)

lemma cql3_type_rules_clean: "block_clean cql3_type_rules"
  by (simp add: cql3_type_rules_def block_clean_simps cql3_defined cql3_keywords_defined cql3_collectors_def)

lemma cql3_name_rules_clean: "block_clean cql3_name_rules"
  by (simp add: cql3_name_rules_def block_clean_simps cql3_defined cql3_keywords_defined cql3_collectors_def)

lemma cql3_property_rules_clean: "block_clean cql3_property_rules"
  by (simp add: cql3_property_rules_def block_clean_simps cql3_defined cql3_keywords_defined cql3_collectors_def)

lemma cql3_use_select_rules_clean: "block_clean cql3_use_select_rules"
  by (simp add: cql3_use_select_rules_def block_clean_simps cql3_defined cql3_keywords_defined cql3_collectors_def)

lemma cql3_insert_rules_clean: "block_clean cql3_insert_rules"
  by (simp add: cql3_insert_rules_def block_clean_simps cql3_defined cql3_keywords_defined cql3_collectors_def)

lemma cql3_update_rules_clean: "block_clean cql3_update_rules"
  by (simp add: cql3_update_rules_def block_clean_simps cql3_defined cql3_keywords_defined cql3_collectors_def)

lemma cql3_delete_rules_clean: "block_clean cql3_delete_rules"
  by (simp add: cql3_delete_rules_def block_clean_simps cql3_defined cql3_keywords_defined cql3_collectors_def)

lemma cql3_batch_rules_clean: "block_clean cql3_batch_rules"
  by (simp add: cql3_batch_rules_def block_clean_simps cql3_defined cql3_keywords_defined cql3_collectors_def)

lemma cql3_truncate_rules_clean: "block_clean cql3_truncate_rules"
  by (simp add: cql3_truncate_rules_def block_clean_simps cql3_defined cql3_keywords_defined cql3_collectors_def)

lemma cql3_create_keyspace_rules_clean: "block_clean cql3_create_keyspace_rules"
  by (simp add: cql3_create_keyspace_rules_def block_clean_simps cql3_defined cql3_keywords_defined cql3_collectors_def)

lemma cql3_create_table_rules_clean: "block_clean cql3_create_table_rules"
  by (simp add: cql3_create_table_rules_def block_clean_simps cql3_defined cql3_keywords_defined cql3_collectors_def)

lemma cql3_create_index_rules_clean: "block_clean cql3_create_index_rules"
  by (simp add: cql3_create_index_rules_def block_clean_simps cql3_defined cql3_keywords_defined cql3_collectors_def)

lemma cql3_drop_rules_clean: "block_clean cql3_drop_rules"
  by (simp add: cql3_drop_rules_def block_clean_simps cql3_defined cql3_keywords_defined cql3_collectors_def)

lemma cql3_alter_table_rules_clean: "block_clean cql3_alter_table_rules"
  by (simp add: cql3_alter_table_rules_def block_clean_simps cql3_defined cql3_keywords_defined cql3_collectors_def)

lemma cql3_alter_keyspace_rules_clean: "block_clean cql3_alter_keyspace_rules"
  by (simp add: cql3_alter_keyspace_rules_def block_clean_simps cql3_defined cql3_keywords_defined cql3_collectors_def)

lemma cql3_user_rules_clean: "block_clean cql3_user_rules"
  by (simp add: cql3_user_rules_def block_clean_simps cql3_defined cql3_keywords_defined cql3_collectors_def)

lemma cql3_permission_rules_clean: "block_clean cql3_permission_rules"
  by (simp add: cql3_permission_rules_def block_clean_simps cql3_defined cql3_keywords_defined cql3_collectors_def)

lemmas cql3_clean = cql3_terminal_rules_clean
  cql3_term_rules_clean
  cql3_body_rules_clean
  cql3_type_rules_clean
  cql3_name_rules_clean
  cql3_property_rules_clean
  cql3_use_select_rules_clean
  cql3_insert_rules_clean
  cql3_update_rules_clean
  cql3_delete_rules_clean
  cql3_batch_rules_clean
  cql3_truncate_rules_clean
  cql3_create_keyspace_rules_clean
  cql3_create_table_rules_clean
  cql3_create_index_rules_clean
  cql3_drop_rules_clean
  cql3_alter_table_rules_clean
  cql3_alter_keyspace_rules_clean
  cql3_user_rules_clean
  cql3_permission_rules_clean

lemma clean_mono: "clean R C m \<Longrightarrow> (\<And>x. R x \<Longrightarrow> R' x) \<Longrightarrow> clean R' C m"
  by (induction R C m rule: clean.induct) (auto simp: list_all_iff)

lemma cql3_grammar_rules: "set (prs_rules (cql3_grammar property_rules)) = set property_rules \<union> set cql3_core"
  by (auto simp: cql3_grammar_def add_rules_def grammar_set_def new_rule_set_def Let_def cql3_core_def)

lemma defined_in_grammar:
  "defined_in (prs_rules (cql3_grammar property_rules)) x \<longleftrightarrow>
     defined_in property_rules x \<or> defined_in cql3_core x"
  by (simp add: defined_in_def cql3_grammar_rules image_Un)

lemma cql3_clean_rules:
  assumes "property_rules \<in> {pre_3_0_0_rules, post_3_0_0_rules}"
  shows "clean_rules cql3_collectors (prs_rules (cql3_grammar property_rules))"
proof -
  note rules = cql3_grammar_rules [of property_rules]
  have "defined_in property_rules ''property''"
    using assms by (auto simp: pre_3_0_0_rules_def post_3_0_0_rules_def defined_in_def)
  then have defined: "defined_in (prs_rules (cql3_grammar property_rules)) x"
    if "defined_in cql3_core x \<or> x = ''property''" for x
    using that by (auto simp: defined_in_grammar)
  have "block_clean (map keyword_rule ks)" for ks
    by (induction ks) (auto simp: block_clean_simps keyword_rule_def)
  moreover have "block_clean property_rules"
    using assms by (auto simp: pre_3_0_0_rules_def post_3_0_0_rules_def block_clean_simps cql3_defined)
  ultimately have "block_clean (property_rules @ cql3_core)"
    by (simp add: block_clean_simps(3) cql3_core_def cql3_syntax_rules_def cql3_clean)
  then have "\<forall>(x, m) \<in> set (prs_rules (cql3_grammar property_rules)).
      clean (\<lambda>y. defined_in cql3_core y \<or> y = ''property'') cql3_collectors m"
    unfolding rules by (auto simp: block_clean_def list_all_iff)
  then show ?thesis
    unfolding clean_rules_def list_all_iff by (auto intro: clean_mono defined)
qed

section \<open>Parsing CQL\<close>

lemma cql3_parse_returns:
  assumes "property_rules \<in> {pre_3_0_0_rules, post_3_0_0_rules}"
  shows "\<exists>n cs. parse n (cql3_grammar property_rules) ''Start'' toks (src_binding src) = Ret cs"
proof (rule parse_total [OF cql3_wf [OF assms] cql3_clean_rules [OF assms]])
  show "tuples_ok cql3_collectors (src_binding src)"
    by (auto simp: tuples_ok_def src_binding_def cql3_collectors_def split: option.splits)
  show "defined_in (prs_rules (cql3_grammar property_rules)) ''Start''"
    using cql3_terminal_rules_defined by (simp add: defined_in_grammar)
qed

text \<open>parsing CQL 3 tokens always returns, and raises nothing.\<close>

theorem cql3_parse_total:
  assumes "property_rules \<in> {pre_3_0_0_rules, post_3_0_0_rules}"
  shows "\<exists>n cs. parse n (cql3_grammar property_rules) ''Start'' toks (src_binding src) = Ret cs"
  by (rule cql3_parse_returns [OF assms])

theorem cql3_parse_total_witness:
  "\<exists>n cs. parse n (cql3_grammar post_3_0_0_rules) ''Start'' [(''K_USE'', ''USE'', (0, 3))] (src_binding (Some ''USE'')) = Ret cs"
  by (rule cql3_parse_total) simp

text \<open>parsing CQL 2 tokens always ends, with contexts or with an exception.\<close>

theorem cql2_parse_ends: "\<exists>n. parse n cql2_grammar start toks init \<noteq> Diverge"
  by (rule parse_returns_aux [OF cql2_wf])

end
