(* ===== verification/Wcwidth.thy ===== *)
theory Wcwidth
  imports Prelude
begin

text \<open>
  \<open>cqlshlib/wcwidth.py\<close>: the column width of a character on a terminal. \<open>bisearch\<close> is the binary
  search over a table of closed intervals; \<open>combining\<close> and \<open>ambiguous\<close> are the two tables of the
  file; \<open>mk_wcwidth\<close>, \<open>mk_wcswidth\<close> and their CJK variants are the width of a code point and of a
  sequence of code points. The locale \<open>interval_table\<close> is what the search needs of a table, proved
  for both tables.
\<close>

section \<open>Binary search in an interval table\<close>

type_synonym ivs = "(int \<times> int) list"

text \<open>
  The loop of \<open>bisearch\<close>. Python's \<open>/\<close> on these non-negative integers is \<open>div\<close>. Every index it
  reads lies between the two bounds, so inside the table.
\<close>

function bis_loop :: "int \<Rightarrow> ivs \<Rightarrow> int \<Rightarrow> int \<Rightarrow> int" where
  "bis_loop ucs table mn mx =
     (if mx \<ge> mn then
        (let mid = (mn + mx) div 2 in
         if ucs > snd (table ! nat mid) then bis_loop ucs table (mid + 1) mx
         else if ucs < fst (table ! nat mid) then bis_loop ucs table mn (mid - 1)
         else 1)
      else 0)"
  by pat_completeness auto
termination
  by (relation "measure (\<lambda>(ucs, table, mn, mx). nat (mx - mn + 1))") auto

declare bis_loop.simps [simp del]

definition bisearch :: "int \<Rightarrow> ivs \<Rightarrow> int res" where
  "bisearch ucs table =
     (if table = [] then Inl IndexError
      else if ucs < fst (hd table) \<or> ucs > snd (last table) then Inr 0
      else Inr (bis_loop ucs table 0 (int (length table) - 1)))"

text \<open>What the file's comments promise of the tables: sorted, non-overlapping, closed intervals.\<close>

fun sorted_ivs :: "ivs \<Rightarrow> bool" where
  "sorted_ivs [] = True"
| "sorted_ivs [(a, b)] = (a \<le> b)"
| "sorted_ivs ((a, b) # (c, d) # t) = (a \<le> b \<and> b < c \<and> sorted_ivs ((c, d) # t))"

definition in_ivs :: "int \<Rightarrow> ivs \<Rightarrow> bool" where
  "in_ivs u t \<longleftrightarrow> (\<exists>(lo, hi) \<in> set t. lo \<le> u \<and> u \<le> hi)"

lemma sorted_ivs_hd: "sorted_ivs ((a, b) # t) \<Longrightarrow> (c, d) \<in> set t \<Longrightarrow> b < c \<and> c \<le> d"
proof (induction t arbitrary: a b)
  case (Cons p t)
  obtain x y where p: "p = (x, y)" by (cases p)
  with Cons.prems have s: "sorted_ivs ((x, y) # t)" and "b < x"
    by simp_all
  then have xy: "x \<le> y" by (cases t rule: sorted_ivs.cases) auto
  show ?case
  proof (cases "(c, d) = (x, y)")
    case True
    then show ?thesis using \<open>b < x\<close> xy by simp
  next
    case False
    with Cons.prems p have "(c, d) \<in> set t" by auto
    from Cons.IH [OF s this] have "y < c \<and> c \<le> d" .
    then show ?thesis using \<open>b < x\<close> xy by linarith
  qed
qed simp

lemma sorted_ivs_tl: "sorted_ivs (p # t) \<Longrightarrow> sorted_ivs t"
  by (cases p; cases t) auto

lemma sorted_ivs_nth_less:
  "sorted_ivs t \<Longrightarrow> i < j \<Longrightarrow> j < length t \<Longrightarrow> snd (t ! i) < fst (t ! j)"
proof (induction t arbitrary: i j)
  case (Cons p t)
  obtain a b where p: "p = (a, b)" by (cases p)
  obtain j' where j: "j = Suc j'" and j': "j' < length t"
    using Cons.prems by (cases j) auto
  show ?case
  proof (cases i)
    case 0
    have "t ! j' \<in> set t" using j' by simp
    then have "(fst (t ! j'), snd (t ! j')) \<in> set t" by simp
    with Cons.prems(1) p have "b < fst (t ! j')"
      using sorted_ivs_hd by blast
    then show ?thesis using 0 j p by simp
  next
    case (Suc i')
    with Cons.prems j have "snd (t ! i') < fst (t ! j')"
      using Cons.IH [OF sorted_ivs_tl [OF Cons.prems(1)]] by simp
    then show ?thesis using Suc j by simp
  qed
qed simp

lemma sorted_ivs_nth_le: "sorted_ivs t \<Longrightarrow> i < length t \<Longrightarrow> fst (t ! i) \<le> snd (t ! i)"
proof (induction t arbitrary: i)
  case (Cons p t)
  then show ?case
    by (cases i; cases p; cases t) auto
qed simp

lemma in_ivs_nth: "in_ivs u t \<longleftrightarrow> (\<exists>i < length t. fst (t ! i) \<le> u \<and> u \<le> snd (t ! i))"
  unfolding in_ivs_def by (fastforce simp: in_set_conv_nth split: prod.splits)

lemma bis_loop_range: "bis_loop u t mn mx = 0 \<or> bis_loop u t mn mx = 1"
proof (induction u t mn mx rule: bis_loop.induct)
  case (1 u t mn mx)
  then show ?case
    by (auto simp: bis_loop.simps [of u t mn mx] Let_def)
qed

text \<open>
  The loop's invariant: the intervals left of \<open>mn\<close> end below the code point and those right of
  \<open>mx\<close> start above it.
\<close>

lemma bis_loop_correct:
  "sorted_ivs t \<Longrightarrow> 0 \<le> mn \<Longrightarrow> mx < int (length t) \<Longrightarrow>
    \<forall>i. int i < mn \<longrightarrow> i < length t \<longrightarrow> snd (t ! i) < u \<Longrightarrow>
    \<forall>i. mx < int i \<longrightarrow> i < length t \<longrightarrow> u < fst (t ! i) \<Longrightarrow>
    bis_loop u t mn mx = 1 \<longleftrightarrow> in_ivs u t"
proof (induction u t mn mx rule: bis_loop.induct)
  case (1 u t mn mx)
  note sorted = "1.prems"(1) and lo = "1.prems"(4) and hi = "1.prems"(5)
  show ?case
  proof (cases "mx \<ge> mn")
    case False
    have "\<not> in_ivs u t"
    proof
      assume "in_ivs u t"
      then obtain i where i: "i < length t" "fst (t ! i) \<le> u" "u \<le> snd (t ! i)"
        by (auto simp: in_ivs_nth)
      show False
      proof (cases "int i < mn")
        case True then show ?thesis using lo i by fastforce
      next
        case below: False
        with False have "mx < int i" by simp
        then show ?thesis using hi i by fastforce
      qed
    qed
    with False show ?thesis by (simp add: bis_loop.simps [of u t mn mx])
  next
    case True
    define mid where "mid = (mn + mx) div 2"
    have mid: "mn \<le> mid" "mid \<le> mx" "0 \<le> mid" "nat mid < length t"
      using True "1.prems"(2,3) unfolding mid_def by auto
    consider (above) "u > snd (t ! nat mid)" | (below) "\<not> u > snd (t ! nat mid)" "u < fst (t ! nat mid)"
      | (found) "\<not> u > snd (t ! nat mid)" "\<not> u < fst (t ! nat mid)" by blast
    then show ?thesis
    proof cases
      case above
      have "snd (t ! i) < u" if "int i < mid + 1" "i < length t" for i
      proof (cases "i = nat mid")
        case False
        with that mid have "i < nat mid" by linarith
        then have "snd (t ! i) < fst (t ! nat mid)" using sorted mid by (simp add: sorted_ivs_nth_less)
        also have "\<dots> \<le> snd (t ! nat mid)" using sorted mid by (simp add: sorted_ivs_nth_le)
        finally show ?thesis using above by simp
      qed (use above in simp)
      then have "bis_loop u t (mid + 1) mx = 1 \<longleftrightarrow> in_ivs u t"
        using "1.IH"(1) [OF True mid_def above] "1.prems" mid by simp
      then show ?thesis using True above by (simp add: bis_loop.simps [of u t mn mx] mid_def [symmetric])
    next
      case below
      have "u < fst (t ! i)" if "mid - 1 < int i" "i < length t" for i
      proof (cases "i = nat mid")
        case False
        with that mid have less: "nat mid < i" by linarith
        have "u < snd (t ! nat mid)"
          using below(2) sorted_ivs_nth_le [OF sorted mid(4)] by linarith
        then show ?thesis using sorted_ivs_nth_less [OF sorted less that(2)] by simp
      qed (use below in simp)
      then have "bis_loop u t mn (mid - 1) = 1 \<longleftrightarrow> in_ivs u t"
        using "1.IH"(2) [OF True mid_def below] "1.prems" mid by simp
      then show ?thesis using True below by (simp add: bis_loop.simps [of u t mn mx] mid_def [symmetric])
    next
      case found
      then have "in_ivs u t" using mid(4) unfolding in_ivs_nth by (intro exI [of _ "nat mid"]) simp
      then show ?thesis using True found by (simp add: bis_loop.simps [of u t mn mx] mid_def [symmetric])
    qed
  qed
qed

locale interval_table =
  fixes tbl :: ivs
  assumes tbl_sorted: "sorted_ivs tbl"
    and tbl_nonempty: "tbl \<noteq> []"
begin

lemma outside: "u < fst (hd tbl) \<or> u > snd (last tbl) \<Longrightarrow> \<not> in_ivs u tbl"
proof
  assume out: "u < fst (hd tbl) \<or> u > snd (last tbl)" and "in_ivs u tbl"
  then obtain i where i: "i < length tbl" "fst (tbl ! i) \<le> u" "u \<le> snd (tbl ! i)"
    by (auto simp: in_ivs_nth)
  have first: "fst (hd tbl) \<le> fst (tbl ! i)"
    using i(1) tbl_nonempty sorted_ivs_nth_less [OF tbl_sorted, of 0 i]
      sorted_ivs_nth_le [OF tbl_sorted, of 0]
    by (cases "i = 0") (auto simp: hd_conv_nth)
  have last: "snd (tbl ! i) \<le> snd (last tbl)"
  proof (cases "i = length tbl - 1")
    case False
    with i(1) have "i < length tbl - 1" and "length tbl - 1 < length tbl" by auto
    then have "snd (tbl ! i) \<le> snd (tbl ! (length tbl - 1))"
      using sorted_ivs_nth_less [OF tbl_sorted] sorted_ivs_nth_le [OF tbl_sorted] by fastforce
    then show ?thesis using tbl_nonempty by (simp add: last_conv_nth)
  qed (use tbl_nonempty in \<open>simp add: last_conv_nth\<close>)
  from out i first last show False by linarith
qed

lemma search: "bisearch u tbl = Inr (if in_ivs u tbl then 1 else 0)"
proof (cases "u < fst (hd tbl) \<or> u > snd (last tbl)")
  case True
  then show ?thesis using outside tbl_nonempty by (simp add: bisearch_def)
next
  case False
  have "bis_loop u tbl 0 (int (length tbl) - 1) = 1 \<longleftrightarrow> in_ivs u tbl"
    using tbl_sorted tbl_nonempty by (intro bis_loop_correct) auto
  with False show ?thesis
    using tbl_nonempty bis_loop_range [of u tbl 0 "int (length tbl) - 1"]
    by (auto simp: bisearch_def)
qed

end

section \<open>The two tables\<close>

definition combining :: "(int \<times> int) list" where
  "combining =
    [
     (0x0300, 0x036F), (0x0483, 0x0486), (0x0488, 0x0489), (0x0591, 0x05BD), (0x05BF, 0x05BF),
     (0x05C1, 0x05C2), (0x05C4, 0x05C5), (0x05C7, 0x05C7), (0x0600, 0x0603), (0x0610, 0x0615),
     (0x064B, 0x065E), (0x0670, 0x0670), (0x06D6, 0x06E4), (0x06E7, 0x06E8), (0x06EA, 0x06ED),
     (0x070F, 0x070F), (0x0711, 0x0711), (0x0730, 0x074A), (0x07A6, 0x07B0), (0x07EB, 0x07F3),
     (0x0901, 0x0902), (0x093C, 0x093C), (0x0941, 0x0948), (0x094D, 0x094D), (0x0951, 0x0954),
     (0x0962, 0x0963), (0x0981, 0x0981), (0x09BC, 0x09BC), (0x09C1, 0x09C4), (0x09CD, 0x09CD),
     (0x09E2, 0x09E3), (0x0A01, 0x0A02), (0x0A3C, 0x0A3C), (0x0A41, 0x0A42), (0x0A47, 0x0A48),
     (0x0A4B, 0x0A4D), (0x0A70, 0x0A71), (0x0A81, 0x0A82), (0x0ABC, 0x0ABC), (0x0AC1, 0x0AC5),
     (0x0AC7, 0x0AC8), (0x0ACD, 0x0ACD), (0x0AE2, 0x0AE3), (0x0B01, 0x0B01), (0x0B3C, 0x0B3C),
     (0x0B3F, 0x0B3F), (0x0B41, 0x0B43), (0x0B4D, 0x0B4D), (0x0B56, 0x0B56), (0x0B82, 0x0B82),
     (0x0BC0, 0x0BC0), (0x0BCD, 0x0BCD), (0x0C3E, 0x0C40), (0x0C46, 0x0C48), (0x0C4A, 0x0C4D),
     (0x0C55, 0x0C56), (0x0CBC, 0x0CBC), (0x0CBF, 0x0CBF), (0x0CC6, 0x0CC6), (0x0CCC, 0x0CCD),
     (0x0CE2, 0x0CE3), (0x0D41, 0x0D43), (0x0D4D, 0x0D4D), (0x0DCA, 0x0DCA), (0x0DD2, 0x0DD4),
     (0x0DD6, 0x0DD6), (0x0E31, 0x0E31), (0x0E34, 0x0E3A), (0x0E47, 0x0E4E), (0x0EB1, 0x0EB1),
     (0x0EB4, 0x0EB9), (0x0EBB, 0x0EBC), (0x0EC8, 0x0ECD), (0x0F18, 0x0F19), (0x0F35, 0x0F35),
     (0x0F37, 0x0F37), (0x0F39, 0x0F39), (0x0F71, 0x0F7E), (0x0F80, 0x0F84), (0x0F86, 0x0F87),
     (0x0F90, 0x0F97), (0x0F99, 0x0FBC), (0x0FC6, 0x0FC6), (0x102D, 0x1030), (0x1032, 0x1032),
     (0x1036, 0x1037), (0x1039, 0x1039), (0x1058, 0x1059), (0x1160, 0x11FF), (0x135F, 0x135F),
     (0x1712, 0x1714), (0x1732, 0x1734), (0x1752, 0x1753), (0x1772, 0x1773), (0x17B4, 0x17B5),
     (0x17B7, 0x17BD), (0x17C6, 0x17C6), (0x17C9, 0x17D3), (0x17DD, 0x17DD), (0x180B, 0x180D),
     (0x18A9, 0x18A9), (0x1920, 0x1922), (0x1927, 0x1928), (0x1932, 0x1932), (0x1939, 0x193B),
     (0x1A17, 0x1A18), (0x1B00, 0x1B03), (0x1B34, 0x1B34), (0x1B36, 0x1B3A), (0x1B3C, 0x1B3C),
     (0x1B42, 0x1B42), (0x1B6B, 0x1B73), (0x1DC0, 0x1DCA), (0x1DFE, 0x1DFF), (0x200B, 0x200F),
     (0x202A, 0x202E), (0x2060, 0x2063), (0x206A, 0x206F), (0x20D0, 0x20EF), (0x302A, 0x302F),
     (0x3099, 0x309A), (0xA806, 0xA806), (0xA80B, 0xA80B), (0xA825, 0xA826), (0xFB1E, 0xFB1E),
     (0xFE00, 0xFE0F), (0xFE20, 0xFE23), (0xFEFF, 0xFEFF), (0xFFF9, 0xFFFB), (0x10A01, 0x10A03),
     (0x10A05, 0x10A06), (0x10A0C, 0x10A0F), (0x10A38, 0x10A3A), (0x10A3F, 0x10A3F), (0x1D167, 0x1D169),
     (0x1D173, 0x1D182), (0x1D185, 0x1D18B), (0x1D1AA, 0x1D1AD), (0x1D242, 0x1D244), (0xE0001, 0xE0001),
     (0xE0020, 0xE007F), (0xE0100, 0xE01EF)]"

definition ambiguous :: "(int \<times> int) list" where
  "ambiguous =
    [
     (0x00A1, 0x00A1), (0x00A4, 0x00A4), (0x00A7, 0x00A8), (0x00AA, 0x00AA), (0x00AE, 0x00AE),
     (0x00B0, 0x00B4), (0x00B6, 0x00BA), (0x00BC, 0x00BF), (0x00C6, 0x00C6), (0x00D0, 0x00D0),
     (0x00D7, 0x00D8), (0x00DE, 0x00E1), (0x00E6, 0x00E6), (0x00E8, 0x00EA), (0x00EC, 0x00ED),
     (0x00F0, 0x00F0), (0x00F2, 0x00F3), (0x00F7, 0x00FA), (0x00FC, 0x00FC), (0x00FE, 0x00FE),
     (0x0101, 0x0101), (0x0111, 0x0111), (0x0113, 0x0113), (0x011B, 0x011B), (0x0126, 0x0127),
     (0x012B, 0x012B), (0x0131, 0x0133), (0x0138, 0x0138), (0x013F, 0x0142), (0x0144, 0x0144),
     (0x0148, 0x014B), (0x014D, 0x014D), (0x0152, 0x0153), (0x0166, 0x0167), (0x016B, 0x016B),
     (0x01CE, 0x01CE), (0x01D0, 0x01D0), (0x01D2, 0x01D2), (0x01D4, 0x01D4), (0x01D6, 0x01D6),
     (0x01D8, 0x01D8), (0x01DA, 0x01DA), (0x01DC, 0x01DC), (0x0251, 0x0251), (0x0261, 0x0261),
     (0x02C4, 0x02C4), (0x02C7, 0x02C7), (0x02C9, 0x02CB), (0x02CD, 0x02CD), (0x02D0, 0x02D0),
     (0x02D8, 0x02DB), (0x02DD, 0x02DD), (0x02DF, 0x02DF), (0x0391, 0x03A1), (0x03A3, 0x03A9),
     (0x03B1, 0x03C1), (0x03C3, 0x03C9), (0x0401, 0x0401), (0x0410, 0x044F), (0x0451, 0x0451),
     (0x2010, 0x2010), (0x2013, 0x2016), (0x2018, 0x2019), (0x201C, 0x201D), (0x2020, 0x2022),
     (0x2024, 0x2027), (0x2030, 0x2030), (0x2032, 0x2033), (0x2035, 0x2035), (0x203B, 0x203B),
     (0x203E, 0x203E), (0x2074, 0x2074), (0x207F, 0x207F), (0x2081, 0x2084), (0x20AC, 0x20AC),
     (0x2103, 0x2103), (0x2105, 0x2105), (0x2109, 0x2109), (0x2113, 0x2113), (0x2116, 0x2116),
     (0x2121, 0x2122), (0x2126, 0x2126), (0x212B, 0x212B), (0x2153, 0x2154), (0x215B, 0x215E),
     (0x2160, 0x216B), (0x2170, 0x2179), (0x2190, 0x2199), (0x21B8, 0x21B9), (0x21D2, 0x21D2),
     (0x21D4, 0x21D4), (0x21E7, 0x21E7), (0x2200, 0x2200), (0x2202, 0x2203), (0x2207, 0x2208),
     (0x220B, 0x220B), (0x220F, 0x220F), (0x2211, 0x2211), (0x2215, 0x2215), (0x221A, 0x221A),
     (0x221D, 0x2220), (0x2223, 0x2223), (0x2225, 0x2225), (0x2227, 0x222C), (0x222E, 0x222E),
     (0x2234, 0x2237), (0x223C, 0x223D), (0x2248, 0x2248), (0x224C, 0x224C), (0x2252, 0x2252),
     (0x2260, 0x2261), (0x2264, 0x2267), (0x226A, 0x226B), (0x226E, 0x226F), (0x2282, 0x2283),
     (0x2286, 0x2287), (0x2295, 0x2295), (0x2299, 0x2299), (0x22A5, 0x22A5), (0x22BF, 0x22BF),
     (0x2312, 0x2312), (0x2460, 0x24E9), (0x24EB, 0x254B), (0x2550, 0x2573), (0x2580, 0x258F),
     (0x2592, 0x2595), (0x25A0, 0x25A1), (0x25A3, 0x25A9), (0x25B2, 0x25B3), (0x25B6, 0x25B7),
     (0x25BC, 0x25BD), (0x25C0, 0x25C1), (0x25C6, 0x25C8), (0x25CB, 0x25CB), (0x25CE, 0x25D1),
     (0x25E2, 0x25E5), (0x25EF, 0x25EF), (0x2605, 0x2606), (0x2609, 0x2609), (0x260E, 0x260F),
     (0x2614, 0x2615), (0x261C, 0x261C), (0x261E, 0x261E), (0x2640, 0x2640), (0x2642, 0x2642),
     (0x2660, 0x2661), (0x2663, 0x2665), (0x2667, 0x266A), (0x266C, 0x266D), (0x266F, 0x266F),
     (0x273D, 0x273D), (0x2776, 0x277F), (0xE000, 0xF8FF), (0xFFFD, 0xFFFD), (0xF0000, 0xFFFFD),
     (0x100000, 0x10FFFD)]"

interpretation comb: interval_table combining
  by unfold_locales (simp_all add: combining_def)

interpretation amb: interval_table ambiguous
  by unfold_locales (simp_all add: ambiguous_def)

section \<open>Width of a character and of a string\<close>

definition wide :: "int \<Rightarrow> bool" where
  "wide ucs \<longleftrightarrow> ucs \<ge> 0x1100 \<and>
     (ucs \<le> 0x115F \<or>
      ucs = 0x2329 \<or> ucs = 0x232A \<or>
      (ucs \<ge> 0x2E80 \<and> ucs \<le> 0xA4CF \<and> ucs \<noteq> 0x303F) \<or>
      (ucs \<ge> 0xAC00 \<and> ucs \<le> 0xD7A3) \<or>
      (ucs \<ge> 0xF900 \<and> ucs \<le> 0xFAFF) \<or>
      (ucs \<ge> 0xFE10 \<and> ucs \<le> 0xFE19) \<or>
      (ucs \<ge> 0xFE30 \<and> ucs \<le> 0xFE6F) \<or>
      (ucs \<ge> 0xFF00 \<and> ucs \<le> 0xFF60) \<or>
      (ucs \<ge> 0xFFE0 \<and> ucs \<le> 0xFFE6) \<or>
      (ucs \<ge> 0x20000 \<and> ucs \<le> 0x2FFFD) \<or>
      (ucs \<ge> 0x30000 \<and> ucs \<le> 0x3FFFD))"

definition mk_wcwidth :: "int \<Rightarrow> int res" where
  "mk_wcwidth ucs =
     (if ucs = 0 then Inr 0
      else if ucs < 32 \<or> (ucs \<ge> 0x7F \<and> ucs < 0xA0) then Inr (-1)
      else ebind (bisearch ucs combining)
        (\<lambda>b. if b \<noteq> 0 then Inr 0 else Inr (1 + (if wide ucs then 1 else 0))))"

text \<open>The loop shared by \<open>mk_wcswidth\<close> and \<open>mk_wcswidth_cjk\<close>, which differ in the width they call.\<close>

fun wcs_loop :: "(int \<Rightarrow> int res) \<Rightarrow> int \<Rightarrow> int list \<Rightarrow> int res" where
  "wcs_loop wcw width [] = Inr width"
| "wcs_loop wcw width (c # cs) =
     ebind (wcw c) (\<lambda>w. if w < 0 then Inr (-1) else wcs_loop wcw (width + w) cs)"

definition mk_wcswidth :: "int list \<Rightarrow> int res" where
  "mk_wcswidth pwcs = wcs_loop mk_wcwidth 0 pwcs"

definition mk_wcwidth_cjk :: "int \<Rightarrow> int res" where
  "mk_wcwidth_cjk ucs =
     ebind (bisearch ucs ambiguous) (\<lambda>b. if b \<noteq> 0 then Inr 2 else mk_wcwidth ucs)"

definition mk_wcswidth_cjk :: "int list \<Rightarrow> int res" where
  "mk_wcswidth_cjk pwcs = wcs_loop mk_wcwidth_cjk 0 pwcs"

text \<open>
  The wrappers for unicode objects apply \<open>ord\<close>; a character is its code point here, so they are the
  functions above on the code points.
\<close>

definition wcwidth :: "nat \<Rightarrow> int res" where
  "wcwidth c = mk_wcwidth (int c)"

definition wcswidth :: "nat list \<Rightarrow> int res" where
  "wcswidth s = mk_wcswidth (map int s)"

definition wcwidth_cjk :: "nat \<Rightarrow> int res" where
  "wcwidth_cjk c = mk_wcwidth_cjk (int c)"

definition wcswidth_cjk :: "nat list \<Rightarrow> int res" where
  "wcswidth_cjk s = mk_wcswidth_cjk (map int s)"

text \<open>The specification, as the comment block above the tables states it.\<close>

definition is_control :: "int \<Rightarrow> bool" where
  "is_control u \<longleftrightarrow> u \<noteq> 0 \<and> (u < 32 \<or> 0x7F \<le> u \<and> u < 0xA0)"

definition width_spec :: "int \<Rightarrow> int" where
  "width_spec u =
     (if u = 0 then 0 else if is_control u then -1
      else if in_ivs u combining then 0 else if wide u then 2 else 1)"

definition width_spec_cjk :: "int \<Rightarrow> int" where
  "width_spec_cjk u = (if in_ivs u ambiguous then 2 else width_spec u)"

lemma mk_wcwidth_spec: "mk_wcwidth u = Inr (width_spec u)"
  by (simp add: mk_wcwidth_def width_spec_def comb.search is_control_def)

lemma mk_wcwidth_cjk_spec: "mk_wcwidth_cjk u = Inr (width_spec_cjk u)"
  by (simp add: mk_wcwidth_cjk_def width_spec_cjk_def amb.search mk_wcwidth_spec)

lemma wcs_loop_sum:
  assumes "\<And>c. wcw c = Inr (f c)"
  shows "wcs_loop wcw w cs =
    Inr (if \<exists>c \<in> set cs. f c < 0 then -1 else w + sum_list (map f cs))"
  using assms by (induction cs arbitrary: w) auto

lemma width_spec_neg_iff: "width_spec u < 0 \<longleftrightarrow> is_control u"
  by (auto simp: width_spec_def is_control_def)

text \<open>No ambiguous character is a control character, so the CJK width is negative on the same ones.\<close>

lemma in_ivs_ge: "in_ivs u ambiguous \<Longrightarrow> 0xA1 \<le> u"
  using amb.outside [of u] by (force simp: ambiguous_def)

lemma width_spec_cjk_neg_iff: "width_spec_cjk u < 0 \<longleftrightarrow> is_control u"
  using in_ivs_ge [of u] by (auto simp: width_spec_cjk_def width_spec_neg_iff is_control_def)


lemma wcswidth_eq:
  "wcswidth s = Inr (if list_ex (\<lambda>c. is_control (int c)) s then -1
     else sum_list (map (\<lambda>c. width_spec (int c)) s))"
  using wcs_loop_sum [OF mk_wcwidth_spec, where w = 0 and cs = "map int s"]
  by (simp add: wcswidth_def mk_wcswidth_def comp_def list_ex_iff width_spec_neg_iff)

lemma wcswidth_cjk_eq:
  "wcswidth_cjk s = Inr (if list_ex (\<lambda>c. is_control (int c)) s then -1
     else sum_list (map (\<lambda>c. width_spec_cjk (int c)) s))"
  using wcs_loop_sum [OF mk_wcwidth_cjk_spec, where w = 0 and cs = "map int s"]
  by (simp add: wcswidth_cjk_def mk_wcswidth_cjk_def comp_def list_ex_iff width_spec_cjk_neg_iff)

text \<open>
  the width of a text is the sum of the widths of its characters, or -1 when one of them is a
  control character; the bisections never read outside their tables, so no call raises. In an
  East Asian context only the ambiguous characters are wider.
\<close>

theorem wcswidth_spec:
  "wcswidth s = Inr (if list_ex (\<lambda>c. is_control (int c)) s then -1
     else sum_list (map (\<lambda>c. width_spec (int c)) s)) \<and>
   wcswidth_cjk s = Inr (if list_ex (\<lambda>c. is_control (int c)) s then -1
     else sum_list (map (\<lambda>c. if in_ivs (int c) ambiguous then 2 else width_spec (int c)) s))"
  by (simp add: wcswidth_eq wcswidth_cjk_eq width_spec_cjk_def)

end
