(* ===== verification/Display.thy ===== *)
theory Display
  imports Wcwidth PyRegex
begin

text \<open>
  Formatting of result values for a terminal: \<open>cqlshlib/displaying.py\<close> and \<open>cqlshlib/formatting.py\<close>. A
  formatted value is its text, its text with colour codes, and the number of columns it takes.
  Unicode strings are lists of code points. What depends on the platform (the codec of the terminal,
  the C library's \<open>%g\<close>, the local time) is a parameter, the record \<open>platform\<close>.
\<close>

section \<open>Colours\<close>

definition esc :: "string \<Rightarrow> string" where
  "esc s = CHR 0x1B # CHR ''['' # s"

definition RED :: string where "RED = esc ''0;1;31m''"
definition GREEN :: string where "GREEN = esc ''0;1;32m''"
definition YELLOW :: string where "YELLOW = esc ''0;1;33m''"
definition BLUE :: string where "BLUE = esc ''0;1;34m''"
definition MAGENTA :: string where "MAGENTA = esc ''0;1;35m''"
definition DARK_MAGENTA :: string where "DARK_MAGENTA = esc ''0;35m''"
definition ANSI_RESET :: string where "ANSI_RESET = esc ''0m''"

text \<open>A colour map is a dict or a \<open>defaultdict\<close>.\<close>

type_synonym colormap = "string \<Rightarrow> string res"

definition DEFAULT_VALUE_COLORS :: colormap where
  "DEFAULT_VALUE_COLORS = key_res (map_of
    [(''default'', YELLOW), (''text'', YELLOW), (''error'', RED), (''hex'', DARK_MAGENTA),
     (''timestamp'', GREEN), (''int'', GREEN), (''float'', GREEN), (''decimal'', GREEN),
     (''inet'', GREEN), (''boolean'', GREEN), (''uuid'', GREEN), (''collection'', BLUE),
     (''reset'', ANSI_RESET)])"

definition COLUMN_NAME_COLORS :: colormap where
  "COLUMN_NAME_COLORS k =
     Inr (case map_of [(''error'', RED), (''hex'', DARK_MAGENTA), (''reset'', ANSI_RESET)] k of
            None \<Rightarrow> MAGENTA | Some c \<Rightarrow> c)"

definition empty_colormap :: colormap where
  "empty_colormap k = Inr []"

section \<open>Formatted values\<close>

record fvalue =
  strval :: string
  coloredval :: string
  displaywidth :: int

definition FormattedValue :: "string \<Rightarrow> string option \<Rightarrow> int option \<Rightarrow> fvalue" where
  "FormattedValue s colored w =
     \<lparr>strval = s, coloredval = (case colored of None \<Rightarrow> s | Some c \<Rightarrow> c),
      displaywidth = (case w of None \<Rightarrow> int (length s) | Some n \<Rightarrow> n)\<rparr>"

definition colorme :: "string \<Rightarrow> colormap option \<Rightarrow> string \<Rightarrow> fvalue res" where
  "colorme bval colormap colorkey =
     (let cm = (case colormap of None \<Rightarrow> DEFAULT_VALUE_COLORS | Some m \<Rightarrow> m) in
      ebind (cm colorkey) (\<lambda>col. ebind (cm ''reset'') (\<lambda>reset.
        Inr (FormattedValue bval (Some (col @ bval @ reset)) None))))"

definition fv_len :: "fvalue \<Rightarrow> nat" where
  "fv_len v = length (strval v)"

definition pad :: "fvalue \<Rightarrow> int \<Rightarrow> char \<Rightarrow> string" where
  "pad v width fill =
     (if width > displaywidth v then replicate (nat (width - displaywidth v)) fill else [])"

definition color_rjust :: "fvalue \<Rightarrow> int \<Rightarrow> char \<Rightarrow> string" where
  "color_rjust v width fill = pad v width fill @ coloredval v"

definition color_ljust :: "fvalue \<Rightarrow> int \<Rightarrow> char \<Rightarrow> string" where
  "color_ljust v width fill = coloredval v @ pad v width fill"

definition ljust :: "fvalue \<Rightarrow> int \<Rightarrow> char \<Rightarrow> bool \<Rightarrow> string" where
  "ljust v width fill color = (if color then color_ljust v width fill else strval v @ pad v width fill)"

definition rjust :: "fvalue \<Rightarrow> int \<Rightarrow> char \<Rightarrow> bool \<Rightarrow> string" where
  "rjust v width fill color = (if color then color_rjust v width fill else pad v width fill @ strval v)"

section \<open>Escapes\<close>

definition hex_digit_of :: "nat \<Rightarrow> char" where
  "hex_digit_of n = (if n < 10 then char_of (48 + n) else char_of (87 + n))"

definition hex2 :: "nat \<Rightarrow> string" where
  "hex2 n = [hex_digit_of (n div 16 mod 16), hex_digit_of (n mod 16)]"

text \<open>
  \<open>_show_control_chars\<close>: the \<open>repr\<close> of one character without its quotes. The pattern also covers the
  characters from the space to the digit 1, which \<open>repr\<close> leaves alone.
\<close>

definition show_control_char :: "nat \<Rightarrow> string" where
  "show_control_char c =
     (if c = 9 then [bslash, CHR ''t'']
      else if c = 10 then [bslash, CHR ''n'']
      else if c = 13 then [bslash, CHR ''r'']
      else if c < 32 \<or> 127 \<le> c then [bslash, CHR ''x''] @ hex2 c
      else [char_of c])"

definition is_control_byte :: "char \<Rightarrow> bool" where
  "is_control_byte c \<longleftrightarrow> code_point c \<le> 49 \<or> 127 \<le> code_point c"

definition escape_bytes :: "string \<Rightarrow> string" where
  "escape_bytes s =
     concat (map (\<lambda>c. if is_control_byte c then show_control_char (code_point c) else [c])
       (str_replace [bslash] [bslash, bslash] s))"

type_synonym ustr = "nat list"

definition unicode_control :: "nat \<Rightarrow> bool" where
  "unicode_control c \<longleftrightarrow> c \<le> 49 \<or> 127 \<le> c \<and> c \<le> 160"

definition escape_text :: "ustr \<Rightarrow> ustr" where
  "escape_text s =
     concat (map (\<lambda>c. if c = 92 then [92, 92]
       else if unicode_control c then map code_point (show_control_char c) else [c]) s)"

text \<open>\<open>pattern.sub(f, s)\<close> for a pattern that matches no empty text.\<close>

function re_sub :: "item list \<Rightarrow> (string \<Rightarrow> string) \<Rightarrow> string \<Rightarrow> nat \<Rightarrow> string" where
  "re_sub p f s i =
     (if i \<ge> length s then []
      else (case match_at False p s i of
          None \<Rightarrow> s ! i # re_sub p f s (Suc i)
        | Some j \<Rightarrow> if j \<le> i then s ! i # re_sub p f s (Suc i) else f (slice i j s) @ re_sub p f s j))"
  by pat_completeness auto
termination
  by (relation "measure (\<lambda>(p, f, s, i). length s - i)") auto

definition red_bits_re :: string where
  "red_bits_re = [bslash, bslash] @ ''([^uUx]|u[0-9a-fA-F]{4}|x[0-9a-fA-F]{2}|U[0-9a-fA-F]{8})''"

definition turn_bits_red :: "string \<Rightarrow> string \<Rightarrow> string \<Rightarrow> string" where
  "turn_bits_red color1 color2 t = (if t = [bslash, bslash] then [bslash] else color1 @ t @ color2)"

definition sub_red_bits :: "string \<Rightarrow> string \<Rightarrow> string \<Rightarrow> string" where
  "sub_red_bits color1 color2 s =
     (case parse_pattern red_bits_re of
        None \<Rightarrow> s | Some p \<Rightarrow> re_sub (pdata p) (turn_bits_red color1 color2) s 0)"

fun count_pairs :: "string \<Rightarrow> nat" where
  "count_pairs (c # d # s) =
     (if c = bslash \<and> d = bslash then Suc (count_pairs s) else count_pairs (d # s))"
| "count_pairs s = 0"

definition color_text :: "string \<Rightarrow> colormap \<Rightarrow> int option \<Rightarrow> fvalue res" where
  "color_text bval colormap width =
     (let w = (case width of None \<Rightarrow> int (length bval) | Some n \<Rightarrow> n) in
      ebind (colormap ''hex'') (\<lambda>hex. ebind (colormap ''text'') (\<lambda>txt. ebind (colormap ''reset'') (\<lambda>reset.
        Inr (FormattedValue bval (Some (txt @ sub_red_bits hex txt bval @ reset))
          (Some (if txt \<noteq> [] then w - int (count_pairs bval) else w)))))))"

section \<open>Values by type\<close>

text \<open>
  A column type has a name and ct_subtypes. A value is what the driver decoded: text, bytes, a number or
  another object by its \<open>str\<close>, a float, a time in seconds, a collection. The elements of a set and the
  items of a map are in the order of \<open>sorted\<close>. The driver decodes a column by its type, so the value
  of a float column is a float and that of a list column a list; a value of the wrong kind is
  \<open>TypeError\<close> here, although some of them (an \<open>int\<close> under \<open>%g\<close>) would be shown.
\<close>

datatype cqltype = CqlType (ct_name: string) (ct_subtypes: "cqltype list")

datatype 'f cqlvalue =
    VText ustr
  | VBytes string
  | VObject string
  | VFloat 'f
  | VTime int
  | VList "'f cqlvalue list"
  | VMap "('f cqlvalue \<times> 'f cqlvalue) list"

record 'f platform =
  encode :: "ustr \<Rightarrow> string"
  decode :: "string \<Rightarrow> ustr"
  format_g :: "int \<Rightarrow> 'f \<Rightarrow> string"
  float_str :: "'f \<Rightarrow> string"
  collection_str :: "'f cqlvalue \<Rightarrow> string"
  local_strftime :: "string \<Rightarrow> int \<Rightarrow> string"
  local_isdst :: "int \<Rightarrow> bool"
  tz_altzone :: int
  tz_timezone :: int

record format_args =
  fa_colormap :: colormap
  fa_time_format :: string
  fa_float_precision :: int
  fa_nullval :: string

definition two_digits :: "nat \<Rightarrow> string" where
  "two_digits n = (if n < 10 then ''0'' @ nat_str n else nat_str n)"

definition last_n :: "nat \<Rightarrow> 'a list \<Rightarrow> 'a list" where
  "last_n n s = drop (length s - n) s"

definition strftime :: "'f platform \<Rightarrow> string \<Rightarrow> int \<Rightarrow> string" where
  "strftime P time_format seconds =
     (let formatted = local_strftime P time_format seconds;
          offset = (if local_isdst P seconds then - tz_altzone P else - tz_timezone P) in
      if last_n 4 formatted \<noteq> ''0000'' \<or> last_n 2 time_format \<noteq> ''%z'' \<or> offset = 0 then formatted
      else (let sign = (if offset < 0 then ''-'' else ''+''); mins = nat \<bar>offset\<bar> div 60 in
        take (length formatted - 5) formatted @ sign @ two_digits (mins div 60) @ two_digits (mins mod 60)))"

text \<open>\<open>str\<close> of a value, for the types without a formatter of their own.\<close>

definition value_str :: "'f platform \<Rightarrow> 'f cqlvalue \<Rightarrow> string res" where
  "value_str P v =
     (case v of
        VBytes s \<Rightarrow> Inr s
      | VObject s \<Rightarrow> Inr s
      | VFloat x \<Rightarrow> Inr (float_str P x)
      | VTime n \<Rightarrow> Inr (int_str n)
      | VText u \<Rightarrow>
          if list_all (\<lambda>c. c < 128) u then Inr (map char_of u) else Inl (ValueError ''not ascii'')
      | _ \<Rightarrow> Inr (collection_str P v))"

definition format_value_default :: "'f platform \<Rightarrow> format_args \<Rightarrow> 'f cqlvalue \<Rightarrow> fvalue res" where
  "format_value_default P a v =
     ebind (value_str P v) (\<lambda>s. color_text (escape_bytes s) (fa_colormap a) None)"

definition format_value_blob :: "format_args \<Rightarrow> 'f cqlvalue \<Rightarrow> fvalue res" where
  "format_value_blob a v =
     (case v of
        VBytes s \<Rightarrow> colorme (''0x'' @ concat (map (\<lambda>c. hex2 (code_point c)) s)) (Some (fa_colormap a)) ''hex''
      | _ \<Rightarrow> Inl TypeError)"

definition format_python_formatted_type :: "'f platform \<Rightarrow> format_args \<Rightarrow> 'f cqlvalue \<Rightarrow> string \<Rightarrow> fvalue res" where
  "format_python_formatted_type P a v color =
     ebind (value_str P v) (\<lambda>s. colorme s (Some (fa_colormap a)) color)"

definition format_floating_point_type :: "'f platform \<Rightarrow> format_args \<Rightarrow> 'f cqlvalue \<Rightarrow> fvalue res" where
  "format_floating_point_type P a v =
     (case v of
        VFloat x \<Rightarrow> colorme (format_g P (fa_float_precision a) x) (Some (fa_colormap a)) ''float''
      | _ \<Rightarrow> Inl TypeError)"

definition format_integer_type :: "'f platform \<Rightarrow> format_args \<Rightarrow> 'f cqlvalue \<Rightarrow> fvalue res" where
  "format_integer_type P a v = ebind (value_str P v) (\<lambda>s. colorme s (Some (fa_colormap a)) ''int'')"

definition format_value_timestamp :: "'f platform \<Rightarrow> format_args \<Rightarrow> 'f cqlvalue \<Rightarrow> fvalue res" where
  "format_value_timestamp P a v =
     (case v of
        VTime n \<Rightarrow> colorme (strftime P (fa_time_format a) n) (Some (fa_colormap a)) ''timestamp''
      | _ \<Rightarrow> Inl TypeError)"

definition format_value_text :: "'f platform \<Rightarrow> format_args \<Rightarrow> 'f cqlvalue \<Rightarrow> fvalue res" where
  "format_value_text P a v =
     (case v of
        VText u \<Rightarrow>
          let bval = encode P (escape_text u) in
          ebind (wcswidth (decode P bval)) (\<lambda>w.
            color_text bval (fa_colormap a) (Some w))
      | _ \<Rightarrow> Inl AttributeError)"

definition collection_value ::
  "format_args \<Rightarrow> string \<Rightarrow> string \<Rightarrow> fvalue list \<Rightarrow> fvalue res" where
  "collection_value a lbracket rbracket subs =
     ebind (fa_colormap a ''collection'') (\<lambda>col. ebind (fa_colormap a ''reset'') (\<lambda>reset.
       let paint = (\<lambda>s. col @ s @ reset) in
       Inr (FormattedValue (lbracket @ py_join '', '' (map strval subs) @ rbracket)
         (Some (paint lbracket @ py_join (paint '', '') (map coloredval subs) @ paint rbracket))
         (Some (2 * int (length subs) + sum_list (map displaywidth subs))))))"

definition map_value :: "format_args \<Rightarrow> (fvalue \<times> fvalue) list \<Rightarrow> fvalue res" where
  "map_value a subs =
     ebind (fa_colormap a ''collection'') (\<lambda>col. ebind (fa_colormap a ''reset'') (\<lambda>reset.
       let paint = (\<lambda>s. col @ s @ reset) in
       Inr (FormattedValue
         (''{'' @ py_join '', '' (map (\<lambda>(k, v). strval k @ '': '' @ strval v) subs) @ ''}'')
         (Some (paint ''{'' @
           py_join (paint '', '') (map (\<lambda>(k, v). coloredval k @ paint '': '' @ coloredval v) subs) @ paint ''}''))
         (Some (4 * int (length subs) + sum_list (map (\<lambda>(k, v). displaywidth k + displaywidth v) subs))))))"

text \<open>
  \<open>_formatters\<close>: the formatter of a base type, by the name of the type. Collections are formatted by
  \<open>format_value\<close> itself, which calls back for the elements; \<open>None\<close> is a type with no formatter.
\<close>

datatype formatter = FBlob | FPython string | FFloat | FInteger | FTimestamp | FText | FList | FSet | FMap

definition formatters :: "string \<Rightarrow> formatter option" where
  "formatters = map_of
    [(''blob'', FBlob), (''decimal'', FPython ''decimal''), (''uuid'', FPython ''uuid''),
     (''timeuuid'', FPython ''uuid''), (''inet'', FPython ''inet''), (''boolean'', FPython ''boolean''),
     (''float'', FFloat), (''double'', FFloat), (''bigint'', FInteger), (''int'', FInteger),
     (''varint'', FInteger), (''counter'', FInteger), (''timestamp'', FTimestamp), (''text'', FText),
     (''varchar'', FText), (''list'', FList), (''set'', FSet), (''map'', FMap)]"

definition format_scalar :: "'f platform \<Rightarrow> format_args \<Rightarrow> formatter option \<Rightarrow> 'f cqlvalue \<Rightarrow> fvalue res" where
  "format_scalar P a fmt v =
     (case fmt of
        None \<Rightarrow> format_value_default P a v
      | Some FBlob \<Rightarrow> format_value_blob a v
      | Some (FPython color) \<Rightarrow> format_python_formatted_type P a v color
      | Some FFloat \<Rightarrow> format_floating_point_type P a v
      | Some FInteger \<Rightarrow> format_integer_type P a v
      | Some FTimestamp \<Rightarrow> format_value_timestamp P a v
      | Some FText \<Rightarrow> format_value_text P a v
      | _ \<Rightarrow> Inl TypeError)"

lemma size_element [termination_simp]: "x \<in> set vs \<Longrightarrow> size x < Suc (size_list size vs)"
  by (metis le_imp_less_Suc order_refl size_list_estimation')

lemma size_key [termination_simp]:
  assumes "(k, v) \<in> set kvs"
  shows "size k < Suc (size_list (size_prod size size) kvs)"
    and "size v < Suc (size_list (size_prod size size) kvs)"
proof -
  have "size_prod size size (k, v) \<le> size_list (size_prod size size) kvs"
    using assms by (rule size_list_estimation') simp
  then show "size k < Suc (size_list (size_prod size size) kvs)"
    and "size v < Suc (size_list (size_prod size size) kvs)"
    by simp_all
qed

fun format_value :: "'f platform \<Rightarrow> format_args \<Rightarrow> cqltype \<Rightarrow> 'f cqlvalue \<Rightarrow> fvalue res" where
  "format_value P a ty (VList vs) =
     (case formatters (ct_name ty) of
        Some FList \<Rightarrow> ebind (nth_res (ct_subtypes ty) 0) (\<lambda>sub.
          ebind (emap (format_value P a sub) vs) (collection_value a ''['' '']''))
      | Some FSet \<Rightarrow> ebind (nth_res (ct_subtypes ty) 0) (\<lambda>sub.
          ebind (emap (format_value P a sub) vs) (collection_value a ''{'' ''}''))
      | fmt \<Rightarrow> format_scalar P a fmt (VList vs))"
| "format_value P a ty (VMap kvs) =
     (case formatters (ct_name ty) of
        Some FMap \<Rightarrow>
          (case ct_subtypes ty of
             [kt, vt] \<Rightarrow>
               ebind (emap (\<lambda>(k, v). ebind (format_value P a kt k) (\<lambda>fk.
                 ebind (format_value P a vt v) (\<lambda>fv. Inr (fk, fv)))) kvs) (map_value a)
           | _ \<Rightarrow> Inl (ValueError ''unpack''))
      | fmt \<Rightarrow> format_scalar P a fmt (VMap kvs))"
| "format_value P a ty v = format_scalar P a (formatters (ct_name ty)) v"

text \<open>\<open>format_by_type\<close>: the defaults of the arguments; \<open>None\<close> is the null value.\<close>

definition format_by_type ::
  "'f platform \<Rightarrow> cqltype \<Rightarrow> 'f cqlvalue option \<Rightarrow> colormap option \<Rightarrow> bool \<Rightarrow> string option \<Rightarrow>
   string option \<Rightarrow> int option \<Rightarrow> fvalue res" where
  "format_by_type P ty val colormap addcolor nullval time_format float_precision =
     (let null = (case nullval of None \<Rightarrow> ''null'' | Some s \<Rightarrow> s) in
      case val of
        None \<Rightarrow> colorme null colormap ''error''
      | Some v \<Rightarrow>
          format_value P
            \<lparr>fa_colormap = (if \<not> addcolor then empty_colormap
                else (case colormap of None \<Rightarrow> DEFAULT_VALUE_COLORS | Some m \<Rightarrow> m)),
             fa_time_format = (case time_format of None \<Rightarrow> [] | Some f \<Rightarrow> f),
             fa_float_precision = (case float_precision of None \<Rightarrow> 3 | Some n \<Rightarrow> n),
             fa_nullval = null\<rparr> ty v)"

section \<open>Widths\<close>

lemma join_length:
  "xs \<noteq> [] \<Longrightarrow> length (py_join sep xs) + length sep = sum_list (map length xs) + length sep * length xs"
  by (induction xs rule: py_join.induct) auto

text \<open>Columns the text of a value takes beyond its \<open>displaywidth\<close>.\<close>

definition excess :: "fvalue \<Rightarrow> int" where
  "excess v = int (length (strval v)) - displaywidth v"

lemma excess_plain [simp]: "excess (FormattedValue s c None) = 0"
  by (simp add: excess_def FormattedValue_def)

lemma colorme_excess: "colorme s m k = Inr v \<Longrightarrow> excess v = 0"
  by (auto simp: colorme_def Let_def result_simps)

lemma color_text_excess: "color_text s empty_colormap None = Inr v \<Longrightarrow> excess v = 0"
  by (auto simp: color_text_def empty_colormap_def FormattedValue_def excess_def)

lemma sum_excess:
  "int (sum_list (map (length \<circ> strval) vs)) = sum_list (map displaywidth vs) + sum_list (map excess vs)"
  by (induction vs) (auto simp: excess_def)

lemma collection_excess:
  assumes "collection_value a [lb] [rb] subs = Inr v"
  shows "excess v = sum_list (map excess subs) + (if subs = [] then 2 else 0)"
  using assms join_length[of "map strval subs" "'', ''"] sum_excess[of subs]
  by (cases "subs = []") (auto simp: result_simps collection_value_def Let_def FormattedValue_def excess_def)

lemma map_excess:
  assumes "map_value a subs = Inr v"
  shows "excess v = sum_list (map (\<lambda>(x, y). excess x + excess y) subs) + (if subs = [] then 2 else 0)"
proof -
  have "int (sum_list (map (length \<circ> (\<lambda>(k, v). strval k @ '': '' @ strval v)) subs)) =
      sum_list (map (\<lambda>(k, v). displaywidth k + displaywidth v) subs) +
      sum_list (map (\<lambda>(x, y). excess x + excess y) subs) + 2 * int (length subs)"
    by (induction subs) (auto simp: excess_def)
  then show ?thesis
    using assms join_length[of "map (\<lambda>(k, v). strval k @ '': '' @ strval v) subs" "'', ''"]
    by (cases "subs = []") (auto simp: result_simps map_value_def Let_def FormattedValue_def excess_def)
qed

text \<open>
  Two columns for every empty collection shown by a collection formatter, and whether a value contains
  text.
\<close>

fun empty_collections :: "cqltype \<Rightarrow> 'f cqlvalue \<Rightarrow> int" where
  "empty_collections ty (VList vs) =
     (if formatters (ct_name ty) \<in> {Some FList, Some FSet}
      then (if vs = [] then 2 else 0) + sum_list (map (empty_collections (hd (ct_subtypes ty))) vs) else 0)"
| "empty_collections ty (VMap kvs) =
     (if formatters (ct_name ty) = Some FMap
      then (if kvs = [] then 2 else 0) +
        sum_list (map (\<lambda>(k, v). empty_collections (hd (ct_subtypes ty)) k +
          empty_collections (last (ct_subtypes ty)) v) kvs)
      else 0)"
| "empty_collections ty v = 0"

lemma no_formatter_excess:
  assumes "format_value_default P a v = Inr fv" "fa_colormap a = empty_colormap"
  shows "excess fv = 0"
  using assms by (auto simp: format_value_default_def result_simps color_text_excess)

lemmas scalar_defs = format_value_blob_def format_python_formatted_type_def
  format_floating_point_type_def format_integer_type_def format_value_timestamp_def
  format_value_text_def

lemma format_scalar_excess:
  assumes "format_scalar P a fmt v = Inr fv" "fa_colormap a = empty_colormap"
    "fmt = Some FText \<Longrightarrow> (\<forall>u. v \<noteq> VText u)"
  shows "excess fv = 0"
  using assms
  by (auto simp: format_scalar_def scalar_defs result_simps no_formatter_excess colorme_excess
      split: option.splits formatter.splits cqlvalue.splits)

fun has_text :: "'f cqlvalue \<Rightarrow> bool" where
  "has_text (VText u) = True"
| "has_text (VList vs) = (\<exists>v \<in> set vs. has_text v)"
| "has_text (VMap kvs) = (\<exists>(k, v) \<in> set kvs. has_text k \<or> has_text v)"
| "has_text v = False"


lemma list_excess:
  assumes "list_all2 (\<lambda>v fv. f v = Inr fv) vs fvs"
    "\<And>v fv. v \<in> set vs \<Longrightarrow> f v = Inr fv \<Longrightarrow> excess fv = g v"
  shows "sum_list (map excess fvs) = sum_list (map g vs)"
  using assms by (induction vs fvs rule: list_all2_induct) auto

lemma pair_excess:
  assumes "list_all2 (\<lambda>(k, v) fp. ebind (f k) (\<lambda>fk. ebind (h v) (\<lambda>fv. Inr (fk, fv))) = Inr fp) kvs fps"
    "\<And>k v fk. (k, v) \<in> set kvs \<Longrightarrow> f k = Inr fk \<Longrightarrow> excess fk = g k"
    "\<And>k v fv. (k, v) \<in> set kvs \<Longrightarrow> h v = Inr fv \<Longrightarrow> excess fv = g' v"
  shows "sum_list (map (\<lambda>(x, y). excess x + excess y) fps) = sum_list (map (\<lambda>(k, v). g k + g' v) kvs)"
  using assms
proof (induction kvs fps rule: list_all2_induct)
  case Nil
  then show ?case by simp
next
  case (Cons kv kvs fp fps)
  obtain k v where kv: "kv = (k, v)" by (cases kv)
  with Cons.hyps(1) obtain fk fv where "fp = (fk, fv)" "f k = Inr fk" "h v = Inr fv"
    by (auto simp: result_simps)
  moreover have "sum_list (map (\<lambda>(x, y). excess x + excess y) fps) = sum_list (map (\<lambda>(k, v). g k + g' v) kvs)"
    using Cons.IH Cons.prems by (meson list.set_intros(2))
  moreover have "excess fk = g k" "excess fv = g' v"
    using Cons.prems kv calculation(2,3) by (meson list.set_intros(1))+
  ultimately show ?case
    by (simp add: kv)
qed

lemma format_list_excess:
  assumes IH: "\<And>v ty fv. v \<in> set vs \<Longrightarrow> format_value P a ty v = Inr fv \<Longrightarrow> excess fv = empty_collections ty v"
    and run: "ebind (nth_res (ct_subtypes ty) 0) (\<lambda>sub.
      ebind (emap (format_value P a sub) vs) (collection_value a [lb] [rb])) = Inr fv"
  shows "excess fv = (if vs = [] then 2 else 0) + sum_list (map (empty_collections (hd (ct_subtypes ty))) vs)"
proof -
  obtain sub fvs where sub: "nth_res (ct_subtypes ty) 0 = Inr sub"
    and fvs: "emap (format_value P a sub) vs = Inr fvs" and fv: "collection_value a [lb] [rb] fvs = Inr fv"
    using run by (auto simp: result_simps)
  have "sub = hd (ct_subtypes ty)"
    using sub by (cases "ct_subtypes ty") (auto simp: nth_res_def split: if_splits)
  moreover have "sum_list (map excess fvs) = sum_list (map (empty_collections sub) vs)"
    using fvs by (intro list_excess[where f = "format_value P a sub"]) (auto simp: emap_Inr_iff intro: IH)
  ultimately show ?thesis
    using collection_excess[OF fv] emap_length[OF fvs] by auto
qed

lemma format_map_excess:
  assumes IH: "\<And>k v ty fk. (k, v) \<in> set kvs \<Longrightarrow> format_value P a ty k = Inr fk \<Longrightarrow> excess fk = empty_collections ty k"
      "\<And>k v ty fv. (k, v) \<in> set kvs \<Longrightarrow> format_value P a ty v = Inr fv \<Longrightarrow> excess fv = empty_collections ty v"
    and run: "ebind (emap (\<lambda>(k, v). ebind (format_value P a kt k) (\<lambda>fk.
      ebind (format_value P a vt v) (\<lambda>fv. Inr (fk, fv)))) kvs) (map_value a) = Inr fv"
  shows "excess fv = (if kvs = [] then 2 else 0) +
    sum_list (map (\<lambda>(k, v). empty_collections kt k + empty_collections vt v) kvs)"
proof -
  obtain fps where fps: "emap (\<lambda>(k, v). ebind (format_value P a kt k) (\<lambda>fk.
      ebind (format_value P a vt v) (\<lambda>fv. Inr (fk, fv)))) kvs = Inr fps" and fv: "map_value a fps = Inr fv"
    using run by (auto simp: result_simps)
  have "list_all2 (\<lambda>(k, v) fp. ebind (format_value P a kt k) (\<lambda>fk. ebind (format_value P a vt v)
      (\<lambda>fv. Inr (fk, fv))) = Inr fp) kvs fps"
    using fps by (simp add: emap_Inr_iff case_prod_unfold)
  then have "sum_list (map (\<lambda>(x, y). excess x + excess y) fps) =
      sum_list (map (\<lambda>(k, v). empty_collections kt k + empty_collections vt v) kvs)"
    by (rule pair_excess) (auto intro: IH)
  then show ?thesis
    using map_excess[OF fv] emap_length[OF fps] by auto
qed

lemma format_value_excess:
  assumes "format_value P a ty v = Inr fv" "fa_colormap a = empty_colormap" "\<not> has_text v"
  shows "excess fv = empty_collections ty v"
  using assms
proof (induction v arbitrary: ty fv)
  case (VList vs)
  have IH: "\<And>v ty fv. v \<in> set vs \<Longrightarrow> format_value P a ty v = Inr fv \<Longrightarrow> excess fv = empty_collections ty v"
    using VList by auto
  have s: "\<And>fmt. format_scalar P a fmt (VList vs) = Inr fv \<Longrightarrow> excess fv = 0"
    using VList.prems(2) by (rule format_scalar_excess[rotated 1]) auto
  show ?case
  proof (cases "formatters (ct_name ty) \<in> {Some FList, Some FSet}")
    case True
    then obtain lb rb where "ebind (nth_res (ct_subtypes ty) 0) (\<lambda>sub.
        ebind (emap (format_value P a sub) vs) (collection_value a [lb] [rb])) = Inr fv"
      using VList.prems(1) by auto
    then show ?thesis
      using True format_list_excess[OF IH] by simp
  next
    case False
    then show ?thesis
      using VList.prems(1) by (auto dest!: s split: option.splits formatter.splits)
  qed
next
  case (VMap kvs)
  have IH: "\<And>k v ty fk. (k, v) \<in> set kvs \<Longrightarrow> format_value P a ty k = Inr fk \<Longrightarrow> excess fk = empty_collections ty k"
      "\<And>k v ty fv. (k, v) \<in> set kvs \<Longrightarrow> format_value P a ty v = Inr fv \<Longrightarrow> excess fv = empty_collections ty v"
    using VMap by (fastforce simp: )+
  have s: "\<And>fmt. format_scalar P a fmt (VMap kvs) = Inr fv \<Longrightarrow> excess fv = 0"
    using VMap.prems(2) by (rule format_scalar_excess[rotated 1]) auto
  show ?case
  proof (cases "formatters (ct_name ty) = Some FMap")
    case True
    then obtain kt vt where sub: "ct_subtypes ty = [kt, vt]" and
      run: "ebind (emap (\<lambda>(k, v). ebind (format_value P a kt k) (\<lambda>fk.
        ebind (format_value P a vt v) (\<lambda>fv. Inr (fk, fv)))) kvs) (map_value a) = Inr fv"
      using VMap.prems(1) by (auto split: list.splits)
    from format_map_excess[OF IH run] show ?thesis
      by (simp add: True sub)
  next
    case False
    then show ?thesis
      using VMap.prems(1) by (auto dest!: s split: option.splits formatter.splits)
  qed
qed (auto intro: format_scalar_excess)


text \<open>
  without colours, the width computed for a value with no text in it is the length of its text,
  less two columns for every empty collection it shows: the width of the brackets is only counted in
  with the separators of the elements.
\<close>

theorem format_width:
  assumes "format_by_type P ty (Some v) colormap False nullval time_format precision = Inr fv"
    "\<not> has_text v"
  shows "int (length (strval fv)) = displaywidth fv + empty_collections ty v"
  using assms format_value_excess[where ty = ty and v = v and fv = fv and P = P]
  by (force simp: format_by_type_def Let_def excess_def)

section \<open>Padding\<close>

text \<open>
  padding appends or prepends the text and fills it up to the wanted number of columns, counted
  from the display width, and never cuts a value that is too wide.
\<close>

theorem padded_width:
  "ljust v w c False = strval v @ replicate (nat (w - displaywidth v)) c \<and>
   rjust v w c False = replicate (nat (w - displaywidth v)) c @ strval v \<and>
   ljust v w c True = coloredval v @ replicate (nat (w - displaywidth v)) c \<and>
   displaywidth v + int (length (pad v w c)) = max w (displaywidth v)"
  by (auto simp: ljust_def rjust_def color_ljust_def pad_def)

section \<open>Escaping\<close>

definition hex_value :: "nat \<Rightarrow> nat" where
  "hex_value c = (if c < 58 then c - 48 else c - 87)"

text \<open>The reading of the escapes that \<open>escape_text\<close> writes.\<close>

fun unescape :: "ustr \<Rightarrow> ustr" where
  "unescape (c # d # s) =
     (if c \<noteq> 92 then c # unescape (d # s)
      else if d = 116 then 9 # unescape s
      else if d = 110 then 10 # unescape s
      else if d = 114 then 13 # unescape s
      else if d = 120 then
        (case s of h # l # r \<Rightarrow> (16 * hex_value h + hex_value l) # unescape r | _ \<Rightarrow> c # d # s)
      else d # unescape s)"
| "unescape s = s"

lemma hex_digit: "n < 16 \<Longrightarrow> hex_value (code_point (hex_digit_of n)) = n"
  by (auto simp: hex_digit_of_def hex_value_def code_point_def of_char_of)

lemma hex_digit_printable: "n < 16 \<Longrightarrow> 48 \<le> code_point (hex_digit_of n) \<and> code_point (hex_digit_of n) < 103"
  by (auto simp: hex_digit_of_def code_point_def of_char_of)

lemma code_point_literals [simp]:
  "code_point bslash = 92" "code_point (CHR ''t'') = 116" "code_point (CHR ''n'') = 110"
  "code_point (CHR ''r'') = 114" "code_point (CHR ''x'') = 120"
  by (simp_all add: code_point_def)

lemma unescape_other: "c \<noteq> 92 \<Longrightarrow> unescape (c # s) = c # unescape s"
  by (cases s) simp_all

lemma unescape_control:
  assumes "unicode_control c"
  shows "unescape (map code_point (show_control_char c) @ s) = c # unescape s"
proof -
  have "c < 256" "c \<noteq> 92"
    using assms by (auto simp: unicode_control_def)
  moreover have "16 * (c div 16 mod 16) + c mod 16 = c" if "c < 256"
    using that by (simp add: mod_less)
  ultimately show ?thesis
    by (auto simp: show_control_char_def hex2_def hex_digit unescape_other code_point_def[of "char_of c"] of_char_of)
qed

text \<open>
  escaping a text loses nothing: reading the escapes gives the text back.
\<close>

theorem escape_text_roundtrip: "unescape (escape_text s) = s"
proof (induction s)
  case (Cons c s)
  then show ?case
    by (simp add: escape_text_def unescape_control unescape_other)
qed (simp add: escape_text_def)

lemma control_printable:
  assumes "unicode_control c" "d \<in> set (show_control_char c)"
  shows "32 \<le> code_point d \<and> code_point d < 127"
proof -
  have "code_point (char_of c) = c" if "c < 127" for c
    using that by (simp add: code_point_def of_char_of)
  then show ?thesis
    using assms hex_digit_printable[of "c div 16 mod 16"] hex_digit_printable[of "c mod 16"]
    by (auto simp: show_control_char_def hex2_def unicode_control_def split: if_splits)
qed

lemma escape_text_printable:
  assumes "d \<in> set (escape_text s)"
  shows "32 \<le> d \<and> (d < 127 \<or> 160 < d)"
proof -
  obtain c where c: "c \<in> set s"
    "d \<in> set (if c = 92 then [92, 92]
       else if unicode_control c then map code_point (show_control_char c) else [c])"
    using assms by (auto simp: escape_text_def)
  then show ?thesis
    using control_printable[of c] by (auto simp: unicode_control_def split: if_splits)
qed

text \<open>
  text is shown with a width that is not negative whenever the terminal's codec can represent it:
  no control character is left for \<open>wcswidth\<close> to answer -1 on.
\<close>

theorem text_width_nonneg:
  assumes "decode P (encode P (escape_text u)) = escape_text u"
    and "format_value_text P a (VText u) = Inr fv" "fa_colormap a = empty_colormap"
  shows "displaywidth fv = sum_list (map (\<lambda>c. width_spec (int c)) (escape_text u)) \<and> 0 \<le> displaywidth fv"
proof -
  have pos: "0 \<le> width_spec (int c)" if "c \<in> set (escape_text u)" for c
    using escape_text_printable[OF that] width_spec_neg_iff[of "int c"] by (auto simp: is_control_def)
  then have w: "wcswidth (escape_text u) = Inr (sum_list (map (\<lambda>c. width_spec (int c)) (escape_text u)))"
    using wcs_loop_sum[OF mk_wcwidth_spec, where w = 0 and cs = "map int (escape_text u)"]
    by (fastforce simp: wcswidth_def mk_wcswidth_def comp_def not_less[symmetric])
  then have "displaywidth fv = sum_list (map (\<lambda>c. width_spec (int c)) (escape_text u))"
    using assms by (auto simp: format_value_text_def color_text_def empty_colormap_def FormattedValue_def Let_def)
  then show ?thesis
    using pos sum_list_nonneg[of "map (\<lambda>c. width_spec (int c)) (escape_text u)"] by auto
qed

end
