(* ===== verification/Witnesses.thy ===== *)
theory Witnesses
  imports Cql3_Properties Cql_Complete Display
begin

text \<open>
  The properties with hypotheses applied at concrete inputs, where the hypotheses are evaluated. The
  inputs are small rule sets and the sample table of \<open>Cql3_Properties\<close>.
\<close>

section \<open>Rule sets\<close>

definition sample_rules :: prs where
  "sample_rules = new_rule_set\<lparr>prs_rules := [(''Start'', Repeat (RuleReference ''ex'')),
     (''ex'', TerminalType ''ex'' (TextMatch ''x''))], prs_terminals := [(''ex'', TextMatch ''x'')]\<rparr>"

definition sample_tokens :: "token list" where
  "sample_tokens = [(''ex'', ''X'', (0, 1)), (''ex'', ''x'', (1, 2))]"

definition sample_lexer :: "string \<Rightarrow> string lexicon" where
  "sample_lexer name = [([SubPattern (Some 1) [InSet False
     [(CHR ''X'', CHR ''X''), (CHR ''x'', CHR ''x'')]]], Some name)]"

lemma sample_scanner: "make_lexer sample_rules = Inr (sample_lexer ''ex'')"
  by code_simp

lemmas match_simps = match_at_def one_char_def in_set_ci_def in_range_def code_point_def
  lower_char_def upper_char_def is_upper_def is_lower_def

lemma sample_first_match:
  "first_match True (sample_lexer name) ''Xx'' 0 = Some (Some name, 1)"
  "first_match True (sample_lexer name) ''Xx'' (Suc 0) = Some (Some name, 2)"
  "first_match True (sample_lexer name) ''Xx'' 2 = None"
  by (simp_all add: sample_lexer_def match_simps)

lemma sample_scan:
  "scan True (sample_lexer name) ''Xx'' = ([(name, ''X'', (0, 1)), (name, ''x'', (1, 2))], [])"
  by (simp add: scan_def lex_all_def scan_from.simps [of True "sample_lexer name"] sample_first_match
      slice_def keep_lexemes_def)

lemma sample_lex: "lex ''Xx'' sample_rules = Inr (sample_tokens, sample_rules\<lparr>prs_scanner := Some (sample_lexer ''ex'')\<rparr>)"
proof -
  have "prs_scanner sample_rules = None" by (simp add: sample_rules_def new_rule_set_def)
  then show ?thesis by (simp add: lex_def sample_scanner sample_scan sample_tokens_def)
qed



lemma sample_reach: "reach fresh_rule_set prs_step (new_rule_set\<lparr>prs_scanner := Some []\<rparr>)"
proof -
  have "make_lexer new_rule_set = Inr []"
    by (simp add: make_lexer_def lexicon_of_def safer_scanner_def new_rule_set_def)
  then have "prs_step new_rule_set (new_rule_set\<lparr>prs_scanner := Some []\<rparr>)"
    by (intro step_lex_error) (simp_all add: new_rule_set_def)
  then show ?thesis
    by (rule reach_step [rotated]) (simp add: reach_init fresh_rule_set_def)
qed

theorem lex_ignores_cache_witness:
  "lex ''x'' (new_rule_set\<lparr>prs_scanner := Some []\<rparr>) = lex ''x'' (new_rule_set\<lparr>prs_scanner := Some []\<rparr>\<lparr>prs_scanner := None\<rparr>)"
  by (rule lex_ignores_cache [OF sample_reach])

definition sample_result :: ctxt where
  "sample_result = \<lparr>bindings = Map.empty, matched = sample_tokens, remainder = [], productionname = ''Start''\<rparr>"

lemma sample_match: "whole_match 10 sample_rules ''Start'' sample_tokens None = Ret (Some sample_result)"
  by (simp add: whole_match_def parse_def sample_rules_def sample_tokens_def sample_result_def new_rule_set_def
      src_binding_def start_ctxt_def env_of_def mtch_simps eval_nat_numeral ctxt_defs)

theorem whole_match_correct_witness:
  "(Some sample_result \<noteq> None) = (\<exists>pattern. map_of (prs_rules sample_rules) ''Start'' = Some pattern \<and>
     derives (map_of (prs_rules sample_rules)) pattern sample_tokens) \<and>
   (case Some sample_result of None \<Rightarrow> True | Some c \<Rightarrow> matched c = sample_tokens \<and> remainder c = [])"
  by (rule whole_match_correct [OF sample_match])

lemma sample_wf: "wf_rules [''Start''] [''ex'' \<mapsto> 0, ''Start'' \<mapsto> 1] 2 (prs_rules sample_rules)"
  by (simp add: wf_rules_def sample_rules_def)

theorem complete_returns_witness:
  "\<exists>n. RuleSet.complete n sample_rules ''Start'' [] Map.empty \<noteq> Diverge"
  by (rule complete_returns [OF sample_wf])

section \<open>Statements\<close>


section \<open>Words\<close>

theorem maybe_escape_name_roundtrip_witness:
  "cql3_dequote_name (cql3_maybe_escape_name cql3_keywords cql3_unreserved_keywords ''select'') = ''select''"
  by (rule maybe_escape_name_roundtrip) simp

theorem newline_name_not_escaped_witness:
  "cql3_maybe_escape_name cql3_keywords cql3_unreserved_keywords (''ab'' @ [newline]) = ''ab'' @ [newline] \<and>
    cql3_dequote_name (''ab'' @ [newline]) = ''ab''"
proof (rule newline_name_not_escaped)
  show "plain_word ''ab''" by code_simp
  show "py_lower (''ab'' @ [newline]) \<notin> set cql3_keywords" by code_simp
qed

section \<open>Completion\<close>

definition sample_scenario :: scenario where
  "sample_scenario = \<lparr>sc_tokens = [], sc_partial = ''US'', sc_prefix = None, sc_dequoter = identity,
     sc_requoter = identity, sc_lasttype = None\<rparr>"

lemma sample_pick: "pick_candidates True sample_scenario [] [CStr ''USE'', CStr ''SELECT''] = Inr ([''USE ''], [])"
  by code_simp

theorem candidates_complete_partial_witness:
  "\<exists>w. CStr w \<in> set [CStr ''USE'', CStr ''SELECT''] \<and> w \<noteq> [] \<and>
    startswith (py_lower w) (py_lower (sc_partial sample_scenario)) \<and>
    ''USE '' \<in> {w, '' '' @ w, w @ '' '', '' '' @ w @ '' ''}"
  by (rule candidates_complete_partial [OF sample_pick]) (simp_all add: sample_scenario_def)

theorem requote_rest_witness:
  "requote (\<lambda>s. squote # quote_double squote s @ [squote]) identity ''ab'' ''abc'' = quote_double squote ''c''"
  by (rule requote_rest) (simp_all add: identity_def)

theorem requote_repeats_witness:
  "suffix (last [squote, CHR ''b''] # quote_double squote ''c'')
     (requote (\<lambda>s. squote # quote_double squote s @ [squote]) identity [squote, CHR ''b''] [squote, CHR ''b'', CHR ''c''])"
  by (rule requote_repeats) (simp_all add: identity_def)

lemma sample_split:
  "cql_split_statements [] sample_rules ''Xx'' =
     Inr (([sample_tokens], False), sample_rules\<lparr>prs_scanner := Some (sample_lexer ''ex'')\<rparr>)"
proof -
  have "group_statements (split_list (cql_massage_tokens [] sample_tokens) is_endtoken) [] False =
      Inr ([sample_tokens], False)"
    by code_simp
  then show ?thesis by (simp add: cql_split_statements_def sample_lex)
qed

lemma sample_complete_multiple:
  "cql_complete_multiple 1 10 cql3_dialect [] sample_rules [] ''Xx'' Map.empty ''Stop'' = Ret ''Xx''"
proof -
  have "RuleSet.complete 10 (sample_rules\<lparr>prs_scanner := Some (sample_lexer ''ex'')\<rparr>) ''Stop'' toks init = Raise KeyError" for toks init
    by (simp add: RuleSet.complete_def sample_rules_def)
  moreover obtain sc where "completion_scenario cql3_dialect sample_tokens [] = Some sc"
    by (simp add: completion_scenario_def sample_tokens_def Let_def)
  ultimately have "cql_complete_single 10 cql3_dialect [] sample_rules ''Xx'' [] Map.empty True ''Stop'' = Raise KeyError"
    by (simp add: cql_complete_single_def sample_split)
  then show ?thesis by simp
qed

theorem complete_multiple_extends_witness: "prefix (without_space ''Xx'') ''Xx''"
  by (rule complete_multiple_extends [OF sample_complete_multiple])

definition comment_rules :: prs where
  "comment_rules = new_rule_set\<lparr>prs_terminals := [(''unclosedComment'', TextMatch ''x'')]\<rparr>"

definition comment_tokens :: "token list" where
  "comment_tokens = [(''unclosedComment'', ''X'', (0, 1)), (''unclosedComment'', ''x'', (1, 2))]"

lemma comment_split:
  "cql_split_statements [] comment_rules ''Xx'' = Inr (([comment_tokens], False),
     comment_rules\<lparr>prs_scanner := Some (sample_lexer ''unclosedComment'')\<rparr>)"
proof -
  have no_scanner: "prs_scanner comment_rules = None"
    by (simp add: comment_rules_def new_rule_set_def)
  have "make_lexer comment_rules = Inr (sample_lexer ''unclosedComment'')"
    by code_simp
  then have "lex ''Xx'' comment_rules = Inr (comment_tokens,
      comment_rules\<lparr>prs_scanner := Some (sample_lexer ''unclosedComment'')\<rparr>)"
    using no_scanner by (simp add: lex_def sample_scan comment_tokens_def)
  moreover have "group_statements (split_list (cql_massage_tokens [] comment_tokens) is_endtoken) [] False =
      Inr ([comment_tokens], False)"
    by code_simp
  ultimately show ?thesis
    by (simp add: cql_split_statements_def)
qed

theorem complete_in_comment_raises_witness:
  "cql_complete 1 1 cql3_dialect [] comment_rules ''Xx'' [] BNone True ''Start'' =
    Raise (ValueError ''need more than 0 values to unpack'')"
  by (rule complete_in_comment_raises [OF comment_split]) (simp_all add: comment_tokens_def)

section \<open>Tables\<close>


theorem partition_key_named_witness:
  "cf_partition_key_components sample_table \<noteq> [] \<and>
    length (partkey_types sample_types sample_table) \<le> length (cf_partition_key_components sample_table)"
  by (rule partition_key_named [OF sample_from_layout])

theorem key_columns_found_witness:
  "\<exists>c. get_column sample_table ''c'' = Inr c \<and> cd_name c = ''c'' \<and> c \<in> set (cf_columns sample_table)"
  by (rule key_columns_found [OF sample_from_layout]) (simp add: sample_table_def)


lemma sample_ctxt_layout:
  "get_cf_layout (sample_ctxt nm [''updatecol'' \<mapsto> BStr ''n'']) sample_cass = Inr sample_table"
  "get_cf_layout (sample_ctxt nm Map.empty) sample_cass = Inr sample_table"
  by simp_all

section \<open>Completers\<close>

theorem insert_colname_offers_witness:
  "\<exists>offered. insert_colname_completer (sample_ctxt ''insertStatement'' Map.empty) sample_cass =
      strs (map cql3_name offered) \<and>
    set offered \<inter> set [] = {} \<and>
    (if set (cf_primary_key_components sample_table) \<subseteq> set []
     then set offered = set (map cd_name (cf_columns sample_table)) - set []
     else (\<exists>k \<in> set (cf_primary_key_components sample_table). offered = [k]))"
  by (rule insert_colname_offers [OF sample_ctxt_layout(2)])
    (simp add: dequote_items_def as_items_def binding_or_empty_def get_binding_def sample_ctxt_def)

theorem relation_lhs_raises_at_first_witness:
  "\<exists>e. cql3_relation_lhs_completer (sample_ctxt ''relation'' Map.empty) sample_cass = Inl e"
  by (rule relation_lhs_raises_at_first) (simp add: binding_def get_binding_def sample_ctxt_def)

theorem next_declared_spec_witness:
  "\<exists>us vs. [''a'', ''b'', ''c''] = us @ ''b'' # vs \<and> ''b'' \<notin> set [''a''] \<and> set us \<subseteq> set [''a'']"
  by (rule next_declared_spec) simp

theorem delcol_offers_key_witness:
  "\<exists>items. delete_delcol_completer (sample_ctxt ''deleteSelector'' Map.empty) sample_cass = Inr (PList items) \<and>
    CStr (cql3_name ''p'') \<in> set items"
  by (rule delcol_offers_key [OF sample_from_layout sample_ctxt_layout(2)]) (simp add: sample_table_def)

definition counter_ctxt :: ctxt where
  "counter_ctxt = sample_ctxt ''updateStatement'' [''updatecol'' \<mapsto> BStr ''n'']"

definition counter_env :: "string \<Rightarrow> nat cass_completer \<Rightarrow> env" where
  "counter_env name f = \<lparr>ruleset = Map.empty,
     completers = [(''updateStatement'', name) \<mapsto> completerwrapper sample_cass f]\<rparr>"

lemma counter_facts:
  "remainder counter_ctxt = []" "binding counter_ctxt ''cassandra_conn'' \<noteq> BNone"
  "get_cf_layout counter_ctxt sample_cass = Inr sample_table"
  "productionname counter_ctxt = ''updateStatement''"
  "cass_types sample_cass = sample_types"
proof -
  show "get_cf_layout counter_ctxt sample_cass = Inr sample_table"
    by (simp add: counter_ctxt_def)
qed (simp_all add: counter_ctxt_def sample_ctxt_def binding_def get_binding_def sample_cass_def)

lemma counter_col: "current_column cql3_dequote_name counter_ctxt = Inr ''n''"
proof -
  have "cql3_dequote_name ''n'' = ''n''" by code_simp
  then show ?thesis
    by (simp add: current_column_def counter_ctxt_def sample_ctxt_def dequote_binding_def get_binding_def as_str_def)
qed

lemma counter_type: "column_type sample_table ''n'' = Inr 2"
  by (simp add: column_type_def get_column_def sample_table_def the_attr_def)

theorem counter_increment_raises_witness:
  "try_registered_completion (counter_env ''inc'' update_counter_inc_completer) counter_ctxt ''inc'' (Some []) =
     Inl TypeError"
proof (rule counter_increment_raises [where cass = sample_cass and layout = sample_table and col = "''n''"])
  show "is_counter_col3 (cass_types sample_cass) sample_table ''n''"
    by (simp add: is_counter_col3_def get_column_def sample_table_def sample_coldefs_def sample_cass_def sample_types_def)
qed (simp_all add: counter_facts counter_col counter_env_def)

theorem counter_name_in_letters_witness:
  "\<exists>cs'. try_registered_completion (counter_env ''update_rhs'' update_countername_completer3) counter_ctxt
      ''update_rhs'' (Some []) = Inr (True, Some cs') \<and>
    set cs' = set [] \<union> (\<lambda>ch. CStr [ch]) ` set (cql3_name ''n'')"
proof (rule counter_name_in_letters [where cass = sample_cass and layout = sample_table and ty = 2])
  show "typename (cass_types sample_cass) 2 = ''counter''"
    by (simp add: sample_cass_def sample_types_def)
qed (simp_all add: counter_facts counter_col counter_type counter_env_def)

theorem new_obsolete_not_recognised_witness:
  "\<not> is_obsolete (snd (use_post_3_0_0_syntax (new_rule_set, initial_options))) ''compaction_parameters''"
  by (rule new_obsolete_not_recognised) (simp add: new_obsolete_cf_options_def)

theorem option_pairs_break_completion_witness:
  "pick_candidates True sample_scenario [] [CStr ''USE'', CPair ''comment'' None] = Inl AttributeError"
  by (rule option_pairs_break_completion [of "''comment''" None]) simp

section \<open>Values\<close>

definition sample_platform :: "unit platform" where
  "sample_platform = \<lparr>encode = map char_of, decode = map of_char, format_g = (\<lambda>n x. ''0''),
     float_str = (\<lambda>x. ''0.0''), collection_str = (\<lambda>v. ''[]''), local_strftime = (\<lambda>f n. f),
     local_isdst = (\<lambda>n. False), tz_altzone = 0, tz_timezone = 0\<rparr>"

definition plain_args :: format_args where
  "plain_args = \<lparr>fa_colormap = empty_colormap, fa_time_format = [], fa_float_precision = 3, fa_nullval = ''null''\<rparr>"

definition list_of_lists :: cqltype where
  "list_of_lists = CqlType ''list'' [CqlType ''list'' [CqlType ''int'' []]]"

definition sample_value :: "unit cqlvalue" where
  "sample_value = VList [VList [], VList [VObject ''7'']]"

lemma sample_format:
  "format_by_type sample_platform list_of_lists (Some sample_value) None False None None None =
     Inr \<lparr>strval = ''[[], [7]]'', coloredval = ''[[], [7]]'', displaywidth = 7\<rparr>"
  by code_simp

theorem format_width_witness:
  "int (length (strval \<lparr>strval = ''[[], [7]]'', coloredval = ''[[], [7]]'', displaywidth = 7\<rparr>)) =
    displaywidth \<lparr>strval = ''[[], [7]]'', coloredval = ''[[], [7]]'', displaywidth = 7\<rparr> +
    empty_collections list_of_lists sample_value"
  by (rule format_width [OF sample_format]) (simp add: sample_value_def)

theorem text_width_nonneg_witness:
  "\<exists>fv. format_value_text sample_platform plain_args (VText [97, 9, 98]) = Inr fv \<and>
    displaywidth fv = sum_list (map (\<lambda>c. width_spec (int c)) (escape_text [97, 9, 98])) \<and> 0 \<le> displaywidth fv"
proof -
  have "escape_text [97, 9, 98] = [97, 92, 116, 98]" by code_simp
  then have dec: "decode sample_platform (encode sample_platform (escape_text [97, 9, 98])) = escape_text [97, 9, 98]"
    by (simp add: sample_platform_def of_char_of)
  moreover obtain fv where fv: "format_value_text sample_platform plain_args (VText [97, 9, 98]) = Inr fv"
    by (simp add: format_value_text_def color_text_def plain_args_def empty_colormap_def dec wcswidth_eq Let_def)
  ultimately show ?thesis
    using text_width_nonneg [OF dec fv] by (simp add: plain_args_def)
qed

end
