(* ===== verification/Hod_Util.thy ===== *)
theory Hod_Util
  imports Prelude "HOL-Library.AList" "HOL-Library.Sublist"
begin

text \<open>
  The helpers of Hadoop on Demand: \<open>hodlib/Common/util.py\<close> and the address handling of
  \<open>hodlib/Common/tcp.py\<close>. What the operating system answers (signals, name service, connections, the
  output of commands) is an argument. A dict of strings is an association list in the order Python
  iterates over it.
\<close>

type_synonym attrs = "(string \<times> string) list"

definition attr_item :: "attrs \<Rightarrow> string \<Rightarrow> string res" where
  "attr_item d k = key_res (map_of d) k"

definition attr_set :: "string \<Rightarrow> string \<Rightarrow> attrs \<Rightarrow> attrs" where
  "attr_set k v d = AList.update k v d"

definition attr_default :: "string \<Rightarrow> string \<Rightarrow> attrs \<Rightarrow> attrs" where
  "attr_default k v d = (if map_of d k = None then attr_set k v d else d)"

lemma map_of_attr_set [simp]: "map_of (attr_set k v d) = (map_of d)(k \<mapsto> v)"
  by (simp add: attr_set_def update_conv')

lemma map_of_attr_default: "map_of (attr_default k v d) k' =
    (if k' = k \<and> map_of d k = None then Some v else map_of d k')"
  by (simp add: attr_default_def)

lemma attr_item_set [simp]: "attr_item (attr_set k v d) k' = (if k' = k then Inr v else attr_item d k')"
  by (simp add: attr_item_def key_res_def)

section \<open>Processes and permissions\<close>

datatype kill_result = Delivered | NoSuchProcess | NotPermitted

definition isProcessRunning :: "kill_result \<Rightarrow> bool" where
  "isProcessRunning r \<longleftrightarrow> r = Delivered \<or> r = NotPermitted"

text \<open>
  \<open>get_perms\<close>: for each of user, group and others the bits R, W, X count 4, 2, 1, and so do set-uid,
  set-gid and the sticky bit, which come first. \<open>mode\<close> is what \<open>os.stat\<close> gives; the bits are numbered
  from the least significant one.
\<close>

definition perm_set :: "nat \<Rightarrow> (nat \<times> nat) list \<Rightarrow> nat" where
  "perm_set mode places =
     fold (\<lambda>(b, place) acc. if bit mode b then acc + 2 ^ place else acc) places 0"

definition get_perms :: "nat \<Rightarrow> string" where
  "get_perms st_mode =
     (let mode = st_mode mod 4096 in
      nat_str (perm_set mode [(11, 2), (10, 1), (9, 0)]) @
      nat_str (perm_set mode [(8, 2), (7, 1), (6, 0)]) @
      nat_str (perm_set mode [(5, 2), (4, 1), (3, 0)]) @
      nat_str (perm_set mode [(2, 2), (1, 1), (0, 0)]))"

lemma three_bits: "(if odd (n div 4) then 4 else 0) + (if odd (n div 2) then 2 else 0) +
    (if odd n then 1 else 0) = n mod (8 :: nat)"
proof -
  have "n mod (2 * (2 * 2)) = 2 * (n div 2 mod (2 * 2)) + n mod 2"
    by (rule mod_mult2_eq)
  also have "n div 2 mod (2 * 2) = 2 * (n div 2 div 2 mod 2) + n div 2 mod 2"
    by (rule mod_mult2_eq)
  finally have "n mod 8 = 4 * (n div 4 mod 2) + 2 * (n div 2 mod 2) + n mod 2"
    by (simp add: div_mult2_eq [symmetric])
  then show ?thesis by (simp add: mod2_eq_if)
qed

lemma perm_set_digit: "perm_set m [(b + 2, 2), (b + 1, 1), (b, 0)] = m div 2 ^ b mod 8"
proof -
  have "m div 2 ^ (b + 2) = m div 2 ^ b div 4" "m div 2 ^ (b + 1) = m div 2 ^ b div 2"
    by (simp_all only: power_add div_mult2_eq) simp_all
  then show ?thesis
    using three_bits [of "m div 2 ^ b"] by (auto simp: perm_set_def bit_iff_odd split: if_splits)
qed

lemma perm_set_low: "perm_set m [(2, 2), (1, 1), (0, 0)] = m mod 8"
  using three_bits [of m] by (auto simp: perm_set_def bit_iff_odd split: if_splits)

lemma mod_then_div: "0 < p \<Longrightarrow> m mod (p * q) div p = m div p mod (q :: nat)"
  by (simp add: mod_mult2_eq)

lemma octal_digits:
  "(m mod 4096) div 512 mod 8 = m div 512 mod (8 :: nat)" "(m mod 4096) div 64 mod 8 = m div 64 mod (8 :: nat)"
  "(m mod 4096) div 8 mod 8 = m div 8 mod (8 :: nat)" "m mod 4096 mod 8 = m mod (8 :: nat)"
  using mod_then_div [of 512 m 8] mod_then_div [of 64 m 64] mod_then_div [of 8 m 512]
  by (simp_all add: mod_mod_cancel)

lemma perm_digits:
  "perm_set (m mod 4096) [(11, 2), (10, 1), (9, 0)] = m div 512 mod 8"
  "perm_set (m mod 4096) [(8, 2), (7, 1), (6, 0)] = m div 64 mod 8"
  "perm_set (m mod 4096) [(5, 2), (4, 1), (3, 0)] = m div 8 mod 8"
  "perm_set (m mod 4096) [(2, 2), (1, 1), (0, 0)] = m mod 8"
  using perm_set_digit [of "m mod 4096" 9] perm_set_digit [of "m mod 4096" 6]
    perm_set_digit [of "m mod 4096" 3]
  by (simp_all add: octal_digits perm_set_low del: One_nat_def)

text \<open>\<open>get_perms\<close> writes the four octal digits of the mode.\<close>

theorem get_perms_octal:
  "get_perms m = concat (map nat_str [m div 512 mod 8, m div 64 mod 8, m div 8 mod 8, m mod 8])"
  unfolding get_perms_def Let_def perm_digits by simp

section \<open>Names and configuration\<close>

text \<open>\<open>me\<close> is the node name; the name service answers a canonical name and aliases.\<close>

definition local_fqdn :: "string \<Rightarrow> string \<Rightarrow> string list \<Rightarrow> string" where
  "local_fqdn me canonical aliases =
     (case fold (\<lambda>name fqdn. if CHR ''.'' \<in> set name \<and> startswith name me then Some name else fqdn)
        (aliases @ [canonical]) None of
      None \<Rightarrow> me | Some fqdn \<Rightarrow> fqdn)"

text \<open>\<open>re.search("\s*dfs.*$", command)\<close>: the dot matches no newline, \<open>$\<close> also before a final one.\<close>

definition one_line :: "string \<Rightarrow> bool" where
  "one_line s \<longleftrightarrow> newline \<notin> set (if s \<noteq> [] \<and> last s = newline then butlast s else s)"

definition is_dfs_command :: "string \<Rightarrow> bool" where
  "is_dfs_command command \<longleftrightarrow>
     list_ex (\<lambda>t. startswith t ''dfs'' \<and> one_line (drop 3 t)) (suffixes command)"

definition need_to_allocate :: "bool \<Rightarrow> bool \<Rightarrow> bool \<Rightarrow> string \<Rightarrow> bool" where
  "need_to_allocate allocated hdfs_external mapred_external command =
     (if allocated then False
      else if is_dfs_command command \<and> hdfs_external then False
      else if mapred_external then False
      else True)"

definition args_to_string :: "string list \<Rightarrow> string" where
  "args_to_string items = butlast (concat (map (\<lambda>item. item @ '' '') items))"

lemma args_to_string_join: "args_to_string items = py_join '' '' items"
proof (induction items)
  case (Cons s ts)
  then show ?case by (cases ts) (simp_all add: args_to_string_def butlast_append)
qed (simp add: args_to_string_def)

text \<open>
  \<open>reEscapeSeq.sub(r"\1", value)\<close> with the pattern of a backslash and an optional character. A backslash
  at the end, or before a newline, leaves the group unmatched, which Python 2 refuses to substitute.
\<close>

fun sub_escapes :: "string \<Rightarrow> string res" where
  "sub_escapes [] = Inr []"
| "sub_escapes [c] = (if c = bslash then Inl (PyException ''unmatched group'') else Inr [c])"
| "sub_escapes (c # d # s) =
     (if c = bslash then
        (if d = newline then Inl (PyException ''unmatched group'')
         else ebind (sub_escapes s) (\<lambda>t. Inr (d # t)))
      else ebind (sub_escapes (d # s)) (\<lambda>t. Inr (c # t)))"

text \<open>
  \<open>replace_escapes\<close>: in every option of type \<open>keyval\<close> that is set, each value. A section is its options
  with their types; the options object maps a section and an option to its value.
\<close>

datatype optval = OString string | OKeyVal attrs | OInt int | OBool bool | OList "string list" | OUnset

type_synonym options_object = "string \<Rightarrow> string \<rightharpoonup> optval"

definition replace_option :: "string \<Rightarrow> string \<times> string \<Rightarrow> options_object \<Rightarrow> options_object res" where
  "replace_option section opt obj =
     (if snd opt = ''keyval'' then
        (case obj section (fst opt) of
           None \<Rightarrow> Inr obj
         | Some (OKeyVal d) \<Rightarrow>
             ebind (emap (\<lambda>(k, v). ebind (sub_escapes v) (\<lambda>v'. Inr (k, v'))) d) (\<lambda>d'.
               Inr (obj(section := (obj section)(fst opt \<mapsto> OKeyVal d'))))
         | Some _ \<Rightarrow> Inl AttributeError)
      else Inr obj)"

fun replace_section :: "string \<Rightarrow> (string \<times> string) list \<Rightarrow> options_object \<Rightarrow> options_object res" where
  "replace_section section [] obj = Inr obj"
| "replace_section section (opt # opts) obj =
     ebind (replace_option section opt obj) (replace_section section opts)"

fun replace_escapes :: "(string \<times> (string \<times> string) list) list \<Rightarrow> options_object \<Rightarrow> options_object res" where
  "replace_escapes [] obj = Inr obj"
| "replace_escapes ((section, opts) # rest) obj =
     ebind (replace_section section opts obj) (replace_escapes rest)"

text \<open>The escaping that \<open>replace_escapes\<close> undoes.\<close>

definition escape_special :: "string \<Rightarrow> string" where
  "escape_special s = concat (map (\<lambda>c. if c \<in> {bslash, CHR '','', CHR ''=''} then [bslash, c] else [c]) s)"

lemma sub_escapes_plain: "c \<noteq> bslash \<Longrightarrow> sub_escapes (c # s) = ebind (sub_escapes s) (\<lambda>t. Inr (c # t))"
  by (cases s) auto

text \<open>Replacing the escapes of a value that was escaped gives the value back.\<close>

theorem sub_escapes_roundtrip: "sub_escapes (escape_special s) = Inr s"
proof (induction s)
  case (Cons c s)
  then show ?case
    by (auto simp: escape_special_def sub_escapes_plain)
qed (simp add: escape_special_def)

section \<open>Hadoop\<close>

text \<open>\<open>re.match("Hadoop ([0-9]+)\.([0-9]+).*", line)\<close>.\<close>

definition match_version :: "string \<Rightarrow> (string \<times> string) option" where
  "match_version line =
     (if startswith line ''Hadoop '' then
        (let r = drop 7 line; major = takeWhile is_digit r; r' = dropWhile is_digit r;
             minor = takeWhile is_digit (drop 1 r') in
         if major \<noteq> [] \<and> startswith r' ''.'' \<and> minor \<noteq> [] then Some (major, minor) else None)
      else None)"

definition hadoopVersion :: "nat option \<Rightarrow> string list \<Rightarrow> (string option \<times> string option) res" where
  "hadoopVersion exit_code outp =
     (if exit_code = Some 0 then
        ebind (nth_res outp 0) (\<lambda>line.
          Inr (case match_version line of None \<Rightarrow> (None, None) | Some (a, b) \<Rightarrow> (Some a, Some b)))
      else Inr (None, None))"

fun parse_equals_loop :: "attrs \<Rightarrow> string list \<Rightarrow> attrs res" where
  "parse_equals_loop d [] = Inr d"
| "parse_equals_loop d (elems # rest) =
     (let splits = split_char (CHR ''='') elems in
      ebind (nth_res splits 1) (\<lambda>v. parse_equals_loop (attr_set (splits ! 0) v d) rest))"

definition parseEquals :: "string list \<Rightarrow> attrs res" where
  "parseEquals list = parse_equals_loop [] list"

definition key_equals :: "string \<times> string \<Rightarrow> string" where
  "key_equals kv = fst kv @ ''='' @ snd kv"

lemma attr_set_new: "map_of d k = None \<Longrightarrow> attr_set k v d = d @ [(k, v)]"
  unfolding attr_set_def by (induction d) (auto split: if_splits)

lemma parse_equals_loop_pairs:
  assumes "distinct (map fst d @ map fst kvs)"
    and "list_all (\<lambda>(k, v). CHR ''='' \<notin> set k \<and> CHR ''='' \<notin> set v) kvs"
  shows "parse_equals_loop d (map key_equals kvs) = Inr (d @ kvs)"
  using assms
proof (induction kvs arbitrary: d)
  case (Cons kv kvs)
  obtain k v where kv: "kv = (k, v)" by (cases kv)
  with Cons.prems have "split_char (CHR ''='') (key_equals kv) = [k, v]"
    by (simp add: key_equals_def split_char_append split_char_single)
  moreover have "map_of d k = None"
    using Cons.prems kv by (auto simp: map_of_eq_None_iff)
  ultimately show ?case
    using Cons.prems Cons.IH [of "d @ [(k, v)]"] by (auto simp: kv attr_set_new nth_res_def)
qed simp

text \<open>A list of settings without further equals signs is read back as the dict it was made from.\<close>

theorem parseEquals_roundtrip:
  assumes "distinct (map fst kvs)"
    and "list_all (\<lambda>(k, v). CHR ''='' \<notin> set k \<and> CHR ''='' \<notin> set v) kvs"
  shows "parseEquals (map key_equals kvs) = Inr kvs"
  using parse_equals_loop_pairs [of "[]" kvs] assms by (simp add: parseEquals_def)

definition getMapredSystemDirectory :: "string \<Rightarrow> string \<Rightarrow> string \<Rightarrow> string" where
  "getMapredSystemDirectory mrSysDirRoot userid jobid =
     path_join (path_join (path_join mrSysDirRoot userid) ''mapredsystem'') jobid"

definition to_http_url :: "string \<Rightarrow> string \<Rightarrow> string" where
  "to_http_url host port = ''http://'' @ host @ '':'' @ port"

text \<open>The interrupt flag of the client.\<close>

record hod_interrupt =
  interrupt_flag :: bool

definition setFlag :: "bool \<Rightarrow> hod_interrupt \<Rightarrow> hod_interrupt" where
  "setFlag val h = h\<lparr>interrupt_flag := val\<rparr>"

definition isSet :: "hod_interrupt \<Rightarrow> bool" where
  "isSet h = interrupt_flag h"

section \<open>TCP addresses\<close>

definition get_address_tuple :: "string \<Rightarrow> (string \<times> int) res" where
  "get_address_tuple address =
     (let addressList = split_char (CHR '':'') address in
      ebind (nth_res addressList 1) (\<lambda>p. ebind (py_int p) (\<lambda>port. Inr (addressList ! 0, port))))"

text \<open>The address of a socket: a pair or a string.\<close>

datatype net_address = AddrPair string string | AddrString string

definition tcpSocket :: "net_address \<Rightarrow> (string \<times> int) res" where
  "tcpSocket address =
     (case address of
        AddrPair host port \<Rightarrow> ebind (py_int port) (\<lambda>p. Inr (host, p))
      | AddrString s \<Rightarrow>
          ebind (get_address_tuple s) (\<lambda>(host, p). Inr (if host = [] then ''localhost'' else host, p)))"

definition octet :: "int \<Rightarrow> bool" where
  "octet n \<longleftrightarrow> 0 \<le> n \<and> n \<le> 255"

definition check_net_address :: "string \<Rightarrow> bool res" where
  "check_net_address address =
     (let pieces = split_char (CHR ''.'') address in
      if length pieces \<noteq> 4 then Inr False
      else ebind (emap py_int pieces) (\<lambda>ns. Inr (list_all octet ns)))"

definition check_ip_address :: "string \<Rightarrow> bool res" where
  "check_ip_address address =
     (let pieces = split_char (CHR ''.'') address in
      if length pieces \<noteq> 4 then Inr False
      else ebind (emap py_int pieces) (\<lambda>ns.
        Inr (1 \<le> hd ns \<and> hd ns \<le> 254 \<and> list_all octet (tl ns))))"

text \<open>\<open>re.match("^\d+\.\d+\.\d+\.\d+$", host)\<close>.\<close>

definition may_be_ip :: "string \<Rightarrow> bool" where
  "may_be_ip host \<longleftrightarrow>
     (let s = (if host \<noteq> [] \<and> last host = newline then butlast host else host);
          pieces = split_char (CHR ''.'') s in
      length pieces = 4 \<and> list_all (\<lambda>p. p \<noteq> [] \<and> list_all is_digit p) pieces)"

definition verify :: "string \<times> int \<Rightarrow> bool res" where
  "verify hp =
     (if may_be_ip (fst hp) then
        ebind (check_ip_address (fst hp)) (\<lambda>ok. Inr (ok \<and> 0 \<le> snd hp))
      else Inr (0 \<le> snd hp))"

definition dotted :: "nat \<Rightarrow> nat \<Rightarrow> nat \<Rightarrow> nat \<Rightarrow> string" where
  "dotted a b c d = nat_str a @ ''.'' @ nat_str b @ ''.'' @ nat_str c @ ''.'' @ nat_str d"

lemma nat_str_no_dot [simp]: "CHR ''.'' \<notin> set (nat_str n)"
  using nat_str_digits [of n] by (auto simp: list_all_iff is_digit_def code_point_def)

lemma split_dotted [simp]:
  "split_char (CHR ''.'') (dotted a b c d) = [nat_str a, nat_str b, nat_str c, nat_str d]"
  by (simp add: dotted_def split_char_append split_char_single)

text \<open>
  Verifying a dotted address checks its octets: the first between 1 and 254, the others up to 255.
\<close>

theorem verify_dotted:
  "verify (dotted a b c d, p) = Inr (1 \<le> a \<and> a \<le> 254 \<and> b \<le> 255 \<and> c \<le> 255 \<and> d \<le> 255 \<and> 0 \<le> p)"
proof -
  have ne: "dotted a b c d \<noteq> []" "last (dotted a b c d) = last (nat_str d)"
    using nat_str_digits [of d] by (simp_all add: dotted_def)
  have "last (dotted a b c d) \<noteq> newline"
    unfolding ne(2) using nat_str_last [of d] by (auto simp: is_digit_def code_point_def)
  then have "may_be_ip (dotted a b c d)"
    using nat_str_digits by (simp add: may_be_ip_def)
  then show ?thesis
    by (auto simp: verify_def check_ip_address_def octet_def)
qed

text \<open>\<open>get_cluster_status\<close>: \<open>connect\<close> says whether a connection to an address is accepted.\<close>

definition get_cluster_status :: "(string \<times> int \<Rightarrow> bool) \<Rightarrow> net_address \<Rightarrow> net_address \<Rightarrow> nat res" where
  "get_cluster_status connect hdfsAddress mapredAddress =
     ebind (tcpSocket mapredAddress) (\<lambda>m.
       let status = (if connect m then 0 else 14) in
       ebind (tcpSocket hdfsAddress) (\<lambda>h.
         Inr (if connect h then status else if status > 0 then 10 else 13)))"

end
