(* ===== verification/Hod_Idle.thy ===== *)
theory Hod_Idle
  imports Hod_Util
begin

text \<open>
  The monitor of Hadoop on Demand that finds out whether a job tracker is idle,
  \<open>hodlib/RingMaster/idleJobTracker.py\<close>. Exit codes, the output of the job client and the clock are arguments.
  Times are counted in ticks of the clock and are positive; the time 0 is the monitor's mark for \<open>not idle\<close>.
\<close>

section \<open>The output of the job client\<close>

record job_status =
  jobId :: string
  status :: nat

record monitor =
  idlenessLimit :: nat
  hadoopDir :: string
  firstIdleTime :: nat
  jobTrackerURL :: "string option"
  stopFlag :: bool

text \<open>\<open>"([0-9]+) jobs currently running.*"\<close>, from the start of the line.\<close>

definition match_job_count :: "string \<Rightarrow> nat option" where
  "match_job_count line =
     (let ds = takeWhile is_digit line in
      if ds \<noteq> [] \<and> startswith (dropWhile is_digit line) '' jobs currently running'' then Some (digits_value ds) else None)"

text \<open>\<open>"(\S+)\s+(\d)\s+\d+\s+\S+$"\<close> on a stripped line: four fields, the second one digit, the third digits.\<close>

definition extractJobStatus :: "string \<Rightarrow> job_status option" where
  "extractJobStatus line =
     (case split_ws (py_strip line) of
        [a, [d], n, e] \<Rightarrow>
          (if is_digit d \<and> list_all is_digit n then Some \<lparr>jobId = a, status = digits_value [d]\<rparr> else None)
      | _ \<Rightarrow> None)"

datatype job_count = JobCount int | ClientError int

text \<open>The last line with a count wins; a client that fails in another way than with code 1 counts \<open>-1\<close> jobs.\<close>

definition getJobCount :: "int option \<Rightarrow> string list \<Rightarrow> job_count" where
  "getJobCount exit_code lines =
     (if exit_code = Some 0 then
        JobCount (fold (\<lambda>line jobs. case match_job_count line of None \<Rightarrow> jobs | Some n \<Rightarrow> int n) lines (-1))
      else if exit_code = Some 1 then ClientError 1
      else JobCount (-1))"

definition isCompatibleHadoopVersion :: "string option \<times> string option \<Rightarrow> string \<times> string \<Rightarrow> bool res" where
  "isCompatibleHadoopVersion ver expected =
     (case ver of
        (Some major, minor) \<Rightarrow>
          ebind (py_int major) (\<lambda>a. ebind (py_int (fst expected)) (\<lambda>a'.
            if a < a' then Inr False
            else (case minor of
                None \<Rightarrow> Inr False
              | Some m \<Rightarrow> ebind (py_int m) (\<lambda>b. ebind (py_int (snd expected)) (\<lambda>b'. Inr (b' \<le> b))))))
      | _ \<Rightarrow> Inr False)"

definition status_command :: "string \<Rightarrow> string \<Rightarrow> string \<Rightarrow> string" where
  "status_command dir url option =
     path_join (path_join dir ''bin'') ''hadoop'' @ '' job -jt '' @ url @ '' '' @ option"

text \<open>\<open>getJobsStatus\<close>: exceptions are swallowed.\<close>

definition getJobsStatus :: "string option \<times> string option \<Rightarrow> int option \<Rightarrow> string list \<Rightarrow> job_status list" where
  "getJobsStatus ver exit_code lines =
     (case isCompatibleHadoopVersion ver (''0'', ''16'') of
        Inr True \<Rightarrow> (if exit_code = Some 0 then List.map_filter extractJobStatus lines else [])
      | _ \<Rightarrow> [])"

section \<open>The address of the job tracker\<close>

definition isValidJobTrackerURL :: "string option \<Rightarrow> bool" where
  "isValidJobTrackerURL url \<longleftrightarrow> (case url of None \<Rightarrow> False | Some u \<Rightarrow> u \<noteq> ''not found'' \<and> \<not> startswith u ''Error'')"

text \<open>
  \<open>getJobTrackerURL\<close>: each answer of the provider comes with the stop flag after the sleep that follows it.
  The monitoring starts when the last answer is valid; with no more answers it still waits.
\<close>

fun find_url :: "(string option \<times> bool) list \<Rightarrow> string option out" where
  "find_url [] = Diverge"
| "find_url ((url, stopped) # answers) =
     (if isValidJobTrackerURL url then Ret url else if stopped then Ret None else find_url answers)"

text \<open>\<open>JobTrackerMonitor.__init__\<close> refuses versions that are not compatible with 0.15.\<close>

definition new_monitor :: "bool \<Rightarrow> string option \<times> string option \<Rightarrow> nat \<Rightarrow> string \<Rightarrow> monitor res" where
  "new_monitor path_exists ver limit dir =
     (if \<not> path_exists then Inl (PyException ''Invalid Hadoop path specified'')
      else ebind (isCompatibleHadoopVersion ver (''0'', ''15'')) (\<lambda>ok.
        if \<not> ok then Inl (PyException ''Incompatible Hadoop Version: Cannot check status'')
        else Inr \<lparr>idlenessLimit = limit, hadoopDir = dir, firstIdleTime = 0, jobTrackerURL = None, stopFlag = False\<rparr>))"

text \<open>
  The comparison is made number by number, so Hadoop 1.2, which is later than 0.15, is refused because 2
  is less than 15.
\<close>

theorem hadoop_1_refused:
  assumes "b < 15"
  shows "new_monitor True (Some (nat_str a), Some (nat_str b)) limit dir =
    Inl (PyException ''Incompatible Hadoop Version: Cannot check status'')"
proof -
  have "py_int ''0'' = Inr 0" "py_int ''15'' = Inr 15"
    by (simp_all add: py_int_def py_strip_def py_lstrip_def startswith_def is_space_def is_digit_def code_point_def digits_value_def)
  then show ?thesis using assms by (simp add: new_monitor_def isCompatibleHadoopVersion_def)
qed

section \<open>Idleness\<close>

definition idle_count :: "job_count \<Rightarrow> bool" where
  "idle_count c \<longleftrightarrow> (case c of JobCount n \<Rightarrow> n = 0 | ClientError e \<Rightarrow> True)"

definition isIdle :: "nat \<Rightarrow> job_count \<Rightarrow> monitor \<Rightarrow> monitor \<times> bool" where
  "isIdle now c m =
     (if idle_count c then
        (if firstIdleTime m = 0 then (m\<lparr>firstIdleTime := now\<rparr>, False)
         else (m, int (idlenessLimit m) \<le> int now - int (firstIdleTime m)))
      else (m\<lparr>firstIdleTime := 0\<rparr>, False))"

text \<open>The polls so far, each with its time; the state does not depend on the answers.\<close>

definition polls :: "(nat \<times> job_count) list \<Rightarrow> monitor \<Rightarrow> monitor" where
  "polls ps m = fold (\<lambda>(now, c) m. fst (isIdle now c m)) ps m"

text \<open>The reference: the polls at the end without a break that found the job tracker idle.\<close>

definition idle_tail :: "(nat \<times> job_count) list \<Rightarrow> (nat \<times> job_count) list" where
  "idle_tail ps = rev (takeWhile (\<lambda>(now, c). idle_count c) (rev ps))"

lemma idle_tail_snoc: "idle_tail (ps @ [(now, c)]) = (if idle_count c then idle_tail ps @ [(now, c)] else [])"
  by (simp add: idle_tail_def)

lemma polls_snoc: "polls (ps @ [(now, c)]) m = fst (isIdle now c (polls ps m))"
  by (simp add: polls_def)

lemma idlenessLimit_polls [simp]: "idlenessLimit (polls ps m) = idlenessLimit m"
proof (induction ps rule: rev_induct)
  case (snoc p ps)
  then show ?case by (cases p) (simp add: polls_snoc isIdle_def)
qed (simp add: polls_def)

lemma polls_first_idle:
  "list_all (\<lambda>(now, c). 0 < now) ps \<Longrightarrow> firstIdleTime m = 0 \<Longrightarrow>
   firstIdleTime (polls ps m) = (if idle_tail ps = [] then 0 else fst (hd (idle_tail ps)))
   \<and> (idle_tail ps \<noteq> [] \<longrightarrow> 0 < fst (hd (idle_tail ps)))"
proof (induction ps rule: rev_induct)
  case Nil
  then show ?case by (simp add: polls_def idle_tail_def)
next
  case (snoc p ps)
  obtain now c where p: "p = (now, c)" by (cases p)
  with snoc have IH: "firstIdleTime (polls ps m) = (if idle_tail ps = [] then 0 else fst (hd (idle_tail ps)))"
      "idle_tail ps \<noteq> [] \<longrightarrow> 0 < fst (hd (idle_tail ps))" "0 < now" by simp_all
  then show ?case by (auto simp: p polls_snoc idle_tail_snoc isIdle_def)
qed

text \<open>
  C19: The job tracker is reported as idle at a poll exactly when that poll finds it idle, the poll before did
  too, and the first of the idle polls without a break is at least the limit ago.
\<close>

theorem idle_report_exact:
  assumes "list_all (\<lambda>(now, c). 0 < now) ps" and "firstIdleTime m = 0"
  shows "snd (isIdle now c (polls ps m)) \<longleftrightarrow>
    idle_count c \<and> idle_tail ps \<noteq> [] \<and> int (idlenessLimit m) \<le> int now - int (fst (hd (idle_tail ps)))"
  using polls_first_idle [OF assms] by (auto simp: isIdle_def)

lemma idle_report_exact_witness:
  "snd (isIdle 9 (JobCount 0) (polls [(1, JobCount 0), (2, JobCount 3), (4, ClientError 1), (6, JobCount 0)]
     \<lparr>idlenessLimit = 5, hadoopDir = ''/h'', firstIdleTime = 0, jobTrackerURL = None, stopFlag = False\<rparr>))"
  by (subst idle_report_exact) (simp_all add: idle_tail_def idle_count_def)

text \<open>\<open>monitorJobTracker\<close> calls the handler of the ring master exactly when the job tracker is idle.\<close>

definition monitorJobTracker :: "nat \<Rightarrow> job_count \<Rightarrow> monitor \<Rightarrow> ('h \<Rightarrow> 'h) \<Rightarrow> 'h \<Rightarrow> monitor \<times> 'h" where
  "monitorJobTracker now c m handle h =
     (case isIdle now c m of (m', b) \<Rightarrow> (m', if b then handle h else h))"

definition stop_monitor :: "monitor \<Rightarrow> monitor" where
  "stop_monitor m = m\<lparr>stopFlag := True\<rparr>"

lemma hadoop_1_refused_witness:
  "new_monitor True (Some (nat_str 1), Some (nat_str 2)) 60 ''/h'' =
    Inl (PyException ''Incompatible Hadoop Version: Cannot check status'')"
  by (rule hadoop_1_refused) simp

end
