(* ===== verification/Hod_Types.thy ===== *)
theory Hod_Types
  imports Hod_Util
begin

text \<open>
  The types of options of Hadoop on Demand, \<open>hodlib/Common/types.py\<close>: which types there are, how values are
  printed (\<open>typeToString\<close>), checked and normalised (\<open>typeValidator\<close>). What the operating system and the
  standard library answer about files, hosts, accounts, floats and URIs is the record \<open>type_env\<close>.
\<close>

section \<open>Tables\<close>

record type_info_row =
  db :: string
  units :: "string option"

record db_type_row =
  db_type :: string
  store :: string
  db_table :: bool

definition types :: "(string \<times> type_info_row) list" where
  "types =
    [(''directory'', \<lparr>db = ''string'', units = None\<rparr>),
     (''address'', \<lparr>db = ''string'', units = None\<rparr>),
     (''ip_address'', \<lparr>db = ''string'', units = None\<rparr>),
     (''net_address'', \<lparr>db = ''string'', units = None\<rparr>),
     (''bool'', \<lparr>db = ''bool'', units = None\<rparr>),
     (''int'', \<lparr>db = ''integer'', units = None\<rparr>),
     (''float'', \<lparr>db = ''float'', units = None\<rparr>),
     (''pos_int'', \<lparr>db = ''integer'', units = None\<rparr>),
     (''neg_int'', \<lparr>db = ''integer'', units = None\<rparr>),
     (''pos_num'', \<lparr>db = ''float'', units = None\<rparr>),
     (''pos_float'', \<lparr>db = ''float'', units = None\<rparr>),
     (''neg_float'', \<lparr>db = ''float'', units = None\<rparr>),
     (''string'', \<lparr>db = ''string'', units = None\<rparr>),
     (''list'', \<lparr>db = ''string'', units = None\<rparr>),
     (''file'', \<lparr>db = ''string'', units = None\<rparr>),
     (''size'', \<lparr>db = ''integer'', units = Some ''bytes''\<rparr>),
     (''freq'', \<lparr>db = ''integer'', units = Some ''hz''\<rparr>),
     (''eaddress'', \<lparr>db = ''string'', units = None\<rparr>),
     (''tcp_port'', \<lparr>db = ''integer'', units = None\<rparr>),
     (''http_version'', \<lparr>db = ''float'', units = None\<rparr>),
     (''range'', \<lparr>db = ''string'', units = None\<rparr>),
     (''hostname'', \<lparr>db = ''string'', units = None\<rparr>),
     (''user_account'', \<lparr>db = ''string'', units = None\<rparr>),
     (''user_group'', \<lparr>db = ''string'', units = None\<rparr>),
     (''timestamp'', \<lparr>db = ''timestamp'', units = None\<rparr>),
     (''keyval'', \<lparr>db = ''string'', units = None\<rparr>),
     (''uri'', \<lparr>db = ''string'', units = None\<rparr>),
     ('''', \<lparr>db = ''string'', units = None\<rparr>)]"

definition dbTypes :: "(string \<times> db_type_row) list" where
  "dbTypes =
    [(''string'', \<lparr>db_type = ''varchar'', store = ''type_strings_0'', db_table = True\<rparr>),
     (''integer'', \<lparr>db_type = ''bigint'', store = ''integers'', db_table = False\<rparr>),
     (''float'', \<lparr>db_type = ''real'', store = ''floats'', db_table = False\<rparr>),
     (''bool'', \<lparr>db_type = ''boolean'', store = ''bools'', db_table = False\<rparr>),
     (''timestamp'', \<lparr>db_type = ''timestamp(0)'', store = ''timestamps'', db_table = False\<rparr>)]"

definition sizeFactors :: "(string \<times> nat) list" where
  "sizeFactors =
    [(''b'', 1),
     (''bytes'', 1),
     (''k'', 1024),
     (''kb'', 1024),
     (''m'', 1048576),
     (''mb'', 1048576),
     (''g'', 1073741824),
     (''gb'', 1073741824),
     (''t'', 1099511627776),
     (''tb'', 1099511627776),
     (''p'', 1125899906842624),
     (''pb'', 1125899906842624)]"

definition freqFactors :: "(string \<times> nat) list" where
  "freqFactors =
    [(''hz'', 1),
     (''khz'', 1000),
     (''mhz'', 1000000),
     (''ghz'', 1000000000),
     (''thz'', 1000000000000),
     (''phz'', 1000000000000000)]"

definition is_valid_type :: "string \<Rightarrow> bool" where
  "is_valid_type ty \<longleftrightarrow> map_of types ty \<noteq> None"

definition type_info :: "string \<Rightarrow> (db_type_row \<times> string option) res" where
  "type_info ty =
     ebind (key_res (map_of types) ty) (\<lambda>row.
     ebind (key_res (map_of dbTypes) (db row)) (\<lambda>info. Inr (info, units row)))"

text \<open>The methods the constructors find with \<open>dir(self)\<close>, by the part of their name after the prefix.\<close>

definition tostring_methods :: "string list" where
  "tostring_methods =
     [''directory'', ''address'', ''ip_address'', ''net_address'', ''bool'', ''int'', ''float'',
      ''pos_int'', ''neg_int'', ''freq'', ''pos_float'', ''pos_num'', ''neg_float'', ''string'',
      ''keyval'', ''list'', ''file'', ''size'', ''eaddress'', ''tcp_port'', ''http_version'', ''range'',
      ''timestamp'', ''hostname'', ''user_account'', ''user_group'', ''uri'', ''nothing'']"

definition verify_methods :: "string list" where
  "verify_methods =
     [''directory'', ''address'', ''ip_address'', ''net_address'', ''bool'', ''int'', ''float'',
      ''pos_int'', ''neg_int'', ''freq'', ''pos_float'', ''pos_num'', ''neg_float'', ''string'',
      ''keyval'', ''list'', ''file'', ''size'', ''eaddress'', ''tcp_port'', ''http_version'', ''range'',
      ''uri'', ''timestamp'', ''hostname'', ''user_account'', ''user_group'', ''nothing'']"

definition display_methods :: "string list" where
  "display_methods =
     [''default'', ''generic_number'', ''generic_mappable'', ''directory'', ''address'', ''ip_address'',
      ''net_address'', ''bool'', ''int'', ''float'', ''pos_int'', ''neg_int'', ''pos_num'',
      ''pos_float'', ''neg_float'', ''string'', ''list'', ''keyval'', ''file'', ''size'', ''freq'',
      ''eaddress'', ''tcp_port'', ''http_version'', ''range'', ''hostname'', ''user_account'',
      ''user_group'', ''timestamp'']"

text \<open>
  A constructor looks up, for every type, the method whose name is a prefix and the type; the attributes of the
  object are those with the mangled prefix of its own class.
\<close>

definition build_functions :: "string \<Rightarrow> (string \<times> string list) \<Rightarrow> (string \<times> string) list res" where
  "build_functions wanted own =
     emap (\<lambda>ty. if wanted @ ty \<in> set (map (\<lambda>m. fst own @ m) (snd own)) then Inr (ty, wanted @ ty)
       else if ty = [] then Inr (ty, ''nothing'')
       else Inl (PyException (''function '' @ wanted @ ty @ '' for type '' @ ty @ '' does not exist.'')))
       (map fst types)"

definition typeToString_init :: "(string \<times> string) list res" where
  "typeToString_init = build_functions ''_typeToString__tostring_'' (''_typeToString__tostring_'', tostring_methods)"

definition typeValidator_init :: "(string \<times> string) list res" where
  "typeValidator_init = build_functions ''_typeValidator__verify_'' (''_typeValidator__verify_'', verify_methods)"

definition display_init :: "(string \<times> string) list res" where
  "display_init = build_functions ''_cisplay__display_'' (''_display__display_'', display_methods)"

text \<open>Every type has a printer and a check; the display class, whose prefix is misspelt, cannot be created.\<close>

lemma typeToString_complete: "\<exists>fs. typeToString_init = Inr fs \<and> map fst fs = map fst types"
  by (simp add: typeToString_init_def build_functions_def types_def tostring_methods_def)

lemma typeValidator_complete: "\<exists>fs. typeValidator_init = Inr fs \<and> map fst fs = map fst types"
  by (simp add: typeValidator_init_def build_functions_def types_def verify_methods_def)

theorem display_init_raises: "\<exists>msg. display_init = Inl (PyException msg)"
  by (simp add: display_init_def build_functions_def types_def display_methods_def)

section \<open>Values and their printed form\<close>

text \<open>The Python values that options have; \<open>'f\<close> are the floats.\<close>

datatype 'f tval =
    VNone | VStr string | VInt int | VBool bool | VFloat 'f | VStrs "string list" | VInts "int list" | VDict attrs

record 'f type_env =
  is_dir :: "string \<Rightarrow> bool"
  is_file :: "string \<Rightarrow> bool"
  getcwd :: string
  chdir_ok :: "string \<Rightarrow> bool"
  realpath :: "string \<Rightarrow> string \<Rightarrow> string"
  str_of :: "'f tval \<Rightarrow> string"
  float_of_str :: "string \<Rightarrow> 'f option"
  float_of_int :: "int \<Rightarrow> 'f option"
  float_to_int :: "'f \<Rightarrow> int option"
  float_equals :: "'f \<Rightarrow> int \<Rightarrow> bool"
  float_neg :: "'f \<Rightarrow> bool"
  float_nonneg :: "'f \<Rightarrow> bool"
  resolves :: "string \<Rightarrow> bool"
  has_account :: "string \<Rightarrow> bool"
  has_group :: "string \<Rightarrow> bool"
  urlparse :: "string \<Rightarrow> string \<times> string \<times> string \<times> string \<times> string \<times> string"
  urlunsplit :: "string list \<Rightarrow> string"

definition py_str :: "'f type_env \<Rightarrow> 'f tval \<Rightarrow> string" where
  "py_str E v =
     (case v of VNone \<Rightarrow> ''None'' | VStr s \<Rightarrow> s | VInt i \<Rightarrow> int_str i
      | VBool b \<Rightarrow> (if b then ''True'' else ''False'') | _ \<Rightarrow> str_of E v)"

text \<open>\<open>value[0]\<close> and \<open>value[1]\<close> as \<open>"%s:%s"\<close> prints them.\<close>

definition item_str :: "'f tval \<Rightarrow> nat \<Rightarrow> string res" where
  "item_str v i =
     (case v of VStr s \<Rightarrow> ebind (nth_res s i) (\<lambda>c. Inr [c])
      | VStrs xs \<Rightarrow> nth_res xs i
      | VInts xs \<Rightarrow> ebind (nth_res xs i) (\<lambda>x. Inr (int_str x))
      | VDict d \<Rightarrow> Inl KeyError
      | _ \<Rightarrow> Inl TypeError)"

definition tostring_address :: "'f tval \<Rightarrow> 'f tval res" where
  "tostring_address v =
     ebind (item_str v 0) (\<lambda>a. ebind (item_str v 1) (\<lambda>b. Inr (VStr (a @ '':'' @ b))))"

definition py_equals_int :: "'f type_env \<Rightarrow> 'f tval \<Rightarrow> int \<Rightarrow> bool" where
  "py_equals_int E v n =
     (case v of VInt i \<Rightarrow> i = n | VBool b \<Rightarrow> (if b then 1 else 0) = n | VFloat f \<Rightarrow> float_equals E f n | _ \<Rightarrow> False)"

definition tostring_bool :: "'f type_env \<Rightarrow> 'f tval \<Rightarrow> 'f tval" where
  "tostring_bool E v =
     (if py_equals_int E v 0 then VStr ''false''
      else if py_equals_int E v 1 then VStr ''true''
      else VStr (py_str E v))"

text \<open>\<open>re.sub\<close> with two backslashes as the pattern and four as the replacement.\<close>

fun double_pairs :: "string \<Rightarrow> string" where
  "double_pairs (c # d # s) =
     (if c = bslash \<and> d = bslash then [bslash, bslash, bslash, bslash] @ double_pairs s
      else c # double_pairs (d # s))"
| "double_pairs s = s"

definition keyval_item :: "string \<times> string \<Rightarrow> string" where
  "keyval_item kv = fst kv @ ''='' @ double_pairs (snd kv) @ '',''"

definition tostring_keyval :: "'f tval \<Rightarrow> 'f tval res" where
  "tostring_keyval v =
     (case v of VDict d \<Rightarrow> Inr (VStr (butlast (dquote # concat (map keyval_item d)) @ [dquote]))
      | VStr [] \<Rightarrow> Inr (VStr [dquote])
      | VStrs [] \<Rightarrow> Inr (VStr [dquote])
      | VInts [] \<Rightarrow> Inr (VStr [dquote])
      | VInts (x # xs) \<Rightarrow>
          (if - int (length (x # xs)) \<le> x \<and> x < int (length (x # xs)) then Inl TypeError else Inl IndexError)
      | _ \<Rightarrow> Inl TypeError)"

definition iterated :: "'f tval \<Rightarrow> string list res" where
  "iterated v =
     (case v of VStr s \<Rightarrow> Inr (map (\<lambda>c. [c]) s) | VStrs xs \<Rightarrow> Inr xs | VInts xs \<Rightarrow> Inr (map int_str xs)
      | VDict d \<Rightarrow> Inr (map fst d) | _ \<Rightarrow> Inl TypeError)"

definition tostring_list :: "'f tval \<Rightarrow> 'f tval res" where
  "tostring_list v =
     ebind (iterated v) (\<lambda>items. Inr (VStr (butlast (concat (map (\<lambda>item. item @ '','') items)))))"

definition py_len :: "'f tval \<Rightarrow> nat res" where
  "py_len v =
     (case v of VStr s \<Rightarrow> Inr (length s) | VStrs xs \<Rightarrow> Inr (length xs) | VInts xs \<Rightarrow> Inr (length xs)
      | VDict d \<Rightarrow> Inr (length d) | _ \<Rightarrow> Inl TypeError)"

text \<open>A range of one element is not printed: its element comes back as it is.\<close>

definition first_item :: "'f tval \<Rightarrow> 'f tval res" where
  "first_item v =
     (case v of VStr s \<Rightarrow> ebind (nth_res s 0) (\<lambda>c. Inr (VStr [c]))
      | VStrs xs \<Rightarrow> ebind (nth_res xs 0) (\<lambda>x. Inr (VStr x))
      | VInts xs \<Rightarrow> ebind (nth_res xs 0) (\<lambda>x. Inr (VInt x))
      | VDict d \<Rightarrow> Inl KeyError
      | _ \<Rightarrow> Inl TypeError)"

definition tostring_range :: "'f tval \<Rightarrow> 'f tval res" where
  "tostring_range v =
     ebind (py_len v) (\<lambda>n.
       if n < 2 then first_item v
       else ebind (item_str v 0) (\<lambda>a. ebind (item_str v 1) (\<lambda>b. Inr (VStr (a @ ''-'' @ b)))))"

definition typeToString :: "'f type_env \<Rightarrow> string \<Rightarrow> 'f tval \<Rightarrow> 'f tval res" where
  "typeToString E ty v =
     (if \<not> is_valid_type ty then Inl KeyError
      else if ty = ''address'' then tostring_address v
      else if ty = ''bool'' then Inr (tostring_bool E v)
      else if ty = ''keyval'' then tostring_keyval v
      else if ty = ''list'' then tostring_list v
      else if ty = ''range'' then tostring_range v
      else if ty = ''string'' \<or> ty = [] then Inr v
      else Inr (VStr (py_str E v)))"

section \<open>Normal forms\<close>

text \<open>\<open>int(value)\<close> and \<open>float(value)\<close>; a conversion that fails raises a \<open>ValueError\<close> or an \<open>OverflowError\<close>.\<close>

definition converted :: "'a option \<Rightarrow> 'a res" where
  "converted x = (case x of None \<Rightarrow> Inl (ValueError ''conversion'') | Some y \<Rightarrow> Inr y)"

definition to_int :: "'f type_env \<Rightarrow> 'f tval \<Rightarrow> int res" where
  "to_int E v =
     (case v of VStr s \<Rightarrow> py_int s | VInt i \<Rightarrow> Inr i | VBool b \<Rightarrow> Inr (if b then 1 else 0)
      | VFloat f \<Rightarrow> converted (float_to_int E f) | _ \<Rightarrow> Inl TypeError)"

definition to_float :: "'f type_env \<Rightarrow> 'f tval \<Rightarrow> 'f res" where
  "to_float E v =
     (case v of VStr s \<Rightarrow> converted (float_of_str E s) | VInt i \<Rightarrow> converted (float_of_int E i)
      | VBool b \<Rightarrow> converted (float_of_int E (if b then 1 else 0)) | VFloat f \<Rightarrow> Inr f | _ \<Rightarrow> Inl TypeError)"

text \<open>
  \<open>re.match\<close> ignoring case: the anchors bind tighter than the alternation, so the first word may be followed by
  anything, the next two may stand at the start, and only the last must be the whole text.
\<close>

definition matches_false :: "string \<Rightarrow> bool" where
  "matches_false s \<longleftrightarrow>
     (let t = py_lower s in
      startswith t ''false'' \<or> startswith t ''0'' \<or> startswith t ''f'' \<or> t = ''no'' \<or> t = ''no'' @ [newline])"

definition matches_true :: "string \<Rightarrow> bool" where
  "matches_true s \<longleftrightarrow>
     (let t = py_lower s in
      startswith t ''true'' \<or> startswith t ''1'' \<or> startswith t ''t'' \<or> t = ''yes'' \<or> t = ''yes'' @ [newline])"

text \<open>Splitting at a character that no backslash precedes; \<open>esc\<close>: the character before was a backslash.\<close>

fun split_unescaped :: "char \<Rightarrow> bool \<Rightarrow> string \<Rightarrow> string list" where
  "split_unescaped d esc [] = [[]]"
| "split_unescaped d esc (c # s) =
     (if c = d \<and> \<not> esc then [] # split_unescaped d (c = bslash) s
      else (case split_unescaped d (c = bslash) s of [] \<Rightarrow> [[c]] | p # ps \<Rightarrow> (c # p) # ps))"

definition reList_split :: "string \<Rightarrow> string list" where
  "reList_split s = split_unescaped (CHR '','') False s"

definition reKeyVal_split :: "string \<Rightarrow> string list" where
  "reKeyVal_split s = split_unescaped (CHR ''='') False s"

definition norm_list :: "'f tval \<Rightarrow> string list res" where
  "norm_list v = (case v of VStr s \<Rightarrow> Inr (reList_split s) | _ \<Rightarrow> Inl TypeError)"

fun norm_items :: "string list \<Rightarrow> attrs \<Rightarrow> attrs res" where
  "norm_items [] d = Inr d"
| "norm_items (item # items) d =
     (case reKeyVal_split item of
        [k, v] \<Rightarrow> norm_items items (attr_set k v d)
      | _ \<Rightarrow> Inl (ValueError ''unpack''))"

definition norm_keyval :: "'f tval \<Rightarrow> attrs res" where
  "norm_keyval v = ebind (norm_list v) (\<lambda>items. norm_items items [])"

text \<open>Splitting at dashes with white space around them.\<close>

definition py_rstrip :: "string \<Rightarrow> string" where
  "py_rstrip s = rev (dropWhile is_space (rev s))"

definition reDash_split :: "string \<Rightarrow> string list" where
  "reDash_split s =
     (case split_char (CHR ''-'') s of
        [] \<Rightarrow> [] | [p] \<Rightarrow> [p]
      | p # ps \<Rightarrow> py_rstrip p # map py_strip (butlast ps) @ [py_lstrip (last ps)])"

definition norm_range :: "'f tval \<Rightarrow> (int \<times> int option) res" where
  "norm_range v =
     (case v of
        VStr s \<Rightarrow>
          (let range = reDash_split s in
           if 1 < length range then
             ebind (py_int (range ! 0)) (\<lambda>a. ebind (py_int (range ! 1)) (\<lambda>b. Inr (a, Some b)))
           else ebind (nth_res range 0) (\<lambda>p. ebind (py_int p) (\<lambda>a. Inr (a, None))))
      | _ \<Rightarrow> Inl TypeError)"

definition normalizedPath :: "'f type_env \<Rightarrow> string option \<Rightarrow> string \<Rightarrow> string res" where
  "normalizedPath E orig path =
     (case orig of
        None \<Rightarrow> Inr (realpath E (getcwd E) path)
      | Some dir \<Rightarrow>
          if dir = [] then Inr (realpath E (getcwd E) path)
          else if chdir_ok E dir then Inr (realpath E dir path)
          else Inl (PyException ''OSError''))"

definition norm_uri :: "'f type_env \<Rightarrow> string option \<Rightarrow> string \<Rightarrow> string res" where
  "norm_uri E orig value =
     (case urlparse E value of (scheme, netloc, path, params, query, fragment) \<Rightarrow>
        if scheme = [] then normalizedPath E orig path
        else if scheme = ''file'' then
          ebind (normalizedPath E orig path) (\<lambda>p. Inr (urlunsplit E [scheme, p, params, query, fragment]))
        else Inr value)"

section \<open>Sizes and frequencies\<close>

text \<open>
  \<open>re.match\<close> of digits and a unit, ignoring case; \<open>$\<close> also matches before a final newline, which then stays in
  what \<open>re.sub\<close> makes of the text.
\<close>

definition size_units :: "string list" where
  "size_units = [''k'', ''m'', ''g'', ''t'', ''p'', ''kb'', ''mb'', ''gb'', ''tb'', ''pb'']"

definition match_size :: "string \<Rightarrow> (string \<times> string) option" where
  "match_size s =
     (let ds = takeWhile is_digit s; u = dropWhile is_digit s in
      if ds = [] then None
      else if py_lower u \<in> set size_units then Some (ds, u)
      else if u \<noteq> [] \<and> last u = newline \<and> py_lower (butlast u) \<in> set size_units then Some (ds @ [newline], u)
      else None)"

text \<open>
  A double holds 53 significant bits; an integer is rounded to the nearest, a tie to the even one. Beyond
  \<open>2 ^ 1024\<close> the conversion from or to an integer raises.
\<close>

fun bit_length :: "nat \<Rightarrow> nat" where
  "bit_length n = (if n = 0 then 0 else 1 + bit_length (n div 2))"

declare bit_length.simps [simp del]

definition round_double :: "nat \<Rightarrow> nat" where
  "round_double n =
     (let e = bit_length n - 53; q = n div 2 ^ e; r = n mod 2 ^ e in
      if e = 0 then n
      else if 2 * r < 2 ^ e \<or> 2 * r = 2 ^ e \<and> even q then q * 2 ^ e
      else (q + 1) * 2 ^ e)"

definition to_double :: "nat \<Rightarrow> nat res" where
  "to_double n = (if round_double n < 2 ^ 1024 then Inr (round_double n) else Inl (PyException ''OverflowError''))"

definition normalize_unit :: "(string \<times> nat) list \<Rightarrow> nat \<Rightarrow> string \<Rightarrow> nat res" where
  "normalize_unit factors val factor =
     ebind (to_double val) (\<lambda>normVal.
     ebind (key_res (map_of factors) (py_lower factor)) (\<lambda>f. to_double (normVal * f)))"

definition normalize_size :: "nat \<Rightarrow> string \<Rightarrow> nat res" where
  "normalize_size size_value factor = normalize_unit sizeFactors size_value factor"

definition normalize_freq :: "nat \<Rightarrow> string \<Rightarrow> nat res" where
  "normalize_freq freq factor = normalize_unit freqFactors freq factor"

section \<open>Checks\<close>

record 'f value_info =
  isValid :: bool
  normalized :: "'f tval"
  errorData :: "string option"

definition get_value_info :: "'f value_info" where
  "get_value_info = \<lparr>isValid = False, normalized = VInt 0, errorData = None\<rparr>"

definition valid_info :: "'f tval \<Rightarrow> 'f value_info" where
  "valid_info v = get_value_info\<lparr>normalized := v, isValid := True\<rparr>"

definition invalid_info :: "'f value_info" where
  "invalid_info = get_value_info"

definition error_info :: "string \<Rightarrow> 'f value_info" where
  "error_info msg = get_value_info\<lparr>errorData := Some msg\<rparr>"

text \<open>
  \<open>normalize\<close>: the method for the type, if there is one. An \<open>AttributeError\<close>, also one from inside the method,
  leaves the value as it is. The method for negative integers wants two arguments and gets one; that for sizes
  uses a name that is not bound.
\<close>

definition norm_bool :: "'f type_env \<Rightarrow> 'f tval \<Rightarrow> 'f tval res" where
  "norm_bool E v =
     (let s = py_str E v in
      if matches_false s then Inr (VBool False)
      else if matches_true s then Inr (VBool True)
      else Inl (PyException (''invalid bool specified: '' @ s)))"

definition numeric_types :: "string list" where
  "numeric_types = [''int'', ''float'', ''pos_int'', ''neg_int'', ''freq'', ''pos_float'', ''pos_num'', ''neg_float'']"

definition norm_number :: "'f type_env \<Rightarrow> string \<Rightarrow> 'f tval \<Rightarrow> 'f tval res" where
  "norm_number E ty v =
     (if ty = ''int'' then ebind (to_int E v) (\<lambda>i. Inr (VInt i))
      else if ty = ''float'' then ebind (to_float E v) (\<lambda>f. Inr (VFloat f))
      else if ty = ''pos_int'' \<or> ty = ''freq'' then
        ebind (to_int E v) (\<lambda>i. if i < 0 then Inl (PyException ''value is not positive'') else Inr (VInt i))
      else if ty = ''neg_int'' then Inl TypeError
      else if ty = ''pos_float'' \<or> ty = ''pos_num'' then
        ebind (to_float E v) (\<lambda>f. if float_neg E f then Inl (PyException ''value is not positive'') else Inr (VFloat f))
      else
        ebind (to_float E v) (\<lambda>f. if float_nonneg E f then Inl (PyException ''value is not negative'') else Inr (VFloat f)))"

definition norm_path :: "'f type_env \<Rightarrow> string option \<Rightarrow> 'f tval \<Rightarrow> 'f tval res" where
  "norm_path E orig v =
     (case v of VStr s \<Rightarrow> ebind (normalizedPath E orig s) (\<lambda>p. Inr (VStr p)) | _ \<Rightarrow> Inl AttributeError)"

definition norm_address :: "'f tval \<Rightarrow> 'f tval res" where
  "norm_address v = (case v of VStr s \<Rightarrow> Inr (VStrs (split_char (CHR '':'') s)) | _ \<Rightarrow> Inl AttributeError)"

definition norm_method :: "'f type_env \<Rightarrow> string option \<Rightarrow> string \<Rightarrow> 'f tval \<Rightarrow> 'f tval res" where
  "norm_method E orig ty v =
     (if ty = ''directory'' \<or> ty = ''file'' then norm_path E orig v
      else if ty = ''address'' then norm_address v
      else if ty = ''bool'' then norm_bool E v
      else if ty = ''tcp_port'' then ebind (to_int E v) (\<lambda>i. Inr (VInt i))
      else if ty \<in> set numeric_types then norm_number E ty v
      else if ty = ''string'' then Inr (VStr (py_str E v))
      else if ty = ''keyval'' then ebind (norm_keyval v) (\<lambda>d. Inr (VDict d))
      else if ty = ''list'' then ebind (norm_list v) (\<lambda>xs. Inr (VStrs xs))
      else if ty = ''size'' then Inl (PyException ''NameError'')
      else if ty = ''range'' then
        ebind (norm_range v) (\<lambda>(a, b). case b of Some b \<Rightarrow> Inr (VInts [a, b]) | None \<Rightarrow> Inr (VInts [a]))
      else if ty = ''uri'' then
        (case v of VStr s \<Rightarrow> ebind (norm_uri E orig s) (\<lambda>u. Inr (VStr u)) | _ \<Rightarrow> Inl AttributeError)
      else Inl AttributeError)"

definition normalize :: "'f type_env \<Rightarrow> string option \<Rightarrow> string \<Rightarrow> 'f tval \<Rightarrow> 'f tval res" where
  "normalize E orig ty v =
     (case norm_method E orig ty v of
        Inr v' \<Rightarrow> Inr v'
      | Inl e \<Rightarrow> if e = AttributeError then Inr v else Inl e)"

text \<open>The shapes the checks have: normalise with or without catching what is raised.\<close>

definition set_normalized :: "'f type_env \<Rightarrow> string option \<Rightarrow> string \<Rightarrow> 'f tval \<Rightarrow> 'f value_info res" where
  "set_normalized E orig ty v = ebind (normalize E orig ty v) (\<lambda>v'. Inr (valid_info v'))"

definition try_normalized :: "'f type_env \<Rightarrow> string option \<Rightarrow> string \<Rightarrow> 'f tval \<Rightarrow> 'f value_info" where
  "try_normalized E orig ty v =
     (case normalize E orig ty v of Inr v' \<Rightarrow> valid_info v' | Inl e \<Rightarrow> invalid_info)"

definition set_if :: "'f type_env \<Rightarrow> string option \<Rightarrow> string \<Rightarrow> 'f tval \<Rightarrow> bool \<Rightarrow> 'f value_info res" where
  "set_if E orig ty v ok = (if ok then set_normalized E orig ty v else Inr invalid_info)"

text \<open>A function of strings applied to something else raises.\<close>

definition on_str :: "exn \<Rightarrow> 'f tval \<Rightarrow> (string \<Rightarrow> 'a res) \<Rightarrow> 'a res" where
  "on_str e v k = (case v of VStr s \<Rightarrow> k s | _ \<Rightarrow> Inl e)"

definition address_of :: "'f tval \<Rightarrow> net_address res" where
  "address_of v =
     (case v of VStr s \<Rightarrow> Inr (AddrString s)
      | VStrs (a # b # xs) \<Rightarrow> Inr (AddrPair a b) | VStrs xs \<Rightarrow> Inl IndexError
      | _ \<Rightarrow> Inl TypeError)"

definition verify_address :: "'f type_env \<Rightarrow> string option \<Rightarrow> string \<Rightarrow> 'f tval \<Rightarrow> 'f value_info" where
  "verify_address E orig ty v =
     (case ebind (address_of v) (\<lambda>a. ebind (tcpSocket a) verify) of
        Inr ok \<Rightarrow> if ok then try_normalized E orig ty v else invalid_info
      | Inl e \<Rightarrow> invalid_info)"

definition verify_bool :: "'f type_env \<Rightarrow> 'f tval \<Rightarrow> 'f value_info" where
  "verify_bool E v =
     (let s = py_str E v in
      if matches_false s then valid_info (VBool False)
      else if matches_true s then valid_info (VBool True)
      else invalid_info)"

definition has_unescaped_equals :: "string \<Rightarrow> bool" where
  "has_unescaped_equals s \<longleftrightarrow> 1 < length (reKeyVal_split s)"

definition verify_keyval :: "'f type_env \<Rightarrow> string option \<Rightarrow> string \<Rightarrow> 'f tval \<Rightarrow> 'f value_info res" where
  "verify_keyval E orig ty v =
     on_str TypeError v (\<lambda>s.
       if has_unescaped_equals s then
         (case normalize E orig ty v of
            Inr v' \<Rightarrow> Inr (valid_info v')
          | Inl e \<Rightarrow> Inr (error_info (''invalid list of key-value pairs : [ '' @ s @ '' ]'')))
       else Inr (error_info ''No key value pairs found?''))"

definition verify_size :: "'f type_env \<Rightarrow> 'f tval \<Rightarrow> 'f value_info res" where
  "verify_size E v =
     (let s = py_str E v in
      case match_size s of
        Some (n, u) \<Rightarrow>
          ebind (py_int n) (\<lambda>numberPart.
            Inr (case normalize_size (nat numberPart) u of
                   Inr k \<Rightarrow> valid_info (VInt (int k)) | Inl e \<Rightarrow> invalid_info))
      | None \<Rightarrow>
          Inr (case py_int s of
                 Inr i \<Rightarrow> if 0 \<le> i then valid_info (VInt i) else invalid_info
               | Inl e \<Rightarrow> invalid_info))"

definition verify_tcp_port :: "'f type_env \<Rightarrow> 'f tval \<Rightarrow> 'f value_info" where
  "verify_tcp_port E v =
     (case to_int E v of
        Inr i \<Rightarrow> if 2 \<le> i \<and> i < 65536 then valid_info (VInt i) else invalid_info
      | Inl e \<Rightarrow> invalid_info)"

definition verify_http_version :: "'f type_env \<Rightarrow> 'f tval \<Rightarrow> 'f value_info res" where
  "verify_http_version E v =
     (case v of
        VStr s \<Rightarrow>
          if s = ''1.0'' \<or> s = ''1.1'' then ebind (converted (float_of_str E s)) (\<lambda>f. Inr (valid_info (VFloat f)))
          else Inr invalid_info
      | _ \<Rightarrow> Inr invalid_info)"

text \<open>A range whose end is zero counts as one without an end.\<close>

definition verify_range :: "'f tval \<Rightarrow> 'f value_info res" where
  "verify_range v =
     on_str TypeError v (\<lambda>s.
       case norm_range (VStr s :: 'f tval) of
         Inl e \<Rightarrow> Inr invalid_info
       | Inr (start, stop) \<Rightarrow>
           (case stop of
              Some b \<Rightarrow>
                if b = 0 then Inr (valid_info (VInts [start]))
                else if b - start \<noteq> 0 then Inr (valid_info (VInts [start, b]))
                else Inr invalid_info
            | None \<Rightarrow> Inr (valid_info (VInts [start]))))"

definition verify_uri :: "'f type_env \<Rightarrow> string option \<Rightarrow> string \<Rightarrow> 'f tval \<Rightarrow> 'f value_info" where
  "verify_uri E orig ty v =
     (let invalid = error_info (py_str E v @ '' is an invalid uri'') in
      case v of
        VStr s \<Rightarrow>
          (case urlparse E s of (scheme, netloc, path, rest) \<Rightarrow>
             if (scheme = [] \<or> scheme = ''file'') \<and> \<not> is_file E path \<and> \<not> is_dir E path then invalid
             else (case normalize E orig ty v of Inr v' \<Rightarrow> valid_info v' | Inl e \<Rightarrow> invalid))
      | _ \<Rightarrow> invalid)"

definition looked_up :: "'f type_env \<Rightarrow> string option \<Rightarrow> string \<Rightarrow> 'f tval \<Rightarrow> (string \<Rightarrow> bool) \<Rightarrow> string \<Rightarrow> 'f value_info" where
  "looked_up E orig ty v found msg =
     (case v of
        VStr s \<Rightarrow>
          if found s then (case normalize E orig ty v of Inr v' \<Rightarrow> valid_info v' | Inl e \<Rightarrow> error_info msg)
          else error_info msg
      | _ \<Rightarrow> error_info msg)"

text \<open>
  \<open>check_timestamp\<close> of \<open>util.py\<close> calls \<open>time.strptime\<close>, but \<open>util.py\<close> does not import \<open>time\<close>: the \<open>NameError\<close> ends in
  the bare \<open>except\<close>. The check of mail addresses uses a pattern that is not defined, and the check of positive
  numbers calls another check with an argument too few.
\<close>

definition check_timestamp :: "'f tval \<Rightarrow> bool" where
  "check_timestamp v = (case (Inl (PyException ''NameError'') :: unit res) of Inr _ \<Rightarrow> True | Inl e \<Rightarrow> False)"

text \<open>The short checks, each with the condition of its own.\<close>

definition verify_directory :: "'f type_env \<Rightarrow> string option \<Rightarrow> 'f tval \<Rightarrow> 'f value_info res" where
  "verify_directory E orig v = on_str TypeError v (\<lambda>s. set_if E orig ''directory'' v (is_dir E s))"

definition verify_file :: "'f type_env \<Rightarrow> string option \<Rightarrow> 'f tval \<Rightarrow> 'f value_info res" where
  "verify_file E orig v = on_str TypeError v (\<lambda>s. set_if E orig ''file'' v (is_file E s))"

definition verify_ip_address :: "'f type_env \<Rightarrow> string option \<Rightarrow> 'f tval \<Rightarrow> 'f value_info res" where
  "verify_ip_address E orig v =
     on_str AttributeError v (\<lambda>s. ebind (check_ip_address s) (set_if E orig ''ip_address'' v))"

definition verify_net_address :: "'f type_env \<Rightarrow> string option \<Rightarrow> 'f tval \<Rightarrow> 'f value_info res" where
  "verify_net_address E orig v =
     on_str AttributeError v (\<lambda>s. ebind (check_net_address s) (set_if E orig ''net_address'' v))"

definition verify_number :: "'f type_env \<Rightarrow> string option \<Rightarrow> string \<Rightarrow> 'f tval \<Rightarrow> 'f value_info res" where
  "verify_number E orig ty v = (if ty = ''pos_num'' then Inl TypeError else Inr (try_normalized E orig ty v))"

definition verify_eaddress :: "'f tval \<Rightarrow> 'f value_info res" where
  "verify_eaddress v = Inl (PyException ''NameError'')"

definition verify_timestamp :: "'f type_env \<Rightarrow> string option \<Rightarrow> 'f tval \<Rightarrow> 'f value_info res" where
  "verify_timestamp E orig v = set_if E orig ''timestamp'' v (check_timestamp v)"

definition verify_function :: "'f type_env \<Rightarrow> string option \<Rightarrow> string \<Rightarrow> 'f tval \<Rightarrow> 'f value_info res" where
  "verify_function E orig ty v =
     (if ty = ''directory'' then verify_directory E orig v
      else if ty = ''file'' then verify_file E orig v
      else if ty = ''address'' then Inr (verify_address E orig ty v)
      else if ty = ''ip_address'' then verify_ip_address E orig v
      else if ty = ''net_address'' then verify_net_address E orig v
      else if ty = ''bool'' then Inr (verify_bool E v)
      else if ty \<in> set numeric_types then verify_number E orig ty v
      else if ty = ''string'' \<or> ty = ''list'' then set_normalized E orig ty v
      else if ty = ''keyval'' then verify_keyval E orig ty v
      else if ty = ''size'' then verify_size E v
      else if ty = ''eaddress'' then verify_eaddress v
      else if ty = ''tcp_port'' then Inr (verify_tcp_port E v)
      else if ty = ''http_version'' then verify_http_version E v
      else if ty = ''range'' then verify_range v
      else if ty = ''uri'' then Inr (verify_uri E orig ty v)
      else if ty = ''timestamp'' then verify_timestamp E orig v
      else if ty = ''hostname'' then
        Inr (looked_up E orig ty v (resolves E) (py_str E v @ '' is invalid (domain lookup failed)''))
      else if ty = ''user_account'' then
        Inr (looked_up E orig ty v (has_account E)
          ([squote] @ py_str E v @ [squote] @ '' user account does not exist''))
      else if ty = ''user_group'' then
        Inr (looked_up E orig ty v (has_group E) ([squote] @ py_str E v @ [squote] @ '' group does not exist''))
      else if ty = [] then set_normalized E orig ty v
      else Inl KeyError)"

definition verify_type :: "'f type_env \<Rightarrow> string option \<Rightarrow> string \<Rightarrow> 'f tval \<Rightarrow> bool \<Rightarrow> 'f value_info res" where
  "verify_type E orig ty v allowNone =
     (if allowNone \<and> (v = VStr [] \<or> v = VNone) then Inr (valid_info VNone)
      else verify_function E orig ty v)"

section \<open>The validator\<close>

record 'f validator =
  originalDir :: "string option"
  validateList :: "(string \<times> string \<times> 'f tval) list"
  validatedInfo :: "(string \<times> 'f value_info) list"

definition typeValidator :: "string option \<Rightarrow> 'f validator" where
  "typeValidator orig = \<lparr>originalDir = orig, validateList = [], validatedInfo = []\<rparr>"

definition add_value :: "string \<Rightarrow> string \<Rightarrow> 'f tval \<Rightarrow> 'f validator \<Rightarrow> 'f validator" where
  "add_value name ty v w = w\<lparr>validateList := validateList w @ [(name, ty, v)]\<rparr>"

fun validate_loop :: "'f type_env \<Rightarrow> bool \<Rightarrow> (string \<times> string \<times> 'f tval) list \<Rightarrow> 'f validator \<Rightarrow> 'f validator \<times> unit res" where
  "validate_loop E allowNone [] w = (w, Inr ())"
| "validate_loop E allowNone ((name, ty, v) # rest) w =
     (case verify_type E (originalDir w) ty v allowNone of
        Inl e \<Rightarrow> (w, Inl e)
      | Inr info \<Rightarrow> validate_loop E allowNone rest (w\<lparr>validatedInfo := validatedInfo w @ [(name, info)]\<rparr>))"

definition validate :: "'f type_env \<Rightarrow> bool \<Rightarrow> 'f validator \<Rightarrow> 'f validator \<times> unit res" where
  "validate E allowNone w = validate_loop E allowNone (validateList w) w"

end
