(* ===== verification/Hod_Config.thy ===== *)
theory Hod_Config
  imports Hod_Types
begin

text \<open>
  Configuration of Hadoop on Demand, the first half of \<open>hodlib/Common/setup.py\<close>: definitions of options
  (\<open>definition\<close>), checked configurations and their printed form (\<open>baseConfig\<close>) and the merge of a configuration
  file with the command line (\<open>config\<close>). The sections of a parsed file are an argument.
\<close>

section \<open>Definitions of options\<close>

record 'f opt_def =
  opt_type :: string
  opt_desc :: string
  opt_help :: "'f tval"
  opt_default :: "'f tval"
  opt_req :: bool
  opt_validate :: bool
  opt_short :: "'f tval"

type_synonym 'f section_def = "(string \<times> 'f opt_def) list"

record 'f config_def =
  defs :: "(string \<times> 'f section_def) list"
  def_order :: "string list"

definition new_definition :: "'f config_def" where
  "new_definition = \<lparr>defs = [], def_order = []\<rparr>"

definition sections :: "'f config_def \<Rightarrow> string list" where
  "sections d = (if def_order d \<noteq> [] then def_order d else map fst (defs d))"

definition in_quotes :: "string \<Rightarrow> string" where
  "in_quotes s = [squote] @ s @ [squote]"

definition add_section :: "string \<Rightarrow> 'f config_def \<Rightarrow> 'f config_def res" where
  "add_section sec d =
     (if sec \<in> set (map fst (defs d)) then Inl (PyException (''Section already exists: '' @ in_quotes sec))
      else Inr (d\<lparr>defs := defs d @ [(sec, [])]\<rparr>))"

text \<open>
  The elements of a tuple of a definition after the name: type, description, help, default, required, validate,
  short. What can be of any type is a value of Python. Such values are left out of the messages.
\<close>

record 'f def_tuple =
  t_type :: string
  t_desc :: "'f tval"
  t_help :: "'f tval"
  t_default :: "'f tval"
  t_req :: "'f tval"
  t_validate :: "'f tval"
  t_short :: "'f tval"

datatype 'f def_entry = NotTuple | TooShort | Entry string "'f def_tuple"

definition def_of :: "'f def_tuple \<Rightarrow> string \<Rightarrow> bool \<Rightarrow> bool \<Rightarrow> 'f opt_def" where
  "def_of t desc req val =
     \<lparr>opt_type = t_type t, opt_desc = desc, opt_help = t_help t, opt_default = t_default t, opt_req = req,
      opt_validate = val, opt_short = t_short t\<rparr>"

definition add_def :: "string \<Rightarrow> string \<Rightarrow> 'f def_tuple \<Rightarrow> 'f config_def \<Rightarrow> 'f config_def res" where
  "add_def sec var t d =
     (case map_of (defs d) sec of
        None \<Rightarrow> Inl (PyException (''Section does not exist: '' @ in_quotes sec))
      | Some vars \<Rightarrow>
          if \<not> is_valid_type (t_type t) then Inl (PyException (''Type (type) is invalid: '' @ sec @ ''.'' @ var @ '' - '' @ in_quotes (t_type t)))
          else (case t_desc t of
              VStr desc \<Rightarrow>
                (case t_req t of
                   VBool req \<Rightarrow>
                     (case t_validate t of
                        VBool val \<Rightarrow>
                          if var \<in> set (map fst vars) then Inl (PyException (''Variable name already defined: '' @ in_quotes var))
                          else Inr (d\<lparr>defs := AList.update sec (vars @ [(var, def_of t desc req val)]) (defs d)\<rparr>)
                      | _ \<Rightarrow> Inl (PyException (''Validate (validate) must be a bool: '' @ sec @ ''.'' @ var)))
                 | _ \<Rightarrow> Inl (PyException (''Required (req) must be a bool: '' @ sec @ ''.'' @ var)))
            | _ \<Rightarrow> Inl (PyException (''Description (desc) must be a string: '' @ sec @ ''.'' @ var))))"

fun add_entries :: "string \<Rightarrow> 'f def_entry list \<Rightarrow> 'f config_def \<Rightarrow> 'f config_def res" where
  "add_entries sec [] d = Inr d"
| "add_entries sec (NotTuple # es) d = Inl (PyException (''section '' @ sec @ '' of defList is not a tuple''))"
| "add_entries sec (TooShort # es) d = Inl (PyException (''section '' @ sec @ '' is missing an element''))"
| "add_entries sec (Entry var t # es) d = ebind (add_def sec var t d) (add_entries sec es)"

fun add_sections :: "(string \<times> 'f def_entry list) list \<Rightarrow> 'f config_def \<Rightarrow> 'f config_def res" where
  "add_sections [] d = Inr d"
| "add_sections ((sec, es) # rest) d =
     ebind (add_section sec d) (\<lambda>d1. ebind (add_entries sec es d1) (add_sections rest))"

definition add_defs :: "(string \<times> 'f def_entry list) list \<Rightarrow> string list option \<Rightarrow> 'f config_def \<Rightarrow> 'f config_def res" where
  "add_defs defList defOrder d =
     ebind (add_sections defList d) (\<lambda>d1.
       case defOrder of
         None \<Rightarrow> Inr d1
       | Some order \<Rightarrow>
           if order = [] then Inr d1
           else if list_all (\<lambda>s. s \<in> set order) (map fst (defs d1))
           then Inr (d1\<lparr>def_order := def_order d1 @ filter (\<lambda>s. s \<in> set (map fst (defs d1))) order\<rparr>)
           else Inl (PyException ''section is missing from specified defOrder.''))"

definition opt_def_of :: "'f config_def \<Rightarrow> string \<Rightarrow> string \<Rightarrow> 'f opt_def option" where
  "opt_def_of d sec opt = Option.bind (map_of (defs d) sec) (\<lambda>vars. map_of vars opt)"

section \<open>Configurations\<close>

text \<open>What the dict of a configuration has under a name: the options of a section, or a plain string.\<close>

datatype 'f part = Options "(string \<times> 'f tval) list" | Plain string

record 'f cfg =
  dict :: "(string \<times> 'f part) list"
  configDef :: "'f config_def"
  mySections :: "string list"
  configFile :: "string option"
  origDir :: "string option"
  validated :: bool

definition baseConfig :: "'f config_def \<Rightarrow> string option \<Rightarrow> 'f cfg" where
  "baseConfig d orig =
     \<lparr>dict = [], configDef = d, mySections = sections d, configFile = None, origDir = orig, validated = False\<rparr>"

definition section_of :: "'f cfg \<Rightarrow> string \<Rightarrow> (string \<times> 'f tval) list res" where
  "section_of c sec =
     (case map_of (dict c) sec of None \<Rightarrow> Inl KeyError | Some (Options os) \<Rightarrow> Inr os | Some (Plain s) \<Rightarrow> Inl AttributeError)"

definition set_option :: "string \<Rightarrow> string \<Rightarrow> 'f tval \<Rightarrow> 'f cfg \<Rightarrow> 'f cfg res" where
  "set_option sec opt v c =
     ebind (section_of c sec) (\<lambda>os. Inr (c\<lparr>dict := AList.update sec (Options (AList.update opt v os)) (dict c)\<rparr>))"

definition cfg_repr :: "'f type_env \<Rightarrow> 'f cfg \<Rightarrow> string res" where
  "cfg_repr E c =
     ebind (emap (\<lambda>sec. ebind (section_of c sec) (\<lambda>os.
         Inr (''['' @ sec @ '']'' @ [newline] @
           concat (map (\<lambda>(k, v). k @ '' = '' @ py_str E v @ [newline]) os) @ [newline]))) (mySections c)) (\<lambda>parts.
       let s = concat parts in
       Inr (if 2 \<le> length s \<and> drop (length s - 2) s = [newline, newline] then take (length s - 2) s else s))"

section \<open>Printing a configuration as a command line\<close>

definition truthy_bool :: "'f type_env \<Rightarrow> 'f tval \<Rightarrow> bool" where
  "truthy_bool E v \<longleftrightarrow> v = VStr ''True'' \<or> py_equals_int E v 1"

definition to_string :: "'f type_env \<Rightarrow> 'f cfg \<Rightarrow> string \<Rightarrow> 'f tval \<Rightarrow> 'f tval res" where
  "to_string E c ty v = (if validated c then typeToString E ty v else Inr v)"

definition flag :: "string \<Rightarrow> string \<Rightarrow> string" where
  "flag sec opt = ''--'' @ sec @ ''.'' @ opt"

definition option_args :: "'f type_env \<Rightarrow> 'f cfg \<Rightarrow> string \<Rightarrow> string \<times> 'f tval \<Rightarrow> 'f tval list res" where
  "option_args E c sec = (\<lambda>(opt, v).
     case opt_def_of (configDef c) sec opt of
       None \<Rightarrow> Inr []
     | Some d \<Rightarrow>
         if opt_type d = ''bool'' then Inr (if truthy_bool E v then [VStr (flag sec opt)] else [])
         else ebind (to_string E c (opt_type d) v) (\<lambda>t. Inr [VStr (flag sec opt), t]))"

definition section_args :: "'f type_env \<Rightarrow> 'f cfg \<Rightarrow> string \<Rightarrow> 'f tval list res" where
  "section_args E c sec =
     (case map_of (dict c) sec of
        None \<Rightarrow> Inl KeyError
      | Some (Options os) \<Rightarrow> ebind (emap (option_args E c sec) os) (\<lambda>xss. Inr (concat xss))
      | Some (Plain s) \<Rightarrow> if sec \<in> set (map fst (defs (configDef c))) then Inl UnboundLocalError else Inr [])"

text \<open>\<open>excluded\<close> is \<open>section in exclude\<close>: exclude is a string in the calls, so it is a test for a substring.\<close>

definition get_args :: "'f type_env \<Rightarrow> (string \<Rightarrow> bool) \<Rightarrow> string option \<Rightarrow> 'f cfg \<Rightarrow> 'f tval list res" where
  "get_args E excluded sec c =
     (case sec of
        Some s \<Rightarrow> if s \<noteq> [] then section_args E c s
                  else ebind (emap (section_args E c) (filter (\<lambda>s. \<not> excluded s) (map fst (dict c)))) (\<lambda>xss. Inr (concat xss))
      | None \<Rightarrow> ebind (emap (section_args E c) (filter (\<lambda>s. \<not> excluded s) (map fst (dict c)))) (\<lambda>xss. Inr (concat xss)))"

section \<open>Checking a configuration\<close>

definition error_prefix :: string where
  "error_prefix = ''error''"

text \<open>\<open>var_error\<close> also gives a missing option the value \<open>None\<close>.\<close>

definition var_error :: "'f type_env \<Rightarrow> string \<Rightarrow> string \<Rightarrow> string option \<Rightarrow> 'f cfg \<Rightarrow> ('f cfg \<times> string list) res" where
  "var_error E sec opt info c =
     ebind (section_of c sec) (\<lambda>os.
     ebind (if map_of os opt = None then set_option sec opt VNone c else Inr c) (\<lambda>c1.
       let v = (case map_of os opt of None \<Rightarrow> VNone | Some x \<Rightarrow> x) in
       Inr (c1, (error_prefix @ '': invalid '' @ [squote] @ opt @ [squote] @ '' specified in section '' @ sec @ '' (--'' @ sec @
           ''.'' @ opt @ ''): '' @ py_str E v) #
         (case info of None \<Rightarrow> [] | Some i \<Rightarrow> [error_prefix @ '': additional info: '' @ i @ [newline]]))))"

definition suggestion :: "'f cfg \<Rightarrow> string list" where
  "suggestion c =
     (case configFile c of
        None \<Rightarrow> []
      | Some f \<Rightarrow> if f = [] then [] else [''Check your command line options and/or your configuration file '' @ f])"

text \<open>What the first loop keeps: the configuration, the validator and the messages, one for each error.\<close>

record 'f check_state =
  ch_cfg :: "'f cfg"
  ch_val :: "'f validator"
  ch_msgs :: "string list"

definition set_default :: "string \<Rightarrow> string \<Rightarrow> 'f tval \<Rightarrow> 'f cfg \<Rightarrow> 'f cfg" where
  "set_default sec opt v c =
     c\<lparr>configDef := (configDef c)\<lparr>defs := map (\<lambda>(s, vars). (s, if s = sec then
         map (\<lambda>(o', d). (o', if o' = opt then d\<lparr>opt_default := v\<rparr> else d)) vars else vars)) (defs (configDef c))\<rparr>\<rparr>"

definition normal_default :: "'f type_env \<Rightarrow> string option \<Rightarrow> 'f opt_def \<Rightarrow> 'f tval res" where
  "normal_default E orig d = ebind (normalize E orig (opt_type d) (opt_default d)) (typeToString E (opt_type d))"

definition check_option :: "'f type_env \<Rightarrow> string \<Rightarrow> string \<times> 'f opt_def \<Rightarrow> 'f check_state \<Rightarrow> 'f check_state res" where
  "check_option E sec = (\<lambda>(opt, d) ch.
     ebind (section_of (ch_cfg ch) sec) (\<lambda>os.
       case map_of os opt of
         None \<Rightarrow>
           Inr (if opt_req d
                then ch\<lparr>ch_msgs := ch_msgs ch @ [error_prefix @ '': '' @ sec @ ''.'' @ opt @ '' is not defined.'']\<rparr> else ch)
       | Some v \<Rightarrow>
           ebind (if opt_validate d then Inr (ch\<lparr>ch_val := add_value (sec @ ''.'' @ opt) (opt_type d) v (ch_val ch)\<rparr>)
                  else ebind (normalize E (originalDir (ch_val ch)) (opt_type d) v) (\<lambda>v'.
                    ebind (set_option sec opt v' (ch_cfg ch)) (\<lambda>c. Inr (ch\<lparr>ch_cfg := c\<rparr>)))) (\<lambda>ch1.
           if opt_default d = VNone then Inr ch1
           else ebind (normal_default E (originalDir (ch_val ch)) d) (\<lambda>v'.
             Inr (ch1\<lparr>ch_cfg := set_default sec opt v' (ch_cfg ch1)\<rparr>)))))"

fun fold_res :: "('a \<Rightarrow> 's \<Rightarrow> 's res) \<Rightarrow> 'a list \<Rightarrow> 's \<Rightarrow> 's res" where
  "fold_res f [] s = Inr s"
| "fold_res f (x # xs) s = ebind (f x s) (fold_res f xs)"

definition check_section :: "'f type_env \<Rightarrow> string \<Rightarrow> 'f check_state \<Rightarrow> 'f check_state res" where
  "check_section E sec ch =
     ebind (key_res (map_of (defs (configDef (ch_cfg ch)))) sec) (\<lambda>vars. fold_res (check_option E sec) vars ch)"

text \<open>What the second loop does with one value the validator has checked.\<close>

definition take_value :: "'f type_env \<Rightarrow> string \<times> 'f value_info \<Rightarrow> 'f cfg \<times> string list \<times> nat \<Rightarrow>
    ('f cfg \<times> string list \<times> nat) res" where
  "take_value E = (\<lambda>(name, info) (c, msgs, n).
     let parts = split_char (CHR ''.'') name in
     ebind (nth_res parts 1) (\<lambda>opt.
       if isValid info then ebind (set_option (hd parts) opt (normalized info) c) (\<lambda>c'. Inr (c', msgs, n))
       else ebind (var_error E (hd parts) opt (case errorData info of None \<Rightarrow> None | Some e \<Rightarrow> if e = [] then None else Some e) c)
         (\<lambda>(c', es). Inr (c', msgs @ es, n + 1))))"

definition summary :: "'f cfg \<Rightarrow> nat \<Rightarrow> string list" where
  "summary c n =
     (if 1 < n then (error_prefix @ '': '' @ nat_str n @ '' problems found.'') # suggestion c
      else if 0 < n then (error_prefix @ '': '' @ nat_str n @ '' problem found.'') # suggestion c
      else [])"

definition may_enter :: "'f type_env \<Rightarrow> string option \<Rightarrow> unit res" where
  "may_enter E orig =
     (case orig of
        None \<Rightarrow> Inr ()
      | Some dir \<Rightarrow> if dir = [] \<or> chdir_ok E dir then Inr () else Inl (PyException ''OSError''))"

definition verify_cfg :: "'f type_env \<Rightarrow> 'f cfg \<Rightarrow> ('f cfg \<times> bool \<times> string list) res" where
  "verify_cfg E c =
     ebind (may_enter E (origDir c)) (\<lambda>_.
     ebind (fold_res (check_section E) (mySections c) \<lparr>ch_cfg = c, ch_val = typeValidator (origDir c), ch_msgs = []\<rparr>) (\<lambda>ch.
       case validate E False (ch_val ch) of
         (w, Inl e) \<Rightarrow> Inl e
       | (w, Inr _) \<Rightarrow>
           ebind (fold_res (take_value E) (validatedInfo w) (ch_cfg ch, ch_msgs ch, length (ch_msgs ch))) (\<lambda>(c', msgs, n).
             Inr (c'\<lparr>validated := True\<rparr>, n = 0, msgs @ summary c' n))))"

definition normalizeValue :: "'f type_env \<Rightarrow> string \<Rightarrow> string \<Rightarrow> 'f cfg \<Rightarrow> 'f tval res" where
  "normalizeValue E sec opt c =
     ebind (key_res (map_of (defs (configDef c))) sec) (\<lambda>vars.
     ebind (key_res (map_of vars) opt) (\<lambda>d.
     ebind (section_of c sec) (\<lambda>os.
     ebind (key_res (map_of os) opt) (normalize E None (opt_type d)))))"

definition validateValue :: "'f type_env \<Rightarrow> string \<Rightarrow> string \<Rightarrow> 'f cfg \<Rightarrow> ('f cfg \<times> string list) res" where
  "validateValue E sec opt c =
     ebind (key_res (map_of (defs (configDef c))) sec) (\<lambda>vars.
     ebind (key_res (map_of vars) opt) (\<lambda>d.
     ebind (section_of c sec) (\<lambda>os.
     ebind (key_res (map_of os) opt) (\<lambda>v.
     ebind (verify_type E None (opt_type d) v False) (\<lambda>info.
       if isValid info then Inr (c, [])
       else var_error E sec opt (case errorData info of None \<Rightarrow> None | Some e \<Rightarrow> if e = [] then None else Some e) c)))))"

section \<open>A configuration file and a command line\<close>

text \<open>
  \<open>reCommentHack\<close>: from the start up to the first hash mark that follows white space, or from a semicolon to the
  end. \<open>after_hash\<close> finds what follows such a hash mark; \<open>sp\<close>: the character before was white space.
\<close>

fun after_hash :: "bool \<Rightarrow> string \<Rightarrow> string option" where
  "after_hash sp [] = None"
| "after_hash sp (c # s) = (if c = CHR ''#'' \<and> sp then Some s else after_hash (is_space c) s)"

definition strip_comment :: "string \<Rightarrow> string" where
  "strip_comment s = takeWhile (\<lambda>c. c \<noteq> CHR '';'') (case after_hash False s of None \<Rightarrow> s | Some r \<Rightarrow> r)"

text \<open>\<open>reCommentNewline\<close>: line feeds, and a carriage return at the end or before a last line feed.\<close>

definition carriage_return :: char where
  "carriage_return = char_of (13::nat)"

fun strip_newlines_in :: "string \<Rightarrow> string" where
  "strip_newlines_in [] = []"
| "strip_newlines_in (c # s) =
     (if c = newline \<or> c = carriage_return \<and> (s = [] \<or> s = [newline]) then strip_newlines_in s
      else c # strip_newlines_in s)"

definition file_value :: "string \<Rightarrow> string" where
  "file_value s = strip_newlines_in (strip_comment s)"

text \<open>The options whose values are lists of parameters, and those a command line cannot override.\<close>

definition list_options :: "string list" where
  "list_options =
     [''gridservice-mapred.final-server-params'', ''gridservice-hdfs.final-server-params'',
      ''gridservice-mapred.server-params'', ''gridservice-hdfs.server-params'', ''hod.client-params'']"

definition final_options :: "string list" where
  "final_options = [''gridservice-mapred.final-server-params'', ''gridservice-hdfs.final-server-params'']"

type_synonym params = "(string \<times> string option) list"

text \<open>A parameter is split at its first \<open>=\<close> that no backslash precedes; without one it has no value.\<close>

definition split_param :: "string \<Rightarrow> string \<times> string option" where
  "split_param opt =
     (case reKeyVal_split opt of
        [] \<Rightarrow> (opt, None) | [k] \<Rightarrow> (opt, None) | k # rest \<Rightarrow> (k, Some (drop (length k + 1) opt)))"

definition file_params :: "string \<Rightarrow> params" where
  "file_params s = fold (\<lambda>opt d. case split_param opt of (k, v) \<Rightarrow> AList.update k v d) (filter (\<lambda>opt. opt \<noteq> []) (reList_split s)) []"

definition add_param_of_line :: "bool \<Rightarrow> string \<Rightarrow> params \<Rightarrow> params" where
  "add_param_of_line overwrite opt d =
     (case split_param opt of (k, v) \<Rightarrow>
        if k \<in> set (map fst d) then (if overwrite then AList.update k v d else d) else AList.update k v d)"

definition merge_params_of :: "bool \<Rightarrow> string \<Rightarrow> string \<Rightarrow> params" where
  "merge_params_of overwrite in_file on_line = fold (add_param_of_line overwrite) (reList_split on_line) (file_params in_file)"

text \<open>The merged parameters as a text; a comma is put only when there is something before it.\<close>

definition param_text :: "string \<times> string option \<Rightarrow> string" where
  "param_text kv = (case snd kv of Some v \<Rightarrow> if v = [] then fst kv else fst kv @ ''='' @ v | None \<Rightarrow> fst kv)"

definition params_text :: "params \<Rightarrow> string" where
  "params_text d = fold (\<lambda>kv acc. if acc = [] then param_text kv else acc @ '','' @ param_text kv) d []"

definition merge_option :: "string \<Rightarrow> 'f opt_def \<Rightarrow> 'f tval option \<Rightarrow> 'f tval \<Rightarrow> 'f tval res" where
  "merge_option compound d in_file on_line =
     (if compound \<in> set list_options then
        ebind (on_str TypeError (case in_file of None \<Rightarrow> VStr [] | Some v \<Rightarrow> v) Inr) (\<lambda>f.
        ebind (on_str TypeError on_line Inr) (\<lambda>l.
          Inr (VStr (params_text (merge_params_of (compound \<notin> set final_options) f l)))))
      else (case in_file of
              None \<Rightarrow> Inr on_line
            | Some v \<Rightarrow> Inr (if opt_default d \<noteq> on_line then on_line else v)))"

definition merge_section_option :: "(string \<times> 'f tval) list \<Rightarrow> string \<Rightarrow> string \<times> 'f opt_def \<Rightarrow> (string \<times> 'f tval) list \<Rightarrow>
    (string \<times> 'f tval) list res" where
  "merge_section_option line sec = (\<lambda>(opt, d) os.
     case map_of line opt of
       None \<Rightarrow> Inr os
     | Some l \<Rightarrow> ebind (merge_option (sec @ ''.'' @ opt) d (map_of os opt) l) (\<lambda>v. Inr (AList.update opt v os)))"

text \<open>
  \<open>items\<close> are the sections of the parsed file, \<open>line\<close> the options object of the command line when there is one.
  \<open>perms\<close> stands for \<open>checkPerms\<close>.
\<close>

definition init_section :: "(string \<Rightarrow> (string \<times> string) list option) \<Rightarrow> 'f cfg option \<Rightarrow> string \<Rightarrow> 'f cfg \<Rightarrow> 'f cfg res" where
  "init_section items line sec c =
     (case items sec of
        None \<Rightarrow> Inl (PyException ''NoSectionError'')
      | Some kvs \<Rightarrow>
          (let os = fold (\<lambda>(k, v) d. AList.update k (VStr (file_value v)) d) kvs [] in
           ebind (case line of
                    None \<Rightarrow> Inr os
                  | Some l \<Rightarrow>
                      ebind (key_res (map_of (defs (configDef c))) sec) (\<lambda>vars.
                        if vars = [] then Inr os
                        else ebind (section_of l sec) (\<lambda>ls. fold_res (merge_section_option ls sec) vars os))) (\<lambda>os'.
             Inr (c\<lparr>dict := AList.update sec (Options os') (dict c)\<rparr>))))"

definition required_perms :: string where
  "required_perms = ''0660''"

text \<open>\<open>perms\<close> is what \<open>get_perms\<close> gives; with an options object its \<open>OSError\<close> becomes another exception.\<close>

definition check_perms :: "bool \<Rightarrow> string \<Rightarrow> string res \<Rightarrow> unit res" where
  "check_perms has_options file perms =
     (case perms of
        Inl e \<Rightarrow>
          Inl (if has_options \<and> e = PyException ''OSError'' then PyException ''*** could not find config file'' else e)
      | Inr p \<Rightarrow>
          if p = required_perms then Inr ()
          else Inl (PyException (''*** '' @ in_quotes file @ '' has invalid permission: '' @ p @ '' should be '' @
            required_perms @ [newline])))"

definition init_config :: "bool \<Rightarrow> string res option \<Rightarrow> string \<Rightarrow> (string \<Rightarrow> (string \<times> string) list option) \<Rightarrow>
    'f config_def \<Rightarrow> string option \<Rightarrow> 'f cfg option \<Rightarrow> 'f cfg res" where
  "init_config exists perms file items d orig line =
     (if \<not> exists then Inl (PyException ''IOError'')
      else ebind (case perms of None \<Rightarrow> Inr () | Some p \<Rightarrow> check_perms (line \<noteq> None) file p) (\<lambda>_.
        fold_res (init_section items line) (sections d) ((baseConfig d orig)\<lparr>configFile := Some file\<rparr>)))"

end
