(* ===== verification/Hod_Actions.thy ===== *)
theory Hod_Actions
  imports Prelude
begin

text \<open>
  Code that changes a state \<open>'s\<close>, may raise and may not end, as functions from the state to the next state and an
  outcome. The state survives an exception, which is what clean-up code relies on.
\<close>

section \<open>Actions\<close>

type_synonym ('s, 'a) action = "'s \<Rightarrow> 's \<times> 'a out"

definition returns :: "'a \<Rightarrow> ('s, 'a) action" where
  "returns a s = (s, Ret a)"

definition raises :: "exn \<Rightarrow> ('s, 'a) action" where
  "raises e s = (s, Raise e)"

definition andthen :: "('s, 'a) action \<Rightarrow> ('a \<Rightarrow> ('s, 'b) action) \<Rightarrow> ('s, 'b) action" where
  "andthen m f s = (case m s of (s', Ret a) \<Rightarrow> f a s' | (s', Raise e) \<Rightarrow> (s', Raise e) | (s', Diverge) \<Rightarrow> (s', Diverge))"

definition catching :: "('s, 'a) action \<Rightarrow> (exn \<Rightarrow> ('s, 'a) action) \<Rightarrow> ('s, 'a) action" where
  "catching m h s = (case m s of (s', Raise e) \<Rightarrow> h e s' | r \<Rightarrow> r)"

definition updates :: "('s \<Rightarrow> 's) \<Rightarrow> ('s, unit) action" where
  "updates f s = (f s, Ret ())"

definition asks :: "('s \<Rightarrow> 'a) \<Rightarrow> ('s, 'a) action" where
  "asks f s = (s, Ret (f s))"

definition outcome :: "'a res \<Rightarrow> ('s, 'a) action" where
  "outcome r s = (s, of_res r)"

text \<open>An action for every element of a list, in order.\<close>

fun for_each :: "('a \<Rightarrow> ('s, unit) action) \<Rightarrow> 'a list \<Rightarrow> ('s, unit) action" where
  "for_each f [] = returns ()"
| "for_each f (x # xs) = andthen (f x) (\<lambda>_. for_each f xs)"

section \<open>Invariants and postconditions\<close>

definition keeps :: "('s \<Rightarrow> bool) \<Rightarrow> ('s, 'a) action \<Rightarrow> bool" where
  "keeps I m \<longleftrightarrow> (\<forall>s. I s \<longrightarrow> I (fst (m s)))"

definition post :: "('s, 'a) action \<Rightarrow> ('a out \<Rightarrow> 's \<Rightarrow> bool) \<Rightarrow> bool" where
  "post m Q \<longleftrightarrow> (\<forall>s. Q (snd (m s)) (fst (m s)))"

named_theorems keeps_rules \<open>which actions keep an invariant\<close>

lemma keepsD: "keeps I m \<Longrightarrow> I s \<Longrightarrow> I (fst (m s))"
  by (simp add: keeps_def)

lemma keeps_basic [keeps_rules]:
  "keeps I (returns a)" "keeps I (raises e)" "keeps I (asks f)" "keeps I (outcome r)"
  by (simp_all add: keeps_def returns_def raises_def asks_def outcome_def)

lemma keeps_diverge [keeps_rules]: "keeps I (\<lambda>s. (s, Diverge))"
  by (simp add: keeps_def)

lemma keeps_andthen [keeps_rules]: "keeps I m \<Longrightarrow> (\<And>a. keeps I (f a)) \<Longrightarrow> keeps I (andthen m f)"
  by (simp add: keeps_def andthen_def split: prod.split out.split) (metis fst_conv)

lemma keeps_catching [keeps_rules]: "keeps I m \<Longrightarrow> (\<And>e. keeps I (h e)) \<Longrightarrow> keeps I (catching m h)"
  by (simp add: keeps_def catching_def split: prod.split out.split) (metis fst_conv)

lemma keeps_for_each [keeps_rules]: "(\<And>x. keeps I (f x)) \<Longrightarrow> keeps I (for_each f xs)"
  by (induction xs) (auto intro: keeps_rules)

text \<open>What holds at one state: only the outcomes that are possible there count.\<close>

lemma andthen_case:
  assumes "\<And>a s1. m s = (s1, Ret a) \<Longrightarrow> P (f a s1)" and "\<And>e s1. m s = (s1, Raise e) \<Longrightarrow> P (s1, Raise e)"
    and "\<And>s1. m s = (s1, Diverge) \<Longrightarrow> P (s1, Diverge)"
  shows "P (andthen m f s)"
proof -
  obtain s1 r where "m s = (s1, r)" by (cases "m s")
  with assms show ?thesis by (cases r) (simp_all add: andthen_def)
qed

text \<open>What is known when an action returns.\<close>

lemma andthen_Ret: "andthen m f s = (s', Ret b) \<longleftrightarrow> (\<exists>s1 a. m s = (s1, Ret a) \<and> f a s1 = (s', Ret b))"
  by (auto simp: andthen_def split: prod.split out.split)

lemma raises_Ret [simp]: "raises e s \<noteq> (s', Ret b)"
  by (simp add: raises_def)

lemma catching_Ret:
  assumes "catching m h s = (s', Ret a)" and "\<And>e s1. snd (h e s1) \<noteq> Ret a"
  shows "m s = (s', Ret a)"
proof -
  obtain s1 r where m: "m s = (s1, r)" by (cases "m s")
  show ?thesis
  proof (cases r)
    case (Raise e)
    then have "h e s1 = (s', Ret a)" using assms(1) m by (simp add: catching_def)
    with assms(2) [of e s1] show ?thesis by simp
  qed (use assms(1) m in \<open>simp_all add: catching_def\<close>)
qed

lemma never_returns:
  "snd (raises e s) \<noteq> Ret a" "(\<And>b t. snd (f b t) \<noteq> Ret a) \<Longrightarrow> snd (andthen m f s) \<noteq> Ret a"
  by (auto simp: raises_def andthen_def split: prod.split out.split)

lemma post_catching:
  assumes "\<And>s s' a. m s = (s', Ret a) \<Longrightarrow> Q (Ret a) s'" and "\<And>s s'. m s = (s', Diverge) \<Longrightarrow> Q Diverge s'"
    and "\<And>e. post (h e) Q"
  shows "post (catching m h) Q"
  unfolding post_def
proof
  fix s
  show "Q (snd (catching m h s)) (fst (catching m h s))"
    using assms by (cases "m s"; cases "snd (m s)") (auto simp: catching_def post_def)
qed

text \<open>An action whose exceptions are all caught raises only what the handler raises.\<close>

definition never_raises :: "('s, 'a) action \<Rightarrow> bool" where
  "never_raises m \<longleftrightarrow> (\<forall>s e. snd (m s) \<noteq> Raise e)"

lemma never_raises_rules:
  "never_raises (returns a)" "never_raises (updates g)" "never_raises (asks f)"
  "never_raises m \<Longrightarrow> (\<And>a. never_raises (k a)) \<Longrightarrow> never_raises (andthen m k)"
  "(\<And>e. never_raises (h e)) \<Longrightarrow> never_raises (catching m' h)"
  by (auto simp: never_raises_def returns_def updates_def asks_def andthen_def catching_def split: prod.splits out.splits)
    (metis snd_conv)+

text \<open>What is known of the value an action returns.\<close>

definition yields :: "('a \<Rightarrow> bool) \<Rightarrow> ('s, 'a) action \<Rightarrow> bool" where
  "yields P m \<longleftrightarrow> (\<forall>s a. snd (m s) = Ret a \<longrightarrow> P a)"

lemma yieldsD: "yields P m \<Longrightarrow> m s = (s', Ret a) \<Longrightarrow> P a"
  unfolding yields_def by (metis snd_conv)

lemma yields_returns: "P a \<Longrightarrow> yields P (returns a)"
  by (simp add: yields_def returns_def)

lemma yields_andthen: "yields Q m \<Longrightarrow> (\<And>a. Q a \<Longrightarrow> yields P (f a)) \<Longrightarrow> yields P (andthen m f)"
  by (auto simp: yields_def andthen_def split: prod.splits out.splits) (metis snd_conv)+

lemma yields_any: "yields (\<lambda>_. True) m"
  by (simp add: yields_def)

lemma yields_then: "(\<And>a. yields P (f a)) \<Longrightarrow> yields P (andthen m f)"
  by (rule yields_andthen [OF yields_any])

lemma yields_catching: "yields P m \<Longrightarrow> (\<And>e. yields P (h e)) \<Longrightarrow> yields P (catching m h)"
  by (auto simp: yields_def catching_def split: prod.splits out.splits) (metis snd_conv)+

end
