(* ===== verification/Hod_Torque.thy ===== *)
theory Hod_Torque
  imports Hod_Util
begin

text \<open>
  The batch system behind Hadoop on Demand: \<open>hodlib/Schedulers/torque.py\<close> runs the commands of Torque and reads
  what they print, \<open>hodlib/NodePools/torque.py\<close> keeps the node sets of a client and talks to it
  (\<open>hodlib/Hod/nodePool.py\<close>, \<open>hodlib/Common/nodepoolutil.py\<close>). Running a command is a parameter: a function that
  takes the command and its input and changes the state \<open>'w\<close> of the world.
\<close>

section \<open>Commands of Torque\<close>

text \<open>
  A finished process: its exit code, what it printed, and whether it closed its input before all of it was written.
\<close>

record proc =
  exit_code :: nat
  printed :: "string list"
  stdin_broken :: bool

type_synonym 'w sys = "string \<Rightarrow> string list \<Rightarrow> 'w \<Rightarrow> 'w \<times> proc"

record torque =
  tq_qsub :: string
  tq_qdel :: string
  tq_qstat :: string
  tq_pbsdsh :: string
  tq_qalter :: string

definition torqueInterface :: "string \<Rightarrow> torque" where
  "torqueInterface dir =
     (let bin = (\<lambda>name. path_join (path_join dir ''bin'') name) in
      \<lparr>tq_qsub = bin ''qsub'', tq_qdel = bin ''qdel'', tq_qstat = bin ''qstat'', tq_pbsdsh = bin ''pbsdsh'',
       tq_qalter = bin ''qalter''\<rparr>)"

text \<open>The job id that \<open>qsub\<close> returns: \<open>False\<close>, \<open>None\<close> or a string.\<close>

datatype job_id = JobFalse | JobNone | JobId string

definition strip_newlines :: "string \<Rightarrow> string" where
  "strip_newlines s = rev (dropWhile (\<lambda>c. c = newline) (rev s))"

definition qsub :: "'w sys \<Rightarrow> torque \<Rightarrow> string list \<Rightarrow> string list \<Rightarrow> 'w \<Rightarrow> 'w \<times> (job_id \<times> nat) res" where
  "qsub run tq argList stdinList w =
     (case run (tq_qsub tq @ '' '' @ args_to_string argList) stdinList w of (w', p) \<Rightarrow>
        (w', if stdin_broken p then Inr (JobNone, exit_code p)
             else if exit_code p = 0 then
               ebind (nth_res (printed p) 0) (\<lambda>line. Inr (JobId (strip_newlines line), 0))
             else Inr (JobFalse, exit_code p)))"

text \<open>
  What \<open>qstat\<close> tells of a job: a dict whose values are strings, but a list of hosts for \<open>exec_host\<close> and \<open>False\<close>
  for the state of a job that could not be asked for.
\<close>

datatype qvalue = QStr string | QHosts "string list" | QFalse

type_synonym job_info = "(string \<times> qvalue) list"

definition is_word_char :: "char \<Rightarrow> bool" where
  "is_word_char c \<longleftrightarrow> is_alnum c \<or> c = CHR ''_''"

text \<open>\<open>reQstatLine.match\<close> on a line without white space at its end.\<close>

definition match_qstat :: "string \<Rightarrow> (string \<times> string) option" where
  "match_qstat line =
     (let l = py_lstrip line; key = takeWhile is_word_char l; r = py_lstrip (dropWhile is_word_char l) in
      if key \<noteq> [] \<and> r \<noteq> [] \<and> hd r = CHR ''='' then Some (key, py_lstrip (tl r)) else None)"

definition rstrip_line :: "string \<Rightarrow> string" where
  "rstrip_line s = rev (dropWhile is_space (rev s))"

fun qstat_lines :: "string list \<Rightarrow> job_info \<Rightarrow> job_info" where
  "qstat_lines [] info = info"
| "qstat_lines (raw # rest) info =
     (case match_qstat (rstrip_line raw) of
        None \<Rightarrow> qstat_lines rest info
      | Some (k, v) \<Rightarrow> qstat_lines rest (AList.update k (QStr v) info))"

text \<open>\<open>item.split('/', 1)\<close> into two names.\<close>

definition host_part :: "string \<Rightarrow> string res" where
  "host_part item =
     (if CHR ''/'' \<in> set item then Inr (takeWhile (\<lambda>c. c \<noteq> CHR ''/'') item) else Inl (ValueError ''unpack''))"

definition exec_hosts :: "job_info \<Rightarrow> job_info res" where
  "exec_hosts info =
     (case map_of info ''exec_host'' of
        Some (QStr s) \<Rightarrow>
          ebind (emap host_part (split_char (CHR ''+'') s)) (\<lambda>hosts. Inr (AList.update ''exec_host'' (QHosts hosts) info))
      | _ \<Rightarrow> Inr info)"

definition job_arg :: "job_id \<Rightarrow> string" where
  "job_arg j = (case j of JobId s \<Rightarrow> s | JobNone \<Rightarrow> ''None'' | JobFalse \<Rightarrow> ''False'')"

definition qstat :: "'w sys \<Rightarrow> torque \<Rightarrow> job_id \<Rightarrow> 'w \<Rightarrow> 'w \<times> (job_info option \<times> nat) res" where
  "qstat run tq j w =
     (case run (tq_qstat tq @ '' -f -1 '' @ job_arg j) [] w of (w', p) \<Rightarrow>
        (w', if 0 < exit_code p then Inr (None, exit_code p)
             else ebind (exec_hosts (qstat_lines (printed p) [])) (\<lambda>info. Inr (Some info, 0))))"

definition qdel :: "'w sys \<Rightarrow> torque \<Rightarrow> string \<Rightarrow> bool \<Rightarrow> 'w \<Rightarrow> 'w \<times> nat" where
  "qdel run tq j force w =
     (case run (if force then tq_qdel tq @ '' -p '' @ j else tq_qdel tq @ '' '' @ j) [] w of (w', p) \<Rightarrow>
        (w', exit_code p))"

text \<open>\<open>pbsdsh\<close> is not waited for: \<open>looks\<close> are the exit codes seen, \<open>None\<close> while there is none.\<close>

definition pbsdsh :: "nat option list \<Rightarrow> nat" where
  "pbsdsh looks =
     (case List.find (\<lambda>st. st \<noteq> None \<and> st \<noteq> Some 0) (take 30 looks) of
        Some (Some st) \<Rightarrow> st | _ \<Rightarrow> 0)"

definition qalter :: "'w sys \<Rightarrow> torque \<Rightarrow> string \<Rightarrow> string \<Rightarrow> string \<Rightarrow> 'w \<Rightarrow> 'w \<times> nat" where
  "qalter run tq field_name field_value j w =
     (case run (tq_qalter tq @ '' -W '' @ field_name @ ''='' @ [dquote] @ field_value @ [dquote] @ '' '' @ j) [] w of
        (w', p) \<Rightarrow> (w', exit_code p))"

section \<open>Node sets\<close>

datatype set_id = SetNum nat | SetName string

record node_set =
  set_id :: set_id
  numNodes :: nat
  preferredList :: "string list"
  isPreemptee :: bool
  cmdDescSet :: "string list"
  qsubId :: "job_id option"
  addrList :: "string list"

definition TorqueNodeSet :: "set_id \<Rightarrow> nat \<Rightarrow> string list \<Rightarrow> bool \<Rightarrow> node_set" where
  "TorqueNodeSet i n preferred preemptee =
     \<lparr>set_id = i, numNodes = n, preferredList = preferred, isPreemptee = preemptee, cmdDescSet = [],
      qsubId = None, addrList = []\<rparr>"

definition registerCommand :: "string \<Rightarrow> node_set \<Rightarrow> node_set" where
  "registerCommand cmd s = s\<lparr>cmdDescSet := cmdDescSet s @ [cmd]\<rparr>"

definition setQsubId :: "job_id \<Rightarrow> node_set \<Rightarrow> node_set" where
  "setQsubId j s = s\<lparr>qsubId := Some j\<rparr>"

definition setAddrList :: "string list \<Rightarrow> node_set \<Rightarrow> node_set" where
  "setAddrList addrs s = s\<lparr>addrList := addrs\<rparr>"

text \<open>
  The pool: its node sets by id, in the order of the dict, the number of the next one, the state of the job as last
  asked for, and the options it reads.
\<close>

record pool =
  nodeSetDict :: "(set_id \<times> node_set) list"
  nextNodeSetId :: nat
  jobInfo :: "job_info option"
  pool_attrs :: attrs
  pool_torque :: torque
  pbs_user :: "string option"
  pbs_queue :: "string option"
  pbs_account :: "string option"
  env_vars :: "attrs option"
  pool_title :: string
  base_dir :: string

definition getNextNodeSetId :: "pool \<Rightarrow> pool \<times> nat" where
  "getNextNodeSetId p = (p\<lparr>nextNodeSetId := nextNodeSetId p + 1\<rparr>, nextNodeSetId p)"

definition falsy_id :: "set_id option \<Rightarrow> bool" where
  "falsy_id i \<longleftrightarrow> i = None \<or> i = Some (SetNum 0) \<or> i = Some (SetName [])"

definition newNodeSet :: "nat \<Rightarrow> set_id option \<Rightarrow> pool \<Rightarrow> pool \<times> set_id" where
  "newNodeSet n i p =
     (case (if falsy_id i then (case getNextNodeSetId p of (p', k) \<Rightarrow> (p', SetNum k)) else (p, the i)) of
        (p', k) \<Rightarrow> (p'\<lparr>nodeSetDict := AList.update k (TorqueNodeSet k n [] True) (nodeSetDict p')\<rparr>, k))"

definition getAccountString :: "pool \<Rightarrow> string" where
  "getAccountString p = (case pbs_account p of None \<Rightarrow> [] | Some a \<Rightarrow> a)"

section \<open>Submitting\<close>

text \<open>
  \<open>process_qsub_attributes\<close> changes the dict of the descriptor in place: the extensions, the number of nodes and
  the wall time. Each key is an option and a name within it, split at the first colon.
\<close>

definition qsub_attributes :: "nat \<Rightarrow> string option \<Rightarrow> string option \<Rightarrow> attrs \<Rightarrow> attrs" where
  "qsub_attributes nodes walltime qosLevel d =
     (let x = (case map_of d ''W:x'' of None \<Rightarrow> [] | Some v \<Rightarrow> v);
          x' = (case qosLevel of
                  None \<Rightarrow> x
                | Some q \<Rightarrow> if q = [] then x else x @ (if x = [] then [] else '';'') @ ''QOS:'' @ q);
          d1 = AList.update ''W:x'' x' d;
          d2 = AList.update ''l:nodes'' (nat_str nodes) d1 in
      case walltime of None \<Rightarrow> d2 | Some t \<Rightarrow> if t = [] then d2 else AList.update ''l:walltime'' t d2)"

definition split_key :: "string \<Rightarrow> (string \<times> string) res" where
  "split_key k =
     (if CHR '':'' \<in> set k
      then Inr (takeWhile (\<lambda>c. c \<noteq> CHR '':'') k, tl (dropWhile (\<lambda>c. c \<noteq> CHR '':'') k))
      else Inl (ValueError ''Syntax error: missing colon''))"

definition add_option :: "string \<Rightarrow> string \<Rightarrow> string \<Rightarrow> (string \<times> attrs) list \<Rightarrow> (string \<times> attrs) list" where
  "add_option opt sub v cmds =
     AList.update opt (AList.update sub v (case map_of cmds opt of None \<Rightarrow> [] | Some d \<Rightarrow> d)) cmds"

fun group_options :: "attrs \<Rightarrow> (string \<times> attrs) list \<Rightarrow> (string \<times> attrs) list res" where
  "group_options [] cmds = Inr cmds"
| "group_options ((k, v) # rest) cmds =
     ebind (split_key k) (\<lambda>(opt, sub). group_options rest (add_option opt sub v cmds))"

definition option_words :: "(string \<times> attrs) list \<Rightarrow> string list" where
  "option_words cmds =
     concat (map (\<lambda>(k, nv). [''-'' @ k, py_join '','' (map (\<lambda>(n, v). if n = [] then v else n @ ''='' @ v) nv)]) cmds)"

text \<open>Both loops at the end append the words of every option.\<close>

definition process_qsub_attributes :: "nat \<Rightarrow> string option \<Rightarrow> string option \<Rightarrow> attrs \<Rightarrow> string list res" where
  "process_qsub_attributes nodes walltime qosLevel d =
     ebind (group_options (qsub_attributes nodes walltime qosLevel d) []) (\<lambda>cmds.
       Inr (option_words cmds @ option_words cmds))"

definition keyValToString :: "attrs \<Rightarrow> string" where
  "keyValToString kvs = butlast (concat (map (\<lambda>(k, v). k @ ''='' @ v @ '','') kvs))"

definition option_words_of :: "string \<Rightarrow> string option \<Rightarrow> string list" where
  "option_words_of flag v = (case v of None \<Rightarrow> [] | Some x \<Rightarrow> [flag, x])"

definition gen_arg_list :: "node_set \<Rightarrow> string option \<Rightarrow> string option \<Rightarrow> pool \<Rightarrow> string list res" where
  "gen_arg_list s walltime qosLevel p =
     ebind (process_qsub_attributes (numNodes s) walltime qosLevel (pool_attrs p)) (\<lambda>opts.
       Inr (opts @ [''-N'', [dquote] @ pool_title p @ [dquote]] @ [''-r'', ''n''] @
         option_words_of ''-u'' (pbs_user p) @ [''-d'', ''/tmp/''] @ option_words_of ''-q'' (pbs_queue p) @
         option_words_of ''-A'' (pbs_account p) @
         (case env_vars p of None \<Rightarrow> [] | Some kvs \<Rightarrow> [''-v'', keyValToString kvs])))"

text \<open>The script for the ring master; \<open>args\<close> are the options it is given.\<close>

definition gen_stdin_list :: "string list \<Rightarrow> pool \<Rightarrow> string list" where
  "gen_stdin_list args p =
     [''#!/bin/sh'', args_to_string (path_join (path_join (base_dir p) ''bin'') ''ringmaster'' # args)]"

text \<open>\<open>submitNodeSet\<close>: the attributes stay changed, and the node set remembers the job.\<close>

definition submitNodeSet ::
    "'w sys \<Rightarrow> string list \<Rightarrow> set_id \<Rightarrow> string option \<Rightarrow> pool \<Rightarrow> 'w \<Rightarrow> 'w \<times> pool \<times> (job_id \<times> nat) res" where
  "submitNodeSet run args k walltime p w =
     (case map_of (nodeSetDict p) k of
        None \<Rightarrow> (w, p, Inl KeyError)
      | Some s \<Rightarrow>
          (let p1 = p\<lparr>pool_attrs := qsub_attributes (numNodes s) walltime None (pool_attrs p)\<rparr> in
           case gen_arg_list s walltime None p of
             Inl e \<Rightarrow> (w, p1, Inl e)
           | Inr argList \<Rightarrow>
               (case qsub run (pool_torque p) argList (gen_stdin_list args p) w of
                  (w', Inl e) \<Rightarrow> (w', p1, Inl e)
                | (w', Inr (j, code)) \<Rightarrow>
                    (w', p1\<lparr>nodeSetDict := AList.update k (setQsubId j s) (nodeSetDict p1)\<rparr>, Inr (j, code)))))"

section \<open>Asking and deleting\<close>

definition deleteJob :: "'w sys \<Rightarrow> string \<Rightarrow> pool \<Rightarrow> 'w \<Rightarrow> 'w \<times> nat" where
  "deleteJob run j p w = qdel run (pool_torque p) j False w"

definition id_arg :: "set_id \<Rightarrow> string" where
  "id_arg k = (case k of SetNum n \<Rightarrow> nat_str n | SetName s \<Rightarrow> s)"

definition freeNodeSet :: "'w sys \<Rightarrow> set_id \<Rightarrow> pool \<Rightarrow> 'w \<Rightarrow> 'w \<times> pool \<times> nat" where
  "freeNodeSet run k p w =
     (case deleteJob run (id_arg k) p w of (w', code) \<Rightarrow>
        (w', p\<lparr>nodeSetDict := AList.delete k (nodeSetDict p)\<rparr>, code))"

fun free_all :: "'w sys \<Rightarrow> set_id list \<Rightarrow> nat \<Rightarrow> pool \<Rightarrow> 'w \<Rightarrow> 'w \<times> pool \<times> nat" where
  "free_all run [] code p w = (w, p, code)"
| "free_all run (k # ks) code p w =
     (case freeNodeSet run k p w of (w', p', code') \<Rightarrow> free_all run ks code' p' w')"

text \<open>The exit code of the last deletion decides, and 153 (no such job) is no failure.\<close>

definition pool_finalize :: "'w sys \<Rightarrow> pool \<Rightarrow> 'w \<Rightarrow> 'w \<times> pool \<times> nat" where
  "pool_finalize run p w =
     (case free_all run (map (set_id \<circ> snd) (nodeSetDict p)) 0 p w of (w', p', code) \<Rightarrow>
        (w', p', if 0 < code \<and> code \<noteq> 153 then 4 else 0))"

text \<open>The job of the first node set, or the one the process runs in.\<close>

definition getServiceId :: "string option \<Rightarrow> pool \<Rightarrow> job_id" where
  "getServiceId pbs_jobid p =
     (let env = (case pbs_jobid of None \<Rightarrow> JobNone | Some s \<Rightarrow> JobId s) in
      case nodeSetDict p of
        [] \<Rightarrow> env
      | (k, s) # rest \<Rightarrow> (case qsubId s of None \<Rightarrow> env | Some JobNone \<Rightarrow> env | Some j \<Rightarrow> j))"

definition getJobInfo ::
    "'w sys \<Rightarrow> string option \<Rightarrow> job_id option \<Rightarrow> pool \<Rightarrow> 'w \<Rightarrow> 'w \<times> pool \<times> job_info res" where
  "getJobInfo run pbs_jobid j p w =
     (let unknown = [(''job_state'', QFalse)]; p0 = p\<lparr>jobInfo := Some unknown\<rparr> in
      case qstat run (pool_torque p) (case j of None \<Rightarrow> getServiceId pbs_jobid p | Some i \<Rightarrow> i) w of
        (w', Inl e) \<Rightarrow> (w', p0, Inl e)
      | (w', Inr (info, code)) \<Rightarrow>
          (let i = (if code = 0 then the info else if code = 153 then [(''job_state'', QStr ''C'')] else unknown) in
           (w', p\<lparr>jobInfo := Some i\<rparr>, Inr i)))"

text \<open>
  Whether the job can run, from the comment the scheduler leaves. The pattern is an option; \<open>find_usage\<close> is its
  search, which gives the requested, the current and the greatest usage.
\<close>

datatype feasible = Never | NotNow | Feasible

definition usage_message :: "int \<Rightarrow> int \<Rightarrow> int \<Rightarrow> string" where
  "usage_message current requested limit =
     ''Current Usage:'' @ int_str current @ '', Requested:'' @ int_str requested @ '', Maximum Limit:'' @ int_str limit @ '' ''"

definition isJobFeasible ::
    "(string \<Rightarrow> (string \<times> string \<times> string) option) \<Rightarrow> pool \<Rightarrow> (feasible \<times> string option) res" where
  "isJobFeasible find_usage p =
     (case jobInfo p of
        None \<Rightarrow> Inl AttributeError
      | Some info \<Rightarrow>
          (case map_of info ''comment'' of
             Some (QStr comment) \<Rightarrow>
               if comment = [] then Inr (Feasible, None)
               else (case find_usage comment of
                       None \<Rightarrow> Inr (Feasible, None)
                     | Some (r, c, m) \<Rightarrow>
                         (case emap py_int [r, c, m] of
                            Inr [req, cur, mx] \<Rightarrow>
                              Inr (if req > mx then Never else if req + cur > mx then NotNow else Feasible,
                                   Some (usage_message cur req mx))
                          | _ \<Rightarrow> Inl (PyException ''Error in isJobFeasible'')))
           | _ \<Rightarrow> Inr (Feasible, None)))"

definition worker_info_text :: "attrs \<Rightarrow> string" where
  "worker_info_text info = drop 1 (concat (map (\<lambda>(k, v). '','' @ k @ '':'' @ v) info))"

definition updateWorkerInfo :: "'w sys \<Rightarrow> attrs \<Rightarrow> string \<Rightarrow> pool \<Rightarrow> 'w \<Rightarrow> 'w \<times> nat" where
  "updateWorkerInfo run info j p w = qalter run (pool_torque p) ''notes'' (worker_info_text info) j w"

text \<open>Two methods call the interface object itself, which raises.\<close>

definition getWorkers :: "pool \<Rightarrow> string list res" where
  "getWorkers p = Inl AttributeError"

definition pollNodeSet :: "pool \<Rightarrow> nat res" where
  "pollNodeSet p = ebind (key_res (map_of (nodeSetDict p)) (SetNum 0)) (\<lambda>s. Inl AttributeError)"

definition getNodePool :: "string \<Rightarrow> pool \<Rightarrow> pool option" where
  "getNodePool name p = (if name = ''torque'' then Some p else None)"

section \<open>The default pattern for limits\<close>

text \<open>\<open>TORQUE_USER_LIMITS_COMMENT_FIELD\<close>: three numbers after fixed words, the dot standing for any character.\<close>

definition after_literal :: "string \<Rightarrow> string \<Rightarrow> string option" where
  "after_literal l s = (if startswith s l then Some (drop (length l) s) else None)"

definition limits_at :: "string \<Rightarrow> (string \<times> string \<times> string) option" where
  "limits_at s =
     Option.bind (after_literal ''User-limits exceeded'' s) (\<lambda>s1.
     if s1 = [] \<or> hd s1 = newline then None else
     Option.bind (after_literal '' Requested:'' (tl s1)) (\<lambda>s2.
     Option.bind (after_literal '' Used:'' (dropWhile is_digit s2)) (\<lambda>s3.
     Option.bind (after_literal '' MaxLimit:'' (dropWhile is_digit s3)) (\<lambda>s4.
       Some (takeWhile is_digit s2, takeWhile is_digit s3, takeWhile is_digit s4)))))"

fun find_limits :: "string \<Rightarrow> (string \<times> string \<times> string) option" where
  "find_limits [] = None"
| "find_limits (c # s) = (case limits_at (c # s) of None \<Rightarrow> find_limits s | Some x \<Rightarrow> Some x)"

section \<open>Facts\<close>

text \<open>Each option is handed to \<open>qsub\<close> twice, because two loops append the same words.\<close>

lemma qsub_options_twice:
  "process_qsub_attributes nodes walltime qosLevel d = Inr opts \<Longrightarrow> \<exists>ws. opts = ws @ ws"
  by (auto simp: process_qsub_attributes_def result_simps)

lemma host_part_slash: "CHR ''/'' \<notin> set h \<Longrightarrow> host_part (h @ CHR ''/'' # n) = Inr h"
  by (induction h) (auto simp: host_part_def)

lemma split_join_plus:
  "list_all (\<lambda>x. CHR ''+'' \<notin> set x) xs \<Longrightarrow> xs \<noteq> [] \<Longrightarrow> split_char (CHR ''+'') (py_join ''+'' xs) = xs"
proof (induction xs)
  case (Cons x xs)
  then show ?case by (cases xs) (simp_all add: split_char_append split_char_single)
qed simp

definition host_slot :: "string \<times> string \<Rightarrow> string" where
  "host_slot hn = fst hn @ ''/'' @ snd hn"

definition plain_slot :: "string \<times> string \<Rightarrow> bool" where
  "plain_slot hn \<longleftrightarrow> CHR ''/'' \<notin> set (fst hn) \<and> CHR ''+'' \<notin> set (fst hn) \<and> CHR ''+'' \<notin> set (snd hn)"

lemma emap_host_part: "list_all plain_slot hns \<Longrightarrow> emap host_part (map host_slot hns) = Inr (map fst hns)"
  by (induction hns) (simp_all add: host_slot_def plain_slot_def host_part_slash)

lemma no_plus: "list_all plain_slot hns \<Longrightarrow> list_all (\<lambda>x. CHR ''+'' \<notin> set x) (map host_slot hns)"
  by (induction hns) (simp_all add: host_slot_def plain_slot_def)

text \<open>The hosts of a job are the names before the slashes, in order.\<close>

theorem exec_hosts_parsed:
  assumes "hns \<noteq> []" and "list_all plain_slot hns"
    and "map_of info ''exec_host'' = Some (QStr (py_join ''+'' (map host_slot hns)))"
  shows "\<exists>info'. exec_hosts info = Inr info' \<and> map_of info' ''exec_host'' = Some (QHosts (map fst hns))"
proof -
  have "split_char (CHR ''+'') (py_join ''+'' (map host_slot hns)) = map host_slot hns"
    using assms(1) no_plus [OF assms(2)] by (intro split_join_plus) simp_all
  then show ?thesis
    using assms(3) emap_host_part [OF assms(2)] by (simp add: exec_hosts_def update_conv')
qed

lemma digits_then:
  "\<not> is_digit c \<Longrightarrow> takeWhile is_digit (nat_str n @ c # t) = nat_str n"
  "\<not> is_digit c \<Longrightarrow> dropWhile is_digit (nat_str n @ c # t) = c # t"
  using nat_str_digits [of n] by (simp_all add: list_all_iff takeWhile_append2 dropWhile_append2)

lemma digits_end: "takeWhile is_digit (nat_str n) = nat_str n"
  using nat_str_digits [of n] by (simp add: list_all_iff)

definition limits_comment :: "char \<Rightarrow> nat \<Rightarrow> nat \<Rightarrow> nat \<Rightarrow> string" where
  "limits_comment dot r u m =
     ''User-limits exceeded'' @ [dot] @ '' Requested:'' @ nat_str r @ '' Used:'' @ nat_str u @ '' MaxLimit:'' @ nat_str m"

lemma limits_at_comment: "dot \<noteq> newline \<Longrightarrow> limits_at (limits_comment dot r u m) = Some (nat_str r, nat_str u, nat_str m)"
  by (simp add: limits_at_def limits_comment_def after_literal_def startswith_def digits_then digits_end
      is_digit_def code_point_def)

text \<open>
  C31: With the default pattern, a job asking for \<open>r\<close> of at most \<open>m\<close> while \<open>u\<close> are in use can never run when \<open>r > m\<close>,
  cannot run now when \<open>r + u > m\<close>, and can run otherwise.
\<close>

theorem feasible_by_numbers:
  assumes "dot \<noteq> newline"
    and "jobInfo p = Some info" and "map_of info ''comment'' = Some (QStr (limits_comment dot r u m))"
  shows "isJobFeasible find_limits p =
    Inr (if m < r then Never else if m < r + u then NotNow else Feasible, Some (usage_message (int u) (int r) (int m)))"
proof -
  have "find_limits (limits_comment dot r u m) = Some (nat_str r, nat_str u, nat_str m)"
    using limits_at_comment [OF assms(1), of r u m]
    by (cases "limits_comment dot r u m") (simp_all add: limits_comment_def)
  moreover have "limits_comment dot r u m \<noteq> []" by (simp add: limits_comment_def)
  ultimately show ?thesis using assms(2, 3) by (simp add: isJobFeasible_def)
qed

text \<open>A job on two hosts, and a comment that tells the limits.\<close>

theorem exec_hosts_parsed_witness:
  "\<exists>info'. exec_hosts [(''exec_host'', QStr ''a/0+b/1'')] = Inr info' \<and>
     map_of info' ''exec_host'' = Some (QHosts [''a'', ''b''])"
  using exec_hosts_parsed [of "[(''a'', ''0''), (''b'', ''1'')]" "[(''exec_host'', QStr ''a/0+b/1'')]"]
  by (simp add: plain_slot_def host_slot_def)

definition sample_info_pool :: pool where
  "sample_info_pool =
     \<lparr>nodeSetDict = [], nextNodeSetId = 0, jobInfo = Some [(''comment'', QStr (limits_comment CHR ''.'' 5 2 4))],
      pool_attrs = [], pool_torque = torqueInterface ''/t'', pbs_user = None, pbs_queue = None, pbs_account = None,
      env_vars = None, pool_title = [], base_dir = []\<rparr>"

theorem feasible_by_numbers_witness:
  "isJobFeasible find_limits sample_info_pool = Inr (Never, Some (usage_message 2 5 4))"
  using feasible_by_numbers [of "CHR ''.''" sample_info_pool "[(''comment'', QStr (limits_comment CHR ''.'' 5 2 4))]" 5 2 4]
  by (simp add: sample_info_pool_def)

end
