(* ===== verification/Hod_Site.thy ===== *)
theory Hod_Site
  imports Hod_Util
begin

text \<open>
  The configuration file the client of Hadoop on Demand writes: \<open>hadoopConfig\<close> of \<open>hodlib/Hod/hadoop.py\<close>. Dicts are
  association lists in the order Python iterates over them.
\<close>

section \<open>The parameters\<close>

text \<open>Where a parameter comes from; the descriptions in the file are the only record the code keeps of it.\<close>

datatype origin = Generated | FinalServer | Server | Client

fun description :: "origin \<Rightarrow> string" where
  "description Generated = ''Hod generated parameter''"
| "description FinalServer = ''final server parameter''"
| "description Server = ''server parameter''"
| "description Client = ''client-side parameter''"

definition is_final :: "origin \<Rightarrow> bool" where
  "is_final r \<longleftrightarrow> r = FinalServer \<or> r = Generated"

type_synonym site = "(string \<times> origin \<times> string) list"

text \<open>
  \<open>reduces\<close> stands for multiplying by the cluster factor, a float, and rounding down. An address that is missing
  or empty becomes a dummy.
\<close>

definition generated_params :: "(int \<Rightarrow> int) \<Rightarrow> string \<Rightarrow> nat \<Rightarrow> string \<Rightarrow> string \<Rightarrow> string option \<Rightarrow> site" where
  "generated_params reduces tempDir nodes hdfsAddr mrSysDir mapredAddr =
     (let addr = (if mapredAddr = None \<or> mapredAddr = Some [] then ''dummy:8181'' else the mapredAddr) in
      [(''mapred.job.tracker'', Generated, addr),
       (''fs.default.name'', Generated, ''hdfs://'' @ hdfsAddr),
       (''hadoop.tmp.dir'', Generated, tempDir),
       (''mapred.system.dir'', Generated, mrSysDir),
       (''mapred.reduce.tasks'', Generated, int_str (reduces (int nodes - 1)))])"

definition add_param :: "origin \<Rightarrow> (string \<times> string) \<Rightarrow> site \<Rightarrow> site" where
  "add_param r kv ps =
     (case map_of ps (fst kv) of
        None \<Rightarrow> AList.update (fst kv) (r, snd kv) ps
      | Some (r', v') \<Rightarrow> if r = Client \<and> r' = Server then AList.update (fst kv) (r, snd kv) ps else ps)"

definition add_params :: "origin \<Rightarrow> attrs option \<Rightarrow> site \<Rightarrow> site" where
  "add_params r d ps = (case d of None \<Rightarrow> ps | Some kvs \<Rightarrow> fold (add_param r) kvs ps)"

definition site_params :: "site \<Rightarrow> attrs option \<Rightarrow> attrs option \<Rightarrow> attrs option \<Rightarrow> site" where
  "site_params generated clientParams serverParams finalServerParams =
     add_params Client clientParams (add_params Server serverParams (add_params FinalServer finalServerParams generated))"

section \<open>The file\<close>

definition xml_escape_char :: "char \<Rightarrow> string" where
  "xml_escape_char c =
     (if c = CHR ''&'' then ''&amp;'' else if c = CHR ''<'' then ''&lt;''
      else if c = dquote then ''&quot;'' else if c = CHR ''>'' then ''&gt;'' else [c])"

definition xml_escape :: "string \<Rightarrow> string" where
  "xml_escape s = concat (map xml_escape_char s)"

definition xml_node :: "string \<Rightarrow> string \<Rightarrow> string" where
  "xml_node tag s = ''<'' @ tag @ ''>'' @ s @ ''</'' @ tag @ ''>''"

definition create_xml_element :: "string \<Rightarrow> string \<Rightarrow> string \<Rightarrow> bool \<Rightarrow> string" where
  "create_xml_element name val desc final =
     xml_node ''property''
       (xml_node ''name'' (xml_escape name) @ xml_node ''value'' (xml_escape val) @
        (if final then xml_node ''final'' ''true'' else []) @ xml_node ''description'' (xml_escape desc))"

definition site_text :: "site \<Rightarrow> string" where
  "site_text ps =
     xml_node ''configuration''
       (''<!--This is an auto generated hadoop-site.xml, do not modify-->'' @
        concat (map (\<lambda>(k, r, v). create_xml_element k v (description r) (is_final r)) ps)) @ [newline]"

definition gen_site_conf :: "(int \<Rightarrow> int) \<Rightarrow> string \<Rightarrow> string \<Rightarrow> nat \<Rightarrow> string \<Rightarrow> string \<Rightarrow> string option \<Rightarrow>
    attrs option \<Rightarrow> attrs option \<Rightarrow> attrs option \<Rightarrow> string \<times> string" where
  "gen_site_conf reduces confDir tempDir nodes hdfsAddr mrSysDir mapredAddr clientParams serverParams finalServerParams =
     (path_join confDir ''hadoop-site.xml'',
      site_text (site_params (generated_params reduces tempDir nodes hdfsAddr mrSysDir mapredAddr)
        clientParams serverParams finalServerParams))"

section \<open>Which value wins\<close>

lemma map_of_add_param:
  "map_of (add_param r kv ps) k =
     (if k = fst kv then
        (case map_of ps k of None \<Rightarrow> Some (r, snd kv)
         | Some (r', v') \<Rightarrow> if r = Client \<and> r' = Server then Some (r, snd kv) else Some (r', v'))
      else map_of ps k)"
  by (auto simp: add_param_def update_conv' split: option.splits)

text \<open>A dict adds what is new to the parameters; a client's dict also replaces what the server's has.\<close>

lemma map_of_add_params:
  assumes "distinct (map fst kvs)" and "\<forall>v. map_of ps k \<noteq> Some (Client, v)"
  shows "map_of (fold (add_param r) kvs ps) k =
    (case map_of kvs k of
       None \<Rightarrow> map_of ps k
     | Some v \<Rightarrow> (case map_of ps k of
                     None \<Rightarrow> Some (r, v)
                   | Some (r', v') \<Rightarrow> if r = Client \<and> r' = Server then Some (r, v) else Some (r', v')))"
  using assms
proof (induction kvs arbitrary: ps)
  case (Cons kv kvs)
  show ?case
  proof (cases "k = fst kv")
    case True
    then have none: "map_of kvs k = None" using Cons.prems(1) by (auto simp: map_of_eq_None_iff)
    have keep: "map_of (fold (add_param r) kvs qs) k = map_of qs k" if "map_of kvs k = None" for qs
      using that
    proof (induction kvs arbitrary: qs)
      case (Cons kv' kvs')
      then show ?case by (auto simp: map_of_add_param split: if_splits)
    qed simp
    from keep [OF none] True none show ?thesis
      by (cases kv) (auto simp: map_of_add_param split: option.splits)
  next
    case False
    then have "map_of (add_param r kv ps) k = map_of ps k" by (simp add: map_of_add_param)
    with Cons False show ?thesis by (cases kv) (auto split: option.split)
  qed
qed simp

abbreviation dict_of :: "attrs option \<Rightarrow> string \<Rightarrow> string option" where
  "dict_of d \<equiv> map_of (case d of None \<Rightarrow> [] | Some kvs \<Rightarrow> kvs)"

definition distinct_keys :: "attrs option \<Rightarrow> bool" where
  "distinct_keys d \<longleftrightarrow> distinct (map fst (case d of None \<Rightarrow> [] | Some kvs \<Rightarrow> kvs))"

lemma add_params_fold: "add_params r d ps = fold (add_param r) (case d of None \<Rightarrow> [] | Some kvs \<Rightarrow> kvs) ps"
  by (simp add: add_params_def split: option.split)

text \<open>
  C30: What HOD generates cannot be overridden; after it come the final server parameters, then the client's, and the
  other server parameters last.
\<close>

theorem site_precedence:
  assumes "distinct_keys clientParams" and "distinct_keys serverParams" and "distinct_keys finalServerParams"
  shows "map_of (site_params (generated_params reduces tempDir nodes hdfsAddr mrSysDir mapredAddr)
      clientParams serverParams finalServerParams) k =
    (case map_of (generated_params reduces tempDir nodes hdfsAddr mrSysDir mapredAddr) k of
       Some rv \<Rightarrow> Some rv
     | None \<Rightarrow> (case dict_of finalServerParams k of
         Some v \<Rightarrow> Some (FinalServer, v)
       | None \<Rightarrow> (case dict_of clientParams k of
           Some v \<Rightarrow> Some (Client, v)
         | None \<Rightarrow> (case dict_of serverParams k of Some v \<Rightarrow> Some (Server, v) | None \<Rightarrow> None))))"
proof -
  let ?g = "generated_params reduces tempDir nodes hdfsAddr mrSysDir mapredAddr"
  define g where "g = ?g"
  have gen: "fst rv = Generated" if "map_of g k = Some rv" for rv
    using that by (auto simp: g_def generated_params_def Let_def split: if_splits)
  let ?f = "fold (add_param FinalServer) (case finalServerParams of None \<Rightarrow> [] | Some kvs \<Rightarrow> kvs) g"
  have f: "map_of ?f k = (case map_of g k of Some rv \<Rightarrow> Some rv
      | None \<Rightarrow> (case dict_of finalServerParams k of Some v \<Rightarrow> Some (FinalServer, v) | None \<Rightarrow> None))"
    using assms(3) gen by (subst map_of_add_params) (auto simp: distinct_keys_def split: option.splits)
  let ?s = "fold (add_param Server) (case serverParams of None \<Rightarrow> [] | Some kvs \<Rightarrow> kvs) ?f"
  have s: "map_of ?s k = (case map_of ?f k of Some rv \<Rightarrow> Some rv
      | None \<Rightarrow> (case dict_of serverParams k of Some v \<Rightarrow> Some (Server, v) | None \<Rightarrow> None))"
    using assms(2) f gen by (subst map_of_add_params) (auto simp: distinct_keys_def split: option.splits)
  have "map_of (fold (add_param Client) (case clientParams of None \<Rightarrow> [] | Some kvs \<Rightarrow> kvs) ?s) k =
      (case dict_of clientParams k of None \<Rightarrow> map_of ?s k
       | Some v \<Rightarrow> (case map_of ?s k of None \<Rightarrow> Some (Client, v)
                     | Some (r', v') \<Rightarrow> if r' = Server then Some (Client, v) else Some (r', v')))"
    using assms(1) f s gen by (subst map_of_add_params) (auto simp: distinct_keys_def split: option.splits)
  then show ?thesis
    unfolding site_params_def add_params_fold g_def [symmetric]
    using f s gen
    by (cases "map_of g k"; cases "dict_of finalServerParams k"; cases "dict_of clientParams k";
        cases "dict_of serverParams k"; auto)
qed

lemma site_precedence_witness:
  "map_of (site_params (generated_params (\<lambda>n. n) ''/tmp'' 4 ''h:1'' ''/sys'' None)
      (Some [(''a'', ''client'')]) (Some [(''a'', ''server'')]) None) ''a'' =
    (case map_of (generated_params (\<lambda>n. n) ''/tmp'' 4 ''h:1'' ''/sys'' None) ''a'' of
       Some rv \<Rightarrow> Some rv
     | None \<Rightarrow> (case dict_of None ''a'' of
         Some v \<Rightarrow> Some (FinalServer, v)
       | None \<Rightarrow> (case dict_of (Some [(''a'', ''client'')]) ''a'' of
           Some v \<Rightarrow> Some (Client, v)
         | None \<Rightarrow> (case dict_of (Some [(''a'', ''server'')]) ''a'' of Some v \<Rightarrow> Some (Server, v) | None \<Rightarrow> None))))"
  by (rule site_precedence) (simp_all add: distinct_keys_def)

end
