(* ===== verification/Hod_Cluster.thy ===== *)
theory Hod_Cluster
  imports Hod_Actions Hod_Torque Hod_Site
begin

text \<open>
  The client of Hadoop on Demand allocates and deallocates clusters: \<open>hadoopCluster\<close> of \<open>hodlib/Hod/hadoop.py\<close>,
  with the remote calls of \<open>hodlib/Common/xmlrpc.py\<close>. Everything outside the client, namely processes, the service
  registry, the ring master, interrupts and the file system, is the record \<open>outside\<close> of functions that answer and
  change the state \<open>'w\<close> of the world.
\<close>

section \<open>The state of the client\<close>

text \<open>
  What happened to the jobs, in the order it was logged: ids that were submitted and deleted, ring masters that
  were told to stop.
\<close>

datatype event = Submitted string | Deleted string | StoppedRM string

record 'w session =
  world :: 'w
  npool :: pool
  jobId :: job_id
  hdfsInfo :: "string option"
  mapredInfo :: "string option"
  ringmasterXRS :: "string option"
  history :: "event list"
  written :: "(string \<times> string) list"

type_synonym ('w, 'a) act = "('w session, 'a) action"

text \<open>A call to the world, and one that changes the pool as well.\<close>

definition calls :: "('w \<Rightarrow> 'w \<times> 'a) \<Rightarrow> ('w, 'a) act" where
  "calls f s = (case f (world s) of (w', a) \<Rightarrow> (s\<lparr>world := w'\<rparr>, Ret a))"

definition calls_pool :: "(pool \<Rightarrow> 'w \<Rightarrow> 'w \<times> pool \<times> 'a res) \<Rightarrow> ('w, 'a) act" where
  "calls_pool f s = (case f (npool s) (world s) of (w', p', r) \<Rightarrow> (s\<lparr>world := w', npool := p'\<rparr>, of_res r))"

section \<open>The world\<close>

record 'w outside =
  sys :: "'w sys"
  interrupted :: "'w \<Rightarrow> 'w \<times> bool"
  find_usage :: "(string \<Rightarrow> (string \<times> string \<times> string) option) option"
  pbs_jobid :: "string option"
  rpc_ringmasters :: "'w \<Rightarrow> 'w \<times> string list option"
  rpc_register :: "job_id \<Rightarrow> string \<Rightarrow> string option \<Rightarrow> 'w \<Rightarrow> 'w \<times> unit option"
  rpc_errors :: "'w \<Rightarrow> 'w \<times> string list option"
  rpc_addr :: "string \<Rightarrow> string \<Rightarrow> 'w \<Rightarrow> 'w \<times> string option"
  rpc_urls :: "string \<Rightarrow> string \<Rightarrow> 'w \<Rightarrow> 'w \<times> string option"
  rpc_stop :: "string \<Rightarrow> 'w \<Rightarrow> 'w \<times> unit option"
  connects :: "string \<times> int \<Rightarrow> 'w \<Rightarrow> 'w \<times> bool"
  makes_dir :: "string \<Rightarrow> 'w \<Rightarrow> 'w \<times> bool"
  writes_file :: "string \<Rightarrow> 'w \<Rightarrow> 'w \<times> bool"
  removes_tree :: "string \<Rightarrow> 'w \<Rightarrow> 'w"

text \<open>The options of the client that the class reads.\<close>

record cluster_cfg =
  query_retries :: nat
  query_interval :: nat
  wait_time :: nat
  walltime_opt :: "string option"
  update_info :: bool
  client_params :: "attrs option"
  mapred_params :: "attrs option"
  hdfs_params :: "attrs option"
  mapred_final :: "attrs option"
  hdfs_final :: "attrs option"
  other_keyvals :: "attrs list"
  reduces_of :: "int \<Rightarrow> int"
  temp_dir :: string
  cl_userid :: string
  sysdir_root :: string
  ringmaster_args :: "string list"

abbreviation interrupt :: exn where
  "interrupt \<equiv> PyException ''HodInterruptException''"

section \<open>Remote calls\<close>

text \<open>
  \<open>hodXRClient.__request\<close> tries thirty times, each time after asking whether it was interrupted, and then returns
  \<open>None\<close>: no failure of a call is ever raised.
\<close>

fun request_loop :: "'w outside \<Rightarrow> nat \<Rightarrow> ('w \<Rightarrow> 'w \<times> 'a option) \<Rightarrow> 'w \<Rightarrow> 'w \<times> 'a option res" where
  "request_loop N 0 call w = (w, Inr None)"
| "request_loop N (Suc n) call w =
     (case call w of
        (w', Some a) \<Rightarrow> (w', Inr (Some a))
      | (w', None) \<Rightarrow>
          (case interrupted N w' of
             (w2, True) \<Rightarrow> (w2, Inl interrupt)
           | (w2, False) \<Rightarrow> request_loop N n call w2))"

definition request :: "'w outside \<Rightarrow> ('w \<Rightarrow> 'w \<times> 'a option) \<Rightarrow> ('w, 'a option) act" where
  "request N call s = (case request_loop N 30 call (world s) of (w', r) \<Rightarrow> (s\<lparr>world := w'\<rparr>, of_res r))"

definition check_interrupt :: "'w outside \<Rightarrow> ('w, unit) act" where
  "check_interrupt N = andthen (calls (interrupted N)) (\<lambda>b. if b then raises interrupt else returns ())"

section \<open>The state of the job\<close>

text \<open>\<open>status\<close> of \<open>__check_job_status\<close>: -1, or a truth value.\<close>

datatype job_status = JobNever | JobStatus bool

definition truthy_state :: "qvalue \<Rightarrow> bool" where
  "truthy_state v = (case v of QStr st \<Rightarrow> st \<noteq> [] | QHosts hs \<Rightarrow> hs \<noteq> [] | QFalse \<Rightarrow> False)"

definition final_status :: "qvalue \<Rightarrow> bool \<Rightarrow> bool" where
  "final_status v status = (if truthy_state v \<and> v \<noteq> QStr ''C'' then True else status)"

definition ask_state :: "'w outside \<Rightarrow> ('w, qvalue) act" where
  "ask_state N =
     andthen (calls_pool (getJobInfo (sys N) (pbs_jobid N) None)) (\<lambda>info.
       outcome (key_res (map_of info) ''job_state''))"

text \<open>
  The loop goes on while the job is queued or its state unknown; \<open>failures\<close> counts how often it was unknown, and
  \<open>status\<close> is what the last question about limits answered. \<open>n\<close> bounds the number of rounds, of which the code has
  no bound while the job is queued.
\<close>

fun job_status_loop :: "'w outside \<Rightarrow> cluster_cfg \<Rightarrow> nat \<Rightarrow> nat \<Rightarrow> bool \<Rightarrow> ('w, job_status) act" where
  "job_status_loop N cfg 0 failures status = (\<lambda>s. (s, Diverge))"
| "job_status_loop N cfg (Suc n) failures status =
     andthen (check_interrupt N) (\<lambda>_.
     andthen (ask_state N) (\<lambda>state.
       let failures' = (if state = QFalse then failures + 1 else failures);
           go_on = (\<lambda>status'. job_status_loop N cfg n failures' status') in
       if state = QFalse \<and> query_retries cfg \<le> failures' then returns (JobStatus (final_status state status))
       else if state \<noteq> QFalse \<and> state \<noteq> QStr ''Q'' then returns (JobStatus (final_status state status))
       else (case find_usage N of
           None \<Rightarrow> go_on status
         | Some search \<Rightarrow>
             andthen (asks npool) (\<lambda>p.
             andthen (outcome (isJobFeasible search p)) (\<lambda>(ok, msg).
               if ok = Never then returns JobNever else go_on (ok = Feasible))))))"

definition check_job_status :: "'w outside \<Rightarrow> cluster_cfg \<Rightarrow> nat \<Rightarrow> ('w, job_status) act" where
  "check_job_status N cfg n = job_status_loop N cfg n 0 False"

section \<open>The ring master and its services\<close>

text \<open>\<open>__get_ringmaster_client\<close>: \<open>k\<close> seconds are left of the time to wait, which is \<open>wait_time\<close> in all.\<close>

definition first_ringmaster :: "string list option \<Rightarrow> string option" where
  "first_ringmaster r = (case r of Some (x # xs) \<Rightarrow> Some x | _ \<Rightarrow> None)"

definition at_interval :: "cluster_cfg \<Rightarrow> nat \<Rightarrow> bool res" where
  "at_interval cfg i =
     (if query_interval cfg = 0 then Inl (PyException ''ZeroDivisionError'') else Inr (i mod query_interval cfg = 0))"

definition still_running :: "job_status \<Rightarrow> bool" where
  "still_running st = (case st of JobNever \<Rightarrow> True | JobStatus b \<Rightarrow> b)"

fun ringmaster_loop :: "'w outside \<Rightarrow> cluster_cfg \<Rightarrow> nat \<Rightarrow> nat \<Rightarrow> ('w, string option) act" where
  "ringmaster_loop N cfg n 0 = returns None"
| "ringmaster_loop N cfg n (Suc k) =
     andthen (check_interrupt N) (\<lambda>_.
     andthen (request N (rpc_ringmasters N)) (\<lambda>r.
       if first_ringmaster r \<noteq> None then returns (first_ringmaster r)
       else andthen (outcome (at_interval cfg (wait_time cfg - k))) (\<lambda>due.
         if due then
           andthen (check_job_status N cfg n) (\<lambda>st.
             if still_running st then ringmaster_loop N cfg n k else returns None)
         else ringmaster_loop N cfg n k)))"

definition get_ringmaster_client :: "'w outside \<Rightarrow> cluster_cfg \<Rightarrow> nat \<Rightarrow> ('w, string option) act" where
  "get_ringmaster_client N cfg n =
     andthen (request N (rpc_ringmasters N)) (\<lambda>r.
       if first_ringmaster r \<noteq> None then returns (first_ringmaster r)
       else ringmaster_loop N cfg n (wait_time cfg))"

text \<open>
  \<open>__init_hadoop_service\<close>: at most 250 questions for the address. The result of the loop is the status, the last
  address and the URLs. An exception other than an interrupt ends the loop.
\<close>

fun addr_loop :: "'w outside \<Rightarrow> cluster_cfg \<Rightarrow> nat \<Rightarrow> string \<Rightarrow> string \<Rightarrow> nat \<Rightarrow> string option \<Rightarrow>
    ('w, bool \<times> string option \<times> string option) act" where
  "addr_loop N cfg n url name 0 addr = returns (True, addr, None)"
| "addr_loop N cfg n url name (Suc k) addr =
     andthen (check_interrupt N) (\<lambda>_.
     andthen (request N (rpc_addr N url name)) (\<lambda>a.
       if a = None \<or> a = Some [] then addr_loop N cfg n url name k a
       else if a = Some ''not found'' then
         andthen (outcome (at_interval cfg (250 - k))) (\<lambda>due.
           if due then
             andthen (check_job_status N cfg n) (\<lambda>st.
               if still_running st then addr_loop N cfg n url name k a else returns (True, a, None))
           else addr_loop N cfg n url name k a)
       else andthen (request N (rpc_urls N url name)) (\<lambda>u. returns (True, a, u))))"

text \<open>
  Besides an interrupt only asking for the state of the job can raise, and the address is \<open>not found\<close> then.
\<close>

definition remember_addr :: "'w outside \<Rightarrow> cluster_cfg \<Rightarrow> nat \<Rightarrow> string \<Rightarrow> string \<Rightarrow> ('w, bool \<times> string option \<times> string option) act" where
  "remember_addr N cfg n url name =
     catching (addr_loop N cfg n url name 250 None)
       (\<lambda>e. if e = interrupt then raises e else returns (False, Some ''not found'', None))"

definition init_hadoop_service :: "'w outside \<Rightarrow> cluster_cfg \<Rightarrow> nat \<Rightarrow> string \<Rightarrow> string \<Rightarrow>
    ('w, bool \<times> string option \<times> string option) act" where
  "init_hadoop_service N cfg n name url =
     andthen (remember_addr N cfg n url name) (\<lambda>(status, addr, info).
       if addr = None \<or> addr = Some [] \<or> addr = Some ''not found'' then returns (False, addr, info)
       else if startswith (the addr) ''Error: '' then returns (False, addr, info)
       else andthen (asks jobId) (\<lambda>j.
         andthen (request N (rpc_register N j name info)) (\<lambda>_. returns (status, addr, info))))"

section \<open>Allocating\<close>

definition logs :: "event \<Rightarrow> ('w, unit) act" where
  "logs e = updates (\<lambda>s. s\<lparr>history := history s @ [e]\<rparr>)"

definition submit_job :: "'w outside \<Rightarrow> cluster_cfg \<Rightarrow> set_id \<Rightarrow> ('w, nat) act" where
  "submit_job N cfg k =
     andthen (calls_pool (submitNodeSet (sys N) (ringmaster_args cfg) k (walltime_opt cfg))) (\<lambda>(j, code).
     andthen (updates (\<lambda>s. s\<lparr>jobId := j\<rparr>)) (\<lambda>_.
     andthen (case j of JobId i \<Rightarrow> logs (Submitted i) | _ \<Rightarrow> returns ()) (\<lambda>_. returns code)))"

definition delete_job :: "'w outside \<Rightarrow> string \<Rightarrow> ('w, nat) act" where
  "delete_job N j =
     andthen (logs (Deleted j)) (\<lambda>_.
     andthen (asks npool) (\<lambda>p. calls (deleteJob (sys N) j p)))"

definition stop_ringmaster :: "'w outside \<Rightarrow> string \<Rightarrow> ('w, unit) act" where
  "stop_ringmaster N url =
     andthen (logs (StoppedRM url)) (\<lambda>_. andthen (request N (rpc_stop N url)) (\<lambda>_. returns ()))"

text \<open>
  A submission is repeated while it fails for a reason other than missing resources; \<open>k\<close> is the number of failures
  that are still allowed.
\<close>

fun submit_loop :: "'w outside \<Rightarrow> cluster_cfg \<Rightarrow> set_id \<Rightarrow> nat \<Rightarrow> nat \<Rightarrow> ('w, nat) act" where
  "submit_loop N cfg ns k code =
     andthen (asks jobId) (\<lambda>j.
       if j \<noteq> JobFalse \<or> code = 188 then returns code
       else andthen (check_interrupt N) (\<lambda>_.
         (case k of
            0 \<Rightarrow> returns code
          | Suc 0 \<Rightarrow> returns code
          | Suc k' \<Rightarrow>
              andthen (check_interrupt N) (\<lambda>_.
              andthen (submit_job N cfg ns) (\<lambda>code'. submit_loop N cfg ns k' code')))))"

declare submit_loop.simps [simp del]

text \<open>\<open>replace_escape_seqs\<close> changes every option of key-value pairs; a backslash at the end raises.\<close>

definition unescape :: "attrs \<Rightarrow> attrs res" where
  "unescape d = emap (\<lambda>(k, v). ebind (sub_escapes v) (\<lambda>v'. Inr (k, v'))) d"

definition unescape_opt :: "attrs option \<Rightarrow> attrs option res" where
  "unescape_opt d = (case d of None \<Rightarrow> Inr None | Some kvs \<Rightarrow> ebind (unescape kvs) (\<lambda>kvs'. Inr (Some kvs')))"

definition replace_escape_seqs :: "cluster_cfg \<Rightarrow> cluster_cfg res" where
  "replace_escape_seqs cfg =
     ebind (emap unescape (other_keyvals cfg)) (\<lambda>others.
     ebind (unescape_opt (client_params cfg)) (\<lambda>c.
     ebind (unescape_opt (mapred_params cfg)) (\<lambda>m.
     ebind (unescape_opt (hdfs_params cfg)) (\<lambda>h.
     ebind (unescape_opt (mapred_final cfg)) (\<lambda>fm.
     ebind (unescape_opt (hdfs_final cfg)) (\<lambda>fh.
       Inr (cfg\<lparr>other_keyvals := others, client_params := c, mapred_params := m, hdfs_params := h,
                mapred_final := fm, hdfs_final := fh\<rparr>)))))))"

definition merge_params :: "attrs option \<Rightarrow> attrs option \<Rightarrow> attrs" where
  "merge_params m h =
     fold (\<lambda>(k, v). AList.update k v) (case h of None \<Rightarrow> [] | Some d \<Rightarrow> d) (case m of None \<Rightarrow> [] | Some d \<Rightarrow> d)"

definition opt_str :: "string option \<Rightarrow> string" where
  "opt_str x = (case x of None \<Rightarrow> ''None'' | Some v \<Rightarrow> v)"

text \<open>The ports told to the batch system.\<close>

definition strip_slashes :: "string \<Rightarrow> string" where
  "strip_slashes x = rev (dropWhile (\<lambda>c. c = CHR ''/'') (rev (dropWhile (\<lambda>c. c = CHR ''/'') x)))"

definition worker_info :: "string option \<Rightarrow> string option \<Rightarrow> string \<Rightarrow> string \<Rightarrow> attrs res" where
  "worker_info hdfs mapred xrs mapredAddr =
     ebind (nth_res (split_char (CHR '':'') xrs) 2) (\<lambda>port.
       Inr ([(''HDFS UI'', ''http://'' @ opt_str hdfs), (''Mapred UI'', ''http://'' @ opt_str mapred),
             (''RM RPC Port'', strip_slashes port)] @
            (if CHR '':'' \<in> set mapredAddr then [(''Mapred RPC Port'', split_char (CHR '':'') mapredAddr ! 1)] else [])))"

definition session_job :: "'w session \<Rightarrow> string" where
  "session_job s = job_arg (jobId s)"

definition update_worker_info :: "'w outside \<Rightarrow> cluster_cfg \<Rightarrow> string \<Rightarrow> string \<Rightarrow> ('w, unit) act" where
  "update_worker_info N cfg url mapredAddr =
     (if update_info cfg then
        andthen (asks (\<lambda>s. worker_info (hdfsInfo s) (mapredInfo s) url mapredAddr)) (\<lambda>r.
        andthen (outcome r) (\<lambda>info.
        andthen (asks (\<lambda>s. (npool s, session_job s))) (\<lambda>(p, j).
        andthen (calls (updateWorkerInfo (sys N) info j p)) (\<lambda>_. returns ()))))
      else returns ())"

definition write_site :: "'w outside \<Rightarrow> cluster_cfg \<Rightarrow> string \<Rightarrow> nat \<Rightarrow> string \<Rightarrow> string \<Rightarrow> ('w, unit) act" where
  "write_site N cfg clusterDir nodes hdfsAddr mapredAddr =
     andthen (outcome (replace_escape_seqs cfg)) (\<lambda>c.
     andthen (calls (makes_dir N (temp_dir c))) (\<lambda>made.
       if \<not> made then raises (PyException ''OSError'')
       else andthen (asks session_job) (\<lambda>j.
         let tempDir = path_join (temp_dir c) (cl_userid c @ ''.'' @ j);
             sysDir = getMapredSystemDirectory (sysdir_root c) (cl_userid c) j;
             file = gen_site_conf (reduces_of c) clusterDir tempDir nodes hdfsAddr sysDir (Some mapredAddr)
               (client_params c) (Some (merge_params (mapred_params c) (hdfs_params c)))
               (Some (merge_params (mapred_final c) (hdfs_final c))) in
         andthen (calls (writes_file N (fst file))) (\<lambda>ok.
           if ok then updates (\<lambda>s. s\<lparr>written := written s @ [file]\<rparr>) else raises (PyException ''IOError'')))))"

text \<open>
  Once the ring master is found: both services, the worker information, the configuration file. A service that
  does not come up makes the status 7 or 8, and the ring master is stopped.
\<close>

definition bring_up :: "'w outside \<Rightarrow> cluster_cfg \<Rightarrow> nat \<Rightarrow> string \<Rightarrow> nat \<Rightarrow> string \<Rightarrow> ('w, nat) act" where
  "bring_up N cfg n clusterDir nodes url =
     andthen (init_hadoop_service N cfg n ''hdfs'' url) (\<lambda>(hdfsStatus, hdfsAddr, hinfo).
     andthen (updates (\<lambda>s. s\<lparr>hdfsInfo := hinfo\<rparr>)) (\<lambda>_.
       if \<not> hdfsStatus then returns 7
       else andthen (init_hadoop_service N cfg n ''mapred'' url) (\<lambda>(mapredStatus, mapredAddr, minfo).
         andthen (updates (\<lambda>s. s\<lparr>mapredInfo := minfo\<rparr>)) (\<lambda>_.
           if \<not> mapredStatus then returns 8
           else andthen (update_worker_info N cfg url (opt_str mapredAddr)) (\<lambda>_.
             andthen (write_site N cfg clusterDir nodes (opt_str hdfsAddr) (opt_str mapredAddr)) (\<lambda>_. returns 0))))))"

text \<open>The clean-up after a failure, and what an interrupt does with and without a ring master.\<close>

definition run_cluster :: "'w outside \<Rightarrow> cluster_cfg \<Rightarrow> nat \<Rightarrow> string \<Rightarrow> nat \<Rightarrow> string \<Rightarrow> ('w, nat) act" where
  "run_cluster N cfg n clusterDir nodes url =
     andthen (bring_up N cfg n clusterDir nodes url) (\<lambda>status.
     andthen (if status \<noteq> 0 then stop_ringmaster N url else returns ()) (\<lambda>_. returns status))"

definition after_start :: "'w outside \<Rightarrow> cluster_cfg \<Rightarrow> nat \<Rightarrow> string \<Rightarrow> nat \<Rightarrow> string \<Rightarrow> ('w, nat) act" where
  "after_start N cfg n clusterDir nodes j =
     andthen (catching (get_ringmaster_client N cfg n)
       (\<lambda>e. if e = interrupt then
              andthen (asks ringmasterXRS) (\<lambda>old.
                if old \<noteq> None \<and> old \<noteq> Some [] then raises UnboundLocalError
                else andthen (delete_job N j) (\<lambda>_. raises e))
            else raises e)) (\<lambda>xrs.
     andthen (updates (\<lambda>s. s\<lparr>ringmasterXRS := xrs\<rparr>)) (\<lambda>_.
       if xrs = None \<or> xrs = Some [] then andthen (delete_job N j) (\<lambda>_. returns 6)
       else let url = the xrs in
           catching (run_cluster N cfg n clusterDir nodes url)
             (\<lambda>e. if e = interrupt then andthen (stop_ringmaster N url) (\<lambda>_. raises e) else raises e)))"

definition with_job :: "'w outside \<Rightarrow> cluster_cfg \<Rightarrow> nat \<Rightarrow> string \<Rightarrow> nat \<Rightarrow> string \<Rightarrow> ('w, nat) act" where
  "with_job N cfg n clusterDir nodes j =
     andthen (catching (check_job_status N cfg n)
       (\<lambda>e. if e = interrupt then andthen (delete_job N j) (\<lambda>_. raises e) else raises e)) (\<lambda>st.
       case st of
         JobNever \<Rightarrow> andthen (delete_job N j) (\<lambda>_. returns 4)
       | JobStatus True \<Rightarrow> after_start N cfg n clusterDir nodes j
       | JobStatus False \<Rightarrow> returns 5)"

definition new_set :: "nat \<Rightarrow> set_id option \<Rightarrow> ('w, set_id) act" where
  "new_set nodes i s = (case newNodeSet nodes i (npool s) of (p', k) \<Rightarrow> (s\<lparr>npool := p'\<rparr>, Ret k))"

text \<open>
  A job that can never run returns early; the other failures without a ring master ask the registry for its errors.
\<close>

definition allocate :: "'w outside \<Rightarrow> cluster_cfg \<Rightarrow> nat \<Rightarrow> string \<Rightarrow> nat \<Rightarrow> ('w, nat) act" where
  "allocate N cfg n clusterDir nodes =
     (if nodes < 3 then returns 2
      else andthen (new_set nodes None) (\<lambda>ns.
        andthen (submit_job N cfg ns) (\<lambda>code0.
        andthen (submit_loop N cfg ns (query_retries cfg) code0) (\<lambda>code.
        andthen (asks jobId) (\<lambda>j.
        andthen (case j of
            JobId i \<Rightarrow> if i = [] then returns 4 else with_job N cfg n clusterDir nodes i
          | _ \<Rightarrow> returns 4) (\<lambda>status.
          if status = 5 \<or> status = 6 then andthen (request N (rpc_errors N)) (\<lambda>_. returns status)
          else returns status))))))"

section \<open>Looking at and giving up clusters\<close>

text \<open>What the client keeps of a cluster in its state file.\<close>

record cluster_info =
  ci_env :: attrs
  ci_hdfs :: string
  ci_mapred :: string
  ci_ring :: "string option"
  ci_jobid :: string
  ci_min :: nat
  ci_max :: nat

text \<open>\<open>check_cluster\<close>: without information the cluster is not allocated (15); alive is 12.\<close>

definition check_connect :: "'w outside \<Rightarrow> string \<Rightarrow> ('w, bool) act" where
  "check_connect N address =
     andthen (outcome (tcpSocket (AddrString address))) (\<lambda>hp. calls (connects N hp))"

definition cluster_status :: "'w outside \<Rightarrow> string \<Rightarrow> string \<Rightarrow> ('w, nat) act" where
  "cluster_status N hdfsAddress mapredAddress =
     andthen (check_connect N mapredAddress) (\<lambda>m.
     andthen (check_connect N hdfsAddress) (\<lambda>h.
       let status = (if m then 0 else 14) in
       returns (if h then status else if status > 0 then 10 else 13)))"

definition check_cluster :: "'w outside \<Rightarrow> cluster_info option \<Rightarrow> ('w, nat) act" where
  "check_cluster N info =
     (case info of
        None \<Rightarrow> returns 15
      | Some c \<Rightarrow>
          andthen (cluster_status N (drop 7 (ci_hdfs c)) (drop 7 (ci_mapred c))) (\<lambda>status.
            returns (if status = 0 then 12 else status)))"

definition is_cluster_deallocated :: "'w outside \<Rightarrow> string \<Rightarrow> ('w, bool) act" where
  "is_cluster_deallocated N j =
     andthen (calls_pool (getJobInfo (sys N) (pbs_jobid N) (Some (JobId j)))) (\<lambda>info.
       returns (map_of info ''job_state'' \<in> {Some (QStr ''C''), Some (QStr ''E'')}))"

definition cleanup :: "'w outside \<Rightarrow> ('w, unit) act" where
  "cleanup N =
     andthen (calls_pool (\<lambda>p w. case pool_finalize (sys N) p w of (w', p', st) \<Rightarrow> (w', p', Inr st))) (\<lambda>_. returns ())"

text \<open>
  \<open>is_valid_account\<close>: the script is run when it exists; its output is only kept when it fails.
\<close>

definition is_valid_account :: "'w outside \<Rightarrow> string option \<Rightarrow> ('w, nat \<times> string list option) act" where
  "is_valid_account N script =
     (case script of
        None \<Rightarrow> returns (0, None)
      | Some path \<Rightarrow>
          andthen (asks npool) (\<lambda>p.
          andthen (calls (sys N (path @ '' '' @ getAccountString p) [])) (\<lambda>pr.
            returns (exit_code pr, if exit_code pr \<noteq> 0 then Some (printed pr) else None))))"

text \<open>\<open>deallocate\<close>, without the collection of the job tracker's pages, which is an option.\<close>

definition ring_addr :: "cluster_info \<Rightarrow> string option" where
  "ring_addr c =
     (case ci_ring c of
        None \<Rightarrow> None
      | Some r \<Rightarrow> (let a = drop 7 r in Some (if a \<noteq> [] \<and> last a = CHR ''/'' then butlast a else a)))"

definition deallocate :: "'w outside \<Rightarrow> cluster_cfg \<Rightarrow> cluster_info \<Rightarrow> ('w, nat) act" where
  "deallocate N cfg c =
     andthen (new_set (ci_min c) (Some (SetName (ci_jobid c)))) (\<lambda>_.
     andthen (updates (\<lambda>s. s\<lparr>mapredInfo := Some (ci_mapred c), hdfsInfo := Some (ci_hdfs c)\<rparr>)) (\<lambda>_.
     andthen (case ring_addr c of None \<Rightarrow> returns False | Some a \<Rightarrow> check_connect N a) (\<lambda>alive.
     andthen (if alive then andthen (stop_ringmaster N (the (ci_ring c))) (\<lambda>_. returns 0)
              else andthen (cleanup N) (\<lambda>_. returns 10)) (\<lambda>status.
     andthen (updates (\<lambda>s. s\<lparr>world := removes_tree N
         (path_join (temp_dir cfg) (cl_userid cfg @ ''.'' @ ci_jobid c)) (world s)\<rparr>)) (\<lambda>_. returns status)))))"

end
