(* ===== verification/Hod_Store.thy ===== *)
theory Hod_Store
  imports Hod_Actions "HOL-Library.AList"
begin

text \<open>
  The state files of the client (class \<open>hodState\<close> of \<open>hodlib/Hod/hod.py\<close>): a directory whose files with the
  extension \<open>.state\<close> hold pickled dicts. The type of what is pickled is a parameter, since one object keeps the list
  of clusters and the others keep what is known of one cluster each.
\<close>

section \<open>Files and permissions\<close>

datatype mode = R_OK | W_OK

text \<open>
  A directory: its files in the order of \<open>os.listdir\<close>, with what they hold (\<open>None\<close> for an empty file, from which
  nothing can be loaded), permissions, and the name of the state file the object last looked at.
\<close>

record 'i store =
  st_files :: "(string \<times> 'i option) list"
  can_read :: "string \<Rightarrow> bool"
  can_write :: "string \<Rightarrow> bool"
  dir_writable :: bool
  stateFile :: "string option"

text \<open>A store operation also sees the names in the current directory of the process.\<close>

type_synonym ('i, 'a) store_action = "('i store \<times> string list, 'a) action"

definition new_store :: "'i store" where
  "new_store = \<lparr>st_files = [], can_read = (\<lambda>_. True), can_write = (\<lambda>_. True), dir_writable = True, stateFile = None\<rparr>"

abbreviation names :: "'i store \<Rightarrow> string list" where
  "names st \<equiv> map fst (st_files st)"

definition state_ext :: string where
  "state_ext = ''.state''"

definition has_ext :: "string \<Rightarrow> bool" where
  "has_ext n \<longleftrightarrow> startswith (rev n) (rev state_ext)"

section \<open>Operations\<close>

text \<open>Without an id the last state file of the directory is taken, and the one before when there is none.\<close>

definition pick_state_file :: "string option \<Rightarrow> 'i store \<Rightarrow> string option" where
  "pick_state_file i st =
     (case i of
        Some n \<Rightarrow> if n \<noteq> [] then Some (n @ state_ext)
                  else fold (\<lambda>n cur. if has_ext n then Some n else cur) (names st) (stateFile st)
      | None \<Rightarrow> fold (\<lambda>n cur. if has_ext n then Some n else cur) (names st) (stateFile st))"

definition set_state_file :: "string option \<Rightarrow> ('i, unit) store_action" where
  "set_state_file i = updates (\<lambda>(st, cwd). (st\<lparr>stateFile := pick_state_file i st\<rparr>, cwd))"

definition allowed :: "'i store \<Rightarrow> string \<Rightarrow> mode \<Rightarrow> bool" where
  "allowed st n m = (case m of R_OK \<Rightarrow> can_read st n | W_OK \<Rightarrow> can_write st n)"

text \<open>\<open>os.stat\<close> of \<open>None\<close> raises; a file that does not exist passes.\<close>

definition checkStateFile :: "string option \<Rightarrow> mode list \<Rightarrow> ('i, bool) store_action" where
  "checkStateFile i modes =
     andthen (set_state_file i) (\<lambda>_.
     andthen (asks (\<lambda>(st, cwd). (st, stateFile st))) (\<lambda>(st, file).
       case file of
         None \<Rightarrow> raises TypeError
       | Some n \<Rightarrow> returns (if n \<notin> set (names st) then True else list_all (allowed st n) modes)))"

definition read_state :: "string option \<Rightarrow> ('i, 'i option) store_action" where
  "read_state i =
     andthen (set_state_file i) (\<lambda>_.
     andthen (asks fst) (\<lambda>st.
       case stateFile st of
         None \<Rightarrow> returns None
       | Some n \<Rightarrow>
           (case map_of (st_files st) n of
              None \<Rightarrow> returns None
            | Some content \<Rightarrow> if can_read st n then returns content else raises (PyException ''IOError''))))"

text \<open>
  \<open>clear\<close> removes the state file; when there is none it removes all state files, but by their bare names, that is
  from the current directory of the process.
\<close>

definition remove_in_cwd :: "string \<Rightarrow> ('i, unit) store_action" where
  "remove_in_cwd n =
     andthen (asks snd) (\<lambda>cwd.
       if n \<in> set cwd then updates (\<lambda>(st, cwd). (st, filter (\<lambda>x. x \<noteq> n) cwd)) else raises (PyException ''OSError''))"

definition clear_state :: "string option \<Rightarrow> ('i, unit) store_action" where
  "clear_state i =
     andthen (set_state_file i) (\<lambda>_.
     andthen (asks fst) (\<lambda>st.
       case stateFile st of
         None \<Rightarrow> for_each remove_in_cwd (filter has_ext (names st))
       | Some n \<Rightarrow>
           if n \<in> set (names st) then
             (if dir_writable st then updates (\<lambda>(st, cwd). (st\<lparr>st_files := AList.delete n (st_files st)\<rparr>, cwd))
              else raises (PyException ''OSError''))
           else for_each remove_in_cwd (filter has_ext (names st))))"

text \<open>Writing without an id in an empty directory would open \<open>None\<close>, which raises.\<close>

definition open_for_writing :: "'i store \<Rightarrow> string res" where
  "open_for_writing st =
     (case stateFile st of
        None \<Rightarrow> Inl TypeError
      | Some n \<Rightarrow>
          if (if n \<in> set (names st) then can_write st n else dir_writable st) then Inr n
          else Inl (PyException ''IOError''))"

definition write_state :: "string option \<Rightarrow> 'i \<Rightarrow> ('i, unit) store_action" where
  "write_state i info =
     andthen (set_state_file i) (\<lambda>_.
     andthen (asks fst) (\<lambda>st.
       case stateFile st of
         None \<Rightarrow> raises TypeError
       | Some n \<Rightarrow>
           andthen (if n \<in> set (names st) then returns () else clear_state i) (\<lambda>_.
           andthen (asks (\<lambda>(st, cwd). open_for_writing st)) (\<lambda>r.
           andthen (outcome r) (\<lambda>file.
             updates (\<lambda>(st, cwd). (st\<lparr>st_files := AList.update file (Some info) (st_files st)\<rparr>, cwd)))))))"

section \<open>Facts\<close>

lemmas store_defs = set_state_file_def andthen_def updates_def asks_def returns_def raises_def outcome_def

lemma pick_named [simp]: "n \<noteq> [] \<Longrightarrow> pick_state_file (Some n) st = Some (n @ state_ext)"
  by (simp add: pick_state_file_def)

lemma read_named:
  "n \<noteq> [] \<Longrightarrow> map_of (st_files st) (n @ state_ext) = Some c \<Longrightarrow> can_read st (n @ state_ext) \<Longrightarrow>
     read_state (Some n) (st, cwd) = ((st\<lparr>stateFile := Some (n @ state_ext)\<rparr>, cwd), Ret c)"
  by (simp add: read_state_def store_defs)

text \<open>What reading and checking do and find, written out.\<close>

definition read_result :: "string option \<Rightarrow> 'i store \<Rightarrow> 'i option out" where
  "read_result i st =
     (case pick_state_file i st of
        None \<Rightarrow> Ret None
      | Some n \<Rightarrow>
          (case map_of (st_files st) n of
             None \<Rightarrow> Ret None
           | Some content \<Rightarrow> if can_read st n then Ret content else Raise (PyException ''IOError'')))"

lemma read_state_eq: "read_state i (st, cwd) = ((st\<lparr>stateFile := pick_state_file i st\<rparr>, cwd), read_result i st)"
  by (simp add: read_state_def read_result_def store_defs split: option.split)

lemma checkStateFile_eq:
  "checkStateFile i modes (st, cwd) =
     ((st\<lparr>stateFile := pick_state_file i st\<rparr>, cwd),
      case pick_state_file i st of
        None \<Rightarrow> Raise TypeError
      | Some n \<Rightarrow> Ret (if n \<notin> set (names st) then True else list_all (allowed st n) modes))"
proof -
  have "allowed (st\<lparr>stateFile := f\<rparr>) n = allowed st n" for f n
    by (rule ext) (simp add: allowed_def split: mode.split)
  then show ?thesis
    by (simp add: checkStateFile_def store_defs split: option.split)
qed

text \<open>Removing from the current directory leaves the store alone.\<close>

lemma keeps_remove [keeps_rules]: "keeps (\<lambda>x. fst x = st) (remove_in_cwd n)"
  by (simp add: keeps_def remove_in_cwd_def store_defs split: prod.split)

lemma remove_all_store: "for_each remove_in_cwd ns (st, cwd) = ((st', cwd'), r) \<Longrightarrow> st' = st"
proof -
  assume r: "for_each remove_in_cwd ns (st, cwd) = ((st', cwd'), r)"
  have "keeps (\<lambda>x. fst x = st) (for_each remove_in_cwd ns)" by (rule keeps_for_each) (rule keeps_remove)
  from keepsD [OF this, of "(st, cwd)"] r show ?thesis by simp
qed

lemma write_state_Ret:
  assumes "write_state (Some n) d (st, cwd) = ((st', cwd'), Ret u)" and "n \<noteq> []"
  shows "st' = st\<lparr>stateFile := Some (n @ state_ext), st_files := AList.update (n @ state_ext) (Some d) (st_files st)\<rparr>"
proof (cases "n @ state_ext \<in> set (names st)")
  case True
  with assms show ?thesis
    by (auto simp: write_state_def open_for_writing_def store_defs split: if_splits)
next
  case False
  let ?st = "st\<lparr>stateFile := Some (n @ state_ext)\<rparr>"
  obtain st1 cwd1 r1 where rm: "for_each remove_in_cwd (filter has_ext (names ?st)) (?st, cwd) = ((st1, cwd1), r1)"
    by (metis prod.exhaust)
  then have "st1 = ?st" by (rule remove_all_store)
  with rm False assms show ?thesis
    by (cases r1) (auto simp: write_state_def clear_state_def open_for_writing_def store_defs split: if_splits)
qed

lemma write_state_fails:
  assumes "write_state (Some n) d (st, cwd) = ((st', cwd'), r)" and "n \<noteq> []" and "\<And>u. r \<noteq> Ret u"
  shows "st_files st' = st_files st"
proof (cases "n @ state_ext \<in> set (names st)")
  case True
  with assms show ?thesis
    by (auto simp: write_state_def open_for_writing_def store_defs split: if_splits)
next
  case False
  let ?st = "st\<lparr>stateFile := Some (n @ state_ext)\<rparr>"
  obtain st1 cwd1 r1 where rm: "for_each remove_in_cwd (filter has_ext (names ?st)) (?st, cwd) = ((st1, cwd1), r1)"
    by (metis prod.exhaust)
  then have "st1 = ?st" by (rule remove_all_store)
  with rm False assms show ?thesis
    by (cases r1) (auto simp: write_state_def clear_state_def open_for_writing_def store_defs split: if_splits)
qed

text \<open>A directory with no other state file: writing under an id always works there.\<close>

definition no_other :: "string \<Rightarrow> 'i store \<Rightarrow> bool" where
  "no_other i st \<longleftrightarrow> list_all (\<lambda>n. has_ext n \<longrightarrow> n = i @ state_ext) (names st)"

definition usable :: "'i store \<Rightarrow> bool" where
  "usable st \<longleftrightarrow> list_all (\<lambda>n. can_read st n \<and> can_write st n) (names st) \<and> dir_writable st"

lemma has_ext_append [simp]: "has_ext (i @ state_ext)"
  by (simp add: has_ext_def startswith_def)

lemma no_other_names: "list_all (\<lambda>n. has_ext n \<longrightarrow> n = f) ns \<Longrightarrow> f \<notin> set ns \<Longrightarrow> filter has_ext ns = []"
  by (induction ns) auto

lemma no_other_filter: "no_other i st \<Longrightarrow> i @ state_ext \<notin> set (names st) \<Longrightarrow> filter has_ext (names st) = []"
  unfolding no_other_def by (rule no_other_names)

lemma usable_iff: "usable st \<longleftrightarrow> (\<forall>n \<in> set (names st). can_read st n \<and> can_write st n) \<and> dir_writable st"
  by (simp only: usable_def list_all_iff)

lemma write_named:
  assumes "i \<noteq> []" and "usable st" and "no_other i st"
  shows "write_state (Some i) info (st, cwd) =
    ((st\<lparr>stateFile := Some (i @ state_ext), st_files := AList.update (i @ state_ext) (Some info) (st_files st)\<rparr>, cwd), Ret ())"
proof (cases "i @ state_ext \<in> set (names st)")
  case True
  then have "can_write st (i @ state_ext)" using assms(2) unfolding usable_iff by blast
  then show ?thesis
    using assms(1) True by (simp add: write_state_def open_for_writing_def store_defs)
next
  case False
  moreover have "dir_writable st" using assms(2) unfolding usable_iff by blast
  ultimately show ?thesis
    using assms(1) no_other_filter [OF assms(3) False]
    by (simp add: write_state_def clear_state_def open_for_writing_def store_defs)
qed

lemma last_ext:
  "list_all (\<lambda>n. has_ext n \<longrightarrow> n = f) ns \<Longrightarrow> f \<in> set ns \<Longrightarrow> has_ext f \<Longrightarrow>
     fold (\<lambda>n cur. if has_ext n then Some n else cur) ns cur = Some f"
proof (induction ns arbitrary: cur)
  case (Cons n ns)
  show ?case
  proof (cases "f \<in> set ns")
    case True
    with Cons show ?thesis by simp
  next
    case False
    with Cons.prems have "n = f" "\<forall>m \<in> set ns. \<not> has_ext m" by (auto simp: list_all_iff)
    moreover have "fold (\<lambda>n cur. if has_ext n then Some n else cur) ns c = c" if "\<forall>m \<in> set ns. \<not> has_ext m" for c
      using that by (induction ns arbitrary: c) auto
    ultimately show ?thesis using Cons.prems(3) by simp
  qed
qed simp

text \<open>
  C29: What was written under an id is read back, with the id and without one, when the directory holds no other state
  file.
\<close>

theorem state_read_back:
  assumes "i \<noteq> []" and "usable st" and "no_other i st" and "can_read st (i @ state_ext)"
  shows "\<exists>st'. write_state (Some i) info (st, cwd) = ((st', cwd), Ret ()) \<and>
    snd (read_state (Some i) (st', cwd)) = Ret (Some info) \<and> snd (read_state None (st', cwd)) = Ret (Some info)"
proof -
  let ?st = "st\<lparr>stateFile := Some (i @ state_ext), st_files := AList.update (i @ state_ext) (Some info) (st_files st)\<rparr>"
  have "fold (\<lambda>n cur. if has_ext n then Some n else cur) (names ?st) (Some (i @ state_ext)) = Some (i @ state_ext)"
    using assms(3) by (intro last_ext) (auto simp: no_other_def list_all_iff update_keys dom_update)
  then have "snd (read_state None (?st, cwd)) = Ret (Some info)"
    using assms(4) by (simp add: read_state_def pick_state_file_def update_conv' store_defs)
  moreover have "snd (read_state (Some i) (?st, cwd)) = Ret (Some info)"
    using assms(1, 4) by (simp add: read_state_def update_conv' store_defs)
  ultimately show ?thesis
    using write_named [OF assms(1, 2, 3)] by blast
qed

text \<open>
  Another state file in the directory makes the first write of an id raise, unless the current directory of the
  process happens to hold a file of that name.
\<close>

theorem stale_file_blocks_write:
  assumes "i \<noteq> []" and "i @ state_ext \<notin> set (names st)"
    and "filter has_ext (names st) = n # ns" and "n \<notin> set cwd"
  shows "write_state (Some i) info (st, cwd) =
    ((st\<lparr>stateFile := Some (i @ state_ext)\<rparr>, cwd), Raise (PyException ''OSError''))"
  using assms by (simp add: write_state_def clear_state_def remove_in_cwd_def store_defs)

text \<open>A directory that holds one empty state file of another job.\<close>

definition sample_store :: "nat store" where
  "sample_store = new_store\<lparr>st_files := [(''1.state'', None)]\<rparr>"

theorem state_read_back_witness:
  "\<exists>st'. write_state (Some ''1'') (5::nat) (sample_store, []) = ((st', []), Ret ()) \<and>
    snd (read_state (Some ''1'') (st', [])) = Ret (Some 5) \<and> snd (read_state None (st', [])) = Ret (Some 5)"
  by (rule state_read_back) (simp_all add: sample_store_def new_store_def usable_def no_other_def state_ext_def)

theorem stale_file_blocks_write_witness:
  "snd (write_state (Some ''2'') (5::nat) (sample_store, [])) = Raise (PyException ''OSError'')"
  using stale_file_blocks_write [of "''2''" sample_store "''1.state''" "[]" "[]" 5]
  by (simp add: sample_store_def new_store_def has_ext_def state_ext_def startswith_def)

end
