(* ===== verification/Hod_Client.thy ===== *)
theory Hod_Client
  imports Hod_Cluster Hod_Store
begin

text \<open>
  The operations of the client (\<open>hodRunner\<close> and \<open>hodHelp\<close> of \<open>hodlib/Hod/hod.py\<close>): allocating, deallocating,
  listing and describing clusters, running a script on a cluster, and the exit code. They work on the list of the
  user's clusters and on the state file in the directory of each cluster.
\<close>

section \<open>State and configuration\<close>

datatype level = Critical | Warn | Info | Printed

text \<open>
  Directories that can hold clusters have a store each; \<open>other_paths\<close> exist and are not directories.
  \<open>clusterState\<close> is the directory of the current object for cluster state.
\<close>

record 'w client =
  cluster :: "'w session"
  opCode :: nat
  user_store :: "attrs store"
  cluster_stores :: "(string \<times> cluster_info store) list"
  other_paths :: "string list"
  clusterState :: "string option"
  cwd_names :: "string list"
  exit_files :: "(string \<times> nat) list"
  max_failures :: int
  registry :: bool
  logged :: "(level \<times> string) list"

type_synonym ('w, 'a) cact = "('w client, 'a) action"

text \<open>What a script file is, and the options that the class reads.\<close>

datatype script_kind = NoFile | NotFile | NotExecutable | Executable

record 'w client_cfg =
  cc :: cluster_cfg
  fuel :: nat
  original_dir :: string
  current_dir :: string
  user_state :: string
  expanduser :: "string \<Rightarrow> string"
  os_error :: "string \<Rightarrow> string"
  exception_text :: "exn \<Rightarrow> string"
  environ :: attrs
  hdfs_external :: bool
  mapred_external :: bool
  account_script :: "string option"
  cfg_operation :: string
  cfg_script :: string
  cfg_nodecount :: string
  cfg_clusterdir :: string
  script_kind :: script_kind
  runs_script :: "string \<Rightarrow> string \<Rightarrow> string \<Rightarrow> 'w \<Rightarrow> 'w \<times> nat"
  clears_interrupt :: "'w \<Rightarrow> 'w"

definition tells :: "level \<Rightarrow> string \<Rightarrow> ('w, unit) cact" where
  "tells l msg = updates (\<lambda>c. c\<lparr>logged := logged c @ [(l, msg)]\<rparr>)"

definition sets_code :: "nat \<Rightarrow> ('w, unit) cact" where
  "sets_code k = updates (\<lambda>c. c\<lparr>opCode := k\<rparr>)"

definition on_session :: "('w, 'a) act \<Rightarrow> ('w, 'a) cact" where
  "on_session m c = (case m (cluster c) of (s, r) \<Rightarrow> (c\<lparr>cluster := s\<rparr>, r))"

definition on_user :: "(attrs, 'a) store_action \<Rightarrow> ('w, 'a) cact" where
  "on_user m c =
     (case m (user_store c, cwd_names c) of ((st, cwd), r) \<Rightarrow> (c\<lparr>user_store := st, cwd_names := cwd\<rparr>, r))"

text \<open>Listing a directory that is none raises.\<close>

definition on_cluster :: "(cluster_info, 'a) store_action \<Rightarrow> ('w, 'a) cact" where
  "on_cluster m c =
     (case clusterState c of
        None \<Rightarrow> (c, Raise AttributeError)
      | Some dir \<Rightarrow>
          (case map_of (cluster_stores c) dir of
             None \<Rightarrow> (c, Raise (PyException ''OSError''))
           | Some st \<Rightarrow>
               (case m (st, cwd_names c) of
                  ((st', cwd), r) \<Rightarrow>
                    (c\<lparr>cluster_stores := AList.update dir st' (cluster_stores c), cwd_names := cwd\<rparr>, r))))"

definition is_dir :: "'w client \<Rightarrow> string \<Rightarrow> bool" where
  "is_dir c dir \<longleftrightarrow> dir \<in> set (map fst (cluster_stores c))"

definition path_exists :: "'w client \<Rightarrow> string \<Rightarrow> bool" where
  "path_exists c path \<longleftrightarrow> is_dir c path \<or> path \<in> set (other_paths c)"

text \<open>\<open>mkdir\<close> and \<open>makedirs\<close>; the outcome is whether it worked.\<close>

definition makes :: "'w outside \<Rightarrow> string \<Rightarrow> ('w, bool) cact" where
  "makes N dir =
     andthen (on_session (calls (makes_dir N dir))) (\<lambda>ok.
       if ok then andthen (updates (\<lambda>c. c\<lparr>cluster_stores := AList.update dir new_store (cluster_stores c)\<rparr>)) (\<lambda>_. returns True)
       else returns False)"

definition forget_current :: "string \<Rightarrow> 'w client \<Rightarrow> 'w client" where
  "forget_current dir c =
     c\<lparr>cluster_stores := map (\<lambda>(d, st). (d, if d = dir then st\<lparr>stateFile := None\<rparr> else st)) (cluster_stores c)\<rparr>"

definition setup_cluster_state :: "'w outside \<Rightarrow> string \<Rightarrow> ('w, unit) cact" where
  "setup_cluster_state N dir =
     andthen (asks (\<lambda>c. path_exists c dir)) (\<lambda>there.
     andthen (if there then returns True else makes N dir) (\<lambda>ok.
       if ok then updates (\<lambda>c. forget_current dir (c\<lparr>clusterState := Some dir\<rparr>))
       else raises (PyException ''OSError'')))"

text \<open>A new object for the state of a cluster, and what it reads.\<close>

definition load_cluster :: "'w outside \<Rightarrow> string \<Rightarrow> ('w, cluster_info option) cact" where
  "load_cluster N dir = andthen (setup_cluster_state N dir) (\<lambda>_. on_cluster (read_state None))"

section \<open>Directories of clusters\<close>

text \<open>\<open>posixpath.normpath\<close>: the names that are left, after those seen so far.\<close>

fun norm_parts :: "bool \<Rightarrow> string list \<Rightarrow> string list \<Rightarrow> string list" where
  "norm_parts rooted seen [] = seen"
| "norm_parts rooted seen (p # ps) =
     (if p = [] \<or> p = ''.'' then norm_parts rooted seen ps
      else if p \<noteq> ''..'' \<or> (\<not> rooted \<and> seen = []) \<or> (seen \<noteq> [] \<and> last seen = ''..'')
      then norm_parts rooted (seen @ [p]) ps
      else norm_parts rooted (butlast seen) ps)"

definition root_slashes :: "string \<Rightarrow> string" where
  "root_slashes p =
     (if startswith p ''//'' \<and> \<not> startswith p ''///'' then ''//'' else if startswith p ''/'' then ''/'' else [])"

definition normpath :: "string \<Rightarrow> string" where
  "normpath p =
     (let q = root_slashes p @ py_join ''/'' (norm_parts (startswith p ''/'') [] (split_char (CHR ''/'') p)) in
      if q = [] then ''.'' else q)"

definition abspath :: "string \<Rightarrow> string \<Rightarrow> string" where
  "abspath cwd p = normpath (if startswith p ''/'' then p else path_join cwd p)"

definition norm_cluster_dir :: "'w client_cfg \<Rightarrow> string \<Rightarrow> string" where
  "norm_cluster_dir E dir =
     (let d = expanduser E dir in
      abspath (current_dir E) (if startswith d ''/'' then d else path_join (original_dir E) d))"

section \<open>The list of clusters\<close>

definition cluster_data_file :: string where
  "cluster_data_file = ''clusters''"

definition read_clusters :: "('w, attrs) cact" where
  "read_clusters =
     andthen (on_user (read_state (Some cluster_data_file))) (\<lambda>d. returns (case d of None \<Rightarrow> [] | Some kvs \<Rightarrow> kvs))"

definition write_clusters :: "attrs \<Rightarrow> ('w, unit) cact" where
  "write_clusters d = on_user (write_state (Some cluster_data_file) d)"

definition may_use_clusters :: "mode list \<Rightarrow> ('w, bool) cact" where
  "may_use_clusters modes = on_user (checkStateFile (Some cluster_data_file) modes)"

definition set_user_state_info :: "attrs \<Rightarrow> ('w, unit) cact" where
  "set_user_state_info info =
     andthen read_clusters (\<lambda>d. write_clusters (fold (\<lambda>(k, v). AList.update k v) info d))"

definition remove_cluster :: "string \<Rightarrow> ('w, unit) cact" where
  "remove_cluster dir =
     andthen read_clusters (\<lambda>d.
       if dir \<in> set (map fst d) then write_clusters (AList.delete dir d) else returns ())"

definition state_path :: "'w client_cfg \<Rightarrow> string" where
  "state_path E = path_join (user_state E) (cluster_data_file @ state_ext)"

definition no_access :: "string \<Rightarrow> string \<Rightarrow> string" where
  "no_access what path =
     ''Requested operation cannot be performed. Cannot '' @ what @ '' '' @ path @ '': Permission denied.''"

definition cannot_update :: "string \<Rightarrow> string" where
  "cannot_update path =
     ''Cannot update '' @ path @ '': Permission denied. Cluster is deallocated, but info and list operations '' @
     ''might show incorrect information.''"

section \<open>Help\<close>

definition hod_ops :: "string list" where
  "hod_ops = [''allocate'', ''deallocate'', ''info'', ''list'', ''script'', ''help'']"

definition quoted :: "string \<Rightarrow> string" where
  "quoted s = [char_of (39::nat)] @ s @ [char_of (39::nat)]"

definition ops_text :: string where
  "ops_text = ''['' @ py_join '', '' (map quoted hod_ops) @ '']''"

definition usage_strings :: "(string \<times> string) list" where
  "usage_strings =
     [(''allocate'', ''hod allocate -d <clusterdir> -n <nodecount> [OPTIONS]''),
      (''deallocate'', ''hod deallocate -d <clusterdir> [OPTIONS]''),
      (''list'', ''hod list [OPTIONS]''),
      (''info'', ''hod info -d <clusterdir> [OPTIONS]''),
      (''script'', ''hod script -d <clusterdir> -n <nodecount> -s <script> [OPTIONS]''),
      (''help'', ''hod help <OPERATION>'')]"

definition description_strings :: "(string \<times> string) list" where
  "description_strings =
     [(''allocate'', ''Allocates a cluster of n nodes using the specified '' @ [newline] @
        ''              cluster directory to store cluster state '' @ [newline] @
        ''              information. The Hadoop site XML is also stored '' @ [newline] @
        ''              in this location.'' @ [newline]),
      (''deallocate'', ''Deallocates a cluster using the specified '' @ [newline] @
        ''             cluster directory.  This operation is also '' @ [newline] @
        ''             required to clean up a dead cluster.'' @ [newline]),
      (''list'', ''List all clusters currently allocated by a user, '' @ [newline] @
        ''              along with limited status information and the '' @ [newline] @
        ''              cluster ID.'' @ [newline]),
      (''info'', ''Provide detailed information on an allocated cluster.'' @ [newline]),
      (''script'', ''Allocates a cluster of n nodes with the given '' @ [newline] @
        ''              cluster directory, runs the specified script '' @ [newline] @
        ''              using the allocated cluster, and then '' @ [newline] @
        ''              deallocates the cluster.'' @ [newline]),
      (''help'', ''Print help for the operation and exit.'' @ [newline] @
        ''Available operations : '' @ ops_text @ ''.'' @ [newline])]"

definition usage :: "string \<Rightarrow> string res" where
  "usage op =
     ebind (key_res (map_of usage_strings) op) (\<lambda>u.
       Inr (''Usage       : '' @ u @ [newline] @ ''For full description: hod help '' @ op @ ''.'' @ [newline]))"

definition help_text :: "string option \<Rightarrow> string res" where
  "help_text op =
     (case op of
        None \<Rightarrow>
          Inr (''hod <operation> [ARGS] [OPTIONS]'' @ [newline] @ ''Available operations : '' @ ops_text @ [newline] @
            ''For help on a particular operation : hod help <operation>.'' @ [newline] @
            ''For all options : hod help options.'')
      | Some o' \<Rightarrow>
          ebind (key_res (map_of usage_strings) o') (\<lambda>u.
          ebind (key_res (map_of description_strings) o') (\<lambda>d.
            Inr (''Usage       : '' @ u @ [newline] @ ''Description : '' @ d @ ''For all options : hod help options.'' @ [newline]))))"

definition prints_help :: "string option \<Rightarrow> ('w, unit) cact" where
  "prints_help op = andthen (outcome (help_text op)) (tells Printed)"

definition op_help :: "string list option \<Rightarrow> ('w, unit) cact" where
  "op_help args =
     (case args of
        Some [h, op] \<Rightarrow>
          if op \<notin> set hod_ops then
            andthen (prints_help (Some ''help'')) (\<lambda>_.
            andthen (tells Critical (''Help requested for invalid operation : '' @ op)) (\<lambda>_. sets_code 3))
          else prints_help (Some op)
      | _ \<Rightarrow> andthen (tells Printed (''hod commands:'' @ [newline])) (\<lambda>_. for_each (\<lambda>op. prints_help (Some op)) hod_ops))"

definition wrong_args :: "string \<Rightarrow> string \<Rightarrow> ('w, unit) cact" where
  "wrong_args op what =
     andthen (prints_help (Some op)) (\<lambda>_.
     andthen (tells Critical (op @ '' operation requires '' @ what)) (\<lambda>_. sets_code 3))"

section \<open>Allocating\<close>

definition cleanup_registry :: "('w, unit) cact" where
  "cleanup_registry = updates (\<lambda>c. c\<lparr>registry := False\<rparr>)"

definition adjust_failures :: "'w client_cfg \<Rightarrow> int \<Rightarrow> int \<Rightarrow> int" where
  "adjust_failures E n mx =
     min mx (n - ((if hdfs_external E then 0 else 1) + (if mapred_external E then 0 else 1)))"

definition not_a_dir :: "string \<Rightarrow> string" where
  "not_a_dir dir = ''Invalid cluster directory (--hod.clusterdir or -d) : '' @ dir @ '' : Not a directory''"

definition few_nodes :: "string \<Rightarrow> string" where
  "few_nodes nodes = ''Invalid nodecount (--hod.nodecount or -n) : Must be >= 3. Given nodes: '' @ nodes"

text \<open>The directory is made when it does not exist; the outcome is the list of complaints.\<close>

definition need_dir :: "'w outside \<Rightarrow> 'w client_cfg \<Rightarrow> string \<Rightarrow> ('w, string list) cact" where
  "need_dir N E dir =
     andthen (asks (\<lambda>c. (path_exists c dir, is_dir c dir))) (\<lambda>(there, isdir).
       if \<not> there then
         andthen (makes N dir) (\<lambda>ok.
           returns (if ok then [] else [''Could not create cluster directory. '' @ os_error E dir]))
       else returns (if isdir then [] else [not_a_dir dir]))"

text \<open>
  A directory that is in the list is only free again when the batch system has completed its job; the outcome is
  whether to go on.
\<close>

definition previously_allocated :: "string \<Rightarrow> string" where
  "previously_allocated dir =
     ''Found a previously allocated cluster at cluster directory '' @ quoted dir @
     ''. HOD cannot determine if this cluster can be automatically deallocated. Deallocate the cluster if it is unused.''"

definition dead_found :: "string \<Rightarrow> string" where
  "dead_found dir =
     ''Found a dead cluster at cluster directory '' @ quoted dir @ ''. Deallocating it to allocate a new one.''"

definition is_dead :: "'w outside \<Rightarrow> cluster_info option \<Rightarrow> ('w, bool) cact" where
  "is_dead N info =
     (case info of None \<Rightarrow> returns False | Some i \<Rightarrow> on_session (is_cluster_deallocated N (ci_jobid i)))"

definition free_directory :: "'w outside \<Rightarrow> string \<Rightarrow> ('w, bool) cact" where
  "free_directory N dir =
     andthen read_clusters (\<lambda>known.
       if dir \<in> set (map fst known) then
         andthen (load_cluster N dir) (\<lambda>info.
         andthen (is_dead N info) (\<lambda>dead.
           if dead then
             andthen (tells Warn (dead_found dir)) (\<lambda>_.
             andthen (remove_cluster dir) (\<lambda>_.
             andthen (on_cluster (clear_state None)) (\<lambda>_. returns True)))
           else
             andthen (tells Critical (previously_allocated dir)) (\<lambda>_.
             andthen (sets_code 12) (\<lambda>_. returns False))))
       else returns True)"

text \<open>Whether the account is valid; complaints of the script are logged.\<close>

definition account_ok :: "'w outside \<Rightarrow> 'w client_cfg \<Rightarrow> ('w, bool) cact" where
  "account_ok N E =
     andthen (on_session (is_valid_account N (account_script E))) (\<lambda>(status, message).
       if status \<noteq> 0 then
         andthen (for_each (\<lambda>line. tells Critical (''verify-account output: '' @ line))
           (case message of None \<Rightarrow> [] | Some ls \<Rightarrow> ls)) (\<lambda>_.
         andthen (tells Critical (''Cluster cannot be allocated because account verification failed. '' @
           ''verify-account returned exit code: '' @ nat_str status @ ''.'')) (\<lambda>_.
         andthen (sets_code 4) (\<lambda>_. returns False)))
       else returns True)"

text \<open>What is recorded of the cluster: its state file first, then the list of the user.\<close>

definition set_cluster_state_info :: "'w client_cfg \<Rightarrow> nat \<Rightarrow> 'w session \<Rightarrow> cluster_info" where
  "set_cluster_state_info E n s =
     \<lparr>ci_env = environ E, ci_hdfs = ''http://'' @ opt_str (hdfsInfo s), ci_mapred = ''http://'' @ opt_str (mapredInfo s),
      ci_ring = ringmasterXRS s, ci_jobid = session_job s, ci_min = n, ci_max = n\<rparr>"

definition record_allocation :: "'w outside \<Rightarrow> string \<Rightarrow> cluster_info \<Rightarrow> nat \<Rightarrow> ('w, unit) cact" where
  "record_allocation N dir info status =
     andthen
       (if status = 0 then
          andthen (setup_cluster_state N dir) (\<lambda>_.
          andthen (on_cluster (write_state (Some (ci_jobid info)) info)) (\<lambda>_.
            set_user_state_info [(dir, ci_jobid info)]))
        else returns ()) (\<lambda>_. sets_code status)"

definition start_cluster :: "'w outside \<Rightarrow> 'w client_cfg \<Rightarrow> string \<Rightarrow> nat \<Rightarrow> ('w, unit) cact" where
  "start_cluster N E dir n =
     andthen (updates (\<lambda>c. c\<lparr>registry := True\<rparr>)) (\<lambda>_.
     andthen (on_session (calls (interrupted N))) (\<lambda>stop.
       if stop then andthen cleanup_registry (\<lambda>_. raises interrupt)
       else
         andthen (updates (\<lambda>c. c\<lparr>max_failures := adjust_failures E (int n) (max_failures c)\<rparr>)) (\<lambda>_.
         andthen (catching (on_session (allocate N (cc E) (fuel E) dir n))
           (\<lambda>e. if e = interrupt then andthen cleanup_registry (\<lambda>_. raises e) else raises e)) (\<lambda>status.
         andthen (asks (\<lambda>c. set_cluster_state_info E n (cluster c))) (\<lambda>info.
           catching (record_allocation N dir info status)
             (\<lambda>e. andthen cleanup_registry (\<lambda>_.
                  andthen (on_session (deallocate N (cc E) info)) (\<lambda>_.
                  andthen (sets_code 1) (\<lambda>_. raises (PyException ''Exception''))))))))))"

definition tab :: char where
  "tab = char_of (9::nat)"

definition cluster_line :: "string \<Rightarrow> string \<Rightarrow> string \<Rightarrow> string" where
  "cluster_line what job dir = what @ [tab] @ job @ [tab] @ dir"

definition job_of :: "cluster_info option \<Rightarrow> string" where
  "job_of info = (case info of None \<Rightarrow> [] | Some i \<Rightarrow> ci_jobid i)"

definition tell_refusal :: "string \<Rightarrow> string \<Rightarrow> nat \<Rightarrow> ('w, unit) cact" where
  "tell_refusal dir job code =
     (if code = 12 then tells Critical (''Cluster '' @ dir @ '' already allocated.'')
      else if code = 10 then tells Critical (cluster_line ''dead'' job dir)
      else if code = 13 then tells Warn (cluster_line ''hdfs dead'' job dir)
      else if code = 14 then tells Warn (cluster_line ''mapred dead'' job dir)
      else returns ())"

definition allocate_nodes :: "'w outside \<Rightarrow> 'w client_cfg \<Rightarrow> string \<Rightarrow> nat \<Rightarrow> ('w, unit) cact" where
  "allocate_nodes N E dir n =
     andthen (load_cluster N dir) (\<lambda>info.
     andthen (on_session (check_cluster N info)) (\<lambda>code.
     andthen (sets_code code) (\<lambda>_.
     andthen (if code = 0 \<or> code = 15 then start_cluster N E dir n else tell_refusal dir (job_of info) code) (\<lambda>_.
     andthen (asks opCode) (\<lambda>code'.
       if 0 < code' \<and> code' \<noteq> 15 then tells Critical (''Cannot allocate cluster '' @ dir) else returns ())))))"

text \<open>\<open>re.match\<close> of a range of nodes.\<close>

definition is_node_range :: "string \<Rightarrow> bool" where
  "is_node_range s \<longleftrightarrow>
     (let r = dropWhile is_digit s in
      s \<noteq> [] \<and> is_digit (hd s) \<and> r \<noteq> [] \<and> hd r = CHR ''-'' \<and> tl r \<noteq> [] \<and> is_digit (hd (tl r)))"

text \<open>A range is only split into its two numbers, and nothing is done with it.\<close>

definition with_nodes :: "'w outside \<Rightarrow> 'w client_cfg \<Rightarrow> string \<Rightarrow> string \<Rightarrow> ('w, unit) cact" where
  "with_nodes N E dir nodes =
     (if is_node_range nodes then
        (case split_char (CHR ''-'') nodes of
           [a, b] \<Rightarrow> andthen (outcome (py_int a)) (\<lambda>_. andthen (outcome (py_int b)) (\<lambda>_. returns ()))
         | _ \<Rightarrow> raises (ValueError ''unpack''))
      else (case py_int nodes of
              Inl e \<Rightarrow>
                andthen (prints_help (Some ''allocate'')) (\<lambda>_.
                andthen (tells Critical ''allocate operation requires a pos_int value for n(nodecount).'') (\<lambda>_. sets_code 3))
            | Inr n \<Rightarrow> allocate_nodes N E dir (nat n)))"

definition op_allocate :: "'w outside \<Rightarrow> 'w client_cfg \<Rightarrow> string list \<Rightarrow> ('w, unit) cact" where
  "op_allocate N E args =
     (case args of
        [op, d, nodes] \<Rightarrow>
          (let dir = norm_cluster_dir E d in
           andthen (need_dir N E dir) (\<lambda>bad.
           andthen (outcome (py_int nodes)) (\<lambda>n.
             let complaints = bad @ (if n < 3 then [few_nodes nodes] else []) in
             if complaints \<noteq> [] then andthen (for_each (tells Critical) complaints) (\<lambda>_. sets_code 3)
             else
               andthen (may_use_clusters [R_OK, W_OK]) (\<lambda>ok.
                 if \<not> ok then andthen (tells Critical (no_access ''read/write to'' (state_path E))) (\<lambda>_. sets_code 1)
                 else
                   andthen (free_directory N dir) (\<lambda>free.
                     if \<not> free then returns ()
                     else
                       andthen (account_ok N E) (\<lambda>fine.
                         if fine then with_nodes N E dir nodes else returns ()))))))
      | _ \<Rightarrow> wrong_args ''allocate'' ''two arguments. A cluster directory and a nodecount.'')"

section \<open>Deallocating\<close>

definition no_cluster :: "'w client \<Rightarrow> string \<Rightarrow> string" where
  "no_cluster c dir =
     ''Invalid hod.clusterdir(--hod.clusterdir or -d). '' @ dir @
     (if \<not> path_exists c dir then '' : No such directory''
      else if \<not> is_dir c dir then '' : Not a directory''
      else '' : Not tied to any allocated cluster.'')"

text \<open>A directory without a state file: the job of a recorded cluster is deleted on request.\<close>

definition free_resources :: "'w outside \<Rightarrow> 'w client_cfg \<Rightarrow> string \<Rightarrow> string \<Rightarrow> ('w, unit) cact" where
  "free_resources N E dir job =
     andthen (on_session (delete_job N job)) (\<lambda>_.
     andthen (tells Critical ''Freeing resources allocated to the cluster.'') (\<lambda>_.
     andthen (may_use_clusters [W_OK]) (\<lambda>writable.
       if \<not> writable then andthen (tells Critical (no_access ''write to'' (state_path E))) (\<lambda>_. sets_code 1)
       else andthen (remove_cluster dir) (\<lambda>_. sets_code 3))))"

definition handle_invalid_directory :: "'w outside \<Rightarrow> 'w client_cfg \<Rightarrow> string \<Rightarrow> bool \<Rightarrow> ('w, unit) cact" where
  "handle_invalid_directory N E dir cleanUp =
     andthen (may_use_clusters [R_OK]) (\<lambda>ok.
       if \<not> ok then andthen (tells Critical (no_access ''read'' (state_path E))) (\<lambda>_. sets_code 1)
       else
         andthen read_clusters (\<lambda>known.
           case map_of known dir of
             Some job \<Rightarrow>
               andthen (tells Critical (''Cannot find information for cluster with id '' @ quoted job @
                 '' in previously allocated cluster directory '' @ quoted dir @ ''.'')) (\<lambda>_.
                 if cleanUp then free_resources N E dir job else sets_code 3)
           | None \<Rightarrow>
               andthen (asks (\<lambda>c. no_cluster c dir)) (\<lambda>msg.
               andthen (tells Critical msg) (\<lambda>_. sets_code 15))))"

text \<open>The cluster is given up, and its records removed whatever came of it.\<close>

definition give_up :: "'w outside \<Rightarrow> 'w client_cfg \<Rightarrow> string \<Rightarrow> cluster_info \<Rightarrow> ('w, unit) cact" where
  "give_up N E dir info =
     andthen (on_session (deallocate N (cc E) info)) (\<lambda>code.
     andthen (sets_code code) (\<lambda>_.
     andthen (on_cluster (clear_state None)) (\<lambda>_.
     andthen (may_use_clusters [W_OK]) (\<lambda>writable.
       if \<not> writable then andthen (tells Critical (cannot_update (state_path E))) (\<lambda>_. sets_code 1)
       else remove_cluster dir))))"

text \<open>What three operations do first with a directory: \<open>None\<close> when it is none or holds no state.\<close>

definition cluster_of :: "'w outside \<Rightarrow> string \<Rightarrow> ('w, cluster_info option) cact" where
  "cluster_of N dir =
     andthen (asks (\<lambda>c. is_dir c dir)) (\<lambda>isdir.
       if isdir then load_cluster N dir else returns None)"

definition op_deallocate :: "'w outside \<Rightarrow> 'w client_cfg \<Rightarrow> string list \<Rightarrow> ('w, unit) cact" where
  "op_deallocate N E args =
     (case args of
        [op, d] \<Rightarrow>
          (let dir = norm_cluster_dir E d in
           andthen (cluster_of N dir) (\<lambda>info.
             case info of
               None \<Rightarrow> handle_invalid_directory N E dir True
             | Some i \<Rightarrow> give_up N E dir i))
      | _ \<Rightarrow> wrong_args ''deallocate'' ''one argument. A cluster path.'')"

section \<open>Listing and describing\<close>

definition status_word :: "nat \<Rightarrow> string option" where
  "status_word code =
     (if code = 12 then Some ''alive'' else if code = 10 then Some ''dead''
      else if code = 13 then Some ''hdfs dead'' else if code = 14 then Some ''mapred dead'' else None)"

definition list_cluster :: "'w outside \<Rightarrow> string \<times> string \<Rightarrow> ('w, unit) cact" where
  "list_cluster N = (\<lambda>(path, job).
     andthen (cluster_of N path) (\<lambda>info.
       case info of
         None \<Rightarrow> tells Info (cluster_line ''cluster state unknown'' job path)
       | Some i \<Rightarrow>
           andthen (on_session (check_cluster N (Some i))) (\<lambda>code.
             case status_word code of None \<Rightarrow> returns () | Some w \<Rightarrow> tells Info (cluster_line w job path))))"

definition op_list :: "'w outside \<Rightarrow> ('w, unit) cact" where
  "op_list N = andthen read_clusters (for_each (list_cluster N))"

definition print_cluster_info :: "cluster_info \<Rightarrow> ('w, unit) cact" where
  "print_cluster_info i =
     for_each (\<lambda>(k, v). tells Info (k @ '' '' @ v))
       [(''Cluster Id'', ci_jobid i), (''Nodecount'', nat_str (ci_min i)), (''HDFS UI at'', ci_hdfs i),
        (''Mapred UI at'', ci_mapred i)]"

definition describe :: "string \<Rightarrow> cluster_info \<Rightarrow> ('w, unit) cact" where
  "describe dir i = andthen (print_cluster_info i) (\<lambda>_. tells Info (''hadoop-site.xml at '' @ dir))"

definition tell_state :: "string \<Rightarrow> cluster_info \<Rightarrow> nat \<Rightarrow> ('w, unit) cact" where
  "tell_state dir i code =
     andthen
       (if code = 12 then describe dir i
        else if code = 10 then tells Critical (dir @ '' cluster is dead'')
        else if code = 13 then tells Warn (dir @ '' cluster hdfs is dead'')
        else if code = 14 then tells Warn (dir @ '' cluster mapred is dead'')
        else returns ()) (\<lambda>_.
       if code \<noteq> 12 then
         andthen (if code = 15 then tells Critical (''Cluster '' @ dir @ '' not allocated.'') else describe dir i)
           (\<lambda>_. sets_code code)
       else returns ())"

definition op_info :: "'w outside \<Rightarrow> 'w client_cfg \<Rightarrow> string list \<Rightarrow> ('w, unit) cact" where
  "op_info N E args =
     (case args of
        [op, d] \<Rightarrow>
          (let dir = norm_cluster_dir E d in
           andthen (cluster_of N dir) (\<lambda>info.
             case info of
               None \<Rightarrow> handle_invalid_directory N E dir False
             | Some i \<Rightarrow> andthen (on_session (check_cluster N (Some i))) (tell_state dir i)))
      | _ \<Rightarrow> wrong_args ''info'' ''one argument. A cluster path.'')"

section \<open>Running an operation\<close>

definition check_operation :: "string \<Rightarrow> ('w, string list) cact" where
  "check_operation op =
     (let opList = split_ws op in
      andthen (outcome (nth_res opList 0)) (\<lambda>w.
      andthen
        (if w \<notin> set hod_ops then
           andthen (tells Critical (''Invalid hod operation specified: '' @ op)) (\<lambda>_.
           andthen (op_help None) (\<lambda>_. sets_code 2))
         else returns ()) (\<lambda>_. returns opList)))"

text \<open>There is no method for \<open>script\<close>, which is started in another way.\<close>

definition dispatch :: "'w outside \<Rightarrow> 'w client_cfg \<Rightarrow> string list \<Rightarrow> ('w, unit) cact" where
  "dispatch N E opList =
     (let w = hd opList in
      if w = ''allocate'' then op_allocate N E opList
      else if w = ''deallocate'' then op_deallocate N E opList
      else if w = ''list'' then op_list N
      else if w = ''info'' then op_info N E opList
      else if w = ''help'' then op_help (Some opList)
      else raises AttributeError)"

text \<open>The outcome of the body is whether to end without the clean-up.\<close>

definition interrupted_code :: nat where
  "interrupted_code = 127"

definition operation_body :: "'w outside \<Rightarrow> 'w client_cfg \<Rightarrow> ('w, bool) cact" where
  "operation_body N E =
     andthen (check_operation (cfg_operation E)) (\<lambda>opList.
     andthen (asks opCode) (\<lambda>code.
       if code = 0 then
         andthen (may_use_clusters [R_OK]) (\<lambda>ok.
           if \<not> ok then
             andthen (tells Critical (no_access ''read'' (state_path E))) (\<lambda>_.
             andthen (sets_code 1) (\<lambda>_. returns True))
           else andthen (dispatch N E opList) (\<lambda>_. returns False))
       else returns False))"

definition failed_text :: "string \<Rightarrow> string \<Rightarrow> string" where
  "failed_text op why = ''op: '' @ op @ '' failed: '' @ why"

definition on_failure :: "string \<Rightarrow> string \<Rightarrow> exn \<Rightarrow> ('w, unit) cact" where
  "on_failure when_interrupted when_failed e =
     (if e = interrupt then andthen (tells Critical when_interrupted) (\<lambda>_. sets_code interrupted_code)
      else tells Critical when_failed)"

definition operation :: "'w outside \<Rightarrow> 'w client_cfg \<Rightarrow> ('w, nat) cact" where
  "operation N E =
     andthen (catching (operation_body N E)
       (\<lambda>e. andthen (on_failure (''op: '' @ cfg_operation E @ '' failed because of a process interrupt.'')
                (failed_text (cfg_operation E) (exception_text E e)) e) (\<lambda>_. returns False))) (\<lambda>early.
     andthen (if early then returns () else cleanup_registry) (\<lambda>_. asks opCode))"

section \<open>Running a script\<close>

text \<open>\<open>hadoopScript.run\<close>: the script runs with \<open>HADOOP_CONF_DIR\<close> set to the directory of the cluster.\<close>

definition run_script :: "'w client_cfg \<Rightarrow> ('w, nat) cact" where
  "run_script E = on_session (calls (runs_script E (cfg_script E) (cfg_clusterdir E) (original_dir E)))"

definition script_complaints :: "'w client_cfg \<Rightarrow> string list" where
  "script_complaints E =
     (let invalid = ''Invalid script file (--hod.script or -s) : '' @ cfg_script E in
      case script_kind E of
        NoFile \<Rightarrow> [invalid @ '' : No such file'']
      | NotFile \<Rightarrow> [invalid @ '' : Not a file.'']
      | NotExecutable \<Rightarrow> [invalid @ '' : Not an executable.'']
      | Executable \<Rightarrow> [])"

text \<open>The exit code of the script is kept in a file and becomes the one of the client, unless it is 0.\<close>

definition handle_script_exit_code :: "nat \<Rightarrow> string \<Rightarrow> ('w, unit) cact" where
  "handle_script_exit_code ret dir =
     andthen (asks (\<lambda>c. (path_exists c dir, is_dir c dir))) (\<lambda>(there, isdir).
       if \<not> there then returns ()
       else if ret \<noteq> 0 then
         if isdir then updates (\<lambda>c. c\<lparr>exit_files := AList.update dir ret (exit_files c), opCode := ret\<rparr>)
         else raises (PyException ''IOError'')
       else updates (\<lambda>c. c\<lparr>exit_files := AList.delete dir (exit_files c)\<rparr>))"

definition is_cluster_allocated :: "'w outside \<Rightarrow> string \<Rightarrow> ('w, bool) cact" where
  "is_cluster_allocated N dir = andthen (cluster_of N dir) (\<lambda>info. returns (info \<noteq> None))"

text \<open>The script is run when the allocation worked; the outcome is its exit code, and 0 when it was not run.\<close>

definition try_script :: "'w outside \<Rightarrow> 'w client_cfg \<Rightarrow> ('w, nat) cact" where
  "try_script N E =
     andthen (op_allocate N E [''allocate'', cfg_clusterdir E, cfg_nodecount E]) (\<lambda>_.
     andthen (asks opCode) (\<lambda>code.
       if code = 0 then
         andthen (on_session (calls (interrupted N))) (\<lambda>stop.
           if stop then returns 0
           else andthen (run_script E) (\<lambda>ret. andthen (sets_code ret) (\<lambda>_. returns ret)))
       else
         andthen (tells Critical (''Error '' @ nat_str code @ '' in allocating the cluster. Cannot run the script.''))
           (\<lambda>_. returns 0)))"

text \<open>The interrupt is cleared, and the cluster given up when there is one.\<close>

definition after_script :: "'w outside \<Rightarrow> 'w client_cfg \<Rightarrow> ('w, unit) cact" where
  "after_script N E =
     andthen (on_session (calls (interrupted N))) (\<lambda>stop.
     andthen (if stop then on_session (updates (\<lambda>s. s\<lparr>world := clears_interrupt E (world s)\<rparr>)) else returns ()) (\<lambda>_.
     andthen (is_cluster_allocated N (cfg_clusterdir E)) (\<lambda>there.
       if there then op_deallocate N E [''deallocate'', cfg_clusterdir E] else returns ())))"

text \<open>The handler of failures; the exit code of a script that ran before the failure is kept.\<close>

definition script_failure :: "'w client_cfg \<Rightarrow> exn \<Rightarrow> ('w, unit) cact" where
  "script_failure E e =
     on_failure ''Script failed because of a process interrupt.''
       (''script: '' @ cfg_script E @ '' failed: '' @ exception_text E e) e"

definition script_body :: "'w outside \<Rightarrow> 'w client_cfg \<Rightarrow> ('w, nat) cact" where
  "script_body N E =
     catching
       (andthen (try_script N E) (\<lambda>ret.
          catching (andthen (after_script N E) (\<lambda>_. returns ret))
            (\<lambda>e. andthen (script_failure E e) (\<lambda>_. returns ret))))
       (\<lambda>e. andthen (script_failure E e) (\<lambda>_. returns 0))"

definition script :: "'w outside \<Rightarrow> 'w client_cfg \<Rightarrow> ('w, nat) cact" where
  "script N E =
     andthen (need_dir N E (cfg_clusterdir E)) (\<lambda>bad.
     andthen (outcome (py_int (cfg_nodecount E))) (\<lambda>n.
       let complaints = script_complaints E @ bad @ (if n < 3 then [few_nodes (cfg_nodecount E)] else []) in
       if complaints \<noteq> [] then
         andthen (for_each (tells Critical) complaints) (\<lambda>_.
         andthen (handle_script_exit_code 0 (cfg_clusterdir E)) (\<lambda>_. raises (PyException ''SystemExit 3'')))
       else
         andthen (script_body N E) (\<lambda>ret.
         andthen cleanup_registry (\<lambda>_.
         andthen (handle_script_exit_code ret (cfg_clusterdir E)) (\<lambda>_. asks opCode)))))"

end
