(* ===== verification/Hod_Options.thy ===== *)
theory Hod_Options
  imports Hod_Config Hod_Client "HOL-Library.Char_ord" "HOL-Library.List_Lexorder"
begin

text \<open>
  The command lines of Hadoop on Demand, the class \<open>options\<close> of \<open>hodlib/Common/setup.py\<close>: short letters for
  options, the parser that is built from the definitions, the commands of the client and where its configuration
  file is. \<open>optparse\<close> of the standard library is modelled as far as the class uses it.
\<close>

section \<open>Ends of a run\<close>

text \<open>What stops a run: an exception, or an exit with a code, after something was shown.\<close>

datatype shown = Complaint string | Page string | Version string | Help "string list" "(string \<times> string list) list"

datatype halt = Throw exn | Exit nat shown

type_synonym 'a run = "halt + 'a"

definition hbind :: "'a run \<Rightarrow> ('a \<Rightarrow> 'b run) \<Rightarrow> 'b run" where
  "hbind m f = (case m of Inl e \<Rightarrow> Inl e | Inr x \<Rightarrow> f x)"

definition run_res :: "'a res \<Rightarrow> 'a run" where
  "run_res r = (case r of Inl e \<Rightarrow> Inl (Throw e) | Inr x \<Rightarrow> Inr x)"

lemma hbind_simps [simp]:
  "hbind (Inl e) f = Inl e"
  "hbind (Inr x) f = f x"
  by (simp_all add: hbind_def)

lemma hbind_Inr_iff [result_simps]: "hbind m f = Inr y \<longleftrightarrow> (\<exists>x. m = Inr x \<and> f x = Inr y)"
  by (cases m) auto

lemma hbind_cong [fundef_cong]:
  "m = m' \<Longrightarrow> (\<And>x. m' = Inr x \<Longrightarrow> f x = f' x) \<Longrightarrow> hbind m f = hbind m' f'"
  by (cases m') auto

lemma run_res_simps [simp]:
  "run_res (Inl e) = Inl (Throw e)"
  "run_res (Inr x) = Inr x"
  by (simp_all add: run_res_def)

lemma run_res_Inr_iff [result_simps]: "run_res r = Inr x \<longleftrightarrow> r = Inr x"
  by (cases r) auto

definition py_true :: "'f type_env \<Rightarrow> 'f tval \<Rightarrow> bool" where
  "py_true E v =
     (case v of VNone \<Rightarrow> False | VStr s \<Rightarrow> s \<noteq> [] | VInt i \<Rightarrow> i \<noteq> 0 | VBool b \<Rightarrow> b | VFloat f \<Rightarrow> \<not> float_equals E f 0
      | VStrs xs \<Rightarrow> xs \<noteq> [] | VInts xs \<Rightarrow> xs \<noteq> [] | VDict d \<Rightarrow> d \<noteq> [])"

section \<open>Short letters\<close>

definition alphaString :: string where
  "alphaString = ''abcdefghijklmnopqrstuvxyzABCDEFGHIJKLMNOPQRSTUVXYZ1234567890''"

definition reserved :: "bool \<Rightarrow> string" where
  "reserved withConfig = ''h'' @ (if withConfig then ''c'' else []) @ ''v''"

definition assigned_options :: "'f type_env \<Rightarrow> 'f config_def \<Rightarrow> 'f tval list" where
  "assigned_options E d = filter (py_true E) (map (\<lambda>(opt, x). opt_short x) (concat (map snd (defs d))))"

definition gen_alpha :: "'f type_env \<Rightarrow> 'f config_def \<Rightarrow> string" where
  "gen_alpha E d = filter (\<lambda>c. VStr [c] \<notin> set (assigned_options E d)) alphaString"

definition splice_compound :: "string \<Rightarrow> string \<Rightarrow> string" where
  "splice_compound sec opt = sec @ ''.'' @ opt"

definition split_compound_name :: "string \<Rightarrow> (string \<times> string) res" where
  "split_compound_name s =
     (case split_char (CHR ''.'') s of [sec, opt] \<Rightarrow> Inr (sec, opt) | _ \<Rightarrow> Inl (ValueError ''unpack''))"

type_synonym short_map = "(string \<times> char) list"

definition free_letter :: "bool \<Rightarrow> short_map \<Rightarrow> char \<Rightarrow> bool" where
  "free_letter withConfig m c \<longleftrightarrow> c \<notin> set (map snd m) \<and> c \<notin> set (reserved withConfig)"

text \<open>
  A letter of the option itself, the first in lower case that is free; else, since the second loop does not stop at
  a free letter, the last one of the alphabet. The letters in use are those of before both loops.
\<close>

definition own_letter :: "bool \<Rightarrow> string \<Rightarrow> short_map \<Rightarrow> string \<Rightarrow> char option" where
  "own_letter withConfig alpha m opt =
     List.find (\<lambda>c. c \<in> set alpha \<and> free_letter withConfig m c) (map lower_char opt)"

definition last_letter :: "bool \<Rightarrow> string \<Rightarrow> short_map \<Rightarrow> char option" where
  "last_letter withConfig alpha m = List.find (free_letter withConfig m) (rev alpha)"

definition choose_letter :: "bool \<Rightarrow> string \<Rightarrow> short_map \<Rightarrow> string \<Rightarrow> string \<Rightarrow> char option" where
  "choose_letter withConfig alpha m compound opt =
     (case own_letter withConfig alpha m opt of
        Some c \<Rightarrow> Some c
      | None \<Rightarrow> if map_of m compound = None then last_letter withConfig alpha m else None)"

definition short_step :: "'f type_env \<Rightarrow> bool \<Rightarrow> 'f config_def \<Rightarrow> string \<Rightarrow> string \<Rightarrow> string \<Rightarrow> short_map \<Rightarrow> short_map res" where
  "short_step E withConfig d alpha sec opt m =
     ebind (key_res (map_of (defs d)) sec) (\<lambda>vars.
     ebind (key_res (map_of vars) opt) (\<lambda>x.
       if py_true E (opt_short x) then Inr m
       else (let compound = splice_compound sec opt in
             Inr (case choose_letter withConfig alpha m compound opt of
                    None \<Rightarrow> m | Some c \<Rightarrow> AList.update compound c m))))"

definition options_key :: "string list \<Rightarrow> (string \<times> string list) list res" where
  "options_key compounds =
     ebind (emap split_compound_name compounds) (\<lambda>pairs.
       Inr (fold (\<lambda>(sec, opt) k. AList.update sec ((case map_of k sec of None \<Rightarrow> [] | Some os \<Rightarrow> os) @ [opt]) k) pairs []))"

definition short_section :: "'f type_env \<Rightarrow> bool \<Rightarrow> 'f config_def \<Rightarrow> string \<Rightarrow> (string \<times> string list) list \<Rightarrow> string \<Rightarrow>
    short_map \<Rightarrow> short_map res" where
  "short_section E withConfig d alpha keys sec m =
     ebind (key_res (map_of keys) sec) (\<lambda>opts. fold_res (short_step E withConfig d alpha sec) (sort opts) m)"

definition build_short_map :: "'f type_env \<Rightarrow> bool \<Rightarrow> 'f config_def \<Rightarrow> string list \<Rightarrow> short_map res" where
  "build_short_map E withConfig d compounds =
     ebind (options_key compounds) (\<lambda>keys. fold_res (short_section E withConfig d (gen_alpha E d) keys) (sections d) [])"

section \<open>Options of a parser\<close>

datatype opt_action = Store | StoreTrue | Append | ShowHelp | ShowVersion

record 'f popt =
  po_shorts :: "string list"
  po_longs :: "string list"
  po_dest :: "string option"
  po_action :: opt_action
  po_metavar :: string
  po_default :: "'f tval"

definition takes_value :: "'f popt \<Rightarrow> bool" where
  "takes_value o' \<longleftrightarrow> po_action o' = Store \<or> po_action o' = Append"

text \<open>\<open>formatter\<close>, the short strings first.\<close>

definition format_option_strings :: "'f popt \<Rightarrow> string" where
  "format_option_strings o' =
     py_join '', '' (po_shorts o' @
       (if takes_value o' then
          map (\<lambda>l. l @ ''='' @ (if po_metavar o' \<noteq> [] then po_metavar o'
             else py_upper (case po_dest o' of None \<Rightarrow> [] | Some s \<Rightarrow> s))) (po_longs o')
        else po_longs o'))"

text \<open>
  The options of the parser and of its groups; \<open>display\<close> is the shorter list for the help: options, and groups with
  their options.
\<close>

record 'f optparser =
  option_list :: "'f popt list"
  option_groups :: "(string \<times> 'f popt list) list"

definition all_popts :: "'f optparser \<Rightarrow> 'f popt list" where
  "all_popts p = option_list p @ concat (map snd (option_groups p))"

definition opt_strings :: "'f popt \<Rightarrow> string list" where
  "opt_strings o' = po_shorts o' @ po_longs o'"

text \<open>Which of the strings of a new option are short and which long; other strings are refused.\<close>

fun sort_strings :: "string list \<Rightarrow> (string list \<times> string list) res" where
  "sort_strings [] = Inr ([], [])"
| "sort_strings (s # ss) =
     (if length s < 2 then Inl (PyException ''OptionError'')
      else if length s = 2 then
        (if hd s = CHR ''-'' \<and> s ! 1 \<noteq> CHR ''-'' then ebind (sort_strings ss) (\<lambda>(shorts, longs). Inr (s # shorts, longs))
         else Inl (PyException ''OptionError''))
      else if startswith s ''--'' \<and> s ! 2 \<noteq> CHR ''-'' then ebind (sort_strings ss) (\<lambda>(shorts, longs). Inr (shorts, s # longs))
      else Inl (PyException ''OptionError''))"

definition new_popt :: "string list \<Rightarrow> string option \<Rightarrow> opt_action \<Rightarrow> string \<Rightarrow> 'f tval \<Rightarrow> 'f popt res" where
  "new_popt strings dest act metavar dflt =
     ebind (sort_strings (filter (\<lambda>s. s \<noteq> []) strings)) (\<lambda>(shorts, longs).
       Inr \<lparr>po_shorts = shorts, po_longs = longs, po_dest = dest, po_action = act, po_metavar = metavar, po_default = dflt\<rparr>)"

definition check_conflict :: "'f popt \<Rightarrow> 'f optparser \<Rightarrow> unit res" where
  "check_conflict o' p =
     (if set (opt_strings o') \<inter> set (concat (map opt_strings (all_popts p))) = {} then Inr ()
      else Inl (PyException ''OptionConflictError''))"

text \<open>A new option goes to the parser, or to the group that was added last.\<close>

definition add_option :: "bool \<Rightarrow> 'f popt \<Rightarrow> 'f optparser \<Rightarrow> 'f optparser res" where
  "add_option to_group o' p =
     ebind (check_conflict o' p) (\<lambda>_.
       if to_group then
         Inr (p\<lparr>option_groups := butlast (option_groups p) @
           [(fst (last (option_groups p)), snd (last (option_groups p)) @ [o'])]\<rparr>)
       else Inr (p\<lparr>option_list := option_list p @ [o']\<rparr>))"

definition action_of :: "string \<Rightarrow> string \<Rightarrow> opt_action" where
  "action_of compound ty =
     (if compound \<in> set list_options then Append else if ty = ''bool'' then StoreTrue else Store)"

definition short_string :: "'f type_env \<Rightarrow> short_map \<Rightarrow> string \<Rightarrow> 'f opt_def \<Rightarrow> string res" where
  "short_string E m compound x =
     (case map_of m compound of
        Some c \<Rightarrow> Inr [CHR ''-'', c]
      | None \<Rightarrow> if py_true E (opt_short x) then on_str TypeError (opt_short x) (\<lambda>s. Inr (''-'' @ s)) else Inr [])"

definition add_config_option :: "'f type_env \<Rightarrow> short_map \<Rightarrow> bool \<Rightarrow> string \<Rightarrow> string \<times> 'f opt_def \<Rightarrow> 'f optparser \<Rightarrow> 'f optparser res" where
  "add_config_option E m to_group sec = (\<lambda>(opt, x) p.
     let compound = splice_compound sec opt in
     ebind (short_string E m compound x) (\<lambda>short.
     ebind (new_popt [short, ''--'' @ compound] (Some compound) (action_of compound (opt_type x)) (opt_type x) (opt_default x)) (\<lambda>o'.
       add_option to_group o' p)))"

definition plain_option :: "string list \<Rightarrow> string option \<Rightarrow> opt_action \<Rightarrow> string \<Rightarrow> 'f tval \<Rightarrow> 'f optparser \<Rightarrow> 'f optparser res" where
  "plain_option strings dest act metavar dflt p =
     ebind (new_popt strings dest act metavar dflt) (\<lambda>o'. add_option False o' p)"

text \<open>The parser of the superclass has the option for help.\<close>

definition OptionParser :: "'f optparser" where
  "OptionParser =
     \<lparr>option_list = [\<lparr>po_shorts = [''-h''], po_longs = [''--help''], po_dest = None, po_action = ShowHelp,
         po_metavar = [], po_default = VNone\<rparr>],
      option_groups = []\<rparr>"

definition add_group :: "'f type_env \<Rightarrow> short_map \<Rightarrow> 'f config_def \<Rightarrow> string \<Rightarrow> 'f optparser \<Rightarrow> 'f optparser res" where
  "add_group E m d sec p =
     ebind (key_res (map_of (defs d)) sec) (\<lambda>vars.
       fold_res (add_config_option E m True sec) vars (p\<lparr>option_groups := option_groups p @ [(sec, [])]\<rparr>))"

definition add_ungrouped :: "'f type_env \<Rightarrow> short_map \<Rightarrow> 'f config_def \<Rightarrow> string \<Rightarrow> 'f optparser \<Rightarrow> 'f optparser res" where
  "add_ungrouped E m d sec p =
     ebind (key_res (map_of (defs d)) sec) (\<lambda>vars. fold_res (add_config_option E m False sec) vars p)"

definition add_options :: "'f type_env \<Rightarrow> bool \<Rightarrow> 'f tval \<Rightarrow> short_map \<Rightarrow> 'f config_def \<Rightarrow> 'f optparser \<Rightarrow> 'f optparser res" where
  "add_options E withConfig defaultConfig m d p =
     ebind (if withConfig then plain_option [''-c'', ''--config''] (Some ''config'') Store ''config_file'' defaultConfig p
            else Inr p) (\<lambda>p1.
     ebind (plain_option ['''', ''--verbose-help''] None ShowHelp ''flag'' VNone p1) (\<lambda>p2.
     ebind (plain_option [''-v'', ''--version''] None ShowVersion ''flag'' VNone p2) (\<lambda>p3.
       if 1 < length (sections d) then fold_res (add_group E m d) (sections d) p3
       else fold_res (add_ungrouped E m d) (sections d) p3)))"

section \<open>Parsing a command line\<close>

type_synonym 'f pvalues = "(string \<times> 'f tval) list"

definition default_values :: "'f optparser \<Rightarrow> 'f pvalues" where
  "default_values p =
     fold (\<lambda>o' v. case po_dest o' of None \<Rightarrow> v | Some dest \<Rightarrow> AList.update dest (po_default o') v) (all_popts p) []"

text \<open>\<open>error\<close> of the parser shows a message and ends with 2.\<close>

definition complain :: "string \<Rightarrow> 'a run" where
  "complain msg = Inl (Exit 2 (Complaint msg))"

definition help_view :: "'f optparser \<Rightarrow> shown" where
  "help_view p = Help (map format_option_strings (option_list p))
     (map (\<lambda>(title, os). (title, map format_option_strings os)) (option_groups p))"

definition find_string :: "string \<Rightarrow> 'f optparser \<Rightarrow> 'f popt option" where
  "find_string s p = List.find (\<lambda>o'. s \<in> set (opt_strings o')) (all_popts p)"

definition all_longs :: "'f optparser \<Rightarrow> string list" where
  "all_longs p = concat (map po_longs (all_popts p))"

text \<open>A long option may be shortened as long as it stays unambiguous.\<close>

definition match_long :: "string \<Rightarrow> 'f optparser \<Rightarrow> (string \<times> 'f popt) run" where
  "match_long s p =
     (case (if s \<in> set (all_longs p) then [s] else filter (\<lambda>l. startswith l s) (all_longs p)) of
        [] \<Rightarrow> complain (''no such option: '' @ s)
      | [l] \<Rightarrow> (case find_string l p of None \<Rightarrow> Inl (Throw KeyError) | Some o' \<Rightarrow> Inr (l, o'))
      | ls \<Rightarrow> complain (''ambiguous option: '' @ s @ '' ('' @ py_join '', '' (sort ls) @ ''?)''))"

text \<open>What an option does to the values, with the help that \<open>print_help\<close> shows.\<close>

definition take_action :: "shown \<Rightarrow> string \<Rightarrow> 'f popt \<Rightarrow> string option \<Rightarrow> 'f pvalues \<Rightarrow> 'f pvalues run" where
  "take_action help version o' arg v =
     (let dest = (case po_dest o' of None \<Rightarrow> [] | Some s \<Rightarrow> s); s = (case arg of None \<Rightarrow> [] | Some s \<Rightarrow> s) in
      case po_action o' of
        Store \<Rightarrow> Inr (AList.update dest (VStr s) v)
      | StoreTrue \<Rightarrow> Inr (AList.update dest (VBool True) v)
      | Append \<Rightarrow>
          (case map_of v dest of
             None \<Rightarrow> Inr (AList.update dest (VStrs [s]) v)
           | Some VNone \<Rightarrow> Inr (AList.update dest (VStrs [s]) v)
           | Some (VStrs xs) \<Rightarrow> Inr (AList.update dest (VStrs (xs @ [s])) v)
           | Some u \<Rightarrow> Inl (Throw AttributeError))
      | ShowHelp \<Rightarrow> Inl (Exit 0 help)
      | ShowVersion \<Rightarrow> Inl (Exit 0 (Version version)))"

text \<open>
  A word of short options: those without a value act in turn; one with a value ends the word, and takes the rest of
  it as the value, or the next word when there is no rest.
\<close>

fun short_word :: "shown \<Rightarrow> string \<Rightarrow> 'f optparser \<Rightarrow> string \<Rightarrow> 'f pvalues \<Rightarrow> ('f pvalues \<times> ('f popt \<times> string \<times> string) option) run" where
  "short_word help version p [] v = Inr (v, None)"
| "short_word help version p (c # cs) v =
     (case find_string [CHR ''-'', c] p of
        None \<Rightarrow> complain (''no such option: '' @ [CHR ''-'', c])
      | Some o' \<Rightarrow>
          if takes_value o' then Inr (v, Some (o', [CHR ''-'', c], cs))
          else hbind (take_action help version o' None v) (short_word help version p cs))"

text \<open>A long option up to its equals sign, and what follows the sign.\<close>

definition split_equals :: "string \<Rightarrow> string \<times> string option" where
  "split_equals arg =
     (let name = takeWhile (\<lambda>c. c \<noteq> CHR ''='') arg in
      (name, if name = arg then None else Some (drop (length name + 1) arg)))"

definition needs_argument :: "string \<Rightarrow> 'a run" where
  "needs_argument s = complain (s @ '' option requires an argument'')"

text \<open>\<open>_process_args\<close>: the words left over, and the values.\<close>

fun process_args :: "shown \<Rightarrow> string \<Rightarrow> 'f optparser \<Rightarrow> string list \<Rightarrow> string list \<Rightarrow> 'f pvalues \<Rightarrow> (string list \<times> 'f pvalues) run" where
  "process_args help version p [] left v = Inr (left, v)"
| "process_args help version p (arg # rest) left v =
     (if arg = ''--'' then Inr (left @ rest, v)
      else if startswith arg ''--'' then
        (case split_equals arg of (name, explicit) \<Rightarrow>
           hbind (match_long name p) (\<lambda>(l, o').
             if takes_value o' then
               (case explicit of
                  Some s \<Rightarrow> hbind (take_action help version o' (Some s) v) (process_args help version p rest left)
                | None \<Rightarrow>
                    (case rest of
                       [] \<Rightarrow> needs_argument l
                     | s # rest' \<Rightarrow> hbind (take_action help version o' (Some s) v) (process_args help version p rest' left)))
             else if explicit \<noteq> None then complain (l @ '' option does not take a value'')
             else hbind (take_action help version o' None v) (process_args help version p rest left)))
      else if startswith arg ''-'' \<and> 1 < length arg then
        hbind (short_word help version p (tl arg) v) (\<lambda>(v', pending).
          case pending of
            None \<Rightarrow> process_args help version p rest left v'
          | Some (o', s, cs) \<Rightarrow>
              if cs \<noteq> [] then hbind (take_action help version o' (Some cs) v') (process_args help version p rest left)
              else (case rest of
                      [] \<Rightarrow> needs_argument s
                    | a # rest' \<Rightarrow> hbind (take_action help version o' (Some a) v') (process_args help version p rest' left)))
      else process_args help version p rest (left @ [arg]) v)"

definition parse_args :: "shown \<Rightarrow> string \<Rightarrow> 'f optparser \<Rightarrow> string list \<Rightarrow> (string list \<times> 'f pvalues) run" where
  "parse_args help version p argv = process_args help version p argv [] (default_values p)"

section \<open>The options shown by the help\<close>

definition shows_option :: "'f type_env \<Rightarrow> 'f opt_def \<Rightarrow> bool" where
  "shows_option E x \<longleftrightarrow> py_true E (opt_help x)"

text \<open>
  \<open>optionTitleMap\<close> and \<open>optionListTitleMap\<close>: options by their long string. \<open>__init_display_options\<close> keeps the groups
  with something to show.
\<close>

definition by_long :: "string \<Rightarrow> 'f popt list \<Rightarrow> 'f popt option" where
  "by_long l os = List.find (\<lambda>o'. take 1 (po_longs o') = [l]) (rev os)"

definition shown_names :: "'f type_env \<Rightarrow> 'f config_def \<Rightarrow> string \<Rightarrow> string list" where
  "shown_names E d sec =
     map fst (filter (\<lambda>(opt, x). shows_option E x) (case map_of (defs d) sec of None \<Rightarrow> [] | Some vars \<Rightarrow> vars))"

definition found :: "('a \<Rightarrow> 'b option) \<Rightarrow> 'a list \<Rightarrow> 'b list" where
  "found f xs = concat (map (\<lambda>x. case f x of None \<Rightarrow> [] | Some y \<Rightarrow> [y]) xs)"

definition display_of_group :: "'f type_env \<Rightarrow> 'f config_def \<Rightarrow> string \<times> 'f popt list \<Rightarrow> 'f popt list" where
  "display_of_group E d = (\<lambda>(title, os). found (\<lambda>opt. by_long (''--'' @ splice_compound title opt) os) (shown_names E d title))"

definition display_parser :: "'f type_env \<Rightarrow> 'f config_def \<Rightarrow> 'f optparser \<Rightarrow> 'f optparser" where
  "display_parser E d p =
     \<lparr>option_list =
        found (\<lambda>l. by_long l (option_list p))
          (concat (map (\<lambda>sec. map (\<lambda>opt. ''--'' @ splice_compound sec opt) (shown_names E d sec)) (sections d)) @
           [''--config'', ''--help'', ''--verbose-help'', ''--version'']),
      option_groups =
        filter (\<lambda>(title, os). os \<noteq> []) (map (\<lambda>(title, os). (title, display_of_group E d (title, os))) (option_groups p))\<rparr>"

text \<open>\<open>print_help\<close>: all options when the command line asks for that, else those to be displayed.\<close>

definition shown_parser :: "'f type_env \<Rightarrow> 'f config_def \<Rightarrow> string list \<Rightarrow> 'f optparser \<Rightarrow> 'f optparser" where
  "shown_parser E d argv p = (if ''--verbose-help'' \<in> set argv then p else display_parser E d p)"

definition print_help :: "'f type_env \<Rightarrow> 'f config_def \<Rightarrow> string list \<Rightarrow> 'f optparser \<Rightarrow> shown" where
  "print_help E d argv p = help_view (shown_parser E d argv p)"

section \<open>Commands of the client\<close>

record 'f opt_env =
  type_env :: "'f type_env"
  there :: "string \<Rightarrow> bool"
  user_dir :: "string \<Rightarrow> string"
  cwd_of :: string
  argv :: "string list"
  program :: string
  program_version :: string
  with_config :: bool
  default_config :: "'f tval"
  default_location :: "string option"

definition attribute :: "string \<Rightarrow> 'f pvalues \<Rightarrow> 'f tval run" where
  "attribute name v = (case map_of v name of None \<Rightarrow> Inl (Throw AttributeError) | Some x \<Rightarrow> Inr x)"

definition string_of :: "'f tval \<Rightarrow> string run" where
  "string_of x = run_res (on_str TypeError x Inr)"

definition set_operation :: "string \<Rightarrow> 'f pvalues \<Rightarrow> 'f pvalues" where
  "set_operation cmd v = AList.update ''hod.operation'' (VStr cmd) v"

definition show_usage :: "string \<Rightarrow> 'a run" where
  "show_usage cmd = hbind (run_res (usage cmd)) (\<lambda>u. Inl (Exit 3 (Page u)))"

definition show_all :: "nat \<Rightarrow> 'a run" where
  "show_all code = hbind (run_res (help_text None)) (\<lambda>u. Inl (Exit code (Page (''Usage:  '' @ u))))"

definition cluster_directory :: "'f opt_env \<Rightarrow> string \<Rightarrow> string \<Rightarrow> string" where
  "cluster_directory H orig dir =
     (let d = user_dir H dir in abspath (cwd_of H) (if startswith d ''/'' then d else path_join orig d))"

text \<open>The file \<open>remove_exit_code_file\<close> removes; failures are only reported.\<close>

definition exit_code_file :: "'f opt_env \<Rightarrow> 'f tval \<Rightarrow> 'f tval \<Rightarrow> string option" where
  "exit_code_file H orig dir =
     (case (orig, dir) of
        (VStr o', VStr d) \<Rightarrow>
          (let f = path_join (cluster_directory H o' d) ''script.exitcode'' in
           if there H (cluster_directory H o' d) \<and> there H f then Some f else None)
      | _ \<Rightarrow> None)"

definition command_allocate :: "'f opt_env \<Rightarrow> 'f pvalues \<Rightarrow> 'f pvalues run" where
  "command_allocate H v =
     hbind (attribute ''hod.clusterdir'' v) (\<lambda>dir.
     hbind (attribute ''hod.nodecount'' v) (\<lambda>nodes.
       if \<not> py_true (type_env H) dir \<or> \<not> py_true (type_env H) nodes then show_usage ''allocate''
       else hbind (string_of dir) (\<lambda>d. hbind (string_of nodes) (\<lambda>n.
         Inr (set_operation (''allocate'' @ '' '' @ d @ '' '' @ n) v)))))"

definition command_on_cluster :: "'f opt_env \<Rightarrow> string \<Rightarrow> 'f pvalues \<Rightarrow> 'f pvalues run" where
  "command_on_cluster H cmd v =
     hbind (attribute ''hod.clusterdir'' v) (\<lambda>dir.
       if \<not> py_true (type_env H) dir then show_usage cmd
       else hbind (string_of dir) (\<lambda>d. Inr (set_operation (cmd @ '' '' @ d) v)))"

definition command_script :: "'f opt_env \<Rightarrow> 'f tval \<Rightarrow> 'f pvalues \<Rightarrow> ('f pvalues \<times> string option) run" where
  "command_script H scr v =
     hbind (attribute ''hod.clusterdir'' v) (\<lambda>dir.
     hbind (attribute ''hod.nodecount'' v) (\<lambda>nodes.
     hbind (attribute ''hod.original-dir'' v) (\<lambda>orig.
       let E = type_env H; removed = (if py_true E orig \<and> py_true E dir then exit_code_file H orig dir else None) in
       if \<not> py_true E scr \<or> \<not> py_true E dir \<or> \<not> py_true E nodes then show_usage ''script''
       else Inr (v, removed))))"

definition command_help :: "shown \<Rightarrow> string list \<Rightarrow> 'f pvalues \<Rightarrow> 'f pvalues run" where
  "command_help help args v =
     (if length args = 1 then Inl (Exit 0 help)
      else if length args \<noteq> 2 then Inl (Exit 3 help)
      else if args ! 1 = ''options'' then Inl (Exit 0 help)
      else Inr (set_operation (''help '' @ args ! 1) v))"

definition nothing_removed :: "'f pvalues run \<Rightarrow> ('f pvalues \<times> string option) run" where
  "nothing_removed m = hbind m (\<lambda>v. Inr (v, None))"

definition client_command :: "'f opt_env \<Rightarrow> shown \<Rightarrow> string list \<Rightarrow> 'f pvalues \<Rightarrow> ('f pvalues \<times> string option) run" where
  "client_command H help args v =
     hbind (attribute ''hod.operation'' v) (\<lambda>op.
     hbind (attribute ''hod.script'' v) (\<lambda>scr.
       let E = type_env H in
       if py_true E op then
         (if args \<noteq> [] then complain ''invalid syntax : command and operation(-o) cannot coexist'' else Inr (v, None))
       else if args = [] \<and> py_true E scr then Inr (v, None)
       else if args = [] then show_all 0
       else (let cmd = hd args in
         if cmd \<notin> set hod_ops then show_all 2
         else if cmd = ''allocate'' then nothing_removed (command_allocate H v)
         else if cmd = ''deallocate'' \<or> cmd = ''info'' then nothing_removed (command_on_cluster H cmd v)
         else if cmd = ''list'' then Inr (set_operation cmd v, None)
         else if cmd = ''script'' then command_script H scr v
         else nothing_removed (command_help help args v))))"

section \<open>The configuration file\<close>

text \<open>
  A relative path is taken from the original directory. The default location is used only for a path without a slash
  that does not exist.
\<close>

definition complain_original :: "'a run" where
  "complain_original = complain ''hod.original-dir is not defined. Cannot get current directory''"

definition from_original :: "'f tval \<Rightarrow> string \<Rightarrow> 'f pvalues \<Rightarrow> (string \<times> 'f pvalues) run" where
  "from_original orig file v =
     (case orig of
        VNone \<Rightarrow> Inr (file, v)
      | VStr dir \<Rightarrow> Inr (path_join dir file, AList.update ''config'' (VStr (path_join dir file)) v)
      | _ \<Rightarrow> complain_original)"

definition locate_config :: "'f opt_env \<Rightarrow> 'f pvalues \<Rightarrow> 'f pvalues run" where
  "locate_config H v =
     hbind (attribute ''config'' v) (\<lambda>config.
       if \<not> py_true (type_env H) config then complain ''configuration file must be specified''
       else hbind (run_res (on_str AttributeError config Inr)) (\<lambda>file.
         hbind
           (if startswith file ''/'' then Inr (file, v)
            else (case map_of v ''hod.original-dir'' of
                    None \<Rightarrow> complain_original
                  | Some orig \<Rightarrow> from_original orig file v)) (\<lambda>(path, v').
           if there H path then Inr v'
           else (case default_location H of
                   None \<Rightarrow> Inr v'
                 | Some loc \<Rightarrow>
                     Inr (if loc \<noteq> [] \<and> CHR ''/'' \<notin> set path
                          then AList.update ''config'' (VStr (path_join loc path)) v' else v')))))"

section \<open>The options object\<close>

definition known_compounds :: "'f config_def \<Rightarrow> string list \<Rightarrow> string list res" where
  "known_compounds d secs =
     ebind (emap (\<lambda>sec. ebind (key_res (map_of (defs d)) sec) (\<lambda>vars.
       Inr (map (\<lambda>v. splice_compound sec (fst v)) vars))) secs) (\<lambda>xss. Inr (concat xss))"

definition refuse_option :: "bool \<Rightarrow> string \<Rightarrow> unit res" where
  "refuse_option withConfig opt =
     (if CHR ''.'' \<in> set opt then Inl (PyException ''Options cannot contain: .'')
      else if withConfig \<and> opt = ''config'' then Inl (PyException ''With config set, option config is not allowed.'')
      else if withConfig \<and> opt = ''verbose-help'' then
        Inl (PyException ''With config set, option verbose-help is not allowed.'')
      else Inr ())"

definition list_section :: "bool \<Rightarrow> 'f config_def \<Rightarrow> string \<Rightarrow> string list res" where
  "list_section withConfig d sec =
     (if withConfig \<and> sec = ''config'' then Inl (PyException ''withConfig set 'config' cannot be used as a section name'')
      else ebind (key_res (map_of (defs d)) sec) (\<lambda>vars.
        emap (\<lambda>v. ebind (refuse_option withConfig (fst v)) (\<lambda>_. Inr (splice_compound sec (fst v)))) vars))"

definition list_compounds :: "bool \<Rightarrow> 'f config_def \<Rightarrow> string list res" where
  "list_compounds withConfig d = ebind (emap (list_section withConfig d) (sections d)) (\<lambda>xss. Inr (concat xss))"

definition build_parser :: "'f opt_env \<Rightarrow> 'f config_def \<Rightarrow> 'f optparser res" where
  "build_parser H d =
     ebind (list_compounds (with_config H) d) (\<lambda>compounds.
     ebind (build_short_map (type_env H) (with_config H) d compounds) (\<lambda>m.
       add_options (type_env H) (with_config H) (default_config H) m d OptionParser))"

definition joined :: "'f tval \<Rightarrow> 'f tval res" where
  "joined x = (case x of VStrs xs \<Rightarrow> Inr (VStr (py_join '','' xs)) | VInts xs \<Rightarrow> Inl TypeError | _ \<Rightarrow> Inr x)"

text \<open>\<open>__build_dict\<close>: values that count as true, and \<open>False\<close> for flags that are not given.\<close>

definition open_section :: "string \<Rightarrow> (string \<times> 'f part) list \<Rightarrow> (string \<times> 'f part) list" where
  "open_section sec ps = (if map_of ps sec = None then AList.update sec (Options []) ps else ps)"

definition put_option :: "string \<Rightarrow> string \<Rightarrow> 'f tval \<Rightarrow> (string \<times> 'f part) list \<Rightarrow> (string \<times> 'f part) list res" where
  "put_option sec opt x ps =
     (case map_of ps sec of
        Some (Options os) \<Rightarrow> Inr (AList.update sec (Options (AList.update opt x os)) ps)
      | Some (Plain s) \<Rightarrow> Inl TypeError
      | None \<Rightarrow> Inl KeyError)"

definition put_value :: "'f type_env \<Rightarrow> 'f pvalues \<Rightarrow> string \<Rightarrow> (string \<times> 'f part) list \<Rightarrow> (string \<times> 'f part) list res" where
  "put_value E v compound ps =
     ebind (split_compound_name compound) (\<lambda>(sec, opt).
       case map_of v compound of
         None \<Rightarrow> Inr (open_section sec ps)
       | Some x \<Rightarrow>
           if py_true E x then ebind (joined x) (\<lambda>y. put_option sec opt y (open_section sec ps))
           else Inr (open_section sec ps))"

definition contains :: "string \<Rightarrow> string \<Rightarrow> bool" where
  "contains sub s \<longleftrightarrow> list_ex (\<lambda>i. startswith (drop i s) sub) [0..<Suc (length s)]"

definition put_flag :: "string \<Rightarrow> string \<times> 'f opt_def \<Rightarrow> (string \<times> 'f part) list \<Rightarrow> (string \<times> 'f part) list res" where
  "put_flag sec = (\<lambda>(opt, x) ps.
     if opt_type x = ''bool'' then
       (case map_of (open_section sec ps) sec of
          Some (Options os) \<Rightarrow> if map_of os opt = None then put_option sec opt (VBool False) (open_section sec ps)
                              else Inr (open_section sec ps)
        | Some (Plain s) \<Rightarrow> if contains opt s then Inr ps else Inl TypeError
        | None \<Rightarrow> Inl KeyError)
     else Inr ps)"

definition build_dict :: "'f opt_env \<Rightarrow> 'f config_def \<Rightarrow> 'f pvalues \<Rightarrow> (string \<times> 'f part) list res" where
  "build_dict H d v =
     ebind (known_compounds d (sections d)) (\<lambda>compounds.
     ebind (fold_res (put_value (type_env H) v) (filter (\<lambda>c. c \<in> set compounds) (sort (map fst v)))
             (if with_config H then [(''config'', Plain (py_str (type_env H) (case map_of v ''config'' of None \<Rightarrow> VNone | Some x \<Rightarrow> x)))]
              else [])) (\<lambda>ps.
       fold_res (\<lambda>(sec, vars). fold_res (put_flag sec) vars) (defs d) ps))"

definition options :: "'f opt_env \<Rightarrow> 'f config_def \<Rightarrow> string option \<Rightarrow> ('f cfg \<times> 'f pvalues \<times> string list \<times> string option) run" where
  "options H d orig =
     hbind (run_res (build_parser H d)) (\<lambda>p.
     let help = print_help (type_env H) d (argv H) p in
     hbind (parse_args help (program_version H) p (argv H)) (\<lambda>(args, v).
     hbind (if program H = ''hod'' then client_command H help args v else Inr (v, None)) (\<lambda>(v1, removed).
     hbind (if with_config H then locate_config H v1 else Inr v1) (\<lambda>v2.
     hbind (run_res (build_dict H d v2)) (\<lambda>ps.
       Inr ((baseConfig d orig)\<lparr>dict := ps\<rparr>, v2, args, removed))))))"

end
