(* ===== verification/Hod_Type_Facts.thy ===== *)
theory Hod_Type_Facts
  imports Hod_Types
begin

text \<open>
  What the option types of Hadoop on Demand guarantee: sizes are exact up to \<open>2 ^ 53\<close>, settings printed for a
  command line are read back, which texts count as a bool, and which types accept nothing.
\<close>

section \<open>Doubles\<close>

lemma bit_length_le: "n < 2 ^ k \<Longrightarrow> bit_length n \<le> k"
proof (induction k arbitrary: n)
  case 0
  then show ?case by (simp add: bit_length.simps [of 0])
next
  case (Suc k)
  then have "n div 2 < 2 ^ k" by simp
  with Suc.IH have "bit_length (n div 2) \<le> k" by blast
  then show ?case by (subst bit_length.simps) simp
qed

lemma bit_length_double: "bit_length (2 * n) = (if n = 0 then 0 else bit_length n + 1)"
  by (subst bit_length.simps) simp

lemma bit_length_shift: "0 < n \<Longrightarrow> bit_length (n * 2 ^ k) = bit_length n + k"
proof (induction k)
  case (Suc k)
  have "bit_length (n * 2 ^ Suc k) = bit_length (2 * (n * 2 ^ k))" by (simp add: ac_simps)
  then show ?case using Suc by (simp add: bit_length_double)
qed simp

lemma round_double_small: "n < 2 ^ 53 \<Longrightarrow> round_double n = n"
  using bit_length_le [of n 53] by (simp add: round_double_def)

text \<open>A power of two times an integer of up to 53 bits is a double.\<close>

lemma round_double_exact:
  assumes "n < 2 ^ 53"
  shows "round_double (n * 2 ^ k) = n * 2 ^ k"
proof (cases "n = 0")
  case True
  then show ?thesis using round_double_small [of 0] by simp
next
  case False
  define e where "e = bit_length (n * 2 ^ k) - 53"
  have "bit_length n \<le> 53" using assms by (rule bit_length_le)
  then have "e \<le> k" using False by (simp add: e_def bit_length_shift)
  then have "n * 2 ^ k = (n * 2 ^ (k - e)) * 2 ^ e"
    by (simp add: power_add [symmetric] mult.assoc)
  then obtain m where m: "n * 2 ^ k = m * 2 ^ e" by blast
  then show ?thesis
    unfolding round_double_def Let_def e_def [symmetric] by simp
qed

text \<open>Rounding moves an integer by at most half of the last place that is kept.\<close>

lemma round_double_error:
  "2 * round_double n \<le> 2 * n + 2 ^ (bit_length n - 53) \<and> 2 * n \<le> 2 * round_double n + 2 ^ (bit_length n - 53)"
proof -
  define e where "e = bit_length n - 53"
  define q where "q = n div 2 ^ e"
  define r where "r = n mod 2 ^ e"
  have n: "n = q * 2 ^ e + r" and r: "r < 2 ^ e"
    using div_mult_mod_eq [of n "2 ^ e"] by (simp_all add: q_def r_def)
  have "round_double n = (if e = 0 then n else if 2 * r < 2 ^ e \<or> 2 * r = 2 ^ e \<and> even q then q * 2 ^ e else q * 2 ^ e + 2 ^ e)"
    unfolding round_double_def Let_def e_def [symmetric] q_def [symmetric] r_def [symmetric]
    by (simp add: add_mult_distrib)
  then show ?thesis
    unfolding e_def [symmetric] using n r by (auto split: if_splits)
qed

lemma to_double_small: "n < 2 ^ 53 \<Longrightarrow> to_double n = Inr n"
proof -
  assume n: "n < 2 ^ 53"
  have "(2 :: nat) ^ 53 \<le> 2 ^ 1024" by (rule power_increasing) simp_all
  with n show ?thesis by (simp add: to_double_def round_double_small)
qed

lemma to_double_exact:
  assumes "n < 2 ^ 53" and "k \<le> 971"
  shows "to_double (n * 2 ^ k) = Inr (n * 2 ^ k)"
proof -
  have "n * 2 ^ k < 2 ^ 53 * 2 ^ k" using assms(1) by simp
  also have "\<dots> = 2 ^ (53 + k)" by (simp only: power_add)
  also have "\<dots> \<le> (2 :: nat) ^ 1024" using assms(2) by (intro power_increasing) simp_all
  finally show ?thesis using round_double_exact [OF assms(1)] by (simp add: to_double_def)
qed

lemma size_factor_power:
  assumes "map_of sizeFactors u = Some f"
  shows "\<exists>k \<le> 50. f = 2 ^ k"
proof -
  have "f \<in> (\<lambda>k. 2 ^ k) ` {0 :: nat, 10, 20, 30, 40, 50}"
    using assms by (simp add: sizeFactors_def split: if_splits)
  then obtain k :: nat where "k \<in> {0, 10, 20, 30, 40, 50}" "f = 2 ^ k" by blast
  then show ?thesis by (intro exI [of _ k]) auto
qed

text \<open>
  C24: A size given with a unit is converted exactly when its number is below \<open>2 ^ 53\<close>, although the conversion goes
  through a float; larger numbers are rounded.
\<close>

theorem size_exact:
  assumes "n < 2 ^ 53" and "u \<in> set size_units" and "map_of sizeFactors u = Some f"
  shows "verify_size E (VStr (nat_str n @ u)) = Inr (valid_info (VInt (int (n * f))))"
proof -
  obtain k where k: "k \<le> 50" "f = 2 ^ k" using size_factor_power [OF assms(3)] by blast
  have u: "py_lower u = u" "u \<noteq> []" "\<not> is_digit (hd u)"
    using assms(2) by (auto simp: size_units_def char_defs)
  have "takeWhile is_digit (nat_str n @ u) = nat_str n" "dropWhile is_digit (nat_str n @ u) = u"
    using nat_str_digits [of n] u(2, 3)
    by (cases u; simp add: list_all_iff takeWhile_append2 dropWhile_append2)+
  then have "match_size (nat_str n @ u) = Some (nat_str n, u)"
    using assms(2) nat_str_digits [of n] u(1) by (simp add: match_size_def)
  moreover have "normalize_size n u = Inr (n * f)"
    using assms(1, 3) k to_double_exact [of n k] u(1)
    by (simp add: normalize_size_def normalize_unit_def to_double_small key_res_def)
  ultimately show ?thesis by (simp add: verify_size_def py_str_def)
qed

section \<open>Which texts are bools\<close>

lemma startswith_single: "startswith s [c] \<longleftrightarrow> s \<noteq> [] \<and> hd s = c"
  by (cases s) (auto simp: startswith_def)

lemma startswith_hd: "startswith s (c # cs) \<Longrightarrow> s \<noteq> [] \<and> hd s = c"
  by (cases s) (auto simp: startswith_def)

text \<open>
  The check of bools looks at the first letter only: whatever starts with \<open>0\<close>, \<open>f\<close>, \<open>1\<close> or \<open>t\<close>, in either case,
  is taken, and else only \<open>no\<close> and \<open>yes\<close>, which a newline may follow.
\<close>

theorem bool_by_first_letter:
  "isValid (verify_bool E (VStr s)) \<longleftrightarrow>
     s \<noteq> [] \<and> lower_char (hd s) \<in> {CHR ''0'', CHR ''f'', CHR ''1'', CHR ''t''} \<or>
     py_lower s \<in> {''no'', ''no'' @ [newline], ''yes'', ''yes'' @ [newline]}"
proof -
  have "matches_false s \<longleftrightarrow> s \<noteq> [] \<and> lower_char (hd s) \<in> {CHR ''0'', CHR ''f''} \<or>
      py_lower s \<in> {''no'', ''no'' @ [newline]}"
    using startswith_hd [of "py_lower s" "CHR ''f''" "''alse''"]
    by (cases s) (auto simp: matches_false_def startswith_single Let_def)
  moreover have "matches_true s \<longleftrightarrow> s \<noteq> [] \<and> lower_char (hd s) \<in> {CHR ''1'', CHR ''t''} \<or>
      py_lower s \<in> {''yes'', ''yes'' @ [newline]}"
    using startswith_hd [of "py_lower s" "CHR ''t''" "''rue''"]
    by (cases s) (auto simp: matches_true_def startswith_single Let_def)
  ultimately show ?thesis
    by (auto simp: verify_bool_def py_str_def valid_info_def invalid_info_def get_value_info_def Let_def)
qed

section \<open>Types that accept nothing\<close>

text \<open>
  No value is a negative integer or a time stamp, whatever it is, and checking a positive number or a mail
  address raises.
\<close>

theorem types_that_refuse:
  "verify_type E orig ''neg_int'' v False = Inr invalid_info \<and>
   verify_type E orig ''timestamp'' v False = Inr invalid_info \<and>
   verify_type E orig ''pos_num'' v False = Inl TypeError \<and>
   verify_type E orig ''eaddress'' v False = Inl (PyException ''NameError'')"
  by (simp add: verify_type_def verify_function_def verify_number_def numeric_types_def try_normalized_def
      normalize_def norm_method_def norm_number_def verify_eaddress_def verify_timestamp_def set_if_def
      check_timestamp_def)

section \<open>Settings through the shell\<close>

text \<open>
  What a shell makes of a word in double quotes: a backslash quotes itself, a quote, a dollar and a backquote, and
  removes a newline; other backslashes stay.
\<close>

fun shell_dquoted :: "string \<Rightarrow> string" where
  "shell_dquoted (c # d # s) =
     (if c = bslash \<and> d \<in> {bslash, dquote, CHR ''$'', CHR 0x60} then d # shell_dquoted s
      else if c = bslash \<and> d = newline then shell_dquoted s
      else c # shell_dquoted (d # s))"
| "shell_dquoted s = s"

definition shell_word :: "string \<Rightarrow> string" where
  "shell_word w = shell_dquoted (inner w)"

text \<open>Every occurrence of a separator has a backslash before it.\<close>

fun quiet :: "char \<Rightarrow> bool \<Rightarrow> string \<Rightarrow> bool" where
  "quiet c esc [] = True"
| "quiet c esc (x # s) = ((x = c \<longrightarrow> esc) \<and> quiet c (x = bslash) s)"

definition ends_escaped :: "bool \<Rightarrow> string \<Rightarrow> bool" where
  "ends_escaped esc s = (if s = [] then esc else last s = bslash)"

definition shell_plain :: "char \<Rightarrow> bool" where
  "shell_plain c \<longleftrightarrow> c \<notin> {dquote, CHR ''$'', CHR 0x60, newline}"

definition setting_ok :: "string \<times> string \<Rightarrow> bool" where
  "setting_ok kv \<longleftrightarrow>
     list_all (\<lambda>c. shell_plain c \<and> c \<notin> {bslash, CHR '','', CHR ''=''}) (fst kv) \<and>
     list_all shell_plain (snd kv) \<and> quiet (CHR '','') False (snd kv) \<and> quiet (CHR ''='') False (snd kv) \<and>
     \<not> ends_escaped False (snd kv)"

lemma quiet_append: "quiet c esc (s @ t) \<longleftrightarrow> quiet c esc s \<and> quiet c (ends_escaped esc s) t"
  by (induction s arbitrary: esc) (auto simp: ends_escaped_def)

lemma quiet_plain: "list_all (\<lambda>x. x \<noteq> c) s \<Longrightarrow> quiet c esc s"
  by (induction s arbitrary: esc) auto

lemma ends_escaped_append: "ends_escaped esc (s @ t) = ends_escaped (ends_escaped esc s) t"
  by (simp add: ends_escaped_def)

lemma split_unescaped_nonempty: "split_unescaped c esc s \<noteq> []"
  by (cases s) (auto split: list.splits)

lemma split_unescaped_quiet: "quiet c esc s \<Longrightarrow> split_unescaped c esc s = [s]"
  by (induction s arbitrary: esc) auto

lemma split_unescaped_at:
  "quiet c esc s \<Longrightarrow> \<not> ends_escaped esc s \<Longrightarrow> c \<noteq> bslash \<Longrightarrow>
   split_unescaped c esc (s @ c # t) = s # split_unescaped c False t"
  by (induction s arbitrary: esc) (auto simp: ends_escaped_def split: if_splits)

lemma shell_dquoted_Cons: "c \<noteq> bslash \<Longrightarrow> shell_dquoted (c # s) = c # shell_dquoted s"
  by (cases s) auto

lemma shell_dquoted_plain: "list_all (\<lambda>c. c \<noteq> bslash) k \<Longrightarrow> shell_dquoted (k @ t) = k @ shell_dquoted t"
  by (induction k) (simp_all add: shell_dquoted_Cons)

lemma double_pairs_hd: "\<exists>t. double_pairs (c # s) = c # t"
  by (cases s) auto

lemma shell_double_pairs:
  "list_all shell_plain v \<Longrightarrow> \<not> ends_escaped False v \<Longrightarrow> shell_dquoted (double_pairs v @ t) = v @ shell_dquoted t"
proof (induction v rule: double_pairs.induct)
  case (1 c d s)
  show ?case
  proof (cases "c = bslash \<and> d = bslash")
    case True
    with 1 have "s \<noteq> []" by (auto simp: ends_escaped_def)
    with 1 True show ?thesis by (simp add: ends_escaped_def)
  next
    case False
    obtain u where u: "double_pairs (d # s) = d # u" using double_pairs_hd by blast
    have "shell_dquoted (c # d # u @ t) = c # shell_dquoted (d # u @ t)"
      using False 1(3) by (auto simp: shell_plain_def)
    moreover have "shell_dquoted (d # u @ t) = d # s @ shell_dquoted t"
      using 1(2) [OF False] 1(3, 4) u by (auto simp: ends_escaped_def)
    ultimately show ?thesis using False u by auto
  qed
qed (auto simp: ends_escaped_def shell_dquoted_Cons)

definition setting_text :: "string \<times> string \<Rightarrow> string" where
  "setting_text kv = fst kv @ ''='' @ snd kv"

lemma shell_settings:
  assumes "list_all setting_ok d" and "d \<noteq> []"
  shows "shell_dquoted (butlast (concat (map keyval_item d))) = py_join '','' (map setting_text d)"
  using assms
proof (induction d)
  case (Cons kv d)
  have kv: "shell_dquoted (fst kv @ ''='' @ double_pairs (snd kv) @ t) = setting_text kv @ shell_dquoted t" for t
    using Cons.prems
    by (simp add: setting_ok_def list_all_iff shell_dquoted_plain shell_dquoted_Cons shell_double_pairs
        setting_text_def)
  show ?case
  proof (cases d)
    case Nil
    with kv [of "[]"] show ?thesis by (simp add: keyval_item_def butlast_append)
  next
    case (Cons kv' d')
    have "concat (map keyval_item d) \<noteq> []" by (simp add: Cons keyval_item_def)
    then have "butlast (concat (map keyval_item (kv # d))) =
        fst kv @ ''='' @ double_pairs (snd kv) @ '','' @ butlast (concat (map keyval_item d))"
      by (simp add: keyval_item_def butlast_append)
    moreover have "shell_dquoted (butlast (concat (map keyval_item d))) = py_join '','' (map setting_text d)"
      using Cons.IH Cons.prems Cons by simp
    ultimately show ?thesis
      using kv [of "'','' @ butlast (concat (map keyval_item d))"] Cons by (simp add: shell_dquoted_Cons)
  qed
qed simp

lemma setting_key:
  assumes "setting_ok kv"
  shows "quiet (CHR '','') False (fst kv)" "quiet (CHR ''='') False (fst kv)" "ends_escaped False (fst kv) = False"
proof -
  have key: "list_all (\<lambda>c. shell_plain c \<and> c \<notin> {bslash, CHR '','', CHR ''=''}) (fst kv)"
    using assms unfolding setting_ok_def by blast
  show "quiet (CHR '','') False (fst kv)" "quiet (CHR ''='') False (fst kv)"
    by (rule quiet_plain, rule list.pred_mono_strong [OF key], simp)+
  show "ends_escaped False (fst kv) = False"
    using key last_in_set [of "fst kv"] by (auto simp: ends_escaped_def list_all_iff)
qed

lemma setting_value:
  assumes "setting_ok kv"
  shows "quiet (CHR '','') False (snd kv)" "quiet (CHR ''='') False (snd kv)" "ends_escaped False (snd kv) = False"
  using assms unfolding setting_ok_def by blast+

lemma setting_quiet:
  assumes "setting_ok kv"
  shows "quiet (CHR '','') False (setting_text kv)" "\<not> ends_escaped False (setting_text kv)"
  using setting_key [OF assms] setting_value [OF assms]
  by (simp_all add: setting_text_def quiet_append ends_escaped_append) (auto simp: ends_escaped_def split: if_splits)

lemma split_settings:
  "list_all setting_ok d \<Longrightarrow> d \<noteq> [] \<Longrightarrow>
   reList_split (py_join '','' (map setting_text d)) = map setting_text d"
proof (induction d)
  case (Cons kv d)
  then show ?case
    using setting_quiet [of kv]
    by (cases d) (simp_all add: reList_split_def split_unescaped_quiet split_unescaped_at)
qed simp

lemma split_keyval_setting: "setting_ok kv \<Longrightarrow> reKeyVal_split (setting_text kv) = [fst kv, snd kv]"
  using setting_key [of kv] setting_value [of kv]
  by (simp add: reKeyVal_split_def setting_text_def split_unescaped_at split_unescaped_quiet)

lemma norm_settings:
  "list_all setting_ok kvs \<Longrightarrow> distinct (map fst d @ map fst kvs) \<Longrightarrow>
   norm_items (map setting_text kvs) d = Inr (d @ kvs)"
proof (induction kvs arbitrary: d)
  case (Cons kv kvs)
  then have "map_of d (fst kv) = None" by (auto simp: map_of_eq_None_iff)
  then show ?case
    using Cons.prems Cons.IH [of "d @ [kv]"] by (simp add: split_keyval_setting attr_set_new)
qed simp


section \<open>Validating\<close>

lemma validate_loop_results:
  assumes "list_all2 (\<lambda>(name, ty, v) (name', info). name' = name \<and>
      verify_type E orig ty v none = Inr info) items infos"
    and "originalDir w = orig"
  shows "validate_loop E none items w = (w\<lparr>validatedInfo := validatedInfo w @ infos\<rparr>, Inr ())"
  using assms
proof (induction items infos arbitrary: w rule: list_all2_induct)
  case (Cons item items info infos)
  then show ?case by (cases item; cases info) simp
qed simp

text \<open>
  Validating checks every value that was added, in order, and keeps the results of before: validating twice
  reports every value twice.
\<close>

theorem validate_results:
  assumes "list_all2 (\<lambda>(name, ty, v) (name', info). name' = name \<and>
      verify_type E (originalDir w) ty v none = Inr info) (validateList w) infos"
  shows "validate E none w = (w\<lparr>validatedInfo := validatedInfo w @ infos\<rparr>, Inr ()) \<and>
    fst (validate E none (fst (validate E none w))) = w\<lparr>validatedInfo := validatedInfo w @ infos @ infos\<rparr>"
proof -
  let ?w = "w\<lparr>validatedInfo := validatedInfo w @ infos\<rparr>"
  have "validate_loop E none (validateList w) ?w = (?w\<lparr>validatedInfo := validatedInfo ?w @ infos\<rparr>, Inr ())"
    using assms by (intro validate_loop_results [where orig = "originalDir w"]) simp_all
  then show ?thesis
    using validate_loop_results [OF assms refl] by (simp add: validate_def)
qed

section \<open>What a check lets through\<close>

text \<open>The values of a type, after normalising.\<close>

definition has_type :: "'f type_env \<Rightarrow> string \<Rightarrow> 'f tval \<Rightarrow> bool" where
  "has_type E ty v =
     (if ty = ''bool'' then (case v of VBool b \<Rightarrow> True | _ \<Rightarrow> False)
      else if ty = ''int'' then (case v of VInt i \<Rightarrow> True | _ \<Rightarrow> False)
      else if ty = ''pos_int'' \<or> ty = ''freq'' \<or> ty = ''size'' then (case v of VInt i \<Rightarrow> 0 \<le> i | _ \<Rightarrow> False)
      else if ty = ''tcp_port'' then (case v of VInt i \<Rightarrow> 2 \<le> i \<and> i \<le> 65535 | _ \<Rightarrow> False)
      else if ty = ''float'' \<or> ty = ''http_version'' then (case v of VFloat f \<Rightarrow> True | _ \<Rightarrow> False)
      else if ty = ''pos_float'' then (case v of VFloat f \<Rightarrow> \<not> float_neg E f | _ \<Rightarrow> False)
      else if ty = ''neg_float'' then (case v of VFloat f \<Rightarrow> \<not> float_nonneg E f | _ \<Rightarrow> False)
      else if ty \<in> {''neg_int'', ''pos_num'', ''eaddress'', ''timestamp''} then False
      else if ty = ''keyval'' then (case v of VDict d \<Rightarrow> distinct (map fst d) | _ \<Rightarrow> False)
      else if ty = ''list'' then (case v of VStrs xs \<Rightarrow> xs \<noteq> [] | _ \<Rightarrow> False)
      else if ty = ''address'' then (case v of VStrs xs \<Rightarrow> 2 \<le> length xs | _ \<Rightarrow> False)
      else if ty = ''range'' then (case v of VInts [a] \<Rightarrow> True | VInts [a, b] \<Rightarrow> a \<noteq> b \<and> b \<noteq> 0 | _ \<Rightarrow> False)
      else if ty = [] then True
      else (case v of VStr s \<Rightarrow> True | _ \<Rightarrow> False))"

lemma info_simps [simp]:
  "isValid (valid_info v)" "normalized (valid_info v) = v" "\<not> isValid invalid_info" "\<not> isValid (error_info msg)"
  by (simp_all add: valid_info_def invalid_info_def error_info_def get_value_info_def)

lemma on_str_Inr [result_simps]: "on_str e v k = Inr y \<longleftrightarrow> (\<exists>s. v = VStr s \<and> k s = Inr y)"
  by (cases v) (simp_all add: on_str_def)

lemma set_if_valid: "set_if E orig ty v ok = Inr info \<Longrightarrow> isValid info \<Longrightarrow>
    normalize E orig ty v = Inr (normalized info)"
  by (auto simp: set_if_def set_normalized_def result_simps split: if_splits)

lemma try_normalized_valid: "isValid (try_normalized E orig ty v) \<Longrightarrow>
    normalize E orig ty v = Inr (normalized (try_normalized E orig ty v))"
  by (simp add: try_normalized_def split: sum.splits)

lemma looked_up_valid: "isValid (looked_up E orig ty v found msg) \<Longrightarrow>
    \<exists>s. v = VStr s \<and> normalize E orig ty v = Inr (normalized (looked_up E orig ty v found msg))"
  by (auto simp: looked_up_def split: tval.splits if_splits sum.splits)

lemma normalize_plain:
  "normalize E orig ''ip_address'' v = Inr v" "normalize E orig ''net_address'' v = Inr v"
  "normalize E orig ''hostname'' v = Inr v" "normalize E orig ''user_account'' v = Inr v"
  "normalize E orig ''user_group'' v = Inr v"
  by (simp_all add: normalize_def norm_method_def numeric_types_def)

lemma norm_items_distinct: "norm_items items d = Inr d' \<Longrightarrow> distinct (map fst d) \<Longrightarrow> distinct (map fst d')"
proof (induction items arbitrary: d)
  case (Cons item items)
  then obtain k v where kv: "reKeyVal_split item = [k, v]" by (auto split: list.splits)
  have "distinct (map fst (attr_set k v d))" using Cons.prems by (simp add: attr_set_def distinct_update)
  then show ?case using Cons kv by simp
qed simp

lemma to_int_raises: "to_int E v \<noteq> Inl AttributeError"
  by (auto simp: to_int_def py_int_def converted_def Let_def split: tval.splits option.splits)

lemma to_float_raises: "to_float E v \<noteq> Inl AttributeError"
  by (auto simp: to_float_def converted_def split: tval.splits option.splits)

lemma normalize_number: "normalize E orig ty v = norm_number E ty v" if "ty \<in> set numeric_types"
proof -
  have "ty = ''int'' \<or> ty = ''float'' \<or> ty = ''pos_int'' \<or> ty = ''neg_int'' \<or> ty = ''freq'' \<or> ty = ''pos_float'' \<or>
      ty = ''pos_num'' \<or> ty = ''neg_float''"
    using that by (simp add: numeric_types_def)
  then have ty: "norm_method E orig ty v = norm_number E ty v"
    by (elim disjE) (simp_all add: numeric_types_def norm_method_def)
  have "norm_number E ty v \<noteq> Inl AttributeError"
    using to_int_raises [of E v] to_float_raises [of E v]
    by (cases "to_int E v"; cases "to_float E v"; simp add: norm_number_def)
  then show ?thesis by (simp add: normalize_def ty split: sum.splits)
qed

lemma number_type:
  assumes "norm_number E ty v = Inr v'" and "ty \<in> set numeric_types" and "ty \<noteq> ''pos_num''"
  shows "has_type E ty v'"
proof -
  have "ty = ''int'' \<or> ty = ''float'' \<or> ty = ''pos_int'' \<or> ty = ''neg_int'' \<or> ty = ''freq'' \<or> ty = ''pos_float'' \<or>
      ty = ''neg_float''"
    using assms(2, 3) by (simp add: numeric_types_def)
  then show ?thesis
    using assms(1)
    by (elim disjE; clarsimp simp: norm_number_def has_type_def result_simps split: if_splits)
qed

lemma norm_items_raises: "norm_items items d \<noteq> Inl AttributeError"
  by (induction items arbitrary: d) (auto split: list.splits)

lemma norm_keyval_raises: "norm_keyval v \<noteq> Inl AttributeError"
  by (cases v) (simp_all add: norm_keyval_def norm_list_def norm_items_raises)

lemma normalizedPath_raises: "normalizedPath E orig p \<noteq> Inl AttributeError"
  by (simp add: normalizedPath_def split: option.splits)

lemma norm_uri_raises: "norm_uri E orig s \<noteq> Inl AttributeError"
  using normalizedPath_raises [of E orig]
  by (auto simp: norm_uri_def result_simps case_prod_beta split: if_splits)

text \<open>Where the method raises no \<open>AttributeError\<close>, \<open>normalize\<close> is the method.\<close>

lemma normalize_method: "norm_method E orig ty v \<noteq> Inl AttributeError \<Longrightarrow> normalize E orig ty v = norm_method E orig ty v"
  by (simp add: normalize_def split: sum.splits)

lemma normalize_eqs:
  "normalize E orig ''directory'' (VStr s) = ebind (normalizedPath E orig s) (\<lambda>p. Inr (VStr p))"
  "normalize E orig ''file'' (VStr s) = ebind (normalizedPath E orig s) (\<lambda>p. Inr (VStr p))"
  "normalize E orig ''uri'' (VStr s) = ebind (norm_uri E orig s) (\<lambda>p. Inr (VStr p))"
  "normalize E orig ''string'' v = Inr (VStr (py_str E v))"
  "normalize E orig ''list'' v = ebind (norm_list v) (\<lambda>xs. Inr (VStrs xs))"
  "normalize E orig ''keyval'' v = ebind (norm_keyval v) (\<lambda>d. Inr (VDict d))"
  "normalize E orig ''address'' (VStr s) = Inr (VStrs (split_char (CHR '':'') s))"
  "normalize E orig ''address'' (VStrs xs) = Inr (VStrs xs)"
  using normalizedPath_raises [of E orig s] norm_uri_raises [of E orig s] norm_keyval_raises [of v]
  by (simp_all add: normalize_method norm_method_def numeric_types_def norm_path_def result_simps)
    (simp_all add: normalize_def norm_method_def norm_address_def norm_list_def numeric_types_def split: tval.splits)

lemma bool_type: "isValid (verify_bool E v) \<Longrightarrow> has_type E ''bool'' (normalized (verify_bool E v))"
  by (auto simp: verify_bool_def has_type_def Let_def)

lemma path_type:
  "verify_directory E orig v = Inr info \<Longrightarrow> isValid info \<Longrightarrow> has_type E ''directory'' (normalized info)"
  "verify_file E orig v = Inr info \<Longrightarrow> isValid info \<Longrightarrow> has_type E ''file'' (normalized info)"
  unfolding verify_directory_def verify_file_def
  by (auto simp: result_simps normalize_eqs has_type_def dest!: set_if_valid split: tval.splits)

lemma address_parts: "tcpSocket (AddrString s) = Inr hp \<Longrightarrow> 2 \<le> length (split_char (CHR '':'') s)"
  by (auto simp: tcpSocket_def get_address_tuple_def nth_res_def Let_def result_simps split: if_splits)

lemma address_type:
  assumes "isValid (verify_address E orig ''address'' v)"
  shows "has_type E ''address'' (normalized (verify_address E orig ''address'' v))"
proof -
  obtain a hp where a: "address_of v = Inr a" "tcpSocket a = Inr hp" "verify hp = Inr True"
    and eq: "verify_address E orig ''address'' v = try_normalized E orig ''address'' v"
    using assms by (auto simp: verify_address_def result_simps split: sum.splits if_splits)
  from a(1) consider s where "v = VStr s" "a = AddrString s" | x y xs where "v = VStrs (x # y # xs)"
    by (auto simp: address_of_def split: tval.splits list.splits)
  then show ?thesis
  proof cases
    case 1
    with a(2) address_parts have "2 \<le> length (split_char (CHR '':'') s)" by blast
    with 1 eq show ?thesis by (simp add: try_normalized_def normalize_eqs has_type_def)
  next
    case 2
    with eq show ?thesis by (simp add: try_normalized_def normalize_eqs has_type_def)
  qed
qed

lemma host_type:
  "verify_ip_address E orig v = Inr info \<Longrightarrow> isValid info \<Longrightarrow> has_type E ''ip_address'' (normalized info)"
  "verify_net_address E orig v = Inr info \<Longrightarrow> isValid info \<Longrightarrow> has_type E ''net_address'' (normalized info)"
  unfolding verify_ip_address_def verify_net_address_def
  by (auto simp: result_simps normalize_plain has_type_def dest!: set_if_valid split: tval.splits)

lemma account_type:
  "isValid (looked_up E orig ''hostname'' v f msg) \<Longrightarrow> has_type E ''hostname'' (normalized (looked_up E orig ''hostname'' v f msg))"
  "isValid (looked_up E orig ''user_account'' v f msg) \<Longrightarrow>
     has_type E ''user_account'' (normalized (looked_up E orig ''user_account'' v f msg))"
  "isValid (looked_up E orig ''user_group'' v f msg) \<Longrightarrow>
     has_type E ''user_group'' (normalized (looked_up E orig ''user_group'' v f msg))"
  by (auto simp: normalize_plain has_type_def dest!: looked_up_valid)

lemma keyval_type: "verify_keyval E orig ''keyval'' v = Inr info \<Longrightarrow> isValid info \<Longrightarrow> has_type E ''keyval'' (normalized info)"
  by (auto simp: verify_keyval_def result_simps normalize_eqs has_type_def norm_keyval_def
      dest: norm_items_distinct split: if_splits sum.splits)

lemma list_type: "set_normalized E orig ''list'' v = Inr info \<Longrightarrow> has_type E ''list'' (normalized info)"
  by (auto simp: set_normalized_def result_simps normalize_eqs norm_list_def reList_split_def has_type_def
      split_unescaped_nonempty split: tval.splits)

lemma size_type:
  assumes "verify_size E v = Inr info" and "isValid info"
  shows "has_type E ''size'' (normalized info)"
proof (cases "match_size (py_str E v)")
  case None
  with assms show ?thesis
    by (cases "py_int (py_str E v)") (auto simp: verify_size_def has_type_def split: if_split_asm)
next
  case (Some nu)
  then obtain n where "py_int (fst nu) = Inr n"
    using assms(1) by (auto simp: verify_size_def case_prod_beta result_simps)
  with Some assms show ?thesis
    by (cases "normalize_size (nat n) (snd nu)") (auto simp: verify_size_def case_prod_beta has_type_def)
qed

lemma port_type: "isValid (verify_tcp_port E v) \<Longrightarrow> has_type E ''tcp_port'' (normalized (verify_tcp_port E v))"
  by (auto simp: verify_tcp_port_def has_type_def split: sum.splits if_splits)

lemma http_type: "verify_http_version E v = Inr info \<Longrightarrow> isValid info \<Longrightarrow> has_type E ''http_version'' (normalized info)"
  by (auto simp: verify_http_version_def result_simps has_type_def split: tval.splits if_splits)

lemma range_type:
  fixes E :: "'f type_env" and v :: "'f tval"
  assumes "verify_range v = Inr info" and "isValid info"
  shows "has_type E ''range'' (normalized info)"
proof -
  obtain s where s: "v = VStr s" using assms(1) by (auto simp: verify_range_def result_simps)
  show ?thesis
  proof (cases "norm_range (VStr s :: 'f tval)")
    case (Inr r)
    with assms s show ?thesis
      by (cases r; cases "snd r") (auto simp: verify_range_def on_str_def has_type_def split: if_split_asm)
  qed (use assms s in \<open>simp add: verify_range_def on_str_def\<close>)
qed

lemma uri_type: "isValid (verify_uri E orig ''uri'' v) \<Longrightarrow> has_type E ''uri'' (normalized (verify_uri E orig ''uri'' v))"
  by (auto simp: verify_uri_def Let_def normalize_eqs result_simps has_type_def case_prod_beta
      split: tval.splits sum.splits if_splits)

lemma string_type: "set_normalized E orig ''string'' v = Inr info \<Longrightarrow> has_type E ''string'' (normalized info)"
  by (auto simp: set_normalized_def normalize_eqs has_type_def)

lemma refused_type:
  "verify_eaddress v \<noteq> Inr info" "verify_timestamp E orig v = Inr info \<Longrightarrow> \<not> isValid info"
  by (auto simp: verify_eaddress_def verify_timestamp_def check_timestamp_def set_if_def)

lemma any_type: "has_type E [] v"
  by (simp add: has_type_def)

lemma returned_type:
  "Inr (verify_bool E v) = Inr info \<Longrightarrow> isValid info \<Longrightarrow> has_type E ''bool'' (normalized info)"
  "Inr (verify_address E orig ''address'' v) = Inr info \<Longrightarrow> isValid info \<Longrightarrow> has_type E ''address'' (normalized info)"
  "Inr (verify_tcp_port E v) = Inr info \<Longrightarrow> isValid info \<Longrightarrow> has_type E ''tcp_port'' (normalized info)"
  "Inr (verify_uri E orig ''uri'' v) = Inr info \<Longrightarrow> isValid info \<Longrightarrow> has_type E ''uri'' (normalized info)"
  "Inr (looked_up E orig ''hostname'' v f msg) = Inr info \<Longrightarrow> isValid info \<Longrightarrow> has_type E ''hostname'' (normalized info)"
  "Inr (looked_up E orig ''user_account'' v f msg) = Inr info \<Longrightarrow> isValid info \<Longrightarrow>
     has_type E ''user_account'' (normalized info)"
  "Inr (looked_up E orig ''user_group'' v f msg) = Inr info \<Longrightarrow> isValid info \<Longrightarrow>
     has_type E ''user_group'' (normalized info)"
  "set_normalized E orig ''string'' v = Inr info \<Longrightarrow> isValid info \<Longrightarrow> has_type E ''string'' (normalized info)"
  "set_normalized E orig ''list'' v = Inr info \<Longrightarrow> isValid info \<Longrightarrow> has_type E ''list'' (normalized info)"
  "set_normalized E orig [] v = Inr info \<Longrightarrow> isValid info \<Longrightarrow> has_type E [] (normalized info)"
  "verify_eaddress v = Inr info \<Longrightarrow> isValid info \<Longrightarrow> has_type E ''eaddress'' (normalized info)"
  "verify_timestamp E orig v = Inr info \<Longrightarrow> isValid info \<Longrightarrow> has_type E ''timestamp'' (normalized info)"
  by (auto intro: bool_type address_type port_type uri_type account_type string_type list_type any_type
      simp: refused_type(1) dest: refused_type(2))

lemmas type_facts = returned_type path_type host_type keyval_type size_type http_type range_type

lemma verified_function_type:
  assumes "verify_function E orig ty v = Inr info" and "isValid info"
  shows "has_type E ty (normalized info)"
proof (cases "ty \<in> set numeric_types")
  case True
  then have "verify_function E orig ty v = verify_number E orig ty v"
    by (simp add: numeric_types_def) (elim disjE; simp add: verify_function_def numeric_types_def)
  then have "ty \<noteq> ''pos_num''" "normalize E orig ty v = Inr (normalized info)"
    using assms by (auto simp: verify_number_def split: if_splits dest!: try_normalized_valid)
  with True show ?thesis by (intro number_type [of E ty v]) (simp_all add: normalize_number)
next
  case False
  with assms show ?thesis
    unfolding verify_function_def
    by (simp only: split: if_split_asm)
      ((elim disjE)?; (hypsubst_thin)?; (erule (1) type_facts | simp only: sum.distinct))+
qed

text \<open>
  C22: A value that passes the check of its type is normalised to a value of that type: bools to bools, sizes and
  positive integers to integers that are not negative, ports to 2..65535, settings to a dict with each key once,
  and so on.
\<close>

theorem verified_has_type:
  assumes "verify_type E orig ty v none = Inr info" and "isValid info"
  shows "if none \<and> (v = VStr [] \<or> v = VNone) then normalized info = VNone else has_type E ty (normalized info)"
  using assms verified_function_type [of E orig ty v info] by (auto simp: verify_type_def split: if_splits)

section \<open>Instances\<close>

text \<open>A machine without files, hosts and accounts, whose floats are the integers.\<close>

definition bare_env :: "int type_env" where
  "bare_env = \<lparr>is_dir = (\<lambda>p. False), is_file = (\<lambda>p. False), getcwd = ''/'', chdir_ok = (\<lambda>p. False),
     realpath = path_join, str_of = (\<lambda>v. ''value''),
     float_of_str = (\<lambda>s. case py_int s of Inr i \<Rightarrow> Some i | Inl e \<Rightarrow> None), float_of_int = Some, float_to_int = Some,
     float_equals = (=), float_neg = (\<lambda>f. f < 0), float_nonneg = (\<lambda>f. 0 \<le> f),
     resolves = (\<lambda>h. False), has_account = (\<lambda>u. False), has_group = (\<lambda>g. False),
     urlparse = (\<lambda>u. ([], [], u, [], [], [])), urlunsplit = concat\<rparr>"


lemma size_exact_witness:
  "verify_size bare_env (VStr (nat_str 3 @ ''kb'')) = Inr (valid_info (VInt (int (3 * 1024))))"
  by (rule size_exact) (simp_all add: size_units_def sizeFactors_def)

definition port_validator :: "int validator" where
  "port_validator = add_value ''port'' ''tcp_port'' (VInt 80) (typeValidator None)"

lemma validate_results_witness:
  "validate bare_env False port_validator =
     (port_validator\<lparr>validatedInfo := validatedInfo port_validator @ [(''port'', valid_info (VInt 80))]\<rparr>, Inr ()) \<and>
   fst (validate bare_env False (fst (validate bare_env False port_validator))) =
     port_validator\<lparr>validatedInfo :=
       validatedInfo port_validator @ [(''port'', valid_info (VInt 80))] @ [(''port'', valid_info (VInt 80))]\<rparr>"
  by (rule validate_results)
    (simp add: port_validator_def add_value_def typeValidator_def verify_type_def verify_function_def
      numeric_types_def verify_tcp_port_def to_int_def)

lemma verified_has_type_witness: "has_type bare_env ''tcp_port'' (normalized (valid_info (VInt 80)))"
proof -
  have "verify_type bare_env None ''tcp_port'' (VInt 80) False = Inr (valid_info (VInt 80))"
    by (simp add: verify_type_def verify_function_def numeric_types_def verify_tcp_port_def to_int_def)
  from verified_has_type [OF this] show ?thesis by simp
qed

end
