(* ===== verification/Hod_Config_Facts.thy ===== *)
theory Hod_Config_Facts
  imports Hod_Config Hod_Type_Facts
begin

text \<open>
  What configurations of Hadoop on Demand guarantee: definitions are recorded completely, a configuration that
  passes its check has values of the declared types, the order in which file and command line win, and what is
  left of comments in a file.
\<close>

section \<open>Definitions of options\<close>

definition wf_section :: "'f section_def \<Rightarrow> bool" where
  "wf_section vars \<longleftrightarrow> distinct (map fst vars) \<and> list_all (\<lambda>v. is_valid_type (opt_type (snd v))) vars"

definition wf_defs :: "'f config_def \<Rightarrow> bool" where
  "wf_defs d \<longleftrightarrow> distinct (map fst (defs d)) \<and> list_all (\<lambda>s. wf_section (snd s)) (defs d)"

definition entry_def :: "'f def_tuple \<Rightarrow> 'f opt_def option" where
  "entry_def t =
     (case (t_desc t, t_req t, t_validate t) of
        (VStr desc, VBool req, VBool val) \<Rightarrow> Some (def_of t desc req val) | _ \<Rightarrow> None)"

lemma map_of_update [simp]: "map_of (AList.update k v al) = (map_of al)(k \<mapsto> v)"
  by (rule update_conv')

lemma update_present: "map_of al k \<noteq> None \<Longrightarrow> map fst (AList.update k v al) = map fst al"
  by (simp add: update_keys map_of_eq_None_iff)

lemma update_member: "x \<in> set (AList.update k v al) \<Longrightarrow> x = (k, v) \<or> x \<in> set al"
  by (induction al) (auto split: if_splits)

lemma list_all_update: "list_all P al \<Longrightarrow> P (k, v) \<Longrightarrow> list_all P (AList.update k v al)"
  by (auto simp: list_all_iff dest: update_member)

lemma add_def_cases:
  assumes "add_def sec var t d = Inr d'"
  obtains vars x where "map_of (defs d) sec = Some vars" "is_valid_type (t_type t)" "entry_def t = Some x"
    "opt_type x = t_type t" "var \<notin> set (map fst vars)" "d' = d\<lparr>defs := AList.update sec (vars @ [(var, x)]) (defs d)\<rparr>"
  using assms
  by (auto simp: add_def_def entry_def_def def_of_def split: option.splits if_splits tval.splits)

lemma add_section_cases:
  "add_section sec d = Inr d' \<longleftrightarrow> sec \<notin> set (map fst (defs d)) \<and> d' = d\<lparr>defs := defs d @ [(sec, [])]\<rparr>"
  by (auto simp: add_section_def)

lemma add_section_wf: "add_section sec d = Inr d' \<Longrightarrow> wf_defs d \<Longrightarrow> wf_defs d'"
  by (auto simp: add_section_cases wf_defs_def wf_section_def)

lemma add_def_wf:
  assumes "add_def sec var t d = Inr d'" and "wf_defs d"
  shows "wf_defs d'"
  using assms(1)
proof (rule add_def_cases)
  fix vars x
  assume a: "map_of (defs d) sec = Some vars" "is_valid_type (t_type t)" "opt_type x = t_type t"
    "var \<notin> set (map fst vars)" "d' = d\<lparr>defs := AList.update sec (vars @ [(var, x)]) (defs d)\<rparr>"
  have "wf_section vars" using a(1) assms(2) by (auto simp: wf_defs_def list_all_iff dest: map_of_SomeD)
  with a have "wf_section (vars @ [(var, x)])" by (simp add: wf_section_def)
  with a(5) assms(2) show "wf_defs d'" by (simp add: wf_defs_def distinct_update list_all_update)
qed

lemma add_def_names: "add_def sec var t d = Inr d' \<Longrightarrow> map fst (defs d') = map fst (defs d) \<and> def_order d' = def_order d"
  by (erule add_def_cases) (simp add: update_present)

lemma add_def_finds:
  assumes "add_def sec var t d = Inr d'"
  shows "opt_def_of d' s v = Some x \<longleftrightarrow> opt_def_of d s v = Some x \<or> s = sec \<and> v = var \<and> entry_def t = Some x"
  using assms
proof (rule add_def_cases)
  fix vars y
  assume a: "map_of (defs d) sec = Some vars" "entry_def t = Some y" "var \<notin> set (map fst vars)"
    "d' = d\<lparr>defs := AList.update sec (vars @ [(var, y)]) (defs d)\<rparr>"
  then have "map_of vars var = None" by (simp add: map_of_eq_None_iff)
  with a show ?thesis by (auto simp: opt_def_of_def map_add_def split: if_splits option.splits)
qed

lemma add_entries_facts:
  "add_entries sec es d = Inr d' \<Longrightarrow>
    (wf_defs d \<longrightarrow> wf_defs d') \<and> map fst (defs d') = map fst (defs d) \<and> def_order d' = def_order d \<and>
    (opt_def_of d' s v = Some x \<longleftrightarrow>
      opt_def_of d s v = Some x \<or> s = sec \<and> (\<exists>t. Entry v t \<in> set es \<and> entry_def t = Some x))"
proof (induction sec es d rule: add_entries.induct)
  case (4 sec var t es d)
  from 4(2) obtain d1 where d1: "add_def sec var t d = Inr d1" "add_entries sec es d1 = Inr d'"
    by (auto simp: result_simps)
  from 4(1) [OF d1] add_def_wf [OF d1(1)] add_def_names [OF d1(1)] add_def_finds [OF d1(1)] show ?case
    by auto
qed simp_all

lemma add_sections_facts:
  "add_sections defList d = Inr d' \<Longrightarrow>
    (wf_defs d \<longrightarrow> wf_defs d') \<and> map fst (defs d') = map fst (defs d) @ map fst defList \<and> def_order d' = def_order d \<and>
    (opt_def_of d' s v = Some x \<longleftrightarrow>
      opt_def_of d s v = Some x \<or> (\<exists>es t. (s, es) \<in> set defList \<and> Entry v t \<in> set es \<and> entry_def t = Some x))"
proof (induction defList d rule: add_sections.induct)
  case (2 sec es rest d)
  from 2(2) obtain d1 d2 where d1: "add_section sec d = Inr d1" "add_entries sec es d1 = Inr d2"
      "add_sections rest d2 = Inr d'"
    by (auto simp: result_simps)
  have "opt_def_of d1 s v = opt_def_of d s v"
  proof (cases "map_of (defs d) s")
    case None
    with d1(1) show ?thesis by (simp add: add_section_cases opt_def_of_def map_add_def)
  next
    case (Some vars)
    then have "s \<in> fst ` set (defs d)" by (force dest: map_of_SomeD)
    with Some d1(1) show ?thesis by (auto simp: add_section_cases opt_def_of_def map_add_def)
  qed
  with 2(1) [OF d1] add_section_wf [OF d1(1)] add_entries_facts [OF d1(2), of s v x] d1(1) show ?case
    by (auto simp: add_section_cases)
qed simp

lemma add_defs_order:
  assumes "add_defs defList order d = Inr d'"
  obtains d1 where "add_sections defList d = Inr d1" "defs d' = defs d1"
    "def_order d1 = [] \<longrightarrow> def_order d' = [] \<or> set (def_order d') = set (map fst (defs d1))"
proof -
  from assms obtain d1 where d1: "add_sections defList d = Inr d1"
      "(case order of None \<Rightarrow> Inr d1
        | Some order \<Rightarrow> if order = [] then Inr d1
            else if list_all (\<lambda>s. s \<in> set order) (map fst (defs d1))
            then Inr (d1\<lparr>def_order := def_order d1 @ filter (\<lambda>s. s \<in> set (map fst (defs d1))) order\<rparr>)
            else Inl (PyException ''section is missing from specified defOrder.'')) = Inr d'"
    by (auto simp: add_defs_def ebind_Inr_iff)
  show thesis
  proof (cases "order = None \<or> order = Some []")
    case True
    with d1 that show thesis by auto
  next
    case False
    then obtain os where os: "order = Some os" "os \<noteq> []" by auto
    with d1(2) have "set (map fst (defs d1)) \<subseteq> set os"
        "d' = d1\<lparr>def_order := def_order d1 @ filter (\<lambda>s. s \<in> set (map fst (defs d1))) os\<rparr>"
      by (auto simp: list_all_iff split: if_splits)
    then have "defs d' = defs d1" "def_order d1 = [] \<longrightarrow> set (def_order d') = set (map fst (defs d1))" by auto
    with d1(1) that show thesis by blast
  qed
qed

text \<open>
  C38: What is defined is what was listed: the names are distinct, the types known, the sections those of the list
  and every option stands with its entry, whatever order the sections are given.
\<close>

theorem definitions_recorded:
  assumes "add_defs defList order new_definition = Inr d"
  shows "wf_defs d \<and> set (sections d) = set (map fst defList) \<and>
    (opt_def_of d sec var = Some x \<longleftrightarrow>
      (\<exists>es t. (sec, es) \<in> set defList \<and> Entry var t \<in> set es \<and> entry_def t = Some x))"
proof -
  from assms obtain d1 where d1: "add_sections defList new_definition = Inr d1" "defs d = defs d1"
      "def_order d1 = [] \<longrightarrow> def_order d = [] \<or> set (def_order d) = set (map fst (defs d1))"
    by (rule add_defs_order)
  have o: "opt_def_of d = opt_def_of d1" by (simp add: opt_def_of_def fun_eq_iff d1(2))
  have w: "wf_defs (new_definition :: 'a config_def)" by (simp add: wf_defs_def new_definition_def)
  from add_sections_facts [OF d1(1), of sec var x] d1(2, 3) o w show ?thesis
    by (auto simp: sections_def wf_defs_def new_definition_def opt_def_of_def)
qed

section \<open>File and command line\<close>

text \<open>Merged parameters as maps: later settings of a text win over earlier ones, except for final parameters.\<close>

lemma file_params_map: "map_of (file_params s) = map_of (rev (map split_param (filter (\<lambda>opt. opt \<noteq> []) (reList_split s))))"
proof -
  have "map_of (fold (\<lambda>opt d. case split_param opt of (k, v) \<Rightarrow> AList.update k v d) xs d) =
      map_of d ++ map_of (rev (map split_param xs))" for xs d
    by (induction xs arbitrary: d) (auto simp: map_add_def fun_eq_iff split: prod.splits option.splits)
  then show ?thesis by (simp add: file_params_def)
qed

lemma add_params_map:
  "map_of (fold (add_param_of_line overwrite) xs d) =
    (if overwrite then map_of d ++ map_of (rev (map split_param xs)) else map_of (map split_param xs) ++ map_of d)"
proof (induction xs arbitrary: d)
  case (Cons opt xs)
  obtain k v where kv: "split_param opt = (k, v)" by (cases "split_param opt")
  have *: "map_of (add_param_of_line overwrite opt d) =
      (if overwrite then (map_of d)(k \<mapsto> v) else [k \<mapsto> v] ++ map_of d)"
    by (cases "map_of d k") (force simp: add_param_of_line_def kv map_add_def fun_eq_iff map_of_eq_None_iff
        split: option.splits dest: map_of_SomeD)+
  have "map_of (fold (add_param_of_line overwrite) (opt # xs) d) =
      (if overwrite then map_of (add_param_of_line overwrite opt d) ++ map_of (rev (map split_param xs))
       else map_of (map split_param xs) ++ map_of (add_param_of_line overwrite opt d))"
    by (simp only: fold_simps Cons.IH)
  also have "\<dots> = (if overwrite then map_of d ++ map_of (rev (map split_param (opt # xs)))
       else map_of (map split_param (opt # xs)) ++ map_of d)"
    unfolding * by (cases overwrite) (auto simp: kv fun_eq_iff map_add_def split: option.splits)
  finally show ?case .
qed auto

lemma add_params_distinct: "distinct (map fst d) \<Longrightarrow> distinct (map fst (fold (add_param_of_line overwrite) xs d))"
proof (induction xs arbitrary: d)
  case (Cons opt xs)
  have "distinct (map fst (add_param_of_line overwrite opt d))"
    using Cons.prems by (simp add: add_param_of_line_def distinct_update split: prod.splits)
  then show ?case using Cons.IH by simp
qed simp

lemma file_params_distinct: "distinct (map fst (file_params s))"
proof -
  have "distinct (map fst d) \<Longrightarrow>
      distinct (map fst (fold (\<lambda>opt d. case split_param opt of (k, v) \<Rightarrow> AList.update k v d) xs d))" for xs and d :: params
    by (induction xs arbitrary: d) (simp_all add: distinct_update split: prod.splits)
  then show ?thesis by (simp add: file_params_def)
qed

lemma merge_params_map:
  "map_of (merge_params_of overwrite f l) =
    (if overwrite then map_of (file_params f) ++ map_of (rev (map split_param (reList_split l)))
     else map_of (map split_param (reList_split l)) ++ map_of (file_params f))"
  by (simp add: merge_params_of_def add_params_map)

lemma merge_params_distinct: "distinct (map fst (merge_params_of overwrite f l))"
  by (simp add: merge_params_of_def add_params_distinct file_params_distinct)

text \<open>Settings with a value, as a merge takes them apart and puts them together.\<close>

definition solid :: "string \<times> string \<Rightarrow> bool" where
  "solid kv \<longleftrightarrow> setting_ok kv \<and> snd kv \<noteq> []"

definition as_param :: "string \<times> string \<Rightarrow> string \<times> string option" where
  "as_param kv = (fst kv, Some (snd kv))"

definition settings_text :: "(string \<times> string) list \<Rightarrow> string" where
  "settings_text kvs = py_join '','' (map setting_text kvs)"

lemma split_param_setting: "setting_ok kv \<Longrightarrow> split_param (setting_text kv) = as_param kv"
  by (simp add: split_param_def split_keyval_setting as_param_def) (simp add: setting_text_def)

lemma split_params_text:
  assumes "list_all solid kvs"
  shows "map split_param (filter (\<lambda>opt. opt \<noteq> []) (reList_split (settings_text kvs))) = map as_param kvs"
proof (cases "kvs = []")
  case True
  then show ?thesis by (simp add: settings_text_def reList_split_def)
next
  case False
  have ok: "list_all setting_ok kvs" using assms by (auto simp: list_all_iff solid_def)
  have "filter (\<lambda>opt. opt \<noteq> []) (map setting_text kvs) = map setting_text kvs"
    by (auto simp: filter_id_conv setting_text_def)
  with False ok show ?thesis by (auto simp: settings_text_def split_settings split_param_setting list_all_iff)
qed

lemma split_line_text:
  assumes "list_all solid kvs" and "kvs \<noteq> []"
  shows "map split_param (reList_split (settings_text kvs)) = map as_param kvs"
proof -
  have "list_all setting_ok kvs" using assms(1) by (auto simp: list_all_iff solid_def)
  with assms(2) show ?thesis by (auto simp: settings_text_def split_settings split_param_setting list_all_iff)
qed

lemma param_text_solid: "solid kv \<Longrightarrow> param_text (as_param kv) = setting_text kv"
  by (simp add: param_text_def as_param_def solid_def setting_text_def)

lemma params_text_solid:
  assumes "list_all solid kvs"
  shows "params_text (map as_param kvs) = settings_text kvs"
proof -
  have "acc \<noteq> [] \<Longrightarrow> list_all solid kvs \<Longrightarrow>
      fold (\<lambda>kv acc. if acc = [] then param_text kv else acc @ '','' @ param_text kv) (map as_param kvs) acc =
      acc @ concat (map (\<lambda>kv. '','' @ setting_text kv) kvs)" for acc kvs
    by (induction kvs arbitrary: acc) (simp_all add: param_text_solid)
  moreover have "py_join '','' (map setting_text (kv # kvs')) =
      setting_text kv @ concat (map (\<lambda>kv. '','' @ setting_text kv) kvs')" for kv kvs'
    by (induction kvs' arbitrary: kv) simp_all
  ultimately show ?thesis
    using assms by (cases kvs) (simp_all add: params_text_def settings_text_def param_text_solid setting_text_def)
qed

lemma map_of_as_param: "map_of (map as_param kvs) k = map_option Some (map_of kvs k)"
  by (induction kvs) (auto simp: as_param_def)

lemma as_params_of:
  assumes "distinct (map fst m)" and "\<And>k. map_of m k = map_option Some (f k)"
    and "\<And>k v. f k = Some v \<Longrightarrow> solid (k, v)"
  shows "\<exists>kvs. m = map as_param kvs \<and> list_all solid kvs \<and> distinct (map fst kvs) \<and> map_of kvs = f"
proof -
  define kvs where "kvs = map (\<lambda>(k, v). (k, the v)) m"
  have x: "solid (fst x, the (snd x)) \<and> snd x = Some (the (snd x))" if "x \<in> set m" for x
  proof -
    have "map_of m (fst x) = Some (snd x)" using assms(1) that by simp
    with assms(2) [of "fst x"] obtain v where "f (fst x) = Some v" "snd x = Some v"
      by (cases "f (fst x)") auto
    with assms(3) show ?thesis by simp
  qed
  then have m: "m = map as_param kvs" unfolding kvs_def
    by (auto simp: as_param_def intro!: map_idI [symmetric])
  have "map_of kvs k = f k" for k
  proof -
    have "map_of m k = map_option Some (map_of kvs k)" by (subst m) (rule map_of_as_param)
    then show ?thesis using assms(2) [of k] by (cases "map_of kvs k"; cases "f k") auto
  qed
  moreover have "map fst kvs = map fst m" by (simp add: kvs_def case_prod_beta comp_def)
  moreover have "list_all solid kvs" using x by (auto simp: kvs_def list_all_iff)
  ultimately have "map_of kvs = f" "list_all solid kvs" "distinct (map fst kvs)" using assms(1) by auto
  with m show ?thesis by blast
qed


text \<open>
  C40: A setting with an empty value is a setting to the validator, but merging writes it without its \<open>=\<close> and the
  validator then refuses it.
\<close>

theorem empty_setting_lost:
  assumes "list_all (\<lambda>c. c \<notin> {bslash, CHR '','', CHR ''=''}) k" and "k \<noteq> []"
  shows "isValid (valid_info (VDict [(k, [])])) \<and>
    verify_keyval E orig ''keyval'' (VStr (k @ ''='')) = Inr (valid_info (VDict [(k, [])])) \<and>
    params_text (merge_params_of overwrite [] (k @ ''='')) = k \<and>
    verify_keyval E orig ''keyval'' (VStr k) = Inr (error_info ''No key value pairs found?'')"
proof -
  have q: "quiet c False k" if "c \<in> {CHR '','', CHR ''=''}" for c
    using that by (intro quiet_plain list.pred_mono_strong [OF assms(1)]) auto
  have e: "\<not> ends_escaped False k"
    using assms(1) last_in_set [OF assms(2)] by (auto simp: ends_escaped_def list_all_iff)
  have "reList_split (k @ ''='') = [k @ ''='']" "reKeyVal_split (k @ ''='') = [k, []]" "reKeyVal_split k = [k]"
    using q e by (simp_all add: reList_split_def reKeyVal_split_def split_unescaped_quiet split_unescaped_at
        quiet_append)
  then show ?thesis using assms(2)
    by (simp add: verify_keyval_def on_str_def has_unescaped_equals_def normalize_eqs norm_keyval_def norm_list_def
        merge_params_of_def file_params_def add_param_of_line_def split_param_def params_text_def param_text_def
        attr_set_def reList_split_def)
qed

section \<open>The value of an option\<close>

definition option_value :: "'f cfg \<Rightarrow> string \<Rightarrow> string \<Rightarrow> 'f tval option" where
  "option_value c sec opt =
     (case map_of (dict c) sec of Some (Options os) \<Rightarrow> map_of os opt | _ \<Rightarrow> None)"

lemma section_of_Inr: "section_of c sec = Inr os \<longleftrightarrow> map_of (dict c) sec = Some (Options os)"
  by (auto simp: section_of_def split: option.splits part.splits)

lemma option_value_of: "section_of c sec = Inr os \<Longrightarrow> option_value c sec opt = map_of os opt"
  by (simp add: section_of_Inr option_value_def)

definition from_file :: "(string \<times> string) list \<Rightarrow> (string \<times> 'f tval) list" where
  "from_file kvs = fold (\<lambda>(k, v) d. AList.update k (VStr (file_value v)) d) kvs []"

lemma from_file_map: "map_of (from_file kvs) opt = map_option (\<lambda>v. VStr (file_value v)) (map_of (rev kvs) opt)"
proof -
  have "map_of (fold (\<lambda>(k, v) d. AList.update k (VStr (file_value v)) d) kvs d) opt =
      (case map_of (rev kvs) opt of None \<Rightarrow> map_of d opt | Some v \<Rightarrow> Some (VStr (file_value v)))" for d :: "(string \<times> 'f tval) list"
    by (induction kvs arbitrary: d) (auto simp: map_add_def split: option.splits)
  from this [of "[]"] show ?thesis by (simp add: from_file_def split: option.splits)
qed

lemma merge_section_option_value:
  assumes "merge_section_option line sec (opt, x) os = Inr os'"
  shows "map_of os' o' =
    (case (if o' = opt then map_of line opt else None) of
       None \<Rightarrow> map_of os o'
     | Some l \<Rightarrow> (case merge_option (sec @ ''.'' @ opt) x (map_of os opt) l of Inr v \<Rightarrow> Some v | Inl e \<Rightarrow> None))"
    "map_of line opt = Some l \<Longrightarrow> \<exists>v. merge_option (sec @ ''.'' @ opt) x (map_of os opt) l = Inr v"
  using assms by (auto simp: merge_section_option_def result_simps split: option.splits)

lemma merge_options_value:
  assumes "fold_res (merge_section_option line sec) vars os = Inr os'" and "distinct (map fst vars)"
  shows "case (map_of line opt, map_of vars opt) of
      (Some l, Some x) \<Rightarrow> \<exists>v. merge_option (sec @ ''.'' @ opt) x (map_of os opt) l = Inr v \<and> map_of os' opt = Some v
    | _ \<Rightarrow> map_of os' opt = map_of os opt"
  using assms
proof (induction vars arbitrary: os)
  case (Cons ov vars)
  obtain o1 x1 where ov: "ov = (o1, x1)" by (cases ov)
  from Cons.prems(1) ov obtain os1 where os1: "merge_section_option line sec (o1, x1) os = Inr os1"
      "fold_res (merge_section_option line sec) vars os1 = Inr os'"
    by (auto simp: result_simps)
  have IH: "case (map_of line opt, map_of vars opt) of
      (Some l, Some x) \<Rightarrow> \<exists>v. merge_option (sec @ ''.'' @ opt) x (map_of os1 opt) l = Inr v \<and> map_of os' opt = Some v
    | _ \<Rightarrow> map_of os' opt = map_of os1 opt"
    using Cons.IH [OF os1(2)] Cons.prems(2) by simp
  show ?case
  proof (cases "o1 = opt")
    case True
    then have "map_of vars opt = None" using Cons.prems(2) ov by (auto simp: map_of_eq_None_iff)
    with IH True ov merge_section_option_value [OF os1(1)] show ?thesis
      by (cases "map_of line opt") auto
  next
    case False
    with merge_section_option_value(1) [OF os1(1), of opt] have "map_of os1 opt = map_of os opt" by simp
    with IH have "case (map_of line opt, map_of vars opt) of
        (Some l, Some x) \<Rightarrow> \<exists>v. merge_option (sec @ ''.'' @ opt) x (map_of os opt) l = Inr v \<and> map_of os' opt = Some v
      | _ \<Rightarrow> map_of os' opt = map_of os opt"
      by (simp only:)
    with False ov show ?thesis by simp
  qed
qed (simp split: option.splits)

text \<open>What a section becomes does not depend on the sections before it.\<close>

definition section_result :: "(string \<Rightarrow> (string \<times> string) list option) \<Rightarrow> 'f cfg option \<Rightarrow> 'f config_def \<Rightarrow> string \<Rightarrow>
    (string \<times> 'f tval) list \<Rightarrow> bool" where
  "section_result items line d sec os \<longleftrightarrow>
     (\<exists>kvs. items sec = Some kvs \<and>
       (case line of
          None \<Rightarrow> os = from_file kvs
        | Some l \<Rightarrow> \<exists>vars. map_of (defs d) sec = Some vars \<and>
            (if vars = [] then os = from_file kvs
             else \<exists>ls. section_of l sec = Inr ls \<and> fold_res (merge_section_option ls sec) vars (from_file kvs) = Inr os)))"

lemma init_section_result:
  assumes "init_section items line sec c = Inr c'"
  obtains os where "section_result items line (configDef c) sec os"
    "c' = c\<lparr>dict := AList.update sec (Options os) (dict c)\<rparr>"
proof -
  from assms obtain kvs where kvs: "items sec = Some kvs" by (auto simp: init_section_def split: option.splits)
  show thesis
  proof (cases line)
    case None
    with assms kvs show thesis
      by (intro that [of "from_file kvs"]) (simp_all add: init_section_def section_result_def from_file_def)
  next
    case (Some l)
    with assms kvs obtain vars os where v: "map_of (defs (configDef c)) sec = Some vars"
        "(if vars = [] then Inr (from_file kvs)
          else ebind (section_of l sec) (\<lambda>ls. fold_res (merge_section_option ls sec) vars (from_file kvs))) = Inr os"
        "c' = c\<lparr>dict := AList.update sec (Options os) (dict c)\<rparr>"
      by (auto simp: init_section_def ebind_Inr_iff key_res_def from_file_def [symmetric] Let_def split: option.splits)
    with kvs Some show thesis
      by (intro that [of os]) (auto simp: section_result_def result_simps split: if_splits)
  qed
qed

lemma init_sections_result:
  assumes "fold_res (init_section items line) secs c = Inr c'"
  shows "configDef c' = configDef c \<and> mySections c' = mySections c \<and> origDir c' = origDir c \<and>
    (sec \<in> set secs \<longrightarrow> (\<exists>os. section_result items line (configDef c) sec os \<and> map_of (dict c') sec = Some (Options os))) \<and>
    (sec \<notin> set secs \<longrightarrow> map_of (dict c') sec = map_of (dict c) sec)"
  using assms
proof (induction secs arbitrary: c)
  case (Cons s secs)
  then obtain c1 where c1: "init_section items line s c = Inr c1" "fold_res (init_section items line) secs c1 = Inr c'"
    by (auto simp: result_simps)
  from c1(1) obtain os where os: "section_result items line (configDef c) s os"
      "c1 = c\<lparr>dict := AList.update s (Options os) (dict c)\<rparr>"
    by (rule init_section_result)
  then have c1_eqs: "configDef c1 = configDef c" "mySections c1 = mySections c" "origDir c1 = origDir c"
      "map_of (dict c1) = (map_of (dict c))(s \<mapsto> Options os)" by simp_all
  show ?case using Cons.IH [OF c1(2)] os(1) unfolding c1_eqs by (cases "sec \<in> set secs"; cases "sec = s"; simp)
qed simp


section \<open>Comments in a file\<close>

lemma after_hash_append:
  "after_hash sp v = None \<Longrightarrow> after_hash sp (v @ t) = after_hash (if v = [] then sp else is_space (last v)) t"
  by (induction v arbitrary: sp) (auto split: if_splits)

text \<open>
  A comment after a hash mark is taken for the value, and the value is dropped; what follows a semicolon is
  dropped, unless there is a hash mark in it.
\<close>

theorem comments_in_values:
  assumes "after_hash False v = None" and "CHR '';'' \<notin> set v"
  shows "strip_comment (v @ '' #'' @ t) = takeWhile (\<lambda>c. c \<noteq> CHR '';'') t \<and>
    strip_comment (v @ '';'' @ t) = (case after_hash False t of None \<Rightarrow> v | Some r \<Rightarrow> takeWhile (\<lambda>c. c \<noteq> CHR '';'') r)"
proof -
  have "takeWhile (\<lambda>c. c \<noteq> CHR '';'') (v @ '';'' @ t) = v"
    using assms(2) by (subst takeWhile_append2) auto
  moreover have "after_hash b ('' #'' @ t) = Some t" "after_hash b ('';'' @ t) = after_hash False t" for b
    by (simp_all add: is_space_def code_point_def)
  ultimately show ?thesis
    by (simp only: strip_comment_def after_hash_append [OF assms(1)] option.case split: option.split) simp
qed

section \<open>Checking\<close>

lemma fold_res_append: "fold_res f (xs @ ys) s = ebind (fold_res f xs s) (fold_res f ys)"
  by (induction xs arbitrary: s) (simp_all add: ebind_def split: sum.splits)

lemma set_option_keeps:
  "set_option sec opt v c = Inr c' \<Longrightarrow> configDef c' = configDef c \<and> mySections c' = mySections c \<and>
     configFile c' = configFile c \<and> origDir c' = origDir c \<and>
     (\<forall>s o'. option_value c' s o' = (if s = sec \<and> o' = opt then Some v else option_value c s o'))"
  by (auto simp: set_option_def result_simps section_of_Inr option_value_def)

lemma set_default_keeps: "option_value (set_default sec opt v c) s o' = option_value c s o'"
  by (simp add: set_default_def option_value_def)

lemma set_default_other: "s \<noteq> sec \<Longrightarrow> map_of (defs (configDef (set_default sec opt v c))) s = map_of (defs (configDef c)) s"
proof -
  assume ne: "s \<noteq> sec"
  have "map_of (map (\<lambda>(s, vars). (s, if s = sec then f vars else vars)) ds) s = map_of ds s" for f and ds :: "(string \<times> 'a section_def) list"
    using ne by (induction ds) auto
  then show ?thesis by (simp add: set_default_def)
qed

text \<open>What the first loop does with an option.\<close>

definition asked :: "'f cfg \<Rightarrow> string \<times> string \<times> 'f opt_def \<Rightarrow> (string \<times> string \<times> 'f tval) list" where
  "asked c = (\<lambda>(sec, opt, x).
     case option_value c sec opt of
       None \<Rightarrow> [] | Some v \<Rightarrow> if opt_validate x then [(sec @ ''.'' @ opt, opt_type x, v)] else [])"

definition missing :: "'f cfg \<Rightarrow> string \<times> string \<times> 'f opt_def \<Rightarrow> string list" where
  "missing c = (\<lambda>(sec, opt, x).
     if option_value c sec opt = None \<and> opt_req x then [error_prefix @ '': '' @ sec @ ''.'' @ opt @ '' is not defined.''] else [])"

text \<open>What the check of an option leaves alone.\<close>

definition untouched :: "string \<Rightarrow> string \<Rightarrow> bool \<Rightarrow> 'f check_state \<Rightarrow> 'f check_state \<Rightarrow> bool" where
  "untouched sec opt keep ch ch' \<longleftrightarrow>
     originalDir (ch_val ch') = originalDir (ch_val ch) \<and> validatedInfo (ch_val ch') = validatedInfo (ch_val ch) \<and>
     (\<forall>s o'. (s, o') \<noteq> (sec, opt) \<or> keep \<longrightarrow> option_value (ch_cfg ch') s o' = option_value (ch_cfg ch) s o') \<and>
     (\<forall>s. s \<noteq> sec \<longrightarrow> map_of (defs (configDef (ch_cfg ch'))) s = map_of (defs (configDef (ch_cfg ch))) s)"

lemma check_option_facts:
  assumes "check_option E sec (opt, x) ch = Inr ch'"
  shows "validateList (ch_val ch') = validateList (ch_val ch) @ asked (ch_cfg ch) (sec, opt, x) \<and>
    ch_msgs ch' = ch_msgs ch @ missing (ch_cfg ch) (sec, opt, x) \<and> untouched sec opt (opt_validate x) ch ch'"
proof -
  from assms obtain os where os: "section_of (ch_cfg ch) sec = Inr os"
    by (auto simp: check_option_def result_simps)
  show ?thesis
  proof (cases "map_of os opt")
    case None
    with assms os show ?thesis
      by (auto simp: check_option_def asked_def missing_def untouched_def option_value_of)
  next
    case (Some v)
    with assms os obtain ch1 where ch1:
      "(if opt_validate x then Inr (ch\<lparr>ch_val := add_value (sec @ ''.'' @ opt) (opt_type x) v (ch_val ch)\<rparr>)
        else ebind (normalize E (originalDir (ch_val ch)) (opt_type x) v) (\<lambda>v'.
          ebind (set_option sec opt v' (ch_cfg ch)) (\<lambda>c. Inr (ch\<lparr>ch_cfg := c\<rparr>)))) = Inr ch1"
      "ch' = ch1 \<or> (\<exists>v'. ch' = ch1\<lparr>ch_cfg := set_default sec opt v' (ch_cfg ch1)\<rparr>)"
      by (auto simp: check_option_def ebind_Inr_iff split: if_split_asm)
    from ch1(1) Some os have one: "validateList (ch_val ch1) = validateList (ch_val ch) @ asked (ch_cfg ch) (sec, opt, x)"
        "ch_msgs ch1 = ch_msgs ch @ missing (ch_cfg ch) (sec, opt, x)" "untouched sec opt (opt_validate x) ch ch1"
      by (auto simp: asked_def missing_def untouched_def add_value_def option_value_of ebind_Inr_iff dest!: set_option_keeps split: if_split_asm)
    from ch1(2) show ?thesis
    proof (elim disjE exE)
      fix v' assume ch': "ch' = ch1\<lparr>ch_cfg := set_default sec opt v' (ch_cfg ch1)\<rparr>"
      with one show ?thesis by (simp add: untouched_def set_default_keeps set_default_other)
    qed (use one in simp)
  qed
qed

text \<open>The first loop over all sections is one pass over their options.\<close>

definition pass :: "'f type_env \<Rightarrow> (string \<times> string \<times> 'f opt_def) list \<Rightarrow> 'f check_state \<Rightarrow> 'f check_state res" where
  "pass E = fold_res (\<lambda>(sec, opt, x). check_option E sec (opt, x))"

definition options_of :: "'f config_def \<Rightarrow> string list \<Rightarrow> (string \<times> string \<times> 'f opt_def) list" where
  "options_of d secs = concat (map (\<lambda>sec. map (Pair sec) (the (map_of (defs d) sec))) secs)"

lemma pass_section: "pass E (map (Pair sec) vars) ch = fold_res (check_option E sec) vars ch"
  by (induction vars arbitrary: ch) (simp_all add: pass_def ebind_def split: sum.splits)

lemma pass_append: "pass E (ts @ us) ch = ebind (pass E ts ch) (pass E us)"
  by (simp add: pass_def fold_res_append)

lemma pass_section_other:
  "fold_res (check_option E sec) vars ch = Inr ch' \<Longrightarrow> s \<noteq> sec \<Longrightarrow>
     map_of (defs (configDef (ch_cfg ch'))) s = map_of (defs (configDef (ch_cfg ch))) s"
proof (induction vars arbitrary: ch)
  case (Cons v vars)
  then obtain ch1 where ch1: "check_option E sec (fst v, snd v) ch = Inr ch1" "fold_res (check_option E sec) vars ch1 = Inr ch'"
    by (auto simp: result_simps)
  with Cons.IH [OF ch1(2)] Cons.prems(2) check_option_facts [OF ch1(1)] show ?case by (simp add: untouched_def)
qed simp

lemma check_sections_pass:
  assumes "fold_res (check_section E) secs ch = Inr ch'" and "distinct secs"
    and "\<And>sec. sec \<in> set secs \<Longrightarrow> map_of (defs (configDef (ch_cfg ch))) sec = map_of (defs d) sec"
  shows "pass E (options_of d secs) ch = Inr ch' \<and> (\<forall>sec \<in> set secs. map_of (defs d) sec \<noteq> None)"
  using assms
proof (induction secs arbitrary: ch)
  case (Cons sec secs)
  from Cons.prems(1) obtain ch1 where ch1: "check_section E sec ch = Inr ch1" "fold_res (check_section E) secs ch1 = Inr ch'"
    by (auto simp: result_simps)
  from ch1(1) Cons.prems(3) [of sec] obtain vars where vars: "map_of (defs d) sec = Some vars"
      "fold_res (check_option E sec) vars ch = Inr ch1"
    by (auto simp: check_section_def key_res_def split: option.splits)
  have "map_of (defs (configDef (ch_cfg ch1))) s = map_of (defs d) s" if "s \<in> set secs" for s
    using Cons.prems(2, 3) pass_section_other [OF vars(2), of s] that by force
  from Cons.IH [OF ch1(2) _ this] Cons.prems(2) have "pass E (options_of d secs) ch1 = Inr ch'"
    "\<forall>sec \<in> set secs. map_of (defs d) sec \<noteq> None" by auto
  moreover have "options_of d (sec # secs) = map (Pair sec) vars @ options_of d secs"
    using vars(1) by (simp add: options_of_def)
  ultimately show ?case using vars by (simp add: pass_append pass_section)
qed (simp add: options_of_def pass_def)

definition key :: "string \<times> string \<times> 'f opt_def \<Rightarrow> string \<times> string" where
  "key t = (fst t, fst (snd t))"

lemma key_simp [simp]: "key (sec, opt, x) = (sec, opt)"
  by (simp add: key_def)

lemma asked_cong: "option_value c (fst t) (fst (snd t)) = option_value c' (fst t) (fst (snd t)) \<Longrightarrow> asked c t = asked c' t"
  "option_value c (fst t) (fst (snd t)) = option_value c' (fst t) (fst (snd t)) \<Longrightarrow> missing c t = missing c' t"
  by (cases t; simp add: asked_def missing_def)+

lemma pass_facts:
  assumes "pass E ts ch = Inr ch'" and "distinct (map key ts)"
  shows "validateList (ch_val ch') = validateList (ch_val ch) @ concat (map (asked (ch_cfg ch)) ts) \<and>
    ch_msgs ch' = ch_msgs ch @ concat (map (missing (ch_cfg ch)) ts) \<and>
    originalDir (ch_val ch') = originalDir (ch_val ch) \<and> validatedInfo (ch_val ch') = validatedInfo (ch_val ch) \<and>
    (\<forall>s o'. (\<forall>x. (s, o', x) \<in> set ts \<longrightarrow> opt_validate x) \<longrightarrow> option_value (ch_cfg ch') s o' = option_value (ch_cfg ch) s o')"
  using assms
proof (induction ts arbitrary: ch)
  case (Cons t ts)
  obtain sec opt x where t: "t = (sec, opt, x)" by (cases t)
  from Cons.prems(1) t obtain ch1 where ch1: "check_option E sec (opt, x) ch = Inr ch1" "pass E ts ch1 = Inr ch'"
    by (auto simp: pass_def result_simps)
  have same: "option_value (ch_cfg ch1) (fst u) (fst (snd u)) = option_value (ch_cfg ch) (fst u) (fst (snd u))" if "u \<in> set ts" for u
  proof -
    have "key u \<noteq> (sec, opt)" using Cons.prems(2) t that by force
    with check_option_facts [OF ch1(1)] show ?thesis by (auto simp: untouched_def key_def)
  qed
  have "map (asked (ch_cfg ch1)) ts = map (asked (ch_cfg ch)) ts" "map (missing (ch_cfg ch1)) ts = map (missing (ch_cfg ch)) ts"
    using same by (auto intro: asked_cong)
  from Cons.prems(2) have "distinct (map key ts)" by simp
  note IH = Cons.IH [OF ch1(2) this] and here = check_option_facts [OF ch1(1)]
  from IH have later: "(\<forall>x. (s, o', x) \<in> set ts \<longrightarrow> opt_validate x) \<Longrightarrow>
      option_value (ch_cfg ch') s o' = option_value (ch_cfg ch1) s o'" for s o' by blast
  from here have first: "(s, o') \<noteq> (sec, opt) \<or> opt_validate x \<Longrightarrow>
      option_value (ch_cfg ch1) s o' = option_value (ch_cfg ch) s o'" for s o'
    unfolding untouched_def by blast
  have keep: "option_value (ch_cfg ch') s o' = option_value (ch_cfg ch) s o'"
    if "\<forall>x. (s, o', x) \<in> set (t # ts) \<longrightarrow> opt_validate x" for s o'
    using later [of s o'] first [of s o'] that t by auto
  from IH here have
    "validateList (ch_val ch') = validateList (ch_val ch) @ concat (map (asked (ch_cfg ch)) (t # ts))"
    "ch_msgs ch' = ch_msgs ch @ concat (map (missing (ch_cfg ch)) (t # ts))"
    "originalDir (ch_val ch') = originalDir (ch_val ch)" "validatedInfo (ch_val ch') = validatedInfo (ch_val ch)"
    unfolding untouched_def t \<open>map (asked (ch_cfg ch1)) ts = _\<close> \<open>map (missing (ch_cfg ch1)) ts = _\<close>
    by (simp_all only: list.map concat.simps append_assoc)
  with keep show ?case by blast
qed (simp add: pass_def)

text \<open>The values to check, by section and option.\<close>

definition to_check :: "'f cfg \<Rightarrow> (string \<times> string \<times> 'f opt_def) list \<Rightarrow> ((string \<times> string) \<times> string \<times> 'f tval) list" where
  "to_check c ts = concat (map (\<lambda>(sec, opt, x).
     case option_value c sec opt of
       None \<Rightarrow> [] | Some v \<Rightarrow> if opt_validate x then [((sec, opt), opt_type x, v)] else []) ts)"

definition compound :: "string \<times> string \<Rightarrow> string" where
  "compound k = fst k @ ''.'' @ snd k"

lemma asked_to_check: "concat (map (asked c) ts) = map (\<lambda>(k, ty, v). (compound k, ty, v)) (to_check c ts)"
  by (induction ts) (auto simp: to_check_def asked_def compound_def split: option.split)

lemma to_check_set: "((sec, opt), ty, v) \<in> set (to_check c ts) \<longleftrightarrow>
    (\<exists>x. (sec, opt, x) \<in> set ts \<and> option_value c sec opt = Some v \<and> opt_validate x \<and> ty = opt_type x)"
  by (induction ts) (auto simp: to_check_def split: option.splits)

lemma to_check_keys: "fst ` set (to_check c ts) \<subseteq> key ` set ts"
  by (auto simp: to_check_set) (force simp: key_def)

lemma to_check_distinct: "distinct (map key ts) \<Longrightarrow> distinct (map fst (to_check c ts))"
proof (induction ts)
  case (Cons t ts)
  obtain sec opt x where t: "t = (sec, opt, x)" by (cases t)
  have "(sec, opt) \<notin> fst ` set (to_check c ts)" using to_check_keys [of c ts] Cons.prems t by auto
  moreover have "to_check c (t # ts) =
      (case option_value c sec opt of None \<Rightarrow> [] | Some v \<Rightarrow> if opt_validate x then [((sec, opt), opt_type x, v)] else []) @
      to_check c ts"
    by (simp add: to_check_def t)
  ultimately show ?case using Cons by (simp split: option.split)
qed (simp add: to_check_def)

lemma validate_loop_inv:
  assumes "validate_loop E none items w = (w', Inr u)"
  shows "\<exists>infos. list_all2 (\<lambda>item info. verify_type E (originalDir w) (fst (snd item)) (snd (snd item)) none = Inr info) items infos \<and>
    validatedInfo w' = validatedInfo w @ zip (map fst items) infos"
  using assms
proof (induction E none items w rule: validate_loop.induct)
  case (2 E none name ty v rest w)
  then obtain info where i: "verify_type E (originalDir w) ty v none = Inr info" by (auto split: sum.splits)
  with 2 obtain infos where "list_all2 (\<lambda>item info. verify_type E (originalDir w) (fst (snd item)) (snd (snd item)) none = Inr info) rest infos"
      "validatedInfo w' = (validatedInfo w @ [(name, info)]) @ zip (map fst rest) infos"
    by fastforce
  with i show ?case by (intro exI [of _ "info # infos"]) simp
qed simp

text \<open>Names without dots are found again in the compound name.\<close>

definition dotless :: "string \<times> string \<Rightarrow> bool" where
  "dotless k \<longleftrightarrow> CHR ''.'' \<notin> set (fst k) \<and> CHR ''.'' \<notin> set (snd k)"

lemma split_compound: "dotless k \<Longrightarrow> split_char (CHR ''.'') (compound k) = [fst k, snd k]"
  by (simp add: dotless_def compound_def split_char_append split_char_single)

lemma take_value_grows:
  assumes "fold_res (take_value E) infos (c, msgs, n) = Inr (c', msgs', n')"
  shows "n \<le> n' \<and> (n' = n \<longrightarrow> msgs' = msgs \<and> list_all (\<lambda>i. isValid (snd i)) infos)"
  using assms
proof (induction infos arbitrary: c msgs n)
  case (Cons i infos)
  obtain name info where i: "i = (name, info)" by (cases i)
  from Cons.prems obtain c1 msgs1 n1 where one: "take_value E (name, info) (c, msgs, n) = Inr (c1, msgs1, n1)"
      "fold_res (take_value E) infos (c1, msgs1, n1) = Inr (c', msgs', n')"
    by (auto simp: i result_simps)
  have "(isValid info \<and> n1 = n \<and> msgs1 = msgs) \<or> (\<not> isValid info \<and> n1 = n + 1)"
    using one(1) by (auto simp: take_value_def result_simps Let_def case_prod_beta split: if_split_asm)
  with Cons.IH [OF one(2)] show ?case by (auto simp: i)
qed simp

lemma take_values:
  assumes "fold_res (take_value E) (zip (map compound ks) infos) (c, msgs, n) = Inr (c', msgs', n)"
    and "length ks = length infos" and "distinct ks" and "list_all dotless ks"
  shows "(\<forall>j < length ks. isValid (infos ! j) \<and>
      option_value c' (fst (ks ! j)) (snd (ks ! j)) = Some (normalized (infos ! j))) \<and>
    (\<forall>sec opt. (sec, opt) \<notin> set ks \<longrightarrow> option_value c' sec opt = option_value c sec opt)"
  using assms(2, 1, 3, 4)
proof (induction ks infos arbitrary: c msgs rule: list_induct2)
  case (Cons k ks info infos)
  have "list_all (\<lambda>i. isValid (snd i)) (zip (map compound (k # ks)) (info # infos))"
    using take_value_grows [OF Cons.prems(1)] by simp
  then have valid: "isValid info" by simp
  have "split_char (CHR ''.'') (compound k) = [fst k, snd k]" using Cons.prems(3) by (simp add: split_compound)
  with Cons.prems(1) valid obtain c1 where c1: "set_option (fst k) (snd k) (normalized info) c = Inr c1"
      "fold_res (take_value E) (zip (map compound ks) infos) (c1, msgs, n) = Inr (c', msgs', n)"
    by (auto simp: take_value_def nth_res_def result_simps Let_def)
  have v: "option_value c1 sec opt = (if sec = fst k \<and> opt = snd k then Some (normalized info) else option_value c sec opt)" for sec opt
    using set_option_keeps [OF c1(1)] by blast
  have IH: "(\<forall>j < length ks. isValid (infos ! j) \<and>
      option_value c' (fst (ks ! j)) (snd (ks ! j)) = Some (normalized (infos ! j)))"
    "(sec, opt) \<notin> set ks \<Longrightarrow> option_value c' sec opt = option_value c1 sec opt" for sec opt
    using Cons.IH [OF c1(2)] Cons.prems(2, 3) by auto
  have "option_value c' (fst k) (snd k) = Some (normalized info)"
    using IH(2) [of "fst k" "snd k"] v [of "fst k" "snd k"] Cons.prems(2) by simp
  with IH(1) valid have "isValid ((info # infos) ! j) \<and>
      option_value c' (fst ((k # ks) ! j)) (snd ((k # ks) ! j)) = Some (normalized ((info # infos) ! j))"
    if "j < length (k # ks)" for j
    using that by (cases j) auto
  moreover have "option_value c' sec opt = option_value c sec opt" if "(sec, opt) \<notin> set (k # ks)" for sec opt
    using IH(2) [of sec opt] v [of sec opt] that by (cases k) auto
  ultimately show ?case by blast
qed auto

lemma wf_defs_section: "wf_defs d \<Longrightarrow> map_of (defs d) sec = Some vars \<Longrightarrow> distinct (map fst vars)"
  by (auto simp: wf_defs_def wf_section_def list_all_iff dest!: map_of_SomeD)

lemma options_of_facts:
  assumes "wf_defs d" and "distinct secs" and "\<forall>sec \<in> set secs. map_of (defs d) sec \<noteq> None"
  shows "distinct (map key (options_of d secs)) \<and>
    ((sec, opt, x) \<in> set (options_of d secs) \<longleftrightarrow> sec \<in> set secs \<and> opt_def_of d sec opt = Some x)"
  using assms(2, 3)
proof (induction secs)
  case (Cons s secs)
  then obtain vars where vars: "map_of (defs d) s = Some vars" by auto
  have dist: "distinct (map fst vars)" using wf_defs_section [OF assms(1) vars] .
  have IH: "distinct (map key (options_of d secs))"
      "\<And>sec opt x. (sec, opt, x) \<in> set (options_of d secs) \<longrightarrow> sec \<in> set secs"
    using Cons by (auto simp: options_of_def)
  have eq: "options_of d (s # secs) = map (Pair s) vars @ options_of d secs" by (simp add: options_of_def vars)
  have "map key (map (Pair s) vars) = map (Pair s) (map fst vars)" by (simp add: key_def)
  moreover have "distinct (map (Pair s) (map fst vars))" using dist by (simp add: distinct_map inj_on_def)
  ultimately have "distinct (map key (map (Pair s) vars))" by (simp only:)
  moreover have "set (map key (map (Pair s) vars)) \<inter> set (map key (options_of d secs)) = {}"
    using IH(2) Cons.prems(1) by (force simp: key_def)
  ultimately have "distinct (map key (options_of d (s # secs)))" using IH(1) by (simp add: eq)
  moreover have "(sec, opt, x) \<in> set (map (Pair s) vars) \<longleftrightarrow> sec = s \<and> opt_def_of d sec opt = Some x"
    using vars dist by (auto simp: opt_def_of_def)
  ultimately show ?case using Cons by (auto simp: eq)
qed (simp add: options_of_def)

text \<open>The two loops of a check that ends, taken together.\<close>

definition errors_of :: "'f cfg \<Rightarrow> string list" where
  "errors_of c = concat (map (missing c) (options_of (configDef c) (mySections c)))"

lemma verify_cfg_loops:
  assumes "verify_cfg E c = Inr (c', ok, msgs)" and "wf_defs (configDef c)" and "distinct (mySections c)"
  obtains c1 infos c2 msgs' n where
    "list_all2 (\<lambda>u info. verify_type E (origDir c) (fst (snd u)) (snd (snd u)) False = Inr info)
       (to_check c (options_of (configDef c) (mySections c))) infos"
    "fold_res (take_value E) (zip (map compound (map fst (to_check c (options_of (configDef c) (mySections c))))) infos)
       (c1, errors_of c, length (errors_of c)) = Inr (c2, msgs', n)"
    "\<forall>sec opt. (\<forall>x. opt_def_of (configDef c) sec opt = Some x \<longrightarrow> opt_validate x) \<longrightarrow>
       option_value c1 sec opt = option_value c sec opt"
    "c' = c2\<lparr>validated := True\<rparr>" "ok = (n = 0)" "msgs = msgs' @ summary c2 n"
    "\<forall>sec \<in> set (mySections c). map_of (defs (configDef c)) sec \<noteq> None"
proof -
  let ?ch = "\<lparr>ch_cfg = c, ch_val = typeValidator (origDir c), ch_msgs = []\<rparr>"
  let ?ts = "options_of (configDef c) (mySections c)"
  from assms(1) obtain ch where ch0: "fold_res (check_section E) (mySections c) ?ch = Inr ch"
    by (auto simp: verify_cfg_def ebind_Inr_iff)
  obtain w r where w: "validate E False (ch_val ch) = (w, r)" by (cases "validate E False (ch_val ch)")
  from assms(1) ch0 w have "\<exists>u. r = Inr u" by (cases r) (auto simp: verify_cfg_def ebind_Inr_iff)
  then obtain c2 msgs' n where v:
      "fold_res (check_section E) (mySections c) ?ch = Inr ch" "validate E False (ch_val ch) = (w, Inr ())"
      "fold_res (take_value E) (validatedInfo w) (ch_cfg ch, ch_msgs ch, length (ch_msgs ch)) = Inr (c2, msgs', n)"
      "c' = c2\<lparr>validated := True\<rparr>" "ok = (n = 0)" "msgs = msgs' @ summary c2 n"
    using assms(1) ch0 w by (auto simp: verify_cfg_def ebind_Inr_iff)
  from check_sections_pass [OF v(1) assms(3), of "configDef c"]
  have pass: "pass E ?ts ?ch = Inr ch" and known: "\<forall>sec \<in> set (mySections c). map_of (defs (configDef c)) sec \<noteq> None"
    by simp_all
  note ts = options_of_facts [OF assms(2, 3) known]
  from pass_facts [OF pass] ts have ch: "validateList (ch_val ch) = concat (map (asked c) ?ts)"
      "ch_msgs ch = errors_of c" "originalDir (ch_val ch) = origDir c" "validatedInfo (ch_val ch) = []"
    by (simp_all add: typeValidator_def errors_of_def)
  from pass_facts [OF pass] ts have keep: "(\<forall>x. (sec, opt, x) \<in> set ?ts \<longrightarrow> opt_validate x) \<longrightarrow>
      option_value (ch_cfg ch) sec opt = option_value c sec opt" for sec opt by simp
  from validate_loop_inv [OF v(2) [unfolded validate_def]] ch obtain infos where
    infos: "list_all2 (\<lambda>item info. verify_type E (origDir c) (fst (snd item)) (snd (snd item)) False = Inr info)
        (map (\<lambda>(k, ty, v). (compound k, ty, v)) (to_check c ?ts)) infos"
      "validatedInfo w = zip (map fst (map (\<lambda>(k, ty, v). (compound k, ty, v)) (to_check c ?ts))) infos"
    by (auto simp: asked_to_check)
  have names: "map fst (map (\<lambda>(k, ty, v). (compound k, ty, v)) (to_check c ?ts)) = map compound (map fst (to_check c ?ts))"
    by (simp add: case_prod_beta)
  show thesis
  proof (rule that [OF _ _ _ v(4, 5, 6) known])
    show "list_all2 (\<lambda>u info. verify_type E (origDir c) (fst (snd u)) (snd (snd u)) False = Inr info) (to_check c ?ts) infos"
      using infos(1) by (simp add: list_all2_map1 case_prod_beta)
    show "fold_res (take_value E) (zip (map compound (map fst (to_check c ?ts))) infos)
        (ch_cfg ch, errors_of c, length (errors_of c)) = Inr (c2, msgs', n)"
      using v(3) unfolding infos(2) names ch(2) .
    show "\<forall>sec opt. (\<forall>x. opt_def_of (configDef c) sec opt = Some x \<longrightarrow> opt_validate x) \<longrightarrow>
        option_value (ch_cfg ch) sec opt = option_value c sec opt"
      using keep ts by blast
  qed
qed

text \<open>
  The check of a configuration succeeds exactly when it has no message to show.
\<close>

theorem check_says_why:
  assumes "verify_cfg E c = Inr (c', ok, msgs)" and "wf_defs (configDef c)" and "distinct (mySections c)"
  shows "ok \<longleftrightarrow> msgs = []"
  using assms
proof (rule verify_cfg_loops)
  fix c1 infos c2 msgs' n
  assume f: "fold_res (take_value E) (zip (map compound (map fst (to_check c (options_of (configDef c) (mySections c))))) infos)
      (c1, errors_of c, length (errors_of c)) = Inr (c2, msgs', n)"
    and ok: "ok = (n = 0)" "msgs = msgs' @ summary c2 n"
  from take_value_grows [OF f] have "n = 0 \<Longrightarrow> msgs' = []" by auto
  with ok show ?thesis by (auto simp: summary_def)
qed

text \<open>
  C35: In a configuration that passes its check every required option is there, and an option that is to be
  checked has a value of its type, the normal form of the value it had.
\<close>

theorem checked_configuration:
  assumes "verify_cfg E c = Inr (c', True, msgs)" and "wf_defs (configDef c)" and "distinct (mySections c)"
    and "sec \<in> set (mySections c)" and "opt_def_of (configDef c) sec opt = Some x"
    and "\<forall>s o'. s \<in> set (mySections c) \<and> opt_def_of (configDef c) s o' \<noteq> None \<longrightarrow> dotless (s, o')"
  shows "case option_value c sec opt of
      None \<Rightarrow> \<not> opt_req x
    | Some v \<Rightarrow> opt_validate x \<longrightarrow>
        (\<exists>info. verify_type E (origDir c) (opt_type x) v False = Inr info \<and> isValid info \<and>
          option_value c' sec opt = Some (normalized info) \<and> has_type E (opt_type x) (normalized info))"
  using assms(1-3)
proof (rule verify_cfg_loops)
  let ?ts = "options_of (configDef c) (mySections c)"
  fix c1 infos c2 msgs' n
  assume infos: "list_all2 (\<lambda>u info. verify_type E (origDir c) (fst (snd u)) (snd (snd u)) False = Inr info) (to_check c ?ts) infos"
    and f: "fold_res (take_value E) (zip (map compound (map fst (to_check c ?ts))) infos)
      (c1, errors_of c, length (errors_of c)) = Inr (c2, msgs', n)"
    and c': "c' = c2\<lparr>validated := True\<rparr>" and n: "True = (n = 0)"
    and known: "\<forall>sec \<in> set (mySections c). map_of (defs (configDef c)) sec \<noteq> None"
  note ts = options_of_facts [OF assms(2, 3) known]
  have x: "(sec, opt, x) \<in> set ?ts" using ts assms(4, 5) by blast
  have no_errors: "errors_of c = []" "n = length (errors_of c)" using take_value_grows [OF f] n by auto
  show ?thesis
  proof (cases "option_value c sec opt")
    case None
    have "missing c (sec, opt, x) = []" using no_errors(1) x by (auto simp: errors_of_def)
    with None show ?thesis by (simp add: missing_def split: if_split_asm)
  next
    case (Some v)
    show ?thesis
    proof (cases "opt_validate x")
      case True
      with x Some have "((sec, opt), opt_type x, v) \<in> set (to_check c ?ts)" by (auto simp: to_check_set)
      then obtain j where j: "j < length (to_check c ?ts)" "to_check c ?ts ! j = ((sec, opt), opt_type x, v)"
        by (auto simp: in_set_conv_nth)
      have len: "length (to_check c ?ts) = length infos" using infos by (rule list_all2_lengthD)
      have dist: "distinct (map fst (to_check c ?ts))" using ts by (blast intro: to_check_distinct)
      have names: "list_all dotless (map fst (to_check c ?ts))"
      proof (unfold list_all_iff, rule ballI)
        fix k assume "k \<in> set (map fst (to_check c ?ts))"
        then obtain s o' ty u where "k = (s, o')" "((s, o'), ty, u) \<in> set (to_check c ?ts)" by auto
        then show "dotless k" using assms(6) ts by (auto simp: to_check_set)
      qed
      have "isValid (infos ! j) \<and> option_value c2 sec opt = Some (normalized (infos ! j))"
        using take_values [OF f [folded no_errors(2)] _ dist names] len j by auto
      then have "isValid (infos ! j)" "option_value c2 sec opt = Some (normalized (infos ! j))" by blast+
      moreover have "verify_type E (origDir c) (opt_type x) v False = Inr (infos ! j)"
        using list_all2_nthD [OF infos j(1)] j(2) by simp
      moreover have "option_value c' sec opt = option_value c2 sec opt" by (simp add: c' option_value_def)
      moreover have "has_type E (opt_type x) (normalized (infos ! j))"
        using calculation verified_function_type by (auto simp: verify_type_def)
      ultimately show ?thesis using Some by auto
    qed (use Some in simp)
  qed
qed

section \<open>Instances\<close>

definition port_tuple :: "int def_tuple" where
  "port_tuple = \<lparr>t_type = ''tcp_port'', t_desc = VStr ''a port'', t_help = VBool True, t_default = VNone,
     t_req = VBool True, t_validate = VBool True, t_short = VNone\<rparr>"

definition port_def :: "int opt_def" where
  "port_def = def_of port_tuple ''a port'' True True"

definition port_defs :: "int config_def" where
  "port_defs = \<lparr>defs = [(''hod'', [(''port'', port_def)])], def_order = []\<rparr>"

lemma port_defs_added: "add_defs [(''hod'', [Entry ''port'' port_tuple])] None new_definition = Inr port_defs"
  by (simp add: add_defs_def new_definition_def add_section_def add_def_def port_tuple_def port_def_def def_of_def
      port_defs_def is_valid_type_def types_def)

lemma port_sections [simp]: "sections port_defs = [''hod'']" "opt_def_of port_defs ''hod'' ''port'' = Some port_def"
  by (simp_all add: sections_def port_defs_def opt_def_of_def)

lemma port_defs_wf: "wf_defs port_defs"
  by (simp add: wf_defs_def port_defs_def wf_section_def port_def_def def_of_def port_tuple_def is_valid_type_def types_def)

definition port_line :: "int cfg" where
  "port_line = (baseConfig port_defs None)\<lparr>dict := [(''hod'', Options [(''port'', VStr ''81'')])]\<rparr>"

definition port_file :: "string \<Rightarrow> (string \<times> string) list option" where
  "port_file sec = Some [(''port'', ''80'')]"

definition port_cfg :: "int cfg" where
  "port_cfg = (baseConfig port_defs None)\<lparr>configFile := Some ''hodrc'', dict := [(''hod'', Options [(''port'', VStr ''81'')])]\<rparr>"

lemma port_init: "init_config True None ''hodrc'' port_file port_defs None (Some port_line) = Inr port_cfg"
  by (simp add: init_config_def init_section_def port_file_def port_cfg_def port_line_def baseConfig_def
      section_of_def key_res_def port_defs_def sections_def merge_section_option_def merge_option_def list_options_def
      port_def_def def_of_def port_tuple_def Let_def)

lemma port_digits: "py_int ''81'' = Inr 81"
  by code_simp

lemma port_check: "verify_cfg bare_env port_cfg =
    Inr (port_cfg\<lparr>dict := [(''hod'', Options [(''port'', VInt 81)])], validated := True\<rparr>, True, [])"
  by (simp add: verify_cfg_def port_cfg_def baseConfig_def may_enter_def port_defs_def sections_def check_section_def
      key_res_def check_option_def section_of_def port_def_def def_of_def port_tuple_def typeValidator_def add_value_def
      validate_def verify_type_def verify_function_def numeric_types_def verify_tcp_port_def to_int_def port_digits
      take_value_def nth_res_def set_option_def summary_def Let_def)

lemma definitions_recorded_witness:
  "wf_defs port_defs \<and> set (sections port_defs) = set (map fst [(''hod'', [Entry ''port'' port_tuple])]) \<and>
    (opt_def_of port_defs ''hod'' ''port'' = Some port_def \<longleftrightarrow>
      (\<exists>es t. (''hod'', es) \<in> set [(''hod'', [Entry ''port'' port_tuple])] \<and> Entry ''port'' t \<in> set es \<and>
        entry_def t = Some port_def))"
  by (rule definitions_recorded) (rule port_defs_added)


lemma empty_setting_lost_witness:
  "isValid (valid_info (VDict [(''k'', [])])) \<and>
    verify_keyval bare_env None ''keyval'' (VStr (''k'' @ ''='')) = Inr (valid_info (VDict [(''k'', [])])) \<and>
    params_text (merge_params_of True [] (''k'' @ ''='')) = ''k'' \<and>
    verify_keyval bare_env None ''keyval'' (VStr ''k'') = Inr (error_info ''No key value pairs found?'')"
  by (rule empty_setting_lost) simp_all


lemma comments_in_values_witness:
  "strip_comment (''v'' @ '' #'' @ '' note'') = takeWhile (\<lambda>c. c \<noteq> CHR '';'') '' note'' \<and>
    strip_comment (''v'' @ '';'' @ '' note'') =
      (case after_hash False '' note'' of None \<Rightarrow> ''v'' | Some r \<Rightarrow> takeWhile (\<lambda>c. c \<noteq> CHR '';'') r)"
  by (rule comments_in_values) simp_all

lemma port_cfg_def_simps [simp]: "configDef port_cfg = port_defs" "mySections port_cfg = [''hod'']" "origDir port_cfg = None"
    "option_value port_cfg ''hod'' ''port'' = Some (VStr ''81'')"
  by (simp_all add: port_cfg_def baseConfig_def option_value_def)

lemma check_says_why_witness: "True \<longleftrightarrow> ([] :: string list) = []"
  by (rule check_says_why [OF port_check]) (simp_all add: port_defs_wf)

lemma checked_configuration_witness:
  "case option_value port_cfg ''hod'' ''port'' of
      None \<Rightarrow> \<not> opt_req port_def
    | Some v \<Rightarrow> opt_validate port_def \<longrightarrow>
        (\<exists>info. verify_type bare_env (origDir port_cfg) (opt_type port_def) v False = Inr info \<and> isValid info \<and>
          option_value (port_cfg\<lparr>dict := [(''hod'', Options [(''port'', VInt 81)])], validated := True\<rparr>) ''hod'' ''port'' =
            Some (normalized info) \<and>
          has_type bare_env (opt_type port_def) (normalized info))"
  by (rule checked_configuration [OF port_check])
    (simp_all add: port_defs_wf, auto simp: dotless_def opt_def_of_def port_defs_def split: if_splits)

end
