(* ===== verification/Hod_Option_Facts.thy ===== *)
theory Hod_Option_Facts
  imports Hod_Options Hod_Config_Facts
begin

text \<open>
  What the command lines of Hadoop on Demand guarantee: short letters do not clash, a parser knows every option that
  is defined, what is printed as a command line is read back, and how commands and configuration files are found.
\<close>

section \<open>Short letters\<close>

definition letters_ok :: "bool \<Rightarrow> string \<Rightarrow> short_map \<Rightarrow> bool" where
  "letters_ok withConfig alpha m \<longleftrightarrow>
     distinct (map snd m) \<and> (\<forall>c \<in> set (map snd m). c \<in> set alpha \<and> c \<notin> set (reserved withConfig))"

lemma update_snd: "set (map snd (AList.update k c m)) \<subseteq> insert c (set (map snd m))"
  by (induction m) auto

lemma update_snd_distinct: "distinct (map snd m) \<Longrightarrow> c \<notin> set (map snd m) \<Longrightarrow> distinct (map snd (AList.update k c m))"
proof (induction m)
  case (Cons kc m)
  then show ?case using update_snd [of k c m] by (cases kc) (auto split: if_splits)
qed simp

lemma find_SomeD: "List.find P xs = Some x \<Longrightarrow> P x \<and> x \<in> set xs"
  by (auto simp: find_Some_iff)

lemma find_split: "List.find P xs = Some x \<Longrightarrow> \<exists>ys zs. xs = ys @ x # zs \<and> list_all (\<lambda>y. \<not> P y) ys"
proof (induction xs)
  case (Cons y xs)
  show ?case
  proof (cases "P y")
    case True
    with Cons.prems show ?thesis by (auto intro: exI [of _ "[]"])
  next
    case False
    with Cons obtain ys zs where "xs = ys @ x # zs" "list_all (\<lambda>y. \<not> P y) ys" by auto
    with False have "y # xs = (y # ys) @ x # zs \<and> list_all (\<lambda>y. \<not> P y) (y # ys)" by simp
    then show ?thesis by blast
  qed
qed simp

lemma choose_letter_free:
  "choose_letter withConfig alpha m k opt = Some c \<Longrightarrow> c \<in> set alpha \<and> free_letter withConfig m c"
  by (auto simp: choose_letter_def own_letter_def last_letter_def split: option.splits if_splits dest!: find_SomeD)

lemma short_step_ok:
  assumes "short_step E withConfig d alpha sec opt m = Inr m'" and "letters_ok withConfig alpha m"
  shows "letters_ok withConfig alpha m'"
proof -
  have "letters_ok withConfig alpha (AList.update k c m)" if "choose_letter withConfig alpha m k opt = Some c" for k c
    using choose_letter_free [OF that] assms(2)
    by (auto simp: letters_ok_def free_letter_def update_snd_distinct dest!: update_member)
  with assms show ?thesis
    by (auto simp: short_step_def result_simps Let_def split: if_splits option.splits)
qed

lemma fold_res_keeps:
  assumes "fold_res f xs s = Inr s'" and "P s" and "\<And>x s s'. x \<in> set xs \<Longrightarrow> f x s = Inr s' \<Longrightarrow> P s \<Longrightarrow> P s'"
  shows "P s'"
  using assms by (induction xs arbitrary: s) (auto simp: result_simps)

lemma short_map_ok:
  assumes "build_short_map E withConfig d compounds = Inr m"
  shows "letters_ok withConfig (gen_alpha E d) m"
proof -
  from assms obtain keys where "fold_res (short_section E withConfig d (gen_alpha E d) keys) (sections d) [] = Inr m"
    by (auto simp: build_short_map_def result_simps)
  then show ?thesis
  proof (rule fold_res_keeps)
    fix sec m m'
    assume "short_section E withConfig d (gen_alpha E d) keys sec m = Inr m'" and m: "letters_ok withConfig (gen_alpha E d) m"
    then obtain opts where "fold_res (short_step E withConfig d (gen_alpha E d) sec) (sort opts) m = Inr m'"
      by (auto simp: short_section_def result_simps)
    then show "letters_ok withConfig (gen_alpha E d) m'"
      by (rule fold_res_keeps) (use m short_step_ok in blast)+
  qed (simp add: letters_ok_def)
qed

text \<open>
  C39: No two options are given the same letter, and none a letter that a definition has already, or one of help,
  version and configuration.
\<close>

theorem short_letters_distinct:
  assumes "build_short_map E withConfig d compounds = Inr m"
  shows "distinct (map snd m) \<and>
    list_all (\<lambda>c. c \<in> set alphaString \<and> VStr [c] \<notin> set (assigned_options E d) \<and> c \<notin> {CHR ''h'', CHR ''v''} \<and>
      (if withConfig then c \<noteq> CHR ''c'' else True)) (map snd m)"
  using short_map_ok [OF assms] by (force simp: letters_ok_def gen_alpha_def reserved_def list_all_iff)

lemma no_w: "CHR ''w'' \<notin> set alphaString"
  by (simp add: alphaString_def)

text \<open>
  An option without a free letter in its name gets the last free letter of the alphabet, not the first, and
  never a \<open>w\<close>, which is not in it.
\<close>

theorem last_letter_wins:
  assumes "short_step E withConfig d alpha sec opt m = Inr m'" and "map_of m (splice_compound sec opt) = None"
    and "own_letter withConfig alpha m opt = None" and "map_of m' (splice_compound sec opt) = Some c"
  shows "(\<exists>us vs. alpha = us @ c # vs \<and> list_all (\<lambda>c. \<not> free_letter withConfig m c) vs) \<and>
    CHR ''w'' \<notin> set (gen_alpha E d)"
proof -
  from assms have "last_letter withConfig alpha m = Some c"
    by (auto simp: short_step_def result_simps Let_def choose_letter_def split: if_splits option.splits)
  then obtain ys zs where ys: "rev alpha = ys @ c # zs" "list_all (\<lambda>c. \<not> free_letter withConfig m c) ys"
    unfolding last_letter_def by (blast dest: find_split)
  have "alpha = rev zs @ c # rev ys" using arg_cong [OF ys(1), of rev] by simp
  moreover have "list_all (\<lambda>c. \<not> free_letter withConfig m c) (rev ys)" using ys(2) by (simp add: list_all_iff)
  moreover have "CHR ''w'' \<notin> set (gen_alpha E d)" by (simp add: gen_alpha_def no_w)
  ultimately show ?thesis by blast
qed

section \<open>The parser\<close>

definition apart :: "'f popt \<Rightarrow> 'f popt \<Rightarrow> bool" where
  "apart a b \<longleftrightarrow> set (opt_strings a) \<inter> set (opt_strings b) = {}"

lemma find_apart:
  "sorted_wrt apart os \<Longrightarrow> o' \<in> set os \<Longrightarrow> s \<in> set (opt_strings o') \<Longrightarrow>
     List.find (\<lambda>o'. s \<in> set (opt_strings o')) os = Some o'"
  by (induction os) (auto simp: apart_def)

text \<open>An option is added at the end: to the last group, or to the parser while there is none.\<close>

lemma add_option_end:
  assumes "add_option to_group o' p = Inr p'" and "to_group \<longleftrightarrow> option_groups p \<noteq> []"
    and "sorted_wrt apart (all_popts p)"
  shows "all_popts p' = all_popts p @ [o'] \<and> sorted_wrt apart (all_popts p @ [o']) \<and>
    (option_groups p' = [] \<longleftrightarrow> option_groups p = [])"
proof -
  have all: "all_popts p' = all_popts p @ [o'] \<and> (option_groups p' = [] \<longleftrightarrow> option_groups p = [])"
  proof (cases to_group)
    case True
    with assms(2) obtain gs g where "option_groups p = gs @ [g]" by (cases "option_groups p" rule: rev_cases) auto
    with True assms(1) show ?thesis by (auto simp: add_option_def result_simps all_popts_def)
  next
    case False
    with assms(1, 2) show ?thesis by (auto simp: add_option_def result_simps all_popts_def)
  qed
  have "apart a o'" if "a \<in> set (all_popts p)" for a
    using assms(1) that by (auto simp: add_option_def result_simps check_conflict_def apart_def split: if_splits)
  with all assms(3) show ?thesis by (simp add: sorted_wrt_append)
qed

text \<open>The options of a parser are apart, and their values go where their long string says.\<close>

definition dest_ok :: "'f popt \<Rightarrow> bool" where
  "dest_ok o' \<longleftrightarrow> (\<forall>k. po_dest o' = Some k \<longrightarrow> ''--'' @ k \<in> set (po_longs o'))"

definition tidy :: "'f optparser \<Rightarrow> bool" where
  "tidy p \<longleftrightarrow> sorted_wrt apart (all_popts p) \<and> (\<forall>o' \<in> set (all_popts p). dest_ok o')"

definition parser_ok :: "bool \<Rightarrow> 'f optparser \<Rightarrow> bool" where
  "parser_ok grouped p \<longleftrightarrow> tidy p \<and> (grouped \<longleftrightarrow> option_groups p \<noteq> [])"

text \<open>No option goes while others are added.\<close>

definition grows :: "'f optparser \<Rightarrow> 'f optparser \<Rightarrow> bool" where
  "grows p p' \<longleftrightarrow> set (all_popts p) \<subseteq> set (all_popts p')"

definition option_for :: "string \<Rightarrow> string \<times> 'f opt_def \<Rightarrow> 'f popt \<Rightarrow> bool" where
  "option_for sec v o' \<longleftrightarrow>
     ''--'' @ splice_compound sec (fst v) \<in> set (po_longs o') \<and> po_dest o' = Some (splice_compound sec (fst v)) \<and>
     po_action o' = action_of (splice_compound sec (fst v)) (opt_type (snd v)) \<and> po_default o' = opt_default (snd v)"

definition has_option :: "string \<Rightarrow> string \<times> 'f opt_def \<Rightarrow> 'f optparser \<Rightarrow> bool" where
  "has_option sec v p \<longleftrightarrow> (\<exists>o' \<in> set (all_popts p). option_for sec v o')"

lemma has_option_grows: "has_option sec v p \<Longrightarrow> grows p p' \<Longrightarrow> has_option sec v p'"
  by (auto simp: has_option_def grows_def)

lemma grows_trans [trans]: "grows p q \<Longrightarrow> grows q r \<Longrightarrow> grows p r"
  by (auto simp: grows_def)

lemma sort_strings_mem: "sort_strings ss = Inr (shorts, longs) \<Longrightarrow> s \<in> set ss \<Longrightarrow> 3 \<le> length s \<Longrightarrow> s \<in> set longs"
  by (induction ss arbitrary: shorts longs) (auto simp: result_simps split: if_splits)

lemma new_popt_facts:
  "new_popt [short, l] dest act metavar dflt = Inr o' \<Longrightarrow> 3 \<le> length l \<Longrightarrow>
     l \<in> set (po_longs o') \<and> po_dest o' = dest \<and> po_action o' = act \<and> po_default o' = dflt"
  by (auto simp: new_popt_def result_simps simp del: sort_strings.simps elim!: sort_strings_mem split: if_splits)

lemma plain_option_ok:
  assumes "plain_option [short, l] dest act metavar dflt p = Inr p'" and "parser_ok False p"
    and "dest = None \<or> l = ''--'' @ the dest \<and> the dest \<noteq> []"
  shows "parser_ok False p' \<and> grows p p'"
proof -
  from assms(1) obtain o' where o': "add_option False o' p = Inr p'" "new_popt [short, l] dest act metavar dflt = Inr o'"
    by (auto simp: plain_option_def result_simps)
  have "dest_ok o'"
  proof (cases dest)
    case None
    with o'(2) show ?thesis by (auto simp: new_popt_def result_simps dest_ok_def)
  next
    case (Some k)
    with assms(3) have "3 \<le> length l" by (cases k) auto
    from new_popt_facts [OF o'(2) this] Some assms(3) show ?thesis by (simp add: dest_ok_def)
  qed
  with add_option_end [OF o'(1)] assms(2) show ?thesis by (auto simp: parser_ok_def tidy_def grows_def)
qed

lemma add_config_option_ok:
  assumes "add_config_option E m grouped sec v p = Inr p'" and "parser_ok grouped p"
  shows "parser_ok grouped p' \<and> grows p p' \<and> has_option sec v p'"
proof -
  obtain opt x where v: "v = (opt, x)" by (cases v)
  let ?compound = "splice_compound sec opt"
  from assms(1) v obtain short o' where o': "new_popt [short, ''--'' @ ?compound] (Some ?compound)
      (action_of ?compound (opt_type x)) (opt_type x) (opt_default x) = Inr o'" "add_option grouped o' p = Inr p'"
    by (auto simp: add_config_option_def result_simps Let_def)
  have "3 \<le> length (''--'' @ ?compound)" by (simp add: splice_compound_def)
  from new_popt_facts [OF o'(1) this] have "option_for sec v o'" by (simp add: option_for_def v)
  moreover have "all_popts p' = all_popts p @ [o'] \<and> sorted_wrt apart (all_popts p @ [o']) \<and>
      (option_groups p' = [] \<longleftrightarrow> option_groups p = [])"
    using add_option_end [OF o'(2)] assms(2) by (simp add: parser_ok_def tidy_def)
  moreover have "dest_ok o'" using calculation(1) by (simp add: option_for_def dest_ok_def)
  ultimately show ?thesis using assms(2) by (auto simp: parser_ok_def tidy_def grows_def has_option_def)
qed

text \<open>Adding things one after the other, each of which stays.\<close>

lemma fold_res_stays:
  assumes "fold_res f xs p = Inr p'" and "I p"
    and step: "\<And>x p p'. f x p = Inr p' \<Longrightarrow> I p \<Longrightarrow> I p' \<and> grows p p' \<and> Q x p'"
    and stays: "\<And>x p p'. Q x p \<Longrightarrow> grows p p' \<Longrightarrow> Q x p'"
  shows "I p' \<and> grows p p' \<and> (\<forall>x \<in> set xs. Q x p')"
  using assms(1, 2)
proof (induction xs arbitrary: p)
  case (Cons x xs)
  then obtain p1 where p1: "f x p = Inr p1" "fold_res f xs p1 = Inr p'" by (auto simp: result_simps)
  have one: "I p1 \<and> grows p p1 \<and> Q x p1" using p1(1) Cons.prems(2) by (rule step)
  have rest: "I p' \<and> grows p1 p' \<and> (\<forall>x \<in> set xs. Q x p')" using p1(2) one Cons.IH by blast
  have "Q x p'" using one rest stays by blast
  moreover have "grows p p'" using one rest grows_trans by blast
  ultimately show ?case using rest by simp
qed (simp add: grows_def)

lemma add_vars_ok:
  assumes "fold_res (add_config_option E m grouped sec) vars p = Inr p'" and "parser_ok grouped p"
  shows "parser_ok grouped p' \<and> grows p p' \<and> (\<forall>v \<in> set vars. has_option sec v p')"
  using assms add_config_option_ok has_option_grows by (rule fold_res_stays)

definition has_section :: "'f config_def \<Rightarrow> string \<Rightarrow> 'f optparser \<Rightarrow> bool" where
  "has_section d sec p \<longleftrightarrow> (\<forall>vars. map_of (defs d) sec = Some vars \<longrightarrow> (\<forall>v \<in> set vars. has_option sec v p))"

lemma has_section_grows: "has_section d sec p \<Longrightarrow> grows p p' \<Longrightarrow> has_section d sec p'"
  using has_option_grows unfolding has_section_def by blast

lemma add_group_ok:
  assumes "add_group E m d sec p = Inr p'" and "tidy p"
  shows "tidy p' \<and> grows p p' \<and> has_section d sec p'"
proof -
  let ?p = "p\<lparr>option_groups := option_groups p @ [(sec, [])]\<rparr>"
  from assms(1) obtain vars where vars: "map_of (defs d) sec = Some vars"
      "fold_res (add_config_option E m True sec) vars ?p = Inr p'"
    by (auto simp: add_group_def result_simps key_res_def split: option.splits)
  have "all_popts ?p = all_popts p" by (simp add: all_popts_def)
  with add_vars_ok [OF vars(2)] assms(2) vars(1) show ?thesis by (simp add: parser_ok_def tidy_def grows_def has_section_def)
qed

lemma add_ungrouped_ok:
  assumes "add_ungrouped E m d sec p = Inr p'" and "parser_ok False p"
  shows "parser_ok False p' \<and> grows p p' \<and> has_section d sec p'"
proof -
  from assms(1) obtain vars where vars: "map_of (defs d) sec = Some vars"
      "fold_res (add_config_option E m False sec) vars p = Inr p'"
    by (auto simp: add_ungrouped_def result_simps key_res_def split: option.splits)
  with add_vars_ok [OF vars(2) assms(2)] show ?thesis by (simp add: has_section_def)
qed

lemma add_options_ok:
  assumes "add_options E withConfig defaultConfig m d OptionParser = Inr p"
  shows "tidy p \<and> (\<forall>sec \<in> set (sections d). has_section d sec p)"
proof -
  have start: "parser_ok False OptionParser" by (simp add: parser_ok_def tidy_def dest_ok_def OptionParser_def all_popts_def)
  from assms obtain p1 p2 p3 where ps:
    "(if withConfig then plain_option [''-c'', ''--config''] (Some ''config'') Store ''config_file'' defaultConfig OptionParser
      else Inr OptionParser) = Inr p1"
    "plain_option ['''', ''--verbose-help''] None ShowHelp ''flag'' VNone p1 = Inr p2"
    "plain_option [''-v'', ''--version''] None ShowVersion ''flag'' VNone p2 = Inr p3"
    "(if 1 < length (sections d) then fold_res (add_group E m d) (sections d) p3
      else fold_res (add_ungrouped E m d) (sections d) p3) = Inr p"
    unfolding add_options_def ebind_Inr_iff by blast
  have "parser_ok False p1" using ps(1) start by (cases withConfig) (auto dest: plain_option_ok [OF _ _ disjI2])
  then have p3: "parser_ok False p3" using ps(2, 3) plain_option_ok [OF _ _ disjI1 [OF refl]] by blast
  show ?thesis
  proof (cases "1 < length (sections d)")
    case True
    with ps(4) have "fold_res (add_group E m d) (sections d) p3 = Inr p" by simp
    from fold_res_stays [where I = tidy and Q = "has_section d",
        OF this _ add_group_ok has_section_grows] p3
    show ?thesis by (simp add: parser_ok_def)
  next
    case False
    with ps(4) have "fold_res (add_ungrouped E m d) (sections d) p3 = Inr p" by simp
    from fold_res_stays [where I = "parser_ok False" and Q = "has_section d", OF this p3 add_ungrouped_ok has_section_grows]
    show ?thesis by (simp add: parser_ok_def)
  qed
qed

lemma built_parser:
  assumes "build_parser H d = Inr p" and "sec \<in> set (sections d)" and "opt_def_of d sec opt = Some x"
  obtains o' where "find_string (''--'' @ splice_compound sec opt) p = Some o'" "option_for sec (opt, x) o'"
proof -
  from assms(1) obtain m where "add_options (type_env H) (with_config H) (default_config H) m d OptionParser = Inr p"
    by (auto simp: build_parser_def result_simps)
  from add_options_ok [OF this] assms(2) have ok: "sorted_wrt apart (all_popts p)" "has_section d sec p"
    by (simp_all add: tidy_def)
  from assms(3) obtain vars where "map_of (defs d) sec = Some vars" "(opt, x) \<in> set vars"
    by (auto simp: opt_def_of_def dest: map_of_SomeD split: Option.bind_splits)
  with ok(2) obtain o' where o': "o' \<in> set (all_popts p)" "option_for sec (opt, x) o'"
    unfolding has_section_def has_option_def by blast
  then have "''--'' @ splice_compound sec opt \<in> set (opt_strings o')" by (simp add: option_for_def opt_strings_def)
  with find_apart [OF ok(1) o'(1)] have "find_string (''--'' @ splice_compound sec opt) p = Some o'"
    by (simp add: find_string_def)
  with o'(2) that show thesis by blast
qed

section \<open>What is printed is read back\<close>

text \<open>An option as it stands on a command line: a flag, or a name and a value.\<close>

type_synonym printed = "string \<times> string \<times> string option"

definition printed_name :: "printed \<Rightarrow> string" where
  "printed_name g = splice_compound (fst g) (fst (snd g))"

definition printed_words :: "printed \<Rightarrow> string list" where
  "printed_words g = (''--'' @ printed_name g) # (case snd (snd g) of None \<Rightarrow> [] | Some s \<Rightarrow> [s])"

definition printed_value :: "printed \<Rightarrow> 'f tval" where
  "printed_value g = (case snd (snd g) of None \<Rightarrow> VBool True | Some s \<Rightarrow> VStr s)"

text \<open>Parameter lists start from nothing, flags have no value, and names can be split again.\<close>

definition printable :: "'f config_def \<Rightarrow> printed \<Rightarrow> bool" where
  "printable d g \<longleftrightarrow>
     fst g \<in> set (sections d) \<and> dotless (fst g, fst (snd g)) \<and> CHR ''='' \<notin> set (fst g) \<and> CHR ''='' \<notin> set (fst (snd g)) \<and>
     (\<exists>x. opt_def_of d (fst g) (fst (snd g)) = Some x \<and>
        (case action_of (printed_name g) (opt_type x) of
           StoreTrue \<Rightarrow> snd (snd g) = None
         | Append \<Rightarrow> snd (snd g) \<noteq> None \<and> opt_default x = VNone
         | _ \<Rightarrow> snd (snd g) \<noteq> None))"

lemma match_long_exact:
  assumes "find_string l p = Some o'" and "l \<in> set (po_longs o')"
  shows "match_long l p = Inr (l, o')"
proof -
  have "o' \<in> set (all_popts p)" using assms(1) by (auto simp: find_string_def dest: find_SomeD)
  with assms(2) have "l \<in> set (all_longs p)" by (auto simp: all_longs_def)
  with assms(1) show ?thesis by (simp add: match_long_def)
qed

lemma split_equals_plain: "CHR ''='' \<notin> set l \<Longrightarrow> split_equals l = (l, None)"
proof -
  assume "CHR ''='' \<notin> set l"
  then have "takeWhile (\<lambda>c. c \<noteq> CHR ''='') l = l" by (simp add: takeWhile_eq_all_conv) metis
  then show ?thesis by (simp add: split_equals_def)
qed

lemma process_long:
  assumes "find_string (''--'' @ k) p = Some o'" and "''--'' @ k \<in> set (po_longs o')" and "k \<noteq> []" and "CHR ''='' \<notin> set k"
  shows "takes_value o' \<Longrightarrow> process_args help version p ((''--'' @ k) # s # rest) left v =
      hbind (take_action help version o' (Some s) v) (process_args help version p rest left)"
    and "\<not> takes_value o' \<Longrightarrow> process_args help version p ((''--'' @ k) # rest) left v =
      hbind (take_action help version o' None v) (process_args help version p rest left)"
proof -
  have "''--'' @ k \<noteq> ''--''" "startswith (''--'' @ k) ''--''" using assms(3) by (simp_all add: startswith_def)
  moreover have "split_equals (''--'' @ k) = (''--'' @ k, None)" using assms(4) by (intro split_equals_plain) simp
  moreover note match_long_exact [OF assms(1, 2)]
  ultimately show "takes_value o' \<Longrightarrow> process_args help version p ((''--'' @ k) # s # rest) left v =
      hbind (take_action help version o' (Some s) v) (process_args help version p rest left)"
    and "\<not> takes_value o' \<Longrightarrow> process_args help version p ((''--'' @ k) # rest) left v =
      hbind (take_action help version o' None v) (process_args help version p rest left)"
    by (simp_all only: process_args.simps if_True if_False prod.case hbind_simps option.case list.case) simp_all
qed

lemma printed_step:
  assumes "build_parser H d = Inr p" and "printable d g"
    and "action_of (printed_name g) (opt_type (the (opt_def_of d (fst g) (fst (snd g))))) = Append \<Longrightarrow>
      map_of v (printed_name g) = Some VNone"
  shows "\<exists>y. joined y = Inr (printed_value g) \<and>
    process_args help version p (printed_words g @ rest) left v =
      process_args help version p rest left (AList.update (printed_name g) y v)"
proof -
  from assms(2) obtain x where x: "fst g \<in> set (sections d)" "opt_def_of d (fst g) (fst (snd g)) = Some x"
      "case action_of (printed_name g) (opt_type x) of StoreTrue \<Rightarrow> snd (snd g) = None
        | Append \<Rightarrow> snd (snd g) \<noteq> None \<and> opt_default x = VNone | _ \<Rightarrow> snd (snd g) \<noteq> None"
    and eq: "CHR ''='' \<notin> set (printed_name g)"
    by (auto simp: printable_def printed_name_def splice_compound_def)
  from built_parser [OF assms(1) x(1, 2)] obtain o' where o': "find_string (''--'' @ printed_name g) p = Some o'"
      "''--'' @ printed_name g \<in> set (po_longs o')" "po_dest o' = Some (printed_name g)"
      "po_action o' = action_of (printed_name g) (opt_type x)"
    by (auto simp: option_for_def printed_name_def)
  have ne: "printed_name g \<noteq> []" by (simp add: printed_name_def splice_compound_def)
  note long = process_long [OF o'(1, 2) ne eq]
  have "action_of (printed_name g) (opt_type x) \<in> {Append, StoreTrue, Store}" by (simp add: action_of_def)
  then consider (append) s where "po_action o' = Append" "snd (snd g) = Some s" "map_of v (printed_name g) = Some VNone"
    | (flag) "po_action o' = StoreTrue" "snd (snd g) = None"
    | (store) s where "po_action o' = Store" "snd (snd g) = Some s"
    using x(2, 3) o'(4) assms(3) by (auto split: opt_action.splits)
  then show ?thesis
  proof cases
    case append
    with o'(3) long(1) show ?thesis
      by (intro exI [of _ "VStrs [s]"])
        (simp add: printed_words_def printed_value_def joined_def takes_value_def take_action_def)
  next
    case flag
    with o'(3) long(2) show ?thesis
      by (intro exI [of _ "VBool True"])
        (simp add: printed_words_def printed_value_def joined_def takes_value_def take_action_def)
  next
    case store
    with o'(3) long(1) show ?thesis
      by (intro exI [of _ "VStr s"])
        (simp add: printed_words_def printed_value_def joined_def takes_value_def take_action_def)
  qed
qed

lemma printed_list:
  assumes "build_parser H d = Inr p" and "list_all (printable d) gs" and "distinct (map printed_name gs)"
    and "\<And>g. g \<in> set gs \<Longrightarrow> action_of (printed_name g) (opt_type (the (opt_def_of d (fst g) (fst (snd g))))) = Append \<Longrightarrow>
      map_of v (printed_name g) = Some VNone"
  shows "\<exists>v'. process_args help version p (concat (map printed_words gs)) left v = Inr (left, v') \<and>
    (\<forall>g \<in> set gs. \<exists>y. map_of v' (printed_name g) = Some y \<and> joined y = Inr (printed_value g)) \<and>
    (\<forall>k. k \<notin> set (map printed_name gs) \<longrightarrow> map_of v' k = map_of v k)"
  using assms(2-)
proof (induction gs arbitrary: v)
  case (Cons g gs)
  from Cons.prems have g: "printable d g" by simp
  have "action_of (printed_name g) (opt_type (the (opt_def_of d (fst g) (fst (snd g))))) = Append \<Longrightarrow>
      map_of v (printed_name g) = Some VNone" using Cons.prems(3) [of g] by simp
  from printed_step [OF assms(1) g this] obtain y where y: "joined y = Inr (printed_value g)"
      "process_args help version p (printed_words g @ concat (map printed_words gs)) left v =
        process_args help version p (concat (map printed_words gs)) left (AList.update (printed_name g) y v)"
    by blast
  have "\<exists>v'. process_args help version p (concat (map printed_words gs)) left (AList.update (printed_name g) y v) = Inr (left, v') \<and>
    (\<forall>g \<in> set gs. \<exists>y. map_of v' (printed_name g) = Some y \<and> joined y = Inr (printed_value g)) \<and>
    (\<forall>k. k \<notin> set (map printed_name gs) \<longrightarrow> map_of v' k = map_of (AList.update (printed_name g) y v) k)"
  proof (rule Cons.IH)
    fix g' assume g': "g' \<in> set gs"
      "action_of (printed_name g') (opt_type (the (opt_def_of d (fst g') (fst (snd g'))))) = Append"
    then have "printed_name g' \<noteq> printed_name g" using Cons.prems(2) by (auto simp: image_iff)
    with Cons.prems(3) [of g'] g' show "map_of (AList.update (printed_name g) y v) (printed_name g') = Some VNone" by simp
  qed (use Cons.prems in simp_all)
  then obtain v' where v': "process_args help version p (concat (map printed_words gs)) left (AList.update (printed_name g) y v) = Inr (left, v')"
      "\<forall>g \<in> set gs. \<exists>y. map_of v' (printed_name g) = Some y \<and> joined y = Inr (printed_value g)"
      "\<forall>k. k \<notin> set (map printed_name gs) \<longrightarrow> map_of v' k = map_of (AList.update (printed_name g) y v) k" by blast
  have "map_of v' (printed_name g) = Some y" using v'(3) Cons.prems(2) by auto
  with v' y show ?case by (intro exI [of _ v']) auto
qed simp

lemma default_of:
  assumes "tidy p" and "o' \<in> set (all_popts p)" and "po_dest o' = Some k"
  shows "map_of (default_values p) k = Some (po_default o')"
proof -
  have one: "a = o'" if "a \<in> set (all_popts p)" "po_dest a = Some k" for a
  proof -
    have "''--'' @ k \<in> set (opt_strings a)" "''--'' @ k \<in> set (opt_strings o')"
      using that assms by (auto simp: tidy_def dest_ok_def opt_strings_def)
    moreover have "sorted_wrt apart (all_popts p)" using assms(1) by (simp add: tidy_def)
    ultimately have "Some a = Some o'" using that(1) assms(2) by (metis find_apart)
    then show ?thesis by simp
  qed
  have "(\<exists>a \<in> set os. po_dest a = Some k) \<Longrightarrow> (\<And>a. a \<in> set os \<Longrightarrow> po_dest a = Some k \<Longrightarrow> a = o') \<Longrightarrow>
      map_of (fold (\<lambda>o' v. case po_dest o' of None \<Rightarrow> v | Some dest \<Rightarrow> AList.update dest (po_default o') v) os v) k =
        Some (po_default o')" for os v
    by (induction os rule: rev_induct) (auto split: option.split)
  with one assms show ?thesis unfolding default_values_def by blast
qed

text \<open>
  Options printed as a command line are read back: flags as flags, values as they are, and parameter lists as
  the text they were.
\<close>

theorem printed_options_read:
  assumes "build_parser H d = Inr p" and "list_all (printable d) gs" and "distinct (map printed_name gs)"
  shows "\<exists>v. parse_args help version p (concat (map printed_words gs)) = Inr ([], v) \<and>
    (\<forall>g \<in> set gs. \<exists>y. map_of v (printed_name g) = Some y \<and> joined y = Inr (printed_value g))"
proof -
  from assms(1) obtain m where "add_options (type_env H) (with_config H) (default_config H) m d OptionParser = Inr p"
    by (auto simp: build_parser_def result_simps)
  with add_options_ok have tidy: "tidy p" by blast
  have "map_of (default_values p) (printed_name g) = Some VNone"
    if "g \<in> set gs" "action_of (printed_name g) (opt_type (the (opt_def_of d (fst g) (fst (snd g))))) = Append" for g
  proof -
    from that(1) assms(2) have "printable d g" by (simp add: list_all_iff)
    then obtain x where known: "fst g \<in> set (sections d)" "opt_def_of d (fst g) (fst (snd g)) = Some x"
      "case action_of (printed_name g) (opt_type x) of StoreTrue \<Rightarrow> snd (snd g) = None
        | Append \<Rightarrow> snd (snd g) \<noteq> None \<and> opt_default x = VNone | _ \<Rightarrow> snd (snd g) \<noteq> None"
      unfolding printable_def by blast
    then have x: "fst g \<in> set (sections d)" "opt_def_of d (fst g) (fst (snd g)) = Some x" "opt_default x = VNone"
      using that(2) by simp_all
    from built_parser [OF assms(1) x(1, 2)] obtain o' where "o' \<in> set (all_popts p)"
        "po_dest o' = Some (printed_name g)" "po_default o' = VNone"
      using x(3) by (auto simp: option_for_def printed_name_def find_string_def dest: find_SomeD)
    with default_of [OF tidy] show ?thesis by metis
  qed
  from printed_list [OF assms this] show ?thesis unfolding parse_args_def by blast
qed

section \<open>The dictionary of an options object\<close>

definition part_value :: "(string \<times> 'f part) list \<Rightarrow> string \<Rightarrow> string \<Rightarrow> 'f tval option" where
  "part_value ps sec opt = (case map_of ps sec of Some (Options os) \<Rightarrow> map_of os opt | _ \<Rightarrow> None)"

lemma option_value_part: "option_value c sec opt = part_value (dict c) sec opt"
  by (simp add: option_value_def part_value_def)

lemma split_char_two: "split_char d s = [a, b] \<Longrightarrow> s = a @ d # b"
proof (induction s arbitrary: a)
  case (Cons x s)
  show ?case
  proof (cases "x = d")
    case True
    with Cons.prems have "a = []" "split_char d s = [b]" by auto
    moreover have "split_char d s = [b] \<Longrightarrow> s = b" by (induction s arbitrary: b) (auto split: if_splits list.splits)
    ultimately show ?thesis using True by simp
  next
    case False
    with Cons.prems obtain p where "split_char d s = [p, b]" "a = x # p" by (auto split: list.splits)
    with Cons.IH show ?thesis by simp
  qed
qed simp

lemma split_compound_name_iff:
  "dotless (sec, opt) \<Longrightarrow> split_compound_name k = Inr (sec, opt) \<longleftrightarrow> k = splice_compound sec opt"
  by (auto simp: split_compound_name_def splice_compound_def dotless_def split_char_append split_char_single
      split: list.splits dest: split_char_two)

lemma part_value_open: "part_value (open_section sec ps) s o' = part_value ps s o'"
  by (auto simp: open_section_def part_value_def)

lemma part_value_put: "put_option sec opt x ps = Inr ps' \<Longrightarrow>
    part_value ps' s o' = (if s = sec \<and> o' = opt then Some x else part_value ps s o')"
proof -
  assume "put_option sec opt x ps = Inr ps'"
  then obtain os where "map_of ps sec = Some (Options os)" "ps' = AList.update sec (Options (AList.update opt x os)) ps"
    by (auto simp: put_option_def split: option.splits part.splits)
  then show ?thesis by (cases "s = sec") (simp_all add: part_value_def)
qed

text \<open>What an option has after the values were put into the dictionary.\<close>

definition dict_value :: "'f type_env \<Rightarrow> 'f tval option \<Rightarrow> 'f tval option" where
  "dict_value E u =
     (case u of None \<Rightarrow> None
      | Some x \<Rightarrow> if py_true E x then (case joined x of Inr y \<Rightarrow> Some y | Inl e \<Rightarrow> None) else None)"

lemma put_value_part:
  assumes "put_value E v k ps = Inr ps'" and "dotless (sec, opt)"
  shows "part_value ps' sec opt =
    (if k = splice_compound sec opt \<and> dict_value E (map_of v k) \<noteq> None then dict_value E (map_of v k) else part_value ps sec opt)"
proof -
  from assms(1) obtain s o' where so: "split_compound_name k = Inr (s, o')"
      "(case map_of v k of
         None \<Rightarrow> Inr (open_section s ps)
       | Some x \<Rightarrow>
           if py_true E x then ebind (joined x) (\<lambda>y. put_option s o' y (open_section s ps))
           else Inr (open_section s ps)) = Inr ps'"
    by (auto simp: put_value_def ebind_Inr_iff)
  have k: "k = splice_compound sec opt \<longleftrightarrow> s = sec \<and> o' = opt"
    using so(1) split_compound_name_iff [OF assms(2), of k] by auto
  show ?thesis
  proof (cases "dict_value E (map_of v k)")
    case None
    with so(2) show ?thesis
      by (auto simp: dict_value_def ebind_Inr_iff part_value_open split: option.splits if_splits sum.splits)
  next
    case (Some y)
    with so(2) have "put_option s o' y (open_section s ps) = Inr ps'"
      by (auto simp: dict_value_def ebind_Inr_iff split: option.splits if_splits sum.splits)
    from part_value_put [OF this, of sec opt] Some k show ?thesis by (simp add: part_value_open)
  qed
qed

lemma put_values_part:
  assumes "fold_res (put_value E v) ks ps = Inr ps'" and "dotless (sec, opt)"
  shows "part_value ps' sec opt =
    (if splice_compound sec opt \<in> set ks \<and> dict_value E (map_of v (splice_compound sec opt)) \<noteq> None
     then dict_value E (map_of v (splice_compound sec opt)) else part_value ps sec opt)"
  using assms(1)
proof (induction ks arbitrary: ps)
  case (Cons k ks)
  then obtain ps1 where ps1: "put_value E v k ps = Inr ps1" "fold_res (put_value E v) ks ps1 = Inr ps'"
    by (auto simp: result_simps)
  from Cons.IH [OF ps1(2)] put_value_part [OF ps1(1) assms(2)] show ?case by auto
qed simp

lemma put_flag_part:
  assumes "put_flag sec v ps = Inr ps'" and "part_value ps s o' \<noteq> None"
  shows "part_value ps' s o' = part_value ps s o'"
proof -
  obtain opt x where v: "v = (opt, x)" by (cases v)
  from assms(1) consider "ps' = ps" | "ps' = open_section sec ps"
    | os where "map_of (open_section sec ps) sec = Some (Options os)" "map_of os opt = None"
        "put_option sec opt (VBool False) (open_section sec ps) = Inr ps'"
    by (auto simp: put_flag_def v split: if_splits option.splits part.splits)
  then show ?thesis
  proof cases
    case 3
    then have "part_value ps sec opt = None" using part_value_open [of sec ps sec opt] by (simp add: part_value_def)
    with part_value_put [OF 3(3), of s o'] assms(2) show ?thesis by (auto simp: part_value_open)
  qed (simp_all add: part_value_open)
qed

lemma put_flags_part:
  assumes "fold_res (put_flag sec) vars ps = Inr ps'" and "part_value ps s o' \<noteq> None"
  shows "part_value ps' s o' = part_value ps s o'"
  using assms
proof (induction vars arbitrary: ps)
  case (Cons v vars)
  then obtain ps1 where ps1: "put_flag sec v ps = Inr ps1" "fold_res (put_flag sec) vars ps1 = Inr ps'"
    by (auto simp: result_simps)
  have "part_value ps1 s o' = part_value ps s o'" using put_flag_part [OF ps1(1) Cons.prems(2)] .
  with Cons.IH [OF ps1(2)] Cons.prems(2) show ?case by simp
qed simp

lemma put_all_flags_part:
  assumes "fold_res (\<lambda>(sec, vars). fold_res (put_flag sec) vars) ds ps = Inr ps'" and "part_value ps s o' \<noteq> None"
  shows "part_value ps' s o' = part_value ps s o'"
  using assms
proof (induction ds arbitrary: ps)
  case (Cons sv ds)
  obtain sec vars where sv: "sv = (sec, vars)" by (cases sv)
  with Cons.prems(1) obtain ps1 where ps1: "fold_res (put_flag sec) vars ps = Inr ps1"
      "fold_res (\<lambda>(sec, vars). fold_res (put_flag sec) vars) ds ps1 = Inr ps'"
    by (auto simp: result_simps)
  have "part_value ps1 s o' = part_value ps s o'" using put_flags_part [OF ps1(1) Cons.prems(2)] .
  with Cons.IH [OF ps1(2)] Cons.prems(2) show ?case by simp
qed simp

lemma known_compound:
  assumes "known_compounds d secs = Inr ks" and "sec \<in> set secs" and "opt_def_of d sec opt = Some x"
  shows "splice_compound sec opt \<in> set ks"
proof -
  from assms(1) obtain xss where xss: "emap (\<lambda>sec. ebind (key_res (map_of (defs d)) sec) (\<lambda>vars.
       Inr (map (\<lambda>v. splice_compound sec (fst v)) vars))) secs = Inr xss" "ks = concat xss"
    by (auto simp: known_compounds_def ebind_Inr_iff)
  from assms(3) obtain vars where vars: "map_of (defs d) sec = Some vars" "(opt, x) \<in> set vars"
    by (auto simp: opt_def_of_def dest: map_of_SomeD split: Option.bind_splits)
  from assms(2) obtain i where i: "i < length secs" "secs ! i = sec" by (auto simp: in_set_conv_nth)
  define xs where "xs = xss ! i"
  from xss(1) i have "xs \<in> set xss" "ebind (key_res (map_of (defs d)) sec) (\<lambda>vars.
       Inr (map (\<lambda>v. splice_compound sec (fst v)) vars)) = Inr xs"
    by (auto simp: emap_Inr_iff list_all2_conv_all_nth xs_def)
  with vars have "splice_compound sec opt \<in> set xs" by (force simp: key_res_def)
  with xss(2) \<open>xs \<in> set xss\<close> show ?thesis by auto
qed

lemma build_dict_value:
  assumes "build_dict H d v = Inr ps" and "sec \<in> set (sections d)" and "opt_def_of d sec opt = Some x"
    and "dotless (sec, opt)" and "dict_value (type_env H) (map_of v (splice_compound sec opt)) = Some y"
  shows "part_value ps sec opt = Some y"
proof -
  from assms(1) obtain ks ps1 where ks: "known_compounds d (sections d) = Inr ks"
      "fold_res (put_value (type_env H) v) (filter (\<lambda>c. c \<in> set ks) (sort (map fst v)))
        (if with_config H then [(''config'', Plain (py_str (type_env H) (case map_of v ''config'' of None \<Rightarrow> VNone | Some x \<Rightarrow> x)))]
         else []) = Inr ps1"
      "fold_res (\<lambda>(sec, vars). fold_res (put_flag sec) vars) (defs d) ps1 = Inr ps"
    unfolding build_dict_def ebind_Inr_iff by blast
  have "map_of v (splice_compound sec opt) \<noteq> None" using assms(5) by (auto simp: dict_value_def split: option.splits)
  then have "splice_compound sec opt \<in> fst ` set v" by (simp add: map_of_eq_None_iff)
  with known_compound [OF ks(1) assms(2, 3)]
  have "splice_compound sec opt \<in> set (filter (\<lambda>c. c \<in> set ks) (sort (map fst v)))" by simp
  with put_values_part [OF ks(2) assms(4)] assms(5) have "part_value ps1 sec opt = Some y" by simp
  with put_all_flags_part [OF ks(3)] show ?thesis by simp
qed


section \<open>Commands of the client\<close>

lemma split_ws_word: "list_all (\<lambda>c. \<not> is_space c) w \<Longrightarrow> split_ws_aux acc (w @ s) = split_ws_aux (rev w @ acc) s"
  by (induction w arbitrary: acc) auto

lemma split_ws_aux_space: "split_ws_aux acc (s @ '' '' @ t) = split_ws_aux acc s @ split_ws t"
proof (induction s arbitrary: acc)
  case Nil
  have "is_space (CHR '' '')" by (simp add: is_space_def code_point_def)
  then show ?case by (simp add: split_ws_def)
qed (auto simp: split_ws_def)

lemma split_ws_space: "split_ws (s @ '' '' @ t) = split_ws s @ split_ws t"
  by (simp only: split_ws_def split_ws_aux_space)

lemma command_words: "split_ws ''allocate'' = [''allocate'']" "split_ws ''deallocate'' = [''deallocate'']" "split_ws ''info'' = [''info'']"
  by (simp_all add: split_ws_def is_space_def code_point_def)

text \<open>
  The command to allocate becomes an operation whose words are those of the directory and of the number of nodes:
  a directory with a blank in its name is taken apart again when the operation is run.
\<close>

theorem allocation_as_operation:
  assumes "map_of v ''hod.operation'' = Some VNone" and "map_of v ''hod.script'' = Some scr"
    and "map_of v ''hod.clusterdir'' = Some (VStr dir)" and "map_of v ''hod.nodecount'' = Some (VStr nodes)"
    and "dir \<noteq> []" and "nodes \<noteq> []"
  shows "\<exists>v' op. client_command H help (''allocate'' # args) v = Inr (v', None) \<and>
    map_of v' ''hod.operation'' = Some (VStr op) \<and> split_ws op = ''allocate'' # split_ws dir @ split_ws nodes"
proof -
  let ?op = "''allocate'' @ '' '' @ dir @ '' '' @ nodes"
  have "client_command H help (''allocate'' # args) v = Inr (set_operation ?op v, None)"
    using assms by (simp add: client_command_def attribute_def py_true_def Let_def hod_ops_def nothing_removed_def
        command_allocate_def string_of_def on_str_def)
  moreover have "map_of (set_operation ?op v) ''hod.operation'' = Some (VStr ?op)" by (simp add: set_operation_def)
  moreover have "split_ws ?op = split_ws ''allocate'' @ split_ws (dir @ '' '' @ nodes)" by (rule split_ws_space)
  then have "split_ws ?op = ''allocate'' # split_ws dir @ split_ws nodes"
    unfolding split_ws_space command_words by simp
  ultimately show ?thesis by blast
qed

lemma show_usage_page: "usage cmd = Inr u \<Longrightarrow> show_usage cmd = Inl (Exit 3 (Page u))"
  by (simp add: show_usage_def)

text \<open>
  The commands that need a cluster show their usage and end with 3 when no directory is given; what is no command
  ends with 2, and a command together with an operation too.
\<close>

theorem commands_refused:
  assumes "map_of v ''hod.operation'' = Some op" and "map_of v ''hod.script'' = Some scr"
    and "map_of v ''hod.clusterdir'' = Some VNone" and "map_of v ''hod.nodecount'' = Some nodes"
    and "map_of v ''hod.original-dir'' = Some dir"
  shows "(py_true (type_env H) op \<longrightarrow> (\<exists>s. client_command H help (cmd # args) v = Inl (Exit 2 s))) \<and>
    (\<not> py_true (type_env H) op \<and> cmd \<notin> set hod_ops \<longrightarrow> (\<exists>s. client_command H help (cmd # args) v = Inl (Exit 2 s))) \<and>
    (\<not> py_true (type_env H) op \<and> cmd \<in> {''allocate'', ''deallocate'', ''info'', ''script''} \<longrightarrow>
      (\<exists>u. usage cmd = Inr u \<and> client_command H help (cmd # args) v = Inl (Exit 3 (Page u))))"
proof (intro conjI impI)
  have all: "\<exists>s. show_all k = Inl (Exit k s)" for k
    by (simp add: show_all_def help_text_def)
  show "\<exists>s. client_command H help (cmd # args) v = Inl (Exit 2 s)" if "py_true (type_env H) op"
    using assms that by (simp add: client_command_def attribute_def complain_def)
  show "\<exists>s. client_command H help (cmd # args) v = Inl (Exit 2 s)" if "\<not> py_true (type_env H) op \<and> cmd \<notin> set hod_ops"
    using assms that all [of 2] by (simp add: client_command_def attribute_def)
  assume cmd: "\<not> py_true (type_env H) op \<and> cmd \<in> {''allocate'', ''deallocate'', ''info'', ''script''}"
  then obtain u where u: "usage cmd = Inr u" by (auto simp: usage_def usage_strings_def key_res_def)
  have none: "\<not> py_true (type_env H) VNone" by (simp add: py_true_def)
  have "nothing_removed (show_usage cmd) = Inl (Exit 3 (Page u))" by (simp add: nothing_removed_def show_usage_page [OF u])
  with cmd assms none show_usage_page [OF u] have "client_command H help (cmd # args) v = Inl (Exit 3 (Page u))"
    by (auto simp: client_command_def attribute_def hod_ops_def command_allocate_def command_on_cluster_def
        command_script_def)
  with u show "\<exists>u. usage cmd = Inr u \<and> client_command H help (cmd # args) v = Inl (Exit 3 (Page u))" by blast
qed

section \<open>The configuration file\<close>

text \<open>
  Once the original directory is known, the default location of the configuration file is never looked at: the
  path has a slash by then.
\<close>

theorem default_location_unused:
  assumes "map_of v ''hod.original-dir'' = Some (VStr dir)" and "dir \<noteq> []"
  shows "locate_config H v = locate_config (H\<lparr>default_location := loc\<rparr>) v"
proof -
  have slash: "CHR ''/'' \<in> set (path_join dir f)" for f
  proof (cases "startswith f ''/''")
    case True
    then show ?thesis by (cases f) (auto simp: path_join_def startswith_def)
  next
    case False
    moreover have "last dir = CHR ''/'' \<Longrightarrow> CHR ''/'' \<in> set dir" using assms(2) last_in_set [of dir] by metis
    ultimately show ?thesis using assms(2) by (auto simp: path_join_def)
  qed
  have abs: "startswith f ''/'' \<Longrightarrow> CHR ''/'' \<in> set f" for f by (cases f) (auto simp: startswith_def)
  show ?thesis
    using assms(1) slash abs
    by (auto simp: locate_config_def from_original_def hbind_def split: sum.splits option.splits)
qed

section \<open>Instances\<close>

definition ring_env :: "int opt_env" where
  "ring_env = \<lparr>type_env = bare_env, there = (\<lambda>p. False), user_dir = (\<lambda>d. d), cwd_of = ''/'',
     argv = [''--hod.port'', ''81''], program = ''ringmaster'', program_version = ''1'', with_config = False,
     default_config = VNone, default_location = None\<rparr>"

definition port_option :: "int popt" where
  "port_option = \<lparr>po_shorts = [''-p''], po_longs = [''--hod.port''], po_dest = Some ''hod.port'', po_action = Store,
     po_metavar = ''tcp_port'', po_default = VNone\<rparr>"

definition ring_parser :: "int optparser" where
  "ring_parser =
     \<lparr>option_list =
        [\<lparr>po_shorts = [''-h''], po_longs = [''--help''], po_dest = None, po_action = ShowHelp, po_metavar = [], po_default = VNone\<rparr>,
         \<lparr>po_shorts = [], po_longs = [''--verbose-help''], po_dest = None, po_action = ShowHelp, po_metavar = ''flag'', po_default = VNone\<rparr>,
         \<lparr>po_shorts = [''-v''], po_longs = [''--version''], po_dest = None, po_action = ShowVersion, po_metavar = ''flag'', po_default = VNone\<rparr>,
         port_option],
      option_groups = []\<rparr>"

lemma ring_short_map: "build_short_map bare_env False port_defs [''hod.port''] = Inr [(''hod.port'', CHR ''p'')]"
  by code_simp

lemma ring_parser_built: "build_parser ring_env port_defs = Inr ring_parser"
  by code_simp

lemma short_letters_distinct_witness:
  "distinct (map snd [(''hod.port'', CHR ''p'')]) \<and>
    list_all (\<lambda>c. c \<in> set alphaString \<and> VStr [c] \<notin> set (assigned_options bare_env port_defs) \<and>
      c \<notin> {CHR ''h'', CHR ''v''} \<and> (if False then c \<noteq> CHR ''c'' else True)) (map snd [(''hod.port'', CHR ''p'')])"
  by (rule short_letters_distinct) (rule ring_short_map)

lemma last_letter_wins_witness:
  "(\<exists>us vs. ''ab'' = us @ CHR ''b'' # vs \<and> list_all (\<lambda>c. \<not> free_letter False [] c) vs) \<and>
    CHR ''w'' \<notin> set (gen_alpha bare_env port_defs)"
proof (rule last_letter_wins)
  show "short_step bare_env False port_defs ''ab'' ''hod'' ''port'' [] = Inr [(''hod.port'', CHR ''b'')]" by code_simp
  show "own_letter False ''ab'' [] ''port'' = None" by code_simp
qed (simp_all add: splice_compound_def)

definition printed_port :: printed where
  "printed_port = (''hod'', ''port'', Some ''81'')"

lemma port_printable: "list_all (printable port_defs) [printed_port]" "distinct (map printed_name [printed_port])"
  by (simp_all add: printable_def printed_port_def printed_name_def splice_compound_def dotless_def action_of_def
      list_options_def port_def_def def_of_def port_tuple_def)

lemma printed_options_read_witness:
  "\<exists>v. parse_args (Page ''help'') ''1'' ring_parser (concat (map printed_words [printed_port])) = Inr ([], v) \<and>
    (\<forall>g \<in> set [printed_port]. \<exists>y. map_of v (printed_name g) = Some y \<and> joined y = Inr (printed_value g))"
  by (rule printed_options_read [OF ring_parser_built port_printable])

lemma ring_options: "options ring_env port_defs None =
    Inr ((baseConfig port_defs None)\<lparr>dict := [(''hod'', Options [(''port'', VStr ''81'')])]\<rparr>, [(''hod.port'', VStr ''81'')], [], None)"
  by code_simp


definition typed_values :: "int pvalues" where
  "typed_values = [(''hod.operation'', VNone), (''hod.script'', VNone), (''hod.clusterdir'', VStr ''my dir''),
     (''hod.nodecount'', VStr ''3''), (''hod.original-dir'', VStr ''/home'')]"

lemma allocation_as_operation_witness:
  "\<exists>v' op. client_command ring_env (Page ''help'') (''allocate'' # []) typed_values = Inr (v', None) \<and>
    map_of v' ''hod.operation'' = Some (VStr op) \<and> split_ws op = ''allocate'' # split_ws ''my dir'' @ split_ws ''3''"
  by (rule allocation_as_operation [where scr = VNone]) (simp_all add: typed_values_def)

lemma commands_refused_witness:
  "(py_true (type_env ring_env) VNone \<longrightarrow>
      (\<exists>s. client_command ring_env (Page ''help'') (''info'' # []) (AList.update ''hod.clusterdir'' VNone typed_values) = Inl (Exit 2 s))) \<and>
    (\<not> py_true (type_env ring_env) VNone \<and> ''info'' \<notin> set hod_ops \<longrightarrow>
      (\<exists>s. client_command ring_env (Page ''help'') (''info'' # []) (AList.update ''hod.clusterdir'' VNone typed_values) = Inl (Exit 2 s))) \<and>
    (\<not> py_true (type_env ring_env) VNone \<and> ''info'' \<in> {''allocate'', ''deallocate'', ''info'', ''script''} \<longrightarrow>
      (\<exists>u. usage ''info'' = Inr u \<and>
        client_command ring_env (Page ''help'') (''info'' # []) (AList.update ''hod.clusterdir'' VNone typed_values) =
          Inl (Exit 3 (Page u))))"
  by (rule commands_refused [where scr = VNone and nodes = "VStr ''3''" and dir = "VStr ''/home''"])
    (simp_all add: typed_values_def)

lemma default_location_unused_witness:
  "locate_config ring_env typed_values = locate_config (ring_env\<lparr>default_location := Some ''/etc''\<rparr>) typed_values"
  by (rule default_location_unused [where dir = "''/home''"]) (simp_all add: typed_values_def)

end
