(* ===== verification/Hod_Cluster_Facts.thy ===== *)
theory Hod_Cluster_Facts
  imports Hod_Cluster
begin

text \<open>
  Allocating a cluster does not leak jobs: what fails after a job was submitted deletes the job or stops its ring
  master. The proofs use \<open>keeps\<close> for invariants of the session and \<open>post\<close> for what holds of
  the outcome and the session it leaves.
\<close>

section \<open>Invariants of the session\<close>

text \<open>Invariants that do not look at the world and the pool.\<close>

definition inner_only :: "('w session \<Rightarrow> bool) \<Rightarrow> bool" where
  "inner_only I \<longleftrightarrow> (\<forall>s w p. I s \<longrightarrow> I (s\<lparr>world := w, npool := p\<rparr>))"

lemma inner_onlyD: "inner_only I \<Longrightarrow> I s \<Longrightarrow> I (s\<lparr>world := w\<rparr>)" "inner_only I \<Longrightarrow> I s \<Longrightarrow> I (s\<lparr>npool := p\<rparr>)"
    "inner_only I \<Longrightarrow> I s \<Longrightarrow> I (s\<lparr>world := w, npool := p\<rparr>)"
proof -
  assume I: "inner_only I" "I s"
  then have "I (s\<lparr>world := w, npool := npool s\<rparr>)" "I (s\<lparr>world := world s, npool := p\<rparr>)"
    unfolding inner_only_def by blast+
  then show "I (s\<lparr>world := w\<rparr>)" "I (s\<lparr>npool := p\<rparr>)" by simp_all
  show "I (s\<lparr>world := w, npool := p\<rparr>)" using I unfolding inner_only_def by blast
qed

lemma keeps_calls [keeps_rules]:
  "inner_only I \<Longrightarrow> keeps I (calls f)" "inner_only I \<Longrightarrow> keeps I (calls_pool g)" "inner_only I \<Longrightarrow> keeps I (request N c)"
  "inner_only I \<Longrightarrow> keeps I (new_set k i)"
  by (simp_all add: keeps_def calls_def calls_pool_def request_def new_set_def inner_onlyD split: prod.split)

lemma keeps_check_interrupt [keeps_rules]: "inner_only I \<Longrightarrow> keeps I (check_interrupt N)"
  by (auto simp: check_interrupt_def intro!: keeps_rules)

lemma keeps_ask_state [keeps_rules]: "inner_only I \<Longrightarrow> keeps I (ask_state N)"
  by (auto simp: ask_state_def intro!: keeps_rules)

lemma keeps_job_status_loop: "inner_only I \<Longrightarrow> keeps I (job_status_loop N cfg n failures status)"
proof (induction n arbitrary: failures status)
  case (Suc n)
  then show ?case
    by (auto simp: Let_def split: option.split prod.split intro!: keeps_rules)
qed (auto intro: keeps_rules)

lemma keeps_check_job_status [keeps_rules]: "inner_only I \<Longrightarrow> keeps I (check_job_status N cfg n)"
  by (simp add: check_job_status_def keeps_job_status_loop)

lemma keeps_ringmaster_loop: "inner_only I \<Longrightarrow> keeps I (ringmaster_loop N cfg n k)"
  by (induction k) (auto intro!: keeps_rules)

lemma keeps_get_ringmaster [keeps_rules]: "inner_only I \<Longrightarrow> keeps I (get_ringmaster_client N cfg n)"
  by (auto simp: get_ringmaster_client_def keeps_ringmaster_loop intro!: keeps_rules)

lemma keeps_addr_loop: "inner_only I \<Longrightarrow> keeps I (addr_loop N cfg n url name k addr)"
  by (induction k arbitrary: addr) (auto intro!: keeps_rules)

lemma keeps_init_service [keeps_rules]: "inner_only I \<Longrightarrow> keeps I (init_hadoop_service N cfg n name url)"
  by (auto simp: init_hadoop_service_def remember_addr_def keeps_addr_loop split: prod.split intro!: keeps_rules)

section \<open>Which events an action logs\<close>

text \<open>No job is submitted but \<open>j\<close>.\<close>

definition only_job :: "string \<Rightarrow> 'w session \<Rightarrow> bool" where
  "only_job j s \<longleftrightarrow> (\<forall>i. Submitted i \<in> set (history s) \<longrightarrow> i = j)"

lemma only_job_inner [simp]: "inner_only (only_job j)"
  by (simp add: inner_only_def only_job_def)

lemma keeps_updates [keeps_rules]:
  "keeps (only_job j) (updates (\<lambda>s. s\<lparr>hdfsInfo := h\<rparr>))" "keeps (only_job j) (updates (\<lambda>s. s\<lparr>mapredInfo := h\<rparr>))"
  "keeps (only_job j) (updates (\<lambda>s. s\<lparr>ringmasterXRS := h\<rparr>))" "keeps (only_job j) (updates (\<lambda>s. s\<lparr>written := f s\<rparr>))"
  "keeps (only_job j) (logs (Deleted i))" "keeps (only_job j) (logs (StoppedRM u))"
  by (simp_all add: keeps_def updates_def logs_def only_job_def)

lemma keeps_delete_job [keeps_rules]: "keeps (only_job j) (delete_job N i)"
  by (auto simp: delete_job_def intro!: keeps_rules)

lemma keeps_stop_ringmaster [keeps_rules]: "keeps (only_job j) (stop_ringmaster N url)"
  by (auto simp: stop_ringmaster_def intro!: keeps_rules)

lemma keeps_update_worker_info [keeps_rules]: "keeps (only_job j) (update_worker_info N cfg url addr)"
  by (auto simp: update_worker_info_def split: prod.split intro!: keeps_rules)

lemma keeps_write_site [keeps_rules]: "keeps (only_job j) (write_site N cfg dir nodes hdfs mapred)"
  by (auto simp: write_site_def Let_def intro!: keeps_rules)

lemma keeps_bring_up [keeps_rules]: "keeps (only_job j) (bring_up N cfg n dir nodes url)"
  by (auto simp: bring_up_def split: prod.split intro!: keeps_rules)

lemma keeps_with_job: "keeps (only_job j) (with_job N cfg n dir nodes i)"
  by (auto simp: with_job_def after_start_def run_cluster_def Let_def split: job_status.split bool.split intro!: keeps_rules)

section \<open>Jobs are released\<close>

definition released :: "string \<Rightarrow> 'w session \<Rightarrow> bool" where
  "released j s \<longleftrightarrow> list_ex (\<lambda>e. case e of Deleted i \<Rightarrow> i = j | StoppedRM u \<Rightarrow> True | Submitted i \<Rightarrow> False) (history s)"

lemma released_inner [simp]: "inner_only (released j)"
  by (simp add: inner_only_def released_def)

text \<open>A failure other than a job without a state, and an interrupt, leave the job released.\<close>

definition failed :: "nat out \<Rightarrow> bool" where
  "failed r \<longleftrightarrow> (case r of Ret st \<Rightarrow> st \<noteq> 0 \<and> st \<noteq> 5 | Raise e \<Rightarrow> e = interrupt | Diverge \<Rightarrow> False)"

definition clean :: "string \<Rightarrow> nat out \<Rightarrow> 'w session \<Rightarrow> bool" where
  "clean j r s \<longleftrightarrow> (failed r \<longrightarrow> released j s)"

text \<open>An action that ends with the job released, whatever its outcome, and one that follows a release.\<close>

definition releases :: "string \<Rightarrow> ('w, 'a) act \<Rightarrow> bool" where
  "releases j m \<longleftrightarrow> (\<forall>s. released j (fst (m s)))"

lemma releases_andthen:
  assumes "releases j m" and "\<And>a. keeps (released j) (f a)"
  shows "releases j (andthen m f)"
  unfolding releases_def
proof
  fix s
  obtain s1 r where m: "m s = (s1, r)" by (cases "m s")
  then have "released j s1" using assms(1) by (metis releases_def fst_conv)
  then show "released j (fst (andthen m f s))"
    using assms(2) m by (cases r) (simp_all add: andthen_def keeps_def)
qed

lemma releases_logs: "releases j (logs (Deleted j))" "releases j (logs (StoppedRM u))"
  by (simp_all add: releases_def logs_def updates_def released_def)

lemma releases_delete: "releases j (delete_job N j)"
  unfolding delete_job_def by (intro releases_andthen releases_logs keeps_rules) simp

lemma releases_stop: "releases j (stop_ringmaster N url)"
  unfolding stop_ringmaster_def by (intro releases_andthen releases_logs keeps_rules) simp

lemma releases_clean: "releases j m \<Longrightarrow> post m (clean j)"
  by (simp add: releases_def post_def clean_def)

lemma clean_after_release:
  "releases j m \<Longrightarrow> (\<And>a. keeps (released j) (f a)) \<Longrightarrow> post (andthen m f) (clean j)"
  by (intro releases_clean releases_andthen)

lemma clean_returns: "st = 0 \<or> st = 5 \<Longrightarrow> post (returns st) (clean j)"
  by (auto simp: post_def returns_def clean_def failed_def)

lemma clean_raises: "e \<noteq> interrupt \<Longrightarrow> post (raises e) (clean j)"
  by (auto simp: post_def raises_def clean_def failed_def)

lemma clean_run_cluster:
  "run_cluster N cfg n dir nodes url s = (s', Ret st) \<Longrightarrow> clean j (Ret st) s'"
  using releases_stop [of j N url]
  by (auto simp: run_cluster_def andthen_def clean_def failed_def releases_def returns_def
      split: prod.splits out.splits if_splits) (metis fst_conv)+

lemma no_failure: "clean j Diverge s" "e \<noteq> interrupt \<Longrightarrow> clean j (Raise e) s"
  by (simp_all add: clean_def failed_def)

text \<open>Interrupts that leave an action find the job released.\<close>

definition safe_interrupts :: "string \<Rightarrow> ('w, 'a) act \<Rightarrow> bool" where
  "safe_interrupts j m \<longleftrightarrow> (\<forall>s. snd (m s) = Raise interrupt \<longrightarrow> released j (fst (m s)))"

lemma safe_releases: "releases j m \<Longrightarrow> safe_interrupts j m"
  by (simp add: safe_interrupts_def releases_def)

lemma safe_basic: "safe_interrupts j (returns a)" "safe_interrupts j (asks f)" "e \<noteq> interrupt \<Longrightarrow> safe_interrupts j (raises e)"
  by (simp_all add: safe_interrupts_def returns_def asks_def raises_def)

lemma safe_andthen:
  assumes "safe_interrupts j m" and "\<And>a. safe_interrupts j (f a)"
  shows "safe_interrupts j (andthen m f)"
  unfolding safe_interrupts_def
proof
  fix s
  obtain s1 r where m: "m s = (s1, r)" by (cases "m s")
  then show "snd (andthen m f s) = Raise interrupt \<longrightarrow> released j (fst (andthen m f s))"
    using assms by (cases r) (auto simp: andthen_def safe_interrupts_def dest!: spec [of _ s])
qed

lemma safe_catching: "(\<And>e. safe_interrupts j (h e)) \<Longrightarrow> safe_interrupts j (catching m h)"
  by (simp add: safe_interrupts_def catching_def split: prod.split out.split)

lemma clean_andthen:
  assumes "safe_interrupts j m" and "\<And>a. post (f a) (clean j)"
  shows "post (andthen m f) (clean j)"
  unfolding post_def
proof
  fix s
  obtain s1 r where m: "m s = (s1, r)" by (cases "m s")
  then show "clean j (snd (andthen m f s)) (fst (andthen m f s))"
    using assms(2) spec [OF assms(1) [unfolded safe_interrupts_def], of s]
    by (cases r) (simp_all add: andthen_def post_def clean_def failed_def)
qed

lemma safe_delete_raise: "safe_interrupts j (andthen (delete_job N j) (\<lambda>_. raises e))"
  by (intro safe_releases releases_andthen releases_delete keeps_rules)

lemma clean_after_start: "post (after_start N cfg n dir nodes j) (clean j)"
proof -
  have cluster: "post (catching (run_cluster N cfg n dir nodes url)
      (\<lambda>e. if e = interrupt then andthen (stop_ringmaster N url) (\<lambda>_. raises e) else raises e)) (clean j)" for url
    by (rule post_catching)
      (auto simp: no_failure intro: clean_run_cluster clean_after_release releases_stop keeps_rules clean_raises)
  have gone: "post (andthen (delete_job N j) (\<lambda>_. returns 6)) (clean j)"
    by (intro clean_after_release releases_delete keeps_rules)
  show ?thesis
    unfolding after_start_def Let_def
  proof (intro clean_andthen)
    show "safe_interrupts j (catching (get_ringmaster_client N cfg n)
       (\<lambda>e. if e = interrupt then andthen (asks ringmasterXRS) (\<lambda>old.
              if old \<noteq> None \<and> old \<noteq> Some [] then raises UnboundLocalError else andthen (delete_job N j) (\<lambda>_. raises e))
            else raises e))"
      by (auto intro!: safe_catching safe_andthen safe_basic safe_delete_raise)
    show "safe_interrupts j (updates (\<lambda>s. s\<lparr>ringmasterXRS := xrs\<rparr>))" for xrs
      by (simp add: safe_interrupts_def updates_def)
  qed (auto simp: cluster gone)
qed

lemma clean_with_job: "post (with_job N cfg n dir nodes j) (clean j)"
  unfolding with_job_def
proof (rule clean_andthen)
  show "safe_interrupts j (catching (check_job_status N cfg n)
      (\<lambda>e. if e = interrupt then andthen (delete_job N j) (\<lambda>_. raises e) else raises e))"
    by (auto intro!: safe_catching safe_basic safe_delete_raise)
  fix st
  show "post (case st of JobNever \<Rightarrow> andthen (delete_job N j) (\<lambda>_. returns 4)
      | JobStatus True \<Rightarrow> after_start N cfg n dir nodes j | JobStatus False \<Rightarrow> returns 5) (clean j)"
    by (auto simp: clean_after_start clean_returns split: job_status.split bool.split
        intro!: clean_after_release releases_delete keeps_rules)
qed

section \<open>Allocation as a whole\<close>

definition nothing_submitted :: "'w session \<Rightarrow> bool" where
  "nothing_submitted s \<longleftrightarrow> list_all (\<lambda>e. case e of Submitted i \<Rightarrow> False | _ \<Rightarrow> True) (history s)"

text \<open>What was submitted is the job of the session.\<close>

definition tracked :: "'w session \<Rightarrow> bool" where
  "tracked s \<longleftrightarrow> list_all (\<lambda>e. case e of Submitted i \<Rightarrow> jobId s = JobId i | _ \<Rightarrow> True) (history s)"

lemma nothing_tracked: "nothing_submitted s \<Longrightarrow> tracked s"
  by (auto simp: nothing_submitted_def tracked_def list_all_iff split: event.splits)

lemma tracked_nothing: "tracked s \<Longrightarrow> jobId s = JobFalse \<Longrightarrow> nothing_submitted s"
  by (auto simp: nothing_submitted_def tracked_def list_all_iff split: event.splits)

lemma tracked_inner [simp]: "inner_only tracked"
  by (simp add: inner_only_def tracked_def)

lemma submit_job_tracked: "nothing_submitted s \<Longrightarrow> tracked (fst (submit_job N cfg ns s))"
  by (auto simp: submit_job_def andthen_def calls_pool_def updates_def logs_def returns_def tracked_def
      nothing_submitted_def list_all_iff split: prod.split out.split job_id.split event.splits)

lemma submit_loop_tracked: "tracked s \<Longrightarrow> tracked (fst (submit_loop N cfg ns k code s))"
proof (induction k arbitrary: code s)
  case 0
  have "keeps tracked (submit_loop N cfg ns 0 code)"
    by (subst submit_loop.simps) (auto intro!: keeps_rules)
  with 0 show ?case by (simp add: keeps_def)
next
  case (Suc k)
  have quiet: "tracked (fst (check_interrupt N t))" if "tracked t" for t
    using keeps_check_interrupt [of tracked N] that by (simp add: keeps_def)
  have job: "jobId (fst (check_interrupt N t)) = jobId t" for t
    by (simp add: check_interrupt_def andthen_def calls_def raises_def returns_def split: prod.split)
  show ?case
  proof (cases "jobId s \<noteq> JobFalse \<or> code = 188 \<or> k = 0")
    case True
    then show ?thesis
      using Suc.prems quiet [of s]
      by (subst submit_loop.simps)
        (auto simp: andthen_def [of "asks jobId"] asks_def returns_def andthen_def split: prod.split out.split)
  next
    case False
    then obtain k' where k: "k = Suc k'" by (cases k) auto
    obtain s1 r1 where 1: "check_interrupt N s = (s1, r1)" by (cases "check_interrupt N s")
    obtain s2 r2 where 2: "check_interrupt N s1 = (s2, r2)" by (cases "check_interrupt N s1")
    obtain s3 r3 where 3: "submit_job N cfg ns s2 = (s3, r3)" by (cases "submit_job N cfg ns s2")
    have t: "tracked s1" "tracked s2" "jobId s2 = JobFalse"
      using 1 2 quiet [of s] quiet [of s1] job [of s] job [of s1] Suc.prems False by auto
    then have "tracked s3" using submit_job_tracked [OF tracked_nothing, of s2 N cfg ns] 3 by simp
    then show ?thesis
      using t 1 2 3 k False Suc.IH
      by (subst submit_loop.simps)
        (auto simp: asks_def andthen_def split: out.split)
  qed
qed

lemma with_job_clean: "with_job N cfg n dir nodes j s = (s', r) \<Longrightarrow> clean j r s'"
proof -
  assume w: "with_job N cfg n dir nodes j s = (s', r)"
  have "post (with_job N cfg n dir nodes j) (clean j)" by (rule clean_with_job)
  then have "clean j (snd (with_job N cfg n dir nodes j s)) (fst (with_job N cfg n dir nodes j s))"
    unfolding post_def by (rule spec)
  with w show ?thesis by simp
qed

lemma request_history: "request N c s = (s', r) \<Longrightarrow> history s' = history s"
  by (auto simp: request_def split: prod.splits)



section \<open>What success leaves\<close>

lemma reraised: "snd ((if e = interrupt then andthen m (\<lambda>_. raises e) else raises e) s1) \<noteq> Ret a"
  by (simp add: never_returns)

lemma write_site_Ret:
  "write_site N cfg dir nodes hdfs mapred s = (s', Ret u) \<Longrightarrow>
     written s' \<noteq> [] \<and> fst (last (written s')) = path_join dir ''hadoop-site.xml''"
  by (auto simp: write_site_def andthen_Ret Let_def updates_def raises_def gen_site_conf_def split: if_splits)

lemma bring_up_Ret:
  "bring_up N cfg n dir nodes url s = (s', Ret 0) \<Longrightarrow>
     written s' \<noteq> [] \<and> fst (last (written s')) = path_join dir ''hadoop-site.xml''"
  by (auto simp: bring_up_def andthen_Ret returns_def dest: write_site_Ret split: prod.splits if_splits)

lemma run_cluster_Ret:
  "run_cluster N cfg n dir nodes url s = (s', Ret 0) \<Longrightarrow>
     written s' \<noteq> [] \<and> fst (last (written s')) = path_join dir ''hadoop-site.xml''"
  by (auto simp: run_cluster_def andthen_Ret returns_def dest: bring_up_Ret split: if_splits)

lemma after_start_Ret:
  assumes "after_start N cfg n dir nodes j s = (s', Ret 0)"
  shows "written s' \<noteq> [] \<and> fst (last (written s')) = path_join dir ''hadoop-site.xml''"
proof -
  have "\<exists>url t. catching (run_cluster N cfg n dir nodes url)
      (\<lambda>e. if e = interrupt then andthen (stop_ringmaster N url) (\<lambda>_. raises e) else raises e) t = (s', Ret 0)"
    using assms by (auto simp: after_start_def andthen_Ret Let_def returns_def split: if_splits)
  then obtain url t where "catching (run_cluster N cfg n dir nodes url)
      (\<lambda>e. if e = interrupt then andthen (stop_ringmaster N url) (\<lambda>_. raises e) else raises e) t = (s', Ret 0)"
    by blast
  then have "run_cluster N cfg n dir nodes url t = (s', Ret 0)"
    by (rule catching_Ret) (rule reraised)
  then show ?thesis by (rule run_cluster_Ret)
qed

lemma allocation_site:
  assumes "allocate N cfg n clusterDir nodes s = (s', Ret 0)"
  shows "written s' \<noteq> [] \<and> fst (last (written s')) = path_join clusterDir ''hadoop-site.xml''"
proof -
  have "nodes \<ge> 3" using assms by (auto simp: allocate_def returns_def split: if_splits)
  then obtain s3 s4 st where
    mid: "(case jobId s3 of JobId i \<Rightarrow> if i = [] then returns 4 else with_job N cfg n clusterDir nodes i
        | _ \<Rightarrow> returns 4) s3 = (s4, Ret st)"
    and last: "(if st = 5 \<or> st = 6 then andthen (request N (rpc_errors N)) (\<lambda>_. returns st) else returns st) s4 =
        (s', Ret 0)"
    using assms by (auto simp: allocate_def andthen_Ret asks_def)
  have st: "st = 0" "s4 = s'" using last by (auto simp: andthen_Ret returns_def split: if_splits)
  obtain i where "with_job N cfg n clusterDir nodes i s3 = (s', Ret 0)"
    using mid st by (cases "jobId s3") (auto simp: returns_def split: if_splits)
  then obtain t j where "(case j of JobNever \<Rightarrow> andthen (delete_job N i) (\<lambda>_. returns 4)
      | JobStatus True \<Rightarrow> after_start N cfg n clusterDir nodes i | JobStatus False \<Rightarrow> returns 5) t = (s', Ret 0)"
    unfolding with_job_def andthen_Ret by blast
  then have "after_start N cfg n clusterDir nodes i t = (s', Ret 0)"
    by (cases j) (auto simp: andthen_Ret returns_def split: bool.splits)
  then show ?thesis by (rule after_start_Ret)
qed

section \<open>The state of a job\<close>

lemma queued_round:
  assumes "interrupted N (world s) = (w1, False)" and "ask_state N (s\<lparr>world := w1\<rparr>) = (s2, Ret (QStr ''Q''))"
    and "find_usage N = Some search" and "isJobFeasible search (npool s2) = Inr (Feasible, msg)"
  shows "job_status_loop N cfg (Suc n) failures status s = job_status_loop N cfg n failures True s2"
  using assms
  by (simp add: check_interrupt_def andthen_def calls_def returns_def asks_def outcome_def)

lemma completed_round:
  assumes "interrupted N (world s) = (w1, False)" and "ask_state N (s\<lparr>world := w1\<rparr>) = (s2, Ret (QStr ''C''))"
  shows "job_status_loop N cfg (Suc n) failures status s = (s2, Ret (JobStatus status))"
  using assms
  by (simp add: check_interrupt_def andthen_def calls_def returns_def final_status_def)

text \<open>
  The answer to the question about limits survives the loop: a job that was found feasible while it was queued, and
  is found completed when it is asked for again, is reported as running.
\<close>

theorem completed_after_feasible:
  assumes "find_usage N = Some search"
    and "interrupted N (world s) = (w1, False)" and "ask_state N (s\<lparr>world := w1\<rparr>) = (s2, Ret (QStr ''Q''))"
    and "isJobFeasible search (npool s2) = Inr (Feasible, msg)"
    and "interrupted N (world s2) = (w3, False)" and "ask_state N (s2\<lparr>world := w3\<rparr>) = (s4, Ret (QStr ''C''))"
  shows "check_job_status N cfg (Suc (Suc n)) s = (s4, Ret (JobStatus True))"
  unfolding check_job_status_def
  by (simp only: queued_round [OF assms(2, 3, 1, 4)] completed_round [OF assms(5, 6)])

section \<open>The theorems at concrete clusters\<close>

text \<open>
  A batch system that accepts the job \<open>7\<close> and runs it at once, a registry that knows the ring masters \<open>rms\<close>, and a
  ring master whose services are up; \<open>stop\<close> tells whether the user interrupts.
\<close>

definition sample_outside :: "bool \<Rightarrow> string list \<Rightarrow> string \<Rightarrow> unit outside" where
  "sample_outside stop rms state =
     \<lparr>sys = (\<lambda>cmd inp w. (w, \<lparr>exit_code = 0, printed = [if inp = [] then ''job_state = '' @ state else ''7''],
        stdin_broken = False\<rparr>)),
      interrupted = (\<lambda>w. (w, stop)), find_usage = None, pbs_jobid = None,
      rpc_ringmasters = (\<lambda>w. (w, Some rms)), rpc_register = (\<lambda>j name info w. (w, Some ())),
      rpc_errors = (\<lambda>w. (w, Some [])), rpc_addr = (\<lambda>url name w. (w, Some ''a:9'')),
      rpc_urls = (\<lambda>url name w. (w, Some ''a:10'')), rpc_stop = (\<lambda>url w. (w, Some ())),
      connects = (\<lambda>hp w. (w, True)), makes_dir = (\<lambda>dir w. (w, True)), writes_file = (\<lambda>f w. (w, True)),
      removes_tree = (\<lambda>dir w. w)\<rparr>"

definition sample_pool :: pool where
  "sample_pool =
     \<lparr>nodeSetDict = [], nextNodeSetId = 0, jobInfo = None, pool_attrs = [],
      pool_torque = \<lparr>tq_qsub = ''qsub'', tq_qdel = ''qdel'', tq_qstat = ''qstat'', tq_pbsdsh = ''pbsdsh'', tq_qalter = ''qalter''\<rparr>,
      pbs_user = None, pbs_queue = None, pbs_account = None, env_vars = None, pool_title = ''t'', base_dir = ''/hod''\<rparr>"

definition sample_session :: "unit session" where
  "sample_session =
     \<lparr>world = (), npool = sample_pool, jobId = JobFalse, hdfsInfo = None, mapredInfo = None, ringmasterXRS = None,
      history = [], written = []\<rparr>"

definition sample_cfg :: cluster_cfg where
  "sample_cfg =
     \<lparr>query_retries = 3, query_interval = 2, wait_time = 0, walltime_opt = None, update_info = False,
      client_params = None, mapred_params = None, hdfs_params = None, mapred_final = None, hdfs_final = None,
      other_keyvals = [], reduces_of = (\<lambda>k. k), temp_dir = ''/t'', cl_userid = ''u'', sysdir_root = ''/s'',
      ringmaster_args = []\<rparr>"

lemmas sample_defs = sample_outside_def sample_pool_def sample_session_def sample_cfg_def

definition sample_end :: "string list \<Rightarrow> unit session" where
  "sample_end rms = fst (allocate (sample_outside False rms ''R'') sample_cfg 3 ''/c'' 3 sample_session)"

lemma no_ringmaster:
  "allocate (sample_outside False [] ''R'') sample_cfg 3 ''/c'' 3 sample_session = (sample_end [], Ret 6)"
  "history (sample_end []) = [Submitted ''7'', Deleted ''7'']"
  by code_simp+



text \<open>A batch system where the job is queued when it is first asked for, and completed when it is asked again.\<close>

definition turning_outside :: "nat outside" where
  "turning_outside =
     \<lparr>sys = (\<lambda>cmd inp w. (Suc w, \<lparr>exit_code = 0,
        printed = [if inp = [] then (if w = 0 then ''job_state = Q'' else ''job_state = C'') else ''7''],
        stdin_broken = False\<rparr>)),
      interrupted = (\<lambda>w. (w, False)), find_usage = Some find_limits, pbs_jobid = None,
      rpc_ringmasters = (\<lambda>w. (w, Some [])), rpc_register = (\<lambda>j name info w. (w, Some ())),
      rpc_errors = (\<lambda>w. (w, Some [])), rpc_addr = (\<lambda>url name w. (w, Some ''a:9'')),
      rpc_urls = (\<lambda>url name w. (w, Some ''a:10'')), rpc_stop = (\<lambda>url w. (w, Some ())),
      connects = (\<lambda>hp w. (w, True)), makes_dir = (\<lambda>dir w. (w, True)), writes_file = (\<lambda>f w. (w, True)),
      removes_tree = (\<lambda>dir w. w)\<rparr>"

definition turning_session :: "nat \<Rightarrow> nat session" where
  "turning_session k =
     \<lparr>world = k, npool = (if k = 0 then sample_pool
        else sample_pool\<lparr>jobInfo := Some [(''job_state'', QStr (if k = 1 then ''Q'' else ''C''))]\<rparr>),
      jobId = JobId ''7'', hdfsInfo = None, mapredInfo = None, ringmasterXRS = None, history = [], written = []\<rparr>"

theorem completed_after_feasible_witness:
  "check_job_status turning_outside sample_cfg 2 (turning_session 0) = (turning_session 2, Ret (JobStatus True))"
proof -
  have "ask_state turning_outside (turning_session 0\<lparr>world := 0\<rparr>) = (turning_session 1, Ret (QStr ''Q''))"
    "ask_state turning_outside (turning_session 1\<lparr>world := 1\<rparr>) = (turning_session 2, Ret (QStr ''C''))"
    "isJobFeasible find_limits (npool (turning_session 1)) = Inr (Feasible, None)"
    by code_simp+
  then show ?thesis
    using completed_after_feasible [of turning_outside find_limits "turning_session 0" 0 "turning_session 1" None 1
        "turning_session 2" sample_cfg 0]
    by (simp add: turning_outside_def turning_session_def numeral_2_eq_2)
qed

end
