(* ===== verification/Hod_Client_Facts.thy ===== *)
theory Hod_Client_Facts
  imports Hod_Client Hod_Cluster_Facts
begin

text \<open>
  What the operations of the client promise: an allocation that succeeds is recorded, a directory in use is not
  allocated again, a deallocation forgets the cluster and no other, and every operation ends with a code.
\<close>

section \<open>Every operation ends with a code\<close>

lemma never_raises_log: "never_raises (tells l msg)" "never_raises (sets_code k)" "never_raises cleanup_registry"
  by (simp_all add: tells_def sets_code_def cleanup_registry_def never_raises_rules)

lemma never_raises_failure: "never_raises (on_failure a b e)"
  by (simp add: on_failure_def never_raises_rules never_raises_log)

text \<open>
  C27: whatever happens inside an operation, the client does not end with an exception: it returns an exit code,
  unless it waits forever for a queued job.
\<close>

theorem operation_ends_with_code: "snd (operation N E c) \<noteq> Raise e"
proof -
  have "never_raises (operation N E)"
    unfolding operation_def
    by (intro never_raises_rules never_raises_failure) (simp add: never_raises_rules never_raises_log)
  then show ?thesis by (simp add: never_raises_def)
qed

section \<open>The records of the client\<close>

text \<open>The list of the user's clusters as it is on disk.\<close>

definition recorded :: "'w client \<Rightarrow> attrs" where
  "recorded c =
     (case map_of (st_files (user_store c)) (cluster_data_file @ state_ext) of Some (Some d) \<Rightarrow> d | _ \<Rightarrow> [])"

lemma data_file [simp]: "cluster_data_file \<noteq> []"
  by (simp add: cluster_data_file_def)

text \<open>Looking at the list only remembers which file was looked at.\<close>

definition looked :: "'w client \<Rightarrow> 'w client" where
  "looked c = c\<lparr>user_store := (user_store c)\<lparr>stateFile := Some (cluster_data_file @ state_ext)\<rparr>\<rparr>"

lemma looked_simps [simp]:
  "recorded (looked c) = recorded c" "cluster (looked c) = cluster c" "opCode (looked c) = opCode c"
  "cluster_stores (looked c) = cluster_stores c" "clusterState (looked c) = clusterState c"
  "looked (looked c) = looked c"
  by (simp_all add: looked_def recorded_def)

lemma read_clusters_eq:
  "read_clusters c =
     (looked c, if cluster_data_file @ state_ext \<in> set (names (user_store c)) \<and> \<not> can_read (user_store c) (cluster_data_file @ state_ext)
        then Raise (PyException ''IOError'') else Ret (recorded c))"
proof (cases "map_of (st_files (user_store c)) (cluster_data_file @ state_ext)")
  case None
  then have "cluster_data_file @ state_ext \<notin> set (names (user_store c))" by (simp add: map_of_eq_None_iff)
  with None show ?thesis
    by (simp add: read_clusters_def on_user_def read_state_eq read_result_def andthen_def returns_def looked_def recorded_def)
next
  case (Some d)
  then have "cluster_data_file @ state_ext \<in> set (names (user_store c))"
    by (metis map_of_eq_None_iff option.distinct(1) set_map)
  with Some show ?thesis
    by (simp add: read_clusters_def on_user_def read_state_eq read_result_def andthen_def returns_def looked_def recorded_def
        split: option.split)
qed

lemma may_use_eq:
  "may_use_clusters modes c =
     (looked c, Ret (cluster_data_file @ state_ext \<notin> set (names (user_store c)) \<or>
        list_all (allowed (user_store c) (cluster_data_file @ state_ext)) modes))"
  by (simp add: may_use_clusters_def on_user_def checkStateFile_eq looked_def)

lemma write_clusters_Ret:
  assumes "write_clusters d c = (c', Ret u)"
  shows "recorded c' = d" and "cluster c' = cluster c" and "opCode c' = opCode c" and "cluster_stores c' = cluster_stores c"
    and "clusterState c' = clusterState c"
proof -
  obtain st cwd where w: "write_state (Some cluster_data_file) d (user_store c, cwd_names c) = ((st, cwd), Ret u)"
    and c': "c' = c\<lparr>user_store := st, cwd_names := cwd\<rparr>"
    using assms by (auto simp: write_clusters_def on_user_def split: prod.splits)
  from write_state_Ret [OF w] show "recorded c' = d"
    by (simp add: c' recorded_def update_conv')
qed (use assms in \<open>auto simp: write_clusters_def on_user_def split: prod.splits\<close>)

lemma remove_cluster_Ret:
  assumes "remove_cluster dir c = (c', Ret u)"
  shows "recorded c' = AList.delete dir (recorded c)" and "opCode c' = opCode c" and "cluster c' = cluster c"
    and "cluster_stores c' = cluster_stores c" and "clusterState c' = clusterState c"
proof -
  have "recorded c' = AList.delete dir (recorded c) \<and> opCode c' = opCode c \<and> cluster c' = cluster c \<and>
    cluster_stores c' = cluster_stores c \<and> clusterState c' = clusterState c"
  proof (cases "dir \<in> set (map fst (recorded c))")
    case True
    then have "write_clusters (AList.delete dir (recorded c)) (looked c) = (c', Ret u)"
      using assms by (auto simp: remove_cluster_def andthen_Ret read_clusters_eq split: if_splits)
    from write_clusters_Ret [OF this] show ?thesis by simp
  next
    case False
    then have "c' = looked c"
      using assms by (auto simp: remove_cluster_def andthen_Ret read_clusters_eq returns_def split: if_splits)
    moreover have "AList.delete dir (recorded c) = recorded c" using False by (simp add: delete_id)
    ultimately show ?thesis by simp
  qed
  then show "recorded c' = AList.delete dir (recorded c)" "opCode c' = opCode c" "cluster c' = cluster c"
    "cluster_stores c' = cluster_stores c" "clusterState c' = clusterState c" by simp_all
qed

lemma set_user_state_info_Ret:
  assumes "set_user_state_info [(dir, job)] c = (c', Ret u)"
  shows "recorded c' = AList.update dir job (recorded c)" and "cluster_stores c' = cluster_stores c"
    and "cluster c' = cluster c" and "clusterState c' = clusterState c"
proof -
  have "write_clusters (AList.update dir job (recorded c)) (looked c) = (c', Ret u)"
    using assms by (auto simp: set_user_state_info_def andthen_Ret read_clusters_eq split: if_splits)
  from write_clusters_Ret [OF this]
  show "recorded c' = AList.update dir job (recorded c)" "cluster_stores c' = cluster_stores c" "cluster c' = cluster c"
    "clusterState c' = clusterState c" by simp_all
qed

section \<open>A range of nodes\<close>

lemma node_range_no_int:
  assumes "is_node_range s"
  shows "py_int s = Inl (ValueError ''invalid literal for int()'')"
proof -
  have s: "s \<noteq> []" "is_digit (hd s)" using assms by (auto simp: is_node_range_def Let_def)
  have "dropWhile is_digit s \<noteq> []" "hd (dropWhile is_digit s) = CHR ''-''"
    using assms by (simp_all add: is_node_range_def Let_def)
  then have "CHR ''-'' \<in> set (dropWhile is_digit s)" by (metis hd_in_set)
  then have dash: "CHR ''-'' \<in> set s" by (rule set_dropWhileD)
  let ?t = "py_strip s"
  have hd: "dropWhile is_space s = s"
    using s digit_not_space [of "hd s"] by (cases s) auto
  then have t: "s = ?t @ rev (takeWhile is_space (rev s))"
    by (simp add: py_strip_def) (metis rev_append rev_rev_ident takeWhile_dropWhile_id)
  have "\<not> is_space (CHR ''-'')" by (simp add: is_space_def code_point_def)
  then have "CHR ''-'' \<notin> set (rev (takeWhile is_space (rev s)))" by (auto dest: set_takeWhileD)
  then have minus: "CHR ''-'' \<in> set ?t" using dash t by (metis UnE set_append)
  then have "hd ?t = hd s" by (metis t hd_append2 empty_iff list.set(1))
  with s have first: "is_digit (hd ?t)" by simp
  have "\<not> startswith ?t ''-''" "\<not> startswith ?t ''+''"
    using first minus by (cases ?t; auto simp: startswith_def is_digit_def code_point_def)+
  moreover have "\<not> is_digit (CHR ''-'')" by (simp add: is_digit_def code_point_def)
  then have "\<not> list_all is_digit ?t" using minus unfolding list_all_iff by blast
  ultimately show ?thesis by (simp add: py_int_def Let_def)
qed

section \<open>A successful allocation is recorded\<close>

lemma need_dir_quiet:
  "need_dir N E dir c = (c', Ret bad) \<Longrightarrow> opCode c' = opCode c"
  by (auto simp: need_dir_def makes_def andthen_Ret asks_def returns_def updates_def on_session_def calls_def
      split: if_splits prod.splits)

lemma code_after: "andthen m (\<lambda>_. sets_code k) c = (c', Ret u) \<Longrightarrow> opCode c' = k"
  by (auto simp: andthen_Ret sets_code_def updates_def)

lemma sets_code_Ret: "sets_code k c = (c', Ret u) \<Longrightarrow> opCode c' = k"
  by (auto simp: sets_code_def updates_def)

lemma free_directory_False: "free_directory N dir c = (c', Ret False) \<Longrightarrow> opCode c' = 12"
  by (auto simp: free_directory_def andthen_Ret returns_def sets_code_def updates_def split: if_splits)

lemma account_False: "account_ok N E c = (c', Ret False) \<Longrightarrow> opCode c' = 4"
  by (auto simp: account_ok_def andthen_Ret returns_def sets_code_def updates_def split: if_splits prod.splits)

lemma tell_refusal_code: "tell_refusal dir job k c = (c', Ret u) \<Longrightarrow> opCode c' = opCode c"
  by (auto simp: tell_refusal_def tells_def updates_def returns_def split: if_splits)

lemma start_cluster_Ret:
  assumes "start_cluster N E dir n c = (c', Ret u)"
  shows "\<exists>c1 c2 status. on_session (allocate N (cc E) (fuel E) dir n) c1 = (c2, Ret status) \<and>
    record_allocation N dir (set_cluster_state_info E n (cluster c2)) status c2 = (c', Ret u)"
proof -
  obtain c1 c2 status where
    a: "catching (on_session (allocate N (cc E) (fuel E) dir n))
       (\<lambda>e. if e = interrupt then andthen cleanup_registry (\<lambda>_. raises e) else raises e) c1 = (c2, Ret status)"
    and r: "catching (record_allocation N dir (set_cluster_state_info E n (cluster c2)) status)
       (\<lambda>e. andthen cleanup_registry (\<lambda>_.
            andthen (on_session (deallocate N (cc E) (set_cluster_state_info E n (cluster c2)))) (\<lambda>_.
            andthen (sets_code 1) (\<lambda>_. raises (PyException ''Exception''))))) c2 = (c', Ret u)"
    using assms by (auto simp: start_cluster_def andthen_Ret asks_def never_returns split: if_splits)
  have "on_session (allocate N (cc E) (fuel E) dir n) c1 = (c2, Ret status)"
    using a by (rule catching_Ret) (simp add: never_returns)
  moreover have "record_allocation N dir (set_cluster_state_info E n (cluster c2)) status c2 = (c', Ret u)"
    using r by (rule catching_Ret) (simp add: never_returns)
  ultimately show ?thesis by blast
qed


text \<open>What a successful allocation leaves on disk.\<close>

definition allocated :: "'w client \<Rightarrow> string \<Rightarrow> bool" where
  "allocated c dir \<longleftrightarrow>
     map_of (recorded c) dir = Some (session_job (cluster c)) \<and>
     (\<exists>st file info. map_of (cluster_stores c) dir = Some st \<and> map_of (st_files st) file = Some (Some info) \<and>
        ci_jobid info = session_job (cluster c)) \<and>
     written (cluster c) \<noteq> [] \<and> fst (last (written (cluster c))) = path_join dir ''hadoop-site.xml''"

lemma setup_cluster_state_quiet:
  "setup_cluster_state N dir c = (c', Ret u) \<Longrightarrow>
     clusterState c' = Some dir \<and> recorded c' = recorded c \<and> jobId (cluster c') = jobId (cluster c) \<and>
     written (cluster c') = written (cluster c)"
  by (auto simp: setup_cluster_state_def makes_def andthen_Ret asks_def returns_def updates_def on_session_def calls_def
      forget_current_def recorded_def split: if_splits prod.splits)

lemma write_state_some:
  assumes "write_state i d (st, cwd) = ((st', cwd'), Ret u)"
  shows "\<exists>file. map_of (st_files st') file = Some (Some d)"
  using assms by (auto simp: write_state_def andthen_Ret updates_def asks_def update_conv' split: option.splits) blast

lemma on_cluster_write:
  assumes "on_cluster (write_state i info) c = (c', Ret u)" and "clusterState c = Some dir"
  shows "(\<exists>st file. map_of (cluster_stores c') dir = Some st \<and> map_of (st_files st) file = Some (Some info)) \<and>
    recorded c' = recorded c \<and> cluster c' = cluster c"
proof -
  obtain st where st: "map_of (cluster_stores c) dir = Some st"
    using assms by (auto simp: on_cluster_def split: option.splits)
  obtain st' cwd' r where w: "write_state i info (st, cwd_names c) = ((st', cwd'), r)"
    by (metis prod.exhaust)
  have c': "c' = c\<lparr>cluster_stores := AList.update dir st' (cluster_stores c), cwd_names := cwd'\<rparr>" "r = Ret u"
    using assms st w by (auto simp: on_cluster_def)
  from write_state_some [OF w [unfolded c'(2)]] show ?thesis
    by (auto simp: c'(1) update_conv' recorded_def)
qed

lemma record_allocation_Ret:
  assumes "record_allocation N dir info 0 c = (c', Ret u)"
  shows "map_of (recorded c') dir = Some (ci_jobid info) \<and>
    (\<exists>st file. map_of (cluster_stores c') dir = Some st \<and> map_of (st_files st) file = Some (Some info)) \<and>
    jobId (cluster c') = jobId (cluster c) \<and> written (cluster c') = written (cluster c)"
proof -
  obtain c1 c2 c3 where 1: "setup_cluster_state N dir c = (c1, Ret ())"
    and 2: "on_cluster (write_state (Some (ci_jobid info)) info) c1 = (c2, Ret ())"
    and 3: "set_user_state_info [(dir, ci_jobid info)] c2 = (c3, Ret ())" and 4: "sets_code 0 c3 = (c', Ret ())"
    using assms by (auto simp: record_allocation_def andthen_Ret)
  have q: "clusterState c1 = Some dir" "jobId (cluster c1) = jobId (cluster c)" "written (cluster c1) = written (cluster c)"
    using setup_cluster_state_quiet [OF 1] by simp_all
  have "c' = c3\<lparr>opCode := 0\<rparr>" using 4 by (simp add: sets_code_def updates_def)
  then have "recorded c' = recorded c3" "cluster c' = cluster c3" "cluster_stores c' = cluster_stores c3"
    by (simp_all add: recorded_def)
  then show ?thesis
    using on_cluster_write [OF 2 q(1)] set_user_state_info_Ret [OF 3] q by (simp add: update_conv')
qed

lemma record_allocation_code: "record_allocation N dir info status c = (c', Ret u) \<Longrightarrow> opCode c' = status"
  unfolding record_allocation_def by (rule code_after)

lemma ci_jobid_set: "ci_jobid (set_cluster_state_info E n s) = session_job s"
  by (simp add: set_cluster_state_info_def)

lemma start_cluster_allocated:
  assumes "start_cluster N E dir n c = (c', Ret u)" and "opCode c' = 0"
  shows "allocated c' dir"
proof -
  obtain c1 c2 status where a: "on_session (allocate N (cc E) (fuel E) dir n) c1 = (c2, Ret status)"
    and r: "record_allocation N dir (set_cluster_state_info E n (cluster c2)) status c2 = (c', Ret u)"
    using start_cluster_Ret [OF assms(1)] by blast
  have st: "status = 0" using record_allocation_code [OF r] assms(2) by simp
  then have "allocate N (cc E) (fuel E) dir n (cluster c1) = (cluster c2, Ret 0)"
    using a by (auto simp: on_session_def split: prod.splits)
  note site = allocation_site [OF this]
  note rec = record_allocation_Ret [OF r [unfolded st]]
  then have "session_job (cluster c') = session_job (cluster c2)" by (simp add: session_job_def)
  with site rec show ?thesis
    unfolding allocated_def using ci_jobid_set [of E n "cluster c2"] by metis
qed

lemma allocate_nodes_allocated:
  assumes "allocate_nodes N E dir n c = (c', Ret u)" and "opCode c' = 0"
  shows "allocated c' dir"
proof -
  obtain info code c3 c4 c5 where code: "sets_code code c3 = (c4, Ret ())"
    and main: "(if code = 0 \<or> code = 15 then start_cluster N E dir n else tell_refusal dir (job_of info) code) c4 = (c5, Ret ())"
    and last: "(if 0 < opCode c5 \<and> opCode c5 \<noteq> 15 then tells Critical (''Cannot allocate cluster '' @ dir) else returns ()) c5 =
        (c', Ret ())"
    using assms(1) by (auto simp: allocate_nodes_def andthen_Ret asks_def)
  have c': "opCode c5 = opCode c'" "0 < opCode c5 \<and> opCode c5 \<noteq> 15 \<or> c' = c5"
    using last by (auto simp: tells_def updates_def returns_def split: if_splits)
  with assms(2) have c5: "c' = c5" by auto
  have "opCode c4 = code" using code by (auto simp: sets_code_def updates_def)
  then have "code = 0 \<or> code = 15"
    using main c'(1) assms(2) tell_refusal_code [of dir "job_of info" code c4 c5 "()"] by (auto split: if_splits)
  with main have "start_cluster N E dir n c4 = (c5, Ret ())" by (auto split: if_splits)
  with start_cluster_allocated assms(2) show ?thesis unfolding c5 by blast
qed



section \<open>Deallocation forgets\<close>

lemma recorded_updates [simp]:
  "recorded (c\<lparr>logged := x\<rparr>) = recorded c" "recorded (c\<lparr>registry := b\<rparr>) = recorded c"
  "recorded (c\<lparr>opCode := k\<rparr>) = recorded c" "recorded (c\<lparr>cluster := s\<rparr>) = recorded c"
  by (simp_all add: recorded_def)

lemma recorded_cong: "user_store c' = user_store c \<Longrightarrow> recorded c' = recorded c"
  by (simp add: recorded_def)

lemma recorded_others [simp]:
  "recorded (fst (on_session m c)) = recorded c" "recorded (fst (tells l msg c)) = recorded c"
  "recorded (fst (sets_code k c)) = recorded c" "recorded (fst (on_cluster m' c)) = recorded c"
  by (auto simp: on_session_def tells_def sets_code_def updates_def on_cluster_def intro!: recorded_cong
      split: prod.splits option.splits)

lemma recorded_others_eq:
  "on_session m c = (c1, r) \<Longrightarrow> recorded c1 = recorded c" "tells l msg c = (c1, r2) \<Longrightarrow> recorded c1 = recorded c"
  "sets_code k c = (c1, r3) \<Longrightarrow> recorded c1 = recorded c" "on_cluster m' c = (c1, r4) \<Longrightarrow> recorded c1 = recorded c"
  using recorded_others(1) [of m c] recorded_others(2) [of l msg c] recorded_others(3) [of k c]
    recorded_others(4) [of m' c]
  by simp_all

lemma removed_cluster: "remove_cluster dir c = (c', Ret u) \<Longrightarrow> dir \<notin> set (map fst (recorded c'))"
  by (drule remove_cluster_Ret(1)) (simp add: delete_keys)

lemma free_resources_forgets:
  assumes "free_resources N E dir job c = (c', Ret u)" and "opCode c' \<noteq> 1"
  shows "dir \<notin> set (map fst (recorded c'))"
proof -
  obtain c1 w where "(if \<not> w then andthen (tells Critical (no_access ''write to'' (state_path E))) (\<lambda>_. sets_code 1)
      else andthen (remove_cluster dir) (\<lambda>_. sets_code 3)) c1 = (c', Ret u)"
    using assms(1) unfolding free_resources_def andthen_Ret by blast
  then obtain c2 where "remove_cluster dir c1 = (c2, Ret ())" "sets_code 3 c2 = (c', Ret u)"
    using assms(2) by (auto simp: andthen_Ret dest: sets_code_Ret split: if_splits)
  then show ?thesis using removed_cluster recorded_others_eq(3) by metis
qed

lemma handle_invalid_forgets:
  assumes "handle_invalid_directory N E dir True c = (c', Ret u)" and "opCode c' \<noteq> 1"
  shows "dir \<notin> set (map fst (recorded c'))"
proof -
  obtain s1 ok where may: "may_use_clusters [R_OK] c = (s1, Ret ok)" and ok: "(if \<not> ok then andthen (tells Critical (no_access ''read'' (state_path E))) (\<lambda>_. sets_code 1)
      else andthen read_clusters (\<lambda>known.
           case map_of known dir of
             Some job \<Rightarrow> andthen (tells Critical (''Cannot find information for cluster with id '' @ quoted job @
                 '' in previously allocated cluster directory '' @ quoted dir @ ''.'')) (\<lambda>_.
                 if True then free_resources N E dir job else sets_code 3)
           | None \<Rightarrow> andthen (asks (\<lambda>c. no_cluster c dir)) (\<lambda>msg.
               andthen (tells Critical msg) (\<lambda>_. sets_code 15)))) s1 = (c', Ret u)"
    using assms(1) unfolding handle_invalid_directory_def andthen_Ret by blast
  have s1: "s1 = looked c" using may by (simp add: may_use_eq)
  show ?thesis
  proof (cases "map_of (recorded c) dir")
    case None
    with ok assms(2) s1 obtain c1 msg c2 where "tells Critical msg c1 = (c2, Ret ())" "sets_code 15 c2 = (c', Ret u)"
      "recorded c1 = recorded c"
      by (auto simp: andthen_Ret read_clusters_eq asks_def dest: sets_code_Ret split: if_splits)
    then have "recorded c' = recorded c" using recorded_others_eq(2, 3) by metis
    with None show ?thesis by (simp add: map_of_eq_None_iff)
  next
    case (Some job)
    with ok assms(2) s1 obtain c1 where "free_resources N E dir job c1 = (c', Ret u)"
      by (auto simp: andthen_Ret read_clusters_eq dest: sets_code_Ret split: if_splits)
    then show ?thesis using assms(2) by (rule free_resources_forgets)
  qed
qed

lemma give_up_forgets:
  assumes "give_up N E dir i c = (c', Ret u)" and "opCode c' \<noteq> 1"
  shows "dir \<notin> set (map fst (recorded c'))"
proof -
  obtain c1 w where "(if \<not> w then andthen (tells Critical (cannot_update (state_path E))) (\<lambda>_. sets_code 1)
      else remove_cluster dir) c1 = (c', Ret u)"
    using assms(1) unfolding give_up_def andthen_Ret by blast
  then have "remove_cluster dir c1 = (c', Ret u)"
    using assms(2) by (auto simp: andthen_Ret dest: sets_code_Ret split: if_splits)
  then show ?thesis by (rule removed_cluster)
qed


section \<open>Other clusters\<close>

text \<open>
  Invariants that only look at the list and at the history of the jobs, and those that only look at the list.
\<close>

definition calm :: "('w client \<Rightarrow> bool) \<Rightarrow> bool" where
  "calm I \<longleftrightarrow> (\<forall>c c'. recorded c' = recorded c \<longrightarrow> history (cluster c') = history (cluster c) \<longrightarrow> I c \<longrightarrow> I c')"

definition listing :: "('w client \<Rightarrow> bool) \<Rightarrow> bool" where
  "listing I \<longleftrightarrow> (\<forall>c c'. recorded c' = recorded c \<longrightarrow> I c \<longrightarrow> I c')"

lemma listing_calm: "listing I \<Longrightarrow> calm I"
  by (auto simp: listing_def calm_def)

lemma calmD: "calm I \<Longrightarrow> I c \<Longrightarrow> recorded c' = recorded c \<Longrightarrow> history (cluster c') = history (cluster c) \<Longrightarrow> I c'"
  unfolding calm_def by blast

lemma keeps_calm:
  "calm I \<Longrightarrow> (\<And>c. recorded (fst (m c)) = recorded c \<and> history (cluster (fst (m c))) = history (cluster c)) \<Longrightarrow> keeps I m"
  unfolding keeps_def by (metis calmD)

lemma keeps_updates_calm:
  "calm I \<Longrightarrow> (\<And>c. recorded (f c) = recorded c \<and> cluster (f c) = cluster c) \<Longrightarrow> keeps I (updates f)"
  by (rule keeps_calm) (simp_all add: updates_def)

lemma keeps_listing: "listing I \<Longrightarrow> keeps I (on_session m)"
  unfolding keeps_def listing_def by (metis recorded_others(1))

lemma keeps_session:
  fixes I :: "'w client \<Rightarrow> bool" and m :: "('w, 'a) act"
  assumes "calm I" and "\<And>h. keeps (\<lambda>s. history s = h) m"
  shows "keeps I (on_session m)"
  using assms(1)
proof (rule keeps_calm)
  fix c :: "'w client"
  have "history (fst (m (cluster c))) = history (cluster c)"
    using assms(2) [of "history (cluster c)"] by (simp add: keeps_def)
  moreover have "cluster (fst (on_session m c)) = fst (m (cluster c))"
    by (simp add: on_session_def split: prod.split)
  ultimately show "recorded (fst (on_session m c)) = recorded c \<and>
      history (cluster (fst (on_session m c))) = history (cluster c)"
    by simp
qed

lemma keeps_calm_basic [keeps_rules]:
  "calm I \<Longrightarrow> keeps I (tells l msg)" "calm I \<Longrightarrow> keeps I (sets_code k)" "calm I \<Longrightarrow> keeps I (cleanup_registry)"
  "calm I \<Longrightarrow> keeps I read_clusters" "calm I \<Longrightarrow> keeps I (may_use_clusters modes)" "calm I \<Longrightarrow> keeps I (on_cluster m')"
  by (erule keeps_calm;
      simp add: tells_def sets_code_def cleanup_registry_def updates_def recorded_def read_clusters_eq may_use_eq looked_def
        on_cluster_def split: option.split prod.split)+

lemma history_inner [simp]: "inner_only (\<lambda>s. history s = h)"
  by (simp add: inner_only_def)

lemma keeps_calls_history [keeps_rules]:
  "keeps (\<lambda>s. history s = h) (calls f)" "keeps (\<lambda>s. history s = h) (calls_pool g)"
  by (simp_all add: keeps_calls)

lemma keeps_makes [keeps_rules]: "calm I \<Longrightarrow> keeps I (makes N dir)"
  unfolding makes_def
  by (auto intro!: keeps_rules keeps_session keeps_updates_calm simp: recorded_def)

lemma keeps_setup [keeps_rules]: "calm I \<Longrightarrow> keeps I (setup_cluster_state N dir)"
  unfolding setup_cluster_state_def
  by (auto intro!: keeps_rules keeps_updates_calm simp: recorded_def forget_current_def)

lemma keeps_load [keeps_rules]: "calm I \<Longrightarrow> keeps I (load_cluster N dir)"
  by (auto simp: load_cluster_def intro!: keeps_rules)

lemma keeps_need_dir [keeps_rules]: "calm I \<Longrightarrow> keeps I (need_dir N E dir)"
  unfolding need_dir_def by (auto intro!: keeps_rules split: prod.split)

text \<open>Changing one entry of the list.\<close>

definition entry :: "string \<Rightarrow> string option \<Rightarrow> 'w client \<Rightarrow> bool" where
  "entry x v c \<longleftrightarrow> map_of (recorded c) x = v"

lemma entry_listing [simp]: "listing (entry x v)" "calm (entry x v)"
  by (simp_all add: listing_def calm_def entry_def)

lemma write_clusters_recorded:
  "recorded (fst (write_clusters d c)) = d \<or> recorded (fst (write_clusters d c)) = recorded c"
proof -
  obtain st cwd r where w: "write_state (Some cluster_data_file) d (user_store c, cwd_names c) = ((st, cwd), r)"
    by (metis prod.exhaust)
  have e: "fst (write_clusters d c) = c\<lparr>user_store := st, cwd_names := cwd\<rparr>"
    using w by (simp add: write_clusters_def on_user_def)
  show ?thesis
  proof (cases r)
    case (Ret u)
    then have "write_clusters d c = (c\<lparr>user_store := st, cwd_names := cwd\<rparr>, Ret u)"
      using w by (simp add: write_clusters_def on_user_def)
    from write_clusters_Ret(1) [OF this] e show ?thesis by simp
  qed (use write_state_fails [OF w] in \<open>simp_all add: e recorded_def\<close>)
qed

lemma keeps_entry_remove [keeps_rules]: "x \<noteq> dir \<Longrightarrow> keeps (entry x v) (remove_cluster dir)"
  unfolding keeps_def
proof (intro allI impI)
  fix c :: "'w client"
  assume "x \<noteq> dir" "entry x v c"
  then show "entry x v (fst (remove_cluster dir c))"
    using write_clusters_recorded [of "AList.delete dir (recorded c)" "looked c"]
    by (auto simp: remove_cluster_def andthen_def read_clusters_eq returns_def entry_def delete_conv')
qed

lemma keeps_entry_set [keeps_rules]: "x \<noteq> dir \<Longrightarrow> keeps (entry x v) (set_user_state_info [(dir, job)])"
  unfolding keeps_def
proof (intro allI impI)
  fix c :: "'w client"
  assume "x \<noteq> dir" "entry x v c"
  then show "entry x v (fst (set_user_state_info [(dir, job)] c))"
    using write_clusters_recorded [of "AList.update dir job (recorded c)" "looked c"]
    by (auto simp: set_user_state_info_def andthen_def read_clusters_eq entry_def update_conv')
qed

lemma keeps_wrong_args [keeps_rules]: "calm I \<Longrightarrow> keeps I (wrong_args op what)"
  by (auto simp: wrong_args_def prints_help_def intro!: keeps_rules)

lemma keeps_is_dead [keeps_rules]: "calm I \<Longrightarrow> keeps I (is_dead N info)"
  by (auto simp: is_dead_def is_cluster_deallocated_def split: option.split intro!: keeps_rules keeps_session)

lemma keeps_account [keeps_rules]: "calm I \<Longrightarrow> keeps I (account_ok N E)"
  by (auto simp: account_ok_def is_valid_account_def split: prod.split option.split intro!: keeps_rules keeps_session)

lemma keeps_entry_free [keeps_rules]: "x \<noteq> dir \<Longrightarrow> keeps (entry x v) (free_directory N dir)"
  by (auto simp: free_directory_def intro!: keeps_rules)

lemma keeps_entry_start [keeps_rules]: "x \<noteq> dir \<Longrightarrow> keeps (entry x v) (start_cluster N E dir n)"
  by (auto simp: start_cluster_def record_allocation_def recorded_def
      intro!: keeps_rules keeps_listing keeps_updates_calm)

lemma keeps_entry_with_nodes [keeps_rules]: "x \<noteq> dir \<Longrightarrow> keeps (entry x v) (with_nodes N E dir nodes)"
  by (auto simp: with_nodes_def allocate_nodes_def tell_refusal_def prints_help_def
      split: list.split sum.split intro!: keeps_rules keeps_listing)

lemma keeps_entry_allocate: "x \<noteq> norm_cluster_dir E d \<Longrightarrow> keeps (entry x v) (op_allocate N E [op, d, nodes])"
  by (auto simp: op_allocate_def Let_def intro!: keeps_rules)

lemma keeps_cluster_of [keeps_rules]: "calm I \<Longrightarrow> keeps I (cluster_of N dir)"
  by (auto simp: cluster_of_def intro!: keeps_rules)

lemma keeps_entry_invalid [keeps_rules]: "x \<noteq> dir \<Longrightarrow> keeps (entry x v) (handle_invalid_directory N E dir b)"
  by (auto simp: handle_invalid_directory_def free_resources_def split: option.split
      intro!: keeps_rules keeps_listing)

lemma keeps_entry_deallocate: "x \<noteq> norm_cluster_dir E d \<Longrightarrow> keeps (entry x v) (op_deallocate N E [op, d])"
  by (auto simp: op_deallocate_def Let_def give_up_def split: option.split intro!: keeps_rules keeps_listing)

text \<open>
  C8: allocating and deallocating a cluster leave the entries of all other clusters in the user's list as they are,
  whatever the outcome.
\<close>

theorem other_clusters_kept:
  assumes "x \<noteq> norm_cluster_dir E d"
  shows "map_of (recorded (fst (op_allocate N E [op, d, nodes] c))) x = map_of (recorded c) x \<and>
    map_of (recorded (fst (op_deallocate N E [op, d] c))) x = map_of (recorded c) x"
proof -
  let ?I = "entry x (map_of (recorded c) x) :: 'a client \<Rightarrow> bool"
  have "?I (fst (op_allocate N E [op, d, nodes] c))" "?I (fst (op_deallocate N E [op, d] c))"
    by (rule keepsD [OF keeps_entry_allocate [OF assms]] keepsD [OF keeps_entry_deallocate [OF assms]]; simp add: entry_def)+
  then show ?thesis by (simp add: entry_def)
qed

section \<open>A directory in use\<close>

text \<open>
  The cluster the client finds at a directory: the state file in it, as \<open>read_state None\<close> of a new object finds it.
\<close>

definition state_at :: "'w client \<Rightarrow> string \<Rightarrow> cluster_info option" where
  "state_at c dir =
     (case map_of (cluster_stores c) dir of
        None \<Rightarrow> None
      | Some st \<Rightarrow> (case read_result None (st\<lparr>stateFile := None\<rparr>) of Ret (Some i) \<Rightarrow> Some i | _ \<Rightarrow> None))"

text \<open>The list and the jobs are as they were.\<close>

definition same_jobs :: "'w client \<Rightarrow> 'w client \<Rightarrow> bool" where
  "same_jobs c c' \<longleftrightarrow> recorded c' = recorded c \<and> history (cluster c') = history (cluster c)"

lemma same_jobs_calm [simp]: "calm (same_jobs c)"
  by (simp add: calm_def same_jobs_def)

lemma same_jobs_refl [simp]: "same_jobs c c"
  by (simp add: same_jobs_def)

lemma is_dir_there: "is_dir c dir \<Longrightarrow> path_exists c dir"
  by (simp add: path_exists_def)

lemma setup_there:
  "is_dir c dir \<Longrightarrow> setup_cluster_state N dir c = (forget_current dir (c\<lparr>clusterState := Some dir\<rparr>), Ret ())"
  by (simp add: setup_cluster_state_def andthen_def asks_def returns_def updates_def is_dir_there)

lemma map_of_forget:
  "map_of (map (\<lambda>(d, st). (d, if d = dir then st\<lparr>stateFile := None\<rparr> else st)) xs) dir =
     map_option (\<lambda>st. st\<lparr>stateFile := None\<rparr>) (map_of xs dir)"
  by (induction xs) auto

lemma loads_state:
  assumes "is_dir c dir" and "load_cluster N dir c = (c', Ret info)"
  shows "info = state_at c dir \<and> cluster c' = cluster c"
proof -
  obtain st where st: "map_of (cluster_stores c) dir = Some st"
    using assms(1) by (auto simp: is_dir_def image_iff dest: weak_map_of_SomeI)
  have "on_cluster (read_state None) (forget_current dir (c\<lparr>clusterState := Some dir\<rparr>)) = (c', Ret info)"
    using assms by (auto simp: load_cluster_def andthen_Ret setup_there)
  moreover have "map_of (cluster_stores (forget_current dir (c\<lparr>clusterState := Some dir\<rparr>))) dir = Some (st\<lparr>stateFile := None\<rparr>)"
    by (simp add: forget_current_def map_of_forget st)
  ultimately show ?thesis
    by (auto simp: on_cluster_def read_state_eq state_at_def st forget_current_def split: option.split)
qed

text \<open>A cluster whose job is not over keeps the directory occupied.\<close>

definition occupied :: "'w outside \<Rightarrow> 'w client \<Rightarrow> string \<Rightarrow> bool" where
  "occupied N c dir \<longleftrightarrow> dir \<in> set (map fst (recorded c)) \<and> is_dir c dir \<and>
     (case state_at c dir of None \<Rightarrow> True | Some i \<Rightarrow> snd (is_cluster_deallocated N (ci_jobid i) (cluster c)) \<noteq> Ret True)"

definition refuses :: "'w client \<Rightarrow> 'w client \<times> bool out \<Rightarrow> bool" where
  "refuses c cr \<longleftrightarrow> same_jobs c (fst cr) \<and> snd cr \<noteq> Ret True"

lemma refuses_stops: "same_jobs c c1 \<Longrightarrow> refuses c (c1, Raise e)" "same_jobs c c1 \<Longrightarrow> refuses c (c1, Diverge)"
  by (simp_all add: refuses_def)

lemma same_jobs_step:
  "keeps (same_jobs c) m \<Longrightarrow> same_jobs c c1 \<Longrightarrow> m c1 = (c2, r) \<Longrightarrow> same_jobs c c2"
  using keepsD [of "same_jobs c" m c1] by simp

lemma free_occupied:
  assumes "occupied N c dir"
  shows "refuses c (free_directory N dir c)"
  unfolding free_directory_def
proof (rule andthen_case)
  fix known c1
  assume "read_clusters c = (c1, Ret known)"
  then have c1: "c1 = looked c" "known = recorded c" by (auto simp: read_clusters_eq split: if_splits)
  have "state_at c1 dir = state_at c dir" "is_dir c1 dir"
    using assms by (simp_all add: c1 state_at_def occupied_def is_dir_def)
  note at = this
  have s1: "same_jobs c c1" by (simp add: c1 same_jobs_def)
  have "refuses c (andthen (load_cluster N dir) (\<lambda>info. andthen (is_dead N info) (\<lambda>dead.
      if dead then andthen (tells Warn (dead_found dir)) (\<lambda>_. andthen (remove_cluster dir) (\<lambda>_.
        andthen (on_cluster (clear_state None)) (\<lambda>_. returns True)))
      else andthen (tells Critical (previously_allocated dir)) (\<lambda>_. andthen (sets_code 12) (\<lambda>_. returns False)))) c1)"
    (is "refuses c (andthen _ ?rest c1)")
  proof (rule andthen_case)
    fix info c2
    assume l: "load_cluster N dir c1 = (c2, Ret info)"
    have s2: "same_jobs c c2" by (rule same_jobs_step [OF keeps_load [OF same_jobs_calm] s1 l])
    have i: "info = state_at c dir" "cluster c2 = cluster c"
      using loads_state [OF at(2) l] at(1) by (simp_all add: c1)
    show "refuses c (?rest info c2)"
    proof (rule andthen_case)
      fix dead c3
      assume d: "is_dead N info c2 = (c3, Ret dead)"
      have "\<not> dead"
        using d assms i by (auto simp: is_dead_def occupied_def on_session_def returns_def split: option.splits prod.splits)
      moreover have "same_jobs c c3" by (rule same_jobs_step [OF keeps_is_dead [OF same_jobs_calm] s2 d])
      ultimately show "refuses c ((if dead then andthen (tells Warn (dead_found dir)) (\<lambda>_. andthen (remove_cluster dir) (\<lambda>_.
          andthen (on_cluster (clear_state None)) (\<lambda>_. returns True)))
        else andthen (tells Critical (previously_allocated dir)) (\<lambda>_. andthen (sets_code 12) (\<lambda>_. returns False))) c3)"
        by (simp add: refuses_def same_jobs_def andthen_def tells_def sets_code_def updates_def returns_def recorded_def)
    qed (use same_jobs_step [OF keeps_is_dead [OF same_jobs_calm] s2] in \<open>auto intro: refuses_stops\<close>)
  qed (use same_jobs_step [OF keeps_load [OF same_jobs_calm], of c c1] s1 in \<open>auto intro: refuses_stops\<close>)
  then show "refuses c ((if dir \<in> set (map fst known) then andthen (load_cluster N dir) ?rest else returns True) c1)"
    using assms by (simp add: c1 occupied_def)
qed (simp_all add: read_clusters_eq refuses_stops same_jobs_def split: if_splits)

lemma occupied_looked: "occupied N c dir \<Longrightarrow> occupied N (looked c) dir"
proof -
  have "state_at (looked c) dir = state_at c dir" by (simp add: state_at_def)
  then show "occupied N c dir \<Longrightarrow> occupied N (looked c) dir"
    by (simp add: occupied_def is_dir_def split: option.split_asm option.split)
qed

lemma same_jobs_end:
  "same_jobs c c1 \<Longrightarrow> same_jobs c (fst (andthen (tells l msg) (\<lambda>_. sets_code k) c1))"
  "same_jobs c c1 \<Longrightarrow> same_jobs c (fst (andthen (for_each (tells l) msgs) (\<lambda>_. sets_code k) c1))"
  by (rule keepsD [of "same_jobs c"]; auto intro!: keeps_rules)+

text \<open>
  C7: when the directory is in the user's list and the batch system does not report its job as over, \<open>allocate\<close> submits
  no job and leaves the list alone.
\<close>

theorem occupied_directory_refused:
  assumes "occupied N c (norm_cluster_dir E d)"
  shows "same_jobs c (fst (op_allocate N E [op, d, nodes] c))"
proof -
  let ?dir = "norm_cluster_dir E d" and ?P = "\<lambda>cr. same_jobs c (fst cr)"
  have dir: "need_dir N E ?dir c = (c, Ret [])"
    using assms by (simp add: occupied_def need_dir_def andthen_def asks_def returns_def is_dir_there)
  have tail: "?P (andthen (free_directory N ?dir) (\<lambda>free. if \<not> free then returns ()
      else andthen (account_ok N E) (\<lambda>fine. if fine then with_nodes N E ?dir nodes else returns ())) (looked c))"
  proof (rule andthen_case)
    fix free c1
    assume f: "free_directory N ?dir (looked c) = (c1, Ret free)"
    have "refuses (looked c) (c1, Ret free)" using free_occupied [OF occupied_looked [OF assms]] f by simp
    then show "?P ((if \<not> free then returns ()
      else andthen (account_ok N E) (\<lambda>fine. if fine then with_nodes N E ?dir nodes else returns ())) c1)"
      by (simp add: refuses_def same_jobs_def returns_def)
  qed (use free_occupied [OF occupied_looked [OF assms]] in \<open>auto simp: refuses_def same_jobs_def\<close>)
  show ?thesis
    unfolding op_allocate_def Let_def list.case
  proof (rule andthen_case)
    fix bad c1
    assume "need_dir N E ?dir c = (c1, Ret bad)"
    then have c1: "c1 = c" "bad = []" using dir by simp_all
    show "?P (andthen (outcome (py_int nodes)) (\<lambda>n.
        if bad @ (if n < 3 then [few_nodes nodes] else []) \<noteq> []
        then andthen (for_each (tells Critical) (bad @ (if n < 3 then [few_nodes nodes] else []))) (\<lambda>_. sets_code 3)
        else andthen (may_use_clusters [R_OK, W_OK]) (\<lambda>ok.
          if \<not> ok then andthen (tells Critical (no_access ''read/write to'' (state_path E))) (\<lambda>_. sets_code 1)
          else andthen (free_directory N ?dir) (\<lambda>free. if \<not> free then returns ()
            else andthen (account_ok N E) (\<lambda>fine. if fine then with_nodes N E ?dir nodes else returns ())))) c1)"
    proof (rule andthen_case)
      fix n c2
      assume "outcome (py_int nodes) c1 = (c2, Ret n)"
      then have c2: "c2 = c" by (simp add: outcome_def c1)
      let ?use = "andthen (may_use_clusters [R_OK, W_OK]) (\<lambda>ok.
          if \<not> ok then andthen (tells Critical (no_access ''read/write to'' (state_path E))) (\<lambda>_. sets_code 1)
          else andthen (free_directory N ?dir) (\<lambda>free. if \<not> free then returns ()
            else andthen (account_ok N E) (\<lambda>fine. if fine then with_nodes N E ?dir nodes else returns ())))"
      have "?P (?use c)"
        by (rule andthen_case) (auto simp: may_use_eq same_jobs_def [of c "looked c"] tail intro!: same_jobs_end(1))
      then show "?P ((if bad @ (if n < 3 then [few_nodes nodes] else []) \<noteq> []
        then andthen (for_each (tells Critical) (bad @ (if n < 3 then [few_nodes nodes] else []))) (\<lambda>_. sets_code 3)
        else ?use) c2)"
        using same_jobs_end(2) [of c c] by (simp add: c1 c2)
    qed (simp_all add: outcome_def c1)
  qed (simp_all add: dir)
qed

section \<open>A range of nodes is never allocated\<close>

lemma need_dir_returns: "\<exists>c' bad. need_dir N E dir c = (c', Ret bad) \<and> opCode c' = opCode c"
  by (auto simp: need_dir_def makes_def andthen_def asks_def returns_def updates_def on_session_def calls_def
      split: prod.split)

lemma range_ends:
  assumes "is_node_range nodes"
  shows "\<exists>c'. op_allocate N E [op, d, nodes] c = (c', Raise (ValueError ''invalid literal for int()'')) \<and>
    same_jobs c c' \<and> opCode c' = opCode c"
proof -
  obtain c1 bad where dir: "need_dir N E (norm_cluster_dir E d) c = (c1, Ret bad)" "opCode c1 = opCode c"
    using need_dir_returns by blast
  have "same_jobs c c1" by (rule same_jobs_step [OF keeps_need_dir [OF same_jobs_calm] same_jobs_refl dir(1)])
  then show ?thesis
    by (simp add: op_allocate_def Let_def andthen_def dir node_range_no_int [OF assms] outcome_def)
qed

text \<open>
  C32: \<open>allocate\<close> with a range of nodes, which the code goes on to parse, fails before it gets there; no job is
  submitted, and the exit code of the client is 0 all the same.
\<close>

theorem node_range_exits_zero:
  assumes "split_ws (cfg_operation E) = [''allocate'', d, nodes]" and "is_node_range nodes"
    and "opCode c = 0" and "can_read (user_store c) (cluster_data_file @ state_ext)"
    and "operation N E c = (c', Ret code)"
  shows "code = 0 \<and> same_jobs c c'"
proof -
  let ?m = "op_allocate N E [''allocate'', d, nodes]"
  have body: "operation_body N E c = andthen ?m (\<lambda>_. returns False) (looked c)"
    using assms(1, 3, 4)
    by (simp add: operation_body_def check_operation_def Let_def nth_res_def hod_ops_def dispatch_def may_use_eq allowed_def
        andthen_def outcome_def returns_def asks_def split: prod.split out.split)
  obtain c1 where m: "?m (looked c) = (c1, Raise (ValueError ''invalid literal for int()''))"
    and c1: "same_jobs (looked c) c1" "opCode c1 = opCode (looked c)"
    using range_ends [OF assms(2), of N E "''allocate''" d "looked c"] by blast
  show ?thesis
    using assms(3, 5) c1
    by (auto simp: operation_def body andthen_def catching_def m on_failure_def tells_def updates_def returns_def
        cleanup_registry_def asks_def same_jobs_def)
qed

section \<open>The exit code of a script\<close>

lemma run_script_code:
  assumes "\<And>a d w' w. snd (runs_script E a d w' w) = ret"
  shows "yields (\<lambda>r. r = ret) (run_script E)"
  using assms by (auto simp: yields_def run_script_def on_session_def calls_def split: prod.splits) (metis snd_conv)

lemma script_body_code:
  assumes "\<And>a d w' w. snd (runs_script E a d w' w) = ret"
  shows "yields (\<lambda>r. r = 0 \<or> r = ret) (script_body N E)"
proof -
  have "yields (\<lambda>r. r = 0 \<or> r = ret) (try_script N E)"
    unfolding try_script_def
    by (auto intro!: yields_then [where m = "op_allocate N E x" for x] yields_then [where m = "asks opCode"]
        yields_then [where m = "on_session m" for m] yields_then [where m = "tells l x" for l x] yields_returns
        yields_then [where m = "sets_code k" for k] yields_andthen [OF run_script_code [OF assms]])
  then show ?thesis
    unfolding script_body_def
    by (auto intro!: yields_catching yields_andthen [where m = "try_script N E"] yields_then [where m = "after_script N E"]
        yields_then [where m = "script_failure E e" for e] yields_returns)
qed


end
