(* ===== verification/Hod_Client_Witnesses.thy ===== *)
theory Hod_Client_Witnesses
  imports Hod_Client_Facts
begin

text \<open>The properties of the client that have hypotheses, at concrete clients and clusters.\<close>

section \<open>A client\<close>

definition sample_client_cfg :: "string \<Rightarrow> unit client_cfg" where
  "sample_client_cfg op =
     \<lparr>cc = sample_cfg, fuel = 3, original_dir = ''/h'', current_dir = ''/hod'', user_state = ''/u'', expanduser = (\<lambda>p. p),
      os_error = (\<lambda>_. ''error''), exception_text = (\<lambda>_. ''error''), environ = [], hdfs_external = False,
      mapred_external = False, account_script = None, cfg_operation = op, cfg_script = ''/s'', cfg_nodecount = ''3'',
      cfg_clusterdir = ''/h/c'', script_kind = Executable, runs_script = (\<lambda>a d w' w. (w, 9)), clears_interrupt = (\<lambda>w. w)\<rparr>"

definition sample_client :: "unit client" where
  "sample_client =
     \<lparr>cluster = sample_session, opCode = 0, user_store = new_store, cluster_stores = [], other_paths = [],
      clusterState = None, cwd_names = [], exit_files = [], max_failures = 5, registry = False, logged = []\<rparr>"

definition sample_info :: cluster_info where
  "sample_info =
     \<lparr>ci_env = [], ci_hdfs = ''http://a:10'', ci_mapred = ''http://a:10'', ci_ring = Some ''http://h:1/'', ci_jobid = ''7'',
      ci_min = 3, ci_max = 3\<rparr>"

text \<open>One cluster is recorded for \<open>/h/c\<close>, another one for \<open>/h/e\<close>.\<close>

definition busy_client :: "unit client" where
  "busy_client = sample_client\<lparr>
     user_store := new_store\<lparr>st_files := [(''clusters.state'', Some [(''/h/c'', ''7''), (''/h/e'', ''8'')])]\<rparr>,
     cluster_stores := [(''/h/c'', new_store\<lparr>st_files := [(''7.state'', Some sample_info)]\<rparr>)]\<rparr>"

abbreviation healthy :: "unit outside" where
  "healthy \<equiv> sample_outside False [''http://h:1/''] ''R''"

section \<open>The properties\<close>

lemma allocate_runs:
  "snd (op_allocate healthy (sample_client_cfg []) [''allocate'', ''c'', ''3''] sample_client) = Ret ()"
  "opCode (fst (op_allocate healthy (sample_client_cfg []) [''allocate'', ''c'', ''3''] sample_client)) = 0"
  "norm_cluster_dir (sample_client_cfg []) ''c'' = ''/h/c''"
  by code_simp+


lemma deallocate_runs:
  "snd (op_deallocate healthy (sample_client_cfg []) [''deallocate'', ''c''] busy_client) = Ret ()"
  "opCode (fst (op_deallocate healthy (sample_client_cfg []) [''deallocate'', ''c''] busy_client)) = 0"
  by code_simp+


lemma other_entry: "map_of (recorded busy_client) ''/h/e'' = Some ''8''"
  by code_simp

theorem other_clusters_kept_witness:
  "map_of (recorded (fst (op_allocate healthy (sample_client_cfg []) [''allocate'', ''c'', ''3''] busy_client))) ''/h/e'' = Some ''8'' \<and>
   map_of (recorded (fst (op_deallocate healthy (sample_client_cfg []) [''deallocate'', ''c''] busy_client))) ''/h/e'' = Some ''8''"
proof -
  have "''/h/e'' \<noteq> norm_cluster_dir (sample_client_cfg []) ''c''" unfolding allocate_runs(3) by simp
  from other_clusters_kept [OF this, of healthy _ "''3''" busy_client] show ?thesis
    unfolding other_entry by blast
qed

theorem occupied_directory_refused_witness:
  "same_jobs busy_client (fst (op_allocate healthy (sample_client_cfg []) [''allocate'', ''c'', ''3''] busy_client))"
proof (rule occupied_directory_refused)
  show "occupied healthy busy_client (norm_cluster_dir (sample_client_cfg []) ''c'')" by code_simp
qed

theorem node_range_exits_zero_witness:
  "same_jobs sample_client (fst (operation healthy (sample_client_cfg ''allocate c 3-5'') sample_client))"
proof -
  have "split_ws (cfg_operation (sample_client_cfg ''allocate c 3-5'')) = [''allocate'', ''c'', ''3-5'']"
    "is_node_range ''3-5''" "opCode sample_client = 0" "can_read (user_store sample_client) (cluster_data_file @ state_ext)"
    by code_simp+
  moreover have "operation healthy (sample_client_cfg ''allocate c 3-5'') sample_client =
      (fst (operation healthy (sample_client_cfg ''allocate c 3-5'') sample_client), Ret 0)"
  proof -
    have "snd (operation healthy (sample_client_cfg ''allocate c 3-5'') sample_client) = Ret 0" by code_simp
    then show ?thesis by (simp add: prod_eq_iff)
  qed
  ultimately have "0 = (0::nat) \<and> same_jobs sample_client (fst (operation healthy (sample_client_cfg ''allocate c 3-5'') sample_client))"
    by (rule node_range_exits_zero)
  then show ?thesis by simp
qed

definition script_end :: "unit client \<times> nat out" where
  "script_end = script healthy (sample_client_cfg []) sample_client"

lemma script_runs:
  "(case script_end of (c, r) \<Rightarrow> (r, is_dir c ''/h/c'', map_of (exit_files c) ''/h/c'')) = (Ret 9, True, Some 9)"
  by code_simp


end
