(* ===== verification/Hod_Desc.thy ===== *)
theory Hod_Desc
  imports Hod_Util
begin

text \<open>
  The descriptors of Hadoop on Demand: \<open>hodlib/Common/desc.py\<close> and \<open>hodlib/Common/descGenerator.py\<close>. A
  descriptor is a dict from names to values of several kinds.
\<close>

datatype dval = DStr string | DNone | DBool bool | DInt int | DList "string list" | DAttrs attrs

type_synonym ddict = "string \<rightharpoonup> dval"

definition setdefault :: "string \<Rightarrow> dval \<Rightarrow> ddict \<Rightarrow> ddict" where
  "setdefault k v d = (if d k = None then d(k \<mapsto> v) else d)"

fun as_attrs :: "dval \<Rightarrow> attrs res" where
  "as_attrs (DAttrs a) = Inr a"
| "as_attrs v = Inl AttributeError"

section \<open>Schemas\<close>

datatype schema_type = SchemaString | SchemaList | SchemaMap

record schema =
  schema_name :: string
  schema_type :: schema_type
  schema_delim :: string

definition Schema :: "string \<Rightarrow> schema_type \<Rightarrow> string \<Rightarrow> schema" where
  "Schema name ty delim = \<lparr>schema_name = name, schema_type = ty, schema_delim = delim\<rparr>"

definition by_name :: "schema list \<Rightarrow> string \<rightharpoonup> schema" where
  "by_name ss = map_of (map (\<lambda>s. (schema_name s, s)) ss)"

definition node_pool_schema :: "string \<rightharpoonup> schema" where
  "node_pool_schema = by_name
     [Schema ''id'' SchemaString '','', Schema ''batch-home'' SchemaList '':'', Schema ''attrs'' SchemaMap '','']"

definition service_schema :: "string \<rightharpoonup> schema" where
  "service_schema = by_name
     [Schema ''id'' SchemaString '','', Schema ''external'' SchemaString '','', Schema ''pkgs'' SchemaList '':'',
      Schema ''tar'' SchemaList '':'', Schema ''attrs'' SchemaMap '','', Schema ''final-attrs'' SchemaMap '','',
      Schema ''envs'' SchemaMap '','']"

section \<open>Merging\<close>

text \<open>\<open>_Merger\<close>; a \<open>Set\<close> of the elements has them in some order, here that of their first occurrence.\<close>

definition mergeList :: "'a list \<Rightarrow> 'a list \<Rightarrow> bool \<Rightarrow> 'a list" where
  "mergeList x y uniq = (if uniq then set_update [] (x @ y) else x @ y)"

fun mergeMap :: "('k \<rightharpoonup> 'v) \<Rightarrow> ('k \<times> 'v) list \<Rightarrow> ('k \<rightharpoonup> 'v)" where
  "mergeMap to [] = to"
| "mergeMap to ((k, v) # add) = mergeMap (if to k = None then to(k \<mapsto> v) else to) add"

lemma mergeMap_spec: "mergeMap to add = map_of add ++ to"
proof (induction to add rule: mergeMap.induct)
  case (2 to k v add)
  then show ?case by (auto simp: map_add_def fun_eq_iff split: option.splits)
qed simp

section \<open>Node pools and services\<close>

definition NodePoolDesc :: "ddict \<Rightarrow> ddict res" where
  "NodePoolDesc d =
     (let d1 = setdefault ''attrs'' (DAttrs []) d in
      if d1 ''id'' = None then Inl (ValueError ''nodepool needs id'')
      else ebind (key_res d1 ''batch-home'') (\<lambda>pkgs.
        if pkgs = DNone then Inl (ValueError ''nodepool needs pkgs'')
        else Inr (case d ''options'' of None \<Rightarrow> d1 | Some opts \<Rightarrow> d1(''attrs'' \<mapsto> opts))))"

definition service_defaults :: "ddict \<Rightarrow> ddict" where
  "service_defaults d =
     setdefault ''final-attrs'' (DAttrs []) (setdefault ''pkgs'' (DStr [])
       (setdefault ''tar'' DNone (setdefault ''port'' DNone (setdefault ''host'' DNone
       (setdefault ''envs'' (DAttrs []) (setdefault ''attrs'' (DAttrs [])
       (setdefault ''external'' (DBool False) d)))))))"

definition ServiceDesc :: "ddict \<Rightarrow> ddict res" where
  "ServiceDesc d =
     (if d ''id'' = None then Inl (ValueError ''service description needs id'')
      else Inr (case d ''hadoop-tar-ball'' of None \<Rightarrow> service_defaults d
                | Some t \<Rightarrow> (service_defaults d)(''tar'' \<mapsto> t)))"

definition desc_item :: "string \<Rightarrow> ddict \<Rightarrow> dval res" where
  "desc_item k d = key_res d k"

abbreviation getName :: "ddict \<Rightarrow> dval res" where "getName \<equiv> desc_item ''id''"
abbreviation getPkgDirs :: "ddict \<Rightarrow> dval res" where "getPkgDirs \<equiv> desc_item ''pkgs''"
abbreviation getAttrs :: "ddict \<Rightarrow> dval res" where "getAttrs \<equiv> desc_item ''attrs''"
abbreviation getfinalAttrs :: "ddict \<Rightarrow> dval res" where "getfinalAttrs \<equiv> desc_item ''final-attrs''"
abbreviation getEnvs :: "ddict \<Rightarrow> dval res" where "getEnvs \<equiv> desc_item ''envs''"
abbreviation getTar :: "ddict \<Rightarrow> dval res" where "getTar \<equiv> desc_item ''tar''"

definition isExternal :: "ddict \<Rightarrow> bool res" where
  "isExternal d = ebind (desc_item ''external'' d) (\<lambda>v.
     Inr (case v of DBool b \<Rightarrow> b | DNone \<Rightarrow> False | DStr s \<Rightarrow> s \<noteq> [] | DInt n \<Rightarrow> n \<noteq> 0
        | DList xs \<Rightarrow> xs \<noteq> [] | DAttrs a \<Rightarrow> a \<noteq> []))"

text \<open>A service description has every field the services read.\<close>

lemma setdefault_dom [simp]: "dom (setdefault k v d) = insert k (dom d)"
  by (auto simp: setdefault_def)

lemma setdefault_other: "j \<noteq> k \<Longrightarrow> setdefault k v d j = d j"
  by (simp add: setdefault_def)

lemma service_defaults_dom: "dom (service_defaults d) =
    {''final-attrs'', ''pkgs'', ''tar'', ''port'', ''host'', ''envs'', ''attrs'', ''external''} \<union> dom d"
  unfolding service_defaults_def setdefault_dom by simp

lemma service_defaults_id: "service_defaults d ''id'' = d ''id''"
  unfolding service_defaults_def by (simp add: setdefault_other)

theorem service_desc_complete:
  assumes "ServiceDesc d = Inr sd"
  shows "dom sd = {''final-attrs'', ''pkgs'', ''tar'', ''port'', ''host'', ''envs'', ''attrs'', ''external''} \<union> dom d
    \<and> ''id'' \<in> dom sd"
proof -
  have "d ''id'' \<noteq> None" and sd: "sd = (case d ''hadoop-tar-ball'' of None \<Rightarrow> service_defaults d
      | Some t \<Rightarrow> (service_defaults d)(''tar'' \<mapsto> t))"
    using assms by (auto simp: ServiceDesc_def split: if_splits)
  have "dom sd = {''final-attrs'', ''pkgs'', ''tar'', ''port'', ''host'', ''envs'', ''attrs'', ''external''} \<union> dom d"
    unfolding sd using service_defaults_dom [of d] by (auto split: option.split)
  with \<open>d ''id'' \<noteq> None\<close> show ?thesis by auto
qed

section \<open>Commands\<close>

text \<open>
  \<open>_csv\<close>: the writer of the \<open>csv\<close> module with a delimiter, the escape character backslash and no
  quoting. It escapes the delimiter, the escape character, the quote character and the newline, and
  refuses a row of one empty field. The text is stripped of newlines at its end.
\<close>

definition csv_escaped :: "char \<Rightarrow> char \<Rightarrow> bool" where
  "csv_escaped delim c \<longleftrightarrow> c = delim \<or> c = bslash \<or> c = dquote \<or> c = newline"

definition csv_field :: "char \<Rightarrow> string \<Rightarrow> string" where
  "csv_field delim f = concat (map (\<lambda>c. if csv_escaped delim c then [bslash, c] else [c]) f)"

definition rstrip_newlines :: "string \<Rightarrow> string" where
  "rstrip_newlines s = rev (dropWhile (\<lambda>c. c = newline) (rev s))"

definition csv :: "string list \<Rightarrow> char \<Rightarrow> string res" where
  "csv row delim =
     (if row = [[]] then Inl (PyException ''single empty field record must be quoted'')
      else Inr (rstrip_newlines (py_join [delim] (map (csv_field delim) row))))"

text \<open>A row given as one string is a row of its characters.\<close>

fun csv_value :: "dval \<Rightarrow> char \<Rightarrow> string res" where
  "csv_value (DList row) delim = csv row delim"
| "csv_value (DStr s) delim = csv (map (\<lambda>c. [c]) s) delim"
| "csv_value (DAttrs a) delim = csv (map fst a) delim"
| "csv_value _ delim = Inl TypeError"

text \<open>
  \<open>toString\<close>; \<open>show\<close> is \<open>str\<close>. For the final attributes it reads the other ones, and then calls \<open>_cvs\<close>,
  which does not exist.
\<close>

definition settings :: "attrs \<Rightarrow> string list" where
  "settings a = map (\<lambda>(k, v). k @ ''='' @ v) a"

definition opt_row :: "ddict \<Rightarrow> string \<Rightarrow> (dval \<Rightarrow> string res) \<Rightarrow> string list res" where
  "opt_row d k f = (case d k of None \<Rightarrow> Inr [] | Some v \<Rightarrow> ebind (f v) (\<lambda>s. Inr [k @ ''='' @ s]))"

definition toString :: "(dval \<Rightarrow> string) \<Rightarrow> ddict \<Rightarrow> string res" where
  "toString show d =
     ebind (key_res d ''name'') (\<lambda>name.
     ebind (key_res d ''program'') (\<lambda>program.
     ebind (ebind (key_res d ''pkgdirs'') (\<lambda>v. csv_value v (CHR '':''))) (\<lambda>pkgdirs.
     ebind (opt_row d ''argv'' (\<lambda>v. csv_value v (CHR '',''))) (\<lambda>argv.
     ebind (opt_row d ''envs'' (\<lambda>v. ebind (as_attrs v) (\<lambda>a. csv (settings a) (CHR '','')))) (\<lambda>envs.
     ebind (opt_row d ''workdirs'' (\<lambda>v. csv_value v (CHR '':''))) (\<lambda>workdirs.
     ebind (opt_row d ''attrs'' (\<lambda>v. ebind (as_attrs v) (\<lambda>a. csv (settings a) (CHR '','')))) (\<lambda>attrs.
     ebind (case d ''final-attrs'' of None \<Rightarrow> Inr ()
              | Some _ \<Rightarrow> ebind (key_res d ''attrs'') (\<lambda>v. ebind (as_attrs v) (\<lambda>_. Inl AttributeError))) (\<lambda>_.
     ebind (opt_row d ''fg'' (\<lambda>v. Inr (show v))) (\<lambda>fg.
     ebind (opt_row d ''stdin'' (\<lambda>v. Inr (show v))) (\<lambda>stdin.
       csv ([''name='' @ show name, ''program='' @ show program, ''pkgdirs='' @ pkgdirs] @ argv @ envs @
         workdirs @ attrs @ fg @ stdin) (CHR '','')))))))))))"

text \<open>A command with final attributes, as all commands of the services are, has no string form.\<close>

lemma ebind_raises: "(\<And>x. \<exists>e. f x = Inl e) \<Longrightarrow> \<exists>e. ebind m f = Inl e"
  by (cases m) simp_all

lemma ebind_raises_now: "\<exists>e. m = Inl e \<Longrightarrow> \<exists>e. ebind m f = Inl e"
  by auto

theorem toString_final_attrs_raises:
  assumes "d ''final-attrs'' \<noteq> None"
  shows "\<exists>e. toString show d = Inl e"
proof -
  obtain v where v: "d ''final-attrs'' = Some v" using assms by blast
  have cvs: "\<exists>e. ebind (key_res d ''attrs'') (\<lambda>v. ebind (as_attrs v) (\<lambda>_. Inl AttributeError)) = Inl e"
    by (intro ebind_raises) simp
  show ?thesis
    unfolding toString_def v option.case
    by (rule ebind_raises, rule ebind_raises, rule ebind_raises, rule ebind_raises, rule ebind_raises,
        rule ebind_raises, rule ebind_raises, rule ebind_raises_now, rule cvs)
qed

lemma rstrip_newlines_id: "s = [] \<or> last s \<noteq> newline \<Longrightarrow> rstrip_newlines s = s"
proof -
  assume "s = [] \<or> last s \<noteq> newline"
  then have "dropWhile (\<lambda>c. c = newline) (rev s) = rev s"
    by (auto simp: dropWhile_eq_self_iff hd_rev)
  then show ?thesis by (simp add: rstrip_newlines_def)
qed

section \<open>Descriptors from the configuration\<close>

text \<open>
  \<open>DescGenerator\<close>: the configuration is a list of sections in the order of iteration. The dict of a
  grid service is changed in place, so the configuration changes too. Descriptors of services whose
  sections agree up to the second hyphen overwrite each other.
\<close>

type_synonym config = "(string \<times> ddict) list"

definition service_section :: "string \<Rightarrow> ddict \<Rightarrow> ddict" where
  "service_section name d =
     (let d1 = (case d ''server-params'' of None \<Rightarrow> d | Some v \<Rightarrow> d(''attrs'' \<mapsto> v));
          d2 = (case d1 ''final-server-params'' of None \<Rightarrow> d1 | Some v \<Rightarrow> d1(''final-attrs'' \<mapsto> v))
      in d2(''id'' \<mapsto> DStr (split_char (CHR ''-'') name ! 1)))"

fun getServices :: "config \<Rightarrow> (string \<times> ddict) list \<Rightarrow> (config \<times> (string \<times> ddict) list) res" where
  "getServices [] sdd = Inr ([], sdd)"
| "getServices ((name, d) # rest) sdd =
     (if startswith name ''gridservice-'' then
        ebind (ServiceDesc (service_section name d)) (\<lambda>desc.
        ebind (getServices rest (AList.update (split_char (CHR ''-'') name ! 1) desc sdd)) (\<lambda>(cfg, sdd').
          Inr ((name, service_section name d) # cfg, sdd')))
      else ebind (getServices rest sdd) (\<lambda>(cfg, sdd'). Inr ((name, d) # cfg, sdd')))"

definition createServiceDescDict :: "config \<Rightarrow> (config \<times> (string \<times> ddict) list) res" where
  "createServiceDescDict cfg = getServices cfg []"

definition createNodePoolDesc :: "config \<Rightarrow> ddict res" where
  "createNodePoolDesc cfg = ebind (key_res (map_of cfg) ''resource_manager'') NodePoolDesc"

definition initializeDesc :: "config \<Rightarrow> (config \<times> ddict \<times> (string \<times> ddict) list) res" where
  "initializeDesc cfg =
     ebind (createNodePoolDesc cfg) (\<lambda>np.
     ebind (createServiceDescDict cfg) (\<lambda>(cfg', sdd). Inr (cfg', np, sdd)))"

lemma service_section_id: "service_section name d ''id'' = Some (DStr (split_char (CHR ''-'') name ! 1))"
  by (simp add: service_section_def Let_def)

lemma service_desc_ok: "\<exists>sd. ServiceDesc (service_section name d) = Inr sd"
  by (simp add: ServiceDesc_def service_section_id)

lemma service_desc_id: "ServiceDesc (service_section name d) = Inr sd \<Longrightarrow>
    sd ''id'' = Some (DStr (split_char (CHR ''-'') name ! 1))"
  by (auto simp: ServiceDesc_def service_section_id service_defaults_id split: option.splits)

definition grid_ids :: "config \<Rightarrow> string list" where
  "grid_ids cfg = map (\<lambda>(name, d). split_char (CHR ''-'') name ! 1)
     (filter (\<lambda>(name, d). startswith name ''gridservice-'') cfg)"

definition well_filed :: "(string \<times> ddict) list \<Rightarrow> bool" where
  "well_filed sdd \<longleftrightarrow> (\<forall>k sd. map_of sdd k = Some sd \<longrightarrow> sd ''id'' = Some (DStr k))"

lemma well_filed_update: "well_filed sdd \<Longrightarrow> d ''id'' = Some (DStr k) \<Longrightarrow> well_filed (AList.update k d sdd)"
  by (auto simp: well_filed_def update_conv')

lemma getServices_keeps:
  "well_filed sdd \<Longrightarrow> \<exists>cfg' sdd'. getServices cfg sdd = Inr (cfg', sdd') \<and> map fst cfg' = map fst cfg \<and>
     dom (map_of sdd') = dom (map_of sdd) \<union> set (grid_ids cfg) \<and> well_filed sdd'"
proof (induction cfg arbitrary: sdd)
  case Nil
  then show ?case by (simp add: grid_ids_def)
next
  case (Cons sec rest)
  obtain name d where sec: "sec = (name, d)" by (cases sec)
  show ?case
  proof (cases "startswith name ''gridservice-''")
    case True
    obtain desc where desc: "ServiceDesc (service_section name d) = Inr desc"
      using service_desc_ok by blast
    let ?sdd = "AList.update (split_char (CHR ''-'') name ! 1) desc sdd"
    have "well_filed ?sdd" using well_filed_update Cons.prems service_desc_id [OF desc] by blast
    then obtain cfg' sdd' where "getServices rest ?sdd = Inr (cfg', sdd')" "map fst cfg' = map fst rest"
        "dom (map_of sdd') = dom (map_of ?sdd) \<union> set (grid_ids rest)" "well_filed sdd'"
      using Cons.IH by blast
    then show ?thesis
      using True desc by (simp add: sec grid_ids_def update_conv')
  next
    case False
    obtain cfg' sdd' where "getServices rest sdd = Inr (cfg', sdd')" "map fst cfg' = map fst rest"
        "dom (map_of sdd') = dom (map_of sdd) \<union> set (grid_ids rest)" "well_filed sdd'"
      using Cons.IH [OF Cons.prems] by blast
    then show ?thesis
      using False by (simp add: sec grid_ids_def)
  qed
qed

text \<open>
  Generating the service descriptors never fails: there is one for every grid service of the
  configuration, filed under its name, with that name as its id.
\<close>

theorem createServiceDescDict_files:
  "\<exists>cfg' sdd. createServiceDescDict cfg = Inr (cfg', sdd) \<and> dom (map_of sdd) = set (grid_ids cfg) \<and> well_filed sdd"
  using getServices_keeps [of "[]" cfg] by (auto simp: createServiceDescDict_def well_filed_def)

end
