(* ===== verification/Hod_Services.thy ===== *)
theory Hod_Services
  imports Hod_Desc
begin

text \<open>
  The grid services of Hadoop on Demand: \<open>hodlib/GridServices/service.py\<close>, \<open>hdfs.py\<close> and \<open>mapred.py\<close>. The
  four classes of services are one record with a kind; the methods of the classes are cases over the
  kind. A method that changes the service gives the changed service beside its result, because what it
  had assigned stays assigned when it raises.
\<close>

section \<open>The services\<close>

datatype service_kind = HdfsExternal | Hdfs | MapReduceExternal | MapReduce

record service =
  kind :: service_kind
  serviceDesc :: ddict
  workDirs :: "string list"
  launchedMaster :: bool
  masterInitialized :: bool
  masterAddress :: string
  requiredNode :: "nat option"
  failedMsg :: "string option"
  masterFailureCount :: nat
  version :: nat
  masterNode :: "string option"
  masterAddr :: "string option"
  infoAddr :: "string option"
  runAdminCommands :: bool
  format_nn :: bool
  upgrade_nn :: bool
  workers_per_ring :: nat

text \<open>\<open>MasterSlave.__init__\<close>, and the constructors of the four classes.\<close>

definition MasterSlave :: "service_kind \<Rightarrow> ddict \<Rightarrow> string list \<Rightarrow> nat option \<Rightarrow> nat \<Rightarrow> service" where
  "MasterSlave k desc dirs required vsn =
     \<lparr>kind = k, serviceDesc = desc, workDirs = dirs, launchedMaster = False, masterInitialized = False,
      masterAddress = ''none'', requiredNode = required, failedMsg = None, masterFailureCount = 0,
      version = vsn, masterNode = None, masterAddr = None, infoAddr = None, runAdminCommands = True,
      format_nn = True, upgrade_nn = False, workers_per_ring = 1\<rparr>"

definition external_init :: "service_kind \<Rightarrow> ddict \<Rightarrow> string list \<Rightarrow> nat \<Rightarrow> service" where
  "external_init k desc dirs vsn =
     (MasterSlave k desc dirs None vsn)\<lparr>launchedMaster := True, masterInitialized := True\<rparr>"

definition Hdfs_init :: "ddict \<Rightarrow> string list \<Rightarrow> nat \<Rightarrow> nat \<Rightarrow> bool \<Rightarrow> bool \<Rightarrow> nat \<Rightarrow> service" where
  "Hdfs_init desc dirs required vsn fmt upg workers =
     (MasterSlave Hdfs desc dirs (Some required) vsn)
       \<lparr>format_nn := fmt, upgrade_nn := upg, workers_per_ring := workers\<rparr>"

definition MapReduce_init :: "ddict \<Rightarrow> string list \<Rightarrow> nat \<Rightarrow> nat \<Rightarrow> nat \<Rightarrow> service" where
  "MapReduce_init desc dirs required vsn workers =
     (MasterSlave MapReduce desc dirs (Some required) vsn)\<lparr>workers_per_ring := workers\<rparr>"

definition is_external_kind :: "service_kind \<Rightarrow> bool" where
  "is_external_kind k \<longleftrightarrow> k = HdfsExternal \<or> k = MapReduceExternal"

section \<open>The state of a master\<close>

definition service_name :: "service \<Rightarrow> dval res" where
  "service_name s = getName (serviceDesc s)"

definition service_isExternal :: "service \<Rightarrow> bool res" where
  "service_isExternal s = isExternal (serviceDesc s)"

definition setlaunchedMaster :: "service \<Rightarrow> service" where
  "setlaunchedMaster s = s\<lparr>launchedMaster := True\<rparr>"

definition setMasterInitialized :: "service \<Rightarrow> service" where
  "setMasterInitialized s = s\<lparr>masterInitialized := True, masterFailureCount := 0, failedMsg := None\<rparr>"

definition setMasterAddress :: "string \<Rightarrow> service \<Rightarrow> service" where
  "setMasterAddress addr s = s\<lparr>masterAddress := addr\<rparr>"

definition setMasterFailed :: "string \<Rightarrow> service \<Rightarrow> service" where
  "setMasterFailed err s =
     s\<lparr>masterFailureCount := masterFailureCount s + 1, failedMsg := Some err, launchedMaster := False\<rparr>"

text \<open>The operations that the base classes leave to the others; nobody defines the first ones.\<close>

definition isLost :: "service \<Rightarrow> bool res" where
  "isLost s = Inl NotImplementedError"

definition addNodes :: "string list \<Rightarrow> service \<Rightarrow> unit res" where
  "addNodes nodes s = Inl NotImplementedError"

definition removeNodes :: "string list \<Rightarrow> service \<Rightarrow> unit res" where
  "removeNodes nodes s = Inl NotImplementedError"

definition needsMore :: "service \<Rightarrow> nat res" where
  "needsMore s = (if kind s = MapReduceExternal then Inr 0 else Inl NotImplementedError)"

definition needsLess :: "service \<Rightarrow> nat res" where
  "needsLess s = (if kind s = MapReduceExternal then Inr 0 else Inl NotImplementedError)"

definition getWorkers :: "service \<Rightarrow> string list res" where
  "getWorkers s = (if is_external_kind (kind s) then Inl NotImplementedError else Inr [])"

definition setMasterNodes :: "string list \<Rightarrow> service \<Rightarrow> service res" where
  "setMasterNodes nodes s =
     (if is_external_kind (kind s) then Inl NotImplementedError
      else ebind (nth_res nodes 0) (\<lambda>node. Inr (s\<lparr>masterNode := Some node\<rparr>)))"

record node_request =
  numNodes :: nat
  required :: "string list"
  preferred :: "string list option"
  isPreemptee :: bool

text \<open>
  \<open>NodeRequest(1, [], False)\<close>: the third argument is the list of preferred nodes, not the preemptee flag
  (\<open>None\<close> stands for the \<open>False\<close> that is given for it).
\<close>

definition NodeRequest :: "nat \<Rightarrow> string list \<Rightarrow> string list option \<Rightarrow> bool \<Rightarrow> node_request" where
  "NodeRequest n req pref preempt =
     \<lparr>numNodes = n, required = req, preferred = pref, isPreemptee = preempt\<rparr>"

definition setNumNodes :: "nat \<Rightarrow> node_request \<Rightarrow> node_request" where
  "setNumNodes n r = r\<lparr>numNodes := n\<rparr>"

definition setPreferredList :: "string list \<Rightarrow> node_request \<Rightarrow> node_request" where
  "setPreferredList pref r = r\<lparr>preferred := Some pref\<rparr>"

definition setIsPreemptee :: "bool \<Rightarrow> node_request \<Rightarrow> node_request" where
  "setIsPreemptee flag r = r\<lparr>isPreemptee := flag\<rparr>"

definition getMasterRequest :: "service \<Rightarrow> node_request option" where
  "getMasterRequest s = (if is_external_kind (kind s) then None else Some (NodeRequest 1 [] None True))"

section \<open>Addresses of the master\<close>

text \<open>\<open>k,v = addr.split(":")\<close>\<close>

definition host_of :: "string \<Rightarrow> string res" where
  "host_of addr = (case split_char (CHR '':'') addr of [k, v] \<Rightarrow> Inr k | _ \<Rightarrow> Inl (ValueError ''unpack''))"

definition master_key :: "service_kind \<Rightarrow> string" where
  "master_key k = (case k of Hdfs \<Rightarrow> ''fs.default.name'' | HdfsExternal \<Rightarrow> ''fs.default.name''
     | MapReduce \<Rightarrow> ''mapred.job.tracker'' | MapReduceExternal \<Rightarrow> ''mapred.job.tracker'')"

definition info_port_key :: "service_kind \<Rightarrow> string" where
  "info_port_key k = (case k of Hdfs \<Rightarrow> ''dfs.info.port'' | HdfsExternal \<Rightarrow> ''dfs.info.port''
     | MapReduce \<Rightarrow> ''mapred.job.tracker.info.port'' | MapReduceExternal \<Rightarrow> ''mapred.job.tracker.info.port'')"

definition http_key :: "service_kind \<Rightarrow> string" where
  "http_key k = (case k of Hdfs \<Rightarrow> ''dfs.http.address'' | HdfsExternal \<Rightarrow> ''dfs.http.address''
     | MapReduce \<Rightarrow> ''mapred.job.tracker.http.address''
     | MapReduceExternal \<Rightarrow> ''mapred.job.tracker.http.address'')"

definition final_attrs_of :: "service \<Rightarrow> attrs res" where
  "final_attrs_of s = ebind (getfinalAttrs (serviceDesc s)) as_attrs"

definition getMasterAddrs :: "service \<Rightarrow> string option list res" where
  "getMasterAddrs s =
     (if is_external_kind (kind s) then
        ebind (final_attrs_of s) (\<lambda>a. ebind (attr_item a (master_key (kind s))) (\<lambda>addr. Inr [Some addr]))
      else Inr [masterAddr s])"

definition getInfoAddrs :: "service \<Rightarrow> string option list res" where
  "getInfoAddrs s =
     (if is_external_kind (kind s) then
        ebind (final_attrs_of s) (\<lambda>a.
          if version s < 16 then
            ebind (attr_item a (master_key (kind s))) (\<lambda>addr.
            ebind (host_of addr) (\<lambda>k.
            ebind (attr_item a (info_port_key (kind s))) (\<lambda>port. Inr [Some (k @ '':'' @ port)])))
          else ebind (attr_item a (http_key (kind s))) (\<lambda>addr. Inr [Some addr]))
      else Inr [infoAddr s])"

text \<open>\<open>setMasterParams\<close> of the services that HOD starts: the settings that a hodring reports.\<close>

definition set_params :: "string \<Rightarrow> string \<Rightarrow> string \<Rightarrow> string list \<Rightarrow> service \<Rightarrow> service \<times> unit res" where
  "set_params master_k port_k http_k vals s =
     (case parseEquals vals of Inl e \<Rightarrow> (s, Inl e) | Inr d \<Rightarrow>
      (case attr_item d master_k of Inl e \<Rightarrow> (s, Inl e) | Inr addr \<Rightarrow>
       (let s1 = s\<lparr>masterAddr := Some addr\<rparr> in
        case host_of addr of Inl e \<Rightarrow> (s1, Inl e) | Inr k \<Rightarrow>
        (let s2 = s1\<lparr>masterNode := Some k\<rparr> in
         case (if version s < 16 then ebind (attr_item d port_k) (\<lambda>port. Inr (k @ '':'' @ port))
               else attr_item d http_k) of
           Inl e \<Rightarrow> (s2, Inl e)
         | Inr info \<Rightarrow> (s2\<lparr>infoAddr := Some info\<rparr>, Inr ())))))"

definition Hdfs_setMasterParams :: "string list \<Rightarrow> service \<Rightarrow> service \<times> unit res" where
  "Hdfs_setMasterParams = set_params ''fs.default.name'' ''dfs.info.port'' ''dfs.http.address''"

definition MapReduce_setMasterParams :: "string list \<Rightarrow> service \<Rightarrow> service \<times> unit res" where
  "MapReduce_setMasterParams =
     set_params ''mapred.job.tracker'' ''mapred.job.tracker.info.port'' ''mapred.job.tracker.http.address''"

text \<open>The external services index the list with a string, which is a \<open>TypeError\<close>.\<close>

definition setMasterParams :: "string list \<Rightarrow> service \<Rightarrow> service \<times> unit res" where
  "setMasterParams vals s =
     (case kind s of Hdfs \<Rightarrow> Hdfs_setMasterParams vals s
      | MapReduce \<Rightarrow> MapReduce_setMasterParams vals s
      | _ \<Rightarrow> (s, Inl TypeError))"

text \<open>The parameters do not touch what says whether the master runs.\<close>

lemma set_params_frame:
  "masterFailureCount (fst (set_params a b c vals s)) = masterFailureCount s"
  "launchedMaster (fst (set_params a b c vals s)) = launchedMaster s"
  "masterInitialized (fst (set_params a b c vals s)) = masterInitialized s"
  "failedMsg (fst (set_params a b c vals s)) = failedMsg s"
  "kind (fst (set_params a b c vals s)) = kind s"
  "serviceDesc (fst (set_params a b c vals s)) = serviceDesc s"
  by (simp_all add: set_params_def Let_def split: sum.split)

lemma setMasterParams_frame [simp]:
  "masterFailureCount (fst (setMasterParams vals s)) = masterFailureCount s"
  "launchedMaster (fst (setMasterParams vals s)) = launchedMaster s"
  "masterInitialized (fst (setMasterParams vals s)) = masterInitialized s"
  "failedMsg (fst (setMasterParams vals s)) = failedMsg s"
  "kind (fst (setMasterParams vals s)) = kind s"
  "serviceDesc (fst (setMasterParams vals s)) = serviceDesc s"
  by (simp_all add: setMasterParams_def Hdfs_setMasterParams_def MapReduce_setMasterParams_def
      set_params_frame split: service_kind.split)

text \<open>
  \<open>setMasterParams\<close> of the external services: the section of the configuration; \<open>show\<close> is \<open>str\<close>. The
  one of \<open>MapReduceExternal\<close> subscripts the descriptor itself, which has no subscripts.
\<close>

definition set_final_attr :: "string \<Rightarrow> string \<Rightarrow> service \<Rightarrow> service res" where
  "set_final_attr k v s =
     ebind (getfinalAttrs (serviceDesc s)) (\<lambda>a. case a of
       DAttrs d \<Rightarrow> Inr (s\<lparr>serviceDesc := (serviceDesc s)(''final-attrs'' \<mapsto> DAttrs (attr_set k v d))\<rparr>)
     | _ \<Rightarrow> Inl TypeError)"

definition host_port :: "(dval \<Rightarrow> string) \<Rightarrow> ddict \<Rightarrow> string \<Rightarrow> string res" where
  "host_port show d port_key =
     ebind (key_res d ''host'') (\<lambda>h. ebind (key_res d port_key) (\<lambda>p. Inr (show h @ '':'' @ show p)))"

definition HdfsExternal_setMasterParams :: "(dval \<Rightarrow> string) \<Rightarrow> ddict \<Rightarrow> service \<Rightarrow> service res" where
  "HdfsExternal_setMasterParams show d s =
     ebind (host_port show d ''fs_port'') (\<lambda>addr.
     ebind (set_final_attr ''fs.default.name'' addr s) (\<lambda>s1.
       if version s < 16 then
         ebind (key_res (serviceDesc s1) ''info_port'') (\<lambda>p. set_final_attr ''dfs.info.port'' (show p) s1)
       else ebind (host_port show d ''info_port'') (\<lambda>info. set_final_attr ''dfs.http.address'' info s1)))"

definition MapReduceExternal_setMasterParams :: "(dval \<Rightarrow> string) \<Rightarrow> ddict \<Rightarrow> service \<Rightarrow> service res" where
  "MapReduceExternal_setMasterParams show d s =
     ebind (host_port show d ''tracker_port'') (\<lambda>addr. Inl AttributeError)"

end
