(* ===== verification/Hod_Commands.thy ===== *)
theory Hod_Commands
  imports Hod_Services
begin

text \<open>
  The commands of the grid services of Hadoop on Demand (\<open>hodlib/GridServices/hdfs.py\<close> and \<open>mapred.py\<close>): what
  a hodring is told to run for a master, for a worker and for the administration, and the ports a service
  takes (\<open>ServiceUtil\<close> of \<open>service.py\<close>). The dict of a command is a record; the values of its final
  attributes and its directories may be \<open>None\<close>.
\<close>

type_synonym oattrs = "(string \<times> string option) list"

record command =
  cmd_name :: string
  cmd_version :: "nat option"
  program :: string
  argv :: "string list"
  envs :: attrs
  pkgdirs :: dval
  workdirs :: "string option list"
  final_attrs :: oattrs
  cmd_attrs :: dval
  fg :: "string option"
  stdin :: "string option"
  ignorefailures :: "string option"

definition oset :: "string \<Rightarrow> string option \<Rightarrow> oattrs \<Rightarrow> oattrs" where
  "oset k v d = AList.update k v d"

definition odefault :: "string \<Rightarrow> string option \<Rightarrow> oattrs \<Rightarrow> oattrs" where
  "odefault k v d = (if map_of d k = None then oset k v d else d)"

lemma map_of_oset [simp]: "map_of (oset k v d) = (map_of d)(k \<mapsto> v)"
  by (simp add: oset_def update_conv')

definition sub_path :: "string \<Rightarrow> string \<Rightarrow> string \<Rightarrow> string" where
  "sub_path p subDir f = path_join (path_join p subDir) f"

definition first_path :: "string list \<Rightarrow> string \<Rightarrow> string \<Rightarrow> string option" where
  "first_path ps subDir f = (case ps of [] \<Rightarrow> None | p # _ \<Rightarrow> Some (sub_path p subDir f))"

definition copies :: "service \<Rightarrow> (oattrs \<times> attrs) res" where
  "copies s = ebind (final_attrs_of s) (\<lambda>a. ebind (ebind (getEnvs (serviceDesc s)) as_attrs) (\<lambda>e.
     Inr (map (\<lambda>(k, v). (k, Some v)) a, e)))"

section \<open>HDFS\<close>

definition hdfs_setWorkDirs ::
    "attrs \<Rightarrow> oattrs \<Rightarrow> string list \<Rightarrow> string \<Rightarrow> string option list \<times> attrs \<times> oattrs" where
  "hdfs_setWorkDirs envs0 attrs0 parentDirs subDir =
     (let datadir = map (\<lambda>p. sub_path p subDir ''dfs-data'') parentDirs;
          namedir = first_path parentDirs subDir ''dfs-name'' in
      (concat (map (\<lambda>p. [Some p, Some (path_join p subDir)]) parentDirs) @ [namedir] @ map Some datadir,
       attr_set ''HADOOP_ROOT_LOGGER'' ''INFO,DRFA'' envs0,
       oset ''dfs.data.dir'' (Some (py_join '','' datadir))
         (oset ''hadoop.tmp.dir'' (first_path parentDirs subDir ''hadoop-tmp'')
         (oset ''dfs.name.dir'' namedir attrs0))))"

definition getNameNodeCommand :: "bool \<Rightarrow> bool \<Rightarrow> service \<Rightarrow> command res" where
  "getNameNodeCommand fmt upg s =
     ebind (copies s) (\<lambda>(a0, e0).
     (let a1 = odefault ''fs.default.name'' (Some ''fillinhostport'') a0;
          a2 = (if version s < 16 then odefault ''dfs.info.port'' (Some ''fillinport'') a1
                else odefault ''dfs.http.address'' (Some ''fillinhostport'') a1);
          (wd, e, a) = hdfs_setWorkDirs e0 a2 (workDirs s) ''hdfs-nn'' in
      ebind (getPkgDirs (serviceDesc s)) (\<lambda>pkgs. ebind (getAttrs (serviceDesc s)) (\<lambda>at.
        Inr \<lparr>cmd_name = ''namenode'', cmd_version = None, program = ''bin/hadoop'',
          argv = (if fmt then [''namenode'', ''-format''] else if upg then [''namenode'', ''-upgrade'']
                  else [''namenode'']),
          envs = e, pkgdirs = pkgs, workdirs = wd, final_attrs = a, cmd_attrs = at,
          fg = (if fmt then Some ''true'' else None), stdin = (if fmt then Some ''Y'' else None),
          ignorefailures = None\<rparr>))))"

definition getNameNodeAdminCommand :: "string \<Rightarrow> bool \<Rightarrow> bool \<Rightarrow> service \<Rightarrow> command res" where
  "getNameNodeAdminCommand adminCommand wait ignoreFailures s =
     ebind (copies s) (\<lambda>(a0, e0).
     (case masterAddr s of None \<Rightarrow> Inl (ValueError ''namenode address'') | Some nn \<Rightarrow>
      (let a1 = oset ''fs.default.name'' (Some nn) a0;
           (wd, e, a) = hdfs_setWorkDirs e0 a1 (workDirs s) ''hdfs-nn'' in
       ebind (getPkgDirs (serviceDesc s)) (\<lambda>pkgs. ebind (getAttrs (serviceDesc s)) (\<lambda>at.
         Inr \<lparr>cmd_name = ''dfsadmin'', cmd_version = None, program = ''bin/hadoop'',
           argv = [''dfsadmin'', adminCommand], envs = e, pkgdirs = pkgs, workdirs = wd, final_attrs = a,
           cmd_attrs = at, fg = (if wait then Some ''true'' else None),
           stdin = (if wait then Some ''Y'' else None),
           ignorefailures = (if ignoreFailures then Some ''Y'' else None)\<rparr>)))))"

definition with_id :: "string \<Rightarrow> string list \<Rightarrow> string list" where
  "with_id i dirs = map (\<lambda>d. d @ ''-'' @ i) dirs"

definition datanode_attrs :: "nat \<Rightarrow> string \<Rightarrow> oattrs \<Rightarrow> oattrs" where
  "datanode_attrs vsn nn a0 =
     (let a1 = oset ''fs.default.name'' (Some nn) a0;
          a2 = (if vsn < 16 then
                  odefault ''dfs.datanode.info.port'' (Some ''fillinport'')
                    (odefault ''dfs.datanode.port'' (Some ''fillinport'') a1)
                else
                  odefault ''dfs.datanode.http.address'' (Some ''fillinhostport'')
                    (odefault ''dfs.datanode.address'' (Some ''fillinhostport'') a1)) in
      if 18 \<le> vsn then oset ''dfs.datanode.ipc.address'' (Some ''fillinhostport'') a2 else a2)"

definition getDataNodeCommand :: "string \<Rightarrow> service \<Rightarrow> command res" where
  "getDataNodeCommand i s =
     ebind (copies s) (\<lambda>(a0, e0).
     (case masterAddr s of None \<Rightarrow> Inl (ValueError ''namenode address'') | Some nn \<Rightarrow>
      (let (wd, e, a) = hdfs_setWorkDirs e0 (datanode_attrs (version s) nn a0) (with_id i (workDirs s)) ''hdfs-dn'' in
       ebind (getPkgDirs (serviceDesc s)) (\<lambda>pkgs. ebind (getAttrs (serviceDesc s)) (\<lambda>at.
         Inr \<lparr>cmd_name = ''datanode'', cmd_version = None, program = ''bin/hadoop'', argv = [''datanode''],
           envs = e, pkgdirs = pkgs, workdirs = wd, final_attrs = a, cmd_attrs = at,
           fg = None, stdin = None, ignorefailures = None\<rparr>)))))"

section \<open>Map/Reduce\<close>

definition mapred_setWorkDirs ::
    "attrs \<Rightarrow> oattrs \<Rightarrow> string list \<Rightarrow> string \<Rightarrow> string option list \<times> attrs \<times> oattrs" where
  "mapred_setWorkDirs envs0 attrs0 parentDirs subDir =
     (concat (map (\<lambda>p. [Some p, Some (path_join p subDir), Some (sub_path p subDir ''dfs-client'')]) parentDirs),
      attr_set ''HADOOP_ROOT_LOGGER'' ''INFO,DRFA'' envs0,
      oset ''hadoop.tmp.dir'' (first_path parentDirs subDir ''hadoop-tmp'')
        (oset ''mapred.temp.dir'' (first_path parentDirs subDir ''mapred-temp'')
        (oset ''mapred.system.dir'' (Some ''fillindir'')
        (oset ''mapred.local.dir''
          (Some (py_join '','' (map (\<lambda>p. sub_path p subDir ''mapred-local'') parentDirs))) attrs0))))"

definition hdfs_addr :: "service \<Rightarrow> string option res" where
  "hdfs_addr hdfs = ebind (getMasterAddrs hdfs) (\<lambda>addrs. nth_res addrs 0)"

definition getJobTrackerCommand :: "service \<Rightarrow> service \<Rightarrow> command res" where
  "getJobTrackerCommand hdfs s =
     ebind (copies s) (\<lambda>(a0, e0).
     (let a1 = odefault ''mapred.job.tracker'' (Some ''fillinhostport'') a0;
          a2 = (if version s < 16 then odefault ''mapred.job.tracker.info.port'' (Some ''fillinport'') a1
                else odefault ''mapred.job.tracker.http.address'' (Some ''fillinhostport'') a1) in
      ebind (hdfs_addr hdfs) (\<lambda>nn.
      (let (wd, e, a) = mapred_setWorkDirs e0 (oset ''fs.default.name'' nn a2) (workDirs s) ''mapred-jt'' in
       ebind (getPkgDirs (serviceDesc s)) (\<lambda>pkgs. ebind (getAttrs (serviceDesc s)) (\<lambda>at.
         Inr \<lparr>cmd_name = ''jobtracker'', cmd_version = Some (version s), program = ''bin/hadoop'',
           argv = [''jobtracker''], envs = e, pkgdirs = pkgs, workdirs = wd, final_attrs = a,
           cmd_attrs = at, fg = None, stdin = None, ignorefailures = None\<rparr>))))))"

definition tasktracker_attrs :: "nat \<Rightarrow> string \<Rightarrow> string option \<Rightarrow> oattrs \<Rightarrow> oattrs" where
  "tasktracker_attrs vsn jt nn a0 =
     (let a1 = oset ''fs.default.name'' nn (oset ''mapred.job.tracker'' (Some jt) a0) in
      if vsn < 16 then odefault ''tasktracker.http.port'' (Some ''fillinport'') a1
      else
        odefault ''mapred.task.tracker.http.address'' (Some ''fillinhostport'')
          (odefault ''mapred.task.tracker.report.address'' (Some ''fillinhostport'') a1))"

definition getTaskTrackerCommand :: "string \<Rightarrow> service \<Rightarrow> service \<Rightarrow> command res" where
  "getTaskTrackerCommand i hdfs s =
     ebind (copies s) (\<lambda>(a0, e0).
     (case masterAddr s of None \<Rightarrow> Inl (ValueError ''job tracker address'') | Some jt \<Rightarrow>
      ebind (hdfs_addr hdfs) (\<lambda>nn.
      (let (wd, e, a) = mapred_setWorkDirs e0 (tasktracker_attrs (version s) jt nn a0)
             (with_id i (workDirs s)) ''mapred-tt'' in
       ebind (getPkgDirs (serviceDesc s)) (\<lambda>pkgs. ebind (getAttrs (serviceDesc s)) (\<lambda>at.
         Inr \<lparr>cmd_name = ''tasktracker'', cmd_version = None, program = ''bin/hadoop'',
           argv = [''tasktracker''], envs = e, pkgdirs = pkgs, workdirs = wd, final_attrs = a,
           cmd_attrs = at, fg = None, stdin = None, ignorefailures = None\<rparr>))))))"

section \<open>What a service asks to run\<close>

type_synonym service_dict = "(string \<times> service) list"

definition isLaunchable :: "service_dict \<Rightarrow> service \<Rightarrow> bool res" where
  "isLaunchable sd s =
     (if kind s = MapReduce then ebind (key_res (map_of sd) ''hdfs'') (\<lambda>hdfs. Inr (masterInitialized hdfs))
      else Inr True)"

definition Hdfs_getMasterCommands :: "service \<Rightarrow> command list res" where
  "Hdfs_getMasterCommands s =
     ebind (if format_nn s then ebind (getNameNodeCommand True False s) (\<lambda>c. Inr [c]) else Inr []) (\<lambda>cs.
     ebind (getNameNodeCommand False (upgrade_nn s) s) (\<lambda>c. Inr (cs @ [c])))"

definition MapReduce_getMasterCommands :: "service_dict \<Rightarrow> service \<Rightarrow> command list res" where
  "MapReduce_getMasterCommands sd s =
     ebind (key_res (map_of sd) ''hdfs'') (\<lambda>hdfs. ebind (getJobTrackerCommand hdfs s) (\<lambda>c. Inr [c]))"

definition getMasterCommands :: "service_dict \<Rightarrow> service \<Rightarrow> command list res" where
  "getMasterCommands sd s =
     (case kind s of Hdfs \<Rightarrow> Hdfs_getMasterCommands s | MapReduce \<Rightarrow> MapReduce_getMasterCommands sd s
      | _ \<Rightarrow> Inr [])"

definition getAdminCommands :: "service \<Rightarrow> service \<times> command list res" where
  "getAdminCommands s =
     (if kind s = Hdfs then
        (case (if upgrade_nn s \<and> runAdminCommands s then
                 ebind (getNameNodeAdminCommand ''-safemode wait'' True False s) (\<lambda>c1.
                 ebind (getNameNodeAdminCommand ''-finalizeUpgrade'' True True s) (\<lambda>c2. Inr [c1, c2]))
               else Inr []) of
           Inl e \<Rightarrow> (s, Inl e)
         | Inr cs \<Rightarrow> (s\<lparr>runAdminCommands := False\<rparr>, Inr cs))
      else (s, Inr []))"

definition ring_ids :: "service \<Rightarrow> string list" where
  "ring_ids s = map nat_str [1..<workers_per_ring s + 1]"

definition Hdfs_getWorkerCommands :: "service \<Rightarrow> command list res" where
  "Hdfs_getWorkerCommands s = emap (\<lambda>i. getDataNodeCommand i s) (ring_ids s)"

definition MapReduce_getWorkerCommands :: "service_dict \<Rightarrow> service \<Rightarrow> command list res" where
  "MapReduce_getWorkerCommands sd s =
     ebind (key_res (map_of sd) ''hdfs'') (\<lambda>hdfs. emap (\<lambda>i. getTaskTrackerCommand i hdfs s) (ring_ids s))"

definition getWorkerCommands :: "service_dict \<Rightarrow> service \<Rightarrow> command list res" where
  "getWorkerCommands sd s =
     (case kind s of Hdfs \<Rightarrow> Hdfs_getWorkerCommands s | MapReduce \<Rightarrow> MapReduce_getWorkerCommands sd s
      | _ \<Rightarrow> Inr [])"

section \<open>Work directories of the workers\<close>

text \<open>Every directory of a worker is a work directory with the worker's number, followed by one of these.\<close>

definition worker_suffixes :: "string set" where
  "worker_suffixes = {[], ''/hdfs-dn'', ''/hdfs-dn/dfs-data'', ''/hdfs-dn/dfs-name'', ''/mapred-tt'',
     ''/mapred-tt/dfs-client''}"

definition worker_paths :: "nat \<Rightarrow> string set" where
  "worker_paths i = {p @ ''-'' @ nat_str i @ t |p t. t \<in> worker_suffixes}"

lemma digits_before_dash:
  assumes "p @ CHR ''-'' # u = q @ CHR ''-'' # v" and "list_all is_digit u" and "list_all is_digit v"
  shows "u = v"
proof -
  have backwards: "takeWhile is_digit (rev (p @ CHR ''-'' # u)) = rev u" if "list_all is_digit u" for p u
    using that by (simp add: takeWhile_append is_digit_def code_point_def list_all_iff)
  show ?thesis using backwards [OF assms(2), of p] backwards [OF assms(3), of q] assms(1) by simp
qed

lemma worker_number_unique:
  assumes "p @ ''-'' @ nat_str i @ t = q @ ''-'' @ nat_str j @ u"
    and "t \<in> worker_suffixes" and "u \<in> worker_suffixes"
  shows "i = j"
proof -
  have end_of: "last (p @ ''-'' @ nat_str i @ t) = (if t = [] then last (nat_str i) else last t)" for p i t
    using nat_str_digits [of i] by simp
  have digit: "\<not> is_digit (last t)" if "t \<in> worker_suffixes" "t \<noteq> []" for t
    using that by (auto simp: worker_suffixes_def is_digit_def code_point_def)
  have same_end: "(if t = [] then last (nat_str i) else last t) = (if u = [] then last (nat_str j) else last u)"
    using arg_cong [OF assms(1), of last] by (simp only: end_of)
  then have "t = u"
  proof (cases "t = [] \<or> u = []")
    case True
    with same_end digit [OF assms(2)] digit [OF assms(3)] nat_str_last show ?thesis by (metis (full_types))
  next
    case False
    have "take 2 (rev (p @ ''-'' @ nat_str i @ t)) = take 2 (rev t)" if "t \<in> worker_suffixes" "t \<noteq> []" for p i t
      using that by (auto simp: worker_suffixes_def)
    with False assms have "take 2 (rev t) = take 2 (rev u)" by metis
    with False assms(2,3) show ?thesis
      unfolding worker_suffixes_def by (elim insertE emptyE) simp_all
  qed
  with assms(1) have "(p @ CHR ''-'' # nat_str i) @ t = (q @ CHR ''-'' # nat_str j) @ t" by simp
  then have "nat_str i = nat_str j"
    using digits_before_dash nat_str_digits by blast
  then show ?thesis by (metis digits_value_nat_str)
qed

lemma worker_paths_disjoint: "i \<noteq> j \<Longrightarrow> worker_paths i \<inter> worker_paths j = {}"
  by (auto simp only: worker_paths_def Int_iff mem_Collect_eq empty_iff dest: worker_number_unique)

lemma path_join_number:
  "\<not> startswith b ''/'' \<Longrightarrow> path_join (p @ ''-'' @ nat_str i) b = p @ ''-'' @ nat_str i @ ''/'' @ b"
  using nat_str_last [of i] nat_str_digits [of i]
  by (auto simp: path_join_def is_digit_def code_point_def)

lemma path_join_name:
  "\<not> startswith b ''/'' \<Longrightarrow> a \<noteq> [] \<Longrightarrow> last a \<noteq> CHR ''/'' \<Longrightarrow> path_join a b = a @ ''/'' @ b"
  by (simp add: path_join_def)

lemma worker_pathI: "t \<in> worker_suffixes \<Longrightarrow> p @ CHR ''-'' # nat_str i @ t \<in> worker_paths i"
  by (auto simp: worker_paths_def)

lemma worker_dirs_paths:
  "p @ CHR ''-'' # nat_str i \<in> worker_paths i"
  "path_join (p @ CHR ''-'' # nat_str i) ''hdfs-dn'' \<in> worker_paths i"
  "sub_path (p @ CHR ''-'' # nat_str i) ''hdfs-dn'' ''dfs-data'' \<in> worker_paths i"
  "sub_path (p @ CHR ''-'' # nat_str i) ''hdfs-dn'' ''dfs-name'' \<in> worker_paths i"
  "path_join (p @ CHR ''-'' # nat_str i) ''mapred-tt'' \<in> worker_paths i"
  "sub_path (p @ CHR ''-'' # nat_str i) ''mapred-tt'' ''dfs-client'' \<in> worker_paths i"
  using path_join_number [of _ p i] worker_pathI [of _ p i]
  by (simp_all add: worker_suffixes_def sub_path_def path_join_name startswith_def)
    (metis append_Nil2 insertI1)

lemma hdfs_dirs_numbered:
  "set (fst (hdfs_setWorkDirs e a (with_id (nat_str i) dirs) ''hdfs-dn'')) \<subseteq> insert None (Some ` worker_paths i)"
  using worker_dirs_paths
  by (cases dirs) (auto simp: hdfs_setWorkDirs_def Let_def with_id_def first_path_def)

lemma mapred_dirs_numbered:
  "set (fst (mapred_setWorkDirs e a (with_id (nat_str i) dirs) ''mapred-tt'')) \<subseteq> insert None (Some ` worker_paths i)"
  using worker_dirs_paths
  by (auto simp: mapred_setWorkDirs_def with_id_def)

lemma datanode_dirs:
  assumes "getDataNodeCommand (nat_str i) s = Inr c"
  shows "set (workdirs c) \<subseteq> insert None (Some ` worker_paths i)"
proof -
  from assms obtain e a where
    "workdirs c = fst (hdfs_setWorkDirs e a (with_id (nat_str i) (workDirs s)) ''hdfs-dn'')"
    unfolding getDataNodeCommand_def result_simps Let_def by (auto simp: result_simps case_prod_beta split: option.splits)
  then show ?thesis using hdfs_dirs_numbered by simp
qed

lemma tasktracker_dirs:
  assumes "getTaskTrackerCommand (nat_str i) hdfs s = Inr c"
  shows "set (workdirs c) \<subseteq> insert None (Some ` worker_paths i)"
proof -
  from assms obtain e a where
    "workdirs c = fst (mapred_setWorkDirs e a (with_id (nat_str i) (workDirs s)) ''mapred-tt'')"
    unfolding getTaskTrackerCommand_def result_simps Let_def by (auto simp: result_simps case_prod_beta split: option.splits)
  then show ?thesis using mapred_dirs_numbered by simp
qed

definition apart :: "command \<Rightarrow> command \<Rightarrow> bool" where
  "apart c d \<longleftrightarrow> set (workdirs c) \<inter> set (workdirs d) \<subseteq> {None}"

lemma numbered_apart:
  assumes "emap f (ring_ids s) = Inr cs"
    and "\<And>i c. f (nat_str i) = Inr c \<Longrightarrow> set (workdirs c) \<subseteq> insert None (Some ` worker_paths i)"
  shows "sorted_wrt apart cs"
proof -
  have all: "list_all2 (\<lambda>x y. f x = Inr y) (ring_ids s) cs"
    using assms(1) by (simp add: emap_Inr_iff)
  then have len: "length cs = workers_per_ring s"
    by (auto simp: ring_ids_def simp del: upt_Suc dest: list_all2_lengthD)
  have dirs: "set (workdirs (cs ! k)) \<subseteq> insert None (Some ` worker_paths (Suc k))" if "k < length cs" for k
  proof -
    have "f (ring_ids s ! k) = Inr (cs ! k)" using list_all2_nthD2 [OF all that] .
    moreover have "ring_ids s ! k = nat_str (Suc k)"
      using that len by (simp add: ring_ids_def del: upt_Suc)
    ultimately show ?thesis using assms(2) by simp
  qed
  have "apart (cs ! k) (cs ! l)" if "k < l" "l < length cs" for k l
    using dirs [of k] dirs [of l] that worker_paths_disjoint [of "Suc k" "Suc l"]
    unfolding apart_def by auto
  then show ?thesis by (simp add: sorted_wrt_iff_nth_less)
qed

text \<open>
  The workers that one hodring runs for a service never share a directory.
\<close>

theorem worker_dirs_disjoint:
  assumes "getWorkerCommands sd s = Inr cs"
  shows "sorted_wrt (\<lambda>c d. set (workdirs c) \<inter> set (workdirs d) \<subseteq> {None}) cs"
proof -
  have "sorted_wrt apart cs"
  proof (cases "kind s")
    case Hdfs
    with assms have "emap (\<lambda>i. getDataNodeCommand i s) (ring_ids s) = Inr cs"
      by (simp add: getWorkerCommands_def Hdfs_getWorkerCommands_def)
    then show ?thesis by (rule numbered_apart) (rule datanode_dirs)
  next
    case MapReduce
    with assms obtain hdfs where "emap (\<lambda>i. getTaskTrackerCommand i hdfs s) (ring_ids s) = Inr cs"
      by (auto simp: getWorkerCommands_def MapReduce_getWorkerCommands_def result_simps)
    then show ?thesis by (rule numbered_apart) (rule tasktracker_dirs)
  qed (use assms in \<open>simp_all add: getWorkerCommands_def\<close>)
  then show ?thesis by (simp add: apart_def [abs_def])
qed

section \<open>Administration\<close>

text \<open>
  The administration commands are asked for at most once: whatever was answered, the service then has
  none. When they cannot be made the service is unchanged.
\<close>

theorem admin_commands_once:
  "case getAdminCommands s of
     (s', Inr cs) \<Rightarrow> getAdminCommands s' = (s', Inr [])
   | (s', Inl e) \<Rightarrow> s' = s \<and> masterAddr s = None \<or> s' = s \<and> kind s = Hdfs"
  by (auto simp: getAdminCommands_def split: prod.split sum.split)

end
