(* ===== verification/Hod_RingMaster.thy ===== *)
theory Hod_RingMaster
  imports Hod_Commands
begin

text \<open>
  The remote calls of the ring master of Hadoop on Demand: the methods of \<open>_LogMasterSources\<close> in
  \<open>hodlib/RingMaster/ringMaster.py\<close> by which the hodrings ask for commands and report, and the clients ask
  for addresses. The dict of services is an association list in its order of iteration. The methods on
  \<open>cmdLock\<close> release it in a \<open>finally\<close> clause; those on \<open>masterParamLock\<close> do not, so that lock is part of the
  state. A bare \<open>except\<close> swallows what is raised, and what was done before stays done.
\<close>

record ring =
  services :: service_dict
  param_locked :: bool

section \<open>Commands for a hodring\<close>

text \<open>\<open>max_failures\<close> is the setting \<open>max-master-failures\<close>. The first service to launch, and its commands.\<close>

definition may_launch :: "nat \<Rightarrow> service \<Rightarrow> bool" where
  "may_launch max_failures s \<longleftrightarrow> \<not> launchedMaster s \<and> masterFailureCount s \<le> max_failures"

fun find_launch :: "nat \<Rightarrow> service_dict \<Rightarrow> service_dict \<Rightarrow> (string \<times> command list) option res" where
  "find_launch mx sd [] = Inr None"
| "find_launch mx sd ((k, s) # rest) =
     ebind (service_isExternal s) (\<lambda>ext.
       if ext then find_launch mx sd rest
       else ebind (isLaunchable sd s) (\<lambda>ok.
         if ok \<and> may_launch mx s then ebind (getMasterCommands sd s) (\<lambda>cmds. Inr (Some (k, cmds)))
         else find_launch mx sd rest))"

definition update_service :: "string \<Rightarrow> (service \<Rightarrow> service) \<Rightarrow> service_dict \<Rightarrow> service_dict" where
  "update_service k f sd = map (\<lambda>(k', s). (k', if k' = k then f s else s)) sd"

text \<open>
  The loop over the workers tests \<open>v.isExternal()\<close>, where \<open>v\<close> is still the variable of the loop before; \<open>v\<close> is
  an argument here. An exception leaves the commands collected so far.
\<close>

fun worker_loop :: "service \<Rightarrow> service_dict \<Rightarrow> service_dict \<Rightarrow> command list \<Rightarrow> command list" where
  "worker_loop v sd [] cmds = cmds"
| "worker_loop v sd ((k, s) # rest) cmds =
     (case service_isExternal v of
        Inl e \<Rightarrow> cmds
      | Inr True \<Rightarrow> worker_loop v sd rest cmds
      | Inr False \<Rightarrow>
          (if masterInitialized s then
             (case getWorkerCommands sd s of
                Inl e \<Rightarrow> cmds
              | Inr cl \<Rightarrow> worker_loop v sd rest (cmds @ cl))
           else []))"

definition getCommand :: "nat \<Rightarrow> string \<Rightarrow> ring \<Rightarrow> ring \<times> command list" where
  "getCommand mx addr rm =
     (case find_launch mx (services rm) (services rm) of
        Inl e \<Rightarrow> (rm, [])
      | Inr (Some (k, cmds)) \<Rightarrow>
          (let sd = update_service k (\<lambda>s. setMasterAddress addr (setlaunchedMaster s)) (services rm) in
           (rm\<lparr>services := sd\<rparr>,
            if cmds = [] then worker_loop (the (map_of sd k)) sd sd [] else cmds))
      | Inr None \<Rightarrow>
          (rm, if services rm = [] then []
               else worker_loop (snd (last (services rm))) (services rm) (services rm) []))"

fun admin_loop :: "service_dict \<Rightarrow> service_dict \<times> command list" where
  "admin_loop [] = ([], [])"
| "admin_loop ((k, s) # rest) =
     (case getAdminCommands s of
        (s', Inl e) \<Rightarrow> ((k, s') # rest, [])
      | (s', Inr cmds) \<Rightarrow>
          (if cmds \<noteq> [] then ((k, s') # rest, cmds)
           else (case admin_loop rest of (rest', r) \<Rightarrow> ((k, s') # rest', r))))"

definition getAdminCommand :: "string \<Rightarrow> ring \<Rightarrow> ring \<times> command list" where
  "getAdminCommand addr rm =
     (case admin_loop (services rm) of (sd, cmds) \<Rightarrow> (rm\<lparr>services := sd\<rparr>, cmds))"

section \<open>Reports of a hodring\<close>

fun params_loop :: "string \<Rightarrow> string list \<Rightarrow> service_dict \<Rightarrow> service_dict" where
  "params_loop addr vals [] = []"
| "params_loop addr vals ((k, s) # rest) =
     (if launchedMaster s \<and> masterAddress s = addr then
        (case setMasterParams vals s of
           (s', Inl e) \<Rightarrow> (k, s') # rest
         | (s', Inr _) \<Rightarrow> (k, setMasterInitialized s') # params_loop addr vals rest)
      else (k, s) # params_loop addr vals rest)"

definition addMasterParams :: "string \<Rightarrow> string list \<Rightarrow> ring \<Rightarrow> ring \<times> string out" where
  "addMasterParams addr vals rm =
     (if param_locked rm then (rm, Diverge)
      else (rm\<lparr>services := params_loop addr vals (services rm)\<rparr>, Ret addr))"

text \<open>\<open>addr[:addr.rfind('_')]\<close>, when there is an underscore: the address without the process id.\<close>

definition strip_pid :: "string \<Rightarrow> string" where
  "strip_pid addr =
     (if CHR ''_'' \<in> set addr then rev (drop 1 (dropWhile (\<lambda>c. c \<noteq> CHR ''_'') (rev addr))) else addr)"

definition failure_message :: "string \<Rightarrow> string \<Rightarrow> string" where
  "failure_message addr errors = ''Hodring at '' @ addr @ '' failed with following errors:'' @ [newline] @ errors"

text \<open>The loop goes on with the stripped address, so a second service on the same hodring is not found.\<close>

fun errors_loop :: "string \<Rightarrow> string \<Rightarrow> service_dict \<Rightarrow> service_dict" where
  "errors_loop addr errors [] = []"
| "errors_loop addr errors ((k, s) # rest) =
     (if launchedMaster s \<and> masterAddress s = addr then
        (k, setMasterFailed (failure_message (strip_pid addr) errors) s) # errors_loop (strip_pid addr) errors rest
      else (k, s) # errors_loop addr errors rest)"

definition setHodRingErrors :: "string \<Rightarrow> string \<Rightarrow> ring \<Rightarrow> ring \<times> bool out" where
  "setHodRingErrors addr errors rm =
     (if param_locked rm then (rm, Diverge)
      else (rm\<lparr>services := errors_loop addr errors (services rm)\<rparr>, Ret True))"

section \<open>Questions of a client\<close>

definition getKeys :: "ring \<Rightarrow> ring \<times> string list out" where
  "getKeys rm = (if param_locked rm then (rm, Diverge) else (rm, Ret (map fst (services rm))))"

definition first_addr :: "string option list res \<Rightarrow> string option res" where
  "first_addr r = ebind r (\<lambda>addrs. nth_res addrs 0)"

text \<open>What happens in the \<open>else\<close> part of the \<open>try\<close> is not caught: an exception there keeps the lock.\<close>

definition release :: "ring \<Rightarrow> 'a res \<Rightarrow> ring \<times> 'a out" where
  "release rm r = (case r of Inl e \<Rightarrow> (rm\<lparr>param_locked := True\<rparr>, Raise e) | Inr x \<Rightarrow> (rm, Ret x))"

definition gives_up :: "nat \<Rightarrow> service \<Rightarrow> bool" where
  "gives_up mx s \<longleftrightarrow> failedMsg s \<noteq> None \<and> mx < masterFailureCount s"

definition getServiceAddr :: "nat \<Rightarrow> string \<Rightarrow> ring \<Rightarrow> ring \<times> string option out" where
  "getServiceAddr mx name rm =
     (if param_locked rm then (rm, Diverge)
      else (case map_of (services rm) name of
          None \<Rightarrow> (rm, Ret (Some ''not found''))
        | Some s \<Rightarrow>
            release rm
              (if gives_up mx s then Inr (Some (''Error: '' @ the (failedMsg s)))
               else if masterInitialized s then first_addr (getMasterAddrs s)
               else Inr (Some ''not found''))))"

definition getURLs :: "string \<Rightarrow> ring \<Rightarrow> ring \<times> string option out" where
  "getURLs name rm =
     (if param_locked rm then (rm, Diverge)
      else (case map_of (services rm) name of
          None \<Rightarrow> (rm, Ret (Some ''none''))
        | Some s \<Rightarrow>
            release rm (if masterInitialized s then first_addr (getInfoAddrs s) else Inr (Some ''none''))))"

section \<open>The services of a ring\<close>

text \<open>
  The part of \<open>RingMaster.__init__\<close> that makes the two services: \<open>sdl\<close> holds the service descriptors, \<open>cfg\<close> the
  sections of the configuration, \<open>vers\<close> is what \<open>hadoopVersion\<close> found and \<open>show\<close> is \<open>str\<close>.
\<close>

definition new_hdfs :: "(dval \<Rightarrow> string) \<Rightarrow> nat \<Rightarrow> (string \<rightharpoonup> ddict) \<Rightarrow> ddict \<Rightarrow> string list \<Rightarrow> nat \<Rightarrow> service res" where
  "new_hdfs show vsn cfg desc dirs workers =
     ebind (isExternal desc) (\<lambda>ext.
       if ext then ebind (key_res cfg ''gridservice-hdfs'') (\<lambda>d.
         HdfsExternal_setMasterParams show d (external_init HdfsExternal desc dirs vsn))
       else Inr (Hdfs_init desc dirs 0 vsn True False workers))"

definition new_mapred :: "(dval \<Rightarrow> string) \<Rightarrow> nat \<Rightarrow> (string \<rightharpoonup> ddict) \<Rightarrow> ddict \<Rightarrow> string list \<Rightarrow> nat \<Rightarrow> service res" where
  "new_mapred show vsn cfg desc dirs workers =
     ebind (isExternal desc) (\<lambda>ext.
       if ext then ebind (key_res cfg ''gridservice-mapred'') (\<lambda>d.
         MapReduceExternal_setMasterParams show d (external_init MapReduceExternal desc dirs vsn))
       else Inr (MapReduce_init desc dirs 1 vsn workers))"

definition name_of :: "service \<Rightarrow> string res" where
  "name_of s = ebind (service_name s) (\<lambda>n. case n of DStr x \<Rightarrow> Inr x | _ \<Rightarrow> Inl TypeError)"

definition create_services ::
    "(dval \<Rightarrow> string) \<Rightarrow> string option \<times> string option \<Rightarrow> (string \<rightharpoonup> ddict) \<Rightarrow> (string \<rightharpoonup> ddict) \<Rightarrow>
     string list \<Rightarrow> nat \<Rightarrow> service_dict res" where
  "create_services show vers cfg sdl dirs workers =
     ebind (key_res sdl ''hdfs'') (\<lambda>hdfsDesc.
       (case vers of
          (Some major, Some minor) \<Rightarrow>
            ebind (py_int minor) (\<lambda>vsn.
            ebind (new_hdfs show (nat vsn) cfg hdfsDesc dirs workers) (\<lambda>hdfs.
            ebind (name_of hdfs) (\<lambda>hdfsName.
            ebind (key_res sdl ''mapred'') (\<lambda>mrDesc.
            ebind (new_mapred show (nat vsn) cfg mrDesc dirs workers) (\<lambda>mr.
            ebind (name_of mr) (\<lambda>mrName.
              Inr (AList.update mrName mr [(hdfsName, hdfs)])))))))
        | _ \<Rightarrow> Inl (PyException ''Could not retrive the version of Hadoop.'')))"

text \<open>A ring with an external Map/Reduce service never comes up.\<close>

theorem external_mapred_never_starts:
  assumes "sdl ''mapred'' = Some desc" and "isExternal desc = Inr True"
  shows "\<exists>e. create_services show vers cfg sdl dirs workers = Inl e"
proof -
  have "\<exists>e. new_mapred show vsn cfg desc dirs workers = Inl e" for vsn
    using assms(2) unfolding new_mapred_def MapReduceExternal_setMasterParams_def
    by (simp, intro ebind_raises) simp
  then have none: "\<exists>e. ebind (key_res sdl ''mapred'') (\<lambda>mrDesc. ebind (new_mapred show vsn cfg mrDesc dirs workers) f) = Inl e"
      for vsn and f :: "service \<Rightarrow> service_dict res"
    using assms(1) by (simp add: key_res_def) (metis ebind_simps(1))
  have "\<exists>e. ebind (py_int minor) (\<lambda>vsn.
            ebind (new_hdfs show (nat vsn) cfg hdfsDesc dirs workers) (\<lambda>hdfs.
            ebind (name_of hdfs) (\<lambda>hdfsName.
            ebind (key_res sdl ''mapred'') (\<lambda>mrDesc.
            ebind (new_mapred show (nat vsn) cfg mrDesc dirs workers) (\<lambda>mr.
            ebind (name_of mr) (\<lambda>mrName.
              Inr (AList.update mrName mr [(hdfsName, hdfs)]))))))) = Inl e" for minor hdfsDesc
    by (rule ebind_raises, rule ebind_raises, rule ebind_raises, rule none)
  then show ?thesis
    unfolding create_services_def
    by (intro ebind_raises) (auto split: prod.split option.split)
qed

section \<open>The invariant of the masters\<close>

definition service_ok :: "nat \<Rightarrow> service \<Rightarrow> bool" where
  "service_ok mx s \<longleftrightarrow>
     masterFailureCount s \<le> Suc mx \<and> (launchedMaster s \<longrightarrow> masterFailureCount s \<le> mx) \<and>
     (0 < masterFailureCount s \<longrightarrow> failedMsg s \<noteq> None) \<and>
     (\<not> is_external_kind (kind s) \<and> masterInitialized s \<longrightarrow> masterAddr s \<noteq> None \<and> infoAddr s \<noteq> None)"

definition services_ok :: "nat \<Rightarrow> service_dict \<Rightarrow> bool" where
  "services_ok mx sd \<longleftrightarrow> (\<forall>s \<in> set (map snd sd). service_ok mx s)"

lemma services_ok_simps [simp]:
  "services_ok mx []"
  "services_ok mx ((k, s) # rest) \<longleftrightarrow> service_ok mx s \<and> services_ok mx rest"
  by (simp_all add: services_ok_def)

definition all_internal :: "service_dict \<Rightarrow> bool" where
  "all_internal sd \<longleftrightarrow> list_all (\<lambda>k. \<not> is_external_kind k) (map (kind \<circ> snd) sd)"

definition ring_inv :: "nat \<Rightarrow> ring \<Rightarrow> bool" where
  "ring_inv mx rm \<longleftrightarrow> distinct (map fst (services rm)) \<and> services_ok mx (services rm) \<and>
     (all_internal (services rm) \<longrightarrow> \<not> param_locked rm)"

definition ring_init :: "ring \<Rightarrow> bool" where
  "ring_init rm \<longleftrightarrow> \<not> param_locked rm \<and>
     (\<exists>show vers cfg sdl dirs workers sd. create_services show vers cfg sdl dirs workers = Inr sd \<and>
        distinct (map fst (services rm)) \<and> set (services rm) = set sd)"

inductive ring_step :: "nat \<Rightarrow> ring \<Rightarrow> ring \<Rightarrow> bool" for mx where
  "ring_step mx rm (fst (getCommand mx addr rm))"
| "ring_step mx rm (fst (getAdminCommand addr rm))"
| "ring_step mx rm (fst (addMasterParams addr vals rm))"
| "ring_step mx rm (fst (setHodRingErrors addr errors rm))"
| "ring_step mx rm (fst (getKeys rm))"
| "ring_step mx rm (fst (getServiceAddr mx name rm))"
| "ring_step mx rm (fst (getURLs name rm))"

text \<open>A new service has not failed and, unless it is external, has not been started.\<close>

definition fresh_service :: "service \<Rightarrow> bool" where
  "fresh_service s \<longleftrightarrow> masterFailureCount s = 0 \<and> (is_external_kind (kind s) \<or> \<not> masterInitialized s)"

lemma set_final_attr_fresh: "set_final_attr k v s = Inr s' \<Longrightarrow> fresh_service s \<Longrightarrow> fresh_service s'"
  by (cases "getfinalAttrs (serviceDesc s)" rule: sum.exhaust; (rename_tac v', case_tac v')?)
    (auto simp: set_final_attr_def fresh_service_def)

lemma new_hdfs_fresh: "new_hdfs show vsn cfg desc dirs workers = Inr s \<Longrightarrow> fresh_service s"
  unfolding new_hdfs_def HdfsExternal_setMasterParams_def
  by (auto simp: result_simps split: if_splits dest!: set_final_attr_fresh)
    (auto simp: fresh_service_def external_init_def MasterSlave_def Hdfs_init_def is_external_kind_def)

lemma new_mapred_fresh: "new_mapred show vsn cfg desc dirs workers = Inr s \<Longrightarrow> fresh_service s"
  unfolding new_mapred_def MapReduceExternal_setMasterParams_def
  by (auto simp: result_simps MapReduce_init_def MasterSlave_def fresh_service_def split: if_splits)

lemma create_services_fresh:
  assumes "create_services show vers cfg sdl dirs workers = Inr sd" and "(k, s) \<in> set sd"
  shows "fresh_service s"
proof -
  from assms(1) obtain hn hdfs mn mr vsn hd md where sd: "sd = AList.update mn mr [(hn, hdfs)]"
      and new: "new_hdfs show vsn cfg hd dirs workers = Inr hdfs" "new_mapred show vsn cfg md dirs workers = Inr mr"
    unfolding create_services_def
    by (cases vers; cases "fst vers"; cases "snd vers") (auto simp: result_simps simp del: update.simps)
  have "s = hdfs \<or> s = mr" using assms(2) unfolding sd by (auto split: if_splits)
  then show ?thesis using new_hdfs_fresh [OF new(1)] new_mapred_fresh [OF new(2)] by blast
qed

lemma fresh_service_ok: "fresh_service s \<Longrightarrow> service_ok mx s"
  by (auto simp: fresh_service_def service_ok_def)

lemma ring_init_inv: "ring_init rm \<Longrightarrow> ring_inv mx rm"
  unfolding ring_init_def ring_inv_def services_ok_def
  using create_services_fresh fresh_service_ok by fastforce

text \<open>The operations keep the keys, and each changes a service in one of these ways.\<close>

lemma update_service_keys [simp]: "map fst (update_service k f sd) = map fst sd"
  by (auto simp: update_service_def)

lemma admin_loop_keys [simp]: "map fst (fst (admin_loop sd)) = map fst sd"
  by (induction sd rule: admin_loop.induct) (auto split: prod.splits sum.splits)

lemma params_loop_keys [simp]: "map fst (params_loop addr vals sd) = map fst sd"
  by (induction addr vals sd rule: params_loop.induct) (auto split: prod.splits sum.splits)

lemma errors_loop_keys [simp]: "map fst (errors_loop addr errors sd) = map fst sd"
  by (induction addr errors sd rule: errors_loop.induct) auto

text \<open>Nor do they change the kinds of the services.\<close>

lemma update_service_kinds [simp]:
  "(\<And>s. kind (f s) = kind s) \<Longrightarrow> all_internal (update_service k f sd) = all_internal sd"
proof -
  assume "\<And>s. kind (f s) = kind s"
  then have "map (kind \<circ> snd) (update_service k f sd) = map (kind \<circ> snd) sd"
    by (auto simp: update_service_def)
  then show ?thesis by (simp add: all_internal_def)
qed

lemma admin_kind: "getAdminCommands s = (s', r) \<Longrightarrow> kind s' = kind s"
  by (auto simp: getAdminCommands_def split: sum.splits if_splits)

lemma admin_loop_kinds: "all_internal (fst (admin_loop sd)) = all_internal sd"
  by (induction sd rule: admin_loop.induct) (auto simp: all_internal_def admin_kind split: prod.split sum.split)

lemma params_kind: "setMasterParams vals s = (s', r) \<Longrightarrow> kind s' = kind s"
  using setMasterParams_frame(5) [of vals s] by simp

lemma params_loop_kinds: "all_internal (params_loop addr vals sd) = all_internal sd"
  by (induction addr vals sd rule: params_loop.induct)
    (auto simp: all_internal_def params_kind setMasterInitialized_def split: prod.split sum.split)

lemma errors_loop_kinds: "all_internal (errors_loop addr errors sd) = all_internal sd"
  by (induction addr errors sd rule: errors_loop.induct) (auto simp: all_internal_def setMasterFailed_def)

text \<open>The addresses of a service that is not external do not raise.\<close>

lemma internal_kind: "all_internal sd \<Longrightarrow> map_of sd k = Some s \<Longrightarrow> \<not> is_external_kind (kind s)"
  by (auto simp: all_internal_def list_all_iff dest!: map_of_SomeD)

lemma release_Inr [simp]: "release rm (Inr x) = (rm, Ret x)"
  by (simp add: release_def)

lemma internal_addrs:
  "\<not> is_external_kind (kind s) \<Longrightarrow> first_addr (getMasterAddrs s) = Inr (masterAddr s)"
  "\<not> is_external_kind (kind s) \<Longrightarrow> first_addr (getInfoAddrs s) = Inr (infoAddr s)"
  by (simp_all add: first_addr_def getMasterAddrs_def getInfoAddrs_def nth_res_def)

lemma release_services [simp]: "services (fst (release rm r)) = services rm"
  by (simp add: release_def split: sum.split)

lemma find_launch_may:
  "find_launch mx sd vs = Inr (Some (k, cmds)) \<Longrightarrow>
   \<exists>s. (k, s) \<in> set vs \<and> may_launch mx s \<and> service_isExternal s = Inr False \<and> isLaunchable sd s = Inr True \<and>
     getMasterCommands sd s = Inr cmds"
proof (induction vs)
  case (Cons v rest)
  obtain k' s where v: "v = (k', s)" by (cases v)
  from Cons show ?case unfolding v by (auto simp: result_simps split: if_splits)
qed simp

lemma launch_ok: "may_launch mx s \<Longrightarrow> service_ok mx s \<Longrightarrow> service_ok mx (setMasterAddress addr (setlaunchedMaster s))"
  by (simp add: may_launch_def service_ok_def setMasterAddress_def setlaunchedMaster_def)

lemma failed_ok: "launchedMaster s \<Longrightarrow> service_ok mx s \<Longrightarrow> service_ok mx (setMasterFailed msg s)"
  by (simp add: service_ok_def setMasterFailed_def)

lemma admin_ok: "service_ok mx s \<Longrightarrow> service_ok mx (fst (getAdminCommands s))"
  by (simp add: getAdminCommands_def service_ok_def split: sum.split)

lemma set_params_addrs:
  "(masterAddr s \<noteq> None \<longrightarrow> masterAddr (fst (set_params a b c vals s)) \<noteq> None) \<and>
   (infoAddr s \<noteq> None \<longrightarrow> infoAddr (fst (set_params a b c vals s)) \<noteq> None) \<and>
   (snd (set_params a b c vals s) = Inr () \<longrightarrow>
      masterAddr (fst (set_params a b c vals s)) \<noteq> None \<and> infoAddr (fst (set_params a b c vals s)) \<noteq> None)"
  by (simp add: set_params_def Let_def split: sum.split)

lemma params_ok: "service_ok mx s \<Longrightarrow> service_ok mx (fst (setMasterParams vals s))"
  using set_params_addrs
  by (auto simp: service_ok_def setMasterParams_def Hdfs_setMasterParams_def MapReduce_setMasterParams_def
      set_params_frame split: service_kind.split)

lemma set_params_done:
  "set_params a b c vals s = (s', Inr u) \<Longrightarrow> masterAddr s' \<noteq> None \<and> infoAddr s' \<noteq> None"
  using set_params_addrs [of s a b c vals] by simp

lemma initialized_ok:
  "setMasterParams vals s = (s', Inr u) \<Longrightarrow> service_ok mx (setMasterInitialized s')"
  by (auto dest!: set_params_done simp: service_ok_def setMasterInitialized_def setMasterParams_def Hdfs_setMasterParams_def
      MapReduce_setMasterParams_def split: service_kind.splits)

lemma params_loop_ok:
  "services_ok mx sd \<Longrightarrow> services_ok mx (params_loop addr vals sd)"
proof (induction addr vals sd rule: params_loop.induct)
  case (2 addr vals k s rest)
  then show ?case
    using params_ok [of mx s vals] initialized_ok [of vals s]
    by (auto split: prod.splits sum.splits)
qed simp

lemma errors_loop_ok:
  "services_ok mx sd \<Longrightarrow> services_ok mx (errors_loop addr errors sd)"
  by (induction addr errors sd rule: errors_loop.induct) (auto intro: failed_ok)

lemma admin_loop_ok:
  "services_ok mx sd \<Longrightarrow> services_ok mx (fst (admin_loop sd))"
proof (induction sd rule: admin_loop.induct)
  case (2 k s rest)
  then show ?case using admin_ok [of mx s] by (auto split: prod.splits sum.splits)
qed simp

lemma launch_loop_ok:
  assumes "distinct (map fst sd)" and "services_ok mx sd"
    and "find_launch mx sd sd = Inr (Some (k, cmds))"
  shows "services_ok mx
    (update_service k (\<lambda>s. setMasterAddress addr (setlaunchedMaster s)) sd)"
proof -
  obtain s where s: "(k, s) \<in> set sd" "may_launch mx s" using find_launch_may [OF assms(3)] by blast
  have "s' = s" if "(k, s') \<in> set sd" for s' using eq_key_imp_eq_value [OF assms(1) that s(1)] .
  then show ?thesis
    using assms(2) s(2) launch_ok by (fastforce simp: services_ok_def update_service_def)
qed

lemma questions_unlocked:
  assumes "all_internal (services rm)" and "\<not> param_locked rm"
  shows "\<exists>x. getServiceAddr mx name rm = (rm, Ret x)" and "\<exists>x. getURLs name rm = (rm, Ret x)"
  using assms internal_kind [OF assms(1), of name] internal_addrs
  by (auto simp: getServiceAddr_def getURLs_def split: option.split)

lemma ring_step_inv: "ring_step mx rm rm' \<Longrightarrow> ring_inv mx rm \<Longrightarrow> ring_inv mx rm'"
proof (induction rule: ring_step.induct)
  case (1 rm addr)
  then show ?case
    using launch_loop_ok [of "services rm" mx]
    by (auto simp: ring_inv_def getCommand_def Let_def setMasterAddress_def setlaunchedMaster_def
        split: sum.split option.split)
next
  case (6 rm name)
  then show ?case
    using questions_unlocked(1) [of rm mx name]
    by (auto simp: ring_inv_def getServiceAddr_def split: option.split)
next
  case (7 rm name)
  then show ?case
    using questions_unlocked(2) [of rm name]
    by (auto simp: ring_inv_def getURLs_def split: option.split)
qed (auto simp: ring_inv_def getAdminCommand_def addMasterParams_def setHodRingErrors_def getKeys_def
    admin_loop_ok params_loop_ok errors_loop_ok admin_loop_kinds params_loop_kinds errors_loop_kinds case_prod_beta)

interpretation ring_machine: safe_machine ring_init "ring_step mx" "ring_inv mx" for mx
  by unfold_locales (auto intro: ring_init_inv ring_step_inv)

section \<open>What the invariant gives\<close>


lemma internal_ring_answers_aux:
  assumes "reach ring_init (ring_step mx) rm" and "all_internal (services rm)"
  shows "\<exists>addr url. getServiceAddr mx name rm = (rm, Ret (Some addr)) \<and> getURLs name rm = (rm, Ret (Some url))"
proof -
  have inv: "services_ok mx (services rm)" "\<not> param_locked rm"
    using ring_machine.reach_inv [OF assms(1)] assms(2) by (simp_all add: ring_inv_def)
  show ?thesis
  proof (cases "map_of (services rm) name")
    case None
    with inv(2) show ?thesis by (simp add: getServiceAddr_def getURLs_def)
  next
    case (Some s)
    have "service_ok mx s"
      using inv(1) map_of_SomeD [OF Some] by (force simp: services_ok_def)
    with internal_kind [OF assms(2) Some] have "masterInitialized s \<longrightarrow> (\<exists>a i. masterAddr s = Some a \<and> infoAddr s = Some i)"
      by (auto simp: service_ok_def)
    with inv(2) Some internal_addrs [OF internal_kind [OF assms(2) Some]] show ?thesis
      by (auto simp: getServiceAddr_def getURLs_def)
  qed
qed

text \<open>C21: In a ring without external services the questions about addresses are always answered with a string.\<close>

theorem internal_ring_answers:
  assumes "reach ring_init (ring_step mx) rm" and "all_internal (services rm)"
  shows "\<exists>addr url. getServiceAddr mx name rm = (rm, Ret (Some addr)) \<and> getURLs name rm = (rm, Ret (Some url))"
  by (rule internal_ring_answers_aux [OF assms])

section \<open>Order of starting\<close>

lemma update_service_at:
  "map_of (update_service k f sd) k' = (if k' = k then map_option f (map_of sd k) else map_of sd k')"
  by (induction sd) (auto simp: update_service_def)

lemma getCommand_services:
  "services (fst (getCommand mx addr rm)) = services rm \<or>
   (\<exists>k cmds. find_launch mx (services rm) (services rm) = Inr (Some (k, cmds)) \<and>
      services (fst (getCommand mx addr rm)) =
        update_service k (\<lambda>s. setMasterAddress addr (setlaunchedMaster s)) (services rm))"
  by (auto simp: getCommand_def Let_def split: sum.split option.split)

text \<open>C20: A Map/Reduce master is launched only when HDFS has been initialized.\<close>

theorem mapred_after_hdfs:
  assumes "reach ring_init (ring_step mx) rm"
    and "map_of (services rm) k = Some s" and "kind s = MapReduce" and "\<not> launchedMaster s"
    and "map_of (services (fst (getCommand mx addr rm))) k = Some s'" and "launchedMaster s'"
  shows "\<exists>hdfs. map_of (services rm) ''hdfs'' = Some hdfs \<and> masterInitialized hdfs"
proof -
  have dist: "distinct (map fst (services rm))"
    using ring_machine.reach_inv [OF assms(1)] by (simp add: ring_inv_def)
  have "services (fst (getCommand mx addr rm)) \<noteq> services rm"
    using assms(2,4,5,6) by auto
  with getCommand_services [of mx addr rm] obtain j cmds where
    found: "find_launch mx (services rm) (services rm) = Inr (Some (j, cmds))" and
    upd: "services (fst (getCommand mx addr rm)) =
      update_service j (\<lambda>s. setMasterAddress addr (setlaunchedMaster s)) (services rm)" by blast
  have "k = j"
    using assms(2,4,5,6) unfolding upd by (auto simp: update_service_at split: if_splits)
  from find_launch_may [OF found] obtain t where t: "(j, t) \<in> set (services rm)" "isLaunchable (services rm) t = Inr True"
    by blast
  with dist assms(2) \<open>k = j\<close> have "t = s" by (metis map_of_is_SomeI option.inject)
  with t(2) assms(3) show ?thesis
    by (auto simp: isLaunchable_def result_simps key_res_def split: option.splits)
qed

text \<open>What a step does to a service that is not running and may not be launched.\<close>

lemma find_launch_not:
  assumes "distinct (map fst sd)" and "map_of sd k = Some s" and "\<not> may_launch mx s"
    and "find_launch mx sd sd = Inr (Some (j, cmds))"
  shows "j \<noteq> k"
  using find_launch_may [OF assms(4)] assms(1-3) by (metis map_of_is_SomeI option.inject)

lemma params_loop_not:
  "map_of sd k = Some s \<Longrightarrow> \<not> launchedMaster s \<Longrightarrow> map_of (params_loop addr vals sd) k = Some s"
  by (induction addr vals sd rule: params_loop.induct) (auto split: prod.splits sum.splits if_splits)

lemma errors_loop_not:
  "map_of sd k = Some s \<Longrightarrow> \<not> launchedMaster s \<Longrightarrow> map_of (errors_loop addr errors sd) k = Some s"
  by (induction addr errors sd rule: errors_loop.induct) (auto split: if_splits)

definition same_failure :: "service \<Rightarrow> service \<Rightarrow> bool" where
  "same_failure s s' \<longleftrightarrow> masterFailureCount s' = masterFailureCount s \<and> failedMsg s' = failedMsg s"

lemma admin_loop_same:
  "map_of sd k = Some s \<Longrightarrow> \<exists>s'. map_of (fst (admin_loop sd)) k = Some s' \<and> same_failure s s'"
proof (induction sd rule: admin_loop.induct)
  case (2 j t rest)
  have "same_failure t (fst (getAdminCommands t))"
    by (simp add: getAdminCommands_def same_failure_def split: sum.split)
  moreover have "same_failure s s" by (simp add: same_failure_def)
  ultimately show ?case using 2 by (cases "j = k") (auto split: prod.splits sum.splits)
qed simp

lemma gave_up_step:
  assumes "ring_step mx rm rm'" and "ring_inv mx rm" and "map_of (services rm) k = Some s" and "gives_up mx s"
  shows "\<exists>s'. map_of (services rm') k = Some s' \<and> same_failure s s'"
proof -
  have "service_ok mx s"
    using assms(2) map_of_SomeD [OF assms(3)] by (force simp: ring_inv_def services_ok_def)
  then have not: "\<not> launchedMaster s" "\<not> may_launch mx s"
    using assms(4) by (auto simp: service_ok_def gives_up_def may_launch_def)
  have same: "same_failure s s" by (simp add: same_failure_def)
  show ?thesis
    using assms(1)
  proof cases
    case (1 addr)
    have "map_of (services rm') k = Some s"
      using getCommand_services [of mx addr rm] find_launch_not [OF _ assms(3) not(2)] assms(2,3)
      unfolding 1 by (fastforce simp: ring_inv_def update_service_at)
    with same show ?thesis by blast
  next
    case (2 addr)
    with admin_loop_same [OF assms(3)] show ?thesis by (simp add: getAdminCommand_def case_prod_beta)
  next
    case (3 addr vals)
    with params_loop_not [OF assms(3) not(1)] same assms(3) show ?thesis by (simp add: addMasterParams_def)
  next
    case (4 addr errors)
    with errors_loop_not [OF assms(3) not(1)] same assms(3) show ?thesis by (simp add: setHodRingErrors_def)
  qed (use same assms(3) in \<open>auto simp: getKeys_def getServiceAddr_def getURLs_def split: option.split\<close>)
qed

text \<open>
  When a service has failed too often it is given up for good: whatever is called from then on, it is not
  started again and its failure is what \<open>getServiceAddr\<close> tells.
\<close>

theorem gave_up_forever:
  assumes "reach ring_init (ring_step mx) rm" and "(ring_step mx)\<^sup>*\<^sup>* rm rm'"
    and "map_of (services rm) name = Some s" and "gives_up mx s"
  shows "\<exists>s'. map_of (services rm') name = Some s' \<and> \<not> launchedMaster s' \<and> failedMsg s' = failedMsg s \<and>
    (\<not> param_locked rm' \<longrightarrow> snd (getServiceAddr mx name rm') = Ret (Some (''Error: '' @ the (failedMsg s))))"
proof -
  have inv0: "ring_inv mx rm" by (rule ring_machine.reach_inv [OF assms(1)])
  have "ring_inv mx rm' \<and> (\<exists>s'. map_of (services rm') name = Some s' \<and> same_failure s s')"
    using assms(2)
  proof induction
    case base
    with inv0 assms(3) show ?case by (simp add: same_failure_def)
  next
    case (step r1 r2)
    then obtain s1 where s1: "map_of (services r1) name = Some s1" "same_failure s s1" by blast
    then have "gives_up mx s1" using assms(4) by (simp add: gives_up_def same_failure_def)
    with gave_up_step [OF step.hyps(2)] step.IH s1 ring_step_inv [OF step.hyps(2)] show ?case
      unfolding same_failure_def by metis
  qed
  then obtain s' where s': "ring_inv mx rm'" "map_of (services rm') name = Some s'" "same_failure s s'" by blast
  then have "gives_up mx s'" using assms(4) by (simp add: gives_up_def same_failure_def)
  moreover have "service_ok mx s'"
    using s'(1) map_of_SomeD [OF s'(2)] by (force simp: ring_inv_def services_ok_def)
  ultimately show ?thesis
    using s'(2,3) by (auto simp: getServiceAddr_def gives_up_def service_ok_def same_failure_def)
qed

section \<open>Commands for workers\<close>

lemma worker_loop_external: "service_isExternal v = Inr True \<Longrightarrow> worker_loop v sd vs cmds = cmds"
  by (induction vs) auto

text \<open>
  The stale loop variable: when the last service in the order of iteration is external and no master is
  to be launched, a hodring gets no worker commands, whatever the other services have to run.
\<close>

theorem stale_external_starves:
  assumes "find_launch mx (services rm) (services rm) = Inr None"
    and "services rm \<noteq> []" and "service_isExternal (snd (last (services rm))) = Inr True"
  shows "getCommand mx addr rm = (rm, [])"
  using assms by (simp add: getCommand_def worker_loop_external)

end
