(* ===== verification/Hod_Master.thy ===== *)
theory Hod_Master
  imports Hod_RingMaster Hod_Idle
begin

text \<open>
  The ring master of Hadoop on Demand itself: the class \<open>RingMaster\<close> of \<open>hodlib/RingMaster/ringMaster.py\<close>, its
  paths and addresses, how it stops, and the exit code it then gives.
\<close>

section \<open>Paths and addresses\<close>

definition find_tarball_in_dir :: "string \<Rightarrow> string list \<Rightarrow> string option" where
  "find_tarball_in_dir tarSrcLoc files = find (\<lambda>file. suffix file tarSrcLoc) files"

text \<open>\<open>__copy_tarball\<close>: the command, which is run and must end with code 0.\<close>

definition copy_command :: "string \<Rightarrow> string \<Rightarrow> string res" where
  "copy_command tarSrcLoc destDir =
     (let src = (if startswith tarSrcLoc ''/'' then ''file:/'' @ tarSrcLoc else tarSrcLoc) in
      if startswith src ''file://'' then Inr (''/bin/cp '' @ drop 6 src @ '' '' @ destDir)
      else Inl (PyException ''Unsupported URL for file''))"

definition copy_tarball :: "(string \<Rightarrow> int option) \<Rightarrow> string \<Rightarrow> string \<Rightarrow> unit res" where
  "copy_tarball run tarSrcLoc destDir =
     ebind (copy_command tarSrcLoc destDir) (\<lambda>cmd.
       if run cmd \<noteq> Some 0 then Inl (PyException ''Could not copy tarball'') else Inr ())"

text \<open>\<open>__url_to_addr\<close>\<close>

definition rstrip_slashes :: "string \<Rightarrow> string" where
  "rstrip_slashes s = rev (dropWhile (\<lambda>c. c = CHR ''/'') (rev s))"

definition url_to_addr :: "string \<Rightarrow> (string \<times> int) res" where
  "url_to_addr url =
     (let a = rstrip_slashes url;
          addr = (if startswith a ''http://'' then drop 7 a else a);
          parts = split_char (CHR '':'') addr in
      ebind (nth_res parts 1) (\<lambda>p. ebind (py_int p) (\<lambda>port. Inr (parts ! 0, port))))"

text \<open>\<open>ringMasterServer.getAddress\<close>, and the address of the tar ball's server.\<close>

definition getAddress :: "string \<Rightarrow> nat \<Rightarrow> string" where
  "getAddress host port = ''http://'' @ host @ '':'' @ nat_str port @ ''/''"

definition get_tempdir :: "string \<Rightarrow> string \<Rightarrow> string \<Rightarrow> string" where
  "get_tempdir temp_dir userid serviceId = path_join temp_dir (userid @ ''.'' @ serviceId @ ''.ringmaster'')"

text \<open>\<open>getWorkDirs\<close>; \<open>uniq\<close> is made of the host, the process and a random number.\<close>

definition uniq_dir :: "string \<Rightarrow> int \<Rightarrow> int \<Rightarrow> string" where
  "uniq_dir host pid irand = host @ ''-'' @ int_str pid @ ''-'' @ int_str irand"

definition getWorkDirs :: "bool \<Rightarrow> string \<Rightarrow> string list \<Rightarrow> string list option \<Rightarrow> string list option \<times> string list" where
  "getWorkDirs reUse uniq work_dirs current =
     (case (if reUse then current else None) of
        Some dirs \<Rightarrow> (current, dirs)
      | None \<Rightarrow> (let dirs = map (\<lambda>p. path_join p uniq) work_dirs in (Some dirs, dirs)))"

text \<open>\<open>__getHadoopDir\<close>: where the tar ball was unpacked, or the packages of the configuration.\<close>

definition getHadoopDir :: "string option \<Rightarrow> bool \<Rightarrow> string list \<Rightarrow> string \<Rightarrow> string \<Rightarrow> string res" where
  "getHadoopDir tarball untarred names cwd pkgs =
     (case tarball of
        None \<Rightarrow> Inr pkgs
      | Some basename \<Rightarrow>
          (if \<not> untarred then Inl (PyException ''Untarring tarfile failed'')
           else ebind (nth_res names 0) (\<lambda>root. Inr (path_join cwd root))))"

definition hodring_command :: "string list \<Rightarrow> string" where
  "hodring_command largs = concat (map (\<lambda>item. item @ '' '') largs)"

lemma http_prefix: "startswith (''http://'' @ s) ''http://''"
  by (simp add: startswith_def)

text \<open>The address that the ring master gives to the hodrings is the one its server listens on.\<close>

theorem url_to_addr_getAddress:
  assumes "CHR '':'' \<notin> set host"
  shows "url_to_addr (getAddress host port) = Inr (host, int port)"
proof -
  have last: "last (nat_str port) \<noteq> CHR ''/''" "nat_str port \<noteq> []"
    using nat_str_last [of port] nat_str_digits [of port] by (auto simp: is_digit_def code_point_def)
  have colon: "CHR '':'' \<notin> set (nat_str port)"
    using nat_str_digits [of port] by (auto simp: list_all_iff is_digit_def code_point_def)
  have "rstrip_slashes (getAddress host port) = ''http://'' @ host @ '':'' @ nat_str port"
  proof -
    have "dropWhile (\<lambda>c. c = CHR ''/'') (rev (nat_str port) @ s) = rev (nat_str port) @ s" for s
      using last by (cases "nat_str port" rule: rev_cases) auto
    then show ?thesis by (simp add: rstrip_slashes_def getAddress_def)
  qed
  moreover have "split_char (CHR '':'') (host @ '':'' @ nat_str port) = [host, nat_str port]"
    using assms colon by (simp add: split_char_append split_char_single)
  ultimately show ?thesis
    using http_prefix [of "host @ '':'' @ nat_str port"] by (simp add: url_to_addr_def nth_res_def)
qed

lemma url_to_addr_getAddress_witness: "url_to_addr (getAddress ''node1'' 8030) = Inr (''node1'', int 8030)"
  by (rule url_to_addr_getAddress) simp

section \<open>Exit codes\<close>

text \<open>
  \<open>__findHadoopJobsExitCode\<close>: \<open>None\<close> stands for no monitor. The status 3 is that of a failed job.
\<close>

definition findHadoopJobsExitCode :: "job_status list option \<Rightarrow> nat" where
  "findHadoopJobsExitCode jobs =
     (case jobs of
        None \<Rightarrow> 0
      | Some js \<Rightarrow>
          (let failureCount = length (filter (\<lambda>j. status j = 3) js) in
           if 0 < failureCount then (if failureCount = length js then 16 else 17) else 0))"

text \<open>An address that is not one; the methods of \<open>None\<close> do not exist.\<close>

definition bad_addr :: "string option \<Rightarrow> bool res" where
  "bad_addr a = (case a of None \<Rightarrow> Inl AttributeError
     | Some s \<Rightarrow> Inr (s = ''not found'' \<or> startswith s ''Error: ''))"

text \<open>
  \<open>__findExitCode\<close>. The answers of \<open>getServiceAddr\<close> are those of one state; \<open>connect\<close> says which addresses
  accept a connection, and \<open>jobs\<close> is what the monitor of the job tracker knows.
\<close>

definition findExitCode ::
    "nat \<Rightarrow> (string \<times> int \<Rightarrow> bool) \<Rightarrow> job_status list option \<Rightarrow> ring \<Rightarrow> nat out" where
  "findExitCode mx connect jobs rm =
     obind (snd (getServiceAddr mx ''hdfs'' rm)) (\<lambda>hdfs.
     obind (of_res (bad_addr hdfs)) (\<lambda>bad.
       if bad then Ret 7
       else obind (snd (getServiceAddr mx ''mapred'' rm)) (\<lambda>mapred.
         obind (of_res (bad_addr mapred)) (\<lambda>bad.
           if bad then Ret 8
           else obind (of_res (get_cluster_status connect (AddrString (the hdfs)) (AddrString (the mapred)))) (\<lambda>st.
             Ret (if st \<noteq> 0 then st else findHadoopJobsExitCode jobs))))))"

section \<open>Stopping\<close>

record ring_master =
  idlenessDetected :: bool
  stopInProgress :: bool
  isStopped :: bool
  exitCode :: nat

definition new_ring_master :: ring_master where
  "new_ring_master = \<lparr>idlenessDetected = False, stopInProgress = False, isStopped = False, exitCode = 0\<rparr>"

definition handleIdleJobTracker :: "ring_master \<Rightarrow> ring_master" where
  "handleIdleJobTracker m = m\<lparr>idlenessDetected := True\<rparr>"

definition shouldStop :: "ring_master \<Rightarrow> bool" where
  "shouldStop m \<longleftrightarrow> idlenessDetected m \<or> isStopped m"

text \<open>
  \<open>stop\<close>; \<open>server\<close> is what finding the exit code gives when the server runs, \<open>None\<close> when there is none.
\<close>

definition stop :: "nat out option \<Rightarrow> ring_master \<Rightarrow> ring_master \<times> unit out" where
  "stop server m =
     (if stopInProgress m \<or> isStopped m then (m, Ret ())
      else
        (let m1 = m\<lparr>stopInProgress := True\<rparr> in
         case (case server of None \<Rightarrow> Ret 6 | Some code \<Rightarrow> code) of
           Ret c \<Rightarrow> (m1\<lparr>exitCode := c, isStopped := True\<rparr>, Ret ())
         | Raise e \<Rightarrow> (m1, Raise e)
         | Diverge \<Rightarrow> (m1, Diverge)))"

text \<open>The end of \<open>main\<close>, once the loop has seen that it should stop.\<close>

definition main_end :: "nat out option \<Rightarrow> ring_master \<Rightarrow> nat out" where
  "main_end server m = (case stop server m of (m', r) \<Rightarrow> obind r (\<lambda>_. Ret (exitCode m')))"

lemma length_filter_all: "length (filter P xs) = length xs \<longleftrightarrow> list_all P xs"
proof (induction xs)
  case (Cons x xs)
  then show ?case using length_filter_le [of P xs] by (auto simp del: length_filter_le)
qed simp

lemma length_filter_none: "length (filter P xs) = 0 \<longleftrightarrow> list_all (\<lambda>x. \<not> P x) xs"
  by (induction xs) auto

text \<open>The exit code of the jobs says whether none, some or all of them have failed.\<close>

theorem jobs_exit_code:
  "findHadoopJobsExitCode (Some js) =
     (if list_all (\<lambda>j. status j \<noteq> 3) js then 0 else if list_all (\<lambda>j. status j = 3) js then 16 else 17)"
  using length_filter_all [of "\<lambda>j. status j = 3" js] length_filter_none [of "\<lambda>j. status j = 3" js]
  by (auto simp: findHadoopJobsExitCode_def Let_def)

text \<open>
  Only the first call of \<open>stop\<close> has an effect: whatever the later ones find, the exit code and the state stay
  as the first one left them, even when it raised.
\<close>

theorem stop_once: "stop server2 (fst (stop server m)) = (fst (stop server m), Ret ())"
  by (cases "stopInProgress m \<or> isStopped m"; cases server) (auto simp: stop_def Let_def split: out.split)

text \<open>A ring without external services stops with one of the documented codes, or on an address without a port.\<close>

theorem exit_code_table:
  assumes "reach ring_init (ring_step mx) rm" and "all_internal (services rm)"
  shows "case findExitCode mx connect jobs rm of
      Ret c \<Rightarrow> c \<in> {0, 7, 8, 10, 13, 14, 16, 17}
    | Raise e \<Rightarrow> True
    | Diverge \<Rightarrow> False"
proof -
  obtain hdfs where hdfs: "getServiceAddr mx ''hdfs'' rm = (rm, Ret (Some hdfs))"
    using internal_ring_answers_aux [OF assms] by blast
  obtain mapred where mapred: "getServiceAddr mx ''mapred'' rm = (rm, Ret (Some mapred))"
    using internal_ring_answers_aux [OF assms] by blast
  show ?thesis
    by (auto simp: findExitCode_def hdfs mapred bad_addr_def findHadoopJobsExitCode_def get_cluster_status_def Let_def
        of_res_def ebind_def obind_def split: out.splits sum.splits option.splits if_splits)
qed

end
