(* ===== verification/Hod_Csv.thy ===== *)
theory Hod_Csv
  imports Hod_Desc
begin

text \<open>
  The commands as the hodrings of Hadoop on Demand see them: \<open>CommandDesc\<close> of \<open>hodlib/HodRing/hodRing.py\<close>, with
  the parsers that read back what \<open>CommandDesc\<close> of \<open>hodlib/Common/desc.py\<close> writes.
\<close>

section \<open>The csv reader\<close>

text \<open>
  The reader of the \<open>csv\<close> module for one line, with the escape character backslash and no quoting. A line
  end may only be followed by line ends; an escape at the end stands for an escaped newline.
\<close>

abbreviation creturn :: char where "creturn \<equiv> CHR 0x0D"

definition line_end :: "char \<Rightarrow> bool" where
  "line_end c \<longleftrightarrow> c = newline \<or> c = creturn"

fun csv_loop :: "char \<Rightarrow> string \<Rightarrow> string \<Rightarrow> string list \<Rightarrow> string list res" where
  "csv_loop delim [] field acc = Inr (acc @ [field])"
| "csv_loop delim (c # s) field acc =
     (if line_end c then
        (if list_all line_end s then Inr (acc @ [field])
         else Inl (PyException ''new-line character seen in unquoted field''))
      else if c = bslash then
        (case s of [] \<Rightarrow> Inr (acc @ [field @ [newline]]) | d # r \<Rightarrow> csv_loop delim r (field @ [d]) acc)
      else if c = delim then csv_loop delim s [] (acc @ [field])
      else csv_loop delim s (field @ [c]) acc)"

definition csv_read :: "char \<Rightarrow> string \<Rightarrow> string list res" where
  "csv_read delim s =
     (if s = [] then Inr []
      else if line_end (hd s) \<and> list_all line_end s then Inr []
      else if line_end (hd s) then Inl (PyException ''new-line character seen in unquoted field'')
      else csv_loop delim s [] [])"

definition parseList :: "string \<Rightarrow> char \<Rightarrow> string list res" where
  "parseList str delim = csv_read delim str"

text \<open>\<open>[k, v] = f.split('=', 1)\<close>\<close>

definition key_value :: "string \<Rightarrow> (string \<times> string) res" where
  "key_value f =
     (if CHR ''='' \<in> set f then
        Inr (takeWhile (\<lambda>c. c \<noteq> CHR ''='') f, drop 1 (dropWhile (\<lambda>c. c \<noteq> CHR ''='') f))
      else Inl (ValueError ''need more than 1 value to unpack''))"

fun parse_map_loop :: "attrs \<Rightarrow> string list \<Rightarrow> attrs res" where
  "parse_map_loop d [] = Inr d"
| "parse_map_loop d (f # fs) = ebind (key_value f) (\<lambda>(k, v). parse_map_loop (attr_set k v d) fs)"

definition parseMap :: "string \<Rightarrow> attrs res" where
  "parseMap str = ebind (csv_read (CHR '','') str) (parse_map_loop [])"

section \<open>Command descriptors\<close>

definition checkRequired :: "ddict \<Rightarrow> unit res" where
  "checkRequired d =
     (if d ''name'' = None then Inl (ValueError ''Command description lacks name'')
      else if d ''program'' = None then Inl (ValueError ''Command description lacks program'')
      else if d ''pkgdirs'' = None then Inl (ValueError ''Command description lacks pkgdirs'')
      else Inr ())"

definition command_defaults :: "ddict \<Rightarrow> ddict" where
  "command_defaults d =
     setdefault ''stdin'' DNone (setdefault ''ignorefailures'' (DBool False) (setdefault ''fg'' (DBool False)
       (setdefault ''final-attrs'' (DAttrs []) (setdefault ''attrs'' (DAttrs []) (setdefault ''workdirs'' (DList [])
       (setdefault ''envs'' (DAttrs []) (setdefault ''version'' DNone (setdefault ''argv'' (DList []) d))))))))"

definition ring_CommandDesc :: "ddict \<Rightarrow> ddict res" where
  "ring_CommandDesc d = ebind (checkRequired (command_defaults d)) (\<lambda>_. Inr (command_defaults d))"

text \<open>
  \<open>parseDesc\<close> reads every field and then calls the constructor without the log, which is a \<open>TypeError\<close>.
\<close>

definition parseDesc :: "string \<Rightarrow> ddict res" where
  "parseDesc str =
     ebind (parseMap str) (\<lambda>d.
     ebind (ebind (attr_item d ''argv'') (\<lambda>v. parseList v (CHR '',''))) (\<lambda>argv.
     ebind (ebind (attr_item d ''envs'') parseMap) (\<lambda>envs.
     ebind (ebind (attr_item d ''pkgdirs'') (\<lambda>v. parseList v (CHR '':''))) (\<lambda>pkgdirs.
     ebind (ebind (attr_item d ''workdirs'') (\<lambda>v. parseList v (CHR '':''))) (\<lambda>workdirs.
     ebind (ebind (attr_item d ''attrs'') parseMap) (\<lambda>attrs.
     ebind (ebind (attr_item d ''final-attrs'') parseMap) (\<lambda>final. Inl TypeError)))))))"

theorem parseDesc_raises: "\<exists>e. parseDesc str = Inl e"
  unfolding parseDesc_def by (intro ebind_raises) simp

text \<open>A command descriptor has every field that the hodring reads.\<close>

lemma command_defaults_dom: "dom (command_defaults d) =
    {''stdin'', ''ignorefailures'', ''fg'', ''final-attrs'', ''attrs'', ''workdirs'', ''envs'', ''version'', ''argv''} \<union> dom d"
  unfolding command_defaults_def setdefault_dom by simp

theorem ring_command_fields:
  assumes "ring_CommandDesc d = Inr c"
  shows "{''name'', ''program'', ''pkgdirs'', ''stdin'', ''ignorefailures'', ''fg'', ''final-attrs'', ''attrs'', ''workdirs'',
    ''envs'', ''version'', ''argv''} \<subseteq> dom c"
proof -
  have c: "c = command_defaults d" and "checkRequired c = Inr ()"
    using assms by (auto simp: ring_CommandDesc_def result_simps)
  then have "{''name'', ''program'', ''pkgdirs''} \<subseteq> dom c"
    by (auto simp: checkRequired_def split: if_splits)
  then show ?thesis using command_defaults_dom [of d] unfolding c by simp
qed

section \<open>Reading what was written\<close>

lemma csv_loop_field:
  assumes "\<not> line_end delim" "delim \<noteq> bslash" "creturn \<notin> set f"
  shows "csv_loop delim (csv_field delim f @ s) field acc = csv_loop delim s (field @ f) acc"
  using assms
proof (induction f arbitrary: field)
  case (Cons c f)
  have IH: "csv_loop delim (csv_field delim f @ s) (field @ [c]) acc = csv_loop delim s (field @ c # f) acc"
    using Cons.IH [of "field @ [c]"] Cons.prems by simp
  show ?case
  proof (cases "csv_escaped delim c")
    case True
    then have "csv_field delim (c # f) @ s = bslash # c # csv_field delim f @ s"
      by (simp add: csv_field_def)
    moreover have "\<not> line_end bslash" by (simp add: line_end_def)
    ultimately show ?thesis using IH by (simp only: csv_loop.simps list.case if_False if_True simp_thms)
  next
    case False
    then have "csv_field delim (c # f) @ s = c # csv_field delim f @ s"
      by (simp add: csv_field_def)
    moreover have "\<not> line_end c" "c \<noteq> bslash" "c \<noteq> delim"
      using False Cons.prems(3) by (auto simp: line_end_def csv_escaped_def)
    ultimately show ?thesis using IH by (simp only: csv_loop.simps if_False simp_thms)
  qed
qed (simp add: csv_field_def)

lemma join_Cons:
  "row \<noteq> [] \<Longrightarrow> py_join [delim] (map (csv_field delim) (f # row)) =
   csv_field delim f @ delim # py_join [delim] (map (csv_field delim) row)"
  by (cases row) simp_all

lemma csv_loop_row:
  assumes "\<not> line_end delim" "delim \<noteq> bslash" "row \<noteq> []" "list_all (\<lambda>f. creturn \<notin> set f) row"
  shows "csv_loop delim (py_join [delim] (map (csv_field delim) row)) [] acc = Inr (acc @ row)"
  using assms(3,4)
proof (induction row arbitrary: acc rule: list_nonempty_induct)
  case (single f)
  then show ?case using csv_loop_field [OF assms(1,2), of f "[]" "[]" acc] by simp
next
  case (cons f row)
  then show ?case
    using join_Cons [OF cons.hyps(1)] csv_loop_field [OF assms(1,2), of f "delim # py_join [delim] (map (csv_field delim) row)" "[]" acc]
      cons assms(1,2) by simp
qed

lemma csv_field_Nil [simp]: "csv_field delim [] = []"
  by (simp add: csv_field_def)

lemma csv_field_last:
  assumes "f \<noteq> []"
  shows "csv_field delim f \<noteq> [] \<and> last (csv_field delim f) = last f"
proof -
  obtain g c where "f = g @ [c]" using assms by (cases f rule: rev_cases) auto
  then show ?thesis by (simp add: csv_field_def)
qed

lemma csv_field_hd:
  assumes "f \<noteq> []"
  shows "hd (csv_field delim f) = bslash \<or> hd (csv_field delim f) = hd f \<and> hd f \<noteq> newline"
  using assms by (cases f) (simp_all add: csv_field_def csv_escaped_def)

lemma join_nonempty:
  assumes "row \<noteq> []" and "row \<noteq> [[]]"
  shows "py_join [delim] (map (csv_field delim) row) \<noteq> []"
proof (cases row)
  case (Cons f rest)
  show ?thesis
  proof (cases rest)
    case Nil
    with Cons assms(2) csv_field_last [of f delim] show ?thesis by simp
  qed (simp add: Cons)
qed (use assms(1) in simp)

lemma join_head:
  "f \<noteq> [] \<Longrightarrow> hd (py_join [delim] (map (csv_field delim) (f # row))) = hd (csv_field delim f)"
  using csv_field_last [of f delim] by (cases row) auto

lemma join_last:
  "row \<noteq> [] \<Longrightarrow> row \<noteq> [[]] \<Longrightarrow>
   last (py_join [delim] (map (csv_field delim) row)) = (if last row = [] then delim else last (last row))"
proof (induction row rule: list_nonempty_induct)
  case (single f)
  then show ?case using csv_field_last by simp
next
  case (cons f row)
  show ?case
  proof (cases "row = [[]]")
    case False
    then show ?thesis
      using cons join_nonempty [OF cons.hyps(1) False, of delim] join_Cons [OF cons.hyps(1), of delim f] by simp
  qed simp
qed

text \<open>
  C33: A list of fields that \<open>_csv\<close> writes is read back by \<open>_parseList\<close>: fields are not confused by the
  delimiters, quotes, escapes and newlines in them, as long as there is no carriage return and the last
  field does not end in a newline (which \<open>_csv\<close> strips).
\<close>

theorem csv_roundtrip:
  assumes "\<not> line_end delim" and "delim \<noteq> bslash" and "row \<noteq> [[]]"
    and "list_all (\<lambda>f. creturn \<notin> set f) row" and "row = [] \<or> last row = [] \<or> last (last row) \<noteq> newline"
  shows "\<exists>s. csv row delim = Inr s \<and> parseList s delim = Inr row"
proof (cases row)
  case Nil
  then show ?thesis by (simp add: csv_def parseList_def csv_read_def rstrip_newlines_def)
next
  case (Cons f rest)
  let ?s = "py_join [delim] (map (csv_field delim) row)"
  have "last ?s \<noteq> newline"
    using join_last [of row delim] assms(1,3,5) Cons by (auto simp: line_end_def)
  then have "rstrip_newlines ?s = ?s" by (simp add: rstrip_newlines_id)
  then have "csv row delim = Inr ?s" using assms(3) by (simp add: csv_def)
  moreover have "csv_read delim ?s = Inr row"
  proof -
    have "\<not> line_end (hd ?s)" "?s \<noteq> []"
    proof -
      show "\<not> line_end (hd ?s)"
      proof (cases "f = []")
        case True
        then show ?thesis using assms(1,3) Cons by (cases rest) (simp_all add: csv_field_def)
      next
        case False
        then show ?thesis
          using join_head [OF False, of delim rest] csv_field_hd [OF False, of delim] assms(4) Cons
          by (cases f) (auto simp: line_end_def)
      qed
      show "?s \<noteq> []"
        using join_nonempty [of row delim] assms(3) Cons by simp
    qed
    then show ?thesis
      using csv_loop_row [OF assms(1,2) _ assms(4), of "[]"] Cons by (simp add: csv_read_def)
  qed
  ultimately show ?thesis by (simp add: parseList_def)
qed

end
