(* ===== verification/Hod_Ring.thy ===== *)
theory Hod_Ring
  imports Hod_Csv Hod_Commands
begin

text \<open>
  The hodring of Hadoop on Demand, \<open>hodlib/HodRing/hodRing.py\<close>: what it writes into the configuration of a
  Hadoop command and reports to the ring master, how it runs commands, waits for a job tracker and
  removes the system directory. What processes, servers and files answer is an argument.
\<close>

section \<open>The settings of a command\<close>

text \<open>The value of an attribute is a string or a list of strings.\<close>

datatype aval = AStr string | AList "string list"

text \<open>
  \<open>createXML\<close>, for one attribute. \<open>host\<close> is the name of this host, \<open>sysdir\<close> the system directory, and \<open>ports\<close> are
  the answers of \<open>getUniqRandomPort\<close>, which raises when they are used up. The result holds the reported
  settings, the properties written and the ports left.
\<close>

definition take_port :: "nat list \<Rightarrow> (nat \<times> nat list) res" where
  "take_port ports = (case ports of [] \<Rightarrow> Inl (ValueError ''no unique local port'') | p # ps \<Rightarrow> Inr (p, ps))"

definition list_settings :: "string \<Rightarrow> string list \<Rightarrow> string" where
  "list_settings k vs = butlast (concat (map (\<lambda>v. k @ ''='' @ v @ '','') vs))"

definition xml_text :: "string \<Rightarrow> string \<Rightarrow> string \<Rightarrow> string" where
  "xml_text sysdir k v =
     (let w = (if v = ''fillindir'' then sysdir else v) in
      if k = ''fs.default.name'' then ''hdfs://'' @ w else w)"

definition fill_port :: "nat list \<Rightarrow> string \<Rightarrow> (string \<times> nat list) res" where
  "fill_port ports v =
     (if v = ''fillinport'' then ebind (take_port ports) (\<lambda>(p, ps). Inr (nat_str p, ps)) else Inr (v, ports))"

definition fill_hostport :: "string \<Rightarrow> nat list \<Rightarrow> string \<Rightarrow> (string \<times> nat list) res" where
  "fill_hostport host ports v =
     (if v = ''fillinhostport'' then ebind (take_port ports) (\<lambda>(p, ps). Inr (host @ '':'' @ nat_str p, ps))
      else Inr (v, ports))"

definition xml_string :: "string \<Rightarrow> string \<Rightarrow> nat list \<Rightarrow> string \<Rightarrow> string \<Rightarrow>
    (string list \<times> (string \<times> string) list \<times> nat list) res" where
  "xml_string host sysdir ports k v =
     ebind (fill_port ports v) (\<lambda>(v1, ps1).
     ebind (fill_hostport host ps1 v1) (\<lambda>(v2, ps2).
       Inr ((if k = ''mapred.job.tracker'' then [k @ ''='' @ v1, k @ ''='' @ v1] else [k @ ''='' @ v1]) @ [k @ ''='' @ v2],
            [(k, xml_text sysdir k v2)], ps2)))"

definition xml_list :: "string \<Rightarrow> string list \<Rightarrow> nat list \<Rightarrow> (string list \<times> (string \<times> string) list \<times> nat list) res" where
  "xml_list k vs ports =
     (if k = ''mapred.job.tracker'' then Inl TypeError
      else Inr ([list_settings k vs, list_settings k vs], map (\<lambda>v. (k, v)) vs, ports))"

fun createXML :: "string \<Rightarrow> string \<Rightarrow> nat list \<Rightarrow> (string \<times> aval) list \<Rightarrow>
    (string list \<times> (string \<times> string) list \<times> nat list) res" where
  "createXML host sysdir ports [] = Inr ([], [], ports)"
| "createXML host sysdir ports ((k, v) # attr) =
     ebind (case v of AStr s \<Rightarrow> xml_string host sysdir ports k s | AList vs \<Rightarrow> xml_list k vs ports)
       (\<lambda>(filled, props, ps).
     ebind (createXML host sysdir ps attr) (\<lambda>(filled', props', ps').
       Inr (filled @ filled', props @ props', ps')))"

text \<open>\<open>_createHadoopSiteXml\<close>: the final attributes, then the other ones that are not final.\<close>

definition createHadoopSiteXml :: "string \<Rightarrow> string \<Rightarrow> nat list \<Rightarrow> (string \<times> aval) list \<Rightarrow> (string \<times> aval) list \<Rightarrow>
    (string list \<times> (string \<times> string \<times> bool) list \<times> nat list) res" where
  "createHadoopSiteXml host sysdir ports finalAttr attr1 =
     ebind (createXML host sysdir ports finalAttr) (\<lambda>(filled, props, ps).
     ebind (createXML host sysdir ps (filter (\<lambda>(k, v). map_of finalAttr k = None) attr1)) (\<lambda>(filled', props', ps').
       Inr (filled @ filled', map (\<lambda>(k, v). (k, v, True)) props @ map (\<lambda>(k, v). (k, v, False)) props', ps')))"

section \<open>The settings are reported as they are written\<close>

definition plain_attr :: "string \<times> aval \<Rightarrow> bool" where
  "plain_attr kv = (case kv of (k, AStr v) \<Rightarrow> CHR ''='' \<notin> set k \<and> CHR ''='' \<notin> set v | _ \<Rightarrow> False)"

lemma nat_str_no_equals: "CHR ''='' \<notin> set (nat_str n)"
  using nat_str_digits [of n] by (auto simp: list_all_iff is_digit_def code_point_def)

lemma split_setting: "CHR ''='' \<notin> set k \<Longrightarrow> CHR ''='' \<notin> set v \<Longrightarrow> split_char (CHR ''='') (k @ ''='' @ v) = [k, v]"
  by (simp add: split_char_append split_char_single)

lemma parse_equals_setting:
  "CHR ''='' \<notin> set k \<Longrightarrow> CHR ''='' \<notin> set v \<Longrightarrow>
   parse_equals_loop d ((k @ CHR ''='' # v) # rest) = parse_equals_loop (attr_set k v d) rest"
  using split_setting [of k v] by (simp add: nth_res_def)

lemma attr_set_twice: "attr_set k v (attr_set k u d) = attr_set k v d"
  by (induction d) (auto simp: attr_set_def)

lemma fill_port_plain:
  "fill_port ports v = Inr (w, ps) \<Longrightarrow> CHR ''='' \<notin> set v \<Longrightarrow> CHR ''='' \<notin> set w"
  using nat_str_no_equals by (auto simp: fill_port_def result_simps split: if_splits)

lemma fill_hostport_plain:
  "fill_hostport host ports v = Inr (w, ps) \<Longrightarrow> CHR ''='' \<notin> set host \<Longrightarrow> CHR ''='' \<notin> set v \<Longrightarrow> CHR ''='' \<notin> set w"
  using nat_str_no_equals by (auto simp: fill_hostport_def result_simps split: if_splits)

lemma settings_override:
  assumes "CHR ''='' \<notin> set k" and "CHR ''='' \<notin> set v" and "CHR ''='' \<notin> set w"
  shows "parse_equals_loop d (((if b then [k @ ''='' @ v, k @ ''='' @ v] else [k @ ''='' @ v]) @ [k @ ''='' @ w]) @ rest) =
    parse_equals_loop (attr_set k w d) rest"
proof -
  note set_v = parse_equals_setting [OF assms(1,2)] and set_w = parse_equals_setting [OF assms(1,3)]
  show ?thesis
  proof (cases b)
    case True
    then show ?thesis by (simp only: if_True append_Cons append_Nil set_v set_w attr_set_twice)
  next
    case False
    then show ?thesis by (simp only: if_False append_Cons append_Nil set_v set_w attr_set_twice)
  qed
qed

lemma xml_string_settings:
  assumes "xml_string host sysdir ports k v = Inr (filled, props, ps)"
    and "CHR ''='' \<notin> set k" and "CHR ''='' \<notin> set v" and "CHR ''='' \<notin> set host"
  shows "\<exists>w. props = [(k, xml_text sysdir k w)] \<and>
    parse_equals_loop d (filled @ rest) = parse_equals_loop (attr_set k w d) rest"
proof -
  from assms(1) obtain v1 ps1 v2 ps2 where
    v1: "fill_port ports v = Inr (v1, ps1)" and v2: "fill_hostport host ps1 v1 = Inr (v2, ps2)"
    and filled: "filled = (if k = ''mapred.job.tracker'' then [k @ ''='' @ v1, k @ ''='' @ v1] else [k @ ''='' @ v1]) @ [k @ ''='' @ v2]"
    and props: "props = [(k, xml_text sysdir k v2)]"
    by (auto simp: xml_string_def ebind_Inr_iff)
  have p1: "CHR ''='' \<notin> set v1" by (rule fill_port_plain [OF v1 assms(3)])
  have p2: "CHR ''='' \<notin> set v2" by (rule fill_hostport_plain [OF v2 assms(4) p1])
  show ?thesis
    unfolding filled settings_override [OF assms(2) p1 p2] using props by blast
qed

lemma createXML_settings:
  assumes "createXML host sysdir ports attr = Inr (filled, props, ps)"
    and "list_all plain_attr attr" and "CHR ''='' \<notin> set host" and "distinct (map fst d @ map fst attr)"
  shows "\<exists>e. parse_equals_loop d filled = Inr (d @ e) \<and> props = map (\<lambda>(k, v). (k, xml_text sysdir k v)) e \<and>
    map fst e = map fst attr"
  using assms
proof (induction attr arbitrary: ports filled props ps d)
  case Nil
  then show ?case by (intro exI [of _ "[]"]) simp
next
  case (Cons kv attr)
  obtain k v where kv: "kv = (k, AStr v)" and plain: "CHR ''='' \<notin> set k" "CHR ''='' \<notin> set v"
    using Cons.prems(2) by (cases kv) (auto simp: plain_attr_def split: aval.splits)
  from Cons.prems(1) obtain f1 p1 ps1 f2 p2 where
    one: "xml_string host sysdir ports k v = Inr (f1, p1, ps1)" and
    rec: "createXML host sysdir ps1 attr = Inr (f2, p2, ps)" and
    all: "filled = f1 @ f2" "props = p1 @ p2"
    by (auto simp: kv ebind_Inr_iff)
  from xml_string_settings [OF one plain Cons.prems(3), of d f2] obtain w where
    w: "p1 = [(k, xml_text sysdir k w)]" "parse_equals_loop d (f1 @ f2) = parse_equals_loop (attr_set k w d) f2" by blast
  have new: "attr_set k w d = d @ [(k, w)]"
    using Cons.prems(4) by (intro attr_set_new) (auto simp: kv map_of_eq_None_iff)
  have "list_all plain_attr attr" "distinct (map fst (d @ [(k, w)]) @ map fst attr)"
    using Cons.prems(2,4) by (auto simp: kv)
  from Cons.IH [OF rec this(1) Cons.prems(3) this(2)] obtain e where
    "parse_equals_loop (d @ [(k, w)]) f2 = Inr ((d @ [(k, w)]) @ e)" "p2 = map (\<lambda>(k, v). (k, xml_text sysdir k v)) e"
    "map fst e = map fst attr" by blast
  then show ?case using w new all by (intro exI [of _ "(k, w) # e"]) (simp add: kv)
qed

lemma map_of_map_value: "map_of (map (\<lambda>(k, v). (k, f k v)) d) k = map_option (f k) (map_of d k)"
  by (induction d) auto

text \<open>
  The settings that a hodring reports to the ring master, read by \<open>parseEquals\<close>, are those it has written
  into the configuration file of the command, with the ports it has chosen.
\<close>

theorem reported_settings_written:
  assumes "createXML host sysdir ports attr = Inr (filled, props, ps)"
    and "list_all plain_attr attr" and "CHR ''='' \<notin> set host" and "distinct (map fst attr)"
  shows "\<exists>d. parseEquals filled = Inr d \<and> props = map (\<lambda>(k, v). (k, xml_text sysdir k v)) d \<and>
    map fst d = map fst attr"
  using createXML_settings [OF assms(1-3), of "[]"] assms(4) by (simp add: parseEquals_def)


end
