(* ===== verification/Hod_RingRun.thy ===== *)
theory Hod_RingRun
  imports Hod_Ring
begin

text \<open>
  How a hodring of Hadoop on Demand (\<open>hodlib/HodRing/hodRing.py\<close>) runs its commands, waits for a job tracker,
  fetches the tar ball and removes the system directory.
\<close>

section \<open>The system directory\<close>

record sysdir_manager =
  jtPid :: int
  mrSysDir :: string
  fsName :: string
  hadoopPath :: string

definition toCleanupArgs :: "sysdir_manager \<Rightarrow> string" where
  "toCleanupArgs m =
     '' --jt-pid '' @ int_str (jtPid m) @ '' --mr-sys-dir '' @ mrSysDir m @ '' --fs-name '' @ fsName m @
     '' --hadoop-path '' @ hadoopPath m @ '' ''"

text \<open>
  \<open>active i\<close> is what the \<open>i\<close>-th look at the job tracker's process finds. The loop ends with the number of
  sleeps.
\<close>

function wait_exit :: "(nat \<Rightarrow> bool) \<Rightarrow> nat \<Rightarrow> nat \<Rightarrow> nat" where
  "wait_exit active retries n = (if active n \<and> n < retries then wait_exit active retries (n + 1) else n)"
  by pat_completeness auto
termination by (relation "measure (\<lambda>(active, retries, n). retries - n)") auto

declare wait_exit.simps [simp del]

definition remove_command :: "sysdir_manager \<Rightarrow> string" where
  "remove_command m = hadoopPath m @ '' dfs -fs hdfs://'' @ fsName m @ '' -rmr '' @ mrSysDir m"

definition removeMRSystemDirectory :: "(nat \<Rightarrow> bool) \<Rightarrow> nat \<Rightarrow> sysdir_manager \<Rightarrow> string option" where
  "removeMRSystemDirectory active retries m =
     (if wait_exit active retries 0 = retries then None else Some (remove_command m))"

definition createMRSystemDirectoryManager :: "(string \<rightharpoonup> string) \<Rightarrow> sysdir_manager option res" where
  "createMRSystemDirectoryManager d =
     (if list_ex (\<lambda>k. d k = None) [''jt-pid'', ''mr-sys-dir'', ''fs-name'', ''hadoop-path''] then Inr None
      else ebind (py_int (the (d ''jt-pid''))) (\<lambda>pid.
        Inr (Some \<lparr>jtPid = pid, mrSysDir = the (d ''mr-sys-dir''), fsName = the (d ''fs-name''),
                   hadoopPath = the (d ''hadoop-path'')\<rparr>)))"

lemma wait_exit_bounds: "n \<le> retries \<Longrightarrow> n \<le> wait_exit active retries n \<and> wait_exit active retries n \<le> retries"
proof (induction active retries n rule: wait_exit.induct)
  case (1 active retries n)
  then show ?case by (subst (1 2) wait_exit.simps) auto
qed

lemma wait_exit_active:
  "\<forall>i. n \<le> i \<longrightarrow> i < wait_exit active retries n \<longrightarrow> active i"
proof (induction active retries n rule: wait_exit.induct)
  case (1 active retries n)
  show ?case
  proof (cases "active n \<and> n < retries")
    case True
    then have "wait_exit active retries n = wait_exit active retries (n + 1)"
      by (subst wait_exit.simps) simp
    with 1 [OF True] True show ?thesis by (metis Suc_eq_plus1 le_eq_less_or_eq Suc_leI)
  next
    case False
    then have "wait_exit active retries n = n" by (auto simp: wait_exit.simps [of active retries n])
    then show ?thesis by simp
  qed
qed

lemma wait_exit_stopped: "wait_exit active retries n < retries \<Longrightarrow> \<not> active (wait_exit active retries n)"
proof (induction active retries n rule: wait_exit.induct)
  case (1 active retries n)
  then show ?case
    by (cases "active n \<and> n < retries") (simp_all add: wait_exit.simps [of active retries n])
qed

text \<open>
  The directory is removed exactly when one of the first \<open>retries\<close> looks finds the process gone. A process
  that is gone only at the last look, after the last sleep, is treated as if it still ran.
\<close>

theorem system_directory_removed:
  "removeMRSystemDirectory active retries m =
     (if list_all active [0..<retries] then None else Some (remove_command m))"
proof (cases "wait_exit active retries 0 = retries")
  case True
  then have "list_all active [0..<retries]"
    using wait_exit_active [of 0 active retries] by (simp add: list_all_iff)
  with True show ?thesis by (simp add: removeMRSystemDirectory_def)
next
  case False
  then have "wait_exit active retries 0 < retries"
    using wait_exit_bounds [of 0 retries active] by simp
  then have "\<not> list_all active [0..<retries]"
    using wait_exit_stopped [of active retries 0] by (auto simp: list_all_iff)
  with False show ?thesis by (simp add: removeMRSystemDirectory_def)
qed

section \<open>A Hadoop command\<close>

text \<open>The directories and files of a command; \<open>i\<close> is its number and \<open>tempdir\<close> the hodring's directory.\<close>

record command_paths =
  confdir :: string
  logdir :: string
  out_file :: string
  err_file :: string

definition HadoopCommand :: "nat \<Rightarrow> string \<Rightarrow> string \<Rightarrow> command_paths" where
  "HadoopCommand i name tempdir =
     (let d = nat_str i @ ''-'' @ name; l = path_join (path_join tempdir d) ''logdir'' in
      \<lparr>confdir = path_join (path_join tempdir d) ''confdir'', logdir = l,
       out_file = path_join l (name @ ''.out''), err_file = path_join l (name @ ''.err'')\<rparr>)"

text \<open>The line that \<open>run\<close> gives to the shell.\<close>

definition command_line :: "string \<Rightarrow> string \<Rightarrow> string list \<Rightarrow> command_paths \<Rightarrow> string" where
  "command_line dir prog args paths =
     concat (map (\<lambda>item. item @ '' '') (path_join dir prog # args)) @ '' 1>'' @ out_file paths @ '' 2>'' @ err_file paths @ '' ''"

definition getCommandStatus :: "int option \<Rightarrow> bool" where
  "getCommandStatus exit_code \<longleftrightarrow> \<not> (exit_code \<noteq> Some 0 \<and> exit_code \<noteq> None)"

text \<open>What \<open>run\<close> returns, from the exit code: of the finished process, or the one so far.\<close>

definition run_status :: "bool \<Rightarrow> bool \<Rightarrow> int option \<Rightarrow> bool" where
  "run_status foreground ignoreFailures exit_code =
     (let status = (if foreground then \<not> exit_code \<noteq> Some 0 else getCommandStatus exit_code) in
      if status \<or> \<not> ignoreFailures then status else True)"

definition addCleanup :: "string list \<Rightarrow> command_paths \<Rightarrow> string list \<Rightarrow> string list" where
  "addCleanup dirs paths cleanup = cleanup @ dirs @ [confdir paths]"

section \<open>Waiting for the job tracker\<close>

text \<open>
  What a look at the job tracker finds: its process has failed, a status of its web server, no
  connection, or something that is not HTTP. The \<open>i\<close>-th sleep lasts \<open>2 ^ i / 2\<close> seconds, and there is no look
  after the sleep time has passed 32 seconds, so \<open>i \<le> 6\<close>.
\<close>

datatype jetty = ProcessFailed | HttpStatus nat | SocketError | NotHttp

lemma sleep_bound: "2 ^ i \<le> (64 :: nat) \<longleftrightarrow> i \<le> 6"
  using power_increasing_iff [of "2 :: nat" i 6] by simp

function jetty_loop :: "(nat \<Rightarrow> jetty) \<Rightarrow> nat \<Rightarrow> unit res" where
  "jetty_loop probe i =
     (if 2 ^ i \<le> (64 :: nat) then
        (case probe i of
           ProcessFailed \<Rightarrow> Inl (PyException ''Could not launch'')
         | HttpStatus st \<Rightarrow> if st = 200 then Inr () else Inl (PyException ''JobTracker failed to initialise'')
         | SocketError \<Rightarrow> jetty_loop probe (i + 1)
         | NotHttp \<Rightarrow> Inl (PyException ''JobTracker failed to initialise''))
      else Inl (PyException ''JobTracker failed to initialise''))"
  by pat_completeness auto
termination
  by (relation "measure (\<lambda>(probe, i). 7 - i)") (auto simp: sleep_bound)

declare jetty_loop.simps [simp del]

text \<open>\<open>__check_jobtracker\<close>: \<open>version\<close> and the settings of the command give the address to look at.\<close>

definition jetty_addr :: "nat \<Rightarrow> string list \<Rightarrow> string res" where
  "jetty_addr vsn filled =
     ebind (parseEquals filled) (\<lambda>attrs.
     ebind (attr_item attrs ''mapred.job.tracker'') (\<lambda>jt.
       if vsn < 16 then ebind (attr_item attrs ''mapred.job.tracker.info.port'') (\<lambda>p.
         Inr (split_char (CHR '':'') jt ! 0 @ '':'' @ p))
       else attr_item attrs ''mapred.job.tracker.http.address''))"

definition check_jobtracker :: "(string \<Rightarrow> nat \<Rightarrow> jetty) \<Rightarrow> string \<Rightarrow> nat \<Rightarrow> string list \<Rightarrow> unit res" where
  "check_jobtracker probe name vsn filled =
     (if name = ''jobtracker'' then ebind (jetty_addr vsn filled) (\<lambda>addr. jetty_loop (probe addr) 0) else Inr ())"

lemma jetty_loop_ready:
  "jetty_loop probe i = Inr () \<longleftrightarrow> (\<exists>j. i \<le> j \<and> j \<le> 6 \<and> probe j = HttpStatus 200 \<and> (\<forall>k. i \<le> k \<longrightarrow> k < j \<longrightarrow> probe k = SocketError))"
proof (induction probe i rule: jetty_loop.induct)
  case (1 probe i)
  show ?case
  proof (cases "i \<le> 6 \<and> probe i = SocketError")
    case True
    then have "jetty_loop probe i = jetty_loop probe (i + 1)"
      by (simp add: jetty_loop.simps [of probe i] sleep_bound)
    also have "\<dots> = Inr () \<longleftrightarrow> (\<exists>j. i + 1 \<le> j \<and> j \<le> 6 \<and> probe j = HttpStatus 200 \<and>
        (\<forall>k. i + 1 \<le> k \<longrightarrow> k < j \<longrightarrow> probe k = SocketError))"
      using 1 True by (simp add: sleep_bound)
    also have "\<dots> \<longleftrightarrow> (\<exists>j. i \<le> j \<and> j \<le> 6 \<and> probe j = HttpStatus 200 \<and> (\<forall>k. i \<le> k \<longrightarrow> k < j \<longrightarrow> probe k = SocketError))"
    proof -
      have step: "i \<le> j \<and> j \<le> 6 \<and> probe j = HttpStatus 200 \<longleftrightarrow> i + 1 \<le> j \<and> j \<le> 6 \<and> probe j = HttpStatus 200" for j
        using True by (cases "j = i") auto
      have all: "(\<forall>k. i \<le> k \<longrightarrow> k < j \<longrightarrow> probe k = SocketError) \<longleftrightarrow> (\<forall>k. i + 1 \<le> k \<longrightarrow> k < j \<longrightarrow> probe k = SocketError)" for j
        using True by (metis Suc_eq_plus1 Suc_leD le_antisym not_less_eq_eq)
      show ?thesis using step all by blast
    qed
    finally show ?thesis .
  next
    case False
    then have "(\<exists>j. i \<le> j \<and> j \<le> 6 \<and> probe j = HttpStatus 200 \<and> (\<forall>k. i \<le> k \<longrightarrow> k < j \<longrightarrow> probe k = SocketError)) \<longleftrightarrow>
        i \<le> 6 \<and> probe i = HttpStatus 200"
      by (metis le_neq_implies_less le_refl less_le_not_le order_trans)
    moreover have "jetty_loop probe i = Inr () \<longleftrightarrow> i \<le> 6 \<and> probe i = HttpStatus 200"
      using False by (cases "probe i") (auto simp: jetty_loop.simps [of probe i] sleep_bound)
    ultimately show ?thesis by simp
  qed
qed

text \<open>
  A job tracker counts as ready exactly when one of at most seven looks gets status 200 and every look
  before it found no connection.
\<close>

theorem jobtracker_ready:
  "jetty_loop probe 0 = Inr () \<longleftrightarrow>
   list_ex (\<lambda>j. probe j = HttpStatus 200 \<and> list_all (\<lambda>k. probe k = SocketError) [0..<j]) [0..<7]"
proof -
  have bound: "j \<le> 6 \<longleftrightarrow> j < 7" for j :: nat by auto
  show ?thesis
    unfolding jetty_loop_ready list_ex_iff list_all_iff set_upt bound by auto
qed

section \<open>Fetching the tar ball\<close>

text \<open>\<open>__fetch\<close> tries three times; \<open>attempt i\<close> says whether the \<open>i\<close>-th one copies the file.\<close>

fun fetch_loop :: "(nat \<Rightarrow> bool) \<Rightarrow> nat \<Rightarrow> nat \<Rightarrow> unit res" where
  "fetch_loop attempt i 0 = Inl (PyException ''Failed to copy the files'')"
| "fetch_loop attempt i (Suc retry) = (if attempt i then Inr () else fetch_loop attempt (i + 1) retry)"

definition fetch :: "(nat \<Rightarrow> bool) \<Rightarrow> unit res" where
  "fetch attempt = fetch_loop attempt 0 3"

theorem fetch_three_times: "fetch attempt = Inr () \<longleftrightarrow> list_ex attempt [0, 1, 2]"
  by (simp add: fetch_def eval_nat_numeral)

text \<open>\<open>__get_name\<close>, on the path of the address: what follows its first slash.\<close>

definition get_name :: "string \<Rightarrow> string res" where
  "get_name path =
     (if CHR ''/'' \<in> set path then Inr (drop 1 (dropWhile (\<lambda>c. c \<noteq> CHR ''/'') path)) else Inl IndexError)"

definition tar_url :: "string \<Rightarrow> nat \<Rightarrow> string \<Rightarrow> string" where
  "tar_url host port tarName = ''http://'' @ host @ '':'' @ nat_str port @ ''/'' @ tarName"

text \<open>
  \<open>__download_package\<close>: \<open>answers\<close> are the answers of \<open>getTarList\<close>, asked until one is not \<open>none\<close>. The steps after
  it are the fetch, the registration of the hodring's own copy, and the unpacking.
\<close>

fun first_source :: "string list \<Rightarrow> string out" where
  "first_source [] = Diverge"
| "first_source (a # answers) = (if a = ''none'' then first_source answers else Ret a)"

definition download_package ::
    "string list \<Rightarrow> (string \<Rightarrow> string) \<Rightarrow> (nat \<Rightarrow> bool) \<Rightarrow> (string \<Rightarrow> string \<Rightarrow> unit res) \<Rightarrow> bool \<Rightarrow>
     string \<Rightarrow> nat \<Rightarrow> string out" where
  "download_package answers url_path attempt register untar host port =
     obind (first_source answers) (\<lambda>addr. of_res (
       ebind (get_name (url_path addr)) (\<lambda>tarName.
       ebind (fetch attempt) (\<lambda>_.
       ebind (register (tar_url host port tarName) addr) (\<lambda>_.
         if untar then Inr tarName else Inl (PyException ''Untarring failed.''))))))"

section \<open>Running the commands\<close>

text \<open>
  \<open>__run_hadoop_commands\<close>. For each descriptor: its name, whether it runs in the foreground, what \<open>run\<close>
  returns, and what \<open>__check_jobtracker\<close> does. The running commands are listed by number.
\<close>

record ring_command =
  rc_name :: string
  rc_foreground :: bool
  rc_started :: bool
  rc_filled :: "string list"

type_synonym running = "(nat \<times> ring_command) list"

fun run_commands :: "(ring_command list \<Rightarrow> nat \<Rightarrow> ring_command \<Rightarrow> unit res) \<Rightarrow> nat \<Rightarrow> running \<Rightarrow> ring_command list \<Rightarrow>
    running \<times> unit res" where
  "run_commands check i running [] = (running, Inr ())"
| "run_commands check i running (c # cs) =
     (if \<not> rc_started c then (AList.update i c running, Inl (PyException ''Could not launch''))
      else if rc_foreground c then run_commands check (i + 1) running cs
      else
        (let running' = AList.update i c running in
         case check (map snd running') i c of
           Inl e \<Rightarrow> (running', Inl e)
         | Inr _ \<Rightarrow> run_commands check (i + 1) running' cs))"

text \<open>
  The check of a job tracker looks for its command in the list of the values of the running commands, at the
  number of the command.
\<close>

definition check_running :: "(string \<Rightarrow> nat \<Rightarrow> jetty) \<Rightarrow> nat \<Rightarrow> ring_command list \<Rightarrow> nat \<Rightarrow> ring_command \<Rightarrow> unit res" where
  "check_running probe vsn values i c =
     (if rc_name c = ''jobtracker'' then
        ebind (nth_res values i) (\<lambda>cmd. check_jobtracker probe (rc_name c) vsn (rc_filled cmd))
      else Inr ())"

definition master_params :: "running \<Rightarrow> string list" where
  "master_params running = concat (map (\<lambda>(i, c). rc_filled c) running)"

text \<open>The end of \<open>start\<close>: the commands are run, and what they filled in is reported when there is something.\<close>

definition start_commands :: "(ring_command list \<Rightarrow> nat \<Rightarrow> ring_command \<Rightarrow> unit res) \<Rightarrow> ring_command list \<Rightarrow>
    running \<times> string list option res" where
  "start_commands check cs =
     (case run_commands check 0 [] cs of
        (running, Inl e) \<Rightarrow> (running, Inl e)
      | (running, Inr _) \<Rightarrow> (running, Inr (if master_params running = [] then None else Some (master_params running))))"

definition clusterStop :: "running \<Rightarrow> running" where
  "clusterStop running = []"

lemma run_commands_numbers:
  "\<forall>j \<in> set (map fst running). j < i \<Longrightarrow> run_commands check i running cs = (running', Inr ()) \<Longrightarrow>
   running' = running @ filter (\<lambda>(j, c). \<not> rc_foreground c) (zip [i..<i + length cs] cs) \<and> list_all rc_started cs"
proof (induction check i running cs rule: run_commands.induct)
  case (2 check i running c cs)
  have new: "AList.update i c running = running @ [(i, c)]"
    using "2.prems"(1) by (induction running) auto
  have upt: "[i..<Suc (i + length cs)] = i # [Suc i..<Suc (i + length cs)]" by (rule upt_conv_Cons) simp
  show ?case
  proof (cases "rc_started c")
    case True
    show ?thesis
    proof (cases "rc_foreground c")
      case fg: True
      then show ?thesis
        using "2.IH"(1) "2.prems" True upt by (auto simp: less_Suc_eq simp del: upt_Suc)
    next
      case fg: False
      then obtain u where ok: "check (map snd (running @ [(i, c)])) i c = Inr u"
        using "2.prems"(2) True new by (auto simp: Let_def split: sum.splits)
      have "\<forall>j \<in> set (map fst (running @ [(i, c)])). j < i + 1" using "2.prems"(1) by auto
      then show ?thesis
        using "2.IH"(2) [OF _ fg refl] "2.prems"(2) True fg ok upt by (simp add: new Let_def del: upt_Suc)
    qed
  qed (use "2.prems"(2) in simp)
qed simp

text \<open>
  When all commands run, those that are not in the foreground are the running ones, under their numbers
  and in order, and what is reported is what they have filled in.
\<close>

theorem started_commands_run:
  assumes "start_commands check cs = (running, Inr report)"
  shows "running = filter (\<lambda>(j, c). \<not> rc_foreground c) (zip [0..<length cs] cs) \<and> list_all rc_started cs \<and>
    (case report of None \<Rightarrow> [] | Some params \<Rightarrow> params) = concat (map rc_filled (filter (\<lambda>c. \<not> rc_foreground c) cs))"
proof -
  have run: "run_commands check 0 [] cs = (running, Inr ())"
    using assms by (auto simp: start_commands_def split: prod.splits sum.splits)
  from run_commands_numbers [OF _ run] have running:
    "running = filter (\<lambda>(j, c). \<not> rc_foreground c) (zip [0..<length cs] cs)" "list_all rc_started cs" by simp_all
  have "map snd (filter (\<lambda>(j, c). \<not> rc_foreground c) (zip ns cs)) = filter (\<lambda>c. \<not> rc_foreground c) cs"
    if "length ns = length cs" for ns :: "nat list"
    using that by (induction ns cs rule: list_induct2) auto
  from this [of "[0..<length cs]"] have "map snd running = filter (\<lambda>c. \<not> rc_foreground c) cs" using running by simp
  then have "master_params running = concat (map rc_filled (filter (\<lambda>c. \<not> rc_foreground c) cs))"
    unfolding master_params_def by (metis (no_types, lifting) case_prod_beta' comp_apply map_eq_conv map_map)
  then show ?thesis using running assms run by (auto simp: start_commands_def split: if_splits)
qed

end
