(* ===== verification/Hod_Registry.thy ===== *)
theory Hod_Registry
  imports Prelude "HOL-Library.AList" "HOL-Library.Multiset"
begin

text \<open>
  The service registry of Hadoop on Demand, \<open>hodlib/ServiceRegistry/serviceRegistry.py\<close>: nested dicts from users
  to jobs to hosts to the list of services registered there. A dict is an association list in its order of
  iteration; the description of a service is of any type. The abstract registry is the log of the
  registrations.
\<close>

type_synonym 'd host_services = "(string \<times> (string \<times> 'd) list) list"
type_synonym 'd user_services = "(string \<times> 'd host_services) list"

record 'd registry =
  serviceDict :: "(string \<times> 'd user_services) list"
  RMErrorMsgs :: "string list option"

definition new_registry :: "'d registry" where
  "new_registry = \<lparr>serviceDict = [], RMErrorMsgs = None\<rparr>"

definition service_id :: "string \<Rightarrow> string \<Rightarrow> string" where
  "service_id name type = name @ ''.'' @ type"

definition registerService :: "string \<Rightarrow> string \<Rightarrow> string \<Rightarrow> string \<Rightarrow> string \<Rightarrow> 'd \<Rightarrow> 'd registry \<Rightarrow> 'd registry \<times> bool" where
  "registerService userid job host name type d r =
     (let e = (service_id name type, d); sd = serviceDict r in
      (r\<lparr>serviceDict :=
         (case map_of sd userid of
            Some jobs \<Rightarrow>
              (case map_of jobs job of
                 Some hosts \<Rightarrow>
                   (case map_of hosts host of
                      Some es \<Rightarrow> AList.update userid (AList.update job (AList.update host (es @ [e]) hosts) jobs) sd
                    | None \<Rightarrow> AList.update userid (AList.update job (AList.update host [e] hosts) jobs) sd)
               | None \<Rightarrow> AList.update userid (AList.update job [(host, [e])] jobs) sd)
          | None \<Rightarrow> AList.update userid [(job, [(host, [e])])] sd)\<rparr>, True))"

datatype 'd service_info =
  InfoAll "(string \<times> 'd user_services) list" | InfoUser "'d user_services" | InfoJob "'d host_services" | InfoList "'d list"
  | InfoEmpty

definition empty_arg :: "string option \<Rightarrow> bool" where
  "empty_arg x \<longleftrightarrow> x = None \<or> x = Some []"

definition lookup_arg :: "(string \<times> 'b) list \<Rightarrow> string option \<Rightarrow> 'b option" where
  "lookup_arg d k = Option.bind k (map_of d)"

definition matching :: "string \<Rightarrow> 'd host_services \<Rightarrow> 'd list" where
  "matching sid hosts = concat (map (\<lambda>(host, es). map snd (filter (\<lambda>(loopID, d). loopID = sid) es)) hosts)"

definition getServiceInfo ::
    "string option \<Rightarrow> string option \<Rightarrow> string option \<Rightarrow> string option \<Rightarrow> 'd registry \<Rightarrow> 'd service_info" where
  "getServiceInfo userid job name type r =
     (case lookup_arg (serviceDict r) userid of
        Some jobs \<Rightarrow>
          (case lookup_arg jobs job of
             Some hosts \<Rightarrow>
               (if \<not> empty_arg name \<and> \<not> empty_arg type then InfoList (matching (service_id (the name) (the type)) hosts)
                else InfoJob hosts)
           | None \<Rightarrow> (if empty_arg job then InfoUser jobs else InfoEmpty))
      | None \<Rightarrow> (if empty_arg userid then InfoAll (serviceDict r) else InfoEmpty))"

definition setRMError :: "string list \<Rightarrow> 'd registry \<Rightarrow> 'd registry \<times> bool" where
  "setRMError args r = (r\<lparr>RMErrorMsgs := Some args\<rparr>, True)"

text \<open>\<open>None\<close> is the answer \<open>False\<close>.\<close>

definition getRMError :: "'d registry \<Rightarrow> string list option" where
  "getRMError r = RMErrorMsgs r"

section \<open>The log of registrations\<close>

record 'd registration =
  reg_user :: string
  reg_job :: string
  reg_host :: string
  reg_id :: string
  reg_dict :: 'd

definition register_entry :: "'d registration \<Rightarrow> 'd registry \<Rightarrow> 'd registry" where
  "register_entry x r =
     (let sd = serviceDict r; jobs = (case map_of sd (reg_user x) of None \<Rightarrow> [] | Some j \<Rightarrow> j);
          hosts = (case map_of jobs (reg_job x) of None \<Rightarrow> [] | Some h \<Rightarrow> h);
          es = (case map_of hosts (reg_host x) of None \<Rightarrow> [] | Some e \<Rightarrow> e) in
      r\<lparr>serviceDict := AList.update (reg_user x) (AList.update (reg_job x)
         (AList.update (reg_host x) (es @ [(reg_id x, reg_dict x)]) hosts) jobs) sd\<rparr>)"

lemma registerService_entry:
  "registerService userid job host name type d r =
   (register_entry \<lparr>reg_user = userid, reg_job = job, reg_host = host, reg_id = service_id name type, reg_dict = d\<rparr> r, True)"
  by (simp add: registerService_def register_entry_def Let_def split: option.split)

definition hosts_of :: "'d registry \<Rightarrow> string \<Rightarrow> string \<Rightarrow> 'd host_services" where
  "hosts_of r u j = (case map_of (serviceDict r) u of None \<Rightarrow> []
     | Some jobs \<Rightarrow> (case map_of jobs j of None \<Rightarrow> [] | Some hosts \<Rightarrow> hosts))"

lemma hosts_of_register:
  "hosts_of (register_entry x r) u j =
   (if u = reg_user x \<and> j = reg_job x then
      AList.update (reg_host x) ((case map_of (hosts_of r u j) (reg_host x) of None \<Rightarrow> [] | Some e \<Rightarrow> e) @ [(reg_id x, reg_dict x)])
        (hosts_of r u j)
    else hosts_of r u j)"
  by (auto simp: hosts_of_def register_entry_def Let_def update_conv' split: option.split)

lemma matching_update:
  "mset (matching sid (AList.update h ((case map_of hosts h of None \<Rightarrow> [] | Some es \<Rightarrow> es) @ [e]) hosts)) =
   mset (matching sid hosts) + (if fst e = sid then {#snd e#} else {#})"
  by (induction hosts) (auto simp: matching_def)

text \<open>
  The registry represents a log when, for every user and job, it has the entries of the log under every
  name, and knows the job exactly when it is in the log.
\<close>

definition logged :: "'d registration list \<Rightarrow> string \<Rightarrow> string \<Rightarrow> string \<Rightarrow> 'd multiset" where
  "logged log u j sid = mset (map reg_dict (filter (\<lambda>x. reg_user x = u \<and> reg_job x = j \<and> reg_id x = sid) log))"

definition known_job :: "'d registry \<Rightarrow> string \<Rightarrow> string \<Rightarrow> bool" where
  "known_job r u j \<longleftrightarrow> (case map_of (serviceDict r) u of None \<Rightarrow> False | Some jobs \<Rightarrow> map_of jobs j \<noteq> None)"

definition represents :: "'d registry \<Rightarrow> 'd registration list \<Rightarrow> bool" where
  "represents r log \<longleftrightarrow>
     (\<forall>u j sid. mset (matching sid (hosts_of r u j)) = logged log u j sid) \<and>
     (\<forall>u j. known_job r u j \<longleftrightarrow> list_ex (\<lambda>x. reg_user x = u \<and> reg_job x = j) log)"

lemma represents_new: "represents new_registry []"
  by (simp add: represents_def hosts_of_def known_job_def new_registry_def logged_def matching_def)

lemma known_register: "known_job (register_entry x r) u j \<longleftrightarrow> known_job r u j \<or> u = reg_user x \<and> j = reg_job x"
  by (auto simp: known_job_def register_entry_def Let_def update_conv' split: option.split)

lemma represents_register: "represents r log \<Longrightarrow> represents (register_entry x r) (log @ [x])"
  by (auto simp: represents_def hosts_of_register known_register matching_update logged_def)

section \<open>The registry as a provider of services\<close>

text \<open>
  The contract of a registry, as its clients use it: after a registration the question for a service has
  one more answer, and nothing else changes.
\<close>

locale service_registry =
  fixes start :: 'r
    and register :: "'d registration \<Rightarrow> 'r \<Rightarrow> 'r"
    and query :: "'r \<Rightarrow> string \<Rightarrow> string \<Rightarrow> string \<Rightarrow> 'd multiset"
  assumes query_start: "query start u j sid = {#}"
    and query_register: "query (register x r) u j sid =
      query r u j sid + (if reg_user x = u \<and> reg_job x = j \<and> reg_id x = sid then {#reg_dict x#} else {#})"
begin

lemma query_log: "query (fold register log start) u j sid = logged log u j sid"
  by (induction log rule: rev_induct) (auto simp: query_start query_register logged_def)

lemma register_commute: "query (register x (register y r)) u j sid = query (register y (register x r)) u j sid"
  by (simp add: query_register)

end

definition query_registry :: "'d registry \<Rightarrow> string \<Rightarrow> string \<Rightarrow> string \<Rightarrow> 'd multiset" where
  "query_registry r u j sid = mset (matching sid (hosts_of r u j))"

interpretation svcrgy: service_registry new_registry register_entry query_registry
proof
  show "query_registry new_registry u j sid = {#}" for u j sid
    by (simp add: query_registry_def hosts_of_def new_registry_def matching_def)
  show "query_registry (register_entry x r) u j sid =
      query_registry r u j sid + (if reg_user x = u \<and> reg_job x = j \<and> reg_id x = sid then {#reg_dict x#} else {#})" for x r u j sid
    by (auto simp: query_registry_def hosts_of_register matching_update)
qed

definition do_register :: "string \<times> string \<times> string \<times> string \<times> string \<times> 'd \<Rightarrow> 'd registry \<Rightarrow> 'd registry" where
  "do_register x r = (case x of (u, j, h, n, t, d) \<Rightarrow> fst (registerService u j h n t d r))"

definition registration_of :: "string \<times> string \<times> string \<times> string \<times> string \<times> 'd \<Rightarrow> 'd registration" where
  "registration_of x = (case x of (u, j, h, n, t, d) \<Rightarrow>
     \<lparr>reg_user = u, reg_job = j, reg_host = h, reg_id = service_id n t, reg_dict = d\<rparr>)"

lemma do_register_entry: "do_register x r = register_entry (registration_of x) r"
  by (cases x) (simp add: do_register_def registration_of_def registerService_entry)

lemma do_register_fold: "fold do_register log r = fold register_entry (map registration_of log) r"
  by (induction log arbitrary: r) (simp_all add: do_register_entry)

lemma represents_log: "represents (fold register_entry log new_registry) log"
  by (induction log rule: rev_induct) (auto simp: represents_new represents_register)

text \<open>
  C18: After any registrations, whoever asks for a service of a job gets what was registered under that name and
  type for the job, each as often as it was registered; for a job that is not known there is no list.
\<close>

theorem registry_refines_log:
  assumes "name \<noteq> []" and "type \<noteq> []" and "j \<noteq> []"
  shows "case getServiceInfo (Some u) (Some j) (Some name) (Some type) (fold do_register log new_registry) of
      InfoList ds \<Rightarrow> mset ds = mset (map (\<lambda>(u, j, h, n, t, d). d)
        (filter (\<lambda>(u', j', h, n, t, d). u' = u \<and> j' = j \<and> service_id n t = service_id name type) log))
    | InfoEmpty \<Rightarrow> \<not> list_ex (\<lambda>(u', j', h, n, t, d). u' = u \<and> j' = j) log
    | InfoAll x \<Rightarrow> u = []
    | _ \<Rightarrow> False"
proof -
  let ?r = "fold do_register log new_registry"
  have found: "query_registry ?r u j (service_id name type) =
      mset (map (\<lambda>(u, j, h, n, t, d). d)
        (filter (\<lambda>(u', j', h, n, t, d). u' = u \<and> j' = j \<and> service_id n t = service_id name type) log))"
  proof -
    have "logged (map registration_of log) u j sid =
        mset (map (\<lambda>(u, j, h, n, t, d). d) (filter (\<lambda>(u', j', h, n, t, d). u' = u \<and> j' = j \<and> service_id n t = sid) log))"
      for sid
      by (induction log) (auto simp: logged_def registration_of_def)
    then show ?thesis by (simp add: do_register_fold svcrgy.query_log)
  qed
  have known: "known_job ?r u j \<longleftrightarrow> list_ex (\<lambda>(u', j', h, n, t, d). u' = u \<and> j' = j) log"
  proof -
    have "list_ex (\<lambda>x. reg_user x = u \<and> reg_job x = j) (map registration_of log) \<longleftrightarrow>
        list_ex (\<lambda>(u', j', h, n, t, d). u' = u \<and> j' = j) log"
      by (induction log) (auto simp: registration_of_def)
    then show ?thesis
      using represents_log [of "map registration_of log"] by (simp add: do_register_fold represents_def)
  qed
  show ?thesis
    using assms known found
    by (auto simp: getServiceInfo_def lookup_arg_def empty_arg_def known_job_def query_registry_def hosts_of_def
        split: option.split)
qed

end
