(* ===== verification/Hod_Ports.thy ===== *)
theory Hod_Ports
  imports Prelude
begin

text \<open>
  The local ports a grid service of Hadoop on Demand takes: \<open>ServiceUtil\<close> of \<open>hodlib/GridServices/service.py\<close>.
  The dict of used ports is a list; what \<open>bind\<close> answers for a port and the numbers that are drawn are
  arguments.
\<close>

datatype bind_result = Bound | NotBound | OutOfRange

section \<open>Random ports\<close>

text \<open>The loop may go on for as long as ports in use are drawn; it diverges when the given draws run out.\<close>

fun random_port :: "(nat \<Rightarrow> bind_result) \<Rightarrow> nat list \<Rightarrow> nat list \<Rightarrow> nat \<Rightarrow> (nat \<times> nat list) out" where
  "random_port bnd used [] retry = (if retry = 0 then Raise (ValueError ''no unique local port'') else Diverge)"
| "random_port bnd used (n # draws) retry =
     (if retry = 0 then Raise (ValueError ''no unique local port'')
      else if n \<in> set used then random_port bnd used draws retry
      else (case bnd n of
          Bound \<Rightarrow> Ret (n, used @ [n])
        | NotBound \<Rightarrow> random_port bnd used draws (retry - 1)
        | OutOfRange \<Rightarrow> Raise (PyException ''port must be 0-65535'')))"

definition getUniqRandomPort :: "(nat \<Rightarrow> bind_result) \<Rightarrow> nat list \<Rightarrow> nat list \<Rightarrow> nat \<Rightarrow> (nat \<times> nat list) out" where
  "getUniqRandomPort bnd used draws retry = random_port bnd used draws retry"

lemma random_port_fresh:
  "random_port bnd used draws retry = Ret (n, used') \<Longrightarrow>
   n \<in> set draws \<and> n \<notin> set used \<and> bnd n = Bound \<and> used' = used @ [n]"
  by (induction bnd used draws retry rule: random_port.induct)
    (auto split: if_splits bind_result.splits)

lemma random_port_returns:
  "retry \<le> length (filter (\<lambda>n. n \<notin> set used) draws) \<Longrightarrow> random_port bnd used draws retry \<noteq> Diverge"
  by (induction bnd used draws retry rule: random_port.induct) (auto simp: le_diff_conv split: bind_result.split)

section \<open>Ports in order\<close>

lemma used_above_less:
  "Suc n \<in> set used \<Longrightarrow> card {u \<in> set used. Suc n < u} < card {u \<in> set used. n < u}"
  by (rule psubset_card_mono) auto

lemma used_above_le: "card {u \<in> set used. Suc n < u} \<le> card {u \<in> set used. n < u}"
  by (rule card_mono) auto

lemma used_above_step:
  assumes "0 < retry"
  shows "retry + card {u \<in> set used. Suc n < u} - Suc 0 < retry + card {u \<in> set used. n < u}"
  using used_above_le [of used n] assms by linarith

function uniq_port :: "(nat \<Rightarrow> bind_result) \<Rightarrow> nat list \<Rightarrow> nat \<Rightarrow> nat \<Rightarrow> (nat \<times> nat list) res" where
  "uniq_port bnd used n retry =
     (if retry = 0 then Inl (ValueError ''no unique local port'')
      else if n + 1 \<in> set used then uniq_port bnd used (n + 1) retry
      else (case bnd (n + 1) of
          Bound \<Rightarrow> Inr (n + 1, used @ [n + 1])
        | NotBound \<Rightarrow> uniq_port bnd used (n + 1) (retry - 1)
        | OutOfRange \<Rightarrow> Inl (PyException ''port must be 0-65535'')))"
  by pat_completeness auto
termination
  by (relation "measure (\<lambda>(bnd, used, n, retry). retry + card {u \<in> set used. n < u})")
    (auto simp: used_above_less used_above_step)

declare uniq_port.simps [simp del]

definition getUniqPort :: "(nat \<Rightarrow> bind_result) \<Rightarrow> nat list \<Rightarrow> nat \<Rightarrow> nat \<Rightarrow> nat \<Rightarrow> (nat \<times> nat list) res" where
  "getUniqPort bnd used low high retry = uniq_port bnd used low retry"

lemma uniq_port_least:
  "uniq_port bnd used low retry = Inr (n, used') \<Longrightarrow>
   low < n \<and> n \<notin> set used \<and> bnd n = Bound \<and> used' = used @ [n] \<and>
   (\<forall>m. low < m \<longrightarrow> m < n \<longrightarrow> m \<in> set used \<or> bnd m = NotBound)"
proof (induction bnd used low retry rule: uniq_port.induct)
  case (1 bnd used low retry)
  have between: "m = low + 1 \<or> low + 1 < m" if "low < m" for m using that by auto
  from "1.prems" have retry: "retry \<noteq> 0"
    by (intro notI) (simp add: uniq_port.simps [of bnd used low 0])
  show ?case
  proof (cases "low + 1 \<in> set used")
    case True
    with "1.prems" retry have "uniq_port bnd used (low + 1) retry = Inr (n, used')"
      by (simp add: uniq_port.simps [of bnd used low retry])
    from "1.IH"(1) [OF retry True this] True between show ?thesis by (auto dest: less_imp_le)
  next
    case False
    show ?thesis
    proof (cases "bnd (low + 1)")
      case Bound
      with "1.prems" retry False show ?thesis
        by (auto simp: uniq_port.simps [of bnd used low retry] less_Suc_eq_le)
    next
      case NotBound
      with "1.prems" retry False have "uniq_port bnd used (low + 1) (retry - 1) = Inr (n, used')"
        by (simp add: uniq_port.simps [of bnd used low retry])
      from "1.IH"(2) [OF retry False NotBound this] NotBound between show ?thesis by auto
    next
      case OutOfRange
      with "1.prems" retry False show ?thesis by (simp add: uniq_port.simps [of bnd used low retry])
    qed
  qed
qed

text \<open>The upper bound is not looked at: when all ports up to it are in use, the next one is taken.\<close>

lemma uniq_port_skips:
  "0 < retry \<Longrightarrow> {low<..high} \<subseteq> set used \<Longrightarrow> low \<le> high \<Longrightarrow>
   uniq_port bnd used low retry = uniq_port bnd used high retry"
proof (induction "high - low" arbitrary: low)
  case (Suc k)
  then have "low + 1 \<in> set used" by auto
  then have "uniq_port bnd used low retry = uniq_port bnd used (low + 1) retry"
    using Suc.prems(1) by (simp add: uniq_port.simps [of bnd used low retry])
  also have "\<dots> = uniq_port bnd used high retry"
    using Suc.hyps(2) Suc.prems by (intro Suc.hyps(1)) auto
  finally show ?case .
qed simp

text \<open>
  A port in order is the least one above the lower bound that is not in use and can be bound; it is in
  use from then on.
\<close>

theorem getUniqPort_least:
  assumes "getUniqPort bnd used low high retry = Inr (n, used')"
  shows "n = (LEAST m. low < m \<and> m \<notin> set used \<and> bnd m \<noteq> NotBound) \<and> bnd n = Bound \<and> used' = used @ [n]"
proof -
  from uniq_port_least [OF assms [unfolded getUniqPort_def]]
  show ?thesis by (auto intro!: Least_equality [symmetric] simp: not_less [symmetric])
qed

lemma getUniqPort_least_witness:
  "(8 :: nat) = (LEAST m. 5 < m \<and> m \<notin> set [6, 9] \<and> (if m = 7 then NotBound else Bound) \<noteq> NotBound) \<and>
   getUniqPort (\<lambda>m. if m = 7 then NotBound else Bound) [6, 9] 5 10 2 = Inr (8, [6, 9] @ [8])"
proof -
  have "getUniqPort (\<lambda>m. if m = 7 then NotBound else Bound) [6, 9] 5 10 2 = Inr (8, [6, 9] @ [8])"
    by (simp add: getUniqPort_def uniq_port.simps)
  with getUniqPort_least [OF this] show ?thesis by simp
qed

theorem getUniqPort_beyond_high:
  assumes "0 < retry" and "{low<..high} \<subseteq> set used" and "low \<le> high"
    and "Suc high \<notin> set used" and "bnd (Suc high) = Bound"
  shows "getUniqPort bnd used low high retry = Inr (Suc high, used @ [Suc high])"
  using uniq_port_skips [OF assms(1-3)] assms
  by (simp add: getUniqPort_def uniq_port.simps [of bnd used high retry])

lemma getUniqPort_beyond_high_witness:
  "getUniqPort (\<lambda>_. Bound) [6, 7] 5 7 900 = Inr (8, [6, 7] @ [8])"
proof -
  have "{5<..7} \<subseteq> set [6, 7 :: nat]"
    by (auto simp: greaterThanAtMost_def)
  then show ?thesis
    using getUniqPort_beyond_high [of 900 5 7 "[6, 7]" "\<lambda>_. Bound"] by (simp add: eval_nat_numeral)
qed

text \<open>
  A random port is one of those drawn, not in use before, and bound; with enough draws outside of the
  ports in use the search ends.
\<close>

theorem getUniqRandomPort_spec:
  assumes "retry \<le> length (filter (\<lambda>n. n \<notin> set used) draws)" and "list_all (\<lambda>n. low \<le> n \<and> n \<le> high) draws"
  shows "case getUniqRandomPort bnd used draws retry of
      Ret (n, used') \<Rightarrow> low \<le> n \<and> n \<le> high \<and> n \<notin> set used \<and> bnd n = Bound \<and> used' = used @ [n]
    | Raise e \<Rightarrow> True
    | Diverge \<Rightarrow> False"
  using random_port_returns [OF assms(1), of bnd] random_port_fresh [of bnd used draws retry] assms(2)
  by (auto simp: getUniqRandomPort_def list_all_iff split: out.split)

lemma getUniqRandomPort_spec_witness:
  "case getUniqRandomPort (\<lambda>n. if n = 52 then NotBound else Bound) [51] [51, 52, 53] 2 of
      Ret (n, used') \<Rightarrow> 50 \<le> n \<and> n \<le> 60 \<and> n \<notin> set [51] \<and>
        (if n = 52 then NotBound else Bound) = Bound \<and> used' = [51] @ [n]
    | Raise e \<Rightarrow> True
    | Diverge \<Rightarrow> False"
  by (rule getUniqRandomPort_spec) simp_all

end
