(* ===== verification/Hod_Tar.thy ===== *)
theory Hod_Tar
  imports Prelude "HOL-Library.AList" "HOL-Library.Multiset"
begin

text \<open>
  Where the hodrings of Hadoop on Demand fetch the tar ball from: the first methods of
  \<open>_LogMasterSources\<close> in \<open>hodlib/RingMaster/ringMaster.py\<close>. The dict of counts is an association list in its
  order of iteration. The methods take a lock and release it at the end, not in a \<open>finally\<close> clause: when
  one raises the lock stays taken, and whoever asks for it then waits forever (\<open>Diverge\<close>).
\<close>

record tar_state =
  tar_dict :: "(string \<times> string) list"
  tar_count :: "(string \<times> int) list"
  tar_locked :: bool

definition initial_tar :: tar_state where
  "initial_tar = \<lparr>tar_dict = [], tar_count = [], tar_locked = False\<rparr>"

text \<open>\<open>c = self.count[k]; self.count[k] = c - 1\<close>, and the release of the lock.\<close>

definition one_done :: "string \<Rightarrow> tar_state \<Rightarrow> tar_state \<times> unit out" where
  "one_done k st =
     (case map_of (tar_count st) k of
        None \<Rightarrow> (st\<lparr>tar_locked := True\<rparr>, Raise KeyError)
      | Some c \<Rightarrow> (st\<lparr>tar_count := AList.update k (c - 1) (tar_count st)\<rparr>, Ret ()))"

definition registerTarSource :: "string \<Rightarrow> string option \<Rightarrow> tar_state \<Rightarrow> tar_state \<times> string out" where
  "registerTarSource url addr st =
     (if tar_locked st then (st, Diverge)
      else
        (let st1 = st\<lparr>tar_dict := AList.update url url (tar_dict st),
                      tar_count := AList.update url 0 (tar_count st)\<rparr> in
         if addr = None \<or> addr = Some [] then (st1, Ret url)
         else (case one_done (the addr) st1 of (st2, r) \<Rightarrow> (st2, obind r (\<lambda>_. Ret url)))))"

text \<open>One turn of the loop of \<open>getTarList\<close>: the key found so far and the least value.\<close>

definition tar_turn :: "int \<Rightarrow> string \<times> int \<Rightarrow> string option \<times> int \<Rightarrow> string option \<times> int" where
  "tar_turn maxconnect kv acc =
     (let leastval = (if snd acc = -1 then snd kv else snd acc) in
      if snd kv \<le> leastval \<and> snd kv < maxconnect then (Some (fst kv), snd kv) else (fst acc, leastval))"

definition tar_scan :: "int \<Rightarrow> (string \<times> int) list \<Rightarrow> string option \<times> int" where
  "tar_scan maxconnect counts = fold (tar_turn maxconnect) counts (None, -1)"

definition getTarList :: "int \<Rightarrow> tar_state \<Rightarrow> tar_state \<times> string out" where
  "getTarList maxconnect st =
     (if tar_locked st then (st, Diverge)
      else (case tar_scan maxconnect (tar_count st) of
          (None, leastval) \<Rightarrow> (st, Ret ''none'')
        | (Some k, leastval) \<Rightarrow>
            (case map_of (tar_dict st) k of
               None \<Rightarrow> (st\<lparr>tar_locked := True\<rparr>, Raise KeyError)
             | Some url \<Rightarrow> (st\<lparr>tar_count := AList.update k (leastval + 1) (tar_count st)\<rparr>, Ret url))))"

definition tarDone :: "string \<Rightarrow> tar_state \<Rightarrow> tar_state \<times> string out" where
  "tarDone uri st =
     (if tar_locked st then (st, Diverge)
      else (case one_done uri st of (st', r) \<Rightarrow> (st', obind r (\<lambda>_. Ret uri))))"

section \<open>The source that is handed out\<close>

text \<open>
  With counts that are not negative the loop finds a source of least count: \<open>scanned\<close> is what it has after
  a number of sources.
\<close>

definition scanned :: "int \<Rightarrow> (string \<times> int) list \<Rightarrow> string option \<times> int \<Rightarrow> bool" where
  "scanned maxconnect seen acc \<longleftrightarrow>
     (case fst acc of
        None \<Rightarrow> (\<forall>kv \<in> set seen. maxconnect \<le> snd kv) \<and>
          (if seen = [] then snd acc = -1 else 0 \<le> snd acc \<and> maxconnect \<le> snd acc)
      | Some k \<Rightarrow> (k, snd acc) \<in> set seen \<and> 0 \<le> snd acc \<and> snd acc < maxconnect \<and>
          (\<forall>kv \<in> set seen. snd acc \<le> snd kv))"

lemma scanned_turn:
  assumes "scanned m seen acc" and "0 \<le> snd kv"
  shows "scanned m (seen @ [kv]) (tar_turn m kv acc)"
  using assms by (cases kv) (fastforce simp: scanned_def tar_turn_def Let_def split: option.splits if_splits)

lemma scanned_fold:
  "scanned m seen acc \<Longrightarrow> \<forall>kv \<in> set counts. 0 \<le> snd kv \<Longrightarrow>
   scanned m (seen @ counts) (fold (tar_turn m) counts acc)"
proof (induction counts arbitrary: seen acc)
  case (Cons kv counts)
  then show ?case using Cons.IH [OF scanned_turn [OF Cons.prems(1)]] by simp
qed simp

lemma tar_scan_scanned: "\<forall>kv \<in> set counts. 0 \<le> snd kv \<Longrightarrow> scanned m counts (tar_scan m counts)"
  using scanned_fold [of m "[]" "(None, -1)" counts] by (simp add: tar_scan_def scanned_def)

section \<open>Sources and downloads\<close>

text \<open>
  The hodrings and the counts as one machine. \<open>loads\<close> is the multiset of the downloads in progress, by
  source. A hodring reports only a download that it was given, either by \<open>tarDone\<close> or by registering itself
  as a new source.
\<close>

type_synonym tar_world = "tar_state \<times> string multiset"

definition new_source :: "string \<Rightarrow> tar_state \<Rightarrow> bool" where
  "new_source url st \<longleftrightarrow> map_of (tar_count st) url = None \<and> url \<noteq> ''none'' \<and> url \<noteq> []"

inductive tar_step :: "nat \<Rightarrow> tar_world \<Rightarrow> tar_world \<Rightarrow> bool" for maxconnect where
  first_source: "new_source url st \<Longrightarrow> registerTarSource url None st = (st', r) \<Longrightarrow>
    tar_step maxconnect (st, loads) (st', loads)"
| fetch: "getTarList (int maxconnect) st = (st', Ret url) \<Longrightarrow> url \<noteq> ''none'' \<Longrightarrow>
    tar_step maxconnect (st, loads) (st', add_mset url loads)"
| refused: "getTarList (int maxconnect) st = (st', Ret ''none'') \<Longrightarrow>
    tar_step maxconnect (st, loads) (st', loads)"
| finished: "addr \<in># loads \<Longrightarrow> tarDone addr st = (st', r) \<Longrightarrow>
    tar_step maxconnect (st, loads) (st', loads - {#addr#})"
| shared: "addr \<in># loads \<Longrightarrow> new_source url st \<Longrightarrow> registerTarSource url (Some addr) st = (st', r) \<Longrightarrow>
    tar_step maxconnect (st, loads) (st', loads - {#addr#})"

definition tar_init :: "tar_world \<Rightarrow> bool" where
  "tar_init w \<longleftrightarrow> w = (initial_tar, {#})"

definition counts_loads :: "nat \<Rightarrow> int option \<Rightarrow> nat \<Rightarrow> bool" where
  "counts_loads maxconnect c n \<longleftrightarrow>
     (case c of None \<Rightarrow> n = 0 | Some i \<Rightarrow> i = int n \<and> n \<le> maxconnect)"

definition proper_source :: "tar_state \<Rightarrow> string \<Rightarrow> bool" where
  "proper_source st k \<longleftrightarrow> map_of (tar_dict st) k = Some k \<and> k \<noteq> ''none'' \<and> k \<noteq> []"

definition tar_inv :: "nat \<Rightarrow> tar_world \<Rightarrow> bool" where
  "tar_inv maxconnect w \<longleftrightarrow>
     (case w of (st, loads) \<Rightarrow>
        \<not> tar_locked st \<and> distinct (map fst (tar_count st)) \<and>
        (\<forall>k. map_of (tar_count st) k \<noteq> None \<longrightarrow> proper_source st k) \<and>
        (\<forall>k. counts_loads maxconnect (map_of (tar_count st) k) (count loads k)))"

lemma counts_loads_simps [simp]:
  "counts_loads m None n \<longleftrightarrow> n = 0"
  "counts_loads m (Some i) n \<longleftrightarrow> i = int n \<and> n \<le> m"
  by (simp_all add: counts_loads_def)

lemma tar_inv_at: "tar_inv m (st, loads) \<Longrightarrow> counts_loads m (map_of (tar_count st) k) (count loads k)"
  by (simp add: tar_inv_def)

lemma tar_inv_counts:
  assumes "tar_inv m (st, loads)"
  shows "\<forall>kv \<in> set (tar_count st). 0 \<le> snd kv"
proof
  fix kv assume kv: "kv \<in> set (tar_count st)"
  then have "map_of (tar_count st) (fst kv) = Some (snd kv)"
    using assms by (cases kv) (auto simp: tar_inv_def)
  moreover have "counts_loads m (map_of (tar_count st) (fst kv)) (count loads (fst kv))"
    using assms by (simp add: tar_inv_def)
  ultimately have "snd kv = int (count loads (fst kv))" by (simp add: counts_loads_def)
  then show "0 \<le> snd kv" by simp
qed

lemma getTarList_least_aux:
  assumes "\<not> tar_locked st" and "\<forall>kv \<in> set (tar_count st). 0 \<le> snd kv" and "distinct (map fst (tar_count st))"
    and "\<forall>k. map_of (tar_count st) k \<noteq> None \<longrightarrow> map_of (tar_dict st) k = Some k"
  shows "getTarList m st = (st, Ret ''none'') \<and> (\<forall>c \<in> snd ` set (tar_count st). m \<le> c) \<or>
    (\<exists>k c. map_of (tar_count st) k = Some c \<and> c < m \<and> (\<forall>c' \<in> snd ` set (tar_count st). c \<le> c') \<and>
       getTarList m st = (st\<lparr>tar_count := AList.update k (c + 1) (tar_count st)\<rparr>, Ret k))"
proof -
  obtain key least where scan: "tar_scan m (tar_count st) = (key, least)" by fastforce
  have ok: "scanned m (tar_count st) (key, least)"
    using tar_scan_scanned [OF assms(2), of m] scan by simp
  show ?thesis
  proof (cases key)
    case None
    then show ?thesis using ok scan assms(1) by (auto simp: scanned_def getTarList_def)
  next
    case (Some k)
    then have "map_of (tar_count st) k = Some least" "least < m" "\<forall>c' \<in> snd ` set (tar_count st). least \<le> c'"
      using ok assms(3) by (auto simp: scanned_def)
    then show ?thesis using scan Some assms(1,4) by (auto simp: getTarList_def)
  qed
qed

text \<open>The three ways in which a step changes the counts keep the invariant.\<close>

lemma tar_inv_new:
  "tar_inv m (st, loads) \<Longrightarrow> new_source url st \<Longrightarrow>
   tar_inv m (st\<lparr>tar_dict := AList.update url url (tar_dict st), tar_count := AList.update url 0 (tar_count st)\<rparr>, loads)"
  using tar_inv_at [of m st loads url]
  by (auto simp: tar_inv_def new_source_def proper_source_def update_conv' distinct_update
      simp del: map_of_eq_Some_iff count_eq_zero_iff)

lemma tar_inv_more:
  "tar_inv m (st, loads) \<Longrightarrow> map_of (tar_count st) k = Some c \<Longrightarrow> c < int m \<Longrightarrow>
   tar_inv m (st\<lparr>tar_count := AList.update k (c + 1) (tar_count st)\<rparr>, add_mset k loads)"
  using tar_inv_at [of m st loads k]
  by (auto simp: tar_inv_def proper_source_def update_conv' distinct_update
      simp del: map_of_eq_Some_iff count_eq_zero_iff)

lemma tar_inv_less:
  "tar_inv m (st, loads) \<Longrightarrow> map_of (tar_count st) k = Some c \<Longrightarrow> k \<in># loads \<Longrightarrow>
   tar_inv m (st\<lparr>tar_count := AList.update k (c - 1) (tar_count st)\<rparr>, loads - {#k#})"
  using tar_inv_at [of m st loads k]
  by (auto simp: tar_inv_def proper_source_def update_conv' distinct_update of_nat_diff Suc_le_eq count_greater_zero_iff
      simp del: map_of_eq_Some_iff count_eq_zero_iff)

lemma tar_known: "tar_inv m (st, loads) \<Longrightarrow> k \<in># loads \<Longrightarrow> \<exists>c. map_of (tar_count st) k = Some c"
  using tar_inv_at [of m st loads k] by (metis counts_loads_simps(1) not_in_iff not_None_eq)

lemma tar_fetched:
  assumes "tar_inv m (st, loads)" and "getTarList (int m) st = (st', r)"
  shows "r = Ret ''none'' \<and> st' = st \<and> (\<forall>k. map_of (tar_count st) k \<noteq> None \<longrightarrow> count loads k = m) \<or>
    (\<exists>k. r = Ret k \<and> proper_source st k \<and> tar_inv m (st', add_mset k loads) \<and> count loads k < m \<and>
      (\<forall>k'. map_of (tar_count st) k' \<noteq> None \<longrightarrow> count loads k \<le> count loads k'))"
proof -
  have inv: "\<not> tar_locked st" "distinct (map fst (tar_count st))"
      "\<forall>k. map_of (tar_count st) k \<noteq> None \<longrightarrow> proper_source st k"
    using assms(1) by (simp_all add: tar_inv_def)
  have at: "c = int (count loads k)" "count loads k \<le> m" if "map_of (tar_count st) k = Some c" for k c
    using tar_inv_at [OF assms(1), of k] that by simp_all
  have mem: "c \<in> snd ` set (tar_count st)" if "map_of (tar_count st) k = Some c" for k c
    using map_of_SomeD [OF that] by force
  have "\<forall>k. map_of (tar_count st) k \<noteq> None \<longrightarrow> map_of (tar_dict st) k = Some k"
    using inv(3) by (simp add: proper_source_def)
  note aux = getTarList_least_aux [OF inv(1) tar_inv_counts [OF assms(1)] inv(2) this, of "int m",
      unfolded assms(2) prod.inject]
  then consider "r = Ret ''none''" "st' = st" "\<forall>c \<in> snd ` set (tar_count st). int m \<le> c"
    | k c where "map_of (tar_count st) k = Some c" "c < int m" "\<forall>c' \<in> snd ` set (tar_count st). c \<le> c'"
        "st' = st\<lparr>tar_count := AList.update k (c + 1) (tar_count st)\<rparr>" "r = Ret k"
    by blast
  then show ?thesis
  proof cases
    case 1
    then have "count loads k = m" if "map_of (tar_count st) k \<noteq> None" for k
      using that at mem by (metis le_antisym nat_int_comparison(3) option.exhaust)
    with 1 show ?thesis by blast
  next
    case 2
    have "count loads k \<le> count loads k'" if "map_of (tar_count st) k' \<noteq> None" for k'
      using that 2(1,3) at mem by (metis nat_int_comparison(3) option.exhaust)
    moreover have "count loads k < m" using 2(1,2) at(1) [OF 2(1)] by simp
    ultimately show ?thesis
      using 2 inv(3) tar_inv_more [OF assms(1) 2(1,2)] by blast
  qed
qed

lemma tar_finished:
  assumes "tar_inv m (st, loads)" and "k \<in># loads" and "one_done k st = (st', r)"
  shows "r = Ret () \<and> tar_inv m (st', loads - {#k#})"
  using tar_known [OF assms(1,2)] tar_inv_less [OF assms(1) _ assms(2)] assms(3)
  by (auto simp: one_done_def simp del: map_of_eq_Some_iff)

lemma tar_registered:
  assumes "tar_inv m (st, loads)" and "new_source url st" and "addr = None \<or> the addr \<in># loads"
    and "registerTarSource url addr st = (st', r)"
  shows "r = Ret url \<and> tar_inv m (st', case addr of None \<Rightarrow> loads | Some a \<Rightarrow> loads - {#a#})"
proof -
  let ?st1 = "st\<lparr>tar_dict := AList.update url url (tar_dict st), tar_count := AList.update url 0 (tar_count st)\<rparr>"
  have inv: "tar_inv m (?st1, loads)" by (rule tar_inv_new [OF assms(1,2)])
  have free: "\<not> tar_locked st" using assms(1) by (simp add: tar_inv_def)
  show ?thesis
  proof (cases addr)
    case None
    then show ?thesis using inv free assms(4) by (simp add: registerTarSource_def)
  next
    case (Some a)
    then have a: "a \<in># loads" using assms(3) by simp
    have "proper_source st a"
      using tar_known [OF assms(1) a] assms(1) by (auto simp: tar_inv_def simp del: map_of_eq_Some_iff)
    then have "a \<noteq> []" by (simp add: proper_source_def)
    obtain st2 r2 where two: "one_done a ?st1 = (st2, r2)" by fastforce
    from tar_finished [OF inv a this] two show ?thesis
      using assms(4) Some free \<open>a \<noteq> []\<close> by (auto simp: registerTarSource_def Let_def)
  qed
qed

lemma tar_step_inv: "tar_step m w w' \<Longrightarrow> tar_inv m w \<Longrightarrow> tar_inv m w'"
proof (induction rule: tar_step.induct)
  case (first_source url st st' r loads)
  then show ?case using tar_registered [of m st loads url None] by simp
next
  case (fetch st st' url loads)
  from tar_fetched [OF fetch.prems fetch.hyps(1)] fetch.hyps(2) show ?case by auto
next
  case (refused st st' loads)
  from tar_fetched [OF refused.prems refused.hyps] refused.prems show ?case by (auto simp: proper_source_def)
next
  case (finished addr loads st st' r)
  then have "\<not> tar_locked st" by (simp add: tar_inv_def)
  with finished(2) obtain r2 where "one_done addr st = (st', r2)"
    by (auto simp: tarDone_def split: prod.splits)
  with tar_finished [OF finished.prems finished.hyps(1)] show ?case by simp
next
  case (shared addr loads url st st' r)
  then show ?case using tar_registered [of m st loads url "Some addr"] by simp
qed

interpretation tar_machine: safe_machine tar_init "tar_step m" "tar_inv m" for m
proof
  show "tar_init w \<Longrightarrow> tar_inv m w" for w
    by (simp add: tar_init_def initial_tar_def tar_inv_def)
qed (rule tar_step_inv)

text \<open>
  C16: As long as the hodrings report only what they were given, the counts are the numbers of downloads in
  progress, of which a source never has more than \<open>max-connect\<close>, and the lock is free between calls.
\<close>

theorem tar_counts_downloads:
  assumes "reach tar_init (tar_step m) (st, loads)"
  shows "\<not> tar_locked st \<and>
    map_of (tar_count st) = (\<lambda>k. if k \<in> set (map fst (tar_count st)) then Some (int (count loads k)) else None) \<and>
    set_mset loads \<subseteq> set (map fst (tar_count st)) \<and> (\<forall>k. count loads k \<le> m)"
proof -
  have inv: "tar_inv m (st, loads)" by (rule tar_machine.reach_inv [OF assms])
  have dom: "k \<in> set (map fst (tar_count st)) \<longleftrightarrow> map_of (tar_count st) k \<noteq> None" for k
    by (metis map_of_eq_None_iff list.set_map)
  have "map_of (tar_count st) k = (if k \<in> set (map fst (tar_count st)) then Some (int (count loads k)) else None)" for k
    using tar_inv_at [OF inv, of k] unfolding dom by (cases "map_of (tar_count st) k") simp_all
  moreover have "count loads k \<le> m" for k
    using tar_inv_at [OF inv, of k] by (cases "map_of (tar_count st) k") simp_all
  moreover have "set_mset loads \<subseteq> set (map fst (tar_count st))"
    using tar_known [OF inv] dom by auto
  moreover have "\<not> tar_locked st" using inv by (simp add: tar_inv_def)
  ultimately show ?thesis by blast
qed

text \<open>
  A hodring that asks is sent to a source with the fewest downloads, and it is sent away exactly when
  all sources are at the limit.
\<close>

theorem getTarList_least:
  assumes "reach tar_init (tar_step m) (st, loads)"
  shows "case getTarList (int m) st of
      (st', Ret url) \<Rightarrow>
        (if url = ''none'' then st' = st \<and> list_all (\<lambda>k. count loads k = m) (map fst (tar_count st))
         else list_all (\<lambda>k. count loads url \<le> count loads k) (map fst (tar_count st)) \<and> count loads url < m)
    | _ \<Rightarrow> False"
proof -
  have inv: "tar_inv m (st, loads)" by (rule tar_machine.reach_inv [OF assms])
  obtain st' r where get: "getTarList (int m) st = (st', r)" by fastforce
  have dom: "map_of (tar_count st) k \<noteq> None" if "k \<in> set (map fst (tar_count st))" for k
    using that by (metis map_of_eq_None_iff list.set_map)
  from tar_fetched [OF inv get] show ?thesis
    unfolding get using dom by (auto simp: list_all_iff proper_source_def)
qed

text \<open>
  The lock is not released when a method raises: a report about an unknown source makes every later call
  wait forever.
\<close>

theorem unknown_source_locks:
  assumes "\<not> tar_locked st" and "map_of (tar_count st) uri = None"
  shows "case tarDone uri st of (st', r) \<Rightarrow>
    r = Raise KeyError \<and> tarDone uri2 st' = (st', Diverge) \<and> getTarList m st' = (st', Diverge) \<and>
    registerTarSource url addr st' = (st', Diverge)"
  using assms by (simp add: tarDone_def one_done_def getTarList_def registerTarSource_def)

section \<open>Instances\<close>

lemma tar_example:
  "reach tar_init (tar_step 1)
     (\<lparr>tar_dict = [(''u'', ''u'')], tar_count = [(''u'', 1)], tar_locked = False\<rparr>, {#''u''#})"
proof -
  let ?s1 = "\<lparr>tar_dict = [(''u'', ''u'')], tar_count = [(''u'', 0)], tar_locked = False\<rparr>"
  have "reach tar_init (tar_step 1) (initial_tar, {#})" by (simp add: reach_init tar_init_def)
  moreover have "tar_step 1 (initial_tar, {#}) (?s1, {#})"
    by (rule tar_step.first_source [of "''u''" _ _ "Ret ''u''"])
      (simp_all add: new_source_def initial_tar_def registerTarSource_def)
  ultimately have one: "reach tar_init (tar_step 1) (?s1, {#})" by (rule reach_step)
  moreover have "tar_step 1 (?s1, {#}) (?s1\<lparr>tar_count := [(''u'', 1)]\<rparr>, add_mset ''u'' {#})"
    by (rule tar_step.fetch) (simp_all add: getTarList_def tar_scan_def tar_turn_def)
  ultimately show ?thesis using reach_step by fastforce
qed

lemma tar_counts_downloads_witness: "\<forall>k. count {#''u''#} k \<le> (1 :: nat)"
  using tar_counts_downloads [OF tar_example] by simp

lemma getTarList_least_witness:
  "getTarList (int 1) \<lparr>tar_dict = [(''u'', ''u'')], tar_count = [(''u'', 1)], tar_locked = False\<rparr> =
     (\<lparr>tar_dict = [(''u'', ''u'')], tar_count = [(''u'', 1)], tar_locked = False\<rparr>, Ret ''none'') \<and>
   list_all (\<lambda>k. count {#''u''#} k = 1) [''u'']"
proof -
  have "getTarList (int 1) \<lparr>tar_dict = [(''u'', ''u'')], tar_count = [(''u'', 1)], tar_locked = False\<rparr> =
     (\<lparr>tar_dict = [(''u'', ''u'')], tar_count = [(''u'', 1)], tar_locked = False\<rparr>, Ret ''none'')"
    by (simp add: getTarList_def tar_scan_def tar_turn_def)
  with getTarList_least [OF tar_example] show ?thesis by simp
qed

lemma unknown_source_locks_witness:
  "case tarDone ''x'' initial_tar of (st', r) \<Rightarrow>
    r = Raise KeyError \<and> tarDone ''u'' st' = (st', Diverge) \<and> getTarList 1 st' = (st', Diverge) \<and>
    registerTarSource ''u'' None st' = (st', Diverge)"
  by (rule unknown_source_locks) (simp_all add: initial_tar_def)

end
