(* ===== verification/Hod_Witnesses.thy ===== *)
theory Hod_Witnesses
  imports Hod_Master Hod_RingRun Hod_Registry Hod_Ports Hod_Tar
begin

text \<open>
  The properties of Hadoop on Demand that have hypotheses, applied to concrete clusters on which these hold.
\<close>

section \<open>A small cluster\<close>

definition sample_desc :: "string \<Rightarrow> ddict" where
  "sample_desc name = [''id'' \<mapsto> DStr name, ''external'' \<mapsto> DBool False, ''final-attrs'' \<mapsto> DAttrs [],
     ''attrs'' \<mapsto> DAttrs [], ''envs'' \<mapsto> DAttrs [], ''pkgs'' \<mapsto> DStr ''/p'']"

definition sample_hdfs :: service where
  "sample_hdfs = Hdfs_init (sample_desc ''hdfs'') [''/w''] 0 20 True False 2"

definition sample_mapred :: service where
  "sample_mapred = MapReduce_init (sample_desc ''mapred'') [''/w''] 1 20 2"

definition ring0 :: ring where
  "ring0 = \<lparr>services = [(''hdfs'', sample_hdfs), (''mapred'', sample_mapred)], param_locked = False\<rparr>"

lemma ring0_init: "ring_init ring0"
proof -
  have "create_services (\<lambda>_. []) (Some ''0'', Some ''20'') Map.empty
      [''hdfs'' \<mapsto> sample_desc ''hdfs'', ''mapred'' \<mapsto> sample_desc ''mapred''] [''/w''] 2 = Inr (services ring0)"
  proof -
    have "py_int ''20'' = Inr 20"
      by (simp add: py_int_def py_strip_def py_lstrip_def startswith_def is_space_def is_digit_def code_point_def digits_value_def)
    then show ?thesis
      by (simp add: create_services_def key_res_def new_hdfs_def new_mapred_def isExternal_def desc_item_def
          sample_desc_def name_of_def service_name_def Hdfs_init_def MapReduce_init_def MasterSlave_def ring0_def
          sample_hdfs_def sample_mapred_def)
  qed
  then show ?thesis
    unfolding ring_init_def by (intro conjI exI) (auto simp: ring0_def)
qed

lemma ring0_reach: "reach ring_init (ring_step mx) ring0"
  by (rule reach_init) (rule ring0_init)

text \<open>The hodring \<open>a_1\<close> starts the name node and fails; or it starts it and reports its addresses.\<close>

definition ring1 :: "nat \<Rightarrow> ring" where
  "ring1 mx = fst (getCommand mx ''a_1'' ring0)"

definition ring_failed :: ring where
  "ring_failed = fst (setHodRingErrors ''a_1'' ''boom'' (ring1 0))"

definition ring_up :: ring where
  "ring_up = fst (addMasterParams ''a_1'' [''fs.default.name=a:1'', ''dfs.http.address=a:2''] (ring1 0))"

lemma ring1_reach: "reach ring_init (ring_step mx) (ring1 mx)"
  unfolding ring1_def by (rule reach_step [OF ring0_reach ring_step.intros(1)])

lemma ring_failed_reach: "reach ring_init (ring_step 0) ring_failed"
  unfolding ring_failed_def by (rule reach_step [OF ring1_reach ring_step.intros(4)])

lemma ring_up_reach: "reach ring_init (ring_step 0) ring_up"
  unfolding ring_up_def by (rule reach_step [OF ring1_reach ring_step.intros(3)])

lemma ring_failed_hdfs:
  "map_option (\<lambda>s. (failedMsg s, masterFailureCount s)) (map_of (services ring_failed) ''hdfs'') =
     Some (Some (failure_message ''a'' ''boom''), 1)"
  by code_simp

lemma ring_up_masters:
  "map_option (\<lambda>s. (kind s, launchedMaster s)) (map_of (services ring_up) ''mapred'') = Some (MapReduce, False)"
  "map_option launchedMaster (map_of (services (fst (getCommand 0 ''b_2'' ring_up))) ''mapred'') = Some True"
  by code_simp+

lemma ring_failed_internal: "all_internal (services ring_failed)"
  by code_simp

section \<open>The ring master\<close>


lemma gave_up_forever_witness:
  "\<exists>s'. map_of (services (fst (getCommand 0 ''b_2'' ring_failed))) ''hdfs'' = Some s' \<and> \<not> launchedMaster s'"
proof -
  obtain s where s: "map_of (services ring_failed) ''hdfs'' = Some s" "gives_up 0 s"
    using ring_failed_hdfs by (auto simp: gives_up_def)
  have "(ring_step 0)\<^sup>*\<^sup>* ring_failed (fst (getCommand 0 ''b_2'' ring_failed))"
    by (rule r_into_rtranclp) (rule ring_step.intros(1))
  from gave_up_forever [OF ring_failed_reach this s] show ?thesis by blast
qed

lemma internal_ring_answers_witness:
  "\<exists>addr url. getServiceAddr 0 ''hdfs'' ring_failed = (ring_failed, Ret (Some addr)) \<and>
     getURLs ''hdfs'' ring_failed = (ring_failed, Ret (Some url))"
  by (rule internal_ring_answers [OF ring_failed_reach ring_failed_internal])

lemma mapred_after_hdfs_witness:
  "\<exists>hdfs. map_of (services ring_up) ''hdfs'' = Some hdfs \<and> masterInitialized hdfs"
proof -
  obtain s s' where "map_of (services ring_up) ''mapred'' = Some s" "kind s = MapReduce" "\<not> launchedMaster s"
      "map_of (services (fst (getCommand 0 ''b_2'' ring_up))) ''mapred'' = Some s'" "launchedMaster s'"
    using ring_up_masters by auto
  from mapred_after_hdfs [OF ring_up_reach this] show ?thesis .
qed

definition external_ring :: ring where
  "external_ring = \<lparr>services =
     [(''mapred'', sample_mapred\<lparr>launchedMaster := True, masterInitialized := True\<rparr>),
      (''hdfs'', external_init HdfsExternal ((sample_desc ''hdfs'')(''external'' \<mapsto> DBool True)) [''/w''] 20)],
     param_locked = False\<rparr>"

lemma stale_external_starves_witness: "getCommand 0 ''c_3'' external_ring = (external_ring, [])"
proof (rule stale_external_starves)
  show "find_launch 0 (services external_ring) (services external_ring) = Inr None"
    by (simp add: external_ring_def service_isExternal_def isExternal_def desc_item_def key_res_def sample_desc_def
        sample_mapred_def MapReduce_init_def MasterSlave_def external_init_def isLaunchable_def may_launch_def)
  show "services external_ring \<noteq> []" by (simp add: external_ring_def)
  show "service_isExternal (snd (last (services external_ring))) = Inr True"
    by (simp add: external_ring_def service_isExternal_def isExternal_def desc_item_def key_res_def sample_desc_def
        MasterSlave_def external_init_def)
qed

lemma exit_code_table_witness:
  "case findExitCode 0 (\<lambda>_. True) None ring_failed of
     Ret c \<Rightarrow> c \<in> {0, 7, 8, 10, 13, 14, 16, 17} | Raise e \<Rightarrow> True | Diverge \<Rightarrow> False"
  by (rule exit_code_table [OF ring_failed_reach ring_failed_internal])

section \<open>Commands\<close>

lemma worker_dirs_disjoint_witness:
  "\<exists>cs. getWorkerCommands [] (sample_hdfs\<lparr>masterAddr := Some ''a:1''\<rparr>) = Inr cs \<and> length cs = 2 \<and>
     sorted_wrt (\<lambda>c d. set (workdirs c) \<inter> set (workdirs d) \<subseteq> {None}) cs"
proof -
  have "map_sum id length (getWorkerCommands [] (sample_hdfs\<lparr>masterAddr := Some ''a:1''\<rparr>)) = Inr 2"
    by code_simp
  then obtain cs where "getWorkerCommands [] (sample_hdfs\<lparr>masterAddr := Some ''a:1''\<rparr>) = Inr cs" "length cs = 2"
    by (cases "getWorkerCommands [] (sample_hdfs\<lparr>masterAddr := Some ''a:1''\<rparr>)") auto
  with worker_dirs_disjoint [OF this(1)] show ?thesis by blast
qed

lemma csv_roundtrip_witness:
  "\<exists>s. csv [''a,b'', [bslash], ''c''] (CHR '','') = Inr s \<and> parseList s (CHR '','') = Inr [''a,b'', [bslash], ''c'']"
  by (rule csv_roundtrip) (simp_all add: line_end_def)


section \<open>The registry\<close>

lemma registry_refines_log_witness:
  "case getServiceInfo (Some ''u'') (Some ''1'') (Some ''ringmaster'') (Some ''hod'')
      (fold do_register [(''u'', ''1'', ''h'', ''ringmaster'', ''hod'', 7 :: nat), (''u'', ''2'', ''h'', ''ringmaster'', ''hod'', 8)]
        new_registry) of
      InfoList ds \<Rightarrow> mset ds = {#7#}
    | InfoEmpty \<Rightarrow> False
    | InfoAll x \<Rightarrow> False
    | _ \<Rightarrow> False"
  using registry_refines_log [of "''ringmaster''" "''hod''" "''1''" "''u''"
      "[(''u'', ''1'', ''h'', ''ringmaster'', ''hod'', 7 :: nat), (''u'', ''2'', ''h'', ''ringmaster'', ''hod'', 8)]"]
  by (simp add: service_id_def split: service_info.splits)

end
