(* ===== verification/Spec2Isabelle.thy ===== *)
theory Spec2Isabelle
  imports Cql_Complete Cql3_Properties Cql_Grammar_Facts Display Witnesses Hod_Idle Hod_Option_Facts Hod_Client_Witnesses Hod_Witnesses
begin

text \<open>
  A verification library for the Python code of this repository: the CQL shell library of Apache
  Cassandra 1.2.6 (\<open>src/MRRandonForest/apache-cassandra-1.2.6/pylib/cqlshlib\<close>), which lexes, parses
  and completes CQL statements, reads table definitions and formats values, and Hadoop on Demand
  (\<open>src/MRRandonForest/hadoop-1.2.1/contrib/hod\<close>), which brings up a private Hadoop cluster on
  the nodes of a batch system. File names below are relative to these two directories.

  \<^bold>\<open>Parts and how they interact.\<close> \<open>saferscanner.py\<close> compiles a list of regular expressions into a
  scanner. \<open>pylexotron.py\<close> parses the text of grammar rules into matchers (\<open>ParsingRuleSet\<close>), lexes with
  the scanner built from the terminals, matches a token list against a production in all possible ways
  and, when the tokens are used up, collects completions from literals and from registered completer
  functions. \<open>cqlhandling.py\<close> and \<open>cql3handling.py\<close> hold the CQL 2 and CQL 3 grammars, the quoting of
  words, the splitting of statements, the completion of a partial word and the completers, which ask the
  connection about keyspaces and tables. \<open>displaying.py\<close>, \<open>formatting.py\<close> and \<open>wcwidth.py\<close> turn result
  values into text of a known width.

  In Hadoop on Demand a ring master (\<open>hodlib/RingMaster/ringMaster.py\<close>) holds the grid services
  (\<open>hodlib/GridServices\<close>), one for HDFS and one for Map/Reduce, built from descriptors
  (\<open>hodlib/Common/desc.py\<close>, \<open>descGenerator.py\<close>). A hodring on every node (\<open>hodlib/HodRing/hodRing.py\<close>)
  asks it for the tar ball's source and for commands, fills in ports and host names, writes the
  configuration files, starts the commands and reports the addresses of a master or its failure. The
  ring master launches Map/Reduce once HDFS has reported, tells the client the addresses, watches for an
  idle job tracker (\<open>idleJobTracker.py\<close>) and stops. The client (\<open>hodlib/Hod/hod.py\<close>, \<open>hadoop.py\<close>) submits the
  ring master as a job of the batch system (\<open>hodlib/NodePools/torque.py\<close>, \<open>hodlib/Schedulers/torque.py\<close>), finds it
  through the service registry (\<open>hodlib/ServiceRegistry/serviceRegistry.py\<close>), waits for both services, writes the
  site configuration and records the cluster in its state files; it lists, describes and deallocates clusters.

  \<^bold>\<open>Theories.\<close>
  \<^item> \<open>Prelude\<close>: results with errors (\<open>'a res\<close>: \<open>Inl\<close> is the exception), results of code that may not end
    (\<open>'a out\<close>: \<open>Ret\<close>, \<open>Raise\<close>, \<open>Diverge\<close>), Python's string methods, reachable states and the locale
    \<open>safe_machine\<close> for invariants of objects.
  \<^item> \<open>PyRegex\<close>, \<open>PyJson\<close>: what the sources use of the standard modules \<open>re\<close> and \<open>json\<close>.
  \<^item> \<open>SaferScanner\<close>, \<open>Matcher\<close>, \<open>RuleSet\<close>: the scanner, the matcher classes, the rule set object.
    \<open>Matching\<close>, \<open>Grammar\<close>, \<open>Safety\<close>: monotonicity in the fuel, the relation \<open>derives\<close> (which token lists a
    matcher stands for) with soundness, completeness and termination of \<open>match\<close>, and when it cannot raise.
  \<^item> \<open>Cql2_Grammar\<close>, \<open>Cql3_Grammar\<close>, \<open>Cql_Grammar_Facts\<close>: the two grammars and their certificates.
  \<^item> \<open>Cql_Words\<close>, \<open>Cql_Text\<close>, \<open>Cql_Complete\<close>, \<open>Cql_Connection\<close>, \<open>Cql2_Completers\<close>, \<open>Cql3_Completers\<close>,
    \<open>Cql3_Properties\<close>: quoting, statements, completion, completers and what they offer.
  \<^item> \<open>Cql3_Table\<close>: table definitions from the rows of the schema tables.
  \<^item> \<open>Util\<close>, \<open>Wcwidth\<close>, \<open>Display\<close>: helpers, character widths, formatted values.
  \<^item> \<open>Hod_Util\<close> (\<open>util.py\<close>, \<open>tcp.py\<close>), \<open>Hod_Desc\<close> (\<open>desc.py\<close>, \<open>descGenerator.py\<close>): option strings, addresses,
    descriptors.
  \<^item> \<open>Hod_Types\<close>, \<open>Hod_Type_Facts\<close> (\<open>types.py\<close>): the types of options, printing, checking and normalising of
    values; floats are a type parameter, a double's rounding of integers is written out.
  \<^item> \<open>Hod_Config\<close>, \<open>Hod_Config_Facts\<close>, \<open>Hod_Options\<close>, \<open>Hod_Option_Facts\<close> (\<open>setup.py\<close>): definitions of options, the merge of
    a configuration file with the command line, the check of a configuration, the parser of command lines with its
    short letters, the commands of the client. What is printed as a command line is read back; what is checked has
    its type.
  \<^item> \<open>Hod_Services\<close>, \<open>Hod_Ports\<close>, \<open>Hod_Commands\<close> (\<open>service.py\<close>, \<open>hdfs.py\<close>, \<open>mapred.py\<close>): the services as
    one record with a kind, their free ports, the commands and work directories they hand out.
  \<^item> \<open>Hod_Tar\<close>, \<open>Hod_RingMaster\<close>, \<open>Hod_Master\<close> (\<open>ringMaster.py\<close>), \<open>Hod_Idle\<close> (\<open>idleJobTracker.py\<close>): the ring
    master's remote calls as operations of a state machine, of which every sequence is a run; its
    invariants are interpretations of \<open>safe_machine\<close> (\<open>tar_machine\<close>, \<open>ring_machine\<close>).
  \<^item> \<open>Hod_Csv\<close>, \<open>Hod_Ring\<close>, \<open>Hod_RingRun\<close> (\<open>hodRing.py\<close>): commands as they arrive, settings and XML files,
    the life of a hodring from the first request to its cleanup.
  \<^item> \<open>Hod_Registry\<close> (\<open>serviceRegistry.py\<close>): the registry against a log of registrations, over the locale
    \<open>service_registry\<close>.
  \<^item> \<open>Hod_Torque\<close> (\<open>NodePools/torque.py\<close>, \<open>Schedulers/torque.py\<close>, \<open>nodePool.py\<close>): the commands of the batch system and
    what is read from their output, node sets, submission and feasibility of jobs. \<open>Hod_Site\<close> (\<open>hadoopConfig\<close>): which
    parameter wins in the site configuration.
  \<^item> \<open>Hod_Actions\<close>: actions on a state that may raise, with clean-up code as exception handlers, and the rules for
    their invariants. \<open>Hod_Cluster\<close>, \<open>Hod_Cluster_Facts\<close> (\<open>hadoopCluster\<close>, \<open>xmlrpc.py\<close>): allocation and deallocation of
    a cluster with an event history of submitted and deleted jobs; failures and interrupts release the job.
  \<^item> \<open>Hod_Store\<close> (\<open>hodState\<close>), \<open>Hod_Client\<close>, \<open>Hod_Client_Facts\<close> (\<open>hodRunner\<close>): state files, the operations of the client
    on them, the exit codes; what is recorded, refused and forgotten.
  \<^item> \<open>Witnesses\<close>, \<open>Hod_Witnesses\<close>, \<open>Hod_Client_Witnesses\<close>: the properties with hypotheses at concrete inputs.

  \<^bold>\<open>Fuel.\<close> \<open>mtch\<close> takes a bound on the nesting of calls; \<open>Diverge\<close> means that it was too small. A result
  other than \<open>Diverge\<close> is the same for every larger bound (\<open>mtch_mono\<close>), and for a rule set with a rank
  certificate some bound is enough (\<open>mtch_returns\<close>); both grammars have one. The parser of rule texts
  needs no more than one step per token (\<open>read_rule_enough\<close>). \<open>cql_complete_multiple\<close> has a bound of its
  own, for which nothing is claimed: the code has none either. In Hadoop on Demand the loops that poll (for
  the job tracker, for commands, for a service to come up) have the code's own limits as arguments, and what
  they see at each look is a list or a function. Waiting for a queued job has no bound in the code:
  \<open>job_status_loop\<close> takes one and is \<open>Diverge\<close> when it is used up, and the properties of the client hold for every
  bound. A call that waits for a lock nobody will release is
  \<open>Diverge\<close>.

  \<^bold>\<open>Parameters.\<close> The database connection is the record \<open>cass\<close>, the type objects of the driver the
  record \<open>cqltypes\<close>, the platform (codec, \<open>%g\<close>, local time) the record \<open>platform\<close>; nothing is assumed of
  them beyond the types of their functions. Host names, free ports, the clock, the file system and the
  exit codes of processes are arguments of the Hadoop on Demand definitions; for the client they are the record
  \<open>outside\<close> of functions that answer and change the state of the world, of which nothing is assumed.

  \<^bold>\<open>Not modelled.\<close> Debug prints, the help texts, the printing of trace sessions, the construction of
  SSL transports, logging. Of Hadoop on Demand: processes and threads of the system (\<open>threads.py\<close>), the XML-RPC
  and socket servers, which only wrap the standard library, the copying of logs and tar balls. The remote calls
  are modelled one at a time: how the threads of a threaded server interleave inside them is not. Of the client
  the pages of the job tracker that deallocation may collect, the set-up of loggers and the two methods nothing calls.
  The allocation manager and \<open>logcondense.py\<close> are still to come.
\<close>

section \<open>Deciding CQL\<close>

text \<open>
  C1: for the CQL 3 grammar, \<open>whole_match\<close> is a decision procedure: with enough fuel it always returns,
  with the same answer for any greater fuel, and it finds a match exactly when the rules derive the
  tokens.
\<close>

theorem cql3_whole_match_decides:
  assumes "property_rules \<in> {pre_3_0_0_rules, post_3_0_0_rules}"
  shows "\<exists>n r. whole_match n (cql3_grammar property_rules) ''Start'' toks src = Ret r \<and>
    (\<forall>k. whole_match (n + k) (cql3_grammar property_rules) ''Start'' toks src = Ret r) \<and>
    (r \<noteq> None) = (\<exists>pattern. map_of (prs_rules (cql3_grammar property_rules)) ''Start'' = Some pattern \<and>
      derives (map_of (prs_rules (cql3_grammar property_rules))) pattern toks)"
proof -
  let ?p = "cql3_grammar property_rules"
  obtain n cs where cs: "parse n ?p ''Start'' toks (src_binding src) = Ret cs"
    using cql3_parse_returns [OF assms] by blast
  let ?r = "List.find (\<lambda>c. remainder c = []) cs"
  have eq: "whole_match (n + k) ?p ''Start'' toks src = Ret ?r" for k
    using parse_mono [OF cs, of "n + k"] by (simp add: whole_match_def)
  show ?thesis
    using eq [of 0] eq whole_match_decides [OF eq [of 0]] by (intro exI [of _ n] exI [of _ ?r]) simp
qed

theorem cql3_whole_match_decides_witness:
  "\<exists>n r. whole_match n (cql3_grammar post_3_0_0_rules) ''Start'' [] None = Ret r \<and>
    (\<forall>k. whole_match (n + k) (cql3_grammar post_3_0_0_rules) ''Start'' [] None = Ret r) \<and>
    (r \<noteq> None) = (\<exists>pattern. map_of (prs_rules (cql3_grammar post_3_0_0_rules)) ''Start'' = Some pattern \<and>
      derives (map_of (prs_rules (cql3_grammar post_3_0_0_rules))) pattern [])"
  by (rule cql3_whole_match_decides) simp

end
